(* ===== verification/Prelude.thy ===== *)
theory Prelude
  imports Complex_Main
    "HOL-Library.Char_ord"
    "HOL-Library.List_Lexorder"
    "HOL-Library.Multiset"
    "HOL-Library.Monad_Syntax"
begin

text \<open>
  Shared vocabulary of the development.

  \<^item> Go strings are byte strings: \<open>string\<close> with the bytewise lexicographic order of
    \<open>List_Lexorder\<close> over \<open>Char_ord\<close>, which is what \<open><\<close> on Go strings computes.
  \<^item> A Go call that may not return (a panic, or a loop that never ends) is a value of
    \<open>'a option\<close> with \<open>None\<close> for "does not return"; a Go \<open>(value, error)\<close> pair is a sum
    \<open>'e + 'a\<close> with \<open>Inl\<close> for the error.  Both together are \<open>('e + 'a) option\<close>.
  \<^item> \<open>sort.SliceStable\<close> with a \<open>less\<close> function is \<open>sort_by\<close>, a stable insertion sort; the
    locale \<open>less_order\<close> states what such a \<open>less\<close> has to promise and derives order,
    permutation and stability once for every comparator of the program.
\<close>

named_theorems go_simps \<open>unfolding rules for the small helpers of the model\<close>

section \<open>Results\<close>

text \<open>Sequencing of calls that return \<open>(value, error)\<close> and may panic.\<close>

definition and_then :: "('e + 'a) option \<Rightarrow> ('a \<Rightarrow> ('e + 'b) option) \<Rightarrow> ('e + 'b) option" where
  "and_then m f =
     (case m of None \<Rightarrow> None | Some (Inl e) \<Rightarrow> Some (Inl e) | Some (Inr a) \<Rightarrow> f a)"

lemma and_then_simps [simp]:
  "and_then None f = None"
  "and_then (Some (Inl e)) f = Some (Inl e)"
  "and_then (Some (Inr a)) f = f a"
  by (simp_all add: and_then_def)

lemma and_then_eq_Inr:
  "and_then m f = Some (Inr b) \<longleftrightarrow> (\<exists>a. m = Some (Inr a) \<and> f a = Some (Inr b))"
  by (auto simp: and_then_def split: option.splits sum.splits)

lemma and_then_eq_Inl:
  "and_then m f = Some (Inl e) \<longleftrightarrow>
     m = Some (Inl e) \<or> (\<exists>a. m = Some (Inr a) \<and> f a = Some (Inl e))"
  by (auto simp: and_then_def split: option.splits sum.splits)

section \<open>Stable sorting by a less function\<close>

primrec insert_by :: "('a \<Rightarrow> 'a \<Rightarrow> bool) \<Rightarrow> 'a \<Rightarrow> 'a list \<Rightarrow> 'a list" where
  "insert_by lt x [] = [x]"
| "insert_by lt x (y # ys) = (if lt y x then y # insert_by lt x ys else x # y # ys)"

primrec sort_by :: "('a \<Rightarrow> 'a \<Rightarrow> bool) \<Rightarrow> 'a list \<Rightarrow> 'a list" where
  "sort_by lt [] = []"
| "sort_by lt (x # xs) = insert_by lt x (sort_by lt xs)"

definition ordered_by :: "('a \<Rightarrow> 'a \<Rightarrow> bool) \<Rightarrow> 'a list \<Rightarrow> bool" where
  "ordered_by lt = sorted_wrt (\<lambda>x y. \<not> lt y x)"

lemma ordered_by_simps [simp]:
  "ordered_by lt []"
  "ordered_by lt (x # xs) \<longleftrightarrow> (\<forall>y\<in>set xs. \<not> lt y x) \<and> ordered_by lt xs"
  by (simp_all add: ordered_by_def)

lemma mset_insert_by [simp]: "mset (insert_by lt x xs) = add_mset x (mset xs)"
  by (induction xs) auto

lemma mset_sort_by [simp]: "mset (sort_by lt xs) = mset xs"
  by (induction xs) auto

lemma set_insert_by [simp]: "set (insert_by lt x xs) = insert x (set xs)"
  by (induction xs) auto

lemma set_sort_by [simp]: "set (sort_by lt xs) = set xs"
  by (induction xs) auto

lemma length_sort_by [simp]: "length (sort_by lt xs) = length xs"
  by (metis mset_sort_by size_mset)

lemma distinct_sort_by [simp]: "distinct (sort_by lt xs) = distinct xs"
  by (metis mset_sort_by mset_eq_imp_distinct_iff)

lemma sort_by_ordered_id: "ordered_by lt xs \<Longrightarrow> sort_by lt xs = xs"
proof (induction xs)
  case (Cons x xs)
  then show ?case by (cases xs) auto
qed simp

locale less_order =
  fixes lt :: "'a \<Rightarrow> 'a \<Rightarrow> bool"
  assumes asym: "lt x y \<Longrightarrow> \<not> lt y x"
    and negtrans: "\<not> lt x y \<Longrightarrow> \<not> lt y z \<Longrightarrow> \<not> lt x z"
begin

lemma irrefl: "\<not> lt x x"
  using asym by blast

lemma trans: "lt x y \<Longrightarrow> lt y z \<Longrightarrow> lt x z"
  using asym negtrans by metis

lemma ordered_insert_by: "ordered_by lt xs \<Longrightarrow> ordered_by lt (insert_by lt x xs)"
proof (induction xs)
  case (Cons y ys)
  show ?case
  proof (cases "lt y x")
    case True
    with Cons show ?thesis using asym by auto
  next
    case False
    have "\<not> lt z x" if "z \<in> set ys" for z
      using that Cons.prems False negtrans by auto
    with False Cons.prems show ?thesis by simp
  qed
qed simp

lemma ordered_sort_by: "ordered_by lt (sort_by lt xs)"
  by (induction xs) (simp_all add: ordered_insert_by)

text \<open>Elements that tie keep their order: the sort is stable.\<close>

definition ties :: "'a \<Rightarrow> 'a \<Rightarrow> bool" where
  "ties x y \<longleftrightarrow> \<not> lt x y \<and> \<not> lt y x"

lemma filter_insert_by:
  "ordered_by lt xs \<Longrightarrow>
     filter (ties a) (insert_by lt x xs) = filter (ties a) (x # xs)"
proof (induction xs)
  case (Cons y ys)
  have "\<not> ties a x" if "lt y x" "ties a y"
    using that asym negtrans unfolding ties_def by blast
  with Cons show ?case by auto
qed simp

lemma stable_sort_by: "filter (ties a) (sort_by lt xs) = filter (ties a) xs"
  by (induction xs) (simp_all add: filter_insert_by ordered_sort_by)

text \<open>
  When no two different elements of the list tie, the sorted list depends on the elements
  alone: every order they arrive in gives the same result.
\<close>

lemma ordered_unique:
  "\<lbrakk>ordered_by lt xs; ordered_by lt ys; mset xs = mset ys;
     \<And>x y. x \<in> set xs \<Longrightarrow> y \<in> set xs \<Longrightarrow> ties x y \<Longrightarrow> x = y\<rbrakk> \<Longrightarrow> xs = ys"
proof (induction xs arbitrary: ys)
  case (Cons x xs)
  then obtain y ys' where ys: "ys = y # ys'"
    by (cases ys) auto
  have sets: "set (x # xs) = set ys"
    using Cons.prems(3) mset_eq_setD by blast
  have "x \<in> set ys" "y \<in> set (x # xs)"
    using sets ys by auto
  then have "\<not> lt x y" "\<not> lt y x"
    using Cons.prems(1,2) ys irrefl by auto
  then have xy: "x = y"
    using Cons.prems(4)[of x y] \<open>y \<in> set (x # xs)\<close> by (simp add: ties_def)
  have "xs = ys'"
    using Cons.IH[of ys'] Cons.prems ys xy by auto
  with xy ys show ?case by simp
qed simp

lemma sort_by_cong_mset:
  assumes "mset xs = mset ys"
    and "\<And>x y. x \<in> set xs \<Longrightarrow> y \<in> set xs \<Longrightarrow> ties x y \<Longrightarrow> x = y"
  shows "sort_by lt xs = sort_by lt ys"
  using assms by (intro ordered_unique) (simp_all add: ordered_sort_by)

end

text \<open>
  A comparator given as a three-way comparison on a key type, applied by one or more keys in
  turn: lexicographic combination keeps the contract.
\<close>

definition lex_lt :: "('a \<Rightarrow> 'k::linorder) \<Rightarrow> ('a \<Rightarrow> 'a \<Rightarrow> bool) \<Rightarrow> 'a \<Rightarrow> 'a \<Rightarrow> bool" where
  "lex_lt k lt x y \<longleftrightarrow> k x < k y \<or> (k x = k y \<and> lt x y)"

lemma less_order_lex:
  assumes "less_order lt"
  shows "less_order (lex_lt k lt)"
proof (unfold_locales, goal_cases)
  case (1 x y)
  then show ?case using less_order.asym [OF assms] by (auto simp: lex_lt_def)
next
  case (2 x y z)
  then have "k y \<le> k x" "k z \<le> k y"
    by (auto simp: lex_lt_def)
  with 2 show ?case
    using less_order.negtrans [OF assms, of x y z] by (auto simp: lex_lt_def)
qed

lemma less_order_key: "less_order (\<lambda>x y. (k x :: 'k::linorder) < k y)"
  by unfold_locales auto

lemma less_order_False: "less_order (\<lambda>x y. False)"
  by unfold_locales auto

interpretation string_less: less_order "(<) :: string \<Rightarrow> string \<Rightarrow> bool"
  by unfold_locales auto

lemma sort_by_less: "sort_by (<) xs = sort (xs :: 'a::linorder list)"
proof -
  have "insert_by (<) x ys = insort x ys" for x :: 'a and ys
    by (induction ys) (auto simp: not_less)
  then show ?thesis
    by (induction xs) simp_all
qed

end
