(* ===== verification/Calendar.thy ===== *)
theory Calendar
  imports Prelude
begin

text \<open>
  The part of Go's \<open>time\<close> package the program uses: the proleptic Gregorian calendar in UTC.
  A day is numbered by \<open>civil_day\<close> from 1970-01-01; an instant is its Unix second.  The two
  directions \<open>civil_day\<close> and \<open>civil_of_day\<close> are inverse to each other, which is what
  \<open>time.Date\<close>, \<open>Time.AddDate\<close> and \<open>Time.Format\<close> rest on.
\<close>

section \<open>Years\<close>

definition is_leap :: "int \<Rightarrow> bool" where
  "is_leap y \<longleftrightarrow> y mod 4 = 0 \<and> (y mod 100 \<noteq> 0 \<or> y mod 400 = 0)"

text \<open>Days from 1970-01-01 to January 1 of year \<open>y\<close>.\<close>

definition days_before_year :: "int \<Rightarrow> int" where
  "days_before_year y =
     365 * (y - 1970) + (y - 1) div 4 - (y - 1) div 100 + (y - 1) div 400 - 477"

lemma div_pred:
  fixes y n :: int
  assumes n: "0 < n"
  shows "(y - 1) div n = y div n - (if y mod n = 0 then 1 else 0)"
proof (cases "y mod n = 0")
  case True
  then obtain q where y: "y = n * q" by (metis mod_0_imp_dvd dvdE)
  have "(y - 1) div n = q - 1"
    by (rule int_div_pos_eq [where r = "n - 1"]) (use n y in \<open>simp_all add: algebra_simps\<close>)
  with True y n show ?thesis by simp
next
  case False
  have "0 \<le> y mod n - 1" "y mod n - 1 < n"
    using False pos_mod_bound [OF n, of y] pos_mod_sign [OF n, of y] by linarith+
  then have "(y - 1) div n = y div n"
    by (intro int_div_pos_eq [where r = "y mod n - 1"]) auto
  with False show ?thesis by simp
qed

lemma days_before_year_Suc:
  "days_before_year (y + 1) = days_before_year y + (if is_leap y then 366 else 365)"
proof -
  have "y mod 100 = 0 \<Longrightarrow> y mod 4 = 0" "y mod 400 = 0 \<Longrightarrow> y mod 100 = 0"
    by presburger+
  then show ?thesis
    by (auto simp: days_before_year_def is_leap_def div_pred)
qed

lemma days_before_year_mono:
  assumes "y \<le> y'"
  shows "365 * y' - 365 * y \<le> days_before_year y' - days_before_year y"
proof -
  have "365 * int k \<le> days_before_year (y + int k) - days_before_year y" for k
  proof (induction k)
    case (Suc k)
    then show ?case
      using days_before_year_Suc [of "y + int k"] by (auto simp: add_ac split: if_splits)
  qed simp
  from this [of "nat (y' - y)"] assms show ?thesis by (simp add: algebra_simps)
qed

lemma days_before_year_le: "y \<le> y' \<Longrightarrow> days_before_year y \<le> days_before_year y'"
  using days_before_year_mono [of y y'] by (simp add: algebra_simps)

text \<open>The average year has 146097/400 days; the true count stays within two days of it.\<close>

lemma days_before_year_bounds:
  "146097 * y - 146097 * 1970 - 700 \<le> 400 * days_before_year y"
  "400 * days_before_year y \<le> 146097 * y - 146097 * 1970 + 700"
proof -
  define a b c where "a = (y - 1) mod 4" and "b = (y - 1) mod 100" and "c = (y - 1) mod 400"
  have "y - 1 = 4 * ((y - 1) div 4) + a" "y - 1 = 100 * ((y - 1) div 100) + b"
    "y - 1 = 400 * ((y - 1) div 400) + c"
    by (simp_all add: a_def b_def c_def)
  moreover have "0 \<le> a" "a \<le> 3" "0 \<le> b" "b \<le> 99" "0 \<le> c" "c \<le> 399"
    by (simp_all add: a_def b_def c_def)
  ultimately show
    "146097 * y - 146097 * 1970 - 700 \<le> 400 * days_before_year y"
    "400 * days_before_year y \<le> 146097 * y - 146097 * 1970 + 700"
    unfolding days_before_year_def by (simp_all add: right_diff_distrib distrib_left)
qed

definition year_of_day :: "int \<Rightarrow> int" where
  "year_of_day z =
     (let y = 1970 + (400 * z) div 146097
      in if z < days_before_year y then y - 1
         else if days_before_year (y + 1) \<le> z then y + 1 else y)"

lemma year_of_day:
  "days_before_year (year_of_day z) \<le> z" "z < days_before_year (year_of_day z + 1)"
proof -
  define y where "y = 1970 + (400 * z) div 146097"
  have q: "146097 * y - 146097 * 1970 \<le> 400 * z" "400 * z < 146097 * y - 146097 * 1970 + 146097"
    by (simp_all add: y_def)
  have "days_before_year (y - 1) \<le> z" "z < days_before_year (y + 2)"
    using days_before_year_bounds [of "y - 1"] days_before_year_bounds [of "y + 2"] q
    by (simp_all add: right_diff_distrib distrib_left)
  then show "days_before_year (year_of_day z) \<le> z" "z < days_before_year (year_of_day z + 1)"
    by (auto simp: year_of_day_def y_def [symmetric] Let_def add.assoc)
qed

lemma year_of_day_eqI:
  assumes "days_before_year y \<le> z" "z < days_before_year (y + 1)"
  shows "year_of_day z = y"
proof (rule ccontr)
  let ?y = "year_of_day z"
  assume "?y \<noteq> y"
  then consider "?y + 1 \<le> y" | "y + 1 \<le> ?y" by linarith
  then show False
  proof cases
    case 1
    then show False
      using days_before_year_le [OF 1] year_of_day(2) [of z] assms by linarith
  next
    case 2
    then show False
      using days_before_year_le [OF 2] year_of_day(1) [of z] assms by linarith
  qed
qed

section \<open>Months\<close>

definition month_lengths :: "int \<Rightarrow> int list" where
  "month_lengths y = [31, if is_leap y then 29 else 28, 31, 30, 31, 30, 31, 31, 30, 31, 30, 31]"

definition month_length :: "int \<Rightarrow> int \<Rightarrow> int" where
  "month_length y m = month_lengths y ! nat (m - 1)"

definition days_before_month :: "int \<Rightarrow> int \<Rightarrow> int" where
  "days_before_month y m = sum_list (take (nat (m - 1)) (month_lengths y))"

primrec month_day :: "int \<Rightarrow> int \<Rightarrow> int list \<Rightarrow> int \<times> int" where
  "month_day m n [] = (m, n + 1)"
| "month_day m n (l # ls) = (if n < l then (m, n + 1) else month_day (m + 1) (n - l) ls)"

definition civil_day :: "int \<Rightarrow> int \<Rightarrow> int \<Rightarrow> int" where
  "civil_day y m d = days_before_year y + days_before_month y m + d - 1"

definition civil_of_day :: "int \<Rightarrow> int \<times> int \<times> int" where
  "civil_of_day z =
     (let y = year_of_day z in (y, month_day 1 (z - days_before_year y) (month_lengths y)))"

definition valid_civil :: "int \<Rightarrow> int \<Rightarrow> int \<Rightarrow> bool" where
  "valid_civil y m d \<longleftrightarrow> 1 \<le> m \<and> m \<le> 12 \<and> 1 \<le> d \<and> d \<le> month_length y m"

lemma month_cases:
  "1 \<le> (m::int) \<Longrightarrow> m \<le> 12 \<Longrightarrow>
     m = 1 \<or> m = 2 \<or> m = 3 \<or> m = 4 \<or> m = 5 \<or> m = 6 \<or> m = 7 \<or> m = 8 \<or> m = 9 \<or>
     m = 10 \<or> m = 11 \<or> m = 12"
  by presburger

lemmas month_simps = month_lengths_def month_length_def days_before_month_def eval_nat_numeral

lemma month_length_bounds: "1 \<le> m \<Longrightarrow> m \<le> 12 \<Longrightarrow> 28 \<le> month_length y m \<and> month_length y m \<le> 31"
  by (drule (1) month_cases) (auto simp: month_simps)

lemma days_before_month_Suc:
  "1 \<le> m \<Longrightarrow> m \<le> 11 \<Longrightarrow> days_before_month y (m + 1) = days_before_month y m + month_length y m"
  using month_cases [of m] by (auto simp: month_simps)

lemma days_before_month_range:
  "1 \<le> m \<Longrightarrow> m \<le> 12 \<Longrightarrow> 0 \<le> days_before_month y m \<and>
     days_before_month y m + month_length y m \<le> (if is_leap y then 366 else 365)"
  by (drule (1) month_cases) (auto simp: month_simps)

lemma month_day_before:
  assumes "valid_civil y m d"
  shows "month_day 1 (days_before_month y m + (d - 1)) (month_lengths y) = (m, d)"
  using assms month_cases [of m] unfolding valid_civil_def
  by (elim conjE; simp; elim disjE) (simp_all add: month_simps)

lemma month_day_valid:
  assumes "0 \<le> n" "n < (if is_leap y then 366 else 365)"
    and "month_day 1 n (month_lengths y) = (m, d)"
  shows "valid_civil y m d \<and> days_before_month y m + d - 1 = n"
  using assms by (auto simp: valid_civil_def month_simps split: if_splits)

section \<open>Days and dates are inverse to each other\<close>

lemma civil_day_in_year:
  assumes "valid_civil y m d"
  shows "days_before_year y \<le> civil_day y m d" "civil_day y m d < days_before_year (y + 1)"
  using assms days_before_month_range [of m y] days_before_year_Suc [of y]
  by (auto simp: valid_civil_def civil_day_def split: if_splits)

theorem civil_of_civil_day:
  "valid_civil y m d \<Longrightarrow> civil_of_day (civil_day y m d) = (y, m, d)"
  using year_of_day_eqI [OF civil_day_in_year] month_day_before
  by (simp add: civil_of_day_def civil_day_def)

theorem civil_day_of_day:
  assumes "civil_of_day z = (y, m, d)"
  shows "valid_civil y m d \<and> civil_day y m d = z"
proof -
  have y: "y = year_of_day z" and md: "month_day 1 (z - days_before_year y) (month_lengths y) = (m, d)"
    using assms by (auto simp: civil_of_day_def Let_def)
  have "0 \<le> z - days_before_year y" "z - days_before_year y < (if is_leap y then 366 else 365)"
    using year_of_day [of z] days_before_year_Suc [of y] y by (auto split: if_splits)
  from month_day_valid [OF this md] show ?thesis
    by (auto simp: civil_day_def)
qed

lemma valid_civil_day_order:
  assumes "valid_civil y m d" "valid_civil y' m' d'"
  shows "civil_day y m d < civil_day y' m' d' \<longleftrightarrow>
    y < y' \<or> y = y' \<and> (m < m' \<or> m = m' \<and> d < d')"
proof -
  have less: "civil_day y m d < civil_day y' m' d'"
    if v: "valid_civil y m d" "valid_civil y' m' d'"
      and lt: "y < y' \<or> y = y' \<and> (m < m' \<or> m = m' \<and> d < d')" for y m d y' m' d'
  proof -
    consider "y < y'" | "y = y'" "m < m'" | "y = y'" "m = m'" "d < d'"
      using lt by blast
    then show ?thesis
    proof cases
      case 1
      then have "y + 1 \<le> y'" by simp
      from days_before_year_le [OF this] 1 show ?thesis
        using civil_day_in_year(2) [OF v(1)] civil_day_in_year(1) [OF v(2)] by linarith
    next
      case 2
      then have "days_before_month y m + month_length y m \<le> days_before_month y m'"
        using v month_cases [of m] month_cases [of m']
        unfolding valid_civil_def by (auto simp: month_simps)
      then show ?thesis
        using v 2 by (auto simp: civil_day_def valid_civil_def)
    next
      case 3
      then show ?thesis by (simp add: civil_day_def)
    qed
  qed
  consider "y < y' \<or> y = y' \<and> (m < m' \<or> m = m' \<and> d < d')"
    | "y' < y \<or> y' = y \<and> (m' < m \<or> m' = m \<and> d' < d)"
    | "y = y'" "m = m'" "d = d'"
    by linarith
  then show ?thesis
  proof cases
    case 1
    with less [OF assms] show ?thesis by blast
  next
    case 2
    with less [OF assms(2,1)] have "civil_day y' m' d' < civil_day y m d" by blast
    with 2 show ?thesis by linarith
  next
    case 3
    then show ?thesis by simp
  qed
qed

lemma civil_day_inject:
  "valid_civil y m d \<Longrightarrow> valid_civil y' m' d' \<Longrightarrow>
     civil_day y m d = civil_day y' m' d' \<longleftrightarrow> y = y' \<and> m = m' \<and> d = d'"
  by (metis civil_of_civil_day prod.inject)

section \<open>time.Date\<close>

text \<open>
  \<open>time.Date(year, month, day, 0, 0, 0, 0, time.UTC)\<close> as a day number: months out of range
  carry into the year, days out of range into the months.
\<close>

definition go_Date :: "int \<Rightarrow> int \<Rightarrow> int \<Rightarrow> int" where
  "go_Date year month day = civil_day (year + (month - 1) div 12) ((month - 1) mod 12 + 1) day"

lemma go_Date_valid: "1 \<le> m \<Longrightarrow> m \<le> 12 \<Longrightarrow> go_Date y m d = civil_day y m d"
  by (simp add: go_Date_def)

lemma go_Date_last_day:
  assumes "1 \<le> m" "m \<le> 12"
  shows "go_Date y (m + 1) 0 = civil_day y m (month_length y m)"
proof (cases "m = 12")
  case True
  have "days_before_month y 12 + 31 = (if is_leap y then 366 else 365)"
    by (simp add: month_simps)
  with True show ?thesis
    using days_before_year_Suc [of y] by (simp add: go_Date_def civil_day_def month_simps)
next
  case False
  then show ?thesis
    using assms days_before_month_Suc [of m y] by (simp add: go_Date_def civil_day_def)
qed

end
