(* ===== verification/Dates.thy ===== *)
theory Dates
  imports Calendar
begin

text \<open>
  The ISO date strings of \<open>backend/internal/domain/dates.go\<close>.  A date is the Go string itself;
  \<open>iso_date y m d\<close> is the well-formed one.  Parsing, formatting and the string comparison are
  related to the calendar: parse and format are inverse to each other, and comparing two valid
  dates as strings compares the days.  A function that panics on its argument is an option.
\<close>

section \<open>Decimal numerals\<close>

definition digit_char :: "nat \<Rightarrow> char" where
  "digit_char n = char_of (48 + n)"

definition is_digit :: "char \<Rightarrow> bool" where
  "is_digit c \<longleftrightarrow> CHR ''0'' \<le> c \<and> c \<le> CHR ''9''"

text \<open>\<open>int(c - '0')\<close>: the subtraction is on bytes and wraps.\<close>

definition byte_digit :: "char \<Rightarrow> int" where
  "byte_digit c = (of_char c - 48) mod 256"

fun dec :: "nat \<Rightarrow> string" where
  "dec n = (if n < 10 then [digit_char n] else dec (n div 10) @ [digit_char (n mod 10)])"

declare dec.simps [simp del]

text \<open>The \<open>w\<close> lowest decimal digits of \<open>n\<close>.\<close>

fun fixed :: "nat \<Rightarrow> nat \<Rightarrow> string" where
  "fixed 0 n = []"
| "fixed (Suc w) n = fixed w (n div 10) @ [digit_char (n mod 10)]"

definition zero_pad :: "nat \<Rightarrow> string \<Rightarrow> string" where
  "zero_pad w s = replicate (w - length s) (CHR ''0'') @ s"

text \<open>\<open>%0wd\<close> of \<open>fmt.Sprintf\<close>: the sign counts towards the width.\<close>

definition sprintf_0d :: "nat \<Rightarrow> int \<Rightarrow> string" where
  "sprintf_0d w n =
     (if n < 0 then CHR ''-'' # zero_pad (w - 1) (dec (nat (- n))) else zero_pad w (dec (nat n)))"

text \<open>The zero-padded fields of \<open>Time.Format\<close>: the width leaves the sign out.\<close>

definition format_0d :: "nat \<Rightarrow> int \<Rightarrow> string" where
  "format_0d w n =
     (if n < 0 then CHR ''-'' # zero_pad w (dec (nat (- n))) else zero_pad w (dec (nat n)))"

lemma of_char_digit_char: "n < 10 \<Longrightarrow> of_char (digit_char n) = 48 + n"
  by (simp add: digit_char_def)

lemma is_digit_iff: "is_digit c \<longleftrightarrow> (48 :: nat) \<le> of_char c \<and> of_char c \<le> (57 :: nat)"
  by (simp add: is_digit_def less_eq_char_def)

lemma is_digit_digit_char: "n < 10 \<Longrightarrow> is_digit (digit_char n)"
  by (simp add: is_digit_iff of_char_digit_char)

lemma byte_digit_digit_char: "n < 10 \<Longrightarrow> byte_digit (digit_char n) = int n"
proof -
  assume "n < 10"
  then have "(of_char (digit_char n) :: int) = 48 + int n"
    using of_char_digit_char [of n] of_nat_of_char [of "digit_char n", where 'a = int] by simp
  with \<open>n < 10\<close> show ?thesis by (simp add: byte_digit_def)
qed

lemma digit_char_of_digit:
  assumes "is_digit c"
  obtains n where "n < 10" "c = digit_char n"
proof -
  have "of_char c = 48 + (of_char c - 48 :: nat)" "of_char c - 48 < (10 :: nat)"
    using assms by (auto simp: is_digit_iff)
  then have "c = digit_char (of_char c - 48)"
    by (metis digit_char_def char_of_char)
  then show ?thesis
    using that \<open>of_char c - 48 < (10 :: nat)\<close> by blast
qed

lemma digit_value:
  "is_digit c \<Longrightarrow> nat (byte_digit c) < 10 \<and> digit_char (nat (byte_digit c)) = c \<and> 0 \<le> byte_digit c"
  by (erule digit_char_of_digit) (simp add: byte_digit_digit_char)

lemma digit_char_less: "m < 10 \<Longrightarrow> n < 10 \<Longrightarrow> digit_char m < digit_char n \<longleftrightarrow> m < n"
  by (simp add: less_char_def of_char_digit_char)

lemma digit_char_eq: "m < 10 \<Longrightarrow> n < 10 \<Longrightarrow> digit_char m = digit_char n \<longleftrightarrow> m = n"
  by (metis add_left_cancel of_char_digit_char)

lemma length_fixed [simp]: "length (fixed w n) = w"
  by (induction w arbitrary: n) auto

lemma fixed_0: "fixed w 0 = replicate w (CHR ''0'')"
proof -
  have "digit_char 0 = CHR ''0''" by code_simp
  then show ?thesis
    by (induction w) (auto simp: replicate_append_same)
qed

lemma length_dec: "n < 10 ^ w \<Longrightarrow> 0 < w \<Longrightarrow> length (dec n) \<le> w"
proof (induction w arbitrary: n)
  case (Suc w)
  show ?case
  proof (cases "n < 10")
    case True
    then show ?thesis by (simp add: dec.simps [of n])
  next
    case False
    then have "0 < w" using Suc.prems by (cases w) auto
    moreover have "n div 10 < 10 ^ w" using Suc.prems by auto
    ultimately have "length (dec (n div 10)) \<le> w" by (intro Suc.IH)
    with False show ?thesis by (simp add: dec.simps [of n])
  qed
qed simp

lemma zero_pad_dec: "n < 10 ^ w \<Longrightarrow> 0 < w \<Longrightarrow> zero_pad w (dec n) = fixed w n"
proof (induction w arbitrary: n)
  case (Suc w)
  show ?case
  proof (cases "n < 10")
    case True
    then show ?thesis
      using fixed_0 [of w] by (simp add: dec.simps [of n] zero_pad_def)
  next
    case False
    then have "0 < w" using Suc.prems by (cases w) auto
    moreover have "n div 10 < 10 ^ w" using Suc.prems by auto
    ultimately have "zero_pad w (dec (n div 10)) = fixed w (n div 10)" by (intro Suc.IH)
    with False show ?thesis by (simp add: dec.simps [of n] zero_pad_def)
  qed
qed simp

subsection \<open>Lexicographic order of numerals\<close>

lemma lex_append:
  "length a = length b \<Longrightarrow> a @ c < b @ d \<longleftrightarrow> a < b \<or> a = b \<and> c < (d :: 'a::linorder list)"
  by (induction a b rule: list_induct2) auto

lemma fixed_eq: "m < 10 ^ w \<Longrightarrow> n < 10 ^ w \<Longrightarrow> fixed w m = fixed w n \<longleftrightarrow> m = n"
proof (induction w arbitrary: m n)
  case (Suc w)
  have "m div 10 < 10 ^ w" "n div 10 < 10 ^ w"
    using Suc.prems by auto
  from Suc.IH [OF this] show ?case
    by (simp add: digit_char_eq) (metis div_mult_mod_eq)
qed auto

lemma fixed_less: "m < 10 ^ w \<Longrightarrow> n < 10 ^ w \<Longrightarrow> fixed w m < fixed w n \<longleftrightarrow> m < n"
proof (induction w arbitrary: m n)
  case (Suc w)
  have q: "m div 10 < 10 ^ w" "n div 10 < 10 ^ w"
    using Suc.prems by auto
  have "10 * a + b < 10 * c + d \<longleftrightarrow> a < c \<or> a = c \<and> b < d" if "b < 10" "d < 10" for a b c d :: nat
    using that by linarith
  from this [of "m mod 10" "n mod 10" "m div 10" "n div 10"]
  have "m < n \<longleftrightarrow> m div 10 < n div 10 \<or> m div 10 = n div 10 \<and> m mod 10 < n mod 10"
    by simp
  then show ?case
    by (simp add: lex_append digit_char_less Suc.IH [OF q] fixed_eq [OF q])
qed auto


section \<open>Date strings\<close>

definition iso_date :: "int \<Rightarrow> int \<Rightarrow> int \<Rightarrow> string" where
  "iso_date y m d =
     fixed 4 (nat y) @ CHR ''-'' # fixed 2 (nat m) @ CHR ''-'' # fixed 2 (nat d)"

text \<open>The fields of a \<open>YYYY-MM-DD\<close> string, when it has that shape.\<close>

definition date_fields :: "string \<Rightarrow> (int \<times> int \<times> int) option" where
  "date_fields s =
     (if length s = 10 \<and> s ! 4 = CHR ''-'' \<and> s ! 7 = CHR ''-'' \<and>
         list_all (\<lambda>i. is_digit (s ! i)) [0, 1, 2, 3, 5, 6, 8, 9]
      then Some (byte_digit (s ! 0) * 1000 + byte_digit (s ! 1) * 100 + byte_digit (s ! 2) * 10 + byte_digit (s ! 3),
                 byte_digit (s ! 5) * 10 + byte_digit (s ! 6),
                 byte_digit (s ! 8) * 10 + byte_digit (s ! 9))
      else None)"

text \<open>
  \<open>ParseIsoDate\<close>: \<open>time.ParseInLocation\<close> with the layout \<open>2006-01-02\<close> takes four digits, a
  dash, two digits, a dash and two digits, nothing after them, and refuses a month or a day
  out of range.  The result is an instant, in Unix seconds.
\<close>

datatype date_error = InvalidIsoDate string

definition ParseIsoDate :: "string \<Rightarrow> date_error + int" where
  "ParseIsoDate value =
     (case date_fields value of
        None \<Rightarrow> Inl (InvalidIsoDate value)
      | Some (y, m, d) \<Rightarrow>
          if 1 \<le> m \<and> m \<le> 12 \<and> 1 \<le> d \<and> d \<le> month_length y m
          then Inr (86400 * civil_day y m d)
          else Inl (InvalidIsoDate value))"

definition IsValidIsoDate :: "string \<Rightarrow> bool" where
  "IsValidIsoDate value = (case ParseIsoDate value of Inl _ \<Rightarrow> False | Inr _ \<Rightarrow> True)"

definition MustParseIsoDate :: "string \<Rightarrow> int option" where
  "MustParseIsoDate value = (case ParseIsoDate value of Inl _ \<Rightarrow> None | Inr t \<Rightarrow> Some t)"

definition FormatIsoDate :: "int \<Rightarrow> string" where
  "FormatIsoDate t =
     (case civil_of_day (t div 86400) of
        (y, m, d) \<Rightarrow> format_0d 4 y @ CHR ''-'' # format_0d 2 m @ CHR ''-'' # format_0d 2 d)"

definition daysInMonth :: "int \<Rightarrow> int \<Rightarrow> int" where
  "daysInMonth year month = (case civil_of_day (go_Date year (month + 1) 0) of (_, _, d) \<Rightarrow> d)"

definition splitIsoDate :: "string \<Rightarrow> (int \<times> int \<times> int) option" where
  "splitIsoDate value =
     (if length value < 10 then None
      else Some
        (byte_digit (value ! 0) * 1000 + byte_digit (value ! 1) * 100 + byte_digit (value ! 2) * 10 + byte_digit (value ! 3),
         byte_digit (value ! 5) * 10 + byte_digit (value ! 6),
         byte_digit (value ! 8) * 10 + byte_digit (value ! 9)))"

text \<open>Go's integer division truncates towards zero.\<close>

definition go_div :: "int \<Rightarrow> int \<Rightarrow> int" where
  "go_div a b = sgn a * sgn b * (\<bar>a\<bar> div \<bar>b\<bar>)"

definition go_mod :: "int \<Rightarrow> int \<Rightarrow> int" where
  "go_mod a b = a - b * go_div a b"

definition daysFromCivil :: "int \<Rightarrow> int \<Rightarrow> int \<Rightarrow> int" where
  "daysFromCivil year month day =
     (let (year, month) = (if month \<le> 2 then (year - 1, month + 12) else (year, month));
          era = go_div year 400;
          yoe = year - era * 400;
          doy = go_div (153 * (month - 3) + 2) 5 + day - 1;
          doe = yoe * 365 + go_div yoe 4 - go_div yoe 100 + doy
      in era * 146097 + doe - 719468)"

definition CompareIsoDates :: "string \<Rightarrow> string \<Rightarrow> int" where
  "CompareIsoDates left right = (if left < right then - 1 else if right < left then 1 else 0)"

fun days_apart :: "(int \<times> int \<times> int) option \<Rightarrow> (int \<times> int \<times> int) option \<Rightarrow> int option" where
  "days_apart (Some (leftYear, leftMonth, leftDay)) (Some (rightYear, rightMonth, rightDay)) =
     Some (daysFromCivil rightYear rightMonth rightDay - daysFromCivil leftYear leftMonth leftDay)"
| "days_apart _ _ = None"

definition DaysBetween :: "string \<Rightarrow> string \<Rightarrow> int option" where
  "DaysBetween left right = days_apart (splitIsoDate left) (splitIsoDate right)"

definition ProjectionYearIndex :: "string \<Rightarrow> string \<Rightarrow> int option" where
  "ProjectionYearIndex projectionStartDate date =
     map_option (\<lambda>n. go_div n 365) (DaysBetween projectionStartDate date)"

definition floorDiv :: "int \<Rightarrow> int \<Rightarrow> int" where
  "floorDiv a b =
     (let q = go_div a b
      in if go_mod a b \<noteq> 0 \<and> ((a < 0) \<noteq> (b < 0)) then q - 1 else q)"

fun clamped_month :: "int \<Rightarrow> int \<times> int \<times> int \<Rightarrow> string" where
  "clamped_month monthsToAdd (year, month, day) =
     (let nextMonthIndex = (month - 1) + monthsToAdd;
          targetYear = year + floorDiv nextMonthIndex 12;
          targetMonth = go_mod (go_mod nextMonthIndex 12 + 12) 12;
          lastDay = daysInMonth targetYear (targetMonth + 1);
          targetDay = (if lastDay < day then lastDay else day)
      in sprintf_0d 4 targetYear @ CHR ''-'' # sprintf_0d 2 (targetMonth + 1) @ CHR ''-'' #
         sprintf_0d 2 targetDay)"

definition AddMonthsClamped :: "string \<Rightarrow> int \<Rightarrow> string option" where
  "AddMonthsClamped date monthsToAdd = map_option (clamped_month monthsToAdd) (splitIsoDate date)"

definition AddYearsClamped :: "string \<Rightarrow> int \<Rightarrow> string option" where
  "AddYearsClamped date yearsToAdd = AddMonthsClamped date (yearsToAdd * 12)"

text \<open>\<open>t.AddDate(0, 0, days)\<close> on a midnight, formatted back to a date.\<close>

definition shift_days :: "int \<Rightarrow> int \<Rightarrow> string" where
  "shift_days days t = FormatIsoDate (t + 86400 * days)"

definition add_days :: "string \<Rightarrow> int \<Rightarrow> string option" where
  "add_days date days = map_option (shift_days days) (MustParseIsoDate date)"

text \<open>\<open>midnightUnix\<close> (recurrence.go) and \<open>dayCloseUnix\<close> (chrono.go).\<close>

definition midnightUnix :: "string \<Rightarrow> int option" where
  "midnightUnix date = MustParseIsoDate date"

definition dayCloseUnix :: "string \<Rightarrow> int option" where
  "dayCloseUnix date = map_option (\<lambda>t. t + 86400 - 1) (MustParseIsoDate date)"


section \<open>Well-formed date strings\<close>

definition iso_valid :: "int \<Rightarrow> int \<Rightarrow> int \<Rightarrow> bool" where
  "iso_valid y m d \<longleftrightarrow> 0 \<le> y \<and> y \<le> 9999 \<and> valid_civil y m d"

lemma iso_valid_bounds:
  "iso_valid y m d \<Longrightarrow> 0 \<le> y \<and> y \<le> 9999 \<and> 1 \<le> m \<and> m \<le> 12 \<and> 1 \<le> d \<and> d \<le> 31"
  using month_length_bounds [of m y] by (auto simp: iso_valid_def valid_civil_def)

lemma fixed_snoc: "c < 10 \<Longrightarrow> fixed (Suc w) (10 * n + c) = fixed w n @ [digit_char c]"
  by simp

lemma fixed_1: "a < 10 \<Longrightarrow> fixed (Suc 0) a = [digit_char a]"
  by simp

lemma fixed_2:
  assumes "a < 10" "b < 10"
  shows "fixed 2 (10 * a + b) = [digit_char a, digit_char b]"
proof -
  have two: "(2::nat) = Suc (Suc 0)" by simp
  show ?thesis
    unfolding two fixed_snoc [OF assms(2)] fixed_1 [OF assms(1)] by simp
qed

lemma fixed_4:
  assumes "a < 10" "b < 10" "c < 10" "d < 10"
  shows "fixed 4 (10 * (10 * (10 * a + b) + c) + d) = [digit_char a, digit_char b, digit_char c, digit_char d]"
proof -
  have four: "(4::nat) = Suc (Suc (Suc (Suc 0)))" by simp
  show ?thesis
    unfolding four fixed_snoc [OF assms(4)] fixed_snoc [OF assms(3)] fixed_snoc [OF assms(2)]
      fixed_1 [OF assms(1)] by simp
qed

lemma digits_2:
  assumes "n < 100"
  obtains a b where "a < 10" "b < (10::nat)" "n = 10 * a + b"
  by (rule that [of "n div 10" "n mod 10"]) (use assms in auto)

lemma digits_4:
  assumes "n < 10000"
  obtains a b c d where "a < 10" "b < 10" "c < 10" "d < (10::nat)" "n = 10 * (10 * (10 * a + b) + c) + d"
proof -
  have "n div 10 div 10 div 10 < 10"
    using assms by (simp flip: div_mult2_eq)
  then show ?thesis
    using that [of "n div 10 div 10 div 10" "n div 10 div 10 mod 10" "n div 10 mod 10" "n mod 10"]
    by (simp only: mult_div_mod_eq)
qed

text \<open>Reading the fields of a well-formed date gives them back, and only such dates have fields.\<close>

lemma iso_date_chars:
  assumes "0 \<le> y" "y < 10000" "0 \<le> m" "m < 100" "0 \<le> d" "d < 100"
  obtains a b c e f g h i where "a < 10" "b < 10" "c < 10" "e < 10" "f < 10" "g < 10" "h < 10" "i < 10"
    "y = int (10 * (10 * (10 * a + b) + c) + e)" "m = int (10 * f + g)" "d = int (10 * h + i)"
    "iso_date y m d = [digit_char a, digit_char b, digit_char c, digit_char e, CHR ''-'',
      digit_char f, digit_char g, CHR ''-'', digit_char h, digit_char i]"
proof -
  have n: "nat y < 10000" "nat m < 100" "nat d < 100"
    using assms by auto
  obtain a b c e where y: "a < 10" "b < 10" "c < 10" "e < 10" "nat y = 10 * (10 * (10 * a + b) + c) + e"
    by (rule digits_4 [OF n(1)])
  obtain f g where m: "f < 10" "g < 10" "nat m = 10 * f + g"
    by (rule digits_2 [OF n(2)])
  obtain h i where d: "h < 10" "i < 10" "nat d = 10 * h + i"
    by (rule digits_2 [OF n(3)])
  have "y = int (nat y)" "m = int (nat m)" "d = int (nat d)"
    using assms by auto
  then show ?thesis
    using that [of a b c e f g h i] y m d
    unfolding iso_date_def y(5) m(3) d(3) by (simp only: fixed_4 fixed_2 append.simps)
qed

lemma date_fields_iso_date:
  assumes "0 \<le> y" "y < 10000" "0 \<le> m" "m < 100" "0 \<le> d" "d < 100"
  shows "date_fields (iso_date y m d) = Some (y, m, d)"
    and "splitIsoDate (iso_date y m d) = Some (y, m, d)"
    and "length (iso_date y m d) = 10"
proof -
  from assms obtain a b c e f g h i where
    "a < 10" "b < 10" "c < 10" "e < 10" "f < 10" "g < 10" "h < 10" "i < 10"
    "y = int (10 * (10 * (10 * a + b) + c) + e)" "m = int (10 * f + g)" "d = int (10 * h + i)"
    "iso_date y m d = [digit_char a, digit_char b, digit_char c, digit_char e, CHR ''-'',
      digit_char f, digit_char g, CHR ''-'', digit_char h, digit_char i]"
    by (rule iso_date_chars)
  then show "date_fields (iso_date y m d) = Some (y, m, d)"
      "splitIsoDate (iso_date y m d) = Some (y, m, d)" "length (iso_date y m d) = 10"
    by (simp_all add: date_fields_def splitIsoDate_def is_digit_digit_char byte_digit_digit_char)
qed

lemma date_fields_SomeD:
  assumes "date_fields s = Some (y, m, d)"
  shows "s = iso_date y m d \<and> 0 \<le> y \<and> y < 10000 \<and> 0 \<le> m \<and> m < 100 \<and> 0 \<le> d \<and> d < 100"
proof -
  have len: "length s = 10"
    using assms by (auto simp: date_fields_def split: if_splits)
  then obtain c0 c1 c2 c3 c4 c5 c6 c7 c8 c9 where s: "s = [c0, c1, c2, c3, c4, c5, c6, c7, c8, c9]"
    by (auto simp: length_Suc_conv eval_nat_numeral)
  have dig: "is_digit c0" "is_digit c1" "is_digit c2" "is_digit c3" "is_digit c5" "is_digit c6"
      "is_digit c8" "is_digit c9" and dash: "c4 = CHR ''-''" "c7 = CHR ''-''"
    using assms by (auto simp: date_fields_def s split: if_splits)
  note v = dig [THEN digit_value]
  define n0 n1 n2 n3 where "n0 = nat (byte_digit c0)" and "n1 = nat (byte_digit c1)"
    and "n2 = nat (byte_digit c2)" and "n3 = nat (byte_digit c3)"
  define n5 n6 n8 n9 where "n5 = nat (byte_digit c5)" and "n6 = nat (byte_digit c6)"
    and "n8 = nat (byte_digit c8)" and "n9 = nat (byte_digit c9)"
  note defs = n0_def n1_def n2_def n3_def n5_def n6_def n8_def n9_def
  have n: "n0 < 10" "n1 < 10" "n2 < 10" "n3 < 10" "n5 < 10" "n6 < 10" "n8 < 10" "n9 < 10"
    and c: "c0 = digit_char n0" "c1 = digit_char n1" "c2 = digit_char n2" "c3 = digit_char n3"
      "c5 = digit_char n5" "c6 = digit_char n6" "c8 = digit_char n8" "c9 = digit_char n9"
    using v unfolding defs by auto
  have "y = byte_digit c0 * 1000 + byte_digit c1 * 100 + byte_digit c2 * 10 + byte_digit c3"
    "m = byte_digit c5 * 10 + byte_digit c6" "d = byte_digit c8 * 10 + byte_digit c9"
    using assms by (auto simp: date_fields_def s split: if_splits)
  then have ymd: "y = int (10 * (10 * (10 * n0 + n1) + n2) + n3)" "m = int (10 * n5 + n6)" "d = int (10 * n8 + n9)"
    using n unfolding c by (simp_all add: byte_digit_digit_char)
  have "s = fixed 4 (10 * (10 * (10 * n0 + n1) + n2) + n3) @ CHR ''-'' # fixed 2 (10 * n5 + n6) @
      CHR ''-'' # fixed 2 (10 * n8 + n9)"
    unfolding s dash fixed_4 [OF n(1-4)] fixed_2 [OF n(5,6)] fixed_2 [OF n(7,8)] by (simp add: c)
  moreover have "int k < 10000 \<longleftrightarrow> k < 10000" "int k < 100 \<longleftrightarrow> k < 100" for k
    by simp_all
  ultimately show ?thesis
    using n unfolding ymd iso_date_def nat_int by simp
qed

end
