(* ===== verification/Date_Laws.thy ===== *)
theory Date_Laws
  imports Dates
begin

text \<open>
  Laws of the date helpers on well-formed dates: parse and format, comparison, distance,
  month arithmetic.
\<close>

section \<open>Parsing and formatting\<close>

lemma splitIsoDate_iso_date [simp]:
  "iso_valid y m d \<Longrightarrow> splitIsoDate (iso_date y m d) = Some (y, m, d)"
  using iso_valid_bounds [of y m d] by (intro date_fields_iso_date(2)) auto

lemma ParseIsoDate_iso_date [simp]:
  "iso_valid y m d \<Longrightarrow> ParseIsoDate (iso_date y m d) = Inr (86400 * civil_day y m d)"
proof -
  assume v: "iso_valid y m d"
  then have "date_fields (iso_date y m d) = Some (y, m, d)"
    using iso_valid_bounds [of y m d] by (intro date_fields_iso_date(1)) auto
  then show ?thesis
    using v by (simp add: ParseIsoDate_def iso_valid_def valid_civil_def)
qed

lemma MustParseIsoDate_iso_date [simp]:
  "iso_valid y m d \<Longrightarrow> MustParseIsoDate (iso_date y m d) = Some (86400 * civil_day y m d)"
  by (simp add: MustParseIsoDate_def)

lemma IsValidIsoDate_iff: "IsValidIsoDate s \<longleftrightarrow> (\<exists>y m d. iso_valid y m d \<and> s = iso_date y m d)"
proof
  assume "IsValidIsoDate s"
  then obtain y m d where "date_fields s = Some (y, m, d)" "valid_civil y m d"
    by (auto simp: IsValidIsoDate_def ParseIsoDate_def valid_civil_def split: option.splits if_splits)
  then have "iso_valid y m d \<and> s = iso_date y m d"
    using date_fields_SomeD [of s y m d] by (auto simp: iso_valid_def)
  then show "\<exists>y m d. iso_valid y m d \<and> s = iso_date y m d" by blast
qed (auto simp: IsValidIsoDate_def)

lemma IsValidIsoDateE:
  assumes "IsValidIsoDate s"
  obtains y m d where "iso_valid y m d" "s = iso_date y m d"
  using assms by (auto simp: IsValidIsoDate_iff)

lemma IsValidIsoDate_iso_date [simp]: "iso_valid y m d \<Longrightarrow> IsValidIsoDate (iso_date y m d)"
  by (auto simp: IsValidIsoDate_iff)

lemma format_0d_fixed: "0 \<le> n \<Longrightarrow> n < 10 ^ w \<Longrightarrow> 0 < w \<Longrightarrow> format_0d w n = fixed w (nat n)"
  by (simp add: format_0d_def zero_pad_dec nat_less_iff)

lemma sprintf_0d_fixed: "0 \<le> n \<Longrightarrow> n < 10 ^ w \<Longrightarrow> 0 < w \<Longrightarrow> sprintf_0d w n = fixed w (nat n)"
  by (simp add: sprintf_0d_def zero_pad_dec nat_less_iff)

lemma FormatIsoDate_civil:
  assumes "iso_valid y m d" "t div 86400 = civil_day y m d"
  shows "FormatIsoDate t = iso_date y m d"
  using assms iso_valid_bounds [OF assms(1)]
  by (simp add: FormatIsoDate_def civil_of_civil_day iso_valid_def iso_date_def format_0d_fixed)

text \<open>The day number of a date string; the instant \<open>ParseIsoDate\<close> gives is its midnight.\<close>

definition day_number :: "string \<Rightarrow> int" where
  "day_number s = (case date_fields s of None \<Rightarrow> 0 | Some (y, m, d) \<Rightarrow> civil_day y m d)"

lemma day_number_iso_date [simp]: "iso_valid y m d \<Longrightarrow> day_number (iso_date y m d) = civil_day y m d"
  using iso_valid_bounds [of y m d] by (simp add: day_number_def date_fields_iso_date(1))

lemma MustParse_day_number: "IsValidIsoDate s \<Longrightarrow> MustParseIsoDate s = Some (86400 * day_number s)"
  by (auto elim!: IsValidIsoDateE)

lemma midnightUnix_valid: "IsValidIsoDate s \<Longrightarrow> midnightUnix s = Some (86400 * day_number s)"
  by (simp add: midnightUnix_def MustParse_day_number)

lemma dayCloseUnix_valid: "IsValidIsoDate s \<Longrightarrow> dayCloseUnix s = Some (86400 * day_number s + 86399)"
  by (simp add: dayCloseUnix_def MustParse_day_number)

section \<open>Comparison\<close>

lemma iso_date_less:
  assumes "iso_valid y m d" "iso_valid y' m' d'"
  shows "iso_date y m d < iso_date y' m' d' \<longleftrightarrow> civil_day y m d < civil_day y' m' d'"
proof -
  note b = iso_valid_bounds [OF assms(1)] iso_valid_bounds [OF assms(2)]
  have y: "nat y < 10 ^ 4" "nat y' < 10 ^ 4" and m: "nat m < 10 ^ 2" "nat m' < 10 ^ 2"
    and d: "nat d < 10 ^ 2" "nat d' < 10 ^ 2"
    using b by auto
  have "iso_date y m d < iso_date y' m' d' \<longleftrightarrow>
      nat y < nat y' \<or> nat y = nat y' \<and> (nat m < nat m' \<or> nat m = nat m' \<and> nat d < nat d')"
    unfolding iso_date_def
    by (simp add: lex_append fixed_less [OF y] fixed_eq [OF y] fixed_less [OF m] fixed_eq [OF m]
      fixed_less [OF d])
  also have "\<dots> \<longleftrightarrow> y < y' \<or> y = y' \<and> (m < m' \<or> m = m' \<and> d < d')"
  proof -
    have "nat y < nat y' \<longleftrightarrow> y < y'" "nat m < nat m' \<longleftrightarrow> m < m'" "nat d < nat d' \<longleftrightarrow> d < d'"
      "nat y = nat y' \<longleftrightarrow> y = y'" "nat m = nat m' \<longleftrightarrow> m = m'"
      using b by linarith+
    then show ?thesis by simp
  qed
  also have "\<dots> \<longleftrightarrow> civil_day y m d < civil_day y' m' d'"
    using assms by (intro valid_civil_day_order [symmetric]) (auto simp: iso_valid_def)
  finally show ?thesis .
qed

lemma date_less_iff:
  "IsValidIsoDate s \<Longrightarrow> IsValidIsoDate t \<Longrightarrow> s < t \<longleftrightarrow> day_number s < day_number t"
  by (auto elim!: IsValidIsoDateE simp: iso_date_less)

lemma day_number_inject:
  "IsValidIsoDate s \<Longrightarrow> IsValidIsoDate t \<Longrightarrow> day_number s = day_number t \<longleftrightarrow> s = t"
  using date_less_iff [of s t] date_less_iff [of t s]
  by (cases s t rule: linorder_cases) auto

lemma date_le_iff:
  "IsValidIsoDate s \<Longrightarrow> IsValidIsoDate t \<Longrightarrow> s \<le> t \<longleftrightarrow> day_number s \<le> day_number t"
  using date_less_iff [of t s] by (simp add: not_less [symmetric])

lemma CompareIsoDates_simps [simp]:
  "CompareIsoDates s t < 0 \<longleftrightarrow> s < t" "0 < CompareIsoDates s t \<longleftrightarrow> t < s"
  "CompareIsoDates s t \<le> 0 \<longleftrightarrow> s \<le> t" "0 \<le> CompareIsoDates s t \<longleftrightarrow> t \<le> s"
  "CompareIsoDates s t = 0 \<longleftrightarrow> s = t"
  by (auto simp: CompareIsoDates_def)

section \<open>Days between\<close>

lemma go_div_nonneg [simp]: "0 \<le> a \<Longrightarrow> 0 < b \<Longrightarrow> go_div a b = a div b"
  by (cases "a = 0") (auto simp: go_div_def)

lemma go_mod_nonneg [simp]: "0 \<le> a \<Longrightarrow> 0 < b \<Longrightarrow> go_mod a b = a mod b"
  by (simp add: go_mod_def minus_mult_div_eq_mod)

lemma floorDiv_12: "floorDiv a 12 = a div 12"
proof (cases "0 \<le> a")
  case True
  then show ?thesis by (simp add: floorDiv_def Let_def)
next
  case False
  define q r where "q = (- a) div 12" and "r = (- a) mod 12"
  have a: "- a = 12 * q + r" "0 \<le> r" "r < 12"
    by (simp_all add: q_def r_def)
  have "go_div a 12 = - q" and "go_mod a 12 = - r"
    using False a by (simp_all add: go_div_def go_mod_def q_def)
  moreover have "a div 12 = (if r = 0 then - q else - q - 1)"
    using a by (auto intro: int_div_pos_eq [where r = "if r = 0 then 0 else 12 - r"])
  ultimately show ?thesis
    using False by (simp add: floorDiv_def Let_def)
qed

lemma go_mod_12: "go_mod (go_mod a 12 + 12) 12 = a mod 12"
proof -
  have "- 12 < go_mod a 12"
  proof (cases "0 \<le> a")
    case True
    then show ?thesis
      using pos_mod_sign [of 12 a] by simp
  next
    case False
    then have "go_mod a 12 = - ((- a) mod 12)"
      by (simp add: go_mod_def go_div_def minus_mult_div_eq_mod [symmetric])
    then show ?thesis
      using pos_mod_bound [of 12 "- a"] by linarith
  qed
  then have "go_mod (go_mod a 12 + 12) 12 = (go_mod a 12 + 12) mod 12"
    by simp
  also have "\<dots> = (a + 12 * (1 - go_div a 12)) mod 12"
    by (rule arg_cong [where f = "\<lambda>x. x mod 12"]) (simp add: go_mod_def algebra_simps)
  also have "\<dots> = a mod 12" by (rule mod_mult_self2)
  finally show ?thesis .
qed

text \<open>
  Hinnant's \<open>daysFromCivil\<close> is the day number for every date from 0000-03-01 on.  The source
  divides with truncation where the algorithm needs floor division, which only matters for the
  first two months of year 0.
\<close>

lemma days_before_march: "3 \<le> m \<Longrightarrow> m \<le> 12 \<Longrightarrow>
    days_before_month y m = (153 * (m - 3) + 2) div 5 + 59 + (if is_leap y then 1 else 0)"
  using month_cases [of m] by (auto simp: month_simps)

lemma daysFromCivil_eq:
  fixes y m d :: int
  defines "Y \<equiv> (if m \<le> 2 then y - 1 else y)" and "M \<equiv> (if m \<le> 2 then m + 12 else m)"
  assumes Y: "0 \<le> Y" and M: "3 \<le> M"
  shows "daysFromCivil y m d =
    365 * Y + Y div 4 - Y div 100 + Y div 400 + (153 * (M - 3) + 2) div 5 + d - 1 - 719468"
proof -
  define e z where "e = Y div 400" and "z = Y mod 400"
  have Yez: "Y = 400 * e + z" "0 \<le> z" "z < 400" "0 \<le> e"
    using Y by (simp_all add: e_def z_def pos_imp_zdiv_nonneg_iff)
  have q: "Y div 4 = 100 * e + z div 4" "Y div 100 = 4 * e + z div 100"
    unfolding Yez(1) by simp_all
  have "daysFromCivil y m d =
      go_div Y 400 * 146097 + ((Y - go_div Y 400 * 400) * 365 + go_div (Y - go_div Y 400 * 400) 4 -
        go_div (Y - go_div Y 400 * 400) 100 + (go_div (153 * (M - 3) + 2) 5 + d - 1)) - 719468"
    by (simp add: daysFromCivil_def Y_def M_def Let_def)
  also have "go_div Y 400 = e"
    using Y by (simp add: e_def)
  also have "Y - e * 400 = z"
    using Yez by simp
  finally show ?thesis
    using Yez M q by simp
qed

lemma daysFromCivil_civil_day:
  assumes v: "valid_civil y m d" and y: "1 \<le> y \<or> y = 0 \<and> 3 \<le> m"
  shows "daysFromCivil y m d = civil_day y m d"
proof (cases "m \<le> 2")
  case True
  then have "m = 1 \<or> m = 2" "1 \<le> y" using v y by (auto simp: valid_civil_def)
  then show ?thesis
    using daysFromCivil_eq [of m y d]
    by (elim disjE) (simp_all add: civil_day_def days_before_year_def month_simps)
next
  case False
  then have m: "3 \<le> m" "m \<le> 12" using v by (auto simp: valid_civil_def)
  have "daysFromCivil y m d =
      365 * y + y div 4 - y div 100 + y div 400 + (153 * (m - 3) + 2) div 5 + d - 1 - 719468"
    using daysFromCivil_eq [of m y d] False y m by auto
  moreover have "days_before_year y = 365 * (y - 1969) + y div 4 - y div 100 + y div 400 - 477 -
      (if is_leap y then 366 else 365)"
    using days_before_year_Suc [of y] unfolding days_before_year_def [of "y + 1"] by simp
  ultimately show ?thesis
    unfolding civil_day_def days_before_march [OF m] by simp
qed

text \<open>The dates on which the algorithm is right: 0000-03-01 and later.\<close>

definition march_date :: "string \<Rightarrow> bool" where
  "march_date s \<longleftrightarrow> IsValidIsoDate s \<and> ''0000-03-01'' \<le> s"

lemma march_dateE:
  assumes "march_date s"
  obtains y m d where "iso_valid y m d" "s = iso_date y m d" "1 \<le> y \<or> y = 0 \<and> 3 \<le> m"
proof -
  obtain y m d where v: "iso_valid y m d" and s: "s = iso_date y m d"
    using assms by (auto simp: march_date_def elim: IsValidIsoDateE)
  have v3: "iso_valid 0 3 1" and i3: "iso_date 0 3 1 = ''0000-03-01''"
    by code_simp+
  have "iso_date 0 3 1 \<le> iso_date y m d"
    unfolding i3 using assms s by (simp add: march_date_def)
  then have "civil_day 0 3 1 \<le> civil_day y m d"
    using date_le_iff [of "iso_date 0 3 1" "iso_date y m d"] v v3 by simp
  then have "\<not> (y < 0 \<or> y = 0 \<and> (m < 3 \<or> m = 3 \<and> d < 1))"
    using valid_civil_day_order [of y m d 0 3 1] v v3 by (auto simp: iso_valid_def)
  then have "1 \<le> y \<or> y = 0 \<and> 3 \<le> m"
    using v by (auto simp: iso_valid_def)
  with that v s show ?thesis by blast
qed

lemma DaysBetween_march:
  assumes "march_date s" "march_date t"
  shows "DaysBetween s t = Some (day_number t - day_number s)"
proof -
  obtain y m d where s: "iso_valid y m d" "s = iso_date y m d" "1 \<le> y \<or> y = 0 \<and> 3 \<le> m"
    using assms(1) by (rule march_dateE)
  obtain y' m' d' where t: "iso_valid y' m' d'" "t = iso_date y' m' d'" "1 \<le> y' \<or> y' = 0 \<and> 3 \<le> m'"
    using assms(2) by (rule march_dateE)
  show ?thesis
    using s t by (simp add: DaysBetween_def daysFromCivil_civil_day iso_valid_def)
qed

section \<open>Month arithmetic\<close>

lemma daysInMonth_month_length:
  assumes "1 \<le> m" "m \<le> 12"
  shows "daysInMonth y m = month_length y m"
proof -
  have "valid_civil y m (month_length y m)"
    using month_length_bounds [OF assms, of y] assms by (simp add: valid_civil_def)
  then show ?thesis
    by (simp add: daysInMonth_def go_Date_last_day [OF assms] civil_of_civil_day)
qed

text \<open>
  \<open>AddMonthsClamped\<close> moves by whole months and clamps the day to the month it lands in.
\<close>

definition month_shift :: "int \<Rightarrow> int \<Rightarrow> int \<Rightarrow> int \<Rightarrow> int \<times> int \<times> int" where
  "month_shift y m d n =
     (let i = m - 1 + n; y' = y + i div 12; m' = i mod 12 + 1
      in (y', m', min d (month_length y' m')))"

lemma month_shift_valid:
  assumes "1 \<le> d" "month_shift y m d n = (y', m', d')"
  shows "valid_civil y' m' d'"
proof -
  have m: "m' = (m - 1 + n) mod 12 + 1" and d: "d' = min d (month_length y' m')"
    using assms(2) by (auto simp: month_shift_def Let_def)
  have "1 \<le> m'" "m' \<le> 12"
    unfolding m using pos_mod_sign [of 12 "m - 1 + n"] pos_mod_bound [of 12 "m - 1 + n"] by linarith+
  then show ?thesis
    using assms(1) d month_length_bounds [of m' y'] by (simp add: valid_civil_def)
qed

lemma AddMonthsClamped_shift:
  assumes v: "iso_valid y m d" and sh: "month_shift y m d n = (y', m', d')"
    and y': "0 \<le> y'" "y' \<le> 9999"
  shows "AddMonthsClamped (iso_date y m d) n = Some (iso_date y' m' d')" "iso_valid y' m' d'"
proof -
  note b = iso_valid_bounds [OF v]
  have v': "valid_civil y' m' d'"
    using month_shift_valid [OF _ sh] b by simp
  then show iv: "iso_valid y' m' d'"
    using y' by (simp add: iso_valid_def)
  note b' = iso_valid_bounds [OF iv]
  have e: "y' = y + (m - 1 + n) div 12" "m' = (m - 1 + n) mod 12 + 1"
    "d' = (if month_length y' m' < d then month_length y' m' else d)"
    using sh by (auto simp: month_shift_def Let_def)
  have dim: "daysInMonth y' m' = month_length y' m'"
    using v' by (simp add: daysInMonth_month_length valid_civil_def)
  have "AddMonthsClamped (iso_date y m d) n =
      Some (sprintf_0d 4 y' @ CHR ''-'' # sprintf_0d 2 m' @ CHR ''-'' #
        sprintf_0d 2 (if daysInMonth y' m' < d then daysInMonth y' m' else d))"
    by (simp add: AddMonthsClamped_def v floorDiv_12 go_mod_12 Let_def e(1,2))
  also have "(if daysInMonth y' m' < d then daysInMonth y' m' else d) = d'"
    using dim e(3) by simp
  finally show "AddMonthsClamped (iso_date y m d) n = Some (iso_date y' m' d')"
    using b' by (simp add: iso_date_def sprintf_0d_fixed)
qed

lemma add_days_valid:
  assumes "IsValidIsoDate s" "IsValidIsoDate t" "day_number t = day_number s + n"
  shows "add_days s n = Some t"
proof -
  obtain y m d where t: "iso_valid y m d" "t = iso_date y m d"
    using assms(2) by (rule IsValidIsoDateE)
  then have "(86400 * day_number s + 86400 * n) div 86400 = civil_day y m d"
    using assms(3) t by (simp add: algebra_simps)
  then have "FormatIsoDate (86400 * day_number s + 86400 * n) = t"
    unfolding t(2) by (rule FormatIsoDate_civil [OF t(1)])
  then show ?thesis
    by (simp add: add_days_def shift_days_def MustParse_day_number [OF assms(1)])
qed

end
