(* ===== verification/Date_Properties.thy ===== *)
theory Date_Properties
  imports Date_Laws
begin

text \<open>
  The properties of \<open>dates.go\<close>: parsing and formatting are inverse, the string order and the day
  count agree with the calendar, and month arithmetic clamps to the end of the month.
\<close>

lemma FormatIsoDate_year:
  assumes "- 62167219200 \<le> u" "u < 253402300800"
  obtains y m d where "iso_valid y m d" "u div 86400 = civil_day y m d" "FormatIsoDate u = iso_date y m d"
proof -
  obtain y m d where c: "civil_of_day (u div 86400) = (y, m, d)"
    using prod_cases3 by blast
  note v = civil_day_of_day [OF c]
  have lo: "civil_day 0 1 1 = - 719528" and hi: "civil_day 9999 12 31 = 2932896"
    by code_simp+
  have "- 719528 \<le> u div 86400" "u div 86400 \<le> 2932896"
    using assms by linarith+
  then have "\<not> civil_day y m d < civil_day 0 1 1" "\<not> civil_day 9999 12 31 < civil_day y m d"
    using v lo hi by auto
  moreover have "valid_civil 0 1 1" "valid_civil 9999 12 31"
    by code_simp+
  ultimately have "0 \<le> y" "y \<le> 9999"
    using valid_civil_day_order v by (metis not_less)+
  then have "iso_valid y m d"
    using v by (simp add: iso_valid_def)
  then show ?thesis
    using that [of y m d] FormatIsoDate_civil v by metis
qed

text \<open>
  C37. Formatting and parsing dates are inverse to each other.  Every instant of the years 0 to
  9999 is formatted as a date that parses back to the midnight of its day, and the day-close
  instant is the last second of that day; every date that parses is what its midnight formats to.
\<close>

theorem iso_dates_roundtrip:
  assumes "- 62167219200 \<le> u" "u < 253402300800"
  shows "(\<exists>t. MustParseIsoDate (FormatIsoDate u) = Some t \<and> t \<le> u \<and> u < t + 86400 \<and>
      midnightUnix (FormatIsoDate u) = Some t \<and> dayCloseUnix (FormatIsoDate u) = Some (t + 86399)) \<and>
    (\<forall>s t. MustParseIsoDate s = Some t \<longrightarrow> FormatIsoDate t = s)"
proof
  obtain y m d where d: "iso_valid y m d" "u div 86400 = civil_day y m d" "FormatIsoDate u = iso_date y m d"
    using FormatIsoDate_year [OF assms] .
  have "86400 * civil_day y m d \<le> u" "u < 86400 * civil_day y m d + 86400"
    unfolding d(2) [symmetric] by linarith+
  then show "\<exists>t. MustParseIsoDate (FormatIsoDate u) = Some t \<and> t \<le> u \<and> u < t + 86400 \<and>
      midnightUnix (FormatIsoDate u) = Some t \<and> dayCloseUnix (FormatIsoDate u) = Some (t + 86399)"
    using d by (simp add: midnightUnix_valid dayCloseUnix_valid)
  show "\<forall>s t. MustParseIsoDate s = Some t \<longrightarrow> FormatIsoDate t = s"
  proof (intro allI impI)
    fix s t assume t: "MustParseIsoDate s = Some t"
    then have "IsValidIsoDate s"
      by (auto simp: MustParseIsoDate_def IsValidIsoDate_def split: sum.splits)
    then obtain y m d where s: "iso_valid y m d" "s = iso_date y m d"
      by (rule IsValidIsoDateE)
    with t show "FormatIsoDate t = s"
      using FormatIsoDate_civil [OF s(1), of t] by auto
  qed
qed

lemma iso_dates_roundtrip_witness:
  "(\<exists>t. MustParseIsoDate (FormatIsoDate 951827696) = Some t \<and> t \<le> 951827696 \<and> 951827696 < t + 86400 \<and>
      midnightUnix (FormatIsoDate 951827696) = Some t \<and> dayCloseUnix (FormatIsoDate 951827696) = Some (t + 86399))"
  using iso_dates_roundtrip [of 951827696] by simp

text \<open>
  The day count is right from 0000-03-01 on: between two valid dates \<open>DaysBetween\<close> gives the
  number of days \<open>add_days\<close> has to go to get from one to the other, so it is the distance of their
  midnights in days, and its sign is that of the string comparison.
\<close>

theorem DaysBetween_counts_days:
  assumes "march_date s" "march_date t"
  shows "\<exists>n a b. DaysBetween s t = Some n \<and> add_days s n = Some t \<and>
    MustParseIsoDate s = Some a \<and> MustParseIsoDate t = Some b \<and> b - a = 86400 * n \<and>
    (CompareIsoDates s t < 0 \<longleftrightarrow> 0 < n) \<and> (CompareIsoDates s t = 0 \<longleftrightarrow> n = 0)"
proof -
  have v: "IsValidIsoDate s" "IsValidIsoDate t"
    using assms by (simp_all add: march_date_def)
  show ?thesis
    using add_days_valid [OF v, of "day_number t - day_number s"] MustParse_day_number [OF v(1)]
      MustParse_day_number [OF v(2)] date_less_iff [OF v] day_number_inject [OF v(2,1)]
    by (auto simp: DaysBetween_march [OF assms])
qed

lemma DaysBetween_counts_days_witness:
  "DaysBetween ''2024-02-28'' ''2024-03-01'' = Some 2 \<and> add_days ''2024-02-28'' 2 = Some ''2024-03-01''"
proof -
  have "march_date ''2024-02-28''" "march_date ''2024-03-01''" "DaysBetween ''2024-02-28'' ''2024-03-01'' = Some 2"
    by code_simp+
  then show ?thesis
    using DaysBetween_counts_days [of "''2024-02-28''" "''2024-03-01''"] by auto
qed

text \<open>
  \<open>AddMonthsClamped\<close> counts months from year zero, moves by the given number, forward or
  back, and keeps the day of the month unless the month it lands in is shorter, then takes its
  last day.  The result is a valid date.
\<close>

theorem AddMonthsClamped_months:
  assumes "iso_valid y m d" "0 \<le> 12 * y + (m - 1) + n" "12 * y + (m - 1) + n < 120000"
  shows "let i = 12 * y + (m - 1) + n; y' = i div 12; m' = i mod 12 + 1; d' = min d (month_length y' m')
    in AddMonthsClamped (iso_date y m d) n = Some (iso_date y' m' d') \<and> IsValidIsoDate (iso_date y' m' d')"
proof -
  define i where "i = 12 * y + (m - 1) + n"
  have i: "y + (m - 1 + n) div 12 = i div 12" "(m - 1 + n) mod 12 = i mod 12"
    by (simp_all add: i_def add.assoc)
  have "month_shift y m d n = (i div 12, i mod 12 + 1, min d (month_length (i div 12) (i mod 12 + 1)))"
    by (simp add: month_shift_def i Let_def)
  moreover have "0 \<le> i div 12" "i div 12 \<le> 9999"
    using assms(2,3) by (simp_all add: i_def)
  ultimately have "AddMonthsClamped (iso_date y m d) n =
      Some (iso_date (i div 12) (i mod 12 + 1) (min d (month_length (i div 12) (i mod 12 + 1))))"
      "iso_valid (i div 12) (i mod 12 + 1) (min d (month_length (i div 12) (i mod 12 + 1)))"
    using AddMonthsClamped_shift [OF assms(1)] by blast+
  then show ?thesis
    by (simp add: Let_def flip: i_def)
qed

lemma AddMonthsClamped_months_witness:
  "AddMonthsClamped (iso_date 2024 1 31) 13 = Some (iso_date 2025 2 28)"
proof -
  have v: "iso_valid 2024 1 31" and l: "month_length 2025 2 = 28" by code_simp+
  have "AddMonthsClamped (iso_date 2024 1 31) 13 = Some (iso_date 2025 2 (min 31 (month_length 2025 2)))"
    using AddMonthsClamped_months [OF v, of 13] by (simp add: Let_def)
  then show ?thesis by (simp add: l)
qed

text \<open>
  Before 0000-03-01 the truncating division is off by one: there are 30 days between these two
  dates, as adding 30 days shows.
\<close>

theorem DaysBetween_year_zero:
  "DaysBetween ''0000-01-31'' ''0000-03-01'' = Some 29 \<and> add_days ''0000-01-31'' 30 = Some ''0000-03-01''"
proof -
  have "DaysBetween ''0000-01-31'' ''0000-03-01'' = Some 29"
    by code_simp
  moreover have "add_days ''0000-01-31'' 30 = Some ''0000-03-01''"
    by code_simp
  ultimately show ?thesis by simp
qed

end
