(* ===== verification/Float64.thy ===== *)
theory Float64
  imports Prelude "HOL-Library.Log_Nat"
begin

text \<open>
  Go's \<open>float64\<close>: IEEE 754 binary64 with round to nearest, ties to even, as an executable
  type.  A finite value is kept as the rational number it denotes; every arithmetic operation
  computes the exact rational result and rounds it with \<open>f64_of_rat\<close>.  The two zeros are
  identified (they compare equal in Go; the sign of a zero only shows in a division by zero
  or when printed, and the modelled code does neither).  A fused multiply-add, which the Go
  language permits on some architectures and which amd64 does not use, is not modelled.

  The lemmas give what the money code relies on: rounding is monotone, exact on whole numbers
  up to \<open>2 ^ 53\<close>, idempotent and odd; so comparisons, \<open>math.Min\<close> and \<open>math.Max\<close> need no
  rounding argument, and amounts in whole units add and subtract exactly.
\<close>

section \<open>Powers of two and the binary logarithm\<close>

definition p2 :: "int \<Rightarrow> rat" where
  "p2 k = (if 0 \<le> k then 2 ^ nat k else 1 / 2 ^ nat (- k))"

lemma p2_powi: "p2 k = 2 powi k"
  by (simp add: p2_def power_int_def field_simps)

lemma p2_pos [simp]: "0 < p2 k"
  by (simp add: p2_def)

lemma p2_nonzero [simp]: "p2 k \<noteq> 0"
  by (simp add: p2_def)

lemma p2_nonneg [simp]: "0 \<le> p2 k" and abs_p2 [simp]: "\<bar>p2 k\<bar> = p2 k"
  by (simp_all add: less_imp_le)

lemma p2_add: "p2 (j + k) = p2 j * p2 k"
  by (simp add: p2_powi power_int_add)

lemma p2_diff: "p2 (j - k) = p2 j / p2 k"
  by (simp add: p2_powi power_int_diff)

lemma p2_mono: "j \<le> k \<Longrightarrow> p2 j \<le> p2 k"
  by (simp add: p2_powi power_int_increasing)

lemma p2_strict_mono: "j < k \<Longrightarrow> p2 j < p2 k"
  by (simp add: p2_powi power_int_strict_increasing)

lemma p2_le_iff [simp]: "p2 j \<le> p2 k \<longleftrightarrow> j \<le> k"
  using p2_mono p2_strict_mono by (meson linorder_not_le)

lemma p2_less_iff [simp]: "p2 j < p2 k \<longleftrightarrow> j < k"
  using p2_mono p2_strict_mono by (meson linorder_not_le)

lemma p2_nonneg_of_int: "0 \<le> k \<Longrightarrow> p2 k = of_int (2 ^ nat k)"
  by (simp add: p2_def)

lemma p2_numeral [simp]:
  "p2 0 = 1" "p2 1 = 2" "p2 52 = 4503599627370496" "p2 53 = 9007199254740992"
  by (simp_all add: p2_def)

definition rat_log2 :: "rat \<Rightarrow> int" where
  "rat_log2 x =
     (let (n, d) = quotient_of x; k = bitlen n - bitlen d
      in if p2 k \<le> x then k else k - 1)"

lemma bitlen_p2:
  assumes "0 < n"
  shows "p2 (bitlen n - 1) \<le> of_int n" "of_int n < p2 (bitlen n)"
proof -
  have pos: "0 < bitlen n"
    using assms by (metis bitlen_bounds bitlen_nonneg bitlen_eq_zero_iff linorder_not_less order_le_less)
  have b: "2 ^ nat (bitlen n - 1) \<le> n" "n < 2 ^ nat (bitlen n)"
    using bitlen_bounds [OF assms] by auto
  have "(of_int (2 ^ nat (bitlen n - 1)) :: rat) \<le> of_int n"
    using b(1) by (rule iffD2 [OF of_int_le_iff])
  then show "p2 (bitlen n - 1) \<le> of_int n"
    using pos by (simp add: p2_nonneg_of_int)
  have "(of_int n :: rat) < of_int (2 ^ nat (bitlen n))"
    using b(2) by (rule iffD2 [OF of_int_less_iff])
  then show "of_int n < p2 (bitlen n)"
    using pos by (simp add: p2_nonneg_of_int)
qed

lemma rat_log2:
  assumes "0 < x"
  shows "p2 (rat_log2 x) \<le> x" "x < p2 (rat_log2 x + 1)"
proof -
  obtain n d where nd: "quotient_of x = (n, d)"
    by (cases "quotient_of x")
  have d: "0 < d" and x: "x = of_int n / of_int d"
    using nd quotient_of_denom_pos quotient_of_div by blast+
  then have n: "0 < n"
    using assms by (simp add: zero_less_divide_iff)
  define a b where "a = bitlen n" and "b = bitlen d"
  note n2 = bitlen_p2 [OF n, folded a_def] and d2 = bitlen_p2 [OF d, folded b_def]
  have lo: "p2 (a - b - 1) \<le> x"
  proof -
    have "p2 (a - b - 1) = p2 (a - 1) / p2 b"
      by (simp flip: p2_diff add: algebra_simps)
    also have "\<dots> \<le> of_int n / of_int d"
      using n n2 d2 d by (intro frac_le) auto
    finally show ?thesis using x by simp
  qed
  have hi: "x < p2 (a - b + 1)"
  proof -
    have "of_int n / of_int d < p2 a / p2 (b - 1)"
      using n2 d2 d n by (intro frac_less) auto
    also have "\<dots> = p2 (a - b + 1)"
      by (simp flip: p2_diff add: algebra_simps)
    finally show ?thesis using x by simp
  qed
  show "p2 (rat_log2 x) \<le> x" "x < p2 (rat_log2 x + 1)"
    using lo hi by (auto simp: rat_log2_def nd a_def b_def Let_def)
qed

lemma rat_log2_ge: "0 < x \<Longrightarrow> p2 k \<le> x \<Longrightarrow> k \<le> rat_log2 x"
  using rat_log2(2) [of x] by (smt (verit) p2_le_iff le_less_trans p2_less_iff)

lemma rat_log2_lt: "0 < x \<Longrightarrow> x < p2 k \<Longrightarrow> rat_log2 x < k"
  using rat_log2(1) [of x] by (meson le_less_trans p2_less_iff)

lemma rat_log2_mono: "0 < x \<Longrightarrow> x \<le> y \<Longrightarrow> rat_log2 x \<le> rat_log2 y"
  using rat_log2(1) [of x] by (intro rat_log2_ge) auto

section \<open>Rounding to an integer, half to even\<close>

definition round_half_even :: "rat \<Rightarrow> int" where
  "round_half_even x =
     (let f = \<lfloor>x\<rfloor>; r = x - of_int f
      in if r < 1 / 2 then f else if 1 / 2 < r then f + 1 else if even f then f else f + 1)"

lemma round_half_even_of_int [simp]: "round_half_even (of_int n) = n"
  by (simp add: round_half_even_def)

lemma round_half_even_bounds:
  "\<lfloor>x\<rfloor> \<le> round_half_even x" "round_half_even x \<le> \<lfloor>x\<rfloor> + 1"
  by (auto simp: round_half_even_def Let_def)

lemma round_half_even_mono: "x \<le> y \<Longrightarrow> round_half_even x \<le> round_half_even y"
proof (cases "\<lfloor>x\<rfloor> = \<lfloor>y\<rfloor>")
  case True
  assume "x \<le> y"
  with True show ?thesis
    by (auto simp: round_half_even_def Let_def)
next
  case False
  assume "x \<le> y"
  then have "\<lfloor>x\<rfloor> + 1 \<le> \<lfloor>y\<rfloor>"
    using False floor_mono [of x y] by linarith
  then show ?thesis
    using round_half_even_bounds [of x] round_half_even_bounds [of y] by linarith
qed

lemma round_half_even_minus: "round_half_even (- x) = - round_half_even x"
proof (cases "x = of_int \<lfloor>x\<rfloor>")
  case True
  then obtain n where "x = of_int n" by blast
  then show ?thesis
    by (metis of_int_minus round_half_even_of_int)
next
  case False
  define f where "f = \<lfloor>x\<rfloor>"
  have f: "of_int f < x" "x < of_int f + 1"
    using False f_def of_int_floor_le [of x] floor_less_iff [of x "f + 1"]
    by (auto simp: le_less)
  have m: "\<lfloor>- x\<rfloor> = - f - 1"
    using f by (intro floor_unique) auto
  have "- x - of_int (- f - 1) = 1 - (x - of_int f)"
    by simp
  then show ?thesis
    using m unfolding round_half_even_def Let_def f_def [symmetric] by auto
qed

section \<open>Rounding to 53 significant bits\<close>

definition ulp_exp :: "rat \<Rightarrow> int" where
  "ulp_exp x = max (- 1074) (rat_log2 \<bar>x\<bar> - 52)"

definition rnd :: "rat \<Rightarrow> rat" where
  "rnd x =
     (if x = 0 then 0
      else let e = ulp_exp x in of_int (round_half_even (x / p2 e)) * p2 e)"

lemma rnd_0 [simp]: "rnd 0 = 0"
  by (simp add: rnd_def)

lemma rnd_minus: "rnd (- x) = - rnd x"
  by (simp add: rnd_def ulp_exp_def round_half_even_minus Let_def)

lemma rnd_nonneg: "0 \<le> x \<Longrightarrow> 0 \<le> rnd x"
  using round_half_even_mono [of 0 "x / p2 (ulp_exp x)"] round_half_even_of_int [of 0]
  by (auto simp: rnd_def Let_def intro!: mult_nonneg_nonneg)

text \<open>A grid point of a grid coarse enough for its size is a fixed point.\<close>

lemma rnd_grid:
  assumes m: "\<bar>m\<bar> \<le> 2 ^ 53" and e: "- 1074 \<le> e" and x: "x = of_int m * p2 e"
  shows "rnd x = x"
proof (cases "x = 0")
  case False
  then have m0: "m \<noteq> 0" using x by auto
  have ax: "\<bar>x\<bar> = of_int \<bar>m\<bar> * p2 e"
    by (simp add: x abs_mult)
  define u where "u = ulp_exp x"
  have "\<exists>k. x / p2 u = of_int k"
  proof (cases "\<bar>m\<bar> = 2 ^ 53")
    case True
    have "\<bar>x\<bar> = p2 (e + 53)"
      using ax True by (simp add: p2_add)
    then have "rat_log2 \<bar>x\<bar> = e + 53"
      using rat_log2_ge [of "\<bar>x\<bar>" "e + 53"] rat_log2_lt [of "\<bar>x\<bar>" "e + 54"] by simp
    then have "u = e + 1"
      using e by (simp add: u_def ulp_exp_def)
    moreover have "even m" using True by (metis even_abs_add_iff even_numeral even_power abs_0 add.right_neutral zero_less_numeral even_add)
    then obtain k where "m = 2 * k" by blast
    ultimately have "x / p2 u = of_int k"
      by (simp add: x p2_add)
    then show ?thesis by blast
  next
    case False
    with m have "\<bar>m\<bar> < 2 ^ 53" by simp
    then have "(of_int \<bar>m\<bar> :: rat) < of_int (2 ^ 53)"
      by (rule iffD2 [OF of_int_less_iff])
    then have "\<bar>x\<bar> < p2 (e + 53)"
      using ax by (simp add: p2_add)
    then have "rat_log2 \<bar>x\<bar> < e + 53"
      using \<open>x \<noteq> 0\<close> by (intro rat_log2_lt) auto
    then have "u \<le> e"
      using e by (simp add: u_def ulp_exp_def)
    then have "x / p2 u = of_int (m * 2 ^ nat (e - u))"
      by (simp add: x p2_nonneg_of_int flip: p2_diff times_divide_eq_right)
    then show ?thesis by blast
  qed
  then obtain k where "x / p2 u = of_int k" by blast
  then have "of_int (round_half_even (x / p2 u)) * p2 u = x"
    by (simp add: field_simps)
  then show ?thesis
    using False by (simp add: rnd_def u_def Let_def)
qed simp

lemma rnd_on_grid:
  obtains m where "\<bar>m\<bar> \<le> 2 ^ 53" "rnd x = of_int m * p2 (ulp_exp x)" "- 1074 \<le> ulp_exp x"
proof (cases "x = 0")
  case True
  then show ?thesis using that [of 0] by (simp add: ulp_exp_def)
next
  case False
  let ?e = "ulp_exp x"
  have "\<bar>x\<bar> < p2 (rat_log2 \<bar>x\<bar> + 1)"
    using False by (intro rat_log2) auto
  also have "\<dots> \<le> p2 (?e + 53)"
    by (simp add: ulp_exp_def)
  finally have "\<bar>x / p2 ?e\<bar> \<le> of_int (2 ^ 53)"
    by (simp add: p2_add abs_divide divide_le_eq)
  then have "- of_int (2 ^ 53) \<le> x / p2 ?e" "x / p2 ?e \<le> of_int (2 ^ 53)"
    unfolding abs_le_iff by (linarith, linarith)
  then have "round_half_even (of_int (- (2 ^ 53))) \<le> round_half_even (x / p2 ?e)"
      "round_half_even (x / p2 ?e) \<le> round_half_even (of_int (2 ^ 53))"
    by (auto intro!: round_half_even_mono)
  then have "\<bar>round_half_even (x / p2 ?e)\<bar> \<le> 2 ^ 53"
    by (simp only: round_half_even_of_int)
  then show ?thesis
    using that [of "round_half_even (x / p2 ?e)"] False
    by (simp add: rnd_def Let_def ulp_exp_def)
qed

lemma rnd_idem [simp]: "rnd (rnd x) = rnd x"
  by (metis rnd_on_grid rnd_grid)

lemma rnd_of_int: "\<bar>n\<bar> \<le> 2 ^ 53 \<Longrightarrow> rnd (of_int n) = of_int n"
  by (rule rnd_grid [of n 0]) (simp_all add: p2_def)

lemma rnd_mono_pos:
  assumes "0 < x" "x \<le> y"
  shows "rnd x \<le> rnd y"
proof -
  have "0 < y" using assms by simp
  define a b where "a = ulp_exp x" and "b = ulp_exp y"
  have rx: "rnd x = of_int (round_half_even (x / p2 a)) * p2 a"
    and ry: "rnd y = of_int (round_half_even (y / p2 b)) * p2 b"
    using assms \<open>0 < y\<close> by (auto simp: rnd_def Let_def a_def b_def)
  have "a \<le> b"
    using rat_log2_mono [of x y] assms by (auto simp: a_def b_def ulp_exp_def)
  show ?thesis
  proof (cases "a = b")
    case True
    have "x / p2 b \<le> y / p2 b"
      using assms by (intro divide_right_mono) auto
    then have "round_half_even (x / p2 b) \<le> round_half_even (y / p2 b)"
      by (rule round_half_even_mono)
    then show ?thesis
      unfolding rx ry True by (intro mult_right_mono) auto
  next
    case False
    with \<open>a \<le> b\<close> have "a < b" by simp
    then have b: "b = rat_log2 y - 52"
      using \<open>0 < y\<close> by (auto simp: a_def b_def ulp_exp_def)
    obtain m where m: "\<bar>m\<bar> \<le> 2 ^ 53" "rnd x = of_int m * p2 a"
      by (metis a_def rnd_on_grid)
    have "(of_int m :: rat) \<le> of_int (2 ^ 53)"
      using m(1) by (intro iffD2 [OF of_int_le_iff]) simp
    then have "rnd x \<le> of_int (2 ^ 53) * p2 a"
      unfolding m(2) by (intro mult_right_mono) auto
    also have "\<dots> = p2 (a + 53)"
      by (simp add: p2_add)
    also have "\<dots> \<le> p2 (b + 52)"
      using \<open>a < b\<close> by simp
    also have "\<dots> = of_int (2 ^ 52) * p2 b"
      by (simp add: p2_add)
    also have "\<dots> \<le> rnd y"
    proof -
      have "p2 (b + 52) \<le> y"
        using rat_log2(1) [of y] \<open>0 < y\<close> b by simp
      then have "of_int (2 ^ 52) \<le> y / p2 b"
        by (simp add: p2_add le_divide_eq)
      then have "round_half_even (of_int (2 ^ 52)) \<le> round_half_even (y / p2 b)"
        by (rule round_half_even_mono)
      then have "(of_int (2 ^ 52) :: rat) \<le> of_int (round_half_even (y / p2 b))"
        by (simp only: round_half_even_of_int of_int_le_iff)
      then show ?thesis
        unfolding ry by (rule mult_right_mono) simp
    qed
    finally show ?thesis .
  qed
qed

lemma rnd_mono: "x \<le> y \<Longrightarrow> rnd x \<le> rnd y"
proof -
  assume le: "x \<le> y"
  consider "0 < x" | "y < 0" | "x \<le> 0" "0 \<le> y" by linarith
  then show ?thesis
  proof cases
    case 1
    then show ?thesis using le by (rule rnd_mono_pos)
  next
    case 2
    then have "rnd (- y) \<le> rnd (- x)"
      using le by (intro rnd_mono_pos) auto
    then show ?thesis by (simp add: rnd_minus)
  next
    case 3
    then have "rnd x \<le> 0" "0 \<le> rnd y"
      using rnd_nonneg [of "- x"] rnd_nonneg [of y] by (auto simp: rnd_minus)
    then show ?thesis by simp
  qed
qed

section \<open>The type float64\<close>

text \<open>\<open>FInf True\<close> is \<open>-Inf\<close>, \<open>FInf False\<close> is \<open>+Inf\<close>.\<close>

datatype f64 = FNaN | FInf bool | FNum rat

definition f64_of_rat :: "rat \<Rightarrow> f64" where
  "f64_of_rat x = (let r = rnd x in if p2 1024 \<le> \<bar>r\<bar> then FInf (r < 0) else FNum r)"

definition f64_of_int :: "int \<Rightarrow> f64" where
  "f64_of_int n = f64_of_rat (of_int n)"

text \<open>The values a \<open>float64\<close> variable can hold.\<close>

fun wf64 :: "f64 \<Rightarrow> bool" where
  "wf64 (FNum r) \<longleftrightarrow> rnd r = r \<and> \<bar>r\<bar> < p2 1024"
| "wf64 _ \<longleftrightarrow> True"

fun isNaN :: "f64 \<Rightarrow> bool" where
  "isNaN FNaN \<longleftrightarrow> True"
| "isNaN _ \<longleftrightarrow> False"

fun isInf :: "f64 \<Rightarrow> bool" where
  "isInf (FInf _) \<longleftrightarrow> True"
| "isInf _ \<longleftrightarrow> False"

instantiation f64 :: "{zero, plus, minus, uminus, times, ord}"
begin

definition zero_f64 :: f64 where
  "0 = FNum 0"

fun uminus_f64 :: "f64 \<Rightarrow> f64" where
  "- FNaN = FNaN"
| "- FInf s = FInf (\<not> s)"
| "- FNum a = FNum (- a)"

fun plus_f64 :: "f64 \<Rightarrow> f64 \<Rightarrow> f64" where
  "FNum a + FNum b = f64_of_rat (a + b)"
| "FNum a + FInf t = FInf t"
| "FInf s + FNum b = FInf s"
| "FInf s + FInf t = (if s = t then FInf s else FNaN)"
| "FNaN + y = FNaN"
| "x + FNaN = FNaN"

definition minus_f64 :: "f64 \<Rightarrow> f64 \<Rightarrow> f64" where
  "x - y = x + (- y :: f64)"

fun times_f64 :: "f64 \<Rightarrow> f64 \<Rightarrow> f64" where
  "FNum a * FNum b = f64_of_rat (a * b)"
| "FNum a * FInf t = (if a = 0 then FNaN else FInf ((a < 0) \<noteq> t))"
| "FInf s * FNum b = (if b = 0 then FNaN else FInf (s \<noteq> (b < 0)))"
| "FInf s * FInf t = FInf (s \<noteq> t)"
| "FNaN * y = FNaN"
| "x * FNaN = FNaN"

fun less_eq_f64 :: "f64 \<Rightarrow> f64 \<Rightarrow> bool" where
  "FNum a \<le> FNum b \<longleftrightarrow> a \<le> b"
| "FNum a \<le> FInf t \<longleftrightarrow> \<not> t"
| "FInf s \<le> FNum b \<longleftrightarrow> s"
| "FInf s \<le> FInf t \<longleftrightarrow> s \<or> \<not> t"
| "FNaN \<le> y \<longleftrightarrow> False"
| "x \<le> FNaN \<longleftrightarrow> False"

fun less_f64 :: "f64 \<Rightarrow> f64 \<Rightarrow> bool" where
  "FNum a < FNum b \<longleftrightarrow> a < b"
| "FNum a < FInf t \<longleftrightarrow> \<not> t"
| "FInf s < FNum b \<longleftrightarrow> s"
| "FInf s < FInf t \<longleftrightarrow> s \<and> \<not> t"
| "FNaN < y \<longleftrightarrow> False"
| "x < FNaN \<longleftrightarrow> False"

instance ..

end

text \<open>\<open>x == y\<close> of Go: false when either is NaN.\<close>

definition feq :: "f64 \<Rightarrow> f64 \<Rightarrow> bool" where
  "feq x y \<longleftrightarrow> x \<noteq> FNaN \<and> x = y"

text \<open>
  Division.  The divisor zero is taken as \<open>+0\<close>; the modelled code never divides by zero.
\<close>

fun fdiv :: "f64 \<Rightarrow> f64 \<Rightarrow> f64" where
  "fdiv (FNum a) (FNum b) =
     (if b = 0 then (if a = 0 then FNaN else FInf (a < 0)) else f64_of_rat (a / b))"
| "fdiv (FNum a) (FInf t) = FNum 0"
| "fdiv (FInf s) (FNum b) = FInf (s \<noteq> (b < 0))"
| "fdiv (FInf s) (FInf t) = FNaN"
| "fdiv FNaN y = FNaN"
| "fdiv x FNaN = FNaN"

text \<open>\<open>math.Max\<close> and \<open>math.Min\<close>, in the order of their special cases.\<close>

definition math_Max :: "f64 \<Rightarrow> f64 \<Rightarrow> f64" where
  "math_Max x y =
     (if x = FInf False \<or> y = FInf False then FInf False
      else if isNaN x \<or> isNaN y then FNaN
      else if y < x then x else y)"

definition math_Min :: "f64 \<Rightarrow> f64 \<Rightarrow> f64" where
  "math_Min x y =
     (if x = FInf True \<or> y = FInf True then FInf True
      else if isNaN x \<or> isNaN y then FNaN
      else if x < y then x else y)"

fun math_Abs :: "f64 \<Rightarrow> f64" where
  "math_Abs FNaN = FNaN"
| "math_Abs (FInf s) = FInf False"
| "math_Abs (FNum a) = FNum \<bar>a\<bar>"

text \<open>\<open>math.Round\<close>: to the nearest whole number, halves away from zero.\<close>

definition round_half_away :: "rat \<Rightarrow> int" where
  "round_half_away x = (if x < 0 then - \<lfloor>- x + 1 / 2\<rfloor> else \<lfloor>x + 1 / 2\<rfloor>)"

fun math_Round :: "f64 \<Rightarrow> f64" where
  "math_Round FNaN = FNaN"
| "math_Round (FInf s) = FInf s"
| "math_Round (FNum a) = FNum (of_int (round_half_away a))"

section \<open>Laws\<close>

lemma f64_zero_simps [simp]:
  "(0 :: f64) \<le> FNum b \<longleftrightarrow> 0 \<le> b" "(0 :: f64) < FNum b \<longleftrightarrow> 0 < b"
  "FNum b \<le> 0 \<longleftrightarrow> b \<le> 0" "FNum b < 0 \<longleftrightarrow> b < 0"
  "(0 :: f64) = FNum b \<longleftrightarrow> b = 0" "FNum b = 0 \<longleftrightarrow> b = 0"
  "(0 :: f64) \<noteq> FNaN" "(0 :: f64) \<noteq> FInf t" "FNaN \<noteq> (0 :: f64)" "FInf t \<noteq> (0 :: f64)"
  "(0 :: f64) \<le> FInf t \<longleftrightarrow> \<not> t" "(0 :: f64) < FInf t \<longleftrightarrow> \<not> t"
  "FInf t \<le> 0 \<longleftrightarrow> t" "FInf t < 0 \<longleftrightarrow> t" "\<not> FNaN \<le> y" "\<not> x \<le> FNaN" "\<not> FNaN < y" "\<not> x < FNaN"
  "\<not> isNaN 0" "\<not> isInf 0"
  by (auto simp: zero_f64_def) (cases x, auto)+

lemma isNaN_iff: "isNaN x \<longleftrightarrow> x = FNaN"
  by (cases x) auto

lemma f64_le_trans: "x \<le> y \<Longrightarrow> y \<le> z \<Longrightarrow> x \<le> (z :: f64)"
  by (cases x; cases y; cases z) auto

lemma f64_less_le: "x < y \<Longrightarrow> x \<le> (y :: f64)"
  by (cases x; cases y) auto

lemma f64_not_less: "x \<noteq> FNaN \<Longrightarrow> y \<noteq> FNaN \<Longrightarrow> \<not> x < y \<longleftrightarrow> y \<le> (x :: f64)"
  by (cases x; cases y) auto

lemma f64_not_le: "x \<noteq> FNaN \<Longrightarrow> y \<noteq> FNaN \<Longrightarrow> \<not> x \<le> y \<longleftrightarrow> y < (x :: f64)"
  by (cases x; cases y) auto

lemma f64_le_refl: "x \<noteq> FNaN \<Longrightarrow> x \<le> (x :: f64)"
  by (cases x) auto

lemma f64_le_antisym: "x \<le> y \<Longrightarrow> y \<le> x \<Longrightarrow> x = (y :: f64)"
  by (cases x; cases y) auto

lemma f64_less_order: "less_order ((<) :: f64 \<Rightarrow> f64 \<Rightarrow> bool) \<longleftrightarrow> False"
  \<comment> \<open>NaN ties with everything: \<open><\<close> on \<open>float64\<close> is not a sorting order.\<close>
proof -
  have "\<not> FNum 1 < FNaN" "\<not> FNaN < FNum 2" "FNum 1 < (FNum 2 :: f64)"
    by auto
  then show ?thesis
    unfolding less_order_def by blast
qed

lemma math_Max_ge: "x \<noteq> FNaN \<Longrightarrow> y \<noteq> FNaN \<Longrightarrow> x \<le> math_Max x y \<and> y \<le> math_Max x y"
  by (cases x; cases y) (auto simp: math_Max_def)

lemma math_Max_cases: "math_Max x y = x \<or> math_Max x y = y"
  by (cases x; cases y) (auto simp: math_Max_def)

lemma math_Min_le: "x \<noteq> FNaN \<Longrightarrow> y \<noteq> FNaN \<Longrightarrow> math_Min x y \<le> x \<and> math_Min x y \<le> y"
  by (cases x; cases y) (auto simp: math_Min_def)

lemma math_Min_cases: "math_Min x y = x \<or> math_Min x y = y"
  by (cases x; cases y) (auto simp: math_Min_def)

lemma math_Min_greatest: "z \<le> x \<Longrightarrow> z \<le> y \<Longrightarrow> z \<le> math_Min x y"
  using math_Min_cases [of x y] by auto

lemma math_Max_least: "x \<le> z \<Longrightarrow> y \<le> z \<Longrightarrow> math_Max x y \<le> (z :: f64)"
  using math_Max_cases [of x y] by auto

lemma math_Max_zero_ge: "x \<noteq> FNaN \<Longrightarrow> 0 \<le> math_Max 0 x"
  using math_Max_ge [of 0 x] by auto

lemma math_Max_FNum [simp]: "math_Max (FNum a) (FNum b) = FNum (max a b)"
  by (auto simp: math_Max_def max_def)

lemma math_Min_FNum [simp]: "math_Min (FNum a) (FNum b) = FNum (min a b)"
  by (auto simp: math_Min_def min_def)

lemma math_Max_0_FNum [simp]: "math_Max 0 (FNum b) = FNum (max 0 b)"
  by (simp add: zero_f64_def)

subsection \<open>Rounded results are representable\<close>

lemma wf64_f64_of_rat [simp]: "wf64 (f64_of_rat x)"
  by (simp add: f64_of_rat_def Let_def)

lemma wf64_zero [simp]: "wf64 0"
  by (simp add: zero_f64_def)

lemma wf64_uminus [simp]: "wf64 (- x) \<longleftrightarrow> wf64 x"
  by (cases x) (auto simp: rnd_minus)

lemma wf64_ops:
  "wf64 (x + y)" "wf64 (x - y)" "wf64 (x * y)" "wf64 (fdiv x y)"
  by (cases x; cases y; simp add: minus_f64_def)+

lemma wf64_select:
  "wf64 x \<Longrightarrow> wf64 y \<Longrightarrow> wf64 (math_Max x y)" "wf64 x \<Longrightarrow> wf64 y \<Longrightarrow> wf64 (math_Min x y)"
  by (simp_all add: math_Max_def math_Min_def)

lemma wf64_abs: "wf64 x \<Longrightarrow> wf64 (math_Abs x)"
  by (cases x) (auto simp: abs_if rnd_minus)

subsection \<open>Exactness on whole numbers\<close>

text \<open>
  \<open>whole v n\<close>: the variable holds the whole number \<open>n\<close>.  Sums and differences of whole
  numbers are exact while the result stays within \<open>2 ^ 53\<close>, and no \<open>float64\<close> in that range
  overflows.
\<close>

definition whole :: "f64 \<Rightarrow> int \<Rightarrow> bool" where
  "whole v n \<longleftrightarrow> v = FNum (of_int n)"

lemma p2_1024_big: "\<bar>n\<bar> \<le> 2 ^ 53 \<Longrightarrow> \<bar>of_int n\<bar> < p2 1024"
proof -
  assume "\<bar>n\<bar> \<le> 2 ^ 53"
  then have "\<bar>of_int n :: rat\<bar> \<le> of_int (2 ^ 53)"
    by (simp flip: of_int_abs del: of_int_power of_int_numeral add: of_int_le_iff)
  also have "\<dots> = p2 53" by simp
  also have "\<dots> < p2 1024" by (rule p2_strict_mono) simp
  finally show ?thesis .
qed

lemma f64_of_rat_of_int:
  "\<bar>n\<bar> \<le> 2 ^ 53 \<Longrightarrow> f64_of_rat (of_int n) = FNum (of_int n)"
  using p2_1024_big [of n] by (auto simp: f64_of_rat_def rnd_of_int)

text \<open>Evaluation of closed sums and products: whole numerals, and dyadic fractions.\<close>

lemma f64_of_rat_numeral:
  "(numeral n :: int) \<le> 2 ^ 53 \<Longrightarrow> f64_of_rat (numeral n) = FNum (numeral n)"
  "(numeral n :: int) \<le> 2 ^ 53 \<Longrightarrow> f64_of_rat (- numeral n) = FNum (- numeral n)"
  "f64_of_rat 1 = FNum 1" "f64_of_rat (- 1) = FNum (- 1)"
  using f64_of_rat_of_int [of "numeral n"] f64_of_rat_of_int [of "- numeral n"]
    f64_of_rat_of_int [of 1] f64_of_rat_of_int [of "- 1"] by simp_all

lemma f64_of_rat_dyadic:
  assumes "\<bar>\<lfloor>x * 1048576\<rfloor>\<bar> \<le> 2 ^ 53" "of_int \<lfloor>x * 1048576\<rfloor> / 1048576 = x"
  shows "f64_of_rat x = FNum x"
proof -
  have p20: "p2 (- 20) = 1 / 1048576"
    by (simp add: p2_def)
  have "of_int \<lfloor>x * 1048576\<rfloor> * p2 (- 20) = x"
    unfolding p20 times_divide_eq_right mult_1_right by (rule assms(2))
  then have x: "x = of_int \<lfloor>x * 1048576\<rfloor> * p2 (- 20)"
    by (rule sym)
  then have "rnd x = x"
    by (rule rnd_grid [OF assms(1), rotated]) simp
  moreover have "\<bar>x\<bar> \<le> \<bar>of_int \<lfloor>x * 1048576\<rfloor>\<bar>"
    by (subst x) (simp add: abs_mult p20)
  then have "\<bar>x\<bar> < p2 1024"
    using p2_1024_big [OF assms(1)] by linarith
  ultimately show ?thesis
    by (simp add: f64_of_rat_def)
qed

lemma whole_0 [simp]: "whole 0 0"
  by (simp add: whole_def zero_f64_def)

lemma whole_add:
  "whole a m \<Longrightarrow> whole b n \<Longrightarrow> \<bar>m + n\<bar> \<le> 2 ^ 53 \<Longrightarrow> whole (a + b) (m + n)"
  using f64_of_rat_of_int [of "m + n"] by (simp add: whole_def)

lemma whole_minus: "whole a m \<Longrightarrow> whole (- a) (- m)"
  by (simp add: whole_def)

lemma whole_diff:
  "whole a m \<Longrightarrow> whole b n \<Longrightarrow> \<bar>m - n\<bar> \<le> 2 ^ 53 \<Longrightarrow> whole (a - b) (m - n)"
  using whole_add [of a m "- b" "- n"] whole_minus [of b n] by (simp add: minus_f64_def)

lemma whole_max: "whole a m \<Longrightarrow> whole b n \<Longrightarrow> whole (math_Max a b) (max m n)"
  by (simp add: whole_def of_int_max)

lemma whole_min: "whole a m \<Longrightarrow> whole b n \<Longrightarrow> whole (math_Min a b) (min m n)"
  by (simp add: whole_def of_int_min)

lemma whole_le: "whole a m \<Longrightarrow> whole b n \<Longrightarrow> a \<le> b \<longleftrightarrow> m \<le> n"
  by (simp add: whole_def)

lemma whole_less: "whole a m \<Longrightarrow> whole b n \<Longrightarrow> a < b \<longleftrightarrow> m < n"
  by (simp add: whole_def)

lemma whole_wf64: "whole a m \<Longrightarrow> \<bar>m\<bar> \<le> 2 ^ 53 \<Longrightarrow> wf64 a"
  using p2_1024_big [of m] by (simp add: whole_def rnd_of_int)

lemma math_Round_whole: "whole a m \<Longrightarrow> math_Round a = a"
proof -
  have "\<lfloor>of_int k + (1 / 2 :: rat)\<rfloor> = k" for k
    by (simp add: floor_unique)
  note this [of m] this [of "- m"]
  moreover assume "whole a m"
  ultimately show ?thesis
    by (auto simp: whole_def round_half_away_def)
qed

text \<open>A rounded amount is a whole number.\<close>

lemma math_Round_idem: "math_Round (math_Round x) = math_Round x"
proof (cases x)
  case (FNum a)
  then show ?thesis
    using math_Round_whole [of "math_Round x" "round_half_away a"] by (simp add: whole_def)
qed auto

subsection \<open>Monotonicity\<close>

text \<open>Rounding keeps order, so addition and subtraction do.\<close>

lemma f64_of_rat_mono: "x \<le> y \<Longrightarrow> f64_of_rat x \<le> f64_of_rat y"
proof -
  assume "x \<le> y"
  then have "rnd x \<le> rnd y" by (rule rnd_mono)
  then show ?thesis
    using p2_pos [of 1024] by (auto simp: f64_of_rat_def Let_def abs_if split: if_splits)
qed

lemma f64_of_rat_0 [simp]: "f64_of_rat 0 = 0"
  by (simp add: f64_of_rat_def zero_f64_def not_le)

lemma f64_of_rat_nonneg: "0 \<le> x \<Longrightarrow> 0 \<le> f64_of_rat x"
  using f64_of_rat_mono [of 0 x] by simp

lemma f64_of_rat_FNum: "wf64 (FNum r) \<Longrightarrow> f64_of_rat r = FNum r"
  by (simp add: f64_of_rat_def)

lemma f64_add_nonneg: "0 \<le> x \<Longrightarrow> 0 \<le> y \<Longrightarrow> 0 \<le> x + (y :: f64)"
  by (cases x; cases y) (auto simp: f64_of_rat_nonneg)

lemma f64_diff_nonneg: "y \<le> x \<Longrightarrow> \<not> isInf x \<Longrightarrow> 0 \<le> x - (y :: f64)"
  by (cases x; cases y) (auto simp: minus_f64_def intro!: f64_of_rat_nonneg)

lemma f64_of_rat_bounded [simp]: "f64_of_rat x \<le> FInf False" "FInf True \<le> f64_of_rat x"
  by (simp_all add: f64_of_rat_def Let_def)

lemma f64_add_mono: "x \<le> y \<Longrightarrow> \<not> isInf z \<Longrightarrow> \<not> isNaN z \<Longrightarrow> x + z \<le> y + (z :: f64)"
  by (cases x; cases y; cases z) (auto intro!: f64_of_rat_mono)

lemma f64_add_0: "wf64 x \<Longrightarrow> x + 0 = x" "wf64 x \<Longrightarrow> 0 + x = x" "wf64 x \<Longrightarrow> x - 0 = x"
  by (cases x; simp add: zero_f64_def minus_f64_def f64_of_rat_FNum)+

lemma f64_diff_self: "\<not> isInf x \<Longrightarrow> \<not> isNaN x \<Longrightarrow> x - x = (0 :: f64)"
  by (cases x) (auto simp: minus_f64_def)

end
