(* ===== verification/Model.thy ===== *)
theory Model
  imports Prelude Float64 "HOL-Library.Mapping"
begin

text \<open>
  The rows of a financial model, as \<open>backend/internal/types/model.go\<close>, \<open>purchase.go\<close>,
  \<open>account_display.go\<close>, \<open>evaluation.go\<close> and \<open>simulation.go\<close> declare them.  Each Go struct is
  a record with the same fields in the same order; a pointer is an option; \<open>Destinations\<close> is
  an option because the code tells a nil slice (the money leaves) from an empty one.  A Go map
  that the code updates is a \<open>mapping\<close>; a map that is only read from the wire (configs, inputs
  and arguments of amounts) is an association list.  Instants are \<open>int\<close>: the code only
  compares them.
\<close>

section \<open>Go maps and JSON values\<close>

type_synonym 'v gomap = "(string, 'v) mapping"

text \<open>\<open>m[k]\<close>: the zero value for a missing key; \<open>delete\<close> and \<open>len\<close> come from the library.\<close>

abbreviation go_index :: "'v \<Rightarrow> 'v gomap \<Rightarrow> string \<Rightarrow> 'v" where
  "go_index \<equiv> Mapping.lookup_default"

abbreviation balance_of :: "f64 gomap \<Rightarrow> string \<Rightarrow> f64" where
  "balance_of b k \<equiv> Mapping.lookup_default 0 b k"

datatype json =
  JNull
| JBool bool
| JNum f64
| JStr string
| JArr "json list"
| JObj "(string \<times> json) list"

type_synonym json_object = "(string \<times> json) list"

section \<open>Accounts and observations\<close>

definition NoFloor :: f64 where
  "NoFloor = f64_of_rat (- 10000000000000)"

definition NoCeiling :: f64 where
  "NoCeiling = f64_of_rat 10000000000000"

record AccountComponent =
  cpAccountID :: string
  cpRole :: string

record AccountDisplay =
  adName :: string
  adComponents :: "AccountComponent list"
  adInterestScheduleID :: string
  adPaymentScheduleID :: string

definition accountKinds :: "string list" where
  "accountKinds = [''cash'', ''investment'', ''debt'', ''property'']"

definition AccountKind_Valid :: "string \<Rightarrow> bool" where
  "AccountKind_Valid k = (k \<in> set accountKinds)"

record Account =
  acDisplay :: "AccountDisplay option"
  acID :: string
  acName :: string
  acKind :: string
  acMinBalance :: "f64 option"
  acMaxBalance :: "f64 option"
  acColor :: "string option"
  acEnabled :: bool

definition MinBalanceValue :: "Account \<Rightarrow> f64" where
  "MinBalanceValue a = (case acMinBalance a of None \<Rightarrow> NoFloor | Some v \<Rightarrow> v)"

definition MaxBalanceValue :: "Account \<Rightarrow> f64" where
  "MaxBalanceValue a = (case acMaxBalance a of None \<Rightarrow> NoCeiling | Some v \<Rightarrow> v)"

record Checkpoint =
  ckAccountID :: string
  ckBalance :: f64
  ckAvailableBalance :: "f64 option"
  ckSource :: string
  ckObservedAt :: int

record CheckpointCorrection =
  ccAccountID :: string
  ccObservedBalance :: f64
  ccModeledBalance :: f64
  ccAdjustment :: f64

section \<open>Amounts, transactions and schedules\<close>

text \<open>\<open>Frequency\<close> is a string; every constant of the package and, last, any other value.\<close>

datatype Frequency =
  FrequencyDaily
| FrequencyWeekly
| FrequencyMonthly
| FrequencyQuarterly
| FrequencyAnnual
| FrequencyUnknown string

record AmountInputBinding =
  ibSource :: string
  ibValue :: json
  ibProvider :: string
  ibArguments :: json_object

record TransactionAmountResolution =
  amResolver :: string
  amConfig :: json_object
  amInputs :: "(string \<times> AmountInputBinding) list"

record TransactionClaim =
  clScheduleID :: string
  clOccurrenceDate :: string

record Transaction =
  trID :: string
  trName :: string
  trSourceAccountID :: "string option"
  trDestinations :: "string list option"
  trAmount :: TransactionAmountResolution
  trPostedTime :: int
  trTransactionTime :: int
  trClaim :: "TransactionClaim option"
  trEnabled :: bool
  trPending :: bool
  trSource :: string
  trExecutionOrder :: int
  trVoid :: bool

record Schedule =
  scID :: string
  scName :: string
  scSourceAccountID :: "string option"
  scDestinations :: "string list option"
  scAmount :: TransactionAmountResolution
  scFrequency :: Frequency
  scStartDate :: string
  scEndDate :: "string option"
  scAnnualCap :: "f64 option"
  scPriority :: int
  scEnabled :: bool

record PaymentTerms =
  ptAccountID :: string
  ptMinimumFixed :: f64
  ptMinimumPercent :: "f64 option"
  ptDueDay :: int
  ptStatementDay :: "int option"

record PlannedPurchase =
  ppID :: string
  ppName :: string
  ppFundingAccountID :: "string option"
  ppCost :: f64
  ppEarliestDate :: string
  ppEnabled :: bool
  ppPriority :: int

section \<open>Evaluation tables\<close>

record EvaluationInstance =
  evInstanceID :: string
  evName :: string
  evEnabled :: bool
  evConfig :: json

record EvaluationTables =
  etFinancialIndependence :: "EvaluationInstance list"
  etNetWorthThreshold :: "EvaluationInstance list"
  etAccountBalance :: "EvaluationInstance list"
  etTransactionFulfillment :: "EvaluationInstance list"
  etCycleFulfillment :: "EvaluationInstance list"
  etPlannedPurchases :: "EvaluationInstance list"
  etWhatIf :: "EvaluationInstance list"

section \<open>The model and its overrides\<close>

record FinancialModel =
  fmSourcePath :: string
  fmAccounts :: "Account list"
  fmCheckpoints :: "Checkpoint list"
  fmEvaluations :: EvaluationTables
  fmTransactions :: "Transaction list"
  fmSchedules :: "Schedule list"
  fmPaymentTerms :: "PaymentTerms list"
  fmPlannedPurchases :: "PlannedPurchase list"

record ModelOverrides =
  moAddedAccounts :: "Account list"
  moAddedTransactions :: "Transaction list"
  moAddedRules :: "Schedule list"
  moDisabledAccountIDs :: "string list"
  moDisabledTransactionIDs :: "string list"
  moDisabledScheduleIDs :: "string list"

definition EmptyModelOverrides :: ModelOverrides where
  "EmptyModelOverrides =
     \<lparr>moAddedAccounts = [], moAddedTransactions = [], moAddedRules = [],
      moDisabledAccountIDs = [], moDisabledTransactionIDs = [], moDisabledScheduleIDs = []\<rparr>"

definition ApplyModelOverrides :: "FinancialModel \<Rightarrow> ModelOverrides \<Rightarrow> FinancialModel" where
  "ApplyModelOverrides model overrides =
     (let accounts = filter (\<lambda>a. acID a \<notin> set (moDisabledAccountIDs overrides)) (fmAccounts model) @
                     moAddedAccounts overrides;
          checkpoints = filter (\<lambda>c. ckAccountID c \<in> acID ` set accounts) (fmCheckpoints model);
          transactions = filter (\<lambda>t. trID t \<notin> set (moDisabledTransactionIDs overrides)) (fmTransactions model) @
                         moAddedTransactions overrides;
          rules = filter (\<lambda>r. scID r \<notin> set (moDisabledScheduleIDs overrides)) (fmSchedules model) @
                  moAddedRules overrides
      in \<lparr>fmSourcePath = fmSourcePath model, fmAccounts = accounts, fmCheckpoints = checkpoints,
          fmEvaluations = fmEvaluations model, fmTransactions = transactions, fmSchedules = rules,
          fmPaymentTerms = fmPaymentTerms model, fmPlannedPurchases = fmPlannedPurchases model\<rparr>)"

text \<open>No override at all keeps every row, but for the observations of accounts the model lacks.\<close>

lemma ApplyModelOverrides_empty:
  "ApplyModelOverrides model EmptyModelOverrides =
     model\<lparr>fmCheckpoints := filter (\<lambda>c. ckAccountID c \<in> acID ` set (fmAccounts model)) (fmCheckpoints model)\<rparr>"
  by (simp add: ApplyModelOverrides_def EmptyModelOverrides_def Let_def)

lemma ApplyModelOverrides_disabled:
  "\<lbrakk>i \<in> set (moDisabledTransactionIDs ov); i \<notin> trID ` set (moAddedTransactions ov)\<rbrakk>
     \<Longrightarrow> i \<notin> trID ` set (fmTransactions (ApplyModelOverrides model ov))"
  by (auto simp: ApplyModelOverrides_def Let_def)

lemma ApplyModelOverrides_checkpoints:
  "c \<in> set (fmCheckpoints (ApplyModelOverrides model ov))
     \<Longrightarrow> ckAccountID c \<in> acID ` set (fmAccounts (ApplyModelOverrides model ov))"
  by (auto simp: ApplyModelOverrides_def Let_def)

section \<open>Simulation state and requests\<close>

record SimulationInputs =
  siAccounts :: "Account list"
  siTransactions :: "Transaction list"
  siSchedules :: "Schedule list"
  siPaymentTerms :: "PaymentTerms list"
  siPlannedPurchases :: "PlannedPurchase list"

record SimulationState =
  ssBalances :: "f64 gomap"
  ssLatestAmounts :: "f64 gomap"
  ssLatestDates :: "string gomap"
  ssAmountsByYear :: "f64 gomap gomap"

type_synonym MonteCarloSample = "f64 list gomap"

record SimulationRequest =
  rqModel :: SimulationInputs
  rqInitialState :: SimulationState
  rqStartDate :: string
  rqEndDate :: string
  rqIncludeStartDateEvents :: bool
  rqMonteCarloSample :: "MonteCarloSample option"
  rqHistoryCutInstant :: int

record SimulationSnapshot =
  snDate :: string
  snBalances :: "f64 gomap"

record TransactionFulfillment =
  tfUnfulfilledAmount :: f64
  tfDestinationLimitedAmount :: f64

record AccountDeltaEntry =
  deAccountID :: string
  deDelta :: f64

record TransactionEvent =
  teDate :: string
  teSequence :: int
  teTransactionID :: string
  teRequestedAmount :: f64
  teRealizedAmount :: f64
  teAccountDeltas :: "AccountDeltaEntry list"
  teBindingConstraints :: "json list"
  teAvailableAmount :: "f64 option"
  teFulfillment :: "TransactionFulfillment option"

record SimulationRun =
  rnModel :: SimulationInputs
  rnStartDate :: string
  rnEndDate :: string
  rnIncludeStartDateEvents :: bool
  rnInitialState :: SimulationState
  rnFinalState :: SimulationState
  rnSnapshots :: "SimulationSnapshot list"
  rnTransactionAttempts :: "TransactionEvent list"
  rnMonteCarloSample :: "MonteCarloSample option"

end
