(* ===== verification/Recurrence.thy ===== *)
theory Recurrence
  imports Model Date_Laws
begin

text \<open>
  Schedules and their occurrences: \<open>backend/internal/domain/recurrence.go\<close> and the ordering
  helpers of \<open>chrono.go\<close>.  A schedule is expanded by an unbounded \<open>for\<close> loop over a period
  count; the loop is a \<open>partial_function\<close>, so that a panic in the date arithmetic and a loop
  that never ends are both \<open>None\<close>.  \<open>Recurrence_Laws\<close> shows that it ends.
\<close>

section \<open>Instants\<close>

definition IsSyncCheckpoint :: "string \<Rightarrow> bool" where
  "IsSyncCheckpoint source \<longleftrightarrow> source \<noteq> '''' \<and> source \<noteq> ''user''"

definition IsOwnerAuthored :: "string \<Rightarrow> bool" where
  "IsOwnerAuthored source \<longleftrightarrow> \<not> IsSyncCheckpoint source"

definition CheckpointInstant :: "Checkpoint \<Rightarrow> int" where
  "CheckpointInstant checkpoint = ckObservedAt checkpoint"

definition observation_less :: "Checkpoint \<Rightarrow> Checkpoint \<Rightarrow> bool" where
  "observation_less x y =
     (let left = CheckpointInstant x; right = CheckpointInstant y in
      if left \<noteq> right then left < right
      else
        let leftOwner = IsOwnerAuthored (ckSource x); rightOwner = IsOwnerAuthored (ckSource y) in
        if leftOwner \<noteq> rightOwner then \<not> leftOwner \<and> rightOwner else False)"

definition SortObservations :: "Checkpoint list \<Rightarrow> Checkpoint list" where
  "SortObservations observations = sort_by observation_less observations"

definition TransactionInstant :: "Transaction \<Rightarrow> int" where
  "TransactionInstant t = (if 0 < trTransactionTime t then trTransactionTime t else trPostedTime t)"

definition ObservationAtOrBefore :: "int \<Rightarrow> int \<Rightarrow> bool" where
  "ObservationAtOrBefore instant limit \<longleftrightarrow> instant \<le> limit"

section \<open>Occurrences and their order\<close>

record DatedTransactionOccurrence =
  ocTransaction :: Transaction
  ocIndex :: int
  ocRule :: "Schedule option"
  ocPurchase :: "PlannedPurchase option"
  ocDocPath :: "(string \<times> nat) option"

definition cmp_Compare :: "int \<Rightarrow> int \<Rightarrow> int" where
  "cmp_Compare x y = (if x < y then - 1 else if y < x then 1 else 0)"

definition compareDatedTransactionOccurrences ::
  "DatedTransactionOccurrence \<Rightarrow> DatedTransactionOccurrence \<Rightarrow> int" where
  "compareDatedTransactionOccurrences a b =
     (case (ocPurchase a, ocPurchase b) of
        (None, Some _) \<Rightarrow> - 1
      | (Some _, None) \<Rightarrow> 1
      | (Some p, Some q) \<Rightarrow>
          if ppPriority p \<noteq> ppPriority q then cmp_Compare (ppPriority p) (ppPriority q)
          else cmp_Compare (ocIndex a) (ocIndex b)
      | (None, None) \<Rightarrow>
          (case (ocRule a, ocRule b) of
             (None, Some _) \<Rightarrow> - 1
           | (Some _, None) \<Rightarrow> 1
           | (None, None) \<Rightarrow>
               let t = ocTransaction a; u = ocTransaction b in
               if trTransactionTime t \<noteq> trTransactionTime u
               then cmp_Compare (trTransactionTime t) (trTransactionTime u)
               else if trPostedTime t \<noteq> trPostedTime u
               then cmp_Compare (trPostedTime t) (trPostedTime u)
               else if trExecutionOrder t \<noteq> trExecutionOrder u
               then cmp_Compare (trExecutionOrder t) (trExecutionOrder u)
               else cmp_Compare (ocIndex a) (ocIndex b)
           | (Some r, Some s) \<Rightarrow>
               if scPriority r \<noteq> scPriority s then cmp_Compare (scPriority r) (scPriority s)
               else cmp_Compare (ocIndex a) (ocIndex b)))"

definition occurrence_less :: "DatedTransactionOccurrence \<Rightarrow> DatedTransactionOccurrence \<Rightarrow> bool" where
  "occurrence_less a b \<longleftrightarrow> compareDatedTransactionOccurrences a b < 0"

definition sortOccurrences :: "DatedTransactionOccurrence list \<Rightarrow> DatedTransactionOccurrence list" where
  "sortOccurrences occurrences = sort_by occurrence_less occurrences"

definition EffectiveOccurrenceInstant :: "DatedTransactionOccurrence \<Rightarrow> string \<Rightarrow> int option" where
  "EffectiveOccurrenceInstant occurrence date =
     (case ocRule occurrence of
        Some _ \<Rightarrow> dayCloseUnix date
      | None \<Rightarrow> Some (TransactionInstant (ocTransaction occurrence)))"

definition transactionDay :: "Transaction \<Rightarrow> string" where
  "transactionDay t =
     (let stamp = trTransactionTime t;
          stamp = (if stamp \<le> 0 then trPostedTime t else stamp)
      in if stamp \<le> 0 then '''' else FormatIsoDate stamp)"

section \<open>Schedule dates\<close>

fun FrequencyDivisor :: "Frequency \<Rightarrow> int" where
  "FrequencyDivisor FrequencyDaily = 365"
| "FrequencyDivisor FrequencyWeekly = 52"
| "FrequencyDivisor FrequencyMonthly = 12"
| "FrequencyDivisor FrequencyQuarterly = 4"
| "FrequencyDivisor FrequencyAnnual = 1"
| "FrequencyDivisor (FrequencyUnknown _) = 1"

fun advanceDate :: "string \<Rightarrow> Frequency \<Rightarrow> int \<Rightarrow> string option" where
  "advanceDate date FrequencyDaily periodCount = add_days date (1 * periodCount)"
| "advanceDate date FrequencyWeekly periodCount = add_days date (7 * periodCount)"
| "advanceDate date FrequencyMonthly periodCount = AddMonthsClamped date periodCount"
| "advanceDate date FrequencyQuarterly periodCount = AddMonthsClamped date (periodCount * 3)"
| "advanceDate date FrequencyAnnual periodCount = AddMonthsClamped date (periodCount * 12)"
| "advanceDate date (FrequencyUnknown _) periodCount = Some date"

fun validScheduleFrequency :: "Frequency \<Rightarrow> bool" where
  "validScheduleFrequency (FrequencyUnknown _) = False"
| "validScheduleFrequency _ = True"

text \<open>
  The loop \<open>for periodCount := 0; ; periodCount++\<close> of \<open>RuleScheduleDates\<close> and of
  \<open>ResolveOccurrences\<close>: the dates \<open>dateAt n, dateAt (n + 1), \<dots>\<close> up to the limit.
\<close>

partial_function (option) dates_from :: "(int \<Rightarrow> string option) \<Rightarrow> string \<Rightarrow> int \<Rightarrow> string list option" where
  [code]: "dates_from dateAt lastDate periodCount =
     (case dateAt periodCount of
        None \<Rightarrow> None
      | Some occurrenceDate \<Rightarrow>
          if 0 < CompareIsoDates occurrenceDate lastDate then Some []
          else do {
            dates \<leftarrow> dates_from dateAt lastDate (periodCount + 1);
            Some (occurrenceDate # dates)
          })"

definition effective_end :: "Schedule \<Rightarrow> string \<Rightarrow> string" where
  "effective_end rule endDate =
     (case scEndDate rule of
        None \<Rightarrow> endDate
      | Some e \<Rightarrow> if CompareIsoDates e endDate < 0 then e else endDate)"

definition RuleScheduleDates :: "Schedule \<Rightarrow> string \<Rightarrow> string list option" where
  "RuleScheduleDates rule endDate =
     (if \<not> validScheduleFrequency (scFrequency rule) then Some []
      else dates_from (advanceDate (scStartDate rule) (scFrequency rule)) (effective_end rule endDate) 0)"

text \<open>The search loop of \<open>ruleOccursOn\<close>.\<close>

partial_function (option) occurs_from :: "(int \<Rightarrow> string option) \<Rightarrow> string \<Rightarrow> int \<Rightarrow> bool option" where
  [code]: "occurs_from dateAt date periodCount =
     (case dateAt periodCount of
        None \<Rightarrow> None
      | Some occurrenceDate \<Rightarrow>
          if CompareIsoDates occurrenceDate date = 0 then Some True
          else if 0 < CompareIsoDates occurrenceDate date then Some False
          else occurs_from dateAt date (periodCount + 1))"

definition ruleOccursOn :: "Schedule \<Rightarrow> string \<Rightarrow> bool option" where
  "ruleOccursOn rule date =
     (if \<not> validScheduleFrequency (scFrequency rule) then Some False
      else if CompareIsoDates date (scStartDate rule) < 0 then Some False
      else if (case scEndDate rule of None \<Rightarrow> False | Some e \<Rightarrow> 0 < CompareIsoDates date e) then Some False
      else occurs_from (advanceDate (scStartDate rule) (scFrequency rule)) date 0)"

section \<open>Claims\<close>

fun add_claim :: "bool gomap gomap \<Rightarrow> Transaction \<Rightarrow> bool gomap gomap" where
  "add_claim claims t =
     (case trClaim t of
        Some c \<Rightarrow>
          if trEnabled t
          then Mapping.update (clScheduleID c)
                 (Mapping.update (clOccurrenceDate c) True (go_index Mapping.empty claims (clScheduleID c)))
                 claims
          else claims
      | None \<Rightarrow> claims)"

definition claimsByRule :: "Transaction list \<Rightarrow> bool gomap gomap" where
  "claimsByRule transactions = foldl add_claim Mapping.empty transactions"

definition claimed :: "bool gomap gomap \<Rightarrow> string \<Rightarrow> string \<Rightarrow> bool" where
  "claimed claims ruleID date = go_index False (go_index Mapping.empty claims ruleID) date"

section \<open>Resolution within a window\<close>

record ResolvedOccurrences =
  roInstances :: "Transaction list"
  roByDate :: "DatedTransactionOccurrence list gomap"

definition in_window :: "string \<Rightarrow> string \<Rightarrow> bool \<Rightarrow> string \<Rightarrow> bool" where
  "in_window windowStart windowEnd includeStartDate date =
     (if includeStartDate
      then CompareIsoDates date windowStart \<ge> 0 \<and> CompareIsoDates date windowEnd \<le> 0
      else CompareIsoDates date windowStart > 0 \<and> CompareIsoDates date windowEnd \<le> 0)"

text \<open>The dates one schedule contributes: those of the loop that pass the window and claim tests.\<close>

definition rule_window_dates ::
  "bool gomap gomap \<Rightarrow> (string \<Rightarrow> bool) \<Rightarrow> string \<Rightarrow> Schedule \<Rightarrow> string list option" where
  "rule_window_dates claims inWindow windowEnd rule =
     (if \<not> scEnabled rule \<or> \<not> validScheduleFrequency (scFrequency rule) then Some []
      else
        map_option (filter (\<lambda>date. inWindow date \<and> \<not> claimed claims (scID rule) date))
          (dates_from (advanceDate (scStartDate rule) (scFrequency rule)) (effective_end rule windowEnd) 0))"

primrec instance_specs ::
  "(Schedule \<Rightarrow> string list option) \<Rightarrow> nat \<Rightarrow> Schedule list \<Rightarrow> (nat \<times> Schedule \<times> string) list option" where
  "instance_specs window_dates ruleIndex [] = Some []"
| "instance_specs window_dates ruleIndex (rule # rules) =
     (case window_dates rule of
        None \<Rightarrow> None
      | Some dates \<Rightarrow>
          (case instance_specs window_dates (ruleIndex + 1) rules of
             None \<Rightarrow> None
           | Some specs \<Rightarrow> Some (map (\<lambda>date. (ruleIndex, rule, date)) dates @ specs)))"

definition rule_instance :: "Schedule \<Rightarrow> int \<Rightarrow> Transaction" where
  "rule_instance rule stamp =
     \<lparr>trID = scID rule, trName = scName rule, trSourceAccountID = scSourceAccountID rule,
      trDestinations = scDestinations rule, trAmount = scAmount rule,
      trPostedTime = stamp, trTransactionTime = stamp, trClaim = None, trEnabled = True,
      trPending = False, trSource = '''', trExecutionOrder = 0, trVoid = False\<rparr>"

definition append_at :: "'v list gomap \<Rightarrow> string \<Rightarrow> 'v \<Rightarrow> 'v list gomap" where
  "append_at m k v = Mapping.update k (go_index [] m k @ [v]) m"

fun add_instances ::
  "(nat \<times> Schedule \<times> string) list \<Rightarrow> int \<Rightarrow> ResolvedOccurrences \<Rightarrow> (int \<times> ResolvedOccurrences) option" where
  "add_instances [] n resolved = Some (n, resolved)"
| "add_instances ((ruleIndex, rule, date) # specs) n resolved =
     (case dayCloseUnix date of
        None \<Rightarrow> None
      | Some stamp \<Rightarrow>
          let inst = rule_instance rule stamp
          in add_instances specs (n + 1)
               (resolved\<lparr>roInstances := roInstances resolved @ [inst],
                  roByDate := append_at (roByDate resolved) date
                    \<lparr>ocTransaction = inst, ocIndex = n, ocRule = Some rule, ocPurchase = None,
                     ocDocPath = Some (''schedules'', ruleIndex)\<rparr>\<rparr>))"

primrec add_transactions ::
  "(string \<Rightarrow> bool) \<Rightarrow> nat \<Rightarrow> Transaction list \<Rightarrow> int \<Rightarrow> ResolvedOccurrences \<Rightarrow> ResolvedOccurrences" where
  "add_transactions inWindow i [] n resolved = resolved"
| "add_transactions inWindow i (t # ts) n resolved =
     (let day = transactionDay t in
      if \<not> trEnabled t \<or> day = '''' \<or> \<not> inWindow day
      then add_transactions inWindow (i + 1) ts n resolved
      else add_transactions inWindow (i + 1) ts (n + 1)
        (resolved\<lparr>roByDate := append_at (roByDate resolved) day
           \<lparr>ocTransaction = t, ocIndex = n, ocRule = None, ocPurchase = None,
            ocDocPath = Some (''transactions'', i)\<rparr>\<rparr>))"

definition ResolveOccurrences ::
  "Schedule list \<Rightarrow> Transaction list \<Rightarrow> string \<Rightarrow> string \<Rightarrow> bool \<Rightarrow> ResolvedOccurrences option" where
  "ResolveOccurrences rules transactions windowStart windowEnd includeStartDate =
     (let claims = claimsByRule transactions;
          inWindow = in_window windowStart windowEnd includeStartDate
      in case instance_specs (rule_window_dates claims inWindow windowEnd) 0 rules of
           None \<Rightarrow> None
         | Some specs \<Rightarrow>
             (case add_instances specs 0 \<lparr>roInstances = [], roByDate = Mapping.empty\<rparr> of
                None \<Rightarrow> None
              | Some (n, resolved) \<Rightarrow> Some (add_transactions inWindow 0 transactions n resolved)))"

section \<open>Identities\<close>

definition rule_template :: "Schedule \<Rightarrow> Transaction" where
  "rule_template rule = (rule_instance rule 0)\<lparr>trEnabled := scEnabled rule\<rparr>"

definition ResolvedTransactionTransactions :: "FinancialModel \<Rightarrow> Transaction list" where
  "ResolvedTransactionTransactions model = fmTransactions model @ map rule_template (fmSchedules model)"

definition RuleCapsByID :: "FinancialModel \<Rightarrow> f64 gomap" where
  "RuleCapsByID model =
     foldl (\<lambda>caps rule. case scAnnualCap rule of None \<Rightarrow> caps | Some c \<Rightarrow> Mapping.update (scID rule) c caps)
       Mapping.empty (fmSchedules model)"

definition TransactionIDExists :: "FinancialModel \<Rightarrow> string \<Rightarrow> bool" where
  "TransactionIDExists model i \<longleftrightarrow>
     (\<exists>t\<in>set (fmTransactions model). trID t = i) \<or> (\<exists>r\<in>set (fmSchedules model). scID r = i) \<or>
     (\<exists>p\<in>set (fmPlannedPurchases model). ppID p = i)"

definition TransactionIDs :: "FinancialModel \<Rightarrow> string set" where
  "TransactionIDs model =
     set (map trID (fmTransactions model) @ map scID (fmSchedules model) @
          map ppID (fmPlannedPurchases model))"

end
