(* ===== verification/Recurrence_Laws.thy ===== *)
theory Recurrence_Laws
  imports Recurrence
begin

text \<open>
  Laws of schedules.  The locale \<open>schedule_steps\<close> is the contract between the date arithmetic
  and the two expansion loops: the \<open>n\<close>-th occurrence falls on a day that grows with \<open>n\<close>, and
  as long as it stays on the calendar the code returns that day's date string.  From it follow,
  once, that the loops return and which dates they list.  \<open>advanceDate\<close> discharges the contract
  for every schedule with a valid start date and a known frequency.
\<close>

section \<open>Days of the ISO calendar\<close>

definition first_day :: int where
  "first_day = civil_day 0 1 1"

definition last_day :: int where
  "last_day = civil_day 9999 12 31"

definition date_of_day :: "int \<Rightarrow> string" where
  "date_of_day z = FormatIsoDate (86400 * z)"

lemma date_of_day:
  assumes "first_day \<le> z" "z \<le> last_day"
  shows "IsValidIsoDate (date_of_day z)" "day_number (date_of_day z) = z"
proof -
  obtain y m d where c: "civil_of_day z = (y, m, d)"
    by (cases "civil_of_day z")
  note v = civil_day_of_day [OF c]
  have e: "valid_civil 0 1 1" "valid_civil 9999 12 31"
    by (simp_all add: valid_civil_def month_simps)
  have "\<not> y < 0" "\<not> 9999 < y"
    using assms v valid_civil_day_order [of y m d 0 1 1] valid_civil_day_order [of 9999 12 31 y m d] e
    by (auto simp: first_day_def last_day_def)
  then have iv: "iso_valid y m d"
    using v by (simp add: iso_valid_def)
  then have "date_of_day z = iso_date y m d"
    using v by (simp add: date_of_day_def FormatIsoDate_civil)
  with iv v show "IsValidIsoDate (date_of_day z)" "day_number (date_of_day z) = z"
    by simp_all
qed

lemma day_number_range:
  assumes "IsValidIsoDate s"
  shows "first_day \<le> day_number s" "day_number s \<le> last_day"
proof -
  obtain y m d where s: "iso_valid y m d" "s = iso_date y m d"
    using assms by (rule IsValidIsoDateE)
  note b = iso_valid_bounds [OF s(1)]
  have e: "valid_civil 0 1 1" "valid_civil 9999 12 31"
    by (simp_all add: valid_civil_def month_simps)
  show "first_day \<le> day_number s" "day_number s \<le> last_day"
    using b s valid_civil_day_order [of y m d 0 1 1] valid_civil_day_order [of 9999 12 31 y m d] e
    by (auto simp: first_day_def last_day_def iso_valid_def not_less [symmetric])
qed

lemma date_of_day_number: "IsValidIsoDate s \<Longrightarrow> date_of_day (day_number s) = s"
  using date_of_day [OF day_number_range] day_number_inject day_number_range by blast

text \<open>Dates before this one leave room for one more period of any schedule.\<close>

abbreviation year_9999 :: string where
  "year_9999 \<equiv> ''9999-01-01''"

lemma year_9999 [simp]: "IsValidIsoDate year_9999" "day_number year_9999 = civil_day 9999 1 1"
  by code_simp+

section \<open>The stepping contract\<close>

locale schedule_steps =
  fixes ok :: "'s \<Rightarrow> bool"
    and day_at :: "'s \<Rightarrow> int \<Rightarrow> int"
    and date_at :: "'s \<Rightarrow> int \<Rightarrow> string option"
  assumes first: "ok s \<Longrightarrow> first_day \<le> day_at s 0 \<and> day_at s 0 \<le> last_day"
    and step: "ok s \<Longrightarrow> 0 \<le> n \<Longrightarrow> day_at s n < day_at s (n + 1)"
    and room: "ok s \<Longrightarrow> 0 \<le> n \<Longrightarrow> day_at s n < day_number year_9999 \<Longrightarrow> day_at s (n + 1) \<le> last_day"
    and dated: "ok s \<Longrightarrow> 0 \<le> n \<Longrightarrow> first_day \<le> day_at s n \<Longrightarrow> day_at s n \<le> last_day \<Longrightarrow>
      date_at s n = Some (date_of_day (day_at s n))"
begin

lemma day_at_less: "ok s \<Longrightarrow> 0 \<le> m \<Longrightarrow> m < n \<Longrightarrow> day_at s m < day_at s n"
proof (induction "nat (n - m)" arbitrary: n)
  case (Suc k)
  show ?case
  proof (cases "n = m + 1")
    case True
    then show ?thesis using Suc.prems step by simp
  next
    case False
    have "day_at s m < day_at s (n - 1)"
      using Suc.prems Suc.hyps(2) False by (intro Suc.hyps(1)) auto
    also have "\<dots> < day_at s n"
      using step [of s "n - 1"] Suc.prems by simp
    finally show ?thesis .
  qed
qed simp

lemma day_at_first: "ok s \<Longrightarrow> 0 \<le> n \<Longrightarrow> first_day \<le> day_at s n"
  using first [of s] day_at_less [of s 0 n] by (cases "n = 0") auto

text \<open>
  A bound of the loops: any string below \<open>year_9999\<close>.  The days the loop visits up to and
  including the first one past the bound are on the calendar.
\<close>

lemma date_at_le:
  assumes "ok s" "0 \<le> n" "day_at s n \<le> last_day"
  obtains d where "date_at s n = Some d" "IsValidIsoDate d" "day_number d = day_at s n"
  using dated [OF assms(1,2)] date_of_day day_at_first [OF assms(1,2)] assms by metis

lemma next_on_calendar:
  assumes "ok s" "0 \<le> n" "IsValidIsoDate d" "day_number d = day_at s n" "d \<le> e" "e < year_9999"
  shows "day_at s (n + 1) \<le> last_day"
proof -
  have "d < year_9999"
    using assms by order
  then show ?thesis
    using assms(1-4) date_less_iff [of d year_9999] by (intro room) simp_all
qed

text \<open>What the expansion loop returns: the dates of the periods \<open>n, \<dots>, N - 1\<close>, in order.\<close>

definition dates_between :: "'s \<Rightarrow> int \<Rightarrow> int \<Rightarrow> string list" where
  "dates_between s m n = map (\<lambda>k. date_of_day (day_at s k)) [m..n - 1]"

lemma dates_from_returns:
  assumes s: "ok s" "e < year_9999"
  shows "0 \<le> n \<Longrightarrow> day_at s n \<le> last_day \<Longrightarrow>
    \<exists>N\<ge>n. dates_from (date_at s) e n = Some (dates_between s n N) \<and> day_at s N \<le> last_day \<and>
      e < date_of_day (day_at s N) \<and> (\<forall>k\<in>{n..<N}. date_of_day (day_at s k) \<le> e)"
proof (induction "nat (last_day - day_at s n)" arbitrary: n rule: less_induct)
  case less
  obtain d where d: "date_at s n = Some d" "IsValidIsoDate d" "day_number d = day_at s n"
    using date_at_le s less.prems by blast
  then have d': "date_of_day (day_at s n) = d"
    using date_of_day_number by metis
  show ?case
  proof (cases "e < d")
    case True
    then have "dates_from (date_at s) e n = Some (dates_between s n n)"
      by (simp add: dates_from.simps d dates_between_def)
    then show ?thesis
      using True less.prems d' by (intro exI [of _ n]) simp
  next
    case False
    have up: "day_at s n < day_at s (n + 1)" "day_at s (n + 1) \<le> last_day"
      using step next_on_calendar [OF s(1) less.prems(1) d(2,3) _ s(2)] False s less.prems by auto
    then obtain N where N: "n + 1 \<le> N" "dates_from (date_at s) e (n + 1) = Some (dates_between s (n + 1) N)"
        "day_at s N \<le> last_day" "e < date_of_day (day_at s N)"
        "\<forall>k\<in>{n + 1..<N}. date_of_day (day_at s k) \<le> e"
      using less.hyps [of "n + 1"] less.prems by fastforce
    have "dates_between s n N = d # dates_between s (n + 1) N"
      using N(1) d' by (simp add: dates_between_def upto_rec1)
    then have "dates_from (date_at s) e n = Some (dates_between s n N)"
      using False N(2) by (simp add: dates_from.simps d)
    moreover have "\<forall>k\<in>{n..<N}. date_of_day (day_at s k) \<le> e"
    proof
      fix k assume "k \<in> {n..<N}"
      then show "date_of_day (day_at s k) \<le> e"
        using N(5) False d' by (cases "k = n") auto
    qed
    ultimately show ?thesis
      using N by (intro exI [of _ N]) simp
  qed
qed

lemma dates_between_sorted:
  assumes "ok s" "day_at s N \<le> last_day"
  shows "sorted_wrt (<) (dates_between s 0 N)" "\<forall>d\<in>set (dates_between s 0 N). IsValidIsoDate d"
proof -
  have range: "first_day \<le> day_at s k \<and> day_at s k \<le> last_day" if "0 \<le> k" "k \<le> N" for k
    using that day_at_first [OF assms(1)] day_at_less [OF assms(1), of k N] assms(2)
    by (cases "k = N") auto
  show "\<forall>d\<in>set (dates_between s 0 N). IsValidIsoDate d"
    using range date_of_day(1) by (auto simp: dates_between_def)
  have "date_of_day (day_at s j) < date_of_day (day_at s k)" if "0 \<le> j" "j < k" "k < N" for j k
    using that range [of j] range [of k] day_at_less [OF assms(1), of j k] date_of_day
    by (simp add: date_less_iff)
  then show "sorted_wrt (<) (dates_between s 0 N)"
    by (auto simp: dates_between_def sorted_wrt_map sorted_wrt_iff_nth_less)
qed

text \<open>The search loop finds a date exactly when the expansion lists it.\<close>

lemma occurs_from_returns:
  assumes s: "ok s" "e < year_9999"
  shows "0 \<le> n \<Longrightarrow> day_at s n \<le> last_day \<Longrightarrow> dates_from (date_at s) e n = Some ds \<Longrightarrow> x \<le> e \<Longrightarrow>
    occurs_from (date_at s) x n = Some (x \<in> set ds)"
proof (induction "nat (last_day - day_at s n)" arbitrary: n ds rule: less_induct)
  case less
  obtain d where d: "date_at s n = Some d" "IsValidIsoDate d" "day_number d = day_at s n"
    using date_at_le s less.prems by blast
  show ?case
  proof (cases "x \<le> d")
    case True
    obtain N where "dates_from (date_at s) e n = Some (dates_between s n N)" "day_at s N \<le> last_day"
      using dates_from_returns [OF s less.prems(1,2)] by blast
    then have ds: "ds = dates_between s n N" "day_at s N \<le> last_day"
      using less.prems by auto
    have "d \<le> y" if y: "y \<in> set ds" for y
    proof -
      obtain k where k: "n \<le> k" "k < N" "y = date_of_day (day_at s k)"
        using y ds by (auto simp: dates_between_def)
      have "day_at s k \<le> last_day" "first_day \<le> day_at s k" "day_at s n \<le> day_at s k"
        using k less.prems(1) ds(2) day_at_less [OF s(1), of k N] day_at_first [OF s(1), of k]
          day_at_less [OF s(1), of n k] by (cases "n = k"; simp)+
      then show ?thesis
        using d k(3) date_of_day by (simp add: date_le_iff)
    qed
    moreover have "occurs_from (date_at s) x n = Some (x = d)"
      using True by (subst occurs_from.simps) (auto simp: d)
    moreover have "d \<in> set ds" if "d \<le> e"
      using that less.prems(3) by (subst (asm) dates_from.simps) (auto simp: d leD split: bind_splits if_splits)
    ultimately show ?thesis
      using True less.prems(4) by (auto intro: order.trans order.antisym)
  next
    case False
    then have "d \<le> e" using less.prems(4) by order
    then obtain ds' where ds: "dates_from (date_at s) e (n + 1) = Some ds'" "ds = d # ds'"
      using less.prems(3) by (auto simp: dates_from.simps [of _ _ n] d leD split: bind_splits if_splits)
    have up: "day_at s n < day_at s (n + 1)" "day_at s (n + 1) \<le> last_day"
      using step next_on_calendar [OF s(1) less.prems(1) d(2,3) \<open>d \<le> e\<close> s(2)] s less.prems by auto
    then have "occurs_from (date_at s) x (n + 1) = Some (x \<in> set ds')"
      using less.hyps [of "n + 1" ds'] less.prems ds by auto
    then show ?thesis
      using False ds(2) by (auto simp: occurs_from.simps [of "date_at s" x n] d)
  qed
qed

end

section \<open>Schedules keep the contract\<close>

text \<open>The day of the \<open>n\<close>-th occurrence, for a start date with the given fields.\<close>

definition month_day_at :: "int \<Rightarrow> int \<Rightarrow> int \<Rightarrow> int \<Rightarrow> int" where
  "month_day_at y m d n = (case month_shift y m d n of (y', m', d') \<Rightarrow> civil_day y' m' d')"

fun days_and_months :: "Frequency \<Rightarrow> int \<times> int" where
  "days_and_months FrequencyDaily = (1, 0)"
| "days_and_months FrequencyWeekly = (7, 0)"
| "days_and_months FrequencyMonthly = (0, 1)"
| "days_and_months FrequencyQuarterly = (0, 3)"
| "days_and_months FrequencyAnnual = (0, 12)"
| "days_and_months (FrequencyUnknown _) = (0, 0)"

definition occurrence_day :: "Schedule \<Rightarrow> int \<Rightarrow> int" where
  "occurrence_day rule n =
     (case (days_and_months (scFrequency rule), date_fields (scStartDate rule)) of
        ((days, months), Some (y, m, d)) \<Rightarrow> month_day_at y m d (months * n) + days * n
      | _ \<Rightarrow> 0)"

definition schedule_ok :: "Schedule \<Rightarrow> bool" where
  "schedule_ok rule \<longleftrightarrow> validScheduleFrequency (scFrequency rule) \<and> IsValidIsoDate (scStartDate rule)"

definition rule_date_at :: "Schedule \<Rightarrow> int \<Rightarrow> string option" where
  "rule_date_at rule = advanceDate (scStartDate rule) (scFrequency rule)"

lemma month_shift_0: "valid_civil y m d \<Longrightarrow> month_shift y m d 0 = (y, m, d)"
  by (simp add: month_shift_def valid_civil_def Let_def)

lemma valid_civil_ge: "valid_civil y m d \<Longrightarrow> 1 \<le> d"
  by (simp add: valid_civil_def)

lemma month_day_at_less:
  assumes "valid_civil y m d" "j < k"
  shows "month_day_at y m d j < month_day_at y m d k"
proof -
  obtain y1 m1 d1 y2 m2 d2 where s: "month_shift y m d j = (y1, m1, d1)" "month_shift y m d k = (y2, m2, d2)"
    by (metis prod_cases3)
  have v: "valid_civil y1 m1 d1" "valid_civil y2 m2 d2"
    using month_shift_valid [OF _ s(1)] month_shift_valid [OF _ s(2)] valid_civil_ge [OF assms(1)] by blast+
  have "12 * y1 + m1 = 12 * y + m + j" "12 * y2 + m2 = 12 * y + m + k"
    using s by (auto simp: month_shift_def Let_def)
  then have "y1 < y2 \<or> y1 = y2 \<and> m1 < m2"
    using assms(2) v unfolding valid_civil_def by linarith
  then show ?thesis
    using s valid_civil_day_order [OF v] by (auto simp: month_day_at_def)
qed

lemma month_day_at_room:
  assumes "valid_civil y m d" "month_day_at y m d j < day_number year_9999" "k \<le> j + 12"
  shows "month_day_at y m d k \<le> last_day"
proof -
  obtain y1 m1 d1 y2 m2 d2 where s: "month_shift y m d j = (y1, m1, d1)" "month_shift y m d k = (y2, m2, d2)"
    by (metis prod_cases3)
  have v: "valid_civil y1 m1 d1" "valid_civil y2 m2 d2"
    using month_shift_valid [OF _ s(1)] month_shift_valid [OF _ s(2)] valid_civil_ge [OF assms(1)] by blast+
  have e: "valid_civil 9999 1 1" "valid_civil 9999 12 31"
    by (simp_all add: valid_civil_def month_simps)
  have "12 * y1 + m1 = 12 * y + m + j" "12 * y2 + m2 = 12 * y + m + k"
    using s by (auto simp: month_shift_def Let_def)
  moreover have "y1 < 9999"
    using valid_civil_day_order [OF v(1) e(1)] assms(2) s v(1) by (auto simp: month_day_at_def valid_civil_def)
  ultimately have "y2 \<le> 9999"
    using assms(3) v unfolding valid_civil_def by linarith
  then show ?thesis
    using valid_civil_day_order [OF e(2) v(2)] s v(2) month_length_bounds [of m2 y2]
    by (auto simp: month_day_at_def last_day_def valid_civil_def not_less [symmetric])
qed

lemma month_day_at_dated:
  assumes "iso_valid y m d" "first_day \<le> month_day_at y m d j" "month_day_at y m d j \<le> last_day"
  shows "AddMonthsClamped (iso_date y m d) j = Some (date_of_day (month_day_at y m d j))"
proof -
  obtain y1 m1 d1 where s: "month_shift y m d j = (y1, m1, d1)"
    by (metis prod_cases3)
  have v: "valid_civil y1 m1 d1"
    using month_shift_valid [OF _ s] iso_valid_bounds [OF assms(1)] by blast
  have e: "valid_civil 0 1 1" "valid_civil 9999 12 31"
    by (simp_all add: valid_civil_def month_simps)
  have y: "0 \<le> y1" "y1 \<le> 9999"
    using valid_civil_day_order [OF v e(1)] valid_civil_day_order [OF e(2) v] assms(2,3) s
    by (auto simp: month_day_at_def first_day_def last_day_def)
  then have "iso_valid y1 m1 d1"
    using v by (simp add: iso_valid_def)
  then have "iso_date y1 m1 d1 = date_of_day (month_day_at y m d j)"
    using date_of_day_number [of "iso_date y1 m1 d1"] s by (simp add: month_day_at_def)
  then show ?thesis
    using AddMonthsClamped_shift(1) [OF assms(1) s y] by simp
qed

lemma schedule_okE:
  assumes "schedule_ok rule"
  obtains y m d where "iso_valid y m d" "valid_civil y m d" "scStartDate rule = iso_date y m d"
    "date_fields (scStartDate rule) = Some (y, m, d)" "month_day_at y m d 0 = civil_day y m d"
proof -
  obtain y m d where s: "iso_valid y m d" "scStartDate rule = iso_date y m d"
    using assms by (auto simp: schedule_ok_def elim: IsValidIsoDateE)
  have v: "valid_civil y m d"
    using s(1) by (simp add: iso_valid_def)
  have "month_day_at y m d 0 = civil_day y m d"
    unfolding month_day_at_def month_shift_0 [OF v] by simp
  then show ?thesis
    using iso_valid_bounds [OF s(1)] s v by (intro that) (simp_all add: date_fields_iso_date)
qed

interpretation schedule: schedule_steps schedule_ok occurrence_day rule_date_at
proof (unfold_locales, goal_cases)
  case (1 rule)
  from 1 obtain y m d where v: "valid_civil y m d" "scStartDate rule = iso_date y m d" "iso_valid y m d"
      "date_fields (scStartDate rule) = Some (y, m, d)" "month_day_at y m d 0 = civil_day y m d"
    by (rule schedule_okE)
  then have "occurrence_day rule 0 = day_number (scStartDate rule)"
    by (simp add: occurrence_day_def split: prod.split)
  then show ?case
    using 1 day_number_range [of "scStartDate rule"] by (simp add: schedule_ok_def)
next
  case (2 rule n)
  from 2(1) obtain y m d where v: "valid_civil y m d" "date_fields (scStartDate rule) = Some (y, m, d)"
    by (rule schedule_okE)
  show ?case
    using 2 v month_day_at_less [OF v(1), of n "n + 1"] month_day_at_less [OF v(1), of "3 * n" "3 * (n + 1)"]
      month_day_at_less [OF v(1), of "12 * n" "12 * (n + 1)"]
    by (cases "scFrequency rule") (auto simp: occurrence_day_def schedule_ok_def)
next
  case (3 rule n)
  from 3(1) obtain y m d where v: "valid_civil y m d" "date_fields (scStartDate rule) = Some (y, m, d)"
    by (rule schedule_okE)
  have "day_number year_9999 + 7 \<le> last_day"
    by (simp add: last_day_def civil_day_def month_simps)
  then show ?case
    using 3 v month_day_at_room [OF v(1), of n "n + 1"] month_day_at_room [OF v(1), of "3 * n" "3 * (n + 1)"]
      month_day_at_room [OF v(1), of "12 * n" "12 * (n + 1)"]
    by (cases "scFrequency rule") (auto simp: occurrence_day_def schedule_ok_def algebra_simps)
next
  case (4 rule n)
  from 4(1) obtain y m d where v: "iso_valid y m d" "scStartDate rule = iso_date y m d"
      "date_fields (scStartDate rule) = Some (y, m, d)" "month_day_at y m d 0 = civil_day y m d"
    by (rule schedule_okE)
  have days: "add_days (scStartDate rule) k = Some (date_of_day (civil_day y m d + k))"
    if "first_day \<le> civil_day y m d + k" "civil_day y m d + k \<le> last_day" for k
    using that v(1,2) date_of_day [OF that] by (intro add_days_valid) simp_all
  show ?case
    using 4 v days month_day_at_dated [OF v(1), of n] month_day_at_dated [OF v(1), of "3 * n"]
      month_day_at_dated [OF v(1), of "12 * n"]
    by (cases "scFrequency rule") (auto simp: occurrence_day_def schedule_ok_def rule_date_at_def mult.commute)
qed

section \<open>The comparators\<close>

text \<open>
  Both comparators are lexicographic: they compare a list of integers, whose first element is
  the phase of the day (transactions, then schedules, then purchases).
\<close>

definition occurrence_key :: "DatedTransactionOccurrence \<Rightarrow> int list" where
  "occurrence_key a =
     (case ocPurchase a of
        Some p \<Rightarrow> [2, ppPriority p, ocIndex a]
      | None \<Rightarrow>
          (case ocRule a of
             Some r \<Rightarrow> [1, scPriority r, ocIndex a]
           | None \<Rightarrow> let t = ocTransaction a in
               [0, trTransactionTime t, trPostedTime t, trExecutionOrder t, ocIndex a]))"

lemma occurrence_less_key: "occurrence_less a b \<longleftrightarrow> occurrence_key a < occurrence_key b"
  by (auto simp: occurrence_less_def compareDatedTransactionOccurrences_def occurrence_key_def
      cmp_Compare_def Let_def split: option.splits)

definition observation_key :: "Checkpoint \<Rightarrow> int list" where
  "observation_key c = [ckObservedAt c, of_bool (IsOwnerAuthored (ckSource c))]"

lemma observation_less_key: "observation_less x y \<longleftrightarrow> observation_key x < observation_key y"
  by (auto simp: observation_less_def observation_key_def CheckpointInstant_def Let_def)

interpretation occurrence_order: less_order occurrence_less
  using less_order_key [of occurrence_key] unfolding occurrence_less_key .

interpretation observation_order: less_order observation_less
  using less_order_key [of observation_key] unfolding observation_less_key .

lemma occurrence_ties_index:
  "occurrence_order.ties a b \<Longrightarrow> ocIndex a = ocIndex b"
  using less_linear [of "occurrence_key a" "occurrence_key b"]
  by (auto simp: occurrence_order.ties_def occurrence_less_key occurrence_key_def Let_def split: option.splits)

section \<open>Claims and windows\<close>

lemma claimed_update:
  "claimed (add_claim claims t) r d \<longleftrightarrow>
     claimed claims r d \<or>
     (trEnabled t \<and> (\<exists>c. trClaim t = Some c \<and> clScheduleID c = r \<and> clOccurrenceDate c = d))"
  by (auto simp: claimed_def lookup_default_update' split: option.split)

lemma claimed_claimsByRule:
  "claimed (claimsByRule ts) r d \<longleftrightarrow>
     (\<exists>t\<in>set ts. trEnabled t \<and> (\<exists>c. trClaim t = Some c \<and> clScheduleID c = r \<and> clOccurrenceDate c = d))"
proof -
  have "claimed (foldl add_claim claims ts) r d \<longleftrightarrow> claimed claims r d \<or>
     (\<exists>t\<in>set ts. trEnabled t \<and> (\<exists>c. trClaim t = Some c \<and> clScheduleID c = r \<and> clOccurrenceDate c = d))" for claims
    by (induction ts arbitrary: claims) (auto simp: claimed_update simp del: add_claim.simps)
  from this [of Mapping.empty] show ?thesis
    by (simp add: claimsByRule_def claimed_def lookup_default_empty)
qed

lemma in_window_iff:
  "in_window a b incl d \<longleftrightarrow> (if incl then a \<le> d else a < d) \<and> d \<le> b"
  by (simp add: in_window_def)

end
