(* ===== verification/Occurrence_Laws.thy ===== *)
theory Occurrence_Laws
  imports Recurrence_Laws
begin

text \<open>
  What \<open>RuleScheduleDates\<close>, \<open>ruleOccursOn\<close> and \<open>ResolveOccurrences\<close> return, on every input
  whose schedules have valid start dates.  The by-date map of \<open>ResolveOccurrences\<close> is given in
  closed form: the schedule instances of a day in the order of the schedules, then the
  transactions of that day in the order of the model, numbered consecutively.
\<close>

section \<open>One schedule\<close>

text \<open>The loops one step at a time, for evaluation on concrete schedules.\<close>

lemma dates_from_step:
  "dateAt n = Some d \<Longrightarrow> d \<le> e \<Longrightarrow> dates_from dateAt e (n + 1) = Some ds \<Longrightarrow> dates_from dateAt e n = Some (d # ds)"
  "dateAt n = Some d \<Longrightarrow> e < d \<Longrightarrow> dates_from dateAt e n = Some []"
  by (simp_all add: dates_from.simps [of dateAt e n])

lemma occurs_from_step:
  "dateAt n = Some d \<Longrightarrow> d < x \<Longrightarrow> occurs_from dateAt x (n + 1) = b \<Longrightarrow> occurs_from dateAt x n = b"
  "dateAt n = Some x \<Longrightarrow> occurs_from dateAt x n = Some True"
  "dateAt n = Some d \<Longrightarrow> x < d \<Longrightarrow> occurs_from dateAt x n = Some False"
  by (auto simp: occurs_from.simps [of dateAt x n])

definition rules_ok :: "Schedule list \<Rightarrow> bool" where
  "rules_ok rules \<longleftrightarrow> (\<forall>r\<in>set rules. scEnabled r \<and> validScheduleFrequency (scFrequency r) \<longrightarrow>
     IsValidIsoDate (scStartDate r))"

text \<open>A sample schedule for the witnesses: rent on the last of the month.\<close>

definition no_amount :: TransactionAmountResolution where
  "no_amount = \<lparr>amResolver = ''expression'', amConfig = [(''expression'', JStr ''1200'')], amInputs = []\<rparr>"

definition rent :: Schedule where
  "rent = \<lparr>scID = ''rent'', scName = ''Rent'', scSourceAccountID = Some ''cash'', scDestinations = None,
     scAmount = no_amount, scFrequency = FrequencyMonthly, scStartDate = ''2024-01-31'', scEndDate = None,
     scAnnualCap = None, scPriority = 1, scEnabled = True\<rparr>"

definition rent_paid_early :: Transaction where
  "rent_paid_early = (rule_instance rent 1709100000)\<lparr>trID := ''t1'',
     trClaim := Some \<lparr>clScheduleID = ''rent'', clOccurrenceDate = ''2024-02-29''\<rparr>\<rparr>"

lemma effective_end_le: "effective_end rule e \<le> e"
  by (auto simp: effective_end_def split: option.split)

lemma effective_end_eq:
  "effective_end rule e = (case scEndDate rule of None \<Rightarrow> e | Some x \<Rightarrow> min x e)"
  by (auto simp: effective_end_def min_def split: option.split)

lemma schedule_rule_dates:
  assumes "schedule_ok rule" "e < year_9999"
  obtains N where "0 \<le> N" "RuleScheduleDates rule e = Some (schedule.dates_between rule 0 N)"
    "occurrence_day rule N \<le> last_day" "effective_end rule e < date_of_day (occurrence_day rule N)"
    "\<forall>k\<in>{0..<N}. date_of_day (occurrence_day rule k) \<le> effective_end rule e"
proof -
  have "effective_end rule e < year_9999"
    using effective_end_le [of rule e] assms(2) by order
  then show ?thesis
    using schedule.dates_from_returns [OF assms(1), of "effective_end rule e" 0]
      schedule.first [OF assms(1)] assms(1) that
    by (auto simp: RuleScheduleDates_def rule_date_at_def schedule_ok_def)
qed

lemma rule_date_at_day:
  assumes "schedule_ok rule" "0 \<le> k" "occurrence_day rule k \<le> last_day"
  shows "advanceDate (scStartDate rule) (scFrequency rule) k = Some (date_of_day (occurrence_day rule k))"
  using schedule.dated [OF assms(1,2)] schedule.day_at_first [OF assms(1,2)] assms(3)
  by (simp add: rule_date_at_def)

lemma occurrence_day_0:
  assumes "schedule_ok rule"
  shows "occurrence_day rule 0 = day_number (scStartDate rule)"
  using assms by (elim schedule_okE) (simp add: occurrence_day_def split: prod.split)

text \<open>
  C11. Expanding a schedule always returns, with the dates of its periods 0, 1, 2 and so on up to
  the earlier of its own end date and the requested one: strictly increasing valid dates, none
  of them skipped, and the next period is past the end.
\<close>

theorem RuleScheduleDates_correct:
  assumes "schedule_ok rule" "endDate < year_9999"
  shows "\<exists>ds. RuleScheduleDates rule endDate = Some ds \<and>
    sorted_wrt (<) ds \<and> (\<forall>d\<in>set ds. IsValidIsoDate d \<and> d \<le> effective_end rule endDate) \<and>
    (\<forall>k < length ds. advanceDate (scStartDate rule) (scFrequency rule) (int k) = Some (ds ! k)) \<and>
    (\<exists>d. advanceDate (scStartDate rule) (scFrequency rule) (int (length ds)) = Some d \<and>
         IsValidIsoDate d \<and> effective_end rule endDate < d)"
proof -
  obtain N where N: "0 \<le> N" "RuleScheduleDates rule endDate = Some (schedule.dates_between rule 0 N)"
    "occurrence_day rule N \<le> last_day" "effective_end rule endDate < date_of_day (occurrence_day rule N)"
    "\<forall>k\<in>{0..<N}. date_of_day (occurrence_day rule k) \<le> effective_end rule endDate"
    by (rule schedule_rule_dates [OF assms])
  note sorted = schedule.dates_between_sorted [OF assms(1) N(3)]
  have k: "advanceDate (scStartDate rule) (scFrequency rule) k = Some (date_of_day (occurrence_day rule k))"
    if "0 \<le> k" "k \<le> N" for k
  proof (rule rule_date_at_day [OF assms(1) that(1)])
    show "occurrence_day rule k \<le> last_day"
      using that N(3) schedule.day_at_less [OF assms(1) that(1), of N] by (cases "k = N") auto
  qed
  have len: "int (length (schedule.dates_between rule 0 N)) = N"
    using N(1) by (simp add: schedule.dates_between_def)
  have after: "\<exists>d. advanceDate (scStartDate rule) (scFrequency rule) (int (length (schedule.dates_between rule 0 N)))
      = Some d \<and> IsValidIsoDate d \<and> effective_end rule endDate < d"
    unfolding len using k [OF N(1)] date_of_day(1) N(1,3,4) schedule.day_at_first [OF assms(1)] by auto
  have nth: "advanceDate (scStartDate rule) (scFrequency rule) (int j) = Some (schedule.dates_between rule 0 N ! j)"
    if "j < length (schedule.dates_between rule 0 N)" for j
    using that k [of "int j"] nth_upto [of 0 j "N - 1"] by (simp add: schedule.dates_between_def)
  have le: "\<forall>d\<in>set (schedule.dates_between rule 0 N). d \<le> effective_end rule endDate"
    using N(5) by (auto simp: schedule.dates_between_def)
  show ?thesis
    using N(2) sorted le after nth by blast
qed

lemma rent_dates:
  "advanceDate ''2024-01-31'' FrequencyMonthly 0 = Some ''2024-01-31''"
  "advanceDate ''2024-01-31'' FrequencyMonthly 1 = Some ''2024-02-29''"
  "advanceDate ''2024-01-31'' FrequencyMonthly 2 = Some ''2024-03-31''"
  "advanceDate ''2024-01-31'' FrequencyMonthly 3 = Some ''2024-04-30''"
  by code_simp+

lemma rent_ok: "schedule_ok rent" "rules_ok [rent]" "scEnabled rent"
  by code_simp+

lemma RuleScheduleDates_rent:
  "RuleScheduleDates rent ''2024-04-01'' = Some [''2024-01-31'', ''2024-02-29'', ''2024-03-31'']"
proof -
  have "dates_from (advanceDate ''2024-01-31'' FrequencyMonthly) ''2024-04-01'' 0 =
      Some [''2024-01-31'', ''2024-02-29'', ''2024-03-31'']"
    by (auto simp del: advanceDate.simps simp: rent_dates intro!: dates_from_step)
  then show ?thesis
    by (simp add: RuleScheduleDates_def rent_def effective_end_def)
qed

lemma RuleScheduleDates_correct_witness:
  "\<exists>ds. RuleScheduleDates rent ''2024-04-01'' = Some ds \<and> sorted_wrt (<) ds \<and>
     ds = [''2024-01-31'', ''2024-02-29'', ''2024-03-31'']"
  using RuleScheduleDates_correct [OF rent_ok(1), of "''2024-04-01''"] RuleScheduleDates_rent by simp

lemma ruleOccursOn_dates:
  assumes "schedule_ok rule" "date < year_9999"
  shows "\<exists>ds. RuleScheduleDates rule date = Some ds \<and> ruleOccursOn rule date = Some (date \<in> set ds)"
proof -
  obtain N where N: "0 \<le> N" "RuleScheduleDates rule date = Some (schedule.dates_between rule 0 N)"
    "occurrence_day rule N \<le> last_day"
    "\<forall>k\<in>{0..<N}. date_of_day (occurrence_day rule k) \<le> effective_end rule date"
    by (rule schedule_rule_dates [OF assms]) blast
  define ds where "ds = schedule.dates_between rule 0 N"
  have start: "scStartDate rule = date_of_day (occurrence_day rule 0)" "IsValidIsoDate (scStartDate rule)"
    using assms(1) date_of_day_number by (auto simp: occurrence_day_0 schedule_ok_def)
  have ge: "scStartDate rule \<le> d" if d: "d \<in> set ds" for d
  proof -
    obtain k where k: "0 \<le> k" "k < N" "d = date_of_day (occurrence_day rule k)"
      using d by (auto simp: ds_def schedule.dates_between_def)
    have "d \<in> set (schedule.dates_between rule 0 N)"
      using d by (simp add: ds_def)
    moreover have "scStartDate rule = schedule.dates_between rule 0 N ! 0" "0 < nat N"
      using k start(1) by (auto simp: schedule.dates_between_def)
    ultimately show ?thesis
      using schedule.dates_between_sorted(1) [OF assms(1) N(3)]
      by (cases "schedule.dates_between rule 0 N") auto
  qed
  have le: "d \<le> effective_end rule date" if "d \<in> set ds" for d
    using that N(4) by (auto simp: ds_def schedule.dates_between_def)
  have "ruleOccursOn rule date = Some (date \<in> set ds)"
  proof (cases "date < scStartDate rule \<or> (\<exists>e. scEndDate rule = Some e \<and> e < date)")
    case True
    then have "date \<notin> set ds"
      using ge [of date] le [of date] by (auto simp: effective_end_eq)
    with True assms(1) show ?thesis
      by (auto simp: ruleOccursOn_def schedule_ok_def split: option.split)
  next
    case False
    then have "effective_end rule date = date"
      by (auto simp: effective_end_eq split: option.split)
    then have "dates_from (rule_date_at rule) date 0 = Some ds"
      using N(2) assms(1) by (simp add: RuleScheduleDates_def schedule_ok_def rule_date_at_def ds_def)
    then have "occurs_from (rule_date_at rule) date 0 = Some (date \<in> set ds)"
      using schedule.occurs_from_returns [OF assms, of 0 ds date] schedule.first [OF assms(1)] by simp
    then show ?thesis
      using False assms(1)
      by (auto simp: ruleOccursOn_def schedule_ok_def rule_date_at_def split: option.split)
  qed
  with N(2) show ?thesis by (simp add: ds_def)
qed

text \<open>
  Testing one date agrees with expanding the whole schedule: the shortcut the claim checks
  use returns whether the date is one of the schedule's dates.
\<close>

theorem ruleOccursOn_iff:
  assumes "schedule_ok rule" "date < year_9999"
  shows "\<exists>ds. RuleScheduleDates rule date = Some ds \<and> ruleOccursOn rule date = Some (date \<in> set ds)"
  using assms by (rule ruleOccursOn_dates)

lemma ruleOccursOn_iff_witness:
  "ruleOccursOn rent ''2024-04-01'' = Some False \<and> ruleOccursOn rent ''2024-02-29'' = Some True"
proof
  show "ruleOccursOn rent ''2024-04-01'' = Some False"
    using ruleOccursOn_iff [OF rent_ok(1), of "''2024-04-01''"] RuleScheduleDates_rent by simp
  show "ruleOccursOn rent ''2024-02-29'' = Some True"
  proof -
    have "occurs_from (advanceDate ''2024-01-31'' FrequencyMonthly) ''2024-02-29'' 0 = Some True"
      by (rule occurs_from_step(1)) (auto simp del: advanceDate.simps simp: rent_dates intro!: occurs_from_step(2))
    then show ?thesis
      by (simp add: ruleOccursOn_def rent_def)
  qed
qed

text \<open>
  A schedule that runs past the year 9999 leaves the ISO dates: the next date string has five
  digits in its year, is not a valid date, and compares below every end date in the year 9999,
  so the expansion loop does not stop there.
\<close>

theorem advanceDate_past_9999:
  "advanceDate ''9999-12-01'' FrequencyMonthly 1 = Some ''10000-01-01'' \<and>
   CompareIsoDates ''10000-01-01'' ''9999-12-31'' < 0 \<and> \<not> IsValidIsoDate ''10000-01-01''"
proof (intro conjI)
  have "splitIsoDate ''9999-12-01'' = Some (9999, 12, 1)"
    by code_simp
  then show "advanceDate ''9999-12-01'' FrequencyMonthly 1 = Some ''10000-01-01''"
    by (simp add: AddMonthsClamped_def floorDiv_12 go_mod_12 daysInMonth_month_length month_length_def
        month_lengths_def sprintf_0d_def zero_pad_def dec.simps digit_char_def Let_def char_of_def bit_0)
  show "CompareIsoDates ''10000-01-01'' ''9999-12-31'' < 0"
    by code_simp
  show "\<not> IsValidIsoDate ''10000-01-01''"
    by code_simp
qed

section \<open>The by-date map\<close>

lemma go_index_append_at:
  "go_index [] (append_at m k v) d = (if d = k then go_index [] m d @ [v] else go_index [] m d)"
  by (simp add: append_at_def lookup_default_update')

definition instance_occurrence :: "int \<times> nat \<times> Schedule \<times> string \<Rightarrow> DatedTransactionOccurrence" where
  "instance_occurrence = (\<lambda>(n, i, rule, date).
     \<lparr>ocTransaction = rule_instance rule (the (dayCloseUnix date)), ocIndex = n, ocRule = Some rule,
      ocPurchase = None, ocDocPath = Some (''schedules'', i)\<rparr>)"

definition transaction_occurrence :: "int \<times> nat \<times> Transaction \<Rightarrow> DatedTransactionOccurrence" where
  "transaction_occurrence = (\<lambda>(n, i, t).
     \<lparr>ocTransaction = t, ocIndex = n, ocRule = None, ocPurchase = None,
      ocDocPath = Some (''transactions'', i)\<rparr>)"

text \<open>Consecutive numbers from \<open>n\<close> on.\<close>

definition numbered :: "int \<Rightarrow> 'a list \<Rightarrow> (int \<times> 'a) list" where
  "numbered n xs = zip (map (\<lambda>k. n + int k) [0..<length xs]) xs"

lemma numbered_simps [simp]:
  "numbered n [] = []" "numbered n (x # xs) = (n, x) # numbered (n + 1) xs"
  by (simp_all add: numbered_def map_upt_Suc algebra_simps del: upt_Suc)

lemma numbered_append: "numbered n (xs @ ys) = numbered n xs @ numbered (n + int (length xs)) ys"
  by (induction xs arbitrary: n) (simp_all add: algebra_simps)

lemma set_numbered: "(k, x) \<in> set (numbered n xs) \<longleftrightarrow> n \<le> k \<and> k < n + int (length xs) \<and> xs ! nat (k - n) = x"
proof (induction xs arbitrary: n)
  case (Cons a xs)
  have "nat (k - n) = Suc (nat (k - (n + 1)))" if "n < k"
    using that by linarith
  then show ?case
    using Cons [of "n + 1"] by (cases "k = n") auto
qed auto

lemma add_instances_eq:
  assumes "\<forall>(i, rule, date)\<in>set specs. IsValidIsoDate date"
  shows "\<exists>R'. add_instances specs n R = Some (n + int (length specs), R') \<and>
    roInstances R' = roInstances R @ map (\<lambda>x. ocTransaction (instance_occurrence x)) (numbered n specs) \<and>
    (\<forall>d. go_index [] (roByDate R') d = go_index [] (roByDate R) d @
       map instance_occurrence (filter (\<lambda>(k, i, rule, date). date = d) (numbered n specs)))"
  using assms
proof (induction specs n R rule: add_instances.induct)
  case (2 ruleIndex rule date specs n R)
  define stamp where "stamp = the (dayCloseUnix date)"
  have stamp: "dayCloseUnix date = Some stamp"
    using 2 by (simp add: dayCloseUnix_valid stamp_def)
  define R1 where "R1 = R\<lparr>roInstances := roInstances R @ [rule_instance rule stamp],
    roByDate := append_at (roByDate R) date (instance_occurrence (n, ruleIndex, rule, date))\<rparr>"
  have "add_instances ((ruleIndex, rule, date) # specs) n R = add_instances specs (n + 1) R1"
    by (simp add: stamp R1_def instance_occurrence_def Let_def)
  moreover obtain R' where "add_instances specs (n + 1) R1 = Some (n + 1 + int (length specs), R')"
    "roInstances R' = roInstances R1 @ map (\<lambda>x. ocTransaction (instance_occurrence x)) (numbered (n + 1) specs)"
    "\<And>d. go_index [] (roByDate R') d = go_index [] (roByDate R1) d @
       map instance_occurrence (filter (\<lambda>(k, i, rule, date). date = d) (numbered (n + 1) specs))"
    using 2 stamp by (force simp: R1_def instance_occurrence_def)
  ultimately show ?case
    by (intro exI [of _ R']) (simp add: R1_def go_index_append_at instance_occurrence_def stamp)
qed simp

definition placed :: "(string \<Rightarrow> bool) \<Rightarrow> nat \<Rightarrow> Transaction list \<Rightarrow> (nat \<times> Transaction) list" where
  "placed inWindow i ts =
     filter (\<lambda>(k, t). trEnabled t \<and> transactionDay t \<noteq> '''' \<and> inWindow (transactionDay t)) (enumerate i ts)"

lemma add_transactions_eq:
  "roInstances (add_transactions W i ts n R) = roInstances R"
  "go_index [] (roByDate (add_transactions W i ts n R)) d = go_index [] (roByDate R) d @
     map transaction_occurrence (filter (\<lambda>(k, j, t). transactionDay t = d) (numbered n (placed W i ts)))"
  by (induction ts arbitrary: i n R)
    (auto simp: placed_def transaction_occurrence_def go_index_append_at Let_def)

section \<open>Resolution\<close>

text \<open>
  The dates on which a schedule is due in a window: those of its expansion up to the window's
  end that fall in the window and that no enabled transaction claims.
\<close>

definition due_dates ::
  "Transaction list \<Rightarrow> string \<Rightarrow> string \<Rightarrow> bool \<Rightarrow> Schedule \<Rightarrow> string list" where
  "due_dates ts a b incl rule =
     (if scEnabled rule
      then filter (\<lambda>d. in_window a b incl d \<and> \<not> claimed (claimsByRule ts) (scID rule) d)
             (the (RuleScheduleDates rule b))
      else [])"

lemma rule_window_dates_due:
  assumes "rules_ok rules" "rule \<in> set rules" "b < year_9999"
  shows "rule_window_dates (claimsByRule ts) (in_window a b incl) b rule = Some (due_dates ts a b incl rule)"
    and "\<forall>d\<in>set (due_dates ts a b incl rule). IsValidIsoDate d"
proof -
  have "rule_window_dates (claimsByRule ts) (in_window a b incl) b rule = Some (due_dates ts a b incl rule) \<and>
    (\<forall>d\<in>set (due_dates ts a b incl rule). IsValidIsoDate d)"
  proof (cases "scEnabled rule \<and> validScheduleFrequency (scFrequency rule)")
    case True
    then have "schedule_ok rule"
      using assms(1,2) by (simp add: rules_ok_def schedule_ok_def)
    then obtain N where N: "RuleScheduleDates rule b = Some (schedule.dates_between rule 0 N)"
      "occurrence_day rule N \<le> last_day"
      using schedule_rule_dates [OF _ assms(3)] by metis
    show ?thesis
      using True N schedule.dates_between_sorted(2) [OF \<open>schedule_ok rule\<close> N(2)]
      by (auto simp: rule_window_dates_def due_dates_def RuleScheduleDates_def)
  next
    case False
    then show ?thesis
      by (auto simp: rule_window_dates_def due_dates_def RuleScheduleDates_def)
  qed
  then show "rule_window_dates (claimsByRule ts) (in_window a b incl) b rule = Some (due_dates ts a b incl rule)"
    "\<forall>d\<in>set (due_dates ts a b incl rule). IsValidIsoDate d" by blast+
qed

lemma RuleScheduleDates_returns:
  assumes "rules_ok rules" "e < year_9999" "rule \<in> set rules" "scEnabled rule"
  shows "\<exists>ds. RuleScheduleDates rule e = Some ds"
proof (cases "validScheduleFrequency (scFrequency rule)")
  case True
  then have "schedule_ok rule"
    using assms by (simp add: rules_ok_def schedule_ok_def)
  then show ?thesis
    using schedule_rule_dates [OF _ assms(2)] by metis
qed (simp add: RuleScheduleDates_def)

lemma due_dates_distinct:
  assumes "rules_ok rules" "rule \<in> set rules" "b < year_9999"
  shows "sorted_wrt (<) (due_dates ts a b incl rule)"
proof (cases "scEnabled rule \<and> validScheduleFrequency (scFrequency rule)")
  case True
  then have "schedule_ok rule"
    using assms(1,2) by (simp add: rules_ok_def schedule_ok_def)
  then obtain N where N: "RuleScheduleDates rule b = Some (schedule.dates_between rule 0 N)"
    "occurrence_day rule N \<le> last_day"
    using schedule_rule_dates [OF _ assms(3)] by metis
  then show ?thesis
    using schedule.dates_between_sorted(1) [OF \<open>schedule_ok rule\<close> N(2)]
    by (simp add: due_dates_def sorted_wrt_filter)
qed (auto simp: due_dates_def RuleScheduleDates_def)

definition due_specs ::
  "(Schedule \<Rightarrow> string list) \<Rightarrow> nat \<Rightarrow> Schedule list \<Rightarrow> (nat \<times> Schedule \<times> string) list" where
  "due_specs due i rules =
     concat (map (\<lambda>(k, rule). map (\<lambda>date. (k, rule, date)) (due rule)) (enumerate i rules))"

lemma instance_specs_due:
  "(\<forall>r\<in>set rules. f r = Some (due r)) \<Longrightarrow> instance_specs f i rules = Some (due_specs due i rules)"
  by (induction rules arbitrary: i) (simp_all add: due_specs_def)

lemma set_due_specs:
  "(k, rule, d) \<in> set (due_specs due i rules) \<longleftrightarrow>
     i \<le> k \<and> k < i + length rules \<and> rules ! (k - i) = rule \<and> d \<in> set (due rule)"
  by (auto simp: due_specs_def in_set_enumerate_eq) (force simp: in_set_enumerate_eq)

text \<open>
  Resolving a window never fails, and puts on a day exactly the instances of the schedules
  due on it, in schedule order, followed by the enabled transactions dated on it, in model
  order; indices count up through both.
\<close>

lemma ResolveOccurrences_by_date:
  assumes "rules_ok rules" "windowEnd < year_9999"
  shows "\<exists>r. ResolveOccurrences rules ts windowStart windowEnd incl = Some r \<and>
    (let specs = due_specs (due_dates ts windowStart windowEnd incl) 0 rules;
         moves = placed (in_window windowStart windowEnd incl) 0 ts
     in \<forall>d. go_index [] (roByDate r) d =
       map instance_occurrence (filter (\<lambda>(n, i, rule, date). date = d) (numbered 0 specs)) @
       map transaction_occurrence
         (filter (\<lambda>(n, i, t). transactionDay t = d) (numbered (int (length specs)) moves)))"
proof -
  let ?specs = "due_specs (due_dates ts windowStart windowEnd incl) 0 rules"
  have specs: "instance_specs (rule_window_dates (claimsByRule ts) (in_window windowStart windowEnd incl) windowEnd)
      0 rules = Some ?specs"
    by (rule instance_specs_due) (simp add: rule_window_dates_due(1) [OF assms(1) _ assms(2)])
  have "\<forall>(i, rule, date)\<in>set ?specs. IsValidIsoDate date"
    using rule_window_dates_due(2) [OF assms(1) nth_mem assms(2)] by (auto simp: set_due_specs)
  from add_instances_eq [OF this, of 0 "\<lparr>roInstances = [], roByDate = Mapping.empty\<rparr>"]
  show ?thesis
    using specs by (auto simp: ResolveOccurrences_def add_transactions_eq Let_def lookup_default_empty)
qed

lemma snd_set_numbered: "snd ` set (numbered n xs) = set xs"
  by (induction xs arbitrary: n) auto

lemma ex_numbered: "(\<exists>k. (k, x) \<in> set (numbered n xs)) \<longleftrightarrow> x \<in> set xs"
  using snd_set_numbered [of n xs] by force

text \<open>What is left of a day's occurrences when their numbers and document paths are forgotten.\<close>

definition unnumbered :: "DatedTransactionOccurrence \<Rightarrow> Schedule option \<times> Transaction" where
  "unnumbered occ = (ocRule occ, ocTransaction occ)"

lemma map_snd_numbered: "map (f \<circ> snd) (filter (P \<circ> snd) (numbered n xs)) = map f (filter P xs)"
  by (induction xs arbitrary: n) simp_all

lemma map_snd_enumerate: "map (f \<circ> snd) (filter (P \<circ> snd) (enumerate i xs)) = map f (filter P xs)"
  by (induction xs arbitrary: i) simp_all

lemma filter_distinct_at: "distinct ds \<Longrightarrow> filter (\<lambda>x. x = d) ds = (if d \<in> set ds then [d] else [])"
  by (induction ds) auto

text \<open>A schedule due on a day gives one instance of it.\<close>

lemma due_instances:
  assumes "\<forall>rule\<in>set rules. distinct (due rule)"
  shows "map (\<lambda>(k, rule, date). (Some rule, rule_instance rule (the (dayCloseUnix date))))
      (filter (\<lambda>(k, rule, date). date = d) (due_specs due i rules)) =
    map (\<lambda>rule. (Some rule, rule_instance rule (the (dayCloseUnix d)))) (filter (\<lambda>rule. d \<in> set (due rule)) rules)"
  using assms
proof (induction rules arbitrary: i)
  case (Cons rule rules)
  have "filter (\<lambda>(k, rule, date). date = d) (map (\<lambda>date. (i, rule, date)) (due rule)) =
      (if d \<in> set (due rule) then [(i, rule, d)] else [])"
    using filter_distinct_at [of "due rule" d] Cons.prems by (simp add: filter_map comp_def)
  moreover have "due_specs due i (rule # rules) = map (\<lambda>date. (i, rule, date)) (due rule) @ due_specs due (Suc i) rules"
    by (simp add: due_specs_def)
  ultimately show ?case
    using Cons by simp
qed (simp add: due_specs_def)

lemma due_dates_iff:
  assumes "rules_ok rules" "windowEnd < year_9999" "rule \<in> set rules"
  shows "d \<in> set (due_dates ts windowStart windowEnd incl rule) \<longleftrightarrow>
    scEnabled rule \<and> (\<exists>ds. RuleScheduleDates rule windowEnd = Some ds \<and> d \<in> set ds) \<and>
    in_window windowStart windowEnd incl d \<and>
    \<not> (\<exists>t\<in>set ts. trEnabled t \<and> (\<exists>c. trClaim t = Some c \<and> clScheduleID c = scID rule \<and> clOccurrenceDate c = d))"
  using RuleScheduleDates_returns [OF assms] by (auto simp: due_dates_def claimed_claimsByRule)

text \<open>When a schedule is due on a day of the window, and when a transaction falls on it.\<close>

definition falls_due :: "Transaction list \<Rightarrow> string \<Rightarrow> string \<Rightarrow> bool \<Rightarrow> string \<Rightarrow> Schedule \<Rightarrow> bool" where
  "falls_due ts windowStart windowEnd incl d rule \<longleftrightarrow>
     scEnabled rule \<and> (case RuleScheduleDates rule windowEnd of None \<Rightarrow> False | Some ds \<Rightarrow> d \<in> set ds) \<and>
     (if incl then windowStart \<le> d else windowStart < d) \<and> d \<le> windowEnd \<and>
     \<not> list_ex (\<lambda>t. trEnabled t \<and> (case trClaim t of None \<Rightarrow> False
         | Some c \<Rightarrow> clScheduleID c = scID rule \<and> clOccurrenceDate c = d)) ts"

definition falls_on :: "string \<Rightarrow> string \<Rightarrow> bool \<Rightarrow> string \<Rightarrow> Transaction \<Rightarrow> bool" where
  "falls_on windowStart windowEnd incl d t \<longleftrightarrow>
     trEnabled t \<and> transactionDay t = d \<and> d \<noteq> '''' \<and> (if incl then windowStart \<le> d else windowStart < d) \<and> d \<le> windowEnd"

text \<open>
  C12. Expansion returns on valid rules and gives every day exactly its occurrences.  First, in the order of the
  schedules, one instance, stamped with the close of the day, for each enabled schedule whose expansion has the day in the
  window and which no enabled transaction claims for that day: a recorded payment replaces the occurrence it names, and no
  other.  Then, in the order of the model, the enabled transactions of that day.  Nothing else, and nothing twice.
\<close>

theorem ResolveOccurrences_schedules:
  assumes "rules_ok rules" "windowEnd < year_9999"
  shows "\<exists>r. ResolveOccurrences rules ts windowStart windowEnd incl = Some r \<and>
    (\<forall>d. map unnumbered (go_index [] (roByDate r) d) =
       map (\<lambda>rule. (Some rule, rule_instance rule (the (dayCloseUnix d)))) (filter (falls_due ts windowStart windowEnd incl d) rules) @
       map (\<lambda>t. (None, t)) (filter (falls_on windowStart windowEnd incl d) ts))"
proof -
  let ?due = "due_dates ts windowStart windowEnd incl"
  obtain r where r: "ResolveOccurrences rules ts windowStart windowEnd incl = Some r"
    and d: "\<And>d. go_index [] (roByDate r) d =
       map instance_occurrence (filter (\<lambda>(n, i, rule, date). date = d) (numbered 0 (due_specs ?due 0 rules))) @
       map transaction_occurrence (filter (\<lambda>(n, i, t). transactionDay t = d)
         (numbered (int (length (due_specs ?due 0 rules))) (placed (in_window windowStart windowEnd incl) 0 ts)))"
    using ResolveOccurrences_by_date [OF assms, of ts windowStart incl] unfolding Let_def by blast
  have "\<forall>rule\<in>set rules. distinct (?due rule)"
    using due_dates_distinct [OF assms(1) _ assms(2)] strict_sorted_iff by blast
  note one = due_instances [OF this, of _ 0]
  have "filter (\<lambda>rule. d \<in> set (?due rule)) rules = filter (falls_due ts windowStart windowEnd incl d) rules" for d
    using due_dates_iff [OF assms] by (auto simp: falls_due_def in_window_iff list_ex_iff split: option.splits intro!: filter_cong)
  then have instances: "map unnumbered (map instance_occurrence (filter (\<lambda>(n, i, rule, date). date = d) (numbered 0 (due_specs ?due 0 rules)))) =
      map (\<lambda>rule. (Some rule, rule_instance rule (the (dayCloseUnix d)))) (filter (falls_due ts windowStart windowEnd incl d) rules)" for d
    using one [of d] map_snd_numbered [of "\<lambda>(k, rule, date). (Some rule, rule_instance rule (the (dayCloseUnix date)))"
        "\<lambda>(k, rule, date). date = d" 0 "due_specs ?due 0 rules"]
    by (simp add: comp_def unnumbered_def instance_occurrence_def case_prod_unfold)
  have moves: "map unnumbered (map transaction_occurrence (filter (\<lambda>(n, i, t). transactionDay t = d)
      (numbered n (placed (in_window windowStart windowEnd incl) 0 ts)))) = map (\<lambda>t. (None, t)) (filter (falls_on windowStart windowEnd incl d) ts)" for d n
  proof -
    have "map unnumbered (map transaction_occurrence (filter (\<lambda>(n, i, t). transactionDay t = d) (numbered n xs))) =
        map ((\<lambda>t. (None, t)) \<circ> snd) (filter (\<lambda>(i, t). transactionDay t = d) xs)" for xs :: "(nat \<times> Transaction) list"
      using map_snd_numbered [of "\<lambda>(i, t). (None, t)" "\<lambda>(i, t). transactionDay t = d" n xs]
      by (simp add: comp_def unnumbered_def transaction_occurrence_def case_prod_unfold)
    moreover have "filter (\<lambda>(i, t). transactionDay t = d) (placed (in_window windowStart windowEnd incl) 0 ts) =
        filter (falls_on windowStart windowEnd incl d \<circ> snd) (enumerate 0 ts)"
      unfolding placed_def filter_filter by (rule filter_cong) (auto simp: falls_on_def in_window_iff)
    ultimately show ?thesis
      using map_snd_enumerate [of "\<lambda>t. (None, t)"] by metis
  qed
  show ?thesis
    using r instances moves by (intro exI [of _ r]) (simp only: d map_append simp_thms)
qed

lemma rent_paid_early_fields:
  "trEnabled rent_paid_early" "scID rent = ''rent''"
  "trClaim rent_paid_early = Some \<lparr>clScheduleID = ''rent'', clOccurrenceDate = ''2024-02-29''\<rparr>"
  by (simp_all add: rent_paid_early_def rule_instance_def rent_def)

lemma ResolveOccurrences_schedules_witness:
  "\<exists>r. ResolveOccurrences [rent] [rent_paid_early] ''2024-02-01'' ''2024-04-01'' True = Some r \<and>
     map unnumbered (go_index [] (roByDate r) ''2024-03-31'') = [(Some rent, rule_instance rent (the (dayCloseUnix ''2024-03-31'')))] \<and>
     map unnumbered (go_index [] (roByDate r) ''2024-02-29'') = [] \<and>
     map unnumbered (go_index [] (roByDate r) ''2024-02-28'') = [(None, rent_paid_early)]"
proof -
  have "(''2024-04-01'' :: string) < year_9999"
    by simp
  from ResolveOccurrences_schedules [OF rent_ok(2) this, of "[rent_paid_early]" "''2024-02-01''" True]
  obtain r where r: "ResolveOccurrences [rent] [rent_paid_early] ''2024-02-01'' ''2024-04-01'' True = Some r"
    and d: "\<And>d. map unnumbered (go_index [] (roByDate r) d) =
       map (\<lambda>rule. (Some rule, rule_instance rule (the (dayCloseUnix d))))
         (filter (falls_due [rent_paid_early] ''2024-02-01'' ''2024-04-01'' True d) [rent]) @
       map (\<lambda>t. (None, t)) (filter (falls_on ''2024-02-01'' ''2024-04-01'' True d) [rent_paid_early])"
    by blast
  have "falls_due [rent_paid_early] ''2024-02-01'' ''2024-04-01'' True ''2024-03-31'' rent"
    "\<not> falls_due [rent_paid_early] ''2024-02-01'' ''2024-04-01'' True ''2024-02-29'' rent"
    "\<not> falls_due [rent_paid_early] ''2024-02-01'' ''2024-04-01'' True ''2024-02-28'' rent"
    using RuleScheduleDates_rent rent_ok(3) by (simp_all add: falls_due_def rent_paid_early_fields)
  moreover have "transactionDay rent_paid_early = ''2024-02-28''"
  proof -
    have "FormatIsoDate 1709100000 = ''2024-02-28''" by code_simp
    then show ?thesis by (simp add: transactionDay_def rent_paid_early_def rule_instance_def)
  qed
  then have "falls_on ''2024-02-01'' ''2024-04-01'' True d rent_paid_early \<longleftrightarrow> d = ''2024-02-28''" for d
    by (auto simp: falls_on_def rent_paid_early_fields)
  ultimately show ?thesis
    using r d [of "''2024-03-31''"] d [of "''2024-02-29''"] d [of "''2024-02-28''"] by simp
qed

text \<open>
  The order in which the transactions, schedules and purchases of a day execute is a function
  of the day's occurrences alone: whatever order they are collected in, the sorted list is the
  same, one-time transactions first, then schedules by priority, then purchases by priority.
\<close>

theorem sortOccurrences_order:
  assumes "distinct (map ocIndex xs)" "mset ys = mset xs"
  shows "sortOccurrences ys = sortOccurrences xs \<and> mset (sortOccurrences xs) = mset xs \<and>
    sorted_wrt (\<lambda>a b. compareDatedTransactionOccurrences a b < 0) (sortOccurrences xs) \<and>
    sorted_wrt (\<lambda>a b. (ocPurchase a \<noteq> None \<longrightarrow> ocPurchase b \<noteq> None) \<and>
      (ocPurchase b = None \<and> ocRule a \<noteq> None \<longrightarrow> ocRule b \<noteq> None)) (sortOccurrences xs)"
proof -
  have inj: "x = y" if "x \<in> set xs" "y \<in> set xs" "occurrence_order.ties x y" for x y
    using that assms(1) occurrence_ties_index [OF that(3)] by (auto simp: distinct_map inj_on_def)
  have "sortOccurrences ys = sortOccurrences xs"
    unfolding sortOccurrences_def using assms(2) inj mset_eq_setD [OF assms(2)]
    by (intro occurrence_order.sort_by_cong_mset) auto
  moreover have "sorted_wrt occurrence_less (sortOccurrences xs)"
  proof -
    have "sorted_wrt (\<lambda>a b. \<not> occurrence_less b a) (sortOccurrences xs)"
      using occurrence_order.ordered_sort_by [of xs] by (simp add: sortOccurrences_def ordered_by_def)
    moreover have "distinct (sortOccurrences xs)"
      using assms(1) by (simp add: sortOccurrences_def distinct_map)
    ultimately have "sorted_wrt (\<lambda>a b. \<not> occurrence_less b a \<and> a \<noteq> b) (sortOccurrences xs)"
      by (auto simp: sorted_wrt_iff_nth_less distinct_conv_nth)
    then show ?thesis
      using inj by (elim sorted_wrt_mono_rel [rotated])
        (auto simp: sortOccurrences_def occurrence_order.ties_def)
  qed
  moreover from this have "sorted_wrt (\<lambda>a b. (ocPurchase a \<noteq> None \<longrightarrow> ocPurchase b \<noteq> None) \<and>
      (ocPurchase b = None \<and> ocRule a \<noteq> None \<longrightarrow> ocRule b \<noteq> None)) (sortOccurrences xs)"
    by (rule sorted_wrt_mono_rel [rotated])
      (auto simp: occurrence_less_key occurrence_key_def Let_def split: option.splits)
  ultimately show ?thesis
    unfolding occurrence_less_def by (intro conjI) (simp_all add: sortOccurrences_def)
qed

lemma sortOccurrences_order_witness:
  "map ocIndex (sortOccurrences [instance_occurrence (0, 0, rent, ''2024-03-31''),
     transaction_occurrence (1, 0, rent_paid_early)]) = [1, 0] \<and>
   sortOccurrences [transaction_occurrence (1, 0, rent_paid_early), instance_occurrence (0, 0, rent, ''2024-03-31'')] =
   sortOccurrences [instance_occurrence (0, 0, rent, ''2024-03-31''), transaction_occurrence (1, 0, rent_paid_early)]"
  (is "_ \<and> sortOccurrences ?ys = sortOccurrences ?xs")
proof
  show "map ocIndex (sortOccurrences ?xs) = [1, 0]"
    by (simp add: sortOccurrences_def occurrence_less_key occurrence_key_def instance_occurrence_def
        transaction_occurrence_def Let_def)
  show "sortOccurrences ?ys = sortOccurrences ?xs"
    using sortOccurrences_order [of ?xs ?ys]
    by (simp add: instance_occurrence_def transaction_occurrence_def)
qed

end
