(* ===== verification/Float_Error.thy ===== *)
theory Float_Error
  imports Float64
begin

text \<open>
  How far a rounded sum is from the exact one.  Money amounts are far below \<open>2 ^ 45\<close>, so one
  addition is off by at most \<open>2 ^ -9\<close>; \<open>slack\<close> bounds what two of them can do to a limit.
\<close>

lemma round_half_even_error: "\<bar>of_int (round_half_even x) - x\<bar> \<le> 1 / 2"
proof -
  define f where "f = (of_int \<lfloor>x\<rfloor> :: rat)"
  have f: "f \<le> x" "x < f + 1"
    using floor_correct [of x] by (simp_all add: f_def)
  have "of_int (round_half_even x) = f \<and> x - f \<le> 1 / 2 \<or> of_int (round_half_even x) = f + 1 \<and> 1 / 2 \<le> x - f"
    by (simp add: round_half_even_def Let_def f_def)
  then show ?thesis
    using f unfolding abs_le_iff by linarith
qed

lemma rnd_error:
  assumes x: "\<bar>x\<bar> < p2 k" and k: "- 1021 \<le> k"
  shows "\<bar>rnd x - x\<bar> \<le> p2 (k - 54)"
proof (cases "x = 0")
  case False
  define e where "e = ulp_exp x"
  have e: "e \<le> k - 53"
    using rat_log2_lt [of "\<bar>x\<bar>" k] x k False by (auto simp: e_def ulp_exp_def)
  have "rnd x - x = (of_int (round_half_even (x / p2 e)) - x / p2 e) * p2 e"
    using False by (simp add: rnd_def e_def Let_def left_diff_distrib)
  also have "\<bar>\<dots>\<bar> = \<bar>of_int (round_half_even (x / p2 e)) - x / p2 e\<bar> * p2 e"
    by (simp add: abs_mult)
  also have "\<dots> \<le> 1 / 2 * p2 e"
    by (intro mult_right_mono round_half_even_error) (simp add: less_imp_le)
  also have "\<dots> = p2 (e - 1)"
    by (simp add: p2_diff)
  also have "\<dots> \<le> p2 (k - 54)"
    using e by simp
  finally show ?thesis .
qed simp

text \<open>Sums of magnitude below \<open>2 ^ 45\<close> do not overflow.\<close>

lemma f64_of_rat_small:
  assumes "\<bar>x\<bar> < p2 45"
  shows "f64_of_rat x = FNum (rnd x)" "\<bar>rnd x\<bar> \<le> p2 45"
proof -
  have p: "rnd (p2 45) = p2 45"
    using rnd_grid [of 1 45 "p2 45"] by simp
  have "rnd x \<le> rnd (p2 45)" "rnd (- p2 45) \<le> rnd x"
    using assms by (auto intro!: rnd_mono)
  then show a: "\<bar>rnd x\<bar> \<le> p2 45"
    using p by (simp add: rnd_minus)
  have "p2 45 < p2 1024"
    by (rule p2_strict_mono) simp
  with a have "\<not> p2 1024 \<le> \<bar>rnd x\<bar>"
    by linarith
  then show "f64_of_rat x = FNum (rnd x)"
    by (simp add: f64_of_rat_def)
qed

lemma f64_of_rat_fits:
  assumes "\<bar>rnd x\<bar> < p2 44"
  shows "f64_of_rat x = FNum (rnd x)"
proof -
  have "p2 44 < p2 1024"
    by (rule p2_strict_mono) simp
  with assms have "\<not> p2 1024 \<le> \<bar>rnd x\<bar>"
    by linarith
  then show ?thesis
    by (simp add: f64_of_rat_def)
qed

text \<open>
  A limit \<open>lo\<close> below which \<open>b\<close> should not fall: taking at most the rounded distance
  \<open>b - lo\<close> away leaves \<open>b\<close> above \<open>lo\<close> up to \<open>slack\<close>, whatever rounding does.
\<close>

definition slack :: rat where
  "slack = p2 (- 8)"

lemma slack_value: "slack = 1 / 256"
  by (simp add: slack_def p2_def)

lemma rnd_below_limit:
  assumes b: "rnd b = b" "\<bar>b\<bar> < p2 44" and lo: "\<bar>lo\<bar> < p2 44 - 1"
    and m: "0 \<le> m" "m \<le> max 0 (rnd (b - lo))"
  shows "min b (lo - slack) \<le> rnd (b - m)" "rnd (b - m) \<le> b"
proof -
  have p: "p2 45 = 2 * p2 44"
    using p2_add [of 44 1] by simp
  have d: "\<bar>b - lo\<bar> < p2 45"
    using b(2) lo unfolding p by linarith
  show "rnd (b - m) \<le> b"
    using rnd_mono [of "b - m" b] m(1) b(1) by simp
  show "min b (lo - slack) \<le> rnd (b - m)"
  proof (cases "b \<le> lo")
    case True
    then have "rnd (b - lo) \<le> 0"
      using rnd_mono [of "b - lo" 0] by simp
    then have "m = 0" using m by simp
    then show ?thesis using b(1) by simp
  next
    case False
    then have "0 \<le> rnd (b - lo)"
      using rnd_mono [of 0 "b - lo"] by simp
    then have "m \<le> rnd (b - lo)" using m(2) by simp
    also have "\<dots> \<le> b - lo + p2 (- 9)"
      using rnd_error [OF d] by (simp add: abs_le_iff)
    finally have "lo - p2 (- 9) \<le> b - m" by simp
    then have "rnd (lo - p2 (- 9)) \<le> rnd (b - m)"
      by (rule rnd_mono)
    moreover have "\<bar>lo - p2 (- 9)\<bar> < p2 44"
      using lo p2_less_iff [of "- 9" 0] unfolding abs_less_iff by (simp add: p2_def)
    then have "lo - p2 (- 9) - p2 (- 10) \<le> rnd (lo - p2 (- 9))"
      using rnd_error [of "lo - p2 (- 9)" 44] by (simp add: abs_le_iff)
    moreover have "p2 (- 9) + p2 (- 10) \<le> slack"
      by (simp add: slack_def p2_def)
    ultimately show ?thesis by linarith
  qed
qed

text \<open>The mirror image, for a limit from above.\<close>

lemma rnd_above_limit:
  assumes "rnd b = b" "\<bar>b\<bar> < p2 44" "\<bar>hi\<bar> < p2 44 - 1" "0 \<le> m" "m \<le> max 0 (rnd (hi - b))"
  shows "rnd (b + m) \<le> max b (hi + slack)" "b \<le> rnd (b + m)"
proof -
  have "rnd (- b) = - b"
    using assms(1) by (simp add: rnd_minus)
  note below = rnd_below_limit [of "- b" "- hi" m, OF this]
  have "rnd (- b - m) = - rnd (b + m)"
    using rnd_minus [of "b + m"] by simp
  then show "rnd (b + m) \<le> max b (hi + slack)" "b \<le> rnd (b + m)"
    using below assms(2-5) by (auto simp: min_def max_def split: if_splits)
qed

end
