(* ===== verification/Accounts.thy ===== *)
theory Accounts
  imports Model Float_Error
begin

text \<open>
  Account constraints (\<open>backend/internal/domain/accounts.go\<close>, \<open>accountIndex\<close> of
  \<open>purchases.go\<close>) and the movement of money between accounts
  (\<open>backend/internal/domain/transactions.go\<close>): a requested amount is first resolved against
  floors, ceilings and limits, then applied, in two passes over the same destinations.
\<close>

section \<open>Account constraints\<close>

definition accountIndex :: "Account list \<Rightarrow> Account gomap" where
  "accountIndex accounts = foldl (\<lambda>m a. Mapping.update (acID a) a m) Mapping.empty accounts"

definition InitAccountBalances :: "Account list \<Rightarrow> f64 gomap" where
  "InitAccountBalances accounts = foldl (\<lambda>m a. Mapping.update (acID a) 0 m) Mapping.empty accounts"

text \<open>A copy of the map; values of the model are never shared, so it is the map itself.\<close>

definition SnapshotBalances :: "f64 gomap \<Rightarrow> f64 gomap" where
  "SnapshotBalances balances = balances"

definition ComputeNetWorth :: "f64 gomap \<Rightarrow> Account list \<Rightarrow> f64" where
  "ComputeNetWorth balances accounts =
     foldl (\<lambda>total a. if acEnabled a then total + balance_of balances (acID a) else total) 0 accounts"

definition GetWithdrawableAmount :: "f64 gomap \<Rightarrow> Account gomap \<Rightarrow> string \<Rightarrow> f64" where
  "GetWithdrawableAmount balances accountByID accountID =
     (case Mapping.lookup accountByID accountID of
        None \<Rightarrow> 0
      | Some account \<Rightarrow> math_Max 0 (balance_of balances accountID - MinBalanceValue account))"

definition GetHeadroom :: "f64 gomap \<Rightarrow> Account gomap \<Rightarrow> string \<Rightarrow> f64" where
  "GetHeadroom balances accountByID accountID =
     (case Mapping.lookup accountByID accountID of
        None \<Rightarrow> 0
      | Some account \<Rightarrow> math_Max 0 (MaxBalanceValue account - balance_of balances accountID))"

definition GetTotalDestinationHeadroom :: "f64 gomap \<Rightarrow> Account gomap \<Rightarrow> string list \<Rightarrow> f64" where
  "GetTotalDestinationHeadroom balances accountByID destIDs =
     foldl (\<lambda>total destID.
         case Mapping.lookup accountByID destID of
           None \<Rightarrow> total
         | Some account \<Rightarrow> total + math_Max 0 (MaxBalanceValue account - balance_of balances destID))
       0 destIDs"

definition accountExists :: "Account gomap \<Rightarrow> string \<Rightarrow> bool" where
  "accountExists accountByID i \<longleftrightarrow> Mapping.lookup accountByID i \<noteq> None"

section \<open>Resolving a request\<close>

record AccountTransactionAction =
  actSourceAccountID :: "string option"
  actDestinations :: "string list option"
  actRequestedAmount :: f64
  actLimitRemaining :: "f64 option"

record AccountTransactionResult =
  resRequestedAmount :: f64
  resRealizedAmount :: f64

definition ResolveAccountTransaction ::
  "AccountTransactionAction \<Rightarrow> f64 gomap \<Rightarrow> Account gomap \<Rightarrow> AccountTransactionResult" where
  "ResolveAccountTransaction action balances accountByID =
     (let requestedAmount = math_Max 0 (actRequestedAmount action) in
      if feq requestedAmount 0
      then \<lparr>resRequestedAmount = requestedAmount, resRealizedAmount = 0\<rparr>
      else if (case actSourceAccountID action of None \<Rightarrow> False | Some s \<Rightarrow> \<not> accountExists accountByID s)
      then \<lparr>resRequestedAmount = requestedAmount, resRealizedAmount = 0\<rparr>
      else
        let sourceBalanceLimit =
              (case actSourceAccountID action of
                 None \<Rightarrow> FInf False
               | Some s \<Rightarrow> GetWithdrawableAmount balances accountByID s);
            destBalanceLimit =
              (case actDestinations action of
                 None \<Rightarrow> FInf False
               | Some ds \<Rightarrow> GetTotalDestinationHeadroom balances accountByID ds);
            actionLimit = (case actLimitRemaining action of None \<Rightarrow> FInf False | Some l \<Rightarrow> l);
            realizedAmount =
              math_Max 0 (math_Min requestedAmount
                (math_Min actionLimit (math_Min sourceBalanceLimit destBalanceLimit)))
        in \<lparr>resRequestedAmount = requestedAmount, resRealizedAmount = realizedAmount\<rparr>)"

definition ResolveTransactionTransaction ::
  "Transaction \<Rightarrow> f64 \<Rightarrow> f64 \<Rightarrow> f64 gomap \<Rightarrow> Account gomap \<Rightarrow> AccountTransactionResult" where
  "ResolveTransactionTransaction transaction requestedAmount annualCapRemaining balances accountByID =
     ResolveAccountTransaction
       \<lparr>actSourceAccountID = trSourceAccountID transaction, actDestinations = trDestinations transaction,
        actRequestedAmount = requestedAmount, actLimitRemaining = Some annualCapRemaining\<rparr>
       balances accountByID"

section \<open>Moving money\<close>

text \<open>The destination loop: fill each account up to its ceiling, in order.\<close>

fun fill :: "Account gomap \<Rightarrow> string list \<Rightarrow> f64 \<Rightarrow> f64 gomap \<Rightarrow> f64 gomap" where
  "fill accountByID [] remaining balances = balances"
| "fill accountByID (destID # destIDs) remaining balances =
     (if remaining \<le> 0 then balances
      else
        let headroom = GetHeadroom balances accountByID destID in
        if headroom \<le> 0 then fill accountByID destIDs remaining balances
        else
          let allocated = math_Min remaining headroom
          in fill accountByID destIDs (remaining - allocated)
               (Mapping.update destID (balance_of balances destID + allocated) balances))"

definition debit :: "string option \<Rightarrow> f64 \<Rightarrow> f64 gomap \<Rightarrow> f64 gomap" where
  "debit source amount balances =
     (case source of
        None \<Rightarrow> balances
      | Some s \<Rightarrow> Mapping.update s (balance_of balances s - amount) balances)"

definition ApplyAccountTransaction ::
  "AccountTransactionAction \<Rightarrow> f64 \<Rightarrow> f64 gomap \<Rightarrow> Account gomap \<Rightarrow> f64 gomap" where
  "ApplyAccountTransaction action realizedAmount balances accountByID =
     (if realizedAmount \<le> 0 then balances
      else
        let balances = debit (actSourceAccountID action) realizedAmount balances in
        case actDestinations action of
          None \<Rightarrow> balances
        | Some destIDs \<Rightarrow> fill accountByID destIDs realizedAmount balances)"

definition ApplyTransaction :: "Transaction \<Rightarrow> f64 \<Rightarrow> f64 gomap \<Rightarrow> Account gomap \<Rightarrow> f64 gomap" where
  "ApplyTransaction transaction realizedAmount balances accountByID =
     ApplyAccountTransaction
       \<lparr>actSourceAccountID = trSourceAccountID transaction, actDestinations = trDestinations transaction,
        actRequestedAmount = realizedAmount, actLimitRemaining = None\<rparr>
       realizedAmount balances accountByID"

text \<open>A nil destination list ranges over nothing.\<close>

definition destinations :: "Transaction \<Rightarrow> string list" where
  "destinations transaction = (case trDestinations transaction of None \<Rightarrow> [] | Some ds \<Rightarrow> ds)"

text \<open>A loss takes from the destinations, down to their floors.\<close>

fun loss_withdrawn :: "f64 gomap \<Rightarrow> Account gomap \<Rightarrow> string list \<Rightarrow> f64 \<Rightarrow> f64 \<Rightarrow> f64" where
  "loss_withdrawn balances accountByID [] remaining withdrawn = withdrawn"
| "loss_withdrawn balances accountByID (destID # destIDs) remaining withdrawn =
     (if remaining \<le> 0 then withdrawn
      else
        let withdrawable = GetWithdrawableAmount balances accountByID destID in
        if withdrawable \<le> 0 then loss_withdrawn balances accountByID destIDs remaining withdrawn
        else
          let take = math_Min remaining withdrawable
          in loss_withdrawn balances accountByID destIDs (remaining - take) (withdrawn + take))"

definition ResolveNegativeInflowTransaction ::
  "Transaction \<Rightarrow> f64 \<Rightarrow> f64 gomap \<Rightarrow> Account gomap \<Rightarrow> AccountTransactionResult" where
  "ResolveNegativeInflowTransaction transaction requestedLoss balances accountByID =
     \<lparr>resRequestedAmount = requestedLoss,
      resRealizedAmount =
        - loss_withdrawn balances accountByID (destinations transaction) (- requestedLoss) 0\<rparr>"

fun drain :: "Account gomap \<Rightarrow> string list \<Rightarrow> f64 \<Rightarrow> f64 gomap \<Rightarrow> f64 gomap" where
  "drain accountByID [] remaining balances = balances"
| "drain accountByID (destID # destIDs) remaining balances =
     (if remaining \<le> 0 then balances
      else
        let withdrawable = GetWithdrawableAmount balances accountByID destID in
        if withdrawable \<le> 0 then drain accountByID destIDs remaining balances
        else
          let take = math_Min remaining withdrawable
          in drain accountByID destIDs (remaining - take)
               (Mapping.update destID (balance_of balances destID - take) balances))"

definition ApplyNegativeInflow :: "Transaction \<Rightarrow> f64 \<Rightarrow> f64 gomap \<Rightarrow> Account gomap \<Rightarrow> f64 gomap" where
  "ApplyNegativeInflow transaction realizedLoss balances accountByID =
     (if 0 \<le> realizedLoss then balances
      else drain accountByID (destinations transaction) (- realizedLoss) balances)"

section \<open>External counterparties (counterparty.go)\<close>

definition HasExternalSource :: "Transaction \<Rightarrow> bool" where
  "HasExternalSource t \<longleftrightarrow> trSourceAccountID t = None"

definition HasExternalDestination :: "Transaction \<Rightarrow> bool" where
  "HasExternalDestination t \<longleftrightarrow> trDestinations t = None"

definition IsExternalInflow :: "Transaction \<Rightarrow> bool" where
  "IsExternalInflow t \<longleftrightarrow> HasExternalSource t \<and> \<not> HasExternalDestination t"

definition IsExternalOutflow :: "Transaction \<Rightarrow> bool" where
  "IsExternalOutflow t \<longleftrightarrow> \<not> HasExternalSource t \<and> HasExternalDestination t"

definition IsInternalTransfer :: "Transaction \<Rightarrow> bool" where
  "IsInternalTransfer t \<longleftrightarrow> \<not> HasExternalSource t \<and> \<not> HasExternalDestination t"

end
