(* ===== verification/Account_Laws.thy ===== *)
theory Account_Laws
  imports Accounts
begin

text \<open>
  What moving money may do to the balances.  \<open>limits_kept\<close> says that no account was taken
  further below its floor or above its ceiling than \<open>slack\<close> (0.0039), whatever the floating-point
  rounding; it composes over any number of movements without adding up.  The locale
  \<open>money_move\<close> is the contract of an operation that moves money: it touches the accounts of its
  route only and keeps the limits.
\<close>

section \<open>Ledgers within their limits\<close>

definition sane_account :: "Account \<Rightarrow> bool" where
  "sane_account a \<longleftrightarrow>
     (\<exists>lo hi. MinBalanceValue a = FNum lo \<and> MaxBalanceValue a = FNum hi \<and>
        \<bar>lo\<bar> < p2 44 - 1 \<and> \<bar>hi\<bar> < p2 44 - 1)"

definition money :: "f64 \<Rightarrow> bool" where
  "money v \<longleftrightarrow> (\<exists>r. v = FNum r \<and> rnd r = r \<and> \<bar>r\<bar> < p2 44)"

definition sane_ledger :: "Account gomap \<Rightarrow> f64 gomap \<Rightarrow> bool" where
  "sane_ledger acc b \<longleftrightarrow>
     (\<forall>k a. Mapping.lookup acc k = Some a \<longrightarrow> sane_account a \<and> money (balance_of b k))"

definition within_limits :: "Account \<Rightarrow> f64 \<Rightarrow> f64 \<Rightarrow> bool" where
  "within_limits a v v' \<longleftrightarrow>
     (\<exists>lo hi r r'. MinBalanceValue a = FNum lo \<and> MaxBalanceValue a = FNum hi \<and>
        v = FNum r \<and> v' = FNum r' \<and> rnd r' = r' \<and>
        min r (lo - slack) \<le> r' \<and> r' \<le> max r (hi + slack))"

definition limits_kept :: "Account gomap \<Rightarrow> f64 gomap \<Rightarrow> f64 gomap \<Rightarrow> bool" where
  "limits_kept acc b b' \<longleftrightarrow>
     (\<forall>k a. Mapping.lookup acc k = Some a \<longrightarrow> within_limits a (balance_of b k) (balance_of b' k))"

lemma limits_kept_refl: "sane_ledger acc b \<Longrightarrow> limits_kept acc b b"
  by (fastforce simp: limits_kept_def sane_ledger_def within_limits_def sane_account_def money_def)

lemma within_limits_trans: "within_limits a x y \<Longrightarrow> within_limits a y z \<Longrightarrow> within_limits a x z"
  by (auto simp: within_limits_def)

lemma limits_kept_trans: "limits_kept acc b c \<Longrightarrow> limits_kept acc c d \<Longrightarrow> limits_kept acc b d"
  unfolding limits_kept_def using within_limits_trans by blast

lemma within_limits_money: "sane_account a \<Longrightarrow> money v \<Longrightarrow> within_limits a v v' \<Longrightarrow> money v'"
proof -
  assume "sane_account a" "money v" "within_limits a v v'"
  then obtain lo hi r r' where r: "\<bar>lo\<bar> < p2 44 - 1" "\<bar>hi\<bar> < p2 44 - 1" "\<bar>r\<bar> < p2 44"
      "min r (lo - slack) \<le> r'" "r' \<le> max r (hi + slack)" "v' = FNum r'" "rnd r' = r'"
    by (auto simp: sane_account_def money_def within_limits_def)
  have "slack < 1" by (simp add: slack_value)
  then have "\<bar>r'\<bar> < p2 44"
    using r(1-5) by (auto simp: min_def max_def split: if_splits)
  then show ?thesis
    using r by (simp add: money_def)
qed

lemma limits_kept_sane: "sane_ledger acc b \<Longrightarrow> limits_kept acc b b' \<Longrightarrow> sane_ledger acc b'"
  unfolding sane_ledger_def limits_kept_def using within_limits_money by blast

section \<open>One debit, one credit\<close>

lemma f64_nonneg_le_num: "0 \<le> v \<Longrightarrow> v \<le> FNum w \<Longrightarrow> \<exists>m. v = FNum m \<and> 0 \<le> m \<and> m \<le> w"
  by (cases v) (auto simp: zero_f64_def)

lemma FNum_diff_small:
  assumes "\<bar>x\<bar> < p2 44" "\<bar>y\<bar> < p2 44"
  shows "FNum x - FNum y = FNum (rnd (x - y))"
proof -
  have "p2 45 = 2 * p2 44"
    using p2_add [of 44 1] by simp
  then have "\<bar>x + - y\<bar> < p2 45"
    using assms by linarith
  then show ?thesis
    using f64_of_rat_small(1) [of "x + - y"] by (simp add: minus_f64_def)
qed

lemma sane_ledgerD:
  "sane_ledger acc b \<Longrightarrow> Mapping.lookup acc k = Some a \<Longrightarrow> sane_account a \<and> money (balance_of b k)"
  by (simp add: sane_ledger_def)

lemma withdrawable_num:
  assumes "sane_ledger acc b" "Mapping.lookup acc k = Some a"
  obtains lo r where "MinBalanceValue a = FNum lo" "balance_of b k = FNum r"
    "\<bar>lo\<bar> < p2 44 - 1" "\<bar>r\<bar> < p2 44" "rnd r = r"
    "GetWithdrawableAmount b acc k = FNum (max 0 (rnd (r - lo)))"
proof -
  obtain lo r where "MinBalanceValue a = FNum lo" "balance_of b k = FNum r"
    "\<bar>lo\<bar> < p2 44 - 1" "\<bar>r\<bar> < p2 44" "rnd r = r"
    using sane_ledgerD [OF assms] by (auto simp: sane_account_def money_def)
  moreover from this have "GetWithdrawableAmount b acc k = FNum (max 0 (rnd (r - lo)))"
    using assms(2) by (simp add: GetWithdrawableAmount_def FNum_diff_small)
  ultimately show ?thesis using that by blast
qed

lemma headroom_num:
  assumes "sane_ledger acc b" "Mapping.lookup acc k = Some a"
  obtains hi r where "MaxBalanceValue a = FNum hi" "balance_of b k = FNum r"
    "\<bar>hi\<bar> < p2 44 - 1" "\<bar>r\<bar> < p2 44" "rnd r = r"
    "GetHeadroom b acc k = FNum (max 0 (rnd (hi - r)))"
proof -
  obtain hi r where "MaxBalanceValue a = FNum hi" "balance_of b k = FNum r"
    "\<bar>hi\<bar> < p2 44 - 1" "\<bar>r\<bar> < p2 44" "rnd r = r"
    using sane_ledgerD [OF assms] by (auto simp: sane_account_def money_def)
  moreover from this have "GetHeadroom b acc k = FNum (max 0 (rnd (hi - r)))"
    using assms(2) by (simp add: GetHeadroom_def FNum_diff_small)
  ultimately show ?thesis using that by blast
qed

lemma within_limits_self: "sane_ledger acc b \<Longrightarrow> Mapping.lookup acc k = Some a \<Longrightarrow> within_limits a (balance_of b k) (balance_of b k)"
  using limits_kept_refl by (simp add: limits_kept_def)

lemma balance_of_update: "balance_of (Mapping.update k v b) j = (if j = k then v else balance_of b j)"
  by (simp add: lookup_default_update')

lemma debit_kept:
  assumes s: "sane_ledger acc b" "Mapping.lookup acc k = Some a"
    and v: "0 \<le> v" "v \<le> GetWithdrawableAmount b acc k"
  shows "limits_kept acc b (Mapping.update k (balance_of b k - v) b)"
proof -
  obtain lo r where lo: "MinBalanceValue a = FNum lo" "balance_of b k = FNum r"
    "\<bar>lo\<bar> < p2 44 - 1" "\<bar>r\<bar> < p2 44" "rnd r = r" "GetWithdrawableAmount b acc k = FNum (max 0 (rnd (r - lo)))"
    by (rule withdrawable_num [OF s])
  obtain hi where hi: "MaxBalanceValue a = FNum hi"
    using s by (auto simp: sane_ledger_def sane_account_def)
  obtain m where m: "v = FNum m" "0 \<le> m" "m \<le> max 0 (rnd (r - lo))"
    using f64_nonneg_le_num [OF v(1)] v(2) lo(6) by metis
  note b = rnd_below_limit [OF lo(5,4,3) m(2,3)]
  have "\<bar>rnd (r - m)\<bar> < p2 44"
    using b lo(3,4) slack_value by (auto simp: min_def split: if_splits)
  then have "balance_of b k - v = FNum (rnd (r - m))"
    using lo(2) m(1) f64_of_rat_fits [of "r - m"] by (simp add: minus_f64_def)
  then have "within_limits a (balance_of b k) (balance_of b k - v)"
    using b lo hi unfolding within_limits_def by (intro exI [of _ lo] exI [of _ hi] exI [of _ r] exI [of _ "rnd (r - m)"]) auto
  then show ?thesis
    using s within_limits_self [OF s(1)] by (auto simp: limits_kept_def balance_of_update)
qed

lemma credit_kept:
  assumes s: "sane_ledger acc b" "Mapping.lookup acc k = Some a"
    and v: "0 \<le> v" "v \<le> GetHeadroom b acc k"
  shows "limits_kept acc b (Mapping.update k (balance_of b k + v) b)"
proof -
  obtain hi r where hi: "MaxBalanceValue a = FNum hi" "balance_of b k = FNum r"
    "\<bar>hi\<bar> < p2 44 - 1" "\<bar>r\<bar> < p2 44" "rnd r = r" "GetHeadroom b acc k = FNum (max 0 (rnd (hi - r)))"
    by (rule headroom_num [OF s])
  obtain lo where lo: "MinBalanceValue a = FNum lo"
    using s by (auto simp: sane_ledger_def sane_account_def)
  obtain m where m: "v = FNum m" "0 \<le> m" "m \<le> max 0 (rnd (hi - r))"
    using f64_nonneg_le_num [OF v(1)] v(2) hi(6) by metis
  note b = rnd_above_limit [OF hi(5,4,3) m(2,3)]
  have "\<bar>rnd (r + m)\<bar> < p2 44"
    using b hi(3,4) slack_value by (auto simp: max_def split: if_splits)
  then have "balance_of b k + v = FNum (rnd (r + m))"
    using hi(2) m(1) f64_of_rat_fits [of "r + m"] by simp
  then have "within_limits a (balance_of b k) (balance_of b k + v)"
    using b lo hi unfolding within_limits_def
    by (intro exI [of _ lo] exI [of _ hi] exI [of _ r] exI [of _ "rnd (r + m)"]) auto
  then show ?thesis
    using s within_limits_self [OF s(1)] by (auto simp: limits_kept_def balance_of_update)
qed

section \<open>The two loops\<close>

lemma headroom_positive:
  "\<not> GetHeadroom b acc k \<le> 0 \<Longrightarrow> \<exists>a. Mapping.lookup acc k = Some a"
  by (cases "Mapping.lookup acc k") (auto simp: GetHeadroom_def zero_f64_def)

lemma withdrawable_positive:
  "\<not> GetWithdrawableAmount b acc k \<le> 0 \<Longrightarrow> \<exists>a. Mapping.lookup acc k = Some a"
  by (cases "Mapping.lookup acc k") (auto simp: GetWithdrawableAmount_def zero_f64_def)

text \<open>
  The part of the remaining amount one account takes is a nonnegative number within its room,
  and what remains is a number again.
\<close>

lemma share_of:
  assumes "r \<noteq> FNaN" "\<not> r \<le> 0" "room = FNum w" "\<not> room \<le> 0"
  shows "0 \<le> math_Min r room" "math_Min r room \<le> room" "r - math_Min r room \<noteq> FNaN"
  using assms
  by (cases r; auto simp: math_Min_def minus_f64_def f64_of_rat_def Let_def zero_f64_def not_le)+

lemma fill_kept:
  "sane_ledger acc b \<Longrightarrow> r \<noteq> FNaN \<Longrightarrow> limits_kept acc b (fill acc ds r b)"
proof (induction acc ds r b rule: fill.induct)
  case (2 acc d ds r b)
  show ?case
  proof (cases "r \<le> 0 \<or> GetHeadroom b acc d \<le> 0")
    case True
    then show ?thesis
      using 2 limits_kept_refl by (auto simp: Let_def)
  next
    case False
    then obtain a where a: "Mapping.lookup acc d = Some a"
      using headroom_positive by blast
    obtain w where w: "GetHeadroom b acc d = FNum w"
      using headroom_num [OF 2(3) a] by metis
    define x where "x = math_Min r (GetHeadroom b acc d)"
    define b1 where "b1 = Mapping.update d (balance_of b d + x) b"
    have x: "0 \<le> x" "x \<le> GetHeadroom b acc d" "r - x \<noteq> FNaN"
      using share_of [OF 2(4) _ w] False by (auto simp: x_def)
    have b1: "limits_kept acc b b1"
      unfolding b1_def by (rule credit_kept [OF 2(3) a x(1,2)])
    then have "limits_kept acc b1 (fill acc ds (r - x) b1)"
      using 2(2) [OF _ refl _ refl] False x limits_kept_sane [OF 2(3)] by (simp add: x_def b1_def)
    with b1 show ?thesis
      using False limits_kept_trans by (auto simp: Let_def x_def b1_def)
  qed
qed (simp add: limits_kept_refl)

lemma drain_kept:
  "sane_ledger acc b \<Longrightarrow> r \<noteq> FNaN \<Longrightarrow> limits_kept acc b (drain acc ds r b)"
proof (induction acc ds r b rule: drain.induct)
  case (2 acc d ds r b)
  show ?case
  proof (cases "r \<le> 0 \<or> GetWithdrawableAmount b acc d \<le> 0")
    case True
    then show ?thesis
      using 2 limits_kept_refl by (auto simp: Let_def)
  next
    case False
    then obtain a where a: "Mapping.lookup acc d = Some a"
      using withdrawable_positive by blast
    obtain w where w: "GetWithdrawableAmount b acc d = FNum w"
      using withdrawable_num [OF 2(3) a] by metis
    define x where "x = math_Min r (GetWithdrawableAmount b acc d)"
    define b1 where "b1 = Mapping.update d (balance_of b d - x) b"
    have x: "0 \<le> x" "x \<le> GetWithdrawableAmount b acc d" "r - x \<noteq> FNaN"
      using share_of [OF 2(4) _ w] False by (auto simp: x_def)
    have b1: "limits_kept acc b b1"
      unfolding b1_def by (rule debit_kept [OF 2(3) a x(1,2)])
    then have "limits_kept acc b1 (drain acc ds (r - x) b1)"
      using 2(2) [OF _ refl _ refl] False x limits_kept_sane [OF 2(3)] by (simp add: x_def b1_def)
    with b1 show ?thesis
      using False limits_kept_trans by (auto simp: Let_def x_def b1_def)
  qed
qed (simp add: limits_kept_refl)

lemma lookup_fill: "k \<notin> set ds \<Longrightarrow> Mapping.lookup (fill acc ds r b) k = Mapping.lookup b k"
  by (induction acc ds r b rule: fill.induct) (auto simp: Let_def lookup_update')

lemma lookup_drain: "k \<notin> set ds \<Longrightarrow> Mapping.lookup (drain acc ds r b) k = Mapping.lookup b k"
  by (induction acc ds r b rule: drain.induct) (auto simp: Let_def lookup_update')

end
