(* ===== verification/Money_Moves.thy ===== *)
theory Money_Moves
  imports Account_Laws
begin

text \<open>
  The contract of a money-moving operation (\<open>money_move\<close>), its consequences for any sequence of
  operations, and the two operations of \<open>transactions.go\<close> that keep it: a resolved transfer and
  a resolved loss.
\<close>

section \<open>The contract\<close>

locale money_move =
  fixes move :: "'a \<Rightarrow> f64 gomap \<Rightarrow> Account gomap \<Rightarrow> f64 gomap"
    and allowed :: "'a \<Rightarrow> f64 gomap \<Rightarrow> Account gomap \<Rightarrow> bool"
    and route :: "'a \<Rightarrow> string set"
  assumes frame: "k \<notin> route x \<Longrightarrow> Mapping.lookup (move x b acc) k = Mapping.lookup b k"
    and keeps: "sane_ledger acc b \<Longrightarrow> allowed x b acc \<Longrightarrow> limits_kept acc b (move x b acc)"
begin

primrec moves :: "'a list \<Rightarrow> f64 gomap \<Rightarrow> Account gomap \<Rightarrow> f64 gomap" where
  "moves [] b acc = b"
| "moves (x # xs) b acc = moves xs (move x b acc) acc"

primrec all_allowed :: "'a list \<Rightarrow> f64 gomap \<Rightarrow> Account gomap \<Rightarrow> bool" where
  "all_allowed [] b acc \<longleftrightarrow> True"
| "all_allowed (x # xs) b acc \<longleftrightarrow> allowed x b acc \<and> all_allowed xs (move x b acc) acc"

lemma keeps_sane: "sane_ledger acc b \<Longrightarrow> allowed x b acc \<Longrightarrow> sane_ledger acc (move x b acc)"
  using limits_kept_sane keeps by blast

text \<open>The allowance for rounding does not add up over a sequence of movements.\<close>

lemma moves_keep:
  "sane_ledger acc b \<Longrightarrow> all_allowed xs b acc \<Longrightarrow> limits_kept acc b (moves xs b acc)"
proof (induction xs arbitrary: b)
  case (Cons x xs)
  then show ?case
    using keeps [of acc b x] keeps_sane [of acc b x] Cons.IH [of "move x b acc"] limits_kept_trans by auto
qed (simp add: limits_kept_refl)

lemma moves_frame:
  "k \<notin> (\<Union>x\<in>set xs. route x) \<Longrightarrow> Mapping.lookup (moves xs b acc) k = Mapping.lookup b k"
  by (induction xs arbitrary: b) (simp_all add: frame)

text \<open>Accounts off the route contribute the same to the net worth.\<close>

lemma net_worth_frame:
  assumes "\<forall>a\<in>set accounts. acEnabled a \<longrightarrow> acID a \<notin> route x"
  shows "ComputeNetWorth (move x b acc) accounts = ComputeNetWorth b accounts"
proof -
  have "foldl (\<lambda>total a. if acEnabled a then total + balance_of (move x b acc) (acID a) else total) t accounts =
      foldl (\<lambda>total a. if acEnabled a then total + balance_of b (acID a) else total) t accounts" for t
    using assms by (induction accounts arbitrary: t) (auto simp: lookup_default_def frame)
  then show ?thesis
    by (simp add: ComputeNetWorth_def)
qed

end

section \<open>What resolving a request guarantees\<close>

lemma math_Min_not_NaN: "x \<noteq> FNaN \<Longrightarrow> y \<noteq> FNaN \<Longrightarrow> math_Min x y \<noteq> FNaN"
  by (metis math_Min_cases)

lemma math_Max_not_NaN: "x \<noteq> FNaN \<Longrightarrow> y \<noteq> FNaN \<Longrightarrow> math_Max x y \<noteq> FNaN"
  by (metis math_Max_cases)

lemma math_Max_0_nonneg: "x \<noteq> FNaN \<Longrightarrow> 0 \<le> math_Max 0 x"
  by (rule math_Max_zero_ge)

lemma f64_le_NaN: "x \<le> y \<Longrightarrow> x \<noteq> FNaN \<and> y \<noteq> (FNaN :: f64)"
  by (cases x; cases y) auto

lemma withdrawable_nonneg:
  "sane_ledger acc b \<Longrightarrow> 0 \<le> GetWithdrawableAmount b acc k \<and> GetWithdrawableAmount b acc k \<noteq> FNaN"
proof (cases "Mapping.lookup acc k")
  case (Some a)
  assume "sane_ledger acc b"
  then obtain w where "GetWithdrawableAmount b acc k = FNum (max 0 w)"
    using withdrawable_num [OF _ Some] by metis
  then show ?thesis by simp
qed (simp add: GetWithdrawableAmount_def zero_f64_def)

lemma headroom_nonneg:
  "sane_ledger acc b \<Longrightarrow> 0 \<le> GetHeadroom b acc k \<and> GetHeadroom b acc k \<noteq> FNaN"
proof (cases "Mapping.lookup acc k")
  case (Some a)
  assume "sane_ledger acc b"
  then obtain w where "GetHeadroom b acc k = FNum (max 0 w)"
    using headroom_num [OF _ Some] by metis
  then show ?thesis by simp
qed (simp add: GetHeadroom_def zero_f64_def)

lemma total_headroom_eq:
  "GetTotalDestinationHeadroom b acc ds =
     foldl (\<lambda>total d. if Mapping.lookup acc d = None then total else total + GetHeadroom b acc d) 0 ds"
proof -
  have "(\<lambda>total d. case Mapping.lookup acc d of None \<Rightarrow> total
      | Some a \<Rightarrow> total + math_Max 0 (MaxBalanceValue a - balance_of b d)) =
    (\<lambda>total d. if Mapping.lookup acc d = None then total else total + GetHeadroom b acc d)"
    by (auto simp: fun_eq_iff GetHeadroom_def split: option.splits)
  then show ?thesis
    by (simp add: GetTotalDestinationHeadroom_def)
qed

lemma total_headroom_nonneg:
  assumes "sane_ledger acc b"
  shows "0 \<le> GetTotalDestinationHeadroom b acc ds"
proof -
  have "0 \<le> t \<Longrightarrow> 0 \<le> foldl (\<lambda>total d. if Mapping.lookup acc d = None then total else total + GetHeadroom b acc d) t ds" for t
    using headroom_nonneg [OF assms] by (induction ds arbitrary: t) (simp_all add: f64_add_nonneg)
  then show ?thesis
    by (simp add: total_headroom_eq zero_f64_def)
qed

definition source_limit :: "AccountTransactionAction \<Rightarrow> f64 gomap \<Rightarrow> Account gomap \<Rightarrow> f64" where
  "source_limit action b acc =
     (case actSourceAccountID action of None \<Rightarrow> FInf False | Some s \<Rightarrow> GetWithdrawableAmount b acc s)"

definition destination_limit :: "AccountTransactionAction \<Rightarrow> f64 gomap \<Rightarrow> Account gomap \<Rightarrow> f64" where
  "destination_limit action b acc =
     (case actDestinations action of None \<Rightarrow> FInf False | Some ds \<Rightarrow> GetTotalDestinationHeadroom b acc ds)"

definition action_limit :: "AccountTransactionAction \<Rightarrow> f64" where
  "action_limit action = (case actLimitRemaining action of None \<Rightarrow> FInf False | Some l \<Rightarrow> l)"

lemma limits_nonneg:
  assumes "sane_ledger acc b"
  shows "0 \<le> source_limit action b acc" "0 \<le> destination_limit action b acc"
  using assms withdrawable_nonneg total_headroom_nonneg
  by (auto simp: source_limit_def destination_limit_def zero_f64_def split: option.splits)

lemma realized_bounds:
  assumes s: "sane_ledger acc b" and q: "actRequestedAmount action \<noteq> FNaN" "action_limit action \<noteq> FNaN"
  defines "q \<equiv> math_Max 0 (actRequestedAmount action)"
    and "r \<equiv> resRealizedAmount (ResolveAccountTransaction action b acc)"
  shows "0 \<le> r" "r \<le> q" "r \<le> source_limit action b acc" "r \<le> destination_limit action b acc"
    "r \<le> math_Max 0 (action_limit action)"
proof -
  note nonneg = limits_nonneg [OF s, of action]
  have q0: "0 \<le> q"
    unfolding q_def using q(1) by (rule math_Max_0_nonneg)
  have l0: "0 \<le> math_Max 0 (action_limit action)"
    using q(2) by (rule math_Max_0_nonneg)
  let ?sl = "source_limit action b acc" and ?dl = "destination_limit action b acc" and ?al = "action_limit action"
  have "0 \<le> r \<and> r \<le> q \<and> r \<le> ?sl \<and> r \<le> ?dl \<and> r \<le> math_Max 0 ?al"
  proof (cases "r = 0")
    case True
    then show ?thesis using q0 l0 nonneg by (simp add: zero_f64_def)
  next
    case False
    then have r: "r = math_Max 0 (math_Min q (math_Min ?al (math_Min ?sl ?dl)))"
      by (auto simp: r_def q_def ResolveAccountTransaction_def Let_def source_limit_def destination_limit_def
          action_limit_def split: if_splits)
    have nan: "q \<noteq> FNaN" "?al \<noteq> FNaN" "?sl \<noteq> FNaN" "?dl \<noteq> FNaN"
      using q0 q(2) nonneg f64_le_NaN by blast+
    have "math_Min q (math_Min ?al (math_Min ?sl ?dl)) = r"
      using False math_Max_cases [of 0 "math_Min q (math_Min ?al (math_Min ?sl ?dl))"] r by auto
    moreover have "math_Min q (math_Min ?al (math_Min ?sl ?dl)) \<le> q"
        "math_Min q (math_Min ?al (math_Min ?sl ?dl)) \<le> ?al" "math_Min q (math_Min ?al (math_Min ?sl ?dl)) \<le> ?sl"
        "math_Min q (math_Min ?al (math_Min ?sl ?dl)) \<le> ?dl"
    proof -
      have n1: "math_Min ?sl ?dl \<noteq> FNaN"
        using nan by (intro math_Min_not_NaN)
      have n2: "math_Min ?al (math_Min ?sl ?dl) \<noteq> FNaN"
        using nan n1 by (intro math_Min_not_NaN)
      note m1 = math_Min_le [OF nan(3,4)] and m2 = math_Min_le [OF nan(2) n1] and m3 = math_Min_le [OF nan(1) n2]
      show "math_Min q (math_Min ?al (math_Min ?sl ?dl)) \<le> q"
        using m3 by blast
      show al: "math_Min q (math_Min ?al (math_Min ?sl ?dl)) \<le> ?al"
        using m3 m2 f64_le_trans by blast
      have "math_Min q (math_Min ?al (math_Min ?sl ?dl)) \<le> math_Min ?sl ?dl"
        using m3 m2 f64_le_trans by blast
      then show "math_Min q (math_Min ?al (math_Min ?sl ?dl)) \<le> ?sl"
          "math_Min q (math_Min ?al (math_Min ?sl ?dl)) \<le> ?dl"
        using m1 f64_le_trans by blast+
    qed
    moreover have "0 \<le> r"
      unfolding r using nan by (intro math_Max_0_nonneg math_Min_not_NaN)
    moreover have "?al \<le> math_Max 0 ?al"
      using math_Max_ge [of 0 ?al] nan(2) by (simp add: zero_f64_def)
    ultimately show ?thesis
      using f64_le_trans by metis
  qed
  then show "0 \<le> r" "r \<le> q" "r \<le> ?sl" "r \<le> ?dl" "r \<le> math_Max 0 ?al" by auto
qed

section \<open>Resolved transfers and losses keep the contract\<close>

definition action_route :: "AccountTransactionAction \<Rightarrow> string set" where
  "action_route action =
     set_option (actSourceAccountID action) \<union>
     (case actDestinations action of None \<Rightarrow> {} | Some ds \<Rightarrow> set ds)"

definition resolved_transfer :: "AccountTransactionAction \<times> f64 \<Rightarrow> f64 gomap \<Rightarrow> Account gomap \<Rightarrow> bool" where
  "resolved_transfer x b acc \<longleftrightarrow>
     actRequestedAmount (fst x) \<noteq> FNaN \<and> action_limit (fst x) \<noteq> FNaN \<and>
     snd x = resRealizedAmount (ResolveAccountTransaction (fst x) b acc)"

lemma lookup_ApplyAccountTransaction:
  "k \<notin> action_route action \<Longrightarrow>
     Mapping.lookup (ApplyAccountTransaction action r b acc) k = Mapping.lookup b k"
  by (auto simp: ApplyAccountTransaction_def action_route_def debit_def lookup_fill lookup_update' Let_def
      split: option.splits)

lemma ApplyAccountTransaction_kept:
  assumes s: "sane_ledger acc b" and q: "actRequestedAmount action \<noteq> FNaN" "action_limit action \<noteq> FNaN"
    and r: "r = resRealizedAmount (ResolveAccountTransaction action b acc)"
  shows "limits_kept acc b (ApplyAccountTransaction action r b acc)"
proof (cases "r \<le> 0")
  case True
  then show ?thesis
    using limits_kept_refl [OF s] by (simp add: ApplyAccountTransaction_def)
next
  case False
  note bounds = realized_bounds [OF s q, folded r]
  have nan: "r \<noteq> FNaN"
    using bounds(1) by (cases r) auto
  define b1 where "b1 = debit (actSourceAccountID action) r b"
  have b1: "limits_kept acc b b1"
  proof (cases "actSourceAccountID action")
    case None
    then show ?thesis
      using limits_kept_refl [OF s] by (simp add: b1_def debit_def)
  next
    case (Some k)
    have "accountExists acc k"
      using False Some by (auto simp: r ResolveAccountTransaction_def Let_def zero_f64_def split: if_splits)
    then obtain a where a: "Mapping.lookup acc k = Some a"
      by (auto simp: accountExists_def)
    show ?thesis
      using debit_kept [OF s a bounds(1)] bounds(3) Some by (simp add: b1_def debit_def source_limit_def)
  qed
  show ?thesis
  proof (cases "actDestinations action")
    case None
    then show ?thesis
      using False b1 by (simp add: ApplyAccountTransaction_def b1_def)
  next
    case (Some ds)
    then show ?thesis
      using False limits_kept_trans [OF b1 fill_kept [OF limits_kept_sane [OF s b1] nan]]
      by (simp add: ApplyAccountTransaction_def b1_def)
  qed
qed

lemma ApplyNegativeInflow_kept:
  "sane_ledger acc b \<Longrightarrow> l \<noteq> FNaN \<Longrightarrow> limits_kept acc b (ApplyNegativeInflow t l b acc)"
  unfolding ApplyNegativeInflow_def
  by (cases l) (auto intro: limits_kept_refl intro!: drain_kept)

interpretation transfer: money_move
  "\<lambda>(action, realized) b acc. ApplyAccountTransaction action realized b acc"
  resolved_transfer "\<lambda>(action, realized). action_route action"
  by unfold_locales
    (auto simp: lookup_ApplyAccountTransaction resolved_transfer_def intro: ApplyAccountTransaction_kept)

interpretation loss: money_move
  "\<lambda>(t, realized) b acc. ApplyNegativeInflow t realized b acc"
  "\<lambda>(t, realized) b acc. realized \<noteq> FNaN" "\<lambda>(t, realized). set (destinations t)"
  by unfold_locales
    (auto simp: ApplyNegativeInflow_def lookup_drain intro: ApplyNegativeInflow_kept [unfolded ApplyNegativeInflow_def])

section \<open>Whole amounts: an integer ledger\<close>

text \<open>
  On whole-dollar amounts floating-point arithmetic is exact, and the destination loop is the
  integer one: \<open>int_fill\<close> pours \<open>r\<close> into the accounts up to their ceilings.
\<close>

fun int_fill :: "(string \<Rightarrow> int) \<Rightarrow> string list \<Rightarrow> int \<Rightarrow> (string \<Rightarrow> int) \<Rightarrow> string \<Rightarrow> int" where
  "int_fill hi [] r n = n"
| "int_fill hi (d # ds) r n =
     (let x = max 0 (min r (hi d - n d)) in int_fill hi ds (r - x) (n(d := n d + x)))"

definition int_room :: "(string \<Rightarrow> int) \<Rightarrow> (string \<Rightarrow> int) \<Rightarrow> string list \<Rightarrow> int" where
  "int_room hi n ds = (\<Sum>d\<leftarrow>ds. max 0 (hi d - n d))"

definition whole_ledger ::
  "Account gomap \<Rightarrow> f64 gomap \<Rightarrow> (string \<Rightarrow> int) \<Rightarrow> (string \<Rightarrow> int) \<Rightarrow> (string \<Rightarrow> int) \<Rightarrow> bool" where
  "whole_ledger acc b lo hi n \<longleftrightarrow>
     (\<forall>k a. Mapping.lookup acc k = Some a \<longrightarrow>
        whole (MinBalanceValue a) (lo k) \<and> whole (MaxBalanceValue a) (hi k) \<and> whole (balance_of b k) (n k) \<and>
        \<bar>lo k\<bar> \<le> 2 ^ 44 \<and> \<bar>hi k\<bar> \<le> 2 ^ 44 \<and> \<bar>n k\<bar> \<le> 2 ^ 44)"

lemma int_fill_other: "k \<notin> set ds \<Longrightarrow> int_fill hi ds r n k = n k"
  by (induction hi ds r n rule: int_fill.induct) (auto simp: Let_def)

lemma int_fill_range: "min (n k) (hi k) \<le> int_fill hi ds r n k \<and> n k \<le> int_fill hi ds r n k \<and>
    int_fill hi ds r n k \<le> max (n k) (hi k)"
proof (induction hi ds r n rule: int_fill.induct)
  case (2 hi d ds r n)
  define x where "x = max 0 (min r (hi d - n d))"
  define m where "m = n(d := n d + x)"
  have m: "m k = (if k = d then n d + x else n k)"
    by (simp add: m_def)
  have "n d + x \<le> max (n d) (hi d)" "0 \<le> x"
    by (auto simp: x_def)
  moreover have "int_fill hi (d # ds) r n = int_fill hi ds (r - x) m"
    by (simp add: Let_def x_def [symmetric] m_def [symmetric])
  ultimately show ?case
    using 2 [OF x_def, folded m_def] m by (auto split: if_splits)
qed auto

lemma int_room_nonneg: "0 \<le> int_room hi n ds"
  unfolding int_room_def by (induction ds) auto

text \<open>Everything that fits is deposited, and nothing else.\<close>

lemma int_fill_sum:
  "distinct ds \<Longrightarrow> 0 \<le> r \<Longrightarrow> r \<le> int_room hi n ds \<Longrightarrow>
     (\<Sum>d\<leftarrow>ds. int_fill hi ds r n d) = (\<Sum>d\<leftarrow>ds. n d) + r"
proof (induction hi ds r n rule: int_fill.induct)
  case (2 hi d ds r n)
  define x where "x = max 0 (min r (hi d - n d))"
  define m where "m = n(d := n d + x)"
  have m: "m k = (if k = d then n d + x else n k)" for k
    by (simp add: m_def)
  have "(\<Sum>d\<leftarrow>ds. max 0 (hi d - m d)) = (\<Sum>d\<leftarrow>ds. max 0 (hi d - n d))"
    using 2(2) m by (intro arg_cong [of _ _ sum_list] map_cong refl) auto
  then have same: "int_room hi m ds = int_room hi n ds"
    by (simp add: int_room_def)
  have sums: "(\<Sum>d\<leftarrow>ds. m d) = (\<Sum>d\<leftarrow>ds. n d)"
    using 2(2) m by (intro arg_cong [of _ _ sum_list] map_cong refl) auto
  have "0 \<le> r - x" "r - x \<le> int_room hi m ds"
    using 2(3,4) int_room_nonneg [of hi n ds] unfolding same
    by (auto simp: x_def int_room_def max_def min_def)
  then have "(\<Sum>d\<leftarrow>ds. int_fill hi ds (r - x) m d) = (\<Sum>d\<leftarrow>ds. n d) + (r - x)"
    using 2(1) [OF x_def, folded m_def] 2(2) sums by simp
  moreover have "int_fill hi (d # ds) r n = int_fill hi ds (r - x) m"
    by (simp add: Let_def x_def [symmetric] m_def [symmetric])
  ultimately show ?case
    using 2(2) int_fill_other [of d ds hi "r - x" m] m by simp
qed (simp add: int_room_def)

lemma whole_ledgerD:
  assumes "whole_ledger acc b lo hi n" "Mapping.lookup acc k = Some a"
  shows "whole (MinBalanceValue a) (lo k)" "whole (MaxBalanceValue a) (hi k)" "whole (balance_of b k) (n k)"
    "\<bar>lo k\<bar> \<le> 2 ^ 44" "\<bar>hi k\<bar> \<le> 2 ^ 44" "\<bar>n k\<bar> \<le> 2 ^ 44"
  using assms unfolding whole_ledger_def by blast+

lemma whole_headroom:
  assumes "whole_ledger acc b lo hi n" "Mapping.lookup acc k = Some a"
  shows "whole (GetHeadroom b acc k) (max 0 (hi k - n k))"
  using whole_max [OF whole_0 whole_diff [OF whole_ledgerD(2,3) [OF assms]]] whole_ledgerD(5,6) [OF assms] assms(2)
  by (simp add: GetHeadroom_def abs_le_iff)

lemma whole_withdrawable:
  assumes "whole_ledger acc b lo hi n" "Mapping.lookup acc k = Some a"
  shows "whole (GetWithdrawableAmount b acc k) (max 0 (n k - lo k))"
  using whole_max [OF whole_0 whole_diff [OF whole_ledgerD(3,1) [OF assms]]] whole_ledgerD(4,6) [OF assms] assms(2)
  by (simp add: GetWithdrawableAmount_def abs_le_iff)

lemma whole_ledger_update:
  assumes "whole_ledger acc b lo hi n" "whole v m" "\<bar>m\<bar> \<le> 2 ^ 44"
  shows "whole_ledger acc (Mapping.update k v b) lo hi (n(k := m))"
  using assms by (auto simp: whole_ledger_def balance_of_update)

text \<open>The floating-point loop refines the integer loop.\<close>

lemma fill_refines:
  "whole_ledger acc b lo hi n \<Longrightarrow> whole r m \<Longrightarrow> 0 \<le> m \<Longrightarrow> m \<le> 2 ^ 53 \<Longrightarrow>
     (\<forall>d\<in>set ds. accountExists acc d) \<Longrightarrow>
     whole_ledger acc (fill acc ds r b) lo hi (int_fill hi ds m n)"
proof (induction ds arbitrary: r b m n)
  case (Cons d ds)
  then obtain a where a: "Mapping.lookup acc d = Some a"
    by (auto simp: accountExists_def)
  note h = whole_headroom [OF Cons.prems(1) a]
  note D = whole_ledgerD [OF Cons.prems(1) a]
  define x where "x = max 0 (min m (hi d - n d))"
  have unfold: "int_fill hi (d # ds) m n = int_fill hi ds (m - x) (n(d := n d + x))"
    by (simp add: x_def Let_def)
  show ?case
  proof (cases "m = 0 \<or> hi d \<le> n d")
    case True
    then have x0: "x = 0" using Cons.prems(3) by (auto simp: x_def)
    have "whole_ledger acc (fill acc ds r b) lo hi (int_fill hi ds m n)"
      using Cons by simp
    moreover have "fill acc (d # ds) r b = fill acc ds r b"
    proof (cases "m = 0")
      case True
      then have "r \<le> 0"
        using Cons.prems(2) whole_le [OF Cons.prems(2) whole_0] by simp
      then show ?thesis by (cases ds) auto
    next
      case False
      then have "\<not> r \<le> 0" "GetHeadroom b acc d \<le> 0"
        using True whole_le [OF Cons.prems(2) whole_0] whole_le [OF h whole_0] Cons.prems(3) by auto
      then show ?thesis by (simp add: Let_def)
    qed
    ultimately show ?thesis
      using x0 unfold by simp
  next
    case False
    have pos: "\<not> r \<le> 0" "\<not> GetHeadroom b acc d \<le> 0"
      using False whole_le [OF Cons.prems(2) whole_0] whole_le [OF h whole_0] Cons.prems(3) by auto
    have x: "whole (math_Min r (GetHeadroom b acc d)) x"
      using whole_min [OF Cons.prems(2) h] False Cons.prems(3)
      by (auto simp: x_def min_def max_def split: if_splits)
    have xs: "0 \<le> x" "x \<le> m" "n d + x \<le> max (n d) (hi d)"
      using Cons.prems(3) by (auto simp: x_def)
    have "whole (r - math_Min r (GetHeadroom b acc d)) (m - x)"
      using xs Cons.prems(3,4) by (intro whole_diff [OF Cons.prems(2) x]) simp
    moreover have bound: "\<bar>n d + x\<bar> \<le> 2 ^ 44"
      using xs D(5,6) by (auto simp: abs_le_iff max_def split: if_splits)
    moreover have "whole (balance_of b d + math_Min r (GetHeadroom b acc d)) (n d + x)"
      using bound by (intro whole_add [OF D(3) x]) simp
    ultimately have step: "whole_ledger acc (Mapping.update d (balance_of b d + math_Min r (GetHeadroom b acc d)) b)
        lo hi (n(d := n d + x))" and rest: "whole (r - math_Min r (GetHeadroom b acc d)) (m - x)"
      using whole_ledger_update [OF Cons.prems(1)] by blast+
    have "fill acc (d # ds) r b = fill acc ds (r - math_Min r (GetHeadroom b acc d))
        (Mapping.update d (balance_of b d + math_Min r (GetHeadroom b acc d)) b)"
      using pos by (simp add: Let_def)
    moreover have "whole_ledger acc (fill acc ds (r - math_Min r (GetHeadroom b acc d))
        (Mapping.update d (balance_of b d + math_Min r (GetHeadroom b acc d)) b)) lo hi
        (int_fill hi ds (m - x) (n(d := n d + x)))"
      using xs Cons.prems(4,5) by (intro Cons.IH [OF step rest]) auto
    ultimately show ?thesis
      by (simp only: unfold)
  qed
qed simp

lemma whole_total_headroom:
  assumes w: "whole_ledger acc b lo hi n" and ds: "\<forall>d\<in>set ds. accountExists acc d" "length ds \<le> 256"
  shows "whole (GetTotalDestinationHeadroom b acc ds) (int_room hi n ds)" "int_room hi n ds \<le> 2 ^ 53"
proof -
  have "whole (foldl (\<lambda>total d. if Mapping.lookup acc d = None then total else total + GetHeadroom b acc d) t ds)
      (k + int_room hi n ds) \<and> int_room hi n ds \<le> int (length ds) * 2 ^ 45"
    if "whole t k" "0 \<le> k" "k + int (length ds) * 2 ^ 45 \<le> 2 ^ 53" for t k
    using that ds(1)
  proof (induction ds arbitrary: t k)
    case (Cons d ds)
    then obtain a where a: "Mapping.lookup acc d = Some a"
      by (auto simp: accountExists_def)
    let ?h = "max 0 (hi d - n d)"
    have h: "whole (GetHeadroom b acc d) ?h" "0 \<le> ?h" "?h \<le> 2 ^ 45"
      using whole_headroom [OF w a] whole_ledgerD(5,6) [OF w a] by (auto simp: abs_le_iff)
    have "k + ?h + int (length ds) * 2 ^ 45 \<le> 2 ^ 53"
      using Cons.prems(3) h(3) by (simp add: algebra_simps)
    moreover have "0 \<le> int (length ds) * (2 ^ 45 :: int)" by simp
    ultimately have "whole (t + GetHeadroom b acc d) (k + ?h)"
      using h Cons.prems(2) by (intro whole_add [OF Cons.prems(1) h(1)]) linarith
    from Cons.IH [OF this] show ?case
      using a h Cons.prems \<open>k + ?h + int (length ds) * 2 ^ 45 \<le> 2 ^ 53\<close>
      by (auto simp: int_room_def algebra_simps)
  qed (simp add: int_room_def)
  from this [of 0 0] show "whole (GetTotalDestinationHeadroom b acc ds) (int_room hi n ds)" "int_room hi n ds \<le> 2 ^ 53"
    using ds(2) by (simp_all add: total_headroom_eq)
qed

lemma whole_min_limit:
  "whole x m \<Longrightarrow> 0 \<le> m \<Longrightarrow> y = FInf False \<or> whole y c \<Longrightarrow>
     math_Max 0 (math_Min x y) = math_Max 0 (math_Min x (if y = FInf False then x else y))"
  by (auto simp: math_Min_def whole_def)

text \<open>The realized amount of a whole request is whole, and no more than what the routes allow.\<close>

lemma resolve_whole:
  assumes w: "whole_ledger acc b lo hi n"
    and route: "actSourceAccountID action = Some s" "actDestinations action = Some ds"
      "\<forall>d\<in>set ds. accountExists acc d" "length ds \<le> 256"
    and q: "whole (actRequestedAmount action) q" "\<bar>q\<bar> \<le> 2 ^ 53"
      "action_limit action = FInf False \<or> whole (action_limit action) c"
  shows "\<exists>m. whole (resRealizedAmount (ResolveAccountTransaction action b acc)) m \<and> 0 \<le> m \<and>
    m \<le> max 0 q \<and> m \<le> int_room hi n ds \<and> (accountExists acc s \<longrightarrow> m \<le> max 0 (n s - lo s)) \<and>
    (\<not> accountExists acc s \<longrightarrow> m = 0)"
proof (cases "max 0 q = 0 \<or> \<not> accountExists acc s")
  case True
  have "whole (math_Max 0 (actRequestedAmount action)) (max 0 q)"
    by (rule whole_max [OF whole_0 q(1)])
  then have "resRealizedAmount (ResolveAccountTransaction action b acc) = 0"
    using True route(1) by (auto simp: ResolveAccountTransaction_def Let_def feq_def whole_def zero_f64_def)
  then show ?thesis
    using int_room_nonneg [of hi n ds] by (intro exI [of _ 0]) auto
next
  case False
  then obtain a where a: "Mapping.lookup acc s = Some a"
    by (auto simp: accountExists_def)
  have q0: "whole (math_Max 0 (actRequestedAmount action)) (max 0 q)"
    by (rule whole_max [OF whole_0 q(1)])
  note dl = whole_total_headroom [OF w route(3,4)] and sl = whole_withdrawable [OF w a]
  define rest where "rest = math_Min (GetWithdrawableAmount b acc s) (GetTotalDestinationHeadroom b acc ds)"
  have rest: "whole rest (min (max 0 (n s - lo s)) (int_room hi n ds))"
    unfolding rest_def by (rule whole_min [OF sl dl(1)])
  have real: "resRealizedAmount (ResolveAccountTransaction action b acc) =
      math_Max 0 (math_Min (math_Max 0 (actRequestedAmount action)) (math_Min (action_limit action) rest))"
    using False route q0 by (auto simp: ResolveAccountTransaction_def Let_def feq_def whole_def zero_f64_def
        action_limit_def rest_def)
  define R where "R = min (max 0 (n s - lo s)) (int_room hi n ds)"
  have R: "0 \<le> R" "R \<le> max 0 (n s - lo s)" "R \<le> int_room hi n ds"
    using int_room_nonneg [of hi n ds] by (simp_all add: R_def)
  have fin: ?thesis if X: "whole (resRealizedAmount (ResolveAccountTransaction action b acc)) (max 0 (min (max 0 q) X))"
      "X \<le> R" for X
  proof (intro exI conjI)
    show "max 0 (min (max 0 q) X) \<le> int_room hi n ds" "accountExists acc s \<longrightarrow> max 0 (min (max 0 q) X) \<le> max 0 (n s - lo s)"
      using R X(2) by linarith+
  qed (use X(1) a in \<open>auto simp: accountExists_def\<close>)
  show ?thesis
  proof (cases "action_limit action = FInf False")
    case True
    then have "math_Min (action_limit action) rest = rest"
      using rest by (simp add: math_Min_def whole_def)
    then show ?thesis
      using whole_max [OF whole_0 whole_min [OF q0 rest]] real by (intro fin [of R]) (simp_all add: R_def)
  next
    case False
    then have "whole (action_limit action) c" using q(3) by blast
    from whole_max [OF whole_0 whole_min [OF q0 whole_min [OF this rest]]]
    show ?thesis
      using real by (intro fin [of "min c R"]) (simp_all add: R_def [symmetric])
  qed
qed

section \<open>Properties\<close>

text \<open>
  C1. No account goes past its limits.  Whatever amount a transfer requests, resolving it against
  the balances and applying the realized amount leaves every account at least at its floor and at
  most at its ceiling, or where it already was beyond them; floating-point rounding can cost at
  most \<open>slack\<close> = 1/256 of a dollar.  Accounts off the route do not change.
\<close>

theorem transfer_keeps_limits:
  assumes "sane_ledger acc b" "actRequestedAmount action \<noteq> FNaN" "actLimitRemaining action \<noteq> Some FNaN"
  shows "let b' = ApplyAccountTransaction action
      (resRealizedAmount (ResolveAccountTransaction action b acc)) b acc
    in limits_kept acc b b' \<and> (\<forall>k. k \<notin> action_route action \<longrightarrow> Mapping.lookup b' k = Mapping.lookup b k)"
proof -
  have "action_limit action \<noteq> FNaN"
    using assms(3) by (auto simp: action_limit_def split: option.split)
  then have "limits_kept acc b (ApplyAccountTransaction action
      (resRealizedAmount (ResolveAccountTransaction action b acc)) b acc)"
    using transfer.keeps [OF assms(1), of "(action, resRealizedAmount (ResolveAccountTransaction action b acc))"] assms(2)
    by (simp add: resolved_transfer_def)
  then show ?thesis
    by (simp add: lookup_ApplyAccountTransaction Let_def)
qed

text \<open>
  C2. A transfer between accounts conserves money.  On whole-dollar balances, limits and request,
  the realized amount leaves the source and arrives in full at the destinations: nothing is lost
  or created, the source keeps its floor, every destination its ceiling.
\<close>

theorem transfer_conserves:
  assumes "whole_ledger acc b lo hi n"
    and "actSourceAccountID action = Some s" "actDestinations action = Some ds"
      "distinct ds" "s \<notin> set ds" "\<forall>d\<in>set ds. accountExists acc d" "length ds \<le> 256"
    and "whole (actRequestedAmount action) q" "\<bar>q\<bar> \<le> 2 ^ 53"
      "actLimitRemaining action = None \<or> (\<exists>l. actLimitRemaining action = Some l \<and> (l = FInf False \<or> whole l c))"
  shows "\<exists>m n'. whole (resRealizedAmount (ResolveAccountTransaction action b acc)) m \<and> 0 \<le> m \<and> m \<le> max 0 q \<and>
    whole_ledger acc (ApplyAccountTransaction action
      (resRealizedAmount (ResolveAccountTransaction action b acc)) b acc) lo hi n' \<and>
    n' s = n s - m \<and> (\<Sum>d\<leftarrow>ds. n' d) = (\<Sum>d\<leftarrow>ds. n d) + m \<and>
    (\<forall>k. k \<noteq> s \<and> k \<notin> set ds \<longrightarrow> n' k = n k) \<and>
    (accountExists acc s \<longrightarrow> min (n s) (lo s) \<le> n' s) \<and> (\<forall>d\<in>set ds. n d \<le> n' d \<and> n' d \<le> max (n d) (hi d))"
proof -
  have lim: "action_limit action = FInf False \<or> whole (action_limit action) c"
    using assms(10) by (auto simp: action_limit_def)
  define r where "r = resRealizedAmount (ResolveAccountTransaction action b acc)"
  obtain m where m: "whole r m" "0 \<le> m" "m \<le> max 0 q" "m \<le> int_room hi n ds"
      "accountExists acc s \<longrightarrow> m \<le> max 0 (n s - lo s)" "\<not> accountExists acc s \<longrightarrow> m = 0"
    using resolve_whole [OF assms(1-3,6-9) lim] unfolding r_def by blast
  show ?thesis
  proof (cases "m = 0")
    case True
    then have "ApplyAccountTransaction action r b acc = b"
      using m(1) whole_le [OF m(1) whole_0] by (simp add: ApplyAccountTransaction_def)
    then show ?thesis
      using True m assms(1) unfolding r_def by (intro exI [of _ 0] exI [of _ n]) auto
  next
    case False
    then obtain a where a: "Mapping.lookup acc s = Some a"
      using m(6) by (auto simp: accountExists_def)
    note D = whole_ledgerD [OF assms(1) a]
    have src: "\<bar>n s - m\<bar> \<le> 2 ^ 44" "min (n s) (lo s) \<le> n s - m"
      using m(2,5) D(4,6) a by (auto simp: accountExists_def abs_le_iff)
    define b1 where "b1 = Mapping.update s (balance_of b s - r) b"
    define n1 where "n1 = n(s := n s - m)"
    have w1: "whole_ledger acc b1 lo hi n1"
      unfolding b1_def n1_def using src(1) by (intro whole_ledger_update [OF assms(1)] whole_diff [OF D(3) m(1)]) auto
    have n1: "n1 s = n s - m" "\<And>k. k \<noteq> s \<Longrightarrow> n1 k = n k"
      by (simp_all add: n1_def)
    have room: "int_room hi n1 ds = int_room hi n ds" and sums: "(\<Sum>d\<leftarrow>ds. n1 d) = (\<Sum>d\<leftarrow>ds. n d)"
      unfolding int_room_def using assms(5) n1(2) by (intro arg_cong [of _ _ sum_list] map_cong refl; metis)+
    have le: "m \<le> 2 ^ 53"
      using m(3) assms(9) False m(2) by (auto simp: abs_le_iff max_def split: if_splits)
    have "ApplyAccountTransaction action r b acc = fill acc ds r b1"
      using False m(2) whole_le [OF m(1) whole_0] assms(2,3)
      by (simp add: ApplyAccountTransaction_def debit_def b1_def)
    then have "whole_ledger acc (ApplyAccountTransaction action r b acc) lo hi (int_fill hi ds m n1)"
      using fill_refines [OF w1 m(1,2) le assms(6)] by simp
    moreover have "(\<Sum>d\<leftarrow>ds. int_fill hi ds m n1 d) = (\<Sum>d\<leftarrow>ds. n d) + m"
      using int_fill_sum [OF assms(4) m(2), of hi n1] m(4) room sums by simp
    moreover have "int_fill hi ds m n1 s = n s - m"
      using assms(5) n1 by (simp add: int_fill_other)
    moreover have "\<forall>k. k \<noteq> s \<and> k \<notin> set ds \<longrightarrow> int_fill hi ds m n1 k = n k"
      using n1 by (simp add: int_fill_other)
    moreover have "n d \<le> int_fill hi ds m n1 d \<and> int_fill hi ds m n1 d \<le> max (n d) (hi d)" if "d \<in> set ds" for d
    proof -
      have "n1 d = n d" using that assms(5) n1(2) by metis
      then show ?thesis
        using int_fill_range [of n1 d hi ds m] by simp
    qed
    ultimately show ?thesis
      using m src(2) unfolding r_def by (intro exI [of _ m] exI [of _ "int_fill hi ds m n1"]) auto
  qed
qed

subsection \<open>Witnesses\<close>

definition wallet :: Account where
  "wallet = \<lparr>acDisplay = None, acID = ''checking'', acName = ''Checking'', acKind = ''cash'',
     acMinBalance = Some (FNum 100), acMaxBalance = None, acColor = None, acEnabled = True\<rparr>"

definition card :: Account where
  "card = \<lparr>acDisplay = None, acID = ''card'', acName = ''Card'', acKind = ''debt'',
     acMinBalance = None, acMaxBalance = Some (FNum 0), acColor = None, acEnabled = True\<rparr>"

definition savings :: Account where
  "savings = \<lparr>acDisplay = None, acID = ''savings'', acName = ''Savings'', acKind = ''cash'',
     acMinBalance = Some (FNum 0), acMaxBalance = None, acColor = None, acEnabled = True\<rparr>"

definition sample_accounts :: "Account gomap" where
  "sample_accounts = accountIndex [wallet, card, savings]"

definition sample_balances :: "f64 gomap" where
  "sample_balances = Mapping.update ''checking'' (FNum 500) (Mapping.update ''card'' (FNum (- 150)) Mapping.empty)"

text \<open>Pay off the card, put the rest into savings: 400 of the 450 are available.\<close>

definition sample_payment :: AccountTransactionAction where
  "sample_payment = \<lparr>actSourceAccountID = Some ''checking'', actDestinations = Some [''card'', ''savings''],
     actRequestedAmount = FNum 450, actLimitRemaining = None\<rparr>"

lemma sample_limits:
  "MinBalanceValue wallet = FNum 100" "MaxBalanceValue wallet = FNum 10000000000000"
  "MinBalanceValue card = FNum (- 10000000000000)" "MaxBalanceValue card = FNum 0"
  "MinBalanceValue savings = FNum 0" "MaxBalanceValue savings = FNum 10000000000000"
  by (simp_all add: wallet_def card_def savings_def MinBalanceValue_def MaxBalanceValue_def NoFloor_def NoCeiling_def
      f64_of_rat_numeral)

lemma lookup_sample_accounts:
  "Mapping.lookup sample_accounts k =
     (if k = ''savings'' then Some savings else if k = ''card'' then Some card
      else if k = ''checking'' then Some wallet else None)"
  by (simp add: sample_accounts_def accountIndex_def lookup_update' wallet_def card_def savings_def lookup_empty)

lemma balance_of_sample:
  "balance_of sample_balances k =
     (if k = ''checking'' then FNum 500 else if k = ''card'' then FNum (- 150) else 0)"
  by (simp add: sample_balances_def lookup_default_update' lookup_default_empty)

lemma all_sample:
  "(\<forall>k a. Mapping.lookup sample_accounts k = Some a \<longrightarrow> P k a) \<longleftrightarrow>
     P ''savings'' savings \<and> P ''card'' card \<and> P ''checking'' wallet"
  (is "?all \<longleftrightarrow> ?each")
proof
  assume all: ?all
  have "Mapping.lookup sample_accounts ''savings'' = Some savings" "Mapping.lookup sample_accounts ''card'' = Some card"
      "Mapping.lookup sample_accounts ''checking'' = Some wallet"
    by (simp_all add: lookup_sample_accounts)
  with all show ?each by blast
next
  assume each: ?each
  show ?all
  proof (intro allI impI)
    fix k a assume "Mapping.lookup sample_accounts k = Some a"
    then have "k = ''savings'' \<and> a = savings \<or> k = ''card'' \<and> a = card \<or> k = ''checking'' \<and> a = wallet"
      unfolding lookup_sample_accounts by (simp split: if_splits)
    with each show "P k a" by blast
  qed
qed

lemma sample_whole:
  "whole_ledger sample_accounts sample_balances
     ((\<lambda>_. 0)(''checking'' := 100, ''card'' := - 10000000000000))
     ((\<lambda>_. 10000000000000)(''card'' := 0)) ((\<lambda>_. 0)(''checking'' := 500, ''card'' := - 150))"
  unfolding whole_ledger_def all_sample sample_limits balance_of_sample whole_def
  by (simp add: zero_f64_def)

lemma sample_sane: "sane_ledger sample_accounts sample_balances"
proof -
  have "rnd 500 = 500" "rnd (- 150) = - 150"
    using rnd_of_int [of 500] rnd_of_int [of "- 150"] by simp_all
  moreover have "p2 44 = 17592186044416"
    by (simp add: p2_def)
  ultimately have "money (FNum 500)" "money (FNum (- 150))" "money 0"
      "sane_account wallet" "sane_account card" "sane_account savings"
    by (simp_all add: money_def sane_account_def sample_limits zero_f64_def)
  then show ?thesis
    unfolding sane_ledger_def all_sample by (simp add: balance_of_sample)
qed

lemma transfer_keeps_limits_witness:
  "limits_kept sample_accounts sample_balances
     (ApplyAccountTransaction sample_payment
        (resRealizedAmount (ResolveAccountTransaction sample_payment sample_balances sample_accounts))
        sample_balances sample_accounts)"
  using transfer_keeps_limits [OF sample_sane, of sample_payment] by (simp add: sample_payment_def Let_def)

lemma transfer_conserves_witness:
  "\<exists>m n'. whole (resRealizedAmount (ResolveAccountTransaction sample_payment sample_balances sample_accounts)) m \<and>
     m \<le> 450 \<and> n' ''checking'' = 500 - m \<and> n' ''card'' + n' ''savings'' = m - 150"
proof -
  have "actSourceAccountID sample_payment = Some ''checking''"
    "actDestinations sample_payment = Some [''card'', ''savings'']" "distinct [''card'', ''savings'']"
    "''checking'' \<notin> set [''card'', ''savings'']" "\<forall>d\<in>set [''card'', ''savings'']. accountExists sample_accounts d"
    "length [''card'', ''savings''] \<le> 256" "whole (actRequestedAmount sample_payment) 450" "\<bar>450 :: int\<bar> \<le> 2 ^ 53"
    "actLimitRemaining sample_payment = None"
    by (simp_all add: sample_payment_def accountExists_def lookup_sample_accounts whole_def)
  from transfer_conserves [OF sample_whole this(1-8) disjI1 [OF this(9)]]
  obtain m n' where "whole (resRealizedAmount (ResolveAccountTransaction sample_payment sample_balances sample_accounts)) m"
    "m \<le> max 0 450" "n' ''checking'' = ((\<lambda>_. 0)(''checking'' := 500, ''card'' := - 150)) ''checking'' - m"
    "(\<Sum>d\<leftarrow>[''card'', ''savings'']. n' d) =
       (\<Sum>d\<leftarrow>[''card'', ''savings'']. ((\<lambda>_. 0)(''checking'' := 500, ''card'' := - 150)) d) + m"
    by blast
  then show ?thesis
    by (intro exI [of _ m] exI [of _ n']) simp
qed

end
