(* ===== verification/Arithmetic.thy ===== *)
theory Arithmetic
  imports Model Dates
begin

text \<open>
  The arithmetic expression language of \<open>backend/internal/domain/arithmetic.go\<close>: lexer, recursive
  descent parser, evaluator and the bounded cache of compiled expressions.  A compiled closure is
  the syntax tree it was built from, and calling it is \<open>evaluate\<close>.  The parser functions take
  fuel, one unit per call; \<open>parse_fuel\<close> is always enough (\<open>parse_tokens_total\<close> in
  \<open>Arithmetic_Laws\<close>).
\<close>

section \<open>Tokens and the lexer\<close>

datatype tokenKind =
  tokNumber | tokIdentifier | tokPlus | tokMinus | tokStar | tokSlash | tokLParen | tokRParen
| tokAbs | tokRate | tokEOF

record token =
  tkKind :: tokenKind
  tkLexeme :: string
  tkValue :: f64
  tkOffset :: nat

text \<open>The messages of \<open>ParseError\<close>, with the text they quote.\<close>

datatype parse_message =
  UnexpectedCharacter char
| InvalidNumber string
| ExpectedAfterAbs
| ExpectedAfterAbsArgument
| ExpectedRParen
| ExpectedPrimary
| UnexpectedTrailingInput

datatype ParseError = ParseError parse_message nat

text \<open>\<open>EvalError\<close>: "Division by zero" is the only one.\<close>

datatype EvalError = DivisionByZero

definition mk_token :: "tokenKind \<Rightarrow> string \<Rightarrow> nat \<Rightarrow> token" where
  "mk_token k lexeme offset = \<lparr>tkKind = k, tkLexeme = lexeme, tkValue = 0, tkOffset = offset\<rparr>"

definition is_letter :: "char \<Rightarrow> bool" where
  "is_letter c \<longleftrightarrow>
     (CHR ''a'' \<le> c \<and> c \<le> CHR ''z'') \<or> (CHR ''A'' \<le> c \<and> c \<le> CHR ''Z'') \<or> c = CHR ''_''"

definition is_ident_char :: "char \<Rightarrow> bool" where
  "is_ident_char c \<longleftrightarrow> is_letter c \<or> is_digit c"

text \<open>
  \<open>strconv.ParseFloat\<close> on the lexemes of \<open>lexNumber\<close>: digits with at most one dot.  The result is
  the decimal value rounded to nearest; an infinite result is a range error.
\<close>

definition digits_value :: "string \<Rightarrow> rat" where
  "digits_value ds = foldl (\<lambda>v c. v * 10 + of_int (byte_digit c)) 0 ds"

definition decimal_value :: "string \<Rightarrow> rat" where
  "decimal_value lexeme =
     (let whole = takeWhile (\<lambda>c. c \<noteq> CHR ''.'') lexeme;
          fraction = drop 1 (dropWhile (\<lambda>c. c \<noteq> CHR ''.'') lexeme)
      in digits_value whole + digits_value fraction / 10 ^ length fraction)"

text \<open>The lexer works on the input from the current position on.\<close>

definition lexNumber :: "string \<Rightarrow> nat \<Rightarrow> ParseError + token \<times> string" where
  "lexNumber rest pos =
     (let whole = takeWhile is_digit rest;
          after = dropWhile is_digit rest;
          (lexeme, rest') =
            (case after of
               c # cs \<Rightarrow>
                 if c = CHR ''.'' then (whole @ c # takeWhile is_digit cs, dropWhile is_digit cs)
                 else (whole, after)
             | [] \<Rightarrow> (whole, after));
          value = f64_of_rat (decimal_value lexeme)
      in if isInf value
         then Inl (ParseError (InvalidNumber lexeme) pos)
         else Inr (\<lparr>tkKind = tokNumber, tkLexeme = lexeme, tkValue = value, tkOffset = pos\<rparr>, rest'))"

definition lexIdent :: "string \<Rightarrow> nat \<Rightarrow> token \<times> string" where
  "lexIdent rest pos =
     (let lexeme = takeWhile is_ident_char rest;
          rest' = dropWhile is_ident_char rest
      in if lexeme = ''abs'' then (mk_token tokAbs lexeme pos, rest')
         else if lexeme = ''rate'' then (mk_token tokRate lexeme pos, rest')
         else (mk_token tokIdentifier lexeme pos, rest'))"

text \<open>\<open>next\<close>, after the spaces are skipped; \<open>None\<close> for the rest means the end token.\<close>

definition lex_next :: "string \<Rightarrow> nat \<Rightarrow> ParseError + token \<times> string option" where
  "lex_next rest pos =
     (case rest of
        [] \<Rightarrow> Inr (mk_token tokEOF [] pos, None)
      | ch # cs \<Rightarrow>
          if is_digit ch then
            (case lexNumber rest pos of Inl e \<Rightarrow> Inl e | Inr (t, r) \<Rightarrow> Inr (t, Some r))
          else if is_letter ch then (case lexIdent rest pos of (t, r) \<Rightarrow> Inr (t, Some r))
          else if ch = CHR ''+'' then Inr (mk_token tokPlus [ch] pos, Some cs)
          else if ch = CHR ''-'' then Inr (mk_token tokMinus [ch] pos, Some cs)
          else if ch = CHR ''*'' then Inr (mk_token tokStar [ch] pos, Some cs)
          else if ch = CHR ''/'' then Inr (mk_token tokSlash [ch] pos, Some cs)
          else if ch = CHR ''('' then Inr (mk_token tokLParen [ch] pos, Some cs)
          else if ch = CHR '')'' then Inr (mk_token tokRParen [ch] pos, Some cs)
          else Inl (ParseError (UnexpectedCharacter ch) pos))"

definition skip_spaces :: "string \<Rightarrow> string" where
  "skip_spaces s = dropWhile (\<lambda>c. c = CHR '' '') s"

lemma length_dropWhile_less: "xs \<noteq> [] \<Longrightarrow> P (hd xs) \<Longrightarrow> length (dropWhile P xs) < length xs"
  using length_dropWhile_le [of P "tl xs"] by (cases xs) auto

lemma lex_next_shorter:
  assumes "lex_next rest pos = Inr (t, Some r)"
  shows "length r < length rest"
proof (cases rest)
  case (Cons c cs)
  have d: "length (dropWhile P xs) \<le> length xs" for P and xs :: string
    by (rule length_dropWhile_le)
  have digit: "length (dropWhile is_digit cs) \<le> length cs" "is_digit c \<Longrightarrow> length (dropWhile is_digit rest) < length rest"
    using d [of is_digit cs] length_dropWhile_less [of rest is_digit] Cons by auto
  have after: "length (dropWhile is_digit ys) \<le> length ys" for ys
    by (rule d)
  show ?thesis
  proof (cases "is_digit c")
    case True
    then show ?thesis
      using assms Cons digit after
      by (auto simp: lex_next_def lexNumber_def Let_def split: if_splits list.splits sum.splits prod.splits)
        (metis after le_SucI le_imp_less_Suc length_Cons less_SucI order.trans)+
  next
    case False
    then show ?thesis
      using assms Cons length_dropWhile_less [of rest is_ident_char]
      by (auto simp: lex_next_def lexIdent_def is_ident_char_def Let_def split: if_splits)
  qed
qed (use assms in \<open>simp add: lex_next_def\<close>)

text \<open>The token loop of \<open>ParseArithmetic\<close>: up to and including the end token.\<close>

function lex_all :: "string \<Rightarrow> nat \<Rightarrow> ParseError + token list" where
  "lex_all input pos =
     (let rest = skip_spaces input; pos' = pos + (length input - length rest) in
      case lex_next rest pos' of
        Inl e \<Rightarrow> Inl e
      | Inr (t, None) \<Rightarrow> Inr [t]
      | Inr (t, Some rest') \<Rightarrow>
          (case lex_all rest' (pos' + (length rest - length rest')) of
             Inl e \<Rightarrow> Inl e
           | Inr ts \<Rightarrow> Inr (t # ts)))"
  by pat_completeness auto
termination
proof (relation "measure (\<lambda>(input, pos). length input)", goal_cases)
  case (2 input pos rest pos' r t o' rest')
  have "length rest \<le> length input"
    unfolding 2(1) skip_spaces_def by (rule length_dropWhile_le)
  moreover have "length rest' < length rest"
    using 2(3-5) by (intro lex_next_shorter [of rest pos' t rest']) simp
  ultimately show ?case by simp
qed simp

declare lex_all.simps [simp del]

section \<open>The parser\<close>

text \<open>What a parsed closure computes, as a tree.\<close>

datatype expr =
  Number f64
| Rate
| Identifier string
| Negate expr
| Absolute expr
| Plus expr expr
| Minus expr expr
| Times expr expr
| Divide expr expr

text \<open>
  The parser state is the rest of the tokens.  \<open>peek\<close> past the end gives the last token again;
  the grammar never advances past the end token, so the last token is always in the rest.
\<close>

definition peek :: "token list \<Rightarrow> token" where
  "peek ts = (case ts of t # _ \<Rightarrow> t | [] \<Rightarrow> mk_token tokEOF [] 0)"

definition check_kind :: "tokenKind \<Rightarrow> token list \<Rightarrow> bool" where
  "check_kind k ts \<longleftrightarrow> tkKind (peek ts) = k"

definition consume :: "tokenKind \<Rightarrow> parse_message \<Rightarrow> token list \<Rightarrow> ParseError + token list" where
  "consume k message ts =
     (if check_kind k ts then Inr (tl ts) else Inl (ParseError message (tkOffset (peek ts))))"

text \<open>One parse step: \<open>None\<close> when the fuel runs out.\<close>

type_synonym parsed = "(ParseError + expr \<times> token list) option"

fun parse_expr :: "nat \<Rightarrow> token list \<Rightarrow> parsed"
  and expr_loop :: "nat \<Rightarrow> expr \<Rightarrow> token list \<Rightarrow> parsed"
  and parse_term :: "nat \<Rightarrow> token list \<Rightarrow> parsed"
  and term_loop :: "nat \<Rightarrow> expr \<Rightarrow> token list \<Rightarrow> parsed"
  and parse_unary :: "nat \<Rightarrow> token list \<Rightarrow> parsed"
  and parse_call :: "nat \<Rightarrow> token list \<Rightarrow> parsed"
  and parse_primary :: "nat \<Rightarrow> token list \<Rightarrow> parsed"
where
  "parse_expr 0 ts = None"
| "parse_expr (Suc n) ts = and_then (parse_term n ts) (\<lambda>(node, ts). expr_loop n node ts)"
| "expr_loop 0 node ts = None"
| "expr_loop (Suc n) node ts =
     (if check_kind tokPlus ts \<or> check_kind tokMinus ts then
        and_then (parse_term n (tl ts)) (\<lambda>(right, ts').
          expr_loop n (if check_kind tokPlus ts then Plus node right else Minus node right) ts')
      else Some (Inr (node, ts)))"
| "parse_term 0 ts = None"
| "parse_term (Suc n) ts = and_then (parse_unary n ts) (\<lambda>(node, ts). term_loop n node ts)"
| "term_loop 0 node ts = None"
| "term_loop (Suc n) node ts =
     (if check_kind tokStar ts \<or> check_kind tokSlash ts then
        and_then (parse_unary n (tl ts)) (\<lambda>(right, ts').
          term_loop n (if check_kind tokStar ts then Times node right else Divide node right) ts')
      else Some (Inr (node, ts)))"
| "parse_unary 0 ts = None"
| "parse_unary (Suc n) ts =
     (if check_kind tokMinus ts
      then and_then (parse_unary n (tl ts)) (\<lambda>(operand, ts'). Some (Inr (Negate operand, ts')))
      else parse_call n ts)"
| "parse_call 0 ts = None"
| "parse_call (Suc n) ts =
     (if check_kind tokAbs ts then
        and_then (Some (consume tokLParen ExpectedAfterAbs (tl ts))) (\<lambda>ts1.
          and_then (parse_expr n ts1) (\<lambda>(arg, ts2).
            and_then (Some (consume tokRParen ExpectedAfterAbsArgument ts2)) (\<lambda>ts3.
              Some (Inr (Absolute arg, ts3)))))
      else parse_primary n ts)"
| "parse_primary 0 ts = None"
| "parse_primary (Suc n) ts =
     (if check_kind tokLParen ts then
        and_then (parse_expr n (tl ts)) (\<lambda>(node, ts1).
          and_then (Some (consume tokRParen ExpectedRParen ts1)) (\<lambda>ts2. Some (Inr (node, ts2))))
      else if check_kind tokNumber ts then Some (Inr (Number (tkValue (peek ts)), tl ts))
      else if check_kind tokRate ts then Some (Inr (Rate, tl ts))
      else if check_kind tokIdentifier ts then Some (Inr (Identifier (tkLexeme (peek ts)), tl ts))
      else Some (Inl (ParseError ExpectedPrimary (tkOffset (peek ts)))))"

definition parse_fuel :: "token list \<Rightarrow> nat" where
  "parse_fuel ts = 7 * length ts + 7"

definition parse_tokens :: "token list \<Rightarrow> (ParseError + expr) option" where
  "parse_tokens ts =
     and_then (parse_expr (parse_fuel ts) ts) (\<lambda>(node, ts1).
       and_then (Some (consume tokEOF UnexpectedTrailingInput ts1)) (\<lambda>_. Some (Inr node)))"

section \<open>Evaluation\<close>

fun eval :: "f64 gomap \<Rightarrow> expr \<Rightarrow> EvalError + f64" where
  "eval ctx (Number v) = Inr v"
| "eval ctx Rate = Inr (balance_of ctx ''rate'')"
| "eval ctx (Identifier name) =
     Inr (case Mapping.lookup ctx name of None \<Rightarrow> FNaN | Some v \<Rightarrow> v)"
| "eval ctx (Negate e) = (case eval ctx e of Inl x \<Rightarrow> Inl x | Inr v \<Rightarrow> Inr (- v))"
| "eval ctx (Absolute e) = (case eval ctx e of Inl x \<Rightarrow> Inl x | Inr v \<Rightarrow> Inr (math_Abs v))"
| "eval ctx (Plus l r) =
     (case eval ctx l of Inl x \<Rightarrow> Inl x | Inr u \<Rightarrow>
        (case eval ctx r of Inl x \<Rightarrow> Inl x | Inr v \<Rightarrow> Inr (u + v)))"
| "eval ctx (Minus l r) =
     (case eval ctx l of Inl x \<Rightarrow> Inl x | Inr u \<Rightarrow>
        (case eval ctx r of Inl x \<Rightarrow> Inl x | Inr v \<Rightarrow> Inr (u - v)))"
| "eval ctx (Times l r) =
     (case eval ctx l of Inl x \<Rightarrow> Inl x | Inr u \<Rightarrow>
        (case eval ctx r of Inl x \<Rightarrow> Inl x | Inr v \<Rightarrow> Inr (u * v)))"
| "eval ctx (Divide l r) =
     (case eval ctx r of Inl x \<Rightarrow> Inl x | Inr divisor \<Rightarrow>
        if feq divisor 0 then Inl DivisionByZero
        else (case eval ctx l of Inl x \<Rightarrow> Inl x | Inr u \<Rightarrow> Inr (fdiv u divisor)))"

primrec identifiers :: "expr \<Rightarrow> string list" where
  "identifiers (Number v) = []"
| "identifiers Rate = [''rate'']"
| "identifiers (Identifier name) = [name]"
| "identifiers (Negate e) = identifiers e"
| "identifiers (Absolute e) = identifiers e"
| "identifiers (Plus l r) = identifiers l @ identifiers r"
| "identifiers (Minus l r) = identifiers l @ identifiers r"
| "identifiers (Times l r) = identifiers l @ identifiers r"
| "identifiers (Divide l r) = identifiers l @ identifiers r"

record ParsedArithmetic =
  paEvaluate :: expr
  paRequirements :: "string list"

definition compile :: "expr \<Rightarrow> ParsedArithmetic" where
  "compile e = \<lparr>paEvaluate = e, paRequirements = sort (remdups (identifiers e))\<rparr>"

section \<open>The cache\<close>

definition exprCacheLimit :: nat where
  "exprCacheLimit = 1024"

record exprCacheT =
  ecOrder :: "string list"
  ecValues :: "ParsedArithmetic gomap"

definition empty_cache :: exprCacheT where
  "empty_cache = \<lparr>ecOrder = [], ecValues = Mapping.empty\<rparr>"

definition cache_store :: "exprCacheT \<Rightarrow> string \<Rightarrow> ParsedArithmetic \<Rightarrow> exprCacheT" where
  "cache_store c input parsed =
     (if Mapping.lookup (ecValues c) input \<noteq> None then c
      else
        let c = (if exprCacheLimit \<le> length (ecOrder c)
                 then \<lparr>ecOrder = tl (ecOrder c), ecValues = Mapping.delete (hd (ecOrder c)) (ecValues c)\<rparr>
                 else c)
        in \<lparr>ecOrder = ecOrder c @ [input], ecValues = Mapping.update input parsed (ecValues c)\<rparr>)"

text \<open>Compilation of one expression, without the cache.\<close>

definition compile_input :: "string \<Rightarrow> (ParseError + ParsedArithmetic) option" where
  "compile_input input =
     and_then (Some (lex_all input 0)) (\<lambda>tokens.
       and_then (parse_tokens tokens) (\<lambda>e. Some (Inr (compile e))))"

text \<open>\<open>ParseArithmetic\<close> reads and fills the cache.\<close>

definition ParseArithmetic :: "exprCacheT \<Rightarrow> string \<Rightarrow> ((ParseError + ParsedArithmetic) \<times> exprCacheT) option" where
  "ParseArithmetic cache input =
     (case Mapping.lookup (ecValues cache) input of
        Some cached \<Rightarrow> Some (Inr cached, cache)
      | None \<Rightarrow>
          (case compile_input input of
             None \<Rightarrow> None
           | Some (Inl e) \<Rightarrow> Some (Inl e, cache)
           | Some (Inr parsed) \<Rightarrow> Some (Inr parsed, cache_store cache input parsed)))"

section \<open>Entry points\<close>

datatype arithmetic_error = Parse ParseError | Eval EvalError

text \<open>The entry points as functions of the input; \<open>Arithmetic_Laws\<close> shows the cache is invisible.\<close>

definition ArithmeticRequirements :: "string \<Rightarrow> (arithmetic_error + string list) option" where
  "ArithmeticRequirements input =
     (case compile_input input of
        None \<Rightarrow> None
      | Some (Inl e) \<Rightarrow> Some (Inl (Parse e))
      | Some (Inr parsed) \<Rightarrow> Some (Inr (paRequirements parsed)))"

definition with_defaults :: "string list \<Rightarrow> f64 gomap \<Rightarrow> f64 gomap" where
  "with_defaults reqs ctx =
     foldl (\<lambda>values req. if Mapping.lookup values req = None then Mapping.update req 0 values else values)
       ctx reqs"

definition Evaluate :: "ParsedArithmetic \<Rightarrow> f64 gomap \<Rightarrow> EvalError + f64" where
  "Evaluate parsed ctx = eval ctx (paEvaluate parsed)"

definition EvaluateArithmetic :: "string \<Rightarrow> f64 gomap \<Rightarrow> (arithmetic_error + f64) option" where
  "EvaluateArithmetic input ctx =
     (case compile_input input of
        None \<Rightarrow> None
      | Some (Inl e) \<Rightarrow> Some (Inl (Parse e))
      | Some (Inr parsed) \<Rightarrow>
          (case Evaluate parsed (with_defaults (paRequirements parsed) ctx) of
             Inl e \<Rightarrow> Some (Inl (Eval e))
           | Inr v \<Rightarrow> Some (Inr v)))"

end
