(* ===== verification/Arithmetic_Laws.thy ===== *)
theory Arithmetic_Laws
  imports Arithmetic
begin

text \<open>
  The parser returns on every token list, accepts exactly the grammar its header comment states
  and builds the left-associative tree; the cache never changes an answer and stays bounded.
\<close>

section \<open>Consuming tokens\<close>

lemma check_kind_Cons [simp]: "check_kind k (t # ts) \<longleftrightarrow> tkKind t = k"
  by (simp add: check_kind_def peek_def)

lemma check_kind_nonempty: "check_kind k ts \<Longrightarrow> k \<noteq> tokEOF \<Longrightarrow> \<exists>t ts'. ts = t # ts' \<and> tkKind t = k"
  by (cases ts) (auto simp: check_kind_def peek_def mk_token_def)

lemma consume_Cons [simp]: "tkKind t = k \<Longrightarrow> consume k m (t # ts) = Inr ts"
  by (simp add: consume_def)

lemma consume_InrD: "consume k m ts = Inr ts' \<Longrightarrow> k \<noteq> tokEOF \<Longrightarrow> \<exists>t. ts = t # ts' \<and> tkKind t = k"
  using check_kind_nonempty [of k ts] by (auto simp: consume_def split: if_splits)

section \<open>The parser returns\<close>

text \<open>
  With fuel for the tokens left, each parser function returns, and a success has used up at least
  one token (the loops: none is possible).
\<close>

definition progress :: "parsed \<Rightarrow> nat \<Rightarrow> bool" where
  "progress r k \<longleftrightarrow> (\<exists>x. r = Some (Inl x)) \<or> (\<exists>e ts. r = Some (Inr (e, ts)) \<and> length ts \<le> k)"

lemma progress_and_then:
  assumes "progress m j" "\<And>e ts. m = Some (Inr (e, ts)) \<Longrightarrow> length ts \<le> j \<Longrightarrow> progress (f (e, ts)) k"
  shows "progress (and_then m f) k"
  using assms unfolding progress_def by auto

lemma progress_Some [simp]:
  "progress (Some (Inr (e, ts))) k \<longleftrightarrow> length ts \<le> k" "progress (Some (Inl x)) k"
  by (simp_all add: progress_def)

lemma progress_loop:
  assumes "progress m j" "\<And>e ts. length ts \<le> j \<Longrightarrow> progress (f (e, ts)) (length ts)" "j \<le> k"
  shows "progress (and_then m f) k"
  using assms unfolding progress_def by (fastforce simp: and_then_def)

lemma progress_consume:
  assumes "k \<noteq> tokEOF" "length ts \<le> j + 1" "\<And>us. length us \<le> j \<Longrightarrow> progress (f us) j"
  shows "progress (and_then (Some (consume k m ts)) f) j"
proof (cases "consume k m ts")
  case (Inr us)
  then show ?thesis
    using consume_InrD [OF Inr assms(1)] assms(2,3) by auto
qed (simp add: progress_def)

definition parsers_return :: "nat \<Rightarrow> bool" where
  "parsers_return n \<longleftrightarrow> (\<forall>ts node.
     (7 * length ts + 6 \<le> n \<longrightarrow> progress (parse_expr n ts) (length ts - 1)) \<and>
     (7 * length ts + 1 \<le> n \<longrightarrow> progress (expr_loop n node ts) (length ts)) \<and>
     (7 * length ts + 5 \<le> n \<longrightarrow> progress (parse_term n ts) (length ts - 1)) \<and>
     (7 * length ts + 1 \<le> n \<longrightarrow> progress (term_loop n node ts) (length ts)) \<and>
     (7 * length ts + 3 \<le> n \<longrightarrow> progress (parse_unary n ts) (length ts - 1)) \<and>
     (7 * length ts + 2 \<le> n \<longrightarrow> progress (parse_call n ts) (length ts - 1)) \<and>
     (7 * length ts + 1 \<le> n \<longrightarrow> progress (parse_primary n ts) (length ts - 1)))"

lemma parsers_returnD:
  assumes "parsers_return n"
  shows "7 * length ts + 6 \<le> n \<Longrightarrow> progress (parse_expr n ts) (length ts - 1)"
    "7 * length ts + 1 \<le> n \<Longrightarrow> progress (expr_loop n node ts) (length ts)"
    "7 * length ts + 5 \<le> n \<Longrightarrow> progress (parse_term n ts) (length ts - 1)"
    "7 * length ts + 1 \<le> n \<Longrightarrow> progress (term_loop n node ts) (length ts)"
    "7 * length ts + 3 \<le> n \<Longrightarrow> progress (parse_unary n ts) (length ts - 1)"
    "7 * length ts + 2 \<le> n \<Longrightarrow> progress (parse_call n ts) (length ts - 1)"
    "7 * length ts + 1 \<le> n \<Longrightarrow> progress (parse_primary n ts) (length ts - 1)"
  using assms unfolding parsers_return_def by blast+

text \<open>A token that is not the end token can be taken off.\<close>

lemma length_tl_kind: "check_kind k ts \<Longrightarrow> k \<noteq> tokEOF \<Longrightarrow> length ts = Suc (length (tl ts))"
  using check_kind_nonempty by fastforce

lemma parsers_return: "parsers_return n"
proof (induction n)
  case 0
  show ?case by (simp add: parsers_return_def)
next
  case (Suc n)
  note IH = parsers_returnD [OF Suc]
  show ?case
    unfolding parsers_return_def
  proof (intro allI conjI impI)
    fix ts node
    show "progress (parse_expr (Suc n) ts) (length ts - 1)" if "7 * length ts + 6 \<le> Suc n"
      using that IH(3) by (auto intro!: progress_loop [where j = "length ts - 1"] IH(2))
    show "progress (parse_term (Suc n) ts) (length ts - 1)" if "7 * length ts + 5 \<le> Suc n"
      using that IH(5) by (auto intro!: progress_loop [where j = "length ts - 1"] IH(4))
    show "progress (expr_loop (Suc n) node ts) (length ts)" if "7 * length ts + 1 \<le> Suc n"
    proof (cases "check_kind tokPlus ts \<or> check_kind tokMinus ts")
      case True
      then have "length ts = Suc (length (tl ts))"
        using length_tl_kind by blast
      then show ?thesis
        using that IH(3) [of "tl ts"] True
        by (auto intro!: progress_loop [where j = "length (tl ts) - 1"] IH(2) simp del: length_tl)
    qed (simp add: progress_def)
    show "progress (term_loop (Suc n) node ts) (length ts)" if "7 * length ts + 1 \<le> Suc n"
    proof (cases "check_kind tokStar ts \<or> check_kind tokSlash ts")
      case True
      then have "length ts = Suc (length (tl ts))"
        using length_tl_kind by blast
      then show ?thesis
        using that IH(5) [of "tl ts"] True
        by (auto intro!: progress_loop [where j = "length (tl ts) - 1"] IH(4) simp del: length_tl)
    qed (simp add: progress_def)
    show "progress (parse_unary (Suc n) ts) (length ts - 1)" if "7 * length ts + 3 \<le> Suc n"
    proof (cases "check_kind tokMinus ts")
      case True
      then have "length ts = Suc (length (tl ts))"
        using length_tl_kind by blast
      then show ?thesis
        using that IH(5) [of "tl ts"] True
        by (auto intro!: progress_and_then [where j = "length (tl ts) - 1"] simp del: length_tl)
    qed (use that IH(6) in simp)
    show "progress (parse_call (Suc n) ts) (length ts - 1)" if "7 * length ts + 2 \<le> Suc n"
    proof (cases "check_kind tokAbs ts")
      case True
      then have len: "length ts = Suc (length (tl ts))"
        using length_tl_kind by blast
      have "progress (and_then (parse_expr n us) (\<lambda>(arg, ts2).
          and_then (Some (consume tokRParen ExpectedAfterAbsArgument ts2)) (\<lambda>ts3. Some (Inr (Absolute arg, ts3)))))
          (length ts - 1)" if "length us \<le> length ts - 1" "7 * length us + 6 \<le> n" for us
        using that IH(1) [of us]
        by (intro progress_and_then [where j = "length us - 1"])
          (auto intro!: progress_consume)
      then show ?thesis
        using True len that by (auto intro!: progress_consume simp del: length_tl)
    qed (use that IH(7) in simp)
    show "progress (parse_primary (Suc n) ts) (length ts - 1)" if "7 * length ts + 1 \<le> Suc n"
    proof (cases "check_kind tokLParen ts")
      case True
      then have "length ts = Suc (length (tl ts))"
        using length_tl_kind by blast
      then show ?thesis
        using that IH(1) [of "tl ts"] True
        by (auto intro!: progress_and_then [where j = "length (tl ts) - 1"] progress_consume
            simp del: length_tl)
    qed (auto simp: progress_def)
  qed
qed

section \<open>The grammar\<close>

text \<open>
  The grammar of the header comment, with the trees its productions build.  Left recursion stands
  for the repetitions, so the operators associate to the left.
\<close>

inductive g_expr :: "token list \<Rightarrow> expr \<Rightarrow> bool"
  and g_term :: "token list \<Rightarrow> expr \<Rightarrow> bool"
  and g_unary :: "token list \<Rightarrow> expr \<Rightarrow> bool"
  and g_call :: "token list \<Rightarrow> expr \<Rightarrow> bool"
  and g_primary :: "token list \<Rightarrow> expr \<Rightarrow> bool"
where
  expr_term: "g_term us e \<Longrightarrow> g_expr us e"
| expr_plus: "\<lbrakk>g_expr us a; tkKind t = tokPlus; g_term vs b\<rbrakk> \<Longrightarrow> g_expr (us @ t # vs) (Plus a b)"
| expr_minus: "\<lbrakk>g_expr us a; tkKind t = tokMinus; g_term vs b\<rbrakk> \<Longrightarrow> g_expr (us @ t # vs) (Minus a b)"
| term_unary: "g_unary us e \<Longrightarrow> g_term us e"
| term_times: "\<lbrakk>g_term us a; tkKind t = tokStar; g_unary vs b\<rbrakk> \<Longrightarrow> g_term (us @ t # vs) (Times a b)"
| term_divide: "\<lbrakk>g_term us a; tkKind t = tokSlash; g_unary vs b\<rbrakk> \<Longrightarrow> g_term (us @ t # vs) (Divide a b)"
| unary_minus: "\<lbrakk>tkKind t = tokMinus; g_unary us e\<rbrakk> \<Longrightarrow> g_unary (t # us) (Negate e)"
| unary_call: "g_call us e \<Longrightarrow> g_unary us e"
| call_abs: "\<lbrakk>tkKind t = tokAbs; tkKind l = tokLParen; g_expr us e; tkKind r = tokRParen\<rbrakk>
    \<Longrightarrow> g_call (t # l # us @ [r]) (Absolute e)"
| call_primary: "g_primary us e \<Longrightarrow> g_call us e"
| primary_paren: "\<lbrakk>tkKind l = tokLParen; g_expr us e; tkKind r = tokRParen\<rbrakk> \<Longrightarrow> g_primary (l # us @ [r]) e"
| primary_number: "tkKind t = tokNumber \<Longrightarrow> g_primary [t] (Number (tkValue t))"
| primary_rate: "tkKind t = tokRate \<Longrightarrow> g_primary [t] Rate"
| primary_identifier: "tkKind t = tokIdentifier \<Longrightarrow> g_primary [t] (Identifier (tkLexeme t))"

subsection \<open>What is parsed is in the grammar\<close>

definition parsers_sound :: "nat \<Rightarrow> bool" where
  "parsers_sound n \<longleftrightarrow> (\<forall>ts e ts'.
     (parse_expr n ts = Some (Inr (e, ts')) \<longrightarrow> (\<exists>us. ts = us @ ts' \<and> g_expr us e)) \<and>
     (\<forall>us a. expr_loop n a ts = Some (Inr (e, ts')) \<longrightarrow> g_expr us a \<longrightarrow>
        (\<exists>vs. ts = vs @ ts' \<and> g_expr (us @ vs) e)) \<and>
     (parse_term n ts = Some (Inr (e, ts')) \<longrightarrow> (\<exists>us. ts = us @ ts' \<and> g_term us e)) \<and>
     (\<forall>us a. term_loop n a ts = Some (Inr (e, ts')) \<longrightarrow> g_term us a \<longrightarrow>
        (\<exists>vs. ts = vs @ ts' \<and> g_term (us @ vs) e)) \<and>
     (parse_unary n ts = Some (Inr (e, ts')) \<longrightarrow> (\<exists>us. ts = us @ ts' \<and> g_unary us e)) \<and>
     (parse_call n ts = Some (Inr (e, ts')) \<longrightarrow> (\<exists>us. ts = us @ ts' \<and> g_call us e)) \<and>
     (parse_primary n ts = Some (Inr (e, ts')) \<longrightarrow> (\<exists>us. ts = us @ ts' \<and> g_primary us e)))"

lemma parsers_soundD:
  assumes "parsers_sound n"
  shows "parse_expr n ts = Some (Inr (e, ts')) \<Longrightarrow> \<exists>us. ts = us @ ts' \<and> g_expr us e"
    "expr_loop n a ts = Some (Inr (e, ts')) \<Longrightarrow> g_expr us a \<Longrightarrow> \<exists>vs. ts = vs @ ts' \<and> g_expr (us @ vs) e"
    "parse_term n ts = Some (Inr (e, ts')) \<Longrightarrow> \<exists>us. ts = us @ ts' \<and> g_term us e"
    "term_loop n a ts = Some (Inr (e, ts')) \<Longrightarrow> g_term us a \<Longrightarrow> \<exists>vs. ts = vs @ ts' \<and> g_term (us @ vs) e"
    "parse_unary n ts = Some (Inr (e, ts')) \<Longrightarrow> \<exists>us. ts = us @ ts' \<and> g_unary us e"
    "parse_call n ts = Some (Inr (e, ts')) \<Longrightarrow> \<exists>us. ts = us @ ts' \<and> g_call us e"
    "parse_primary n ts = Some (Inr (e, ts')) \<Longrightarrow> \<exists>us. ts = us @ ts' \<and> g_primary us e"
  using assms unfolding parsers_sound_def by blast+

lemma kind_split: "check_kind k ts \<Longrightarrow> k \<noteq> tokEOF \<Longrightarrow> ts = peek ts # tl ts \<and> tkKind (peek ts) = k"
  using check_kind_nonempty [of k ts] by (auto simp: peek_def)

lemma parsers_sound: "parsers_sound n"
proof (induction n)
  case 0
  show ?case by (simp add: parsers_sound_def)
next
  case (Suc n)
  note IH = parsers_soundD [OF Suc]
  show ?case
    unfolding parsers_sound_def
  proof (intro allI conjI impI)
    fix ts e ts'
    show "\<exists>us. ts = us @ ts' \<and> g_expr us e" if *: "parse_expr (Suc n) ts = Some (Inr (e, ts'))"
    proof -
      obtain a ts1 where "parse_term n ts = Some (Inr (a, ts1))" "expr_loop n a ts1 = Some (Inr (e, ts'))"
        using * by (auto simp: and_then_eq_Inr)
      then show ?thesis
        using IH(3) IH(2) expr_term by fastforce
    qed
    show "\<exists>us. ts = us @ ts' \<and> g_term us e" if *: "parse_term (Suc n) ts = Some (Inr (e, ts'))"
    proof -
      obtain a ts1 where "parse_unary n ts = Some (Inr (a, ts1))" "term_loop n a ts1 = Some (Inr (e, ts'))"
        using * by (auto simp: and_then_eq_Inr)
      then show ?thesis
        using IH(5) IH(4) term_unary by fastforce
    qed
    show "\<exists>vs. ts = vs @ ts' \<and> g_expr (us @ vs) e"
      if *: "expr_loop (Suc n) a ts = Some (Inr (e, ts'))" "g_expr us a" for us a
    proof (cases "check_kind tokPlus ts \<or> check_kind tokMinus ts")
      case True
      then have ts: "ts = peek ts # tl ts" and k: "tkKind (peek ts) = tokPlus \<or> tkKind (peek ts) = tokMinus"
        using kind_split by blast+
      obtain b ts1 where b: "parse_term n (tl ts) = Some (Inr (b, ts1))"
          "expr_loop n (if check_kind tokPlus ts then Plus a b else Minus a b) ts1 = Some (Inr (e, ts'))"
        using * True by (auto simp: and_then_eq_Inr)
      obtain vs where vs: "tl ts = vs @ ts1" "g_term vs b"
        using IH(3) [OF b(1)] by blast
      have "g_expr (us @ peek ts # vs) (if check_kind tokPlus ts then Plus a b else Minus a b)"
        using k *(2) vs(2) by (auto simp: check_kind_def intro: expr_plus expr_minus)
      then obtain ws where "ts1 = ws @ ts'" "g_expr ((us @ peek ts # vs) @ ws) e"
        using IH(2) [OF b(2)] by blast
      then show ?thesis
        using ts vs(1) by (intro exI [of _ "peek ts # vs @ ws"]) simp
    qed (use * in auto)
    show "\<exists>vs. ts = vs @ ts' \<and> g_term (us @ vs) e"
      if *: "term_loop (Suc n) a ts = Some (Inr (e, ts'))" "g_term us a" for us a
    proof (cases "check_kind tokStar ts \<or> check_kind tokSlash ts")
      case True
      then have ts: "ts = peek ts # tl ts" and k: "tkKind (peek ts) = tokStar \<or> tkKind (peek ts) = tokSlash"
        using kind_split by blast+
      obtain b ts1 where b: "parse_unary n (tl ts) = Some (Inr (b, ts1))"
          "term_loop n (if check_kind tokStar ts then Times a b else Divide a b) ts1 = Some (Inr (e, ts'))"
        using * True by (auto simp: and_then_eq_Inr)
      obtain vs where vs: "tl ts = vs @ ts1" "g_unary vs b"
        using IH(5) [OF b(1)] by blast
      have "g_term (us @ peek ts # vs) (if check_kind tokStar ts then Times a b else Divide a b)"
        using k *(2) vs(2) by (auto simp: check_kind_def intro: term_times term_divide)
      then obtain ws where "ts1 = ws @ ts'" "g_term ((us @ peek ts # vs) @ ws) e"
        using IH(4) [OF b(2)] by blast
      then show ?thesis
        using ts vs(1) by (intro exI [of _ "peek ts # vs @ ws"]) simp
    qed (use * in auto)
    show "\<exists>us. ts = us @ ts' \<and> g_unary us e" if *: "parse_unary (Suc n) ts = Some (Inr (e, ts'))"
    proof (cases "check_kind tokMinus ts")
      case True
      then have ts: "ts = peek ts # tl ts" "tkKind (peek ts) = tokMinus"
        using kind_split by blast+
      obtain a where a: "parse_unary n (tl ts) = Some (Inr (a, ts'))" "e = Negate a"
        using * True by (auto simp: and_then_eq_Inr)
      then obtain us where "tl ts = us @ ts'" "g_unary us a"
        using IH(5) by blast
      then show ?thesis
        using ts a(2) unary_minus by (intro exI [of _ "peek ts # us"]) simp
    next
      case False
      then have "parse_call n ts = Some (Inr (e, ts'))"
        using * by simp
      then show ?thesis
        using IH(6) unary_call by blast
    qed
    show "\<exists>us. ts = us @ ts' \<and> g_call us e" if *: "parse_call (Suc n) ts = Some (Inr (e, ts'))"
    proof (cases "check_kind tokAbs ts")
      case True
      then have ts: "ts = peek ts # tl ts" "tkKind (peek ts) = tokAbs"
        using kind_split by blast+
      obtain a ts1 ts2 where a: "consume tokLParen ExpectedAfterAbs (tl ts) = Inr ts1"
          "parse_expr n ts1 = Some (Inr (a, ts2))" "consume tokRParen ExpectedAfterAbsArgument ts2 = Inr ts'" "e = Absolute a"
        using * True by (auto simp: and_then_eq_Inr)
      obtain l r us where "tl ts = l # ts1" "tkKind l = tokLParen" "ts2 = r # ts'" "tkKind r = tokRParen"
          "ts1 = us @ ts2" "g_expr us a"
        using consume_InrD [OF a(1)] consume_InrD [OF a(3)] IH(1) [OF a(2)] by auto
      then show ?thesis
        using ts a(4) call_abs by (intro exI [of _ "peek ts # l # us @ [r]"]) simp
    next
      case False
      then have "parse_primary n ts = Some (Inr (e, ts'))"
        using * by simp
      then show ?thesis
        using IH(7) call_primary by blast
    qed
    show "\<exists>us. ts = us @ ts' \<and> g_primary us e" if *: "parse_primary (Suc n) ts = Some (Inr (e, ts'))"
    proof (cases "check_kind tokLParen ts")
      case True
      then have ts: "ts = peek ts # tl ts" "tkKind (peek ts) = tokLParen"
        using kind_split by blast+
      obtain ts2 where a: "parse_expr n (tl ts) = Some (Inr (e, ts2))" "consume tokRParen ExpectedRParen ts2 = Inr ts'"
        using * True by (auto simp: and_then_eq_Inr)
      obtain r us where "ts2 = r # ts'" "tkKind r = tokRParen" "tl ts = us @ ts2" "g_expr us e"
        using consume_InrD [OF a(2)] IH(1) [OF a(1)] by auto
      then show ?thesis
        using ts primary_paren by (intro exI [of _ "peek ts # us @ [r]"]) simp
    next
      case False
      then show ?thesis
        using * kind_split [of _ ts] primary_number primary_rate primary_identifier
        by (auto split: if_splits intro!: exI [of _ "[peek ts]"])
    qed
  qed
qed

subsection \<open>What is in the grammar is parsed\<close>

text \<open>The token that follows must not continue the phrase.\<close>

definition stops :: "tokenKind list \<Rightarrow> token list \<Rightarrow> bool" where
  "stops ks ts \<longleftrightarrow> tkKind (peek ts) \<notin> set ks"

lemma loops_stop: "stops [k, k'] ts \<longleftrightarrow> \<not> check_kind k ts \<and> \<not> check_kind k' ts"
  by (auto simp: stops_def check_kind_def)

lemma first_kinds:
  "g_expr us e \<Longrightarrow> us \<noteq> []" "g_term us e \<Longrightarrow> us \<noteq> []" "g_unary us e \<Longrightarrow> us \<noteq> []"
  "g_call us e \<Longrightarrow> us \<noteq> [] \<and> tkKind (hd us) \<noteq> tokMinus"
  "g_primary us e \<Longrightarrow> us \<noteq> [] \<and> tkKind (hd us) \<noteq> tokMinus \<and> tkKind (hd us) \<noteq> tokAbs"
  by (induction rule: g_expr_g_term_g_unary_g_call_g_primary.inducts) auto

lemma check_kind_hd: "us \<noteq> [] \<Longrightarrow> check_kind k (us @ vs) \<longleftrightarrow> tkKind (hd us) = k"
  by (cases us) simp_all

lemma grammar_parsed:
  "g_expr us e \<Longrightarrow> \<forall>rest n. 7 * length (us @ rest) + 6 \<le> n \<longrightarrow> stops [tokStar, tokSlash] rest \<longrightarrow>
     (\<exists>m. 7 * length rest < m \<and> parse_expr n (us @ rest) = expr_loop m e rest)"
  "g_term us e \<Longrightarrow> \<forall>rest n. 7 * length (us @ rest) + 5 \<le> n \<longrightarrow>
     (\<exists>m. 7 * length rest < m \<and> parse_term n (us @ rest) = term_loop m e rest)"
  "g_unary us e \<Longrightarrow> \<forall>rest n. 7 * length (us @ rest) + 3 \<le> n \<longrightarrow> parse_unary n (us @ rest) = Some (Inr (e, rest))"
  "g_call us e \<Longrightarrow> \<forall>rest n. 7 * length (us @ rest) + 2 \<le> n \<longrightarrow> parse_call n (us @ rest) = Some (Inr (e, rest))"
  "g_primary us e \<Longrightarrow> \<forall>rest n. 7 * length (us @ rest) + 1 \<le> n \<longrightarrow> parse_primary n (us @ rest) = Some (Inr (e, rest))"
proof (induction rule: g_expr_g_term_g_unary_g_call_g_primary.inducts)
  case (expr_term us e)
  show ?case
  proof (intro allI impI)
    fix rest n assume n: "7 * length (us @ rest) + 6 \<le> n" and st: "stops [tokStar, tokSlash] rest"
    then obtain n' where n': "n = Suc n'" by (cases n) auto
    with n have "7 * length (us @ rest) + 5 \<le> n'" by simp
    then obtain m where m: "7 * length rest < m" "parse_term n' (us @ rest) = term_loop m e rest"
      using expr_term.IH by blast
    then obtain m' where "m = Suc m'" by (cases m) auto
    then have "parse_expr n (us @ rest) = expr_loop n' e rest"
      using m(2) n' st by (simp add: loops_stop)
    moreover have "7 * length rest < n'" using n n' by simp
    ultimately show "\<exists>m. 7 * length rest < m \<and> parse_expr n (us @ rest) = expr_loop m e rest" by blast
  qed
next
  case (term_unary us e)
  show ?case
  proof (intro allI impI)
    fix rest n assume n: "7 * length (us @ rest) + 5 \<le> n"
    then obtain n' where n': "n = Suc n'" by (cases n) auto
    with n have "7 * length (us @ rest) + 3 \<le> n'" by simp
    then have "parse_unary n' (us @ rest) = Some (Inr (e, rest))"
      using term_unary.IH by blast
    then show "\<exists>m. 7 * length rest < m \<and> parse_term n (us @ rest) = term_loop m e rest"
      using n n' by (intro exI [of _ n']) simp
  qed
next
  case (expr_plus us a t vs b)
  show ?case
  proof (intro allI impI)
    fix rest n assume n: "7 * length ((us @ t # vs) @ rest) + 6 \<le> n" and st: "stops [tokStar, tokSlash] rest"
    then obtain m where m: "7 * length (t # vs @ rest) < m" "parse_expr n (us @ t # vs @ rest) = expr_loop m a (t # vs @ rest)"
      using expr_plus.IH(1) [rule_format, of "t # vs @ rest" n] expr_plus.hyps
      by (auto simp: stops_def peek_def)
    then obtain m' where m': "m = Suc m'" by (cases m) auto
    with m have "7 * length (vs @ rest) + 5 \<le> m'" by simp
    then obtain k where k: "7 * length rest < k" "parse_term m' (vs @ rest) = term_loop k b rest"
      using expr_plus.IH(2) by blast
    then obtain k' where "k = Suc k'" by (cases k) auto
    then have "parse_expr n ((us @ t # vs) @ rest) = expr_loop m' (Plus a b) rest"
      using m(2) m' k(2) st expr_plus.hyps by (simp add: loops_stop)
    moreover have "7 * length rest < m'" using m m' by simp
    ultimately show "\<exists>m. 7 * length rest < m \<and> parse_expr n ((us @ t # vs) @ rest) = expr_loop m (Plus a b) rest"
      by blast
  qed
next
  case (expr_minus us a t vs b)
  show ?case
  proof (intro allI impI)
    fix rest n assume n: "7 * length ((us @ t # vs) @ rest) + 6 \<le> n" and st: "stops [tokStar, tokSlash] rest"
    then obtain m where m: "7 * length (t # vs @ rest) < m" "parse_expr n (us @ t # vs @ rest) = expr_loop m a (t # vs @ rest)"
      using expr_minus.IH(1) [rule_format, of "t # vs @ rest" n] expr_minus.hyps
      by (auto simp: stops_def peek_def)
    then obtain m' where m': "m = Suc m'" by (cases m) auto
    with m have "7 * length (vs @ rest) + 5 \<le> m'" by simp
    then obtain k where k: "7 * length rest < k" "parse_term m' (vs @ rest) = term_loop k b rest"
      using expr_minus.IH(2) by blast
    then obtain k' where "k = Suc k'" by (cases k) auto
    then have "parse_expr n ((us @ t # vs) @ rest) = expr_loop m' (Minus a b) rest"
      using m(2) m' k(2) st expr_minus.hyps by (simp add: loops_stop)
    moreover have "7 * length rest < m'" using m m' by simp
    ultimately show "\<exists>m. 7 * length rest < m \<and> parse_expr n ((us @ t # vs) @ rest) = expr_loop m (Minus a b) rest"
      by blast
  qed
next
  case (term_times us a t vs b)
  show ?case
  proof (intro allI impI)
    fix rest n assume n: "7 * length ((us @ t # vs) @ rest) + 5 \<le> n"
    then obtain m where m: "7 * length (t # vs @ rest) < m" "parse_term n (us @ t # vs @ rest) = term_loop m a (t # vs @ rest)"
      using term_times.IH(1) [rule_format, of "t # vs @ rest" n] by auto
    then obtain m' where m': "m = Suc m'" by (cases m) auto
    with m have "parse_unary m' (vs @ rest) = Some (Inr (b, rest))"
      using term_times.IH(2) by simp
    then have "parse_term n ((us @ t # vs) @ rest) = term_loop m' (Times a b) rest"
      using m(2) m' term_times.hyps by simp
    moreover have "7 * length rest < m'" using m m' by simp
    ultimately show "\<exists>m. 7 * length rest < m \<and> parse_term n ((us @ t # vs) @ rest) = term_loop m (Times a b) rest"
      by blast
  qed
next
  case (term_divide us a t vs b)
  show ?case
  proof (intro allI impI)
    fix rest n assume n: "7 * length ((us @ t # vs) @ rest) + 5 \<le> n"
    then obtain m where m: "7 * length (t # vs @ rest) < m" "parse_term n (us @ t # vs @ rest) = term_loop m a (t # vs @ rest)"
      using term_divide.IH(1) [rule_format, of "t # vs @ rest" n] by auto
    then obtain m' where m': "m = Suc m'" by (cases m) auto
    with m have "parse_unary m' (vs @ rest) = Some (Inr (b, rest))"
      using term_divide.IH(2) by simp
    then have "parse_term n ((us @ t # vs) @ rest) = term_loop m' (Divide a b) rest"
      using m(2) m' term_divide.hyps by simp
    moreover have "7 * length rest < m'" using m m' by simp
    ultimately show "\<exists>m. 7 * length rest < m \<and> parse_term n ((us @ t # vs) @ rest) = term_loop m (Divide a b) rest"
      by blast
  qed
next
  case (unary_minus t us e)
  show ?case
  proof (intro allI impI)
    fix rest n assume n: "7 * length ((t # us) @ rest) + 3 \<le> n"
    then obtain n' where "n = Suc n'" by (cases n) auto
    then show "parse_unary n ((t # us) @ rest) = Some (Inr (Negate e, rest))"
      using n unary_minus by simp
  qed
next
  case (unary_call us e)
  show ?case
  proof (intro allI impI)
    fix rest n assume n: "7 * length (us @ rest) + 3 \<le> n"
    then obtain n' where "n = Suc n'" by (cases n) auto
    then show "parse_unary n (us @ rest) = Some (Inr (e, rest))"
      using n unary_call first_kinds(4) [OF unary_call.hyps] by (simp add: check_kind_hd)
  qed
next
  case (call_abs t l us e r)
  show ?case
  proof (intro allI impI)
    fix rest n assume n: "7 * length ((t # l # us @ [r]) @ rest) + 2 \<le> n"
    then obtain n' where n': "n = Suc n'" by (cases n) auto
    have "stops [tokStar, tokSlash] (r # rest)" "stops [tokPlus, tokMinus] (r # rest)"
      using call_abs.hyps by (simp_all add: stops_def peek_def)
    moreover from this obtain m where m: "7 * length (r # rest) < m" "parse_expr n' (us @ r # rest) = expr_loop m e (r # rest)"
      using call_abs.IH [rule_format, of "r # rest" n'] n n' by auto
    moreover from m obtain m' where "m = Suc m'" by (cases m) auto
    ultimately show "parse_call n ((t # l # us @ [r]) @ rest) = Some (Inr (Absolute e, rest))"
      using n' call_abs.hyps by (simp add: loops_stop)
  qed
next
  case (call_primary us e)
  show ?case
  proof (intro allI impI)
    fix rest n assume n: "7 * length (us @ rest) + 2 \<le> n"
    then obtain n' where "n = Suc n'" by (cases n) auto
    then show "parse_call n (us @ rest) = Some (Inr (e, rest))"
      using n call_primary first_kinds(5) [OF call_primary.hyps] by (simp add: check_kind_hd)
  qed
next
  case (primary_paren l us e r)
  show ?case
  proof (intro allI impI)
    fix rest n assume n: "7 * length ((l # us @ [r]) @ rest) + 1 \<le> n"
    then obtain n' where n': "n = Suc n'" by (cases n) auto
    have "stops [tokStar, tokSlash] (r # rest)" "stops [tokPlus, tokMinus] (r # rest)"
      using primary_paren.hyps by (simp_all add: stops_def peek_def)
    moreover from this obtain m where m: "7 * length (r # rest) < m" "parse_expr n' (us @ r # rest) = expr_loop m e (r # rest)"
      using primary_paren.IH [rule_format, of "r # rest" n'] n n' by auto
    moreover from m obtain m' where "m = Suc m'" by (cases m) auto
    ultimately show "parse_primary n ((l # us @ [r]) @ rest) = Some (Inr (e, rest))"
      using n' primary_paren.hyps by (simp add: loops_stop)
  qed
next
  case (primary_number t)
  have "parse_primary n (t # rest) = Some (Inr (Number (tkValue t), rest))" if "1 \<le> n" for n rest
    using that primary_number by (cases n) (simp_all add: peek_def)
  then show ?case by simp
next
  case (primary_rate t)
  have "parse_primary n (t # rest) = Some (Inr (Rate, rest))" if "1 \<le> n" for n rest
    using that primary_rate by (cases n) (simp_all add: peek_def)
  then show ?case by simp
next
  case (primary_identifier t)
  have "parse_primary n (t # rest) = Some (Inr (Identifier (tkLexeme t), rest))" if "1 \<le> n" for n rest
    using that primary_identifier by (cases n) (simp_all add: peek_def)
  then show ?case by simp
qed

section \<open>Properties\<close>

lemma grammar_no_end:
  "g_expr ws a \<Longrightarrow> \<forall>t\<in>set ws. tkKind t \<noteq> tokEOF"
  "g_term ws a \<Longrightarrow> \<forall>t\<in>set ws. tkKind t \<noteq> tokEOF"
  "g_unary ws a \<Longrightarrow> \<forall>t\<in>set ws. tkKind t \<noteq> tokEOF"
  "g_call ws a \<Longrightarrow> \<forall>t\<in>set ws. tkKind t \<noteq> tokEOF"
  "g_primary ws a \<Longrightarrow> \<forall>t\<in>set ws. tkKind t \<noteq> tokEOF"
  by (induction rule: g_expr_g_term_g_unary_g_call_g_primary.inducts) auto

lemma parse_tokens_returns: "parse_tokens ts \<noteq> None"
proof -
  have "progress (parse_expr (parse_fuel ts) ts) (length ts - 1)"
    by (rule parsers_returnD(1) [OF parsers_return]) (simp add: parse_fuel_def)
  then show ?thesis
    by (auto simp: parse_tokens_def progress_def consume_def)
qed

text \<open>
  C13. The expression parser is the grammar of its header comment: on a token list that ends with
  the end token it always returns, it accepts exactly the expressions, and the tree it builds
  is the one of the grammar, with \<open>*\<close> and \<open>/\<close> binding tighter and all operators associating to
  the left.
\<close>

theorem parse_tokens_grammar:
  assumes "\<forall>t\<in>set us. tkKind t \<noteq> tokEOF" "tkKind eof = tokEOF"
  shows "(\<exists>r. parse_tokens (us @ [eof]) = Some r) \<and>
    (parse_tokens (us @ [eof]) = Some (Inr e) \<longleftrightarrow> g_expr us e)"
proof
  show "\<exists>r. parse_tokens (us @ [eof]) = Some r"
    using parse_tokens_returns by blast
  show "parse_tokens (us @ [eof]) = Some (Inr e) \<longleftrightarrow> g_expr us e"
  proof
    assume "parse_tokens (us @ [eof]) = Some (Inr e)"
    then obtain ts1 where ts1: "parse_expr (parse_fuel (us @ [eof])) (us @ [eof]) = Some (Inr (e, ts1))"
        "check_kind tokEOF ts1"
      by (auto simp: parse_tokens_def and_then_eq_Inr consume_def split: if_splits)
    then obtain vs where vs: "us @ [eof] = vs @ ts1" "g_expr vs e"
      using parsers_soundD(1) [OF parsers_sound] by blast
    have "vs = us"
    proof (cases "ts1 = []")
      case True
      then show ?thesis
        using vs True assms(2) grammar_no_end(1) by (metis append_Nil2 in_set_conv_decomp)
    next
      case False
      then obtain t ts' where t: "ts1 = t # ts'" "tkKind t = tokEOF"
        using ts1(2) by (cases ts1) auto
      then show ?thesis
        using vs(1) assms(1) by (cases ts' rule: rev_cases) auto
    qed
    then show "g_expr us e" using vs(2) by simp
  next
    assume g: "g_expr us e"
    have "stops [tokStar, tokSlash] [eof]" "7 * length (us @ [eof]) + 6 \<le> parse_fuel (us @ [eof])"
      using assms(2) by (simp_all add: stops_def peek_def parse_fuel_def)
    with grammar_parsed(1) [OF g, rule_format, of "[eof]" "parse_fuel (us @ [eof])"]
    obtain m where "7 * length [eof] < m" and m: "parse_expr (parse_fuel (us @ [eof])) (us @ [eof]) = expr_loop m e [eof]"
      by blast
    then show "parse_tokens (us @ [eof]) = Some (Inr e)"
      using assms(2) by (cases m) (simp_all add: parse_tokens_def check_kind_def peek_def consume_def and_then_def)
  qed
qed

lemma parse_tokens_grammar_witness:
  "parse_tokens ([mk_token tokIdentifier ''a'' 0, mk_token tokMinus ''-'' 1, mk_token tokIdentifier ''b'' 2,
     mk_token tokMinus ''-'' 3, mk_token tokIdentifier ''c'' 4, mk_token tokStar ''*'' 5,
     mk_token tokRate ''rate'' 6] @ [mk_token tokEOF [] 10]) =
   Some (Inr (Minus (Minus (Identifier ''a'') (Identifier ''b'')) (Times (Identifier ''c'') Rate)))"
  (is "parse_tokens (?us @ [?eof]) = Some (Inr ?e)")
proof -
  have id: "g_unary [mk_token tokIdentifier x n] (Identifier x)" "g_unary [mk_token tokRate x n] Rate" for x n
    using primary_identifier [of "mk_token tokIdentifier x n"] primary_rate [of "mk_token tokRate x n"]
    by (auto simp: mk_token_def intro: unary_call call_primary)
  have k: "tkKind (mk_token k l n) = k" for k l n
    by (simp add: mk_token_def)
  note e1 = expr_term [OF term_unary [OF id(1)]]
  note e2 = expr_minus [OF e1 k term_unary [OF id(1)], of "''a''" 0 "''-''" 1 "''b''" 2]
  have "g_expr ?us ?e"
    using expr_minus [OF e2 k term_times [OF term_unary [OF id(1)] k id(2)], of "''-''" 3 "''c''" 4 "''*''" 5 "''rate''" 6]
    by simp
  moreover have "\<forall>t\<in>set ?us. tkKind t \<noteq> tokEOF" "tkKind ?eof = tokEOF"
    by (simp_all add: mk_token_def)
  ultimately show ?thesis
    using parse_tokens_grammar by blast
qed

section \<open>The cache\<close>

definition cache_ok :: "exprCacheT \<Rightarrow> bool" where
  "cache_ok c \<longleftrightarrow> distinct (ecOrder c) \<and> set (ecOrder c) = Mapping.keys (ecValues c) \<and>
     length (ecOrder c) \<le> exprCacheLimit \<and>
     (\<forall>i p. Mapping.lookup (ecValues c) i = Some p \<longrightarrow> compile_input i = Some (Inr p))"

lemma cache_ok_empty: "cache_ok empty_cache"
  by (simp add: cache_ok_def empty_cache_def lookup_empty exprCacheLimit_def)

lemma lookup_delete_if: "Mapping.lookup (Mapping.delete k m) k' = (if k = k' then None else Mapping.lookup m k')"
  by auto

lemma cache_ok_store:
  assumes "cache_ok c" "compile_input input = Some (Inr parsed)"
  shows "cache_ok (cache_store c input parsed)"
proof (cases "Mapping.lookup (ecValues c) input = None")
  case True
  define c' where "c' = (if exprCacheLimit \<le> length (ecOrder c)
    then \<lparr>ecOrder = tl (ecOrder c), ecValues = Mapping.delete (hd (ecOrder c)) (ecValues c)\<rparr> else c)"
  have pos: "0 < exprCacheLimit" by (simp add: exprCacheLimit_def)
  have room: "distinct (ecOrder c')" "set (ecOrder c') = Mapping.keys (ecValues c')" "length (ecOrder c') < exprCacheLimit"
    using assms(1) pos by (cases "ecOrder c"; force simp: c'_def cache_ok_def)+
  have sub: "Mapping.lookup (ecValues c) i = Some p" if "Mapping.lookup (ecValues c') i = Some p" for i p
    using that by (auto simp: c'_def lookup_delete_if split: if_splits)
  have vals: "compile_input i = Some (Inr p)" if "Mapping.lookup (ecValues c') i = Some p" for i p
    using sub [OF that] assms(1) by (simp add: cache_ok_def)
  have new: "input \<notin> set (ecOrder c')"
    using True sub room(2) by (auto simp: keys_dom_lookup)
  have store: "cache_store c input parsed =
      \<lparr>ecOrder = ecOrder c' @ [input], ecValues = Mapping.update input parsed (ecValues c')\<rparr>"
    using True by (simp add: cache_store_def c'_def)
  show ?thesis
    using room new vals assms(2) by (auto simp: store cache_ok_def lookup_update' split: if_splits)
qed (use assms in \<open>simp add: cache_store_def\<close>)

text \<open>
  C14. The bounded cache of compiled expressions is invisible: from any cache state it can be in,
  \<open>ParseArithmetic\<close> returns what compiling the input afresh returns, errors included, and leaves a
  cache with at most 1024 entries in the same relation.
\<close>

theorem ParseArithmetic_cached:
  assumes "cache_ok cache"
  shows "\<exists>r cache'. ParseArithmetic cache input = Some (r, cache') \<and> compile_input input = Some r \<and>
    cache_ok cache' \<and> length (ecOrder cache') \<le> 1024"
proof (cases "Mapping.lookup (ecValues cache) input")
  case (Some p)
  then show ?thesis
    using assms by (auto simp: ParseArithmetic_def cache_ok_def exprCacheLimit_def)
next
  case None
  have "compile_input input \<noteq> None"
    by (auto simp: compile_input_def and_then_def parse_tokens_returns split: sum.splits option.splits)
  then obtain r where r: "compile_input input = Some r" by blast
  have "length (ecOrder c) \<le> 1024" if "cache_ok c" for c
    using that by (simp add: cache_ok_def exprCacheLimit_def)
  then show ?thesis
    using None r assms cache_ok_store by (cases r) (auto simp: ParseArithmetic_def)
qed

lemma ParseArithmetic_cached_witness:
  "\<exists>r cache'. ParseArithmetic empty_cache ''1200'' = Some (r, cache') \<and> compile_input ''1200'' = Some r \<and> cache_ok cache'"
  using ParseArithmetic_cached [OF cache_ok_empty, of "''1200''"] by blast

end
