(* ===== verification/Decimal.thy ===== *)
theory Decimal
  imports Arithmetic
begin

text \<open>
  \<open>strconv.FormatFloat(v, 'f', -1, 64)\<close> and \<open>fmt.Sprintf("%g", v)\<close>, with which \<open>purchases.go\<close> and
  \<open>account_display.go\<close> write an amount into an expression: the shortest decimal that rounds to
  the value, laid out without an exponent by the first and with one, from 1e+06 up and below
  1e-04, by the second.  The first is read back exactly by the expression language, the second
  only while it has no exponent.
\<close>

section \<open>The shortest decimal\<close>

definition p10 :: "int \<Rightarrow> rat" where
  "p10 k = (if 0 \<le> k then 10 ^ nat k else 1 / 10 ^ nat (- k))"

text \<open>An integer \<open>q\<close> such that \<open>q / 10 ^ d\<close> rounds to \<open>r\<close>: the nearest one, or its neighbour.\<close>

definition decimal_at :: "int \<Rightarrow> rat \<Rightarrow> int option" where
  "decimal_at d r =
     (let y = r * p10 d;
          q = round_half_even y;
          q' = (if of_int q \<le> y then q + 1 else q - 1)
      in if f64_of_rat (of_int q * p10 (- d)) = FNum r then Some q
         else if f64_of_rat (of_int q' * p10 (- d)) = FNum r then Some q'
         else None)"

fun shortest_from :: "nat \<Rightarrow> int \<Rightarrow> rat \<Rightarrow> int \<times> int" where
  "shortest_from 0 d r = (0, d)"
| "shortest_from (Suc n) d r =
     (case decimal_at d r of Some q \<Rightarrow> (q, d) | None \<Rightarrow> shortest_from n (d + 1) r)"

text \<open>
  The coarsest decimal grid comes first.  No digit is needed beyond the grid of \<open>10 ^ - 1074\<close>, on
  which every float lies.
\<close>

definition shortest_decimal :: "rat \<Rightarrow> int \<times> int" where
  "shortest_decimal r =
     (let w = length (dec (nat \<lfloor>r\<rfloor>)) in shortest_from (1075 + w) (- int w) r)"

section \<open>Layouts\<close>

fun format_f :: "int \<times> int \<Rightarrow> string" where
  "format_f (q, d) =
     (if d \<le> 0 then dec (nat (q * 10 ^ nat (- d)))
      else dec (nat (q div 10 ^ nat d)) @ CHR ''.'' # fixed (nat d) (nat (q mod 10 ^ nat d)))"

fun format_e :: "int \<times> int \<Rightarrow> string" where
  "format_e (q, d) =
     (let ds = dec (nat q);
          e = int (length ds) - d - 1
      in hd ds # (if tl ds = [] then [] else CHR ''.'' # tl ds) @
         CHR ''e'' # (if e < 0 then CHR ''-'' else CHR ''+'') # zero_pad 2 (dec (nat \<bar>e\<bar>)))"

fun format_g :: "int \<times> int \<Rightarrow> string" where
  "format_g (q, d) =
     (let e = int (length (dec (nat q))) - d - 1
      in if e < - 4 \<or> 6 \<le> e then format_e (q, d) else format_f (q, d))"

fun format_float :: "(int \<times> int \<Rightarrow> string) \<Rightarrow> f64 \<Rightarrow> string" where
  "format_float layout FNaN = ''NaN''"
| "format_float layout (FInf True) = ''-Inf''"
| "format_float layout (FInf False) = ''+Inf''"
| "format_float layout (FNum r) =
     (if r = 0 then ''0''
      else if r < 0 then CHR ''-'' # layout (shortest_decimal (- r))
      else layout (shortest_decimal r))"

definition FormatFloat_f :: "f64 \<Rightarrow> string" where
  "FormatFloat_f = format_float format_f"

definition Sprintf_g :: "f64 \<Rightarrow> string" where
  "Sprintf_g = format_float format_g"

section \<open>The shortest decimal rounds to its value\<close>

lemma p10_pos [simp]: "0 < p10 k"
  by (simp add: p10_def)

lemma p10_inverse: "p10 k * p10 (- k) = 1"
  by (simp add: p10_def)

lemma shortest_from_sound:
  assumes "decimal_at 1074 r \<noteq> None" "shortest_from n d r = (q, e)" "d \<le> 1074" "1074 < d + int n"
  shows "decimal_at e r = Some q"
  using assms
proof (induction n arbitrary: d)
  case (Suc n)
  show ?case
  proof (cases "decimal_at d r")
    case None
    with Suc.prems have "d \<noteq> 1074" by auto
    with None Suc.prems show ?thesis
      by (intro Suc.IH [of "d + 1"]) auto
  next
    case (Some x)
    with Suc.prems(2) show ?thesis by simp
  qed
qed simp

lemma decimal_at_value: "decimal_at d r = Some q \<Longrightarrow> f64_of_rat (of_int q * p10 (- d)) = FNum r"
  by (auto simp: decimal_at_def Let_def split: if_splits)

lemma p2_p10: "p2 (- int k) * p10 (int k) = of_int (5 ^ k)"
proof (cases "k = 0")
  case False
  have "(10 :: rat) ^ k = 2 ^ k * 5 ^ k"
    by (simp flip: power_mult_distrib)
  with False show ?thesis
    by (simp add: p2_def p10_def)
qed (simp add: p2_def p10_def)

text \<open>Every float lies on the grid of \<open>10 ^ - 1074\<close>.\<close>

lemma rnd_scaled_int:
  assumes "rnd r = r"
  obtains y where "r * p10 1074 = of_int y"
proof -
  obtain m where m: "r = of_int m * p2 (ulp_exp r)" "- 1074 \<le> ulp_exp r"
    by (metis assms rnd_on_grid)
  have e: "p2 (ulp_exp r) = p2 (ulp_exp r + 1074) * p2 (- 1074)"
    by (simp flip: p2_add)
  obtain f where f: "p2 (- 1074) * p10 1074 = of_int f"
    using p2_p10 [of 1074] by (simp only: of_nat_numeral)
  obtain k where k: "p2 (ulp_exp r + 1074) = of_int k"
    using m(2) by (simp add: p2_nonneg_of_int)
  have "r * p10 1074 = of_int (m * k * f)"
    by (simp only: m(1) [unfolded e k] of_int_mult mult.assoc f)
  then show ?thesis by (rule that)
qed

lemma decimal_at_1074:
  assumes "wf64 (FNum r)"
  shows "decimal_at 1074 r \<noteq> None"
proof -
  have "rnd r = r" using assms by simp
  then obtain y where y: "r * p10 1074 = of_int y" by (rule rnd_scaled_int)
  then have "of_int y * p10 (- 1074) = r"
    using p10_inverse [of 1074] by (metis mult.assoc mult.right_neutral)
  then show ?thesis
    using f64_of_rat_FNum [OF assms] by (simp add: decimal_at_def y)
qed

lemma shortest_decimal:
  assumes "wf64 (FNum r)" "shortest_decimal r = (q, d)"
  shows "f64_of_rat (of_int q * p10 (- d)) = FNum r"
proof -
  have "decimal_at d r = Some q"
    using assms(2) by (intro shortest_from_sound [OF decimal_at_1074 [OF assms(1)]]) (auto simp: shortest_decimal_def Let_def)
  then show ?thesis by (rule decimal_at_value)
qed

lemma shortest_decimal_pos:
  assumes "wf64 (FNum r)" "0 < r" "shortest_decimal r = (q, d)"
  shows "0 < q"
proof (rule ccontr)
  assume "\<not> 0 < q"
  then have "of_int q * p10 (- d) \<le> (0 :: rat)"
    by (simp add: mult_nonpos_nonneg less_imp_le)
  then have "f64_of_rat (of_int q * p10 (- d)) \<le> f64_of_rat 0"
    by (rule f64_of_rat_mono)
  then show False
    using shortest_decimal [OF assms(1,3)] assms(2) by (simp add: zero_f64_def)
qed

section \<open>Reading it back\<close>

lemma digits_value_append: "digits_value (ds @ [c]) = digits_value ds * 10 + of_int (byte_digit c)"
  by (simp add: digits_value_def)

lemma digits_value_dec: "digits_value (dec n) = of_nat n"
proof (induction n rule: dec.induct)
  case (1 n)
  have "of_nat n = of_nat (n div 10) * 10 + (of_nat (n mod 10) :: rat)"
    by (metis div_mult_mod_eq of_nat_add of_nat_mult of_nat_numeral)
  then show ?case
    using 1 by (cases "n < 10") (simp_all add: dec.simps [of n] digits_value_append byte_digit_digit_char digits_value_def)
qed

lemma digits_value_fixed: "digits_value (fixed w n) = of_nat (n mod 10 ^ w)"
proof (induction w arbitrary: n)
  case (Suc w)
  have "n mod 10 ^ Suc w = 10 * (n div 10 mod 10 ^ w) + n mod 10"
    by (simp add: mod_mult2_eq)
  then have "(of_nat (n mod 10 ^ Suc w) :: rat) = of_nat (n div 10 mod 10 ^ w) * 10 + of_nat (n mod 10)"
    by (metis mult.commute of_nat_add of_nat_mult of_nat_numeral)
  then show ?case
    by (simp add: Suc.IH digits_value_append byte_digit_digit_char)
qed (simp add: digits_value_def)

lemma all_digits_dec: "list_all is_digit (dec n)"
  by (induction n rule: dec.induct) (subst dec.simps, simp add: is_digit_digit_char)

lemma all_digits_fixed: "list_all is_digit (fixed w n)"
  by (induction w arbitrary: n) (simp_all add: is_digit_digit_char)

lemma dec_not_Nil: "dec n \<noteq> []"
  by (subst dec.simps) simp

text \<open>The shape of a number the expression language reads: digits, then perhaps a dot and digits.\<close>

definition numeral_text :: "string \<Rightarrow> bool" where
  "numeral_text s \<longleftrightarrow>
     (\<exists>ds fs. ds \<noteq> [] \<and> list_all is_digit ds \<and> list_all is_digit fs \<and> (s = ds \<or> s = ds @ CHR ''.'' # fs))"

lemma not_digit_dot: "\<not> is_digit (CHR ''.'')"
  by (simp add: is_digit_iff)

lemma digits_no_dot: "list_all is_digit ds \<Longrightarrow> c \<in> set ds \<Longrightarrow> c \<noteq> CHR ''.''"
  using not_digit_dot by (auto simp: list_all_iff)

lemma span_digits:
  assumes "list_all is_digit ds" "xs = [] \<or> \<not> is_digit (hd xs)"
  shows "takeWhile is_digit (ds @ xs) = ds" "dropWhile is_digit (ds @ xs) = xs"
  using assms by (induction ds) (auto, (cases xs; simp)+)

lemma span_dot:
  assumes "list_all is_digit ds"
  shows "takeWhile (\<lambda>c. c \<noteq> CHR ''.'') (ds @ CHR ''.'' # fs) = ds" "dropWhile (\<lambda>c. c \<noteq> CHR ''.'') (ds @ CHR ''.'' # fs) = CHR ''.'' # fs"
    "takeWhile (\<lambda>c. c \<noteq> CHR ''.'') ds = ds" "dropWhile (\<lambda>c. c \<noteq> CHR ''.'') ds = []"
  using digits_no_dot [OF assms] by (induction ds) auto

lemma format_f_numeral: "numeral_text (format_f (q, d))"
  using all_digits_dec all_digits_fixed dec_not_Nil unfolding numeral_text_def format_f.simps by metis

lemma decimal_value_format_f:
  assumes "0 \<le> q"
  shows "decimal_value (format_f (q, d)) = of_int q * p10 (- d)"
proof (cases "d \<le> 0")
  case True
  have "digits_value [] = 0" by (simp add: digits_value_def)
  then show ?thesis
    using True assms by (simp add: decimal_value_def span_dot [OF all_digits_dec] digits_value_dec p10_def)
next
  case False
  define k where "k = nat d"
  have k: "0 < k" "d = int k" using False by (simp_all add: k_def)
  obtain a b where ab: "q = a * 10 ^ k + b" "0 \<le> b" "b < 10 ^ k" "0 \<le> a" "q div 10 ^ k = a" "q mod 10 ^ k = b"
    using assms div_mult_mod_eq [of q "10 ^ k"] that [of "q div 10 ^ k" "q mod 10 ^ k"]
    by (simp add: pos_imp_zdiv_nonneg_iff)
  have "nat b < 10 ^ k"
    using ab by (simp add: nat_less_iff)
  then have "decimal_value (format_f (q, d)) = of_int a + of_int b / 10 ^ k"
    using k ab(2,4)
    by (simp add: k(2) ab(5,6) decimal_value_def span_dot [OF all_digits_dec] digits_value_dec digits_value_fixed)
  moreover have "(of_int q :: rat) * p10 (- d) = of_int a + of_int b / 10 ^ k"
    using k by (simp add: ab(1) p10_def add_divide_distrib)
  ultimately show ?thesis by simp
qed

lemma lexNumber_numeral:
  assumes "numeral_text s" "\<not> isInf (f64_of_rat (decimal_value s))"
  shows "lexNumber s pos =
     Inr (\<lparr>tkKind = tokNumber, tkLexeme = s, tkValue = f64_of_rat (decimal_value s), tkOffset = pos\<rparr>, [])"
proof -
  obtain ds fs where ds: "list_all is_digit ds" "list_all is_digit fs" "s = ds \<or> s = ds @ CHR ''.'' # fs"
    using assms(1) by (auto simp: numeral_text_def)
  have fs: "takeWhile is_digit fs = fs" "dropWhile is_digit fs = []"
    and span: "takeWhile is_digit ds = ds" "dropWhile is_digit ds = []"
      "takeWhile is_digit (ds @ CHR ''.'' # fs) = ds" "dropWhile is_digit (ds @ CHR ''.'' # fs) = CHR ''.'' # fs"
    using span_digits [OF ds(2), of "[]"] span_digits [OF ds(1), of "[]"]
      span_digits [OF ds(1), of "CHR ''.'' # fs"] not_digit_dot
    by (simp_all del: takeWhile_eq_all_conv)
  show ?thesis
    using ds(3)
  proof
    assume s: "s = ds"
    show ?thesis
      unfolding lexNumber_def Let_def s span using assms(2) by (simp add: s)
  next
    assume s: "s = ds @ CHR ''.'' # fs"
    show ?thesis
      unfolding lexNumber_def Let_def s span list.case fs if_True simp_thms prod.case using assms(2) s
      by (simp del: takeWhile_eq_all_conv add: fs)
  qed
qed

lemma lex_all_numeral:
  assumes "numeral_text s" "\<not> isInf (f64_of_rat (decimal_value s))"
  shows "\<exists>n. lex_all s 0 = Inr [\<lparr>tkKind = tokNumber, tkLexeme = s, tkValue = f64_of_rat (decimal_value s), tkOffset = 0\<rparr>,
     mk_token tokEOF [] n]"
proof -
  obtain c cs where c: "s = c # cs" "is_digit c"
    using assms(1) by (auto simp: numeral_text_def neq_Nil_conv)
  have "c \<noteq> CHR '' ''" using c(2) by (auto simp: is_digit_iff)
  then have "lex_next (skip_spaces s) (0 + (length s - length (skip_spaces s))) =
      Inr (\<lparr>tkKind = tokNumber, tkLexeme = s, tkValue = f64_of_rat (decimal_value s), tkOffset = 0\<rparr>, Some [])"
    using lexNumber_numeral [OF assms, of 0] c by (simp add: lex_next_def skip_spaces_def)
  moreover have "skip_spaces [] = []" "lex_next [] n = Inr (mk_token tokEOF [] n, None)" for n
    by (simp_all add: skip_spaces_def lex_next_def)
  ultimately show ?thesis
    by (subst lex_all.simps, subst lex_all.simps) (auto simp: Let_def)
qed

lemma EvaluateArithmetic_numeral:
  assumes "numeral_text s" "\<not> isInf (f64_of_rat (decimal_value s))"
  shows "EvaluateArithmetic s ctx = Some (Inr (f64_of_rat (decimal_value s)))" "ArithmeticRequirements s = Some (Inr [])"
proof -
  have parse: "parse_tokens [\<lparr>tkKind = tokNumber, tkLexeme = s, tkValue = v, tkOffset = 0\<rparr>, mk_token tokEOF [] n] =
      Some (Inr (Number v))" for v n
    by (simp add: parse_tokens_def parse_fuel_def numeral_eq_Suc check_kind_def peek_def mk_token_def consume_def)
  have c: "compile_input s = Some (Inr (compile (Number (f64_of_rat (decimal_value s)))))"
    using lex_all_numeral [OF assms] parse by (auto simp: compile_input_def)
  then show "EvaluateArithmetic s ctx = Some (Inr (f64_of_rat (decimal_value s)))" "ArithmeticRequirements s = Some (Inr [])"
    by (simp_all add: EvaluateArithmetic_def ArithmeticRequirements_def Evaluate_def compile_def)
qed

lemma FormatFloat_f_read:
  assumes "wf64 v" "0 < v" "\<not> isInf v"
  shows "EvaluateArithmetic (FormatFloat_f v) ctx = Some (Inr v)" "ArithmeticRequirements (FormatFloat_f v) = Some (Inr [])"
proof -
  obtain r where r: "v = FNum r" "0 < r"
    using assms by (cases v) (auto simp: zero_f64_def)
  obtain q d where qd: "shortest_decimal r = (q, d)" by fastforce
  have q: "0 < q" and val: "f64_of_rat (of_int q * p10 (- d)) = v"
    using shortest_decimal shortest_decimal_pos assms(1) r qd by blast+
  have t: "FormatFloat_f v = format_f (q, d)"
    using r qd by (simp add: FormatFloat_f_def del: format_f.simps)
  then have "f64_of_rat (decimal_value (FormatFloat_f v)) = v"
    using decimal_value_format_f q val by (simp del: format_f.simps)
  then show "EvaluateArithmetic (FormatFloat_f v) ctx = Some (Inr v)" "ArithmeticRequirements (FormatFloat_f v) = Some (Inr [])"
    using EvaluateArithmetic_numeral [of "FormatFloat_f v"] format_f_numeral t assms(3) by (metis)+
qed

end
