(* ===== verification/Amounts.thy ===== *)
theory Amounts
  imports Recurrence Arithmetic
begin

text \<open>
  Amount resolution: \<open>backend/internal/domain/amounts.go\<close>, \<open>progressive_bracket.go\<close> and the terms
  index of \<open>payment_terms.go\<close>.  An amount names a resolver and binds its inputs to literals or to
  providers; the two registries are association lists of records of functions, as the Go maps
  hold them (names and help texts of the discovery endpoint are left out).

  A result is \<open>None\<close> when the Go code panics (the unchecked \<open>args["id"].(string)\<close> of two providers),
  \<open>Some (Inl e)\<close> for an \<open>AmountResolutionError\<close> and \<open>Some (Inr v)\<close> for an amount.  \<open>math.Pow\<close> is the
  parameter \<open>pow\<close>: no property depends on its values.  The loop over the map of inputs runs in the
  order of the association list, which stands for the arbitrary order of the Go map.
\<close>

section \<open>Errors, contexts and arguments\<close>

datatype amount_error =
  EmptyIDArgument
| ArgumentNotFinite string
| NegativeVolatility
| NotTransactionOrAccount string
| AccountMissing string
| TransactionMissing string
| TermsMissing string
| LateFeePayment
| LateFeeAccount
| LateFeeFee
| BalanceFeeAccount
| BalanceFeeThreshold
| BalanceFeeFee
| ExpressionError arithmetic_error
| BracketDeduction
| BracketTableEmpty
| BracketNotObject
| BracketRateRequired
| BracketRateRange
| BracketUpTo
| BracketInputNotFinite string
| InputMismatch "string list" "string list"
| UnknownResolver string
| UnknownProvider string
| UnknownInputProvider string string
| LiteralNotFinite string
| InputNotFinite string
| NonfiniteResult

type_synonym 'a outcome = "(amount_error + 'a) option"

abbreviation ok :: "'a \<Rightarrow> 'a outcome" where
  "ok v \<equiv> Some (Inr v)"

abbreviation err :: "amount_error \<Rightarrow> 'a outcome" where
  "err e \<equiv> Some (Inl e)"

record AmountProviderContext =
  axBalances :: "f64 gomap"
  axLatestAmounts :: "f64 gomap"
  axLatestDates :: "string gomap"
  axAmountsByYear :: "f64 gomap gomap"
  axPaymentTerms :: "PaymentTerms gomap"
  axDate :: string
  axFrequencyDivisor :: int
  axRuleStartDate :: string
  axSampledAnnualRate :: "f64 option"

record AmountReferenceContext =
  afAccountIDs :: "bool gomap"
  afTransactionIDs :: "bool gomap"

text \<open>\<open>v.(string)\<close> and \<open>v.(float64)\<close> of a value read from a map that may lack the key.\<close>

fun as_string :: "json option \<Rightarrow> string option" where
  "as_string (Some (JStr s)) = Some s"
| "as_string _ = None"

fun as_number :: "json option \<Rightarrow> f64 option" where
  "as_number (Some (JNum v)) = Some v"
| "as_number _ = None"

definition isNonFinite :: "f64 \<Rightarrow> bool" where
  "isNonFinite v \<longleftrightarrow> isNaN v \<or> isInf v"

text \<open>
  \<open>strings.TrimSpace s == ""\<close> on the bytes of \<open>s\<close>: ASCII white space and the UTF-8 encodings of
  the other runes of \<open>unicode.IsSpace\<close>.
\<close>

definition space1 :: "nat \<Rightarrow> bool" where
  "space1 a \<longleftrightarrow> a = 0x20 \<or> 0x09 \<le> a \<and> a \<le> 0x0D"

definition space2 :: "nat \<Rightarrow> nat \<Rightarrow> bool" where
  "space2 a b \<longleftrightarrow> a = 0xC2 \<and> (b = 0x85 \<or> b = 0xA0)"

definition space3 :: "nat \<Rightarrow> nat \<Rightarrow> nat \<Rightarrow> bool" where
  "space3 a b c \<longleftrightarrow>
     a = 0xE1 \<and> b = 0x9A \<and> c = 0x80 \<or>
     a = 0xE2 \<and> b = 0x80 \<and> (0x80 \<le> c \<and> c \<le> 0x8A \<or> c = 0xA8 \<or> c = 0xA9 \<or> c = 0xAF) \<or>
     a = 0xE2 \<and> b = 0x81 \<and> c = 0x9F \<or>
     a = 0xE3 \<and> b = 0x80 \<and> c = 0x80"

fun blank :: "nat list \<Rightarrow> bool" where
  "blank [] = True"
| "blank [a] = space1 a"
| "blank [a, b] = (if space1 a then blank [b] else space2 a b)"
| "blank (a # b # c # bs) =
     (if space1 a then blank (b # c # bs)
      else if space2 a b then blank (c # bs)
      else space3 a b c \<and> blank bs)"

definition trims_to_empty :: "string \<Rightarrow> bool" where
  "trims_to_empty s \<longleftrightarrow> blank (map of_char s)"

definition argString :: "json_object \<Rightarrow> string \<Rightarrow> string option" where
  "argString args key =
     (case as_string (map_of args key) of None \<Rightarrow> None | Some s \<Rightarrow> if s = '''' then None else Some s)"

definition validateIDArgument :: "json_object \<Rightarrow> string outcome" where
  "validateIDArgument args =
     (case argString args ''id'' of None \<Rightarrow> err EmptyIDArgument | Some s \<Rightarrow> ok s)"

definition argFloat :: "json_object \<Rightarrow> string \<Rightarrow> bool \<Rightarrow> f64 \<Rightarrow> f64 outcome" where
  "argFloat args key required fallback =
     (case map_of args key of
        None \<Rightarrow> if required then err (ArgumentNotFinite key) else ok fallback
      | Some raw \<Rightarrow>
          (case as_number (Some raw) of
             None \<Rightarrow> err (ArgumentNotFinite key)
           | Some v \<Rightarrow> if isNonFinite v then err (ArgumentNotFinite key) else ok v))"

definition validateRateArgs :: "json_object \<Rightarrow> (f64 \<times> f64) outcome" where
  "validateRateArgs args =
     and_then (argFloat args ''annualRate'' True 0) (\<lambda>annualRate.
       and_then (argFloat args ''volatility'' False 0) (\<lambda>volatility.
         if volatility < 0 then err NegativeVolatility else ok (annualRate, volatility)))"

section \<open>Payment terms\<close>

definition paymentTermsByAccount :: "PaymentTerms list \<Rightarrow> PaymentTerms gomap" where
  "paymentTermsByAccount terms = foldl (\<lambda>m t. Mapping.update (ptAccountID t) t m) Mapping.empty terms"

definition termsMinimum :: "PaymentTerms \<Rightarrow> f64 \<Rightarrow> f64" where
  "termsMinimum terms balance =
     (let minimum = math_Max 0 (ptMinimumFixed terms) in
      case ptMinimumPercent terms of
        None \<Rightarrow> minimum
      | Some p \<Rightarrow>
          let percent = math_Min (f64_of_int 1) (math_Max 0 p)
          in math_Max minimum (percent * math_Abs balance))"

section \<open>Providers\<close>

definition model_value :: "json_object \<Rightarrow> AmountProviderContext \<Rightarrow> f64 outcome" where
  "model_value args ctx =
     (case as_string (map_of args ''id'') of
        None \<Rightarrow> None
      | Some i \<Rightarrow>
          (case Mapping.lookup (axLatestAmounts ctx) i of
             Some v \<Rightarrow> ok v
           | None \<Rightarrow> (case Mapping.lookup (axBalances ctx) i of Some v \<Rightarrow> ok v | None \<Rightarrow> ok 0)))"

definition model_value_references :: "json_object \<Rightarrow> AmountReferenceContext \<Rightarrow> unit outcome" where
  "model_value_references args refs =
     and_then (validateIDArgument args) (\<lambda>i.
       if \<not> go_index False (afTransactionIDs refs) i \<and> \<not> go_index False (afAccountIDs refs) i
       then err (NotTransactionOrAccount i) else ok ())"

definition account_balance :: "json_object \<Rightarrow> AmountProviderContext \<Rightarrow> f64 outcome" where
  "account_balance args ctx =
     (case as_string (map_of args ''id'') of None \<Rightarrow> None | Some i \<Rightarrow> ok (balance_of (axBalances ctx) i))"

definition account_references :: "json_object \<Rightarrow> AmountReferenceContext \<Rightarrow> unit outcome" where
  "account_references args refs =
     and_then (validateIDArgument args) (\<lambda>i.
       if \<not> go_index False (afAccountIDs refs) i then err (AccountMissing i) else ok ())"

definition occurrence_rate :: "json_object \<Rightarrow> AmountProviderContext \<Rightarrow> f64 outcome" where
  "occurrence_rate args ctx =
     and_then (validateRateArgs args) (\<lambda>(annualRate, volatility).
       let effective = (if 0 < volatility
                        then case axSampledAnnualRate ctx of Some r \<Rightarrow> r | None \<Rightarrow> annualRate
                        else annualRate);
           divisor = (if axFrequencyDivisor ctx \<le> 0 then 1 else axFrequencyDivisor ctx)
       in ok (fdiv effective (f64_of_int divisor)))"

definition occurrence_rate_volatile :: "json_object \<Rightarrow> (f64 \<times> f64) option" where
  "occurrence_rate_volatile args =
     (case validateRateArgs args of
        Some (Inr (annualRate, volatility)) \<Rightarrow> if volatility \<le> 0 then None else Some (annualRate, volatility)
      | _ \<Rightarrow> None)"

definition growth_factor ::
  "(f64 \<Rightarrow> f64 \<Rightarrow> f64) \<Rightarrow> json_object \<Rightarrow> AmountProviderContext \<Rightarrow> f64 outcome" where
  "growth_factor pow args ctx =
     and_then (argFloat args ''annualGrowthRate'' True 0) (\<lambda>annualGrowthRate.
       if feq annualGrowthRate 0 \<or> axRuleStartDate ctx = '''' \<or> axDate ctx = '''' then ok (f64_of_int 1)
       else case DaysBetween (axRuleStartDate ctx) (axDate ctx) of
              None \<Rightarrow> None
            | Some daysElapsed \<Rightarrow>
                if daysElapsed \<le> 0 then ok (f64_of_int 1)
                else ok (pow (f64_of_int 1 + annualGrowthRate) (fdiv (f64_of_int daysElapsed) (f64_of_int 365))))"

definition terms_minimum :: "json_object \<Rightarrow> AmountProviderContext \<Rightarrow> f64 outcome" where
  "terms_minimum args ctx =
     and_then (validateIDArgument args) (\<lambda>i.
       case Mapping.lookup (axPaymentTerms ctx) i of
         None \<Rightarrow> err (TermsMissing i)
       | Some terms \<Rightarrow> ok (termsMinimum terms (balance_of (axBalances ctx) i)))"

text \<open>The argument checks the two fee providers make before they look at the state.\<close>

definition text_argument :: "json_object \<Rightarrow> string \<Rightarrow> amount_error \<Rightarrow> string outcome" where
  "text_argument args key e =
     (case as_string (map_of args key) of
        None \<Rightarrow> err e
      | Some s \<Rightarrow> if trims_to_empty s then err e else ok s)"

definition number_argument :: "json_object \<Rightarrow> string \<Rightarrow> bool \<Rightarrow> amount_error \<Rightarrow> f64 outcome" where
  "number_argument args key nonneg e =
     (case as_number (map_of args key) of
        None \<Rightarrow> err e
      | Some v \<Rightarrow> if isNonFinite v \<or> nonneg \<and> v < 0 then err e else ok v)"

definition late_fee :: "json_object \<Rightarrow> AmountProviderContext \<Rightarrow> f64 outcome" where
  "late_fee args ctx =
     and_then (text_argument args ''payment'' LateFeePayment) (\<lambda>paymentID.
       and_then (text_argument args ''account'' LateFeeAccount) (\<lambda>accountID.
         and_then (number_argument args ''fee'' True LateFeeFee) (\<lambda>fee.
           case Mapping.lookup (axPaymentTerms ctx) accountID of
             None \<Rightarrow> err (TermsMissing accountID)
           | Some terms \<Rightarrow>
               (case Mapping.lookup (axLatestDates ctx) paymentID of
                  None \<Rightarrow> ok 0
                | Some lastDate \<Rightarrow>
                    if length lastDate < 7 \<or> length (axDate ctx) < 7 \<or> take 7 lastDate \<noteq> take 7 (axDate ctx)
                    then ok 0
                    else
                      let paid = balance_of (axLatestAmounts ctx) paymentID in
                      if 0 < math_Max 0 (termsMinimum terms (balance_of (axBalances ctx) accountID) - paid)
                      then ok fee else ok 0))))"

definition late_fee_references :: "json_object \<Rightarrow> AmountReferenceContext \<Rightarrow> unit outcome" where
  "late_fee_references args refs =
     and_then (text_argument args ''payment'' LateFeePayment) (\<lambda>paymentID.
       if \<not> go_index False (afTransactionIDs refs) paymentID then err (TransactionMissing paymentID)
       else and_then (text_argument args ''account'' LateFeeAccount) (\<lambda>accountID.
         if \<not> go_index False (afAccountIDs refs) accountID then err (AccountMissing accountID)
         else and_then (number_argument args ''fee'' True LateFeeFee) (\<lambda>_. ok ())))"

definition balance_fee :: "json_object \<Rightarrow> AmountProviderContext \<Rightarrow> f64 outcome" where
  "balance_fee args ctx =
     and_then (text_argument args ''account'' BalanceFeeAccount) (\<lambda>accountID.
       and_then (number_argument args ''threshold'' False BalanceFeeThreshold) (\<lambda>threshold.
         and_then (number_argument args ''fee'' True BalanceFeeFee) (\<lambda>fee.
           if balance_of (axBalances ctx) accountID < threshold then ok fee else ok 0)))"

definition balance_fee_references :: "json_object \<Rightarrow> AmountReferenceContext \<Rightarrow> unit outcome" where
  "balance_fee_references args refs =
     and_then (text_argument args ''account'' BalanceFeeAccount) (\<lambda>accountID.
       if \<not> go_index False (afAccountIDs refs) accountID then err (AccountMissing accountID)
       else and_then (number_argument args ''threshold'' False BalanceFeeThreshold) (\<lambda>_.
         and_then (number_argument args ''fee'' True BalanceFeeFee) (\<lambda>_. ok ())))"

fun dependency_on :: "string \<Rightarrow> json_object \<Rightarrow> string list" where
  "dependency_on key args = (case as_string (map_of args key) of Some i \<Rightarrow> [i] | None \<Rightarrow> [])"

text \<open>The registry.  A nil function of the Go record is \<open>None\<close>.\<close>

record providerDefinition =
  pvResolve :: "json_object \<Rightarrow> AmountProviderContext \<Rightarrow> f64 outcome"
  pvValidateReferences :: "json_object \<Rightarrow> AmountReferenceContext \<Rightarrow> unit outcome"
  pvTransactionDependencies :: "(json_object \<Rightarrow> string list) option"
  pvVolatileParams :: "(json_object \<Rightarrow> (f64 \<times> f64) option) option"
  pvStateless :: bool

definition amountProviders :: "(f64 \<Rightarrow> f64 \<Rightarrow> f64) \<Rightarrow> (string \<times> providerDefinition) list" where
  "amountProviders pow =
    [(''model-value'',
        \<lparr>pvResolve = model_value, pvValidateReferences = model_value_references,
         pvTransactionDependencies = Some (dependency_on ''id''), pvVolatileParams = None, pvStateless = False\<rparr>),
     (''account-balance'',
        \<lparr>pvResolve = account_balance, pvValidateReferences = account_references,
         pvTransactionDependencies = None, pvVolatileParams = None, pvStateless = False\<rparr>),
     (''occurrence-rate'',
        \<lparr>pvResolve = occurrence_rate,
         pvValidateReferences = (\<lambda>args refs. and_then (validateRateArgs args) (\<lambda>_. ok ())),
         pvTransactionDependencies = None, pvVolatileParams = Some occurrence_rate_volatile, pvStateless = True\<rparr>),
     (''growth-factor'',
        \<lparr>pvResolve = growth_factor pow,
         pvValidateReferences = (\<lambda>args refs. and_then (argFloat args ''annualGrowthRate'' True 0) (\<lambda>_. ok ())),
         pvTransactionDependencies = None, pvVolatileParams = None, pvStateless = True\<rparr>),
     (''terms-minimum'',
        \<lparr>pvResolve = terms_minimum, pvValidateReferences = account_references,
         pvTransactionDependencies = None, pvVolatileParams = None, pvStateless = False\<rparr>),
     (''late-fee'',
        \<lparr>pvResolve = late_fee, pvValidateReferences = late_fee_references,
         pvTransactionDependencies = Some (dependency_on ''payment''), pvVolatileParams = None, pvStateless = False\<rparr>),
     (''balance-fee'',
        \<lparr>pvResolve = balance_fee, pvValidateReferences = balance_fee_references,
         pvTransactionDependencies = None, pvVolatileParams = None, pvStateless = False\<rparr>)]"

definition LookupAmountProvider :: "(f64 \<Rightarrow> f64 \<Rightarrow> f64) \<Rightarrow> string \<Rightarrow> providerDefinition option" where
  "LookupAmountProvider pow name = map_of (amountProviders pow) name"

section \<open>Sampling and replay state\<close>

record VolatileRateParams =
  vrAnnualRate :: f64
  vrVolatility :: f64
  vrProvider :: string

text \<open>What one input contributes; only \<open>occurrence-rate\<close> reports sampling parameters.\<close>

definition volatile_input :: "AmountInputBinding \<Rightarrow> VolatileRateParams option" where
  "volatile_input binding =
     (if ibSource binding \<noteq> ''provider'' then None
      else case LookupAmountProvider (\<lambda>_ _. 0) (ibProvider binding) of
             None \<Rightarrow> None
           | Some def \<Rightarrow>
               (case pvVolatileParams def of
                  None \<Rightarrow> None
                | Some params \<Rightarrow>
                    map_option (\<lambda>(r, v). \<lparr>vrAnnualRate = r, vrVolatility = v, vrProvider = ibProvider binding\<rparr>)
                      (params (ibArguments binding))))"

definition VolatileRateInputOf :: "TransactionAmountResolution \<Rightarrow> VolatileRateParams option" where
  "VolatileRateInputOf amount =
     foldl (\<lambda>found name.
         case found of
           Some p \<Rightarrow> Some p
         | None \<Rightarrow> Option.bind (map_of (amInputs amount) name) volatile_input)
       None (sort (map fst (amInputs amount)))"

definition CountVolatileRateInputs :: "TransactionAmountResolution \<Rightarrow> nat" where
  "CountVolatileRateInputs amount =
     length (filter (\<lambda>(name, binding). volatile_input binding \<noteq> None) (amInputs amount))"

definition AmountRequiresReplayState :: "TransactionAmountResolution \<Rightarrow> bool" where
  "AmountRequiresReplayState amount =
     list_ex (\<lambda>(name, binding).
         if ibSource binding = ''literal'' then False
         else if ibSource binding \<noteq> ''provider'' then True
         else case LookupAmountProvider (\<lambda>_ _. 0) (ibProvider binding) of
                None \<Rightarrow> True
              | Some def \<Rightarrow> \<not> pvStateless def)
       (amInputs amount)"

section \<open>Progressive brackets\<close>

record inlineBracket =
  brUpTo :: "f64 option"
  brRate :: f64

text \<open>The reading of the \<open>upTo\<close> field once the rate is known; JSON null is a nil value.\<close>

fun bracket_limit :: "f64 \<Rightarrow> json option \<Rightarrow> inlineBracket outcome" where
  "bracket_limit rate None = ok \<lparr>brUpTo = None, brRate = rate\<rparr>"
| "bracket_limit rate (Some JNull) = ok \<lparr>brUpTo = None, brRate = rate\<rparr>"
| "bracket_limit rate (Some (JNum v)) =
     (if isNaN v \<or> v \<le> 0 then err BracketUpTo else ok \<lparr>brUpTo = Some v, brRate = rate\<rparr>)"
| "bracket_limit rate (Some _) = err BracketUpTo"

fun parseInlineBracket :: "json \<Rightarrow> inlineBracket outcome" where
  "parseInlineBracket (JObj step) =
     (case map_of step ''rate'' of
        None \<Rightarrow> err BracketRateRequired
      | Some raw \<Rightarrow>
          (case as_number (Some raw) of
             None \<Rightarrow> err BracketRateRange
           | Some rate \<Rightarrow>
               if isNaN rate \<or> rate < 0 \<or> f64_of_int 1 < rate then err BracketRateRange
               else bracket_limit rate (map_of step ''upTo'')))"
| "parseInlineBracket _ = err BracketNotObject"

fun parse_brackets :: "json list \<Rightarrow> inlineBracket list outcome" where
  "parse_brackets [] = ok []"
| "parse_brackets (raw # raws) =
     and_then (parseInlineBracket raw) (\<lambda>b. and_then (parse_brackets raws) (\<lambda>bs. ok (b # bs)))"

fun bracket_deduction :: "json option \<Rightarrow> f64 outcome" where
  "bracket_deduction None = ok 0"
| "bracket_deduction (Some JNull) = ok 0"
| "bracket_deduction (Some (JNum v)) = (if isNonFinite v \<or> v < 0 then err BracketDeduction else ok v)"
| "bracket_deduction (Some _) = err BracketDeduction"

fun bracket_rows :: "json option \<Rightarrow> json list" where
  "bracket_rows (Some (JArr rows)) = rows"
| "bracket_rows _ = []"

definition validateBracketTable :: "json_object \<Rightarrow> unit outcome" where
  "validateBracketTable config =
     and_then (bracket_deduction (map_of config ''deduction'')) (\<lambda>_.
       let rawBrackets = bracket_rows (map_of config ''brackets'') in
       if rawBrackets = [] then err BracketTableEmpty
       else and_then (parse_brackets rawBrackets) (\<lambda>_. ok ()))"

text \<open>The bracket loop, from the limit and the liability reached so far.\<close>

fun bracket_loop :: "f64 \<Rightarrow> f64 \<Rightarrow> f64 \<Rightarrow> inlineBracket list \<Rightarrow> f64" where
  "bracket_loop remaining previousLimit liability [] = liability"
| "bracket_loop remaining previousLimit liability (b # bs) =
     (let upper = (case brUpTo b of None \<Rightarrow> remaining | Some u \<Rightarrow> u);
          width = math_Max 0 (math_Min remaining upper - previousLimit);
          liability = liability + width * brRate b
      in if remaining \<le> upper then liability else bracket_loop remaining upper liability bs)"

definition inlineBracketLiability :: "f64 \<Rightarrow> f64 \<Rightarrow> inlineBracket list \<Rightarrow> f64" where
  "inlineBracketLiability taxableAmount deduction brackets =
     bracket_loop (math_Max 0 (taxableAmount - deduction)) 0 0 brackets"

definition finite_input :: "f64 gomap \<Rightarrow> string \<Rightarrow> f64 outcome" where
  "finite_input inputs name =
     (case Mapping.lookup inputs name of
        None \<Rightarrow> err (BracketInputNotFinite name)
      | Some v \<Rightarrow> if isNonFinite v then err (BracketInputNotFinite name) else ok v)"

definition progressive_bracket :: "json_object \<Rightarrow> f64 gomap \<Rightarrow> f64 outcome" where
  "progressive_bracket config inputs =
     and_then (validateBracketTable config) (\<lambda>_.
       let deduction = (case as_number (map_of config ''deduction'') of Some v \<Rightarrow> v | None \<Rightarrow> 0) in
       and_then (parse_brackets (bracket_rows (map_of config ''brackets''))) (\<lambda>brackets.
         and_then (finite_input inputs ''gross'') (\<lambda>gross.
           and_then (finite_input inputs ''pretax'') (\<lambda>pretax.
             ok (inlineBracketLiability (gross - pretax) deduction brackets)))))"

section \<open>Resolvers\<close>

record resolverDefinition =
  rvRequiredInputs :: "json_object \<Rightarrow> string list outcome"
  rvResolve :: "json_object \<Rightarrow> f64 gomap \<Rightarrow> f64 outcome"

fun arithmetic_outcome :: "(arithmetic_error + 'a) option \<Rightarrow> 'a outcome" where
  "arithmetic_outcome None = None"
| "arithmetic_outcome (Some (Inl e)) = err (ExpressionError e)"
| "arithmetic_outcome (Some (Inr v)) = ok v"

definition config_expression :: "json_object \<Rightarrow> string" where
  "config_expression config = (case as_string (map_of config ''expression'') of Some s \<Rightarrow> s | None \<Rightarrow> '''')"

definition expression_resolver :: resolverDefinition where
  "expression_resolver =
     \<lparr>rvRequiredInputs = (\<lambda>config. arithmetic_outcome (ArithmeticRequirements (config_expression config))),
      rvResolve = (\<lambda>config inputs. arithmetic_outcome (EvaluateArithmetic (config_expression config) inputs))\<rparr>"

definition bracket_resolver :: resolverDefinition where
  "bracket_resolver =
     \<lparr>rvRequiredInputs = (\<lambda>config. and_then (validateBracketTable config) (\<lambda>_. ok [''gross'', ''pretax''])),
      rvResolve = progressive_bracket\<rparr>"

definition amountResolvers :: "(string \<times> resolverDefinition) list" where
  "amountResolvers = [(''expression'', expression_resolver), (''progressive-bracket'', bracket_resolver)]"

definition LookupAmountResolver :: "string \<Rightarrow> resolverDefinition option" where
  "LookupAmountResolver name = map_of amountResolvers name"

definition validateExactKeys :: "(string \<times> AmountInputBinding) list \<Rightarrow> string list \<Rightarrow> unit outcome" where
  "validateExactKeys actual required =
     (let missing = filter (\<lambda>k. k \<notin> set (map fst actual)) required;
          extra = filter (\<lambda>k. k \<notin> set required) (sort (map fst actual))
      in if missing \<noteq> [] \<or> extra \<noteq> [] then err (InputMismatch missing extra) else ok ())"

section \<open>Descriptors\<close>

definition validate_input ::
  "AmountReferenceContext option \<Rightarrow> string \<Rightarrow> AmountInputBinding \<Rightarrow> string list outcome" where
  "validate_input references name binding =
     (if ibSource binding = ''literal''
      then (case as_number (Some (ibValue binding)) of
              None \<Rightarrow> err (LiteralNotFinite name)
            | Some v \<Rightarrow> if isNonFinite v then err (LiteralNotFinite name) else ok [])
      else case LookupAmountProvider (\<lambda>_ _. 0) (ibProvider binding) of
             None \<Rightarrow> err (UnknownInputProvider (ibProvider binding) name)
           | Some provider \<Rightarrow>
               (case references of
                  None \<Rightarrow> ok []
                | Some refs \<Rightarrow>
                    and_then (pvValidateReferences provider (ibArguments binding) refs) (\<lambda>_.
                      ok (case pvTransactionDependencies provider of
                            None \<Rightarrow> []
                          | Some deps \<Rightarrow>
                              filter (go_index False (afTransactionIDs refs)) (deps (ibArguments binding))))))"

fun validate_inputs ::
  "AmountReferenceContext option \<Rightarrow> (string \<times> AmountInputBinding) list \<Rightarrow> string list \<Rightarrow> string list outcome" where
  "validate_inputs references inputs [] = ok []"
| "validate_inputs references inputs (name # names) =
     (case map_of inputs name of
        None \<Rightarrow> validate_inputs references inputs names
      | Some binding \<Rightarrow>
          and_then (validate_input references name binding) (\<lambda>ds.
            and_then (validate_inputs references inputs names) (\<lambda>rest. ok (ds @ rest))))"

definition ValidateAmountDescriptor ::
  "TransactionAmountResolution \<Rightarrow> AmountReferenceContext option \<Rightarrow> string list outcome" where
  "ValidateAmountDescriptor amount references =
     (case LookupAmountResolver (amResolver amount) of
        None \<Rightarrow> err (UnknownResolver (amResolver amount))
      | Some resolver \<Rightarrow>
          and_then (rvRequiredInputs resolver (amConfig amount)) (\<lambda>required.
            and_then (validateExactKeys (amInputs amount) required) (\<lambda>_.
              validate_inputs references (amInputs amount) (sort (map fst (amInputs amount))))))"

definition input_value ::
  "(f64 \<Rightarrow> f64 \<Rightarrow> f64) \<Rightarrow> AmountProviderContext \<Rightarrow> string \<Rightarrow> AmountInputBinding \<Rightarrow> f64 outcome" where
  "input_value pow ctx name binding =
     and_then
       (if ibSource binding = ''literal''
        then (case as_number (Some (ibValue binding)) of
                None \<Rightarrow> err (InputNotFinite name) | Some v \<Rightarrow> ok v)
        else (case LookupAmountProvider pow (ibProvider binding) of
                None \<Rightarrow> err (UnknownProvider (ibProvider binding))
              | Some provider \<Rightarrow> pvResolve provider (ibArguments binding) ctx))
       (\<lambda>v. if isNonFinite v then err (InputNotFinite name) else ok v)"

fun concrete_inputs ::
  "(f64 \<Rightarrow> f64 \<Rightarrow> f64) \<Rightarrow> AmountProviderContext \<Rightarrow> (string \<times> AmountInputBinding) list \<Rightarrow> f64 gomap \<Rightarrow> f64 gomap outcome" where
  "concrete_inputs pow ctx [] values = ok values"
| "concrete_inputs pow ctx ((name, binding) # inputs) values =
     and_then (input_value pow ctx name binding) (\<lambda>v.
       concrete_inputs pow ctx inputs (Mapping.update name v values))"

definition ResolveTransactionAmountDescriptor ::
  "(f64 \<Rightarrow> f64 \<Rightarrow> f64) \<Rightarrow> TransactionAmountResolution \<Rightarrow> AmountProviderContext \<Rightarrow> f64 outcome" where
  "ResolveTransactionAmountDescriptor pow amount ctx =
     (case LookupAmountResolver (amResolver amount) of
        None \<Rightarrow> err (UnknownResolver (amResolver amount))
      | Some resolver \<Rightarrow>
          and_then (rvRequiredInputs resolver (amConfig amount)) (\<lambda>required.
            and_then (validateExactKeys (amInputs amount) required) (\<lambda>_.
              and_then (concrete_inputs pow ctx (amInputs amount) Mapping.empty) (\<lambda>concreteInputs.
                and_then (rvResolve resolver (amConfig amount) concreteInputs) (\<lambda>result.
                  if isNonFinite result then err NonfiniteResult else ok result)))))"

end
