(* ===== verification/Transitions.thy ===== *)
theory Transitions
  imports Accounts Amounts
begin

text \<open>
  One transaction occurrence: \<open>ComputeRequestedAmount\<close> of \<open>transactions.go\<close>, \<open>transitions.go\<close> and
  \<open>execution.go\<close> under \<open>backend/internal/domain\<close>.  \<open>PrepareTransactionExecution\<close> computes the amount
  from a snapshot of the ledgers, \<open>ApplyPreparedExecution\<close> resolves and applies it and records the
  outcome.  The runtime is passed and returned; an outer \<open>None\<close> is a Go panic (a date shorter
  than four bytes, a negative year index, an unchecked type assertion of a provider).
\<close>

section \<open>The runtime\<close>

definition CloneSimulationState :: "SimulationState \<Rightarrow> SimulationState" where
  "CloneSimulationState state =
     \<lparr>ssBalances = SnapshotBalances (ssBalances state), ssLatestAmounts = ssLatestAmounts state,
      ssLatestDates = ssLatestDates state, ssAmountsByYear = ssAmountsByYear state\<rparr>"

record TransitionRuntime =
  rtState :: SimulationState
  rtModel :: SimulationInputs
  rtAccountByID :: "Account gomap"
  rtAccountOrder :: "string list"
  rtPaymentTerms :: "PaymentTerms gomap"
  rtProjectionStart :: string
  rtMonteCarloSample :: "MonteCarloSample option"

definition CreateTransitionRuntime ::
  "SimulationInputs \<Rightarrow> SimulationState \<Rightarrow> string \<Rightarrow> MonteCarloSample option \<Rightarrow> TransitionRuntime" where
  "CreateTransitionRuntime model initialState projectionStartDate monteCarloSample =
     \<lparr>rtState = CloneSimulationState initialState, rtModel = model,
      rtAccountByID = accountIndex (siAccounts model), rtAccountOrder = map acID (siAccounts model),
      rtPaymentTerms = paymentTermsByAccount (siPaymentTerms model),
      rtProjectionStart = projectionStartDate, rtMonteCarloSample = monteCarloSample\<rparr>"

section \<open>Deltas\<close>

definition delta_of :: "f64 gomap \<Rightarrow> f64 gomap \<Rightarrow> string \<Rightarrow> AccountDeltaEntry list" where
  "delta_of before after i =
     (let delta = balance_of after i - balance_of before i
      in if feq delta 0 then [] else [\<lparr>deAccountID = i, deDelta = delta\<rparr>])"

text \<open>The accounts in the order they are emitted: model order first, the others sorted.\<close>

definition emission_order :: "f64 gomap \<Rightarrow> string list \<Rightarrow> string list" where
  "emission_order after order =
     (let inOrder = rev (remdups (rev (filter (\<lambda>i. Mapping.lookup after i \<noteq> None) order)))
      in inOrder @ filter (\<lambda>i. i \<notin> set inOrder) (Mapping.ordered_keys after))"

definition collectDeltasInOrder :: "f64 gomap \<Rightarrow> f64 gomap \<Rightarrow> string list \<Rightarrow> AccountDeltaEntry list" where
  "collectDeltasInOrder before after order = concat (map (delta_of before after) (emission_order after order))"

record AppliedTransactionTransition =
  xtResult :: AccountTransactionResult
  xtAccountDeltas :: "AccountDeltaEntry list"

record TransactionExecutionTransition = AppliedTransactionTransition +
  xtTransactionID :: string

definition applyAndCollectDeltas ::
  "TransitionRuntime \<Rightarrow> AccountTransactionResult \<Rightarrow> (f64 gomap \<Rightarrow> f64 gomap) \<Rightarrow>
   AppliedTransactionTransition \<times> TransitionRuntime" where
  "applyAndCollectDeltas t result f =
     (let beforeBalances = SnapshotBalances (ssBalances (rtState t));
          balances = f (ssBalances (rtState t))
      in (\<lparr>xtResult = result, xtAccountDeltas = collectDeltasInOrder beforeBalances balances (rtAccountOrder t)\<rparr>,
          t\<lparr>rtState := (rtState t)\<lparr>ssBalances := balances\<rparr>\<rparr>))"

section \<open>Recording outcomes\<close>

definition observeTransaction :: "string \<Rightarrow> f64 \<Rightarrow> string \<Rightarrow> SimulationState \<Rightarrow> SimulationState option" where
  "observeTransaction transactionID realizedAmount date s =
     (if length date < 4 then None
      else
        let year = take 4 date;
            byYear = go_index Mapping.empty (ssAmountsByYear s) transactionID
        in Some (s\<lparr>ssLatestAmounts := Mapping.update transactionID realizedAmount (ssLatestAmounts s),
                   ssLatestDates := Mapping.update transactionID date (ssLatestDates s),
                   ssAmountsByYear := Mapping.update transactionID
                     (Mapping.update year (balance_of byYear year + realizedAmount) byYear) (ssAmountsByYear s)\<rparr>))"

definition observeLossTransaction :: "string \<Rightarrow> f64 \<Rightarrow> SimulationState \<Rightarrow> SimulationState" where
  "observeLossTransaction transactionID realizedAmount s =
     s\<lparr>ssLatestAmounts := Mapping.update transactionID realizedAmount (ssLatestAmounts s)\<rparr>"

section \<open>The amount of an occurrence\<close>

record ExecutionSnapshot =
  esBalances :: "f64 gomap"
  esLatestRealized :: "f64 gomap"
  esLatestDates :: "string gomap"
  esRealizedByYear :: "f64 gomap gomap"
  esPaymentTerms :: "PaymentTerms gomap"
  esProjectionStart :: string

definition snapshotExecutionState :: "TransitionRuntime \<Rightarrow> ExecutionSnapshot" where
  "snapshotExecutionState t =
     \<lparr>esBalances = ssBalances (rtState t), esLatestRealized = ssLatestAmounts (rtState t),
      esLatestDates = ssLatestDates (rtState t), esRealizedByYear = ssAmountsByYear (rtState t),
      esPaymentTerms = rtPaymentTerms t, esProjectionStart = rtProjectionStart t\<rparr>"

definition amount_context ::
  "DatedTransactionOccurrence \<Rightarrow> string \<Rightarrow> ExecutionSnapshot \<Rightarrow> f64 option \<Rightarrow> AmountProviderContext" where
  "amount_context occurrence currentDate s stochasticRate =
     \<lparr>axBalances = esBalances s, axLatestAmounts = esLatestRealized s, axLatestDates = esLatestDates s,
      axAmountsByYear = esRealizedByYear s, axPaymentTerms = esPaymentTerms s, axDate = currentDate,
      axFrequencyDivisor = (case ocRule occurrence of None \<Rightarrow> 1 | Some r \<Rightarrow> FrequencyDivisor (scFrequency r)),
      axRuleStartDate = (case ocRule occurrence of None \<Rightarrow> '''' | Some r \<Rightarrow> scStartDate r),
      axSampledAnnualRate = stochasticRate\<rparr>"

definition ComputeRequestedAmount ::
  "(f64 \<Rightarrow> f64 \<Rightarrow> f64) \<Rightarrow> DatedTransactionOccurrence \<Rightarrow> string \<Rightarrow> ExecutionSnapshot \<Rightarrow> f64 option \<Rightarrow> f64 outcome" where
  "ComputeRequestedAmount pow occurrence currentDate s stochasticRate =
     ResolveTransactionAmountDescriptor pow (trAmount (ocTransaction occurrence))
       (amount_context occurrence currentDate s stochasticRate)"

definition maxFloat :: "f64 \<Rightarrow> f64 \<Rightarrow> f64" where
  "maxFloat a b = (if b < a \<or> isNaN b then a else b)"

record PreparedTransactionExecution =
  pxTransaction :: Transaction
  pxRequestedAmount :: f64
  pxAnnualCapRemaining :: f64
  pxHistoricalActual :: bool
  pxIsLoss :: bool

text \<open>What is left of the annual cap; only rules carry caps, and a confirmed actual has none.\<close>

definition cap_remaining ::
  "DatedTransactionOccurrence \<Rightarrow> string \<Rightarrow> bool \<Rightarrow> ExecutionSnapshot \<Rightarrow> f64 option" where
  "cap_remaining occurrence date historicalActual s =
     (if historicalActual then Some (FInf False)
      else if length date < 4 then None
      else
        let realizedThisYear =
              balance_of (go_index Mapping.empty (esRealizedByYear s) (trID (ocTransaction occurrence))) (take 4 date)
        in Some (case Option.bind (ocRule occurrence) scAnnualCap of
                   None \<Rightarrow> FInf False
                 | Some annualCap \<Rightarrow> maxFloat 0 (annualCap - realizedThisYear)))"

definition PrepareTransactionExecution ::
  "(f64 \<Rightarrow> f64 \<Rightarrow> f64) \<Rightarrow> DatedTransactionOccurrence \<Rightarrow> string \<Rightarrow> bool \<Rightarrow> ExecutionSnapshot \<Rightarrow> f64 option \<Rightarrow>
   PreparedTransactionExecution outcome" where
  "PrepareTransactionExecution pow occurrence date historicalActual s sampledRate =
     and_then (ComputeRequestedAmount pow occurrence date s sampledRate) (\<lambda>rawRequested.
       if rawRequested < 0 \<and> IsExternalInflow (ocTransaction occurrence)
       then ok \<lparr>pxTransaction = ocTransaction occurrence, pxRequestedAmount = rawRequested,
                pxAnnualCapRemaining = FInf False, pxHistoricalActual = historicalActual, pxIsLoss = True\<rparr>
       else case cap_remaining occurrence date historicalActual s of
              None \<Rightarrow> None
            | Some capRemaining \<Rightarrow>
                ok \<lparr>pxTransaction = ocTransaction occurrence, pxRequestedAmount = rawRequested,
                    pxAnnualCapRemaining = capRemaining, pxHistoricalActual = historicalActual, pxIsLoss = False\<rparr>)"

section \<open>Applying it\<close>

definition execution_transition ::
  "AppliedTransactionTransition \<Rightarrow> string \<Rightarrow> TransactionExecutionTransition" where
  "execution_transition x i = AppliedTransactionTransition.extend x (TransactionExecutionTransition.fields i)"

text \<open>The result a prepared execution will apply, and the change of balances it makes.\<close>

definition prepared_result ::
  "PreparedTransactionExecution \<Rightarrow> f64 gomap \<Rightarrow> Account gomap \<Rightarrow> AccountTransactionResult" where
  "prepared_result prepared balances accountByID =
     (if pxIsLoss prepared
      then ResolveNegativeInflowTransaction (pxTransaction prepared) (pxRequestedAmount prepared) balances accountByID
      else
        let requestedAmount = maxFloat 0 (pxRequestedAmount prepared);
            realizedAmount =
              (if pxHistoricalActual prepared then requestedAmount
               else resRealizedAmount
                 (ResolveTransactionTransaction (pxTransaction prepared) requestedAmount
                    (pxAnnualCapRemaining prepared) balances accountByID))
        in \<lparr>resRequestedAmount = requestedAmount, resRealizedAmount = realizedAmount\<rparr>)"

definition prepared_move ::
  "PreparedTransactionExecution \<Rightarrow> f64 \<Rightarrow> Account gomap \<Rightarrow> f64 gomap \<Rightarrow> f64 gomap" where
  "prepared_move prepared realizedAmount accountByID balances =
     (if pxIsLoss prepared
      then ApplyNegativeInflow (pxTransaction prepared) realizedAmount balances accountByID
      else ApplyTransaction (pxTransaction prepared) realizedAmount balances accountByID)"

definition ApplyPreparedExecution ::
  "TransitionRuntime \<Rightarrow> PreparedTransactionExecution \<Rightarrow> string \<Rightarrow>
   (TransactionExecutionTransition \<times> TransitionRuntime) option" where
  "ApplyPreparedExecution t prepared date =
     (let i = trID (pxTransaction prepared);
          result = prepared_result prepared (ssBalances (rtState t)) (rtAccountByID t);
          realizedAmount = resRealizedAmount result;
          (transition, t) = applyAndCollectDeltas t result (prepared_move prepared realizedAmount (rtAccountByID t))
      in if pxIsLoss prepared
         then Some (execution_transition transition i,
                    t\<lparr>rtState := observeLossTransaction i realizedAmount (rtState t)\<rparr>)
         else map_option (\<lambda>s. (execution_transition transition i, t\<lparr>rtState := s\<rparr>))
                (observeTransaction i realizedAmount date (rtState t)))"

section \<open>Executing an occurrence\<close>

datatype execution_error =
  AmountFailed amount_error
| MissingSampledRate string int
| ResimulationRefused string
| PurchaseCost string

text \<open>The sampled annual rate an occurrence uses, if its amount is volatile and there is a sample.\<close>

definition sampled_rate ::
  "TransitionRuntime \<Rightarrow> Transaction \<Rightarrow> string \<Rightarrow> (execution_error + f64 option) option" where
  "sampled_rate t transaction date =
     (case (VolatileRateInputOf (trAmount transaction), rtMonteCarloSample t) of
        (Some _, Some sample) \<Rightarrow>
          (case ProjectionYearIndex (rtProjectionStart t) date of
             None \<Rightarrow> None
           | Some yearIndex \<Rightarrow>
               (case Mapping.lookup sample (trID transaction) of
                  None \<Rightarrow> Some (Inl (MissingSampledRate (trID transaction) yearIndex))
                | Some rates \<Rightarrow>
                    if int (length rates) \<le> yearIndex
                    then Some (Inl (MissingSampledRate (trID transaction) yearIndex))
                    else if yearIndex < 0 then None
                    else Some (Inr (Some (rates ! nat yearIndex)))))
      | _ \<Rightarrow> Some (Inr None))"

fun amount_failed :: "'a outcome \<Rightarrow> (execution_error + 'a) option" where
  "amount_failed None = None"
| "amount_failed (Some (Inl e)) = Some (Inl (AmountFailed e))"
| "amount_failed (Some (Inr v)) = Some (Inr v)"

definition ExecuteTransaction ::
  "(f64 \<Rightarrow> f64 \<Rightarrow> f64) \<Rightarrow> TransitionRuntime \<Rightarrow> DatedTransactionOccurrence \<Rightarrow> string \<Rightarrow> bool \<Rightarrow>
   (execution_error + TransactionExecutionTransition \<times> TransitionRuntime) option" where
  "ExecuteTransaction pow t occurrence date historicalActual =
     and_then (sampled_rate t (ocTransaction occurrence) date) (\<lambda>sampledRate.
       and_then (amount_failed
           (PrepareTransactionExecution pow occurrence date historicalActual (snapshotExecutionState t) sampledRate))
         (\<lambda>prepared. map_option Inr (ApplyPreparedExecution t prepared date)))"

definition ExecuteGeneratedTransaction ::
  "TransitionRuntime \<Rightarrow> AccountTransactionAction \<Rightarrow> AppliedTransactionTransition \<times> TransitionRuntime" where
  "ExecuteGeneratedTransaction t action =
     (let result = ResolveAccountTransaction action (ssBalances (rtState t)) (rtAccountByID t)
      in applyAndCollectDeltas t result (\<lambda>balances.
           ApplyAccountTransaction action (resRealizedAmount result) balances (rtAccountByID t)))"

end
