(* ===== verification/Execution_Laws.thy ===== *)
theory Execution_Laws
  imports Money_Moves Transitions
begin

text \<open>
  Laws of one occurrence: resolved amounts are finite, the deltas report exactly what changed, an
  execution keeps the account limits and the annual cap.
\<close>

section \<open>Resolved amounts are finite\<close>

lemma ResolveTransactionAmountDescriptor_finite:
  "ResolveTransactionAmountDescriptor pow amount ctx = Some (Inr v) \<Longrightarrow> \<not> isNonFinite v"
  by (auto simp: ResolveTransactionAmountDescriptor_def and_then_eq_Inr split: option.splits if_splits)

lemma prepared_amount:
  assumes "PrepareTransactionExecution pow occurrence date historicalActual s sampledRate = Some (Inr p)"
  shows "pxTransaction p = ocTransaction occurrence" "pxHistoricalActual p = historicalActual"
    "pxRequestedAmount p \<noteq> FNaN" "pxIsLoss p \<longleftrightarrow> pxRequestedAmount p < 0 \<and> IsExternalInflow (ocTransaction occurrence)"
    "\<not> pxIsLoss p \<Longrightarrow> cap_remaining occurrence date historicalActual s = Some (pxAnnualCapRemaining p)"
proof -
  obtain raw where raw: "ComputeRequestedAmount pow occurrence date s sampledRate = Some (Inr raw)"
      and p: "(if raw < 0 \<and> IsExternalInflow (ocTransaction occurrence)
       then ok \<lparr>pxTransaction = ocTransaction occurrence, pxRequestedAmount = raw,
                pxAnnualCapRemaining = FInf False, pxHistoricalActual = historicalActual, pxIsLoss = True\<rparr>
       else case cap_remaining occurrence date historicalActual s of
              None \<Rightarrow> None
            | Some capRemaining \<Rightarrow>
                ok \<lparr>pxTransaction = ocTransaction occurrence, pxRequestedAmount = raw,
                    pxAnnualCapRemaining = capRemaining, pxHistoricalActual = historicalActual, pxIsLoss = False\<rparr>) = Some (Inr p)"
    using assms by (auto simp: PrepareTransactionExecution_def and_then_eq_Inr)
  have "\<not> isNonFinite raw"
    using raw ResolveTransactionAmountDescriptor_finite by (auto simp: ComputeRequestedAmount_def)
  then have "raw \<noteq> FNaN" by (auto simp: isNonFinite_def)
  then show "pxTransaction p = ocTransaction occurrence" "pxHistoricalActual p = historicalActual"
    "pxRequestedAmount p \<noteq> FNaN" "pxIsLoss p \<longleftrightarrow> pxRequestedAmount p < 0 \<and> IsExternalInflow (ocTransaction occurrence)"
    "\<not> pxIsLoss p \<Longrightarrow> cap_remaining occurrence date historicalActual s = Some (pxAnnualCapRemaining p)"
    using p by (auto split: if_splits option.splits)
qed

lemma maxFloat_0: "maxFloat 0 x \<noteq> FNaN" "0 \<le> maxFloat 0 x"
  by (cases x; simp add: maxFloat_def zero_f64_def; auto)+

lemma maxFloat_0_num: "maxFloat 0 (FNum r) = FNum (max 0 r)"
  by (auto simp: maxFloat_def zero_f64_def max_def)

lemma cap_remaining_not_NaN: "cap_remaining occurrence date h s = Some c \<Longrightarrow> c \<noteq> FNaN"
  using maxFloat_0 by (auto simp: cap_remaining_def Let_def split: if_splits option.splits)

section \<open>Deltas\<close>

lemma set_emission_order: "finite (Mapping.keys after) \<Longrightarrow> set (emission_order after order) = Mapping.keys after"
  by (auto simp: emission_order_def Let_def keys_dom_lookup ordered_keys_def)

lemma distinct_emission_order: "distinct (emission_order after order)"
  by (auto simp: emission_order_def Let_def ordered_keys_def)

lemma f64_of_rat_not_NaN [simp]: "f64_of_rat x \<noteq> FNaN"
  by (simp add: f64_of_rat_def Let_def)

section \<open>One execution as a movement of money\<close>

definition execution_route :: "PreparedTransactionExecution \<Rightarrow> string set" where
  "execution_route p =
     set_option (trSourceAccountID (pxTransaction p)) \<union> set (destinations (pxTransaction p))"

definition execution_allowed :: "PreparedTransactionExecution \<Rightarrow> f64 gomap \<Rightarrow> Account gomap \<Rightarrow> bool" where
  "execution_allowed p b acc \<longleftrightarrow>
     pxRequestedAmount p \<noteq> FNaN \<and> pxAnnualCapRemaining p \<noteq> FNaN \<and> \<not> pxHistoricalActual p"

definition execute_prepared :: "PreparedTransactionExecution \<Rightarrow> f64 gomap \<Rightarrow> Account gomap \<Rightarrow> f64 gomap" where
  "execute_prepared p b acc = prepared_move p (resRealizedAmount (prepared_result p b acc)) acc b"

lemma ApplyAccountTransaction_resolved:
  "ApplyTransaction t r b acc = ApplyAccountTransaction
     \<lparr>actSourceAccountID = trSourceAccountID t, actDestinations = trDestinations t,
      actRequestedAmount = q, actLimitRemaining = l\<rparr> r b acc"
  by (simp add: ApplyTransaction_def ApplyAccountTransaction_def)

lemma execute_prepared_frame:
  "k \<notin> execution_route p \<Longrightarrow> Mapping.lookup (execute_prepared p b acc) k = Mapping.lookup b k"
proof -
  assume k: "k \<notin> execution_route p"
  then have "k \<notin> action_route \<lparr>actSourceAccountID = trSourceAccountID (pxTransaction p),
      actDestinations = trDestinations (pxTransaction p), actRequestedAmount = q, actLimitRemaining = l\<rparr>" for q l
    by (auto simp: execution_route_def action_route_def destinations_def split: option.splits)
  with k show ?thesis
    by (auto simp: execute_prepared_def prepared_move_def ApplyTransaction_def lookup_ApplyAccountTransaction
        ApplyNegativeInflow_def lookup_drain execution_route_def)
qed

lemma loss_withdrawn_not_NaN:
  assumes "sane_ledger acc b"
  shows "r \<noteq> FNaN \<Longrightarrow> w \<noteq> FNaN \<Longrightarrow> 0 \<le> w \<Longrightarrow> loss_withdrawn b acc ds r w \<noteq> FNaN"
proof (induction ds arbitrary: r w)
  case (Cons d ds)
  show ?case
  proof (cases "r \<le> 0 \<or> GetWithdrawableAmount b acc d \<le> 0")
    case True
    then show ?thesis using Cons by (auto simp: Let_def)
  next
    case False
    then have "GetWithdrawableAmount b acc d \<noteq> 0"
      by (auto simp: zero_f64_def)
    then obtain a where a: "Mapping.lookup acc d = Some a"
      by (auto simp: GetWithdrawableAmount_def split: option.splits)
    obtain x where x: "GetWithdrawableAmount b acc d = FNum (max 0 x)"
      using withdrawable_num [OF assms a] by metis
    define t where "t = math_Min r (FNum (max 0 x))"
    have t: "t \<noteq> FNaN" "\<not> isInf t \<or> t = FInf True" "t \<noteq> FInf False"
      using Cons.prems(1) by (cases r; simp add: t_def math_Min_def)+
    have "0 < r" using False Cons.prems(1) by (cases r) (auto simp: zero_f64_def)
    then have t0: "0 \<le> t"
      by (cases r) (auto simp: t_def zero_f64_def math_Min_def)
    then obtain m where m: "t = FNum m" "0 \<le> m"
      using t by (cases t) (auto simp: zero_f64_def)
    have "r - t \<noteq> FNaN"
      using Cons.prems(1) m by (cases r) (auto simp: minus_f64_def)
    moreover have "0 \<le> w + t"
      using Cons.prems(3) t0 by (rule f64_add_nonneg)
    moreover from this have "w + t \<noteq> FNaN"
      using f64_le_NaN by blast
    moreover have "loss_withdrawn b acc (d # ds) r w = loss_withdrawn b acc ds (r - t) (w + t)"
      using False unfolding loss_withdrawn.simps Let_def t_def x by simp
    ultimately show ?thesis
      using Cons.IH by simp
  qed
qed simp

interpretation execution: money_move execute_prepared execution_allowed execution_route
proof unfold_locales
  fix k x b acc
  show "k \<notin> execution_route x \<Longrightarrow> Mapping.lookup (execute_prepared x b acc) k = Mapping.lookup b k"
    by (rule execute_prepared_frame)
next
  fix acc b p
  assume s: "sane_ledger acc b" and a: "execution_allowed p b acc"
  show "limits_kept acc b (execute_prepared p b acc)"
  proof (cases "pxIsLoss p")
    case True
    have "- pxRequestedAmount p \<noteq> FNaN"
      using a by (cases "pxRequestedAmount p") (auto simp: execution_allowed_def)
    then have "- loss_withdrawn b acc (destinations (pxTransaction p)) (- pxRequestedAmount p) 0 \<noteq> FNaN"
      using loss_withdrawn_not_NaN [OF s, of "- pxRequestedAmount p" 0 "destinations (pxTransaction p)"]
      by (cases "loss_withdrawn b acc (destinations (pxTransaction p)) (- pxRequestedAmount p) 0") (auto simp: zero_f64_def)
    then show ?thesis
      using True ApplyNegativeInflow_kept [OF s]
      by (simp add: execute_prepared_def prepared_move_def prepared_result_def ResolveNegativeInflowTransaction_def)
  next
    case False
    define action where "action = \<lparr>actSourceAccountID = trSourceAccountID (pxTransaction p),
        actDestinations = trDestinations (pxTransaction p),
        actRequestedAmount = maxFloat 0 (pxRequestedAmount p), actLimitRemaining = Some (pxAnnualCapRemaining p)\<rparr>"
    have "execute_prepared p b acc =
        ApplyAccountTransaction action (resRealizedAmount (ResolveAccountTransaction action b acc)) b acc"
      using False a
      by (simp add: execute_prepared_def prepared_move_def prepared_result_def ResolveTransactionTransaction_def
          action_def execution_allowed_def Let_def
          ApplyAccountTransaction_resolved [where q = "maxFloat 0 (pxRequestedAmount p)" and l = "Some (pxAnnualCapRemaining p)"])
    moreover have "actRequestedAmount action \<noteq> FNaN" "action_limit action \<noteq> FNaN"
      using a maxFloat_0 by (auto simp: action_def action_limit_def execution_allowed_def)
    ultimately show ?thesis
      using ApplyAccountTransaction_kept [OF s] by metis
  qed
qed

section \<open>What an execution does\<close>

text \<open>The state after a prepared execution, by the two branches of the code.\<close>

definition executed_state :: "PreparedTransactionExecution \<Rightarrow> string \<Rightarrow> Account gomap \<Rightarrow> SimulationState \<Rightarrow> SimulationState option" where
  "executed_state p date acc s =
     (let r = resRealizedAmount (prepared_result p (ssBalances s) acc);
          s' = s\<lparr>ssBalances := execute_prepared p (ssBalances s) acc\<rparr>
      in if pxIsLoss p then Some (observeLossTransaction (trID (pxTransaction p)) r s')
         else observeTransaction (trID (pxTransaction p)) r date s')"

lemma ApplyPreparedExecution_eq:
  "ApplyPreparedExecution t p date =
     map_option (\<lambda>s. (\<lparr>xtResult = prepared_result p (ssBalances (rtState t)) (rtAccountByID t),
         xtAccountDeltas = collectDeltasInOrder (ssBalances (rtState t)) (ssBalances s) (rtAccountOrder t),
         xtTransactionID = trID (pxTransaction p)\<rparr>, t\<lparr>rtState := s\<rparr>))
       (executed_state p date (rtAccountByID t) (rtState t))"
  by (auto simp: ApplyPreparedExecution_def executed_state_def applyAndCollectDeltas_def execution_transition_def
      AppliedTransactionTransition.defs TransactionExecutionTransition.defs Let_def execute_prepared_def SnapshotBalances_def
      observeLossTransaction_def observeTransaction_def)

lemma executed_state_balances:
  "executed_state p date acc s = Some s' \<Longrightarrow> ssBalances s' = execute_prepared p (ssBalances s) acc"
  by (auto simp: executed_state_def observeTransaction_def observeLossTransaction_def Let_def split: if_splits)

lemma ExecuteTransactionE:
  assumes "ExecuteTransaction pow t occurrence date h = Some (Inr (x, t'))"
  obtains p rate s' where
    "PrepareTransactionExecution pow occurrence date h (snapshotExecutionState t) rate = Some (Inr p)"
    "executed_state p date (rtAccountByID t) (rtState t) = Some s'"
    "t' = t\<lparr>rtState := s'\<rparr>"
    "x = \<lparr>xtResult = prepared_result p (ssBalances (rtState t)) (rtAccountByID t),
         xtAccountDeltas = collectDeltasInOrder (ssBalances (rtState t)) (ssBalances s') (rtAccountOrder t),
         xtTransactionID = trID (ocTransaction occurrence)\<rparr>"
proof -
  obtain rate p where p: "amount_failed
        (PrepareTransactionExecution pow occurrence date h (snapshotExecutionState t) rate) = Some (Inr p)"
      and a: "ApplyPreparedExecution t p date = Some (x, t')"
    using assms by (auto simp: ExecuteTransaction_def and_then_eq_Inr)
  have p': "PrepareTransactionExecution pow occurrence date h (snapshotExecutionState t) rate = Some (Inr p)"
    using p by (cases "PrepareTransactionExecution pow occurrence date h (snapshotExecutionState t) rate" rule: amount_failed.cases) auto
  then show ?thesis
    using that a prepared_amount(1) [OF p'] by (auto simp: ApplyPreparedExecution_eq)
qed

lemma ExecuteTransaction_kept:
  assumes "ExecuteTransaction pow t occurrence date False = Some (Inr (x, t'))"
    and "sane_ledger (rtAccountByID t) (ssBalances (rtState t))"
  shows "limits_kept (rtAccountByID t) (ssBalances (rtState t)) (ssBalances (rtState t'))"
proof -
  obtain p rate s' where
    p: "PrepareTransactionExecution pow occurrence date False (snapshotExecutionState t) rate = Some (Inr p)"
    and s': "executed_state p date (rtAccountByID t) (rtState t) = Some s'" and t': "t' = t\<lparr>rtState := s'\<rparr>"
    using assms(1) by (rule ExecuteTransactionE)
  have "pxAnnualCapRemaining p \<noteq> FNaN" if "\<not> pxIsLoss p"
    using prepared_amount(5) [OF p that] cap_remaining_not_NaN by blast
  moreover have "pxAnnualCapRemaining p \<noteq> FNaN" if "pxIsLoss p"
    using p that by (auto simp: PrepareTransactionExecution_def and_then_eq_Inr split: if_splits option.splits)
  ultimately have "execution_allowed p (ssBalances (rtState t)) (rtAccountByID t)"
    using prepared_amount(2,3) [OF p] by (auto simp: execution_allowed_def)
  then show ?thesis
    using execution.keeps [OF assms(2)] executed_state_balances [OF s'] t' by simp
qed

section \<open>The annual cap\<close>

definition ledger :: "SimulationState \<Rightarrow> string \<Rightarrow> string \<Rightarrow> f64" where
  "ledger s i year = balance_of (go_index Mapping.empty (ssAmountsByYear s) i) year"

lemma ledger_observe:
  "observeTransaction i r date s = Some s' \<Longrightarrow>
     ledger s' j year = (if j = i \<and> year = take 4 date then ledger s j year + r else ledger s j year)"
  by (auto simp: observeTransaction_def ledger_def Let_def lookup_default_update' split: if_splits)

lemma ledger_loss: "ledger (observeLossTransaction i r s) j year = ledger s j year"
  by (simp add: ledger_def observeLossTransaction_def)

lemma ledger_balances: "ledger (s\<lparr>ssBalances := b\<rparr>) j year = ledger s j year"
  by (simp add: ledger_def)

lemma executed_ledger:
  assumes "executed_state p date acc s = Some s'"
  shows "ledger s' j year =
    (if \<not> pxIsLoss p \<and> j = trID (pxTransaction p) \<and> year = take 4 date
     then ledger s j year + resRealizedAmount (prepared_result p (ssBalances s) acc) else ledger s j year)"
  using assms ledger_observe
  by (auto simp: executed_state_def Let_def ledger_loss ledger_balances split: if_splits)

text \<open>A year of a rule that has not passed its cap, up to the rounding allowance.\<close>

definition under_cap :: "rat \<Rightarrow> rat \<Rightarrow> f64 \<Rightarrow> bool" where
  "under_cap c r0 v \<longleftrightarrow> (\<exists>r. v = FNum r \<and> rnd r = r \<and> \<bar>r\<bar> < p2 44 \<and> r0 \<le> r \<and> r \<le> max r0 (c + slack))"

lemma capped_execution:
  assumes p: "PrepareTransactionExecution pow occurrence date False (snapshotExecutionState t) rate = Some (Inr p)"
    and s': "executed_state p date (rtAccountByID t) (rtState t) = Some s'"
    and sane: "sane_ledger (rtAccountByID t) (ssBalances (rtState t))"
    and rule: "ocRule occurrence = Some rule" "scAnnualCap rule = Some (FNum c)" "\<bar>c\<bar> < p2 44 - 1"
    and r0: "under_cap c r0 (ledger (rtState t) (trID (ocTransaction occurrence)) (take 4 date))"
  shows "under_cap c r0 (ledger s' (trID (ocTransaction occurrence)) (take 4 date))"
proof (cases "pxIsLoss p")
  case True
  then show ?thesis using executed_ledger [OF s'] r0 by simp
next
  case False
  let ?i = "trID (ocTransaction occurrence)" and ?y = "take 4 date"
  obtain r where r: "ledger (rtState t) ?i ?y = FNum r" "rnd r = r" "\<bar>r\<bar> < p2 44" "r0 \<le> r" "r \<le> max r0 (c + slack)"
    using r0 by (auto simp: under_cap_def)
  have "pxAnnualCapRemaining p = maxFloat 0 (FNum c - FNum r)"
    using prepared_amount(5) [OF p False] rule r(1)
    by (auto simp: cap_remaining_def snapshotExecutionState_def ledger_def Let_def split: if_splits)
  also have "FNum c - FNum r = FNum (rnd (c - r))"
    using rule(3) r(3) by (intro FNum_diff_small) auto
  finally have c': "pxAnnualCapRemaining p = FNum (max 0 (rnd (c - r)))"
    by (simp add: maxFloat_0_num)
  define action where "action = \<lparr>actSourceAccountID = trSourceAccountID (pxTransaction p),
        actDestinations = trDestinations (pxTransaction p),
        actRequestedAmount = maxFloat 0 (pxRequestedAmount p), actLimitRemaining = Some (pxAnnualCapRemaining p)\<rparr>"
  define v where "v = resRealizedAmount (ResolveAccountTransaction action (ssBalances (rtState t)) (rtAccountByID t))"
  have v: "resRealizedAmount (prepared_result p (ssBalances (rtState t)) (rtAccountByID t)) = v"
    using False prepared_amount(2) [OF p]
    by (simp add: prepared_result_def ResolveTransactionTransaction_def action_def v_def Let_def)
  have "actRequestedAmount action \<noteq> FNaN" "action_limit action = FNum (max 0 (rnd (c - r)))"
    using maxFloat_0 by (auto simp: action_def action_limit_def c')
  then have "0 \<le> v" "v \<le> math_Max 0 (FNum (max 0 (rnd (c - r))))"
    using realized_bounds(1,5) [OF sane, of action] by (auto simp: v_def)
  then obtain m where m: "v = FNum m" "0 \<le> m" "m \<le> max 0 (rnd (c - r))"
    using f64_nonneg_le_num by (metis math_Max_0_FNum max.left_idem)
  note above = rnd_above_limit [OF r(2,3) rule(3) m(2,3)]
  have "slack < 1" by (simp add: slack_value)
  then have fits: "\<bar>rnd (r + m)\<bar> < p2 44"
    using above r(3) rule(3) by (auto simp: max_def abs_less_iff split: if_splits)
  then have "ledger s' ?i ?y = FNum (rnd (r + m))"
    using executed_ledger [OF s', of ?i ?y] False v m(1) r(1) prepared_amount(1) [OF p] f64_of_rat_fits by simp
  then show ?thesis
    using fits above r by (auto simp: under_cap_def max_def split: if_splits)
qed

end
