(* ===== verification/Simulate.thy ===== *)
theory Simulate
  imports Transitions Decimal
begin

text \<open>
  The projection kernel: \<open>simulate.go\<close> and the planned purchases it schedules
  (\<open>appendScheduledPurchases\<close> of \<open>purchases.go\<close>).  Dates run in order; the occurrences of a date run
  in the order of \<open>sortOccurrences\<close>; occurrences at or before the history cut are skipped.
\<close>

record scheduledPurchase =
  spPurchase :: PlannedPurchase
  spDate :: string

section \<open>Planned purchases as transactions\<close>

definition plannedToTransaction :: "PlannedPurchase \<Rightarrow> Transaction option" where
  "plannedToTransaction p =
     map_option (\<lambda>instant.
       \<lparr>trID = ppID p, trName = ppName p, trSourceAccountID = ppFundingAccountID p, trDestinations = None,
        trAmount = \<lparr>amResolver = ''expression'', amConfig = [(''expression'', JStr (FormatFloat_f (ppCost p)))], amInputs = []\<rparr>,
        trPostedTime = instant, trTransactionTime = instant, trClaim = None, trEnabled = ppEnabled p,
        trPending = False, trSource = '''', trExecutionOrder = 0, trVoid = False\<rparr>)
       (midnightUnix (ppEarliestDate p))"

fun appendScheduledPurchases ::
  "nat \<Rightarrow> scheduledPurchase list \<Rightarrow> DatedTransactionOccurrence list gomap \<Rightarrow>
   DatedTransactionOccurrence list gomap option" where
  "appendScheduledPurchases index [] byDate = Some byDate"
| "appendScheduledPurchases index (p # ps) byDate =
     (case plannedToTransaction (spPurchase p) of
        None \<Rightarrow> None
      | Some t \<Rightarrow>
          appendScheduledPurchases (index + 1) ps
            (append_at byDate (spDate p)
               \<lparr>ocTransaction = t, ocIndex = int index, ocRule = None, ocPurchase = Some (spPurchase p), ocDocPath = None\<rparr>))"

section \<open>The kernel\<close>

definition add_candidate_date ::
  "DatedTransactionOccurrence list gomap \<Rightarrow> string \<Rightarrow> DatedTransactionOccurrence list gomap" where
  "add_candidate_date byDate date =
     (if Mapping.lookup byDate date = None then Mapping.update date [] byDate else byDate)"

definition transaction_event :: "string \<Rightarrow> nat \<Rightarrow> TransactionExecutionTransition \<Rightarrow> TransactionEvent" where
  "transaction_event date n x =
     \<lparr>teDate = date, teSequence = int n, teTransactionID = xtTransactionID x,
      teRequestedAmount = resRequestedAmount (xtResult x), teRealizedAmount = resRealizedAmount (xtResult x),
      teAccountDeltas = xtAccountDeltas x, teBindingConstraints = [], teAvailableAmount = None,
      teFulfillment = None\<rparr>"

text \<open>The state of the loop: the runtime and what the run has recorded so far.\<close>

record run_state =
  rsRuntime :: TransitionRuntime
  rsAttempts :: "TransactionEvent list"
  rsSnapshots :: "SimulationSnapshot list"

text \<open>\<open>cut > 0 && occurrence.Purchase == nil && EffectiveOccurrenceInstant(...) <= cut\<close>\<close>

definition replayed_already :: "int \<Rightarrow> DatedTransactionOccurrence \<Rightarrow> string \<Rightarrow> bool option" where
  "replayed_already limit occurrence date =
     (if 0 < limit \<and> ocPurchase occurrence = None
      then map_option (\<lambda>instant. instant \<le> limit) (EffectiveOccurrenceInstant occurrence date)
      else Some False)"

definition run_occurrence ::
  "(f64 \<Rightarrow> f64 \<Rightarrow> f64) \<Rightarrow> int \<Rightarrow> string \<Rightarrow> DatedTransactionOccurrence \<Rightarrow> run_state \<Rightarrow> (execution_error + run_state) option" where
  "run_occurrence pow limit date occurrence s =
     (case replayed_already limit occurrence date of
        None \<Rightarrow> None
      | Some True \<Rightarrow> Some (Inr s)
      | Some False \<Rightarrow>
          and_then (ExecuteTransaction pow (rsRuntime s) occurrence date False) (\<lambda>(transition, t).
            Some (Inr (s\<lparr>rsRuntime := t,
              rsAttempts := rsAttempts s @ [transaction_event date (length (rsAttempts s)) transition]\<rparr>))))"

fun run_occurrences ::
  "(f64 \<Rightarrow> f64 \<Rightarrow> f64) \<Rightarrow> int \<Rightarrow> string \<Rightarrow> DatedTransactionOccurrence list \<Rightarrow> run_state \<Rightarrow> (execution_error + run_state) option" where
  "run_occurrences pow limit date [] s = Some (Inr s)"
| "run_occurrences pow limit date (occurrence # occurrences) s =
     and_then (run_occurrence pow limit date occurrence s) (run_occurrences pow limit date occurrences)"

definition take_snapshot :: "string \<Rightarrow> run_state \<Rightarrow> run_state" where
  "take_snapshot date s =
     s\<lparr>rsSnapshots := rsSnapshots s @
         [\<lparr>snDate = date, snBalances = SnapshotBalances (ssBalances (rtState (rsRuntime s)))\<rparr>]\<rparr>"

fun run_dates ::
  "(f64 \<Rightarrow> f64 \<Rightarrow> f64) \<Rightarrow> int \<Rightarrow> DatedTransactionOccurrence list gomap \<Rightarrow> string list \<Rightarrow> run_state \<Rightarrow>
   (execution_error + run_state) option" where
  "run_dates pow limit eventDates [] s = Some (Inr s)"
| "run_dates pow limit eventDates (date # dates) s =
     and_then (run_occurrences pow limit date (sortOccurrences (go_index [] eventDates date)) s)
       (\<lambda>s. run_dates pow limit eventDates dates (take_snapshot date s))"

definition start_run :: "SimulationRequest \<Rightarrow> run_state" where
  "start_run request =
     \<lparr>rsRuntime = CreateTransitionRuntime (rqModel request) (rqInitialState request) (rqStartDate request)
        (rqMonteCarloSample request),
      rsAttempts = [], rsSnapshots = []\<rparr>"

text \<open>The occurrences of the run by date, with the candidate dates and the accepted purchases.\<close>

definition event_dates ::
  "SimulationRequest \<Rightarrow> scheduledPurchase list \<Rightarrow> string list \<Rightarrow>
   DatedTransactionOccurrence list gomap option" where
  "event_dates request purchases candidateDates =
     (case ResolveOccurrences (siSchedules (rqModel request)) (siTransactions (rqModel request))
             (rqStartDate request) (rqEndDate request) (rqIncludeStartDateEvents request) of
        None \<Rightarrow> None
      | Some resolved \<Rightarrow>
          appendScheduledPurchases 0 purchases (foldl add_candidate_date (roByDate resolved) candidateDates))"

definition finish_run :: "SimulationRequest \<Rightarrow> run_state \<Rightarrow> SimulationRun" where
  "finish_run request s =
     \<lparr>rnModel = rqModel request, rnStartDate = rqStartDate request, rnEndDate = rqEndDate request,
      rnIncludeStartDateEvents = rqIncludeStartDateEvents request,
      rnInitialState = CloneSimulationState (rqInitialState request),
      rnFinalState = CloneSimulationState (rtState (rsRuntime s)),
      rnSnapshots = rsSnapshots s, rnTransactionAttempts = rsAttempts s,
      rnMonteCarloSample = rqMonteCarloSample request\<rparr>"

text \<open>
  What the run takes from its process: \<open>math.Pow\<close>, and whether \<open>requireResimulationAllowed\<close> lets it
  start (the guard polls process-wide counters of running readers; the model takes its verdict).
\<close>

record environment =
  envPow :: "f64 \<Rightarrow> f64 \<Rightarrow> f64"
  envResimulationAllowed :: bool

definition requireResimulationAllowed :: "environment \<Rightarrow> string \<Rightarrow> (execution_error + unit) option" where
  "requireResimulationAllowed env caller =
     (if envResimulationAllowed env then Some (Inr ()) else Some (Inl (ResimulationRefused caller)))"

definition simulateScheduled ::
  "environment \<Rightarrow> SimulationRequest \<Rightarrow> scheduledPurchase list \<Rightarrow> string list \<Rightarrow>
   (execution_error + SimulationRun) option" where
  "simulateScheduled env request purchases candidateDates =
     and_then (requireResimulationAllowed env ''simulateScheduled'') (\<lambda>_.
       case event_dates request purchases candidateDates of
         None \<Rightarrow> None
       | Some eventDates \<Rightarrow>
           and_then (run_dates (envPow env) (rqHistoryCutInstant request) eventDates (Mapping.ordered_keys eventDates)
               (start_run request))
             (\<lambda>s. Some (Inr (finish_run request s))))"

definition Simulate :: "environment \<Rightarrow> SimulationRequest \<Rightarrow> (execution_error + SimulationRun) option" where
  "Simulate env request = simulateScheduled env request [] []"

end
