(* ===== verification/Simulation_Laws.thy ===== *)
theory Simulation_Laws
  imports Execution_Laws Simulate Occurrence_Laws
begin

text \<open>
  Laws of the projection kernel.  \<open>run_invariant\<close> is the interface of an invariant of the run loop:
  what every occurrence and every snapshot keeps holds at the end.  Its two interpretations are the
  account limits and the annual cap.  The log of a run is determined exactly: the occurrences after
  the history cut, date by date, in the order of \<open>sortOccurrences\<close>.
\<close>

section \<open>Invariants of the run loop\<close>

locale run_invariant =
  fixes pow :: "f64 \<Rightarrow> f64 \<Rightarrow> f64" and limit :: int
    and eventDates :: "DatedTransactionOccurrence list gomap" and I :: "run_state \<Rightarrow> bool"
  assumes step: "occurrence \<in> set (go_index [] eventDates date) \<Longrightarrow> I s \<Longrightarrow>
      ExecuteTransaction pow (rsRuntime s) occurrence date False = Some (Inr (x, t)) \<Longrightarrow>
      I (s\<lparr>rsRuntime := t, rsAttempts := rsAttempts s @ [transaction_event date (length (rsAttempts s)) x]\<rparr>)"
    and snap: "I s \<Longrightarrow> I (take_snapshot date s)"
begin

lemma occurrence_keeps:
  "occurrence \<in> set (go_index [] eventDates date) \<Longrightarrow> I s \<Longrightarrow>
     run_occurrence pow limit date occurrence s = Some (Inr s') \<Longrightarrow> I s'"
  using step by (auto simp: run_occurrence_def and_then_eq_Inr split: option.splits bool.splits)

lemma occurrences_keep:
  "set occurrences \<subseteq> set (go_index [] eventDates date) \<Longrightarrow> I s \<Longrightarrow>
     run_occurrences pow limit date occurrences s = Some (Inr s') \<Longrightarrow> I s'"
  by (induction occurrences arbitrary: s) (auto simp: and_then_eq_Inr intro: occurrence_keeps)

lemma dates_keep:
  "I s \<Longrightarrow> run_dates pow limit eventDates dates s = Some (Inr s') \<Longrightarrow> I s'"
proof (induction dates arbitrary: s)
  case (Cons date dates)
  then show ?case
    using snap occurrences_keep [of "sortOccurrences (go_index [] eventDates date)" date s]
    by (auto simp: and_then_eq_Inr sortOccurrences_def)
qed simp

end

lemma simulateScheduledE:
  assumes "simulateScheduled env request purchases candidateDates = Some (Inr run)"
  obtains eventDates s where "event_dates request purchases candidateDates = Some eventDates"
    "run_dates (envPow env) (rqHistoryCutInstant request) eventDates (Mapping.ordered_keys eventDates) (start_run request) = Some (Inr s)"
    "run = finish_run request s"
  using assms by (auto simp: simulateScheduled_def and_then_eq_Inr split: option.splits)

section \<open>The account limits\<close>

definition balances_now :: "run_state \<Rightarrow> f64 gomap" where
  "balances_now s = ssBalances (rtState (rsRuntime s))"

definition run_within_limits :: "Account gomap \<Rightarrow> f64 gomap \<Rightarrow> run_state \<Rightarrow> bool" where
  "run_within_limits acc b0 s \<longleftrightarrow>
     rtAccountByID (rsRuntime s) = acc \<and> limits_kept acc b0 (balances_now s) \<and>
     (\<forall>sn\<in>set (rsSnapshots s). limits_kept acc b0 (snBalances sn)) \<and> sane_ledger acc b0"

interpretation limits: run_invariant pow limit eventDates "run_within_limits acc b0"
  for pow limit eventDates acc b0
proof unfold_locales
  fix occurrence date s x t
  assume I: "run_within_limits acc b0 s"
    and e: "ExecuteTransaction pow (rsRuntime s) occurrence date False = Some (Inr (x, t))"
  have sane: "sane_ledger (rtAccountByID (rsRuntime s)) (ssBalances (rtState (rsRuntime s)))"
    using I limits_kept_sane by (auto simp: run_within_limits_def balances_now_def)
  have "rtAccountByID t = rtAccountByID (rsRuntime s)"
    using e by (auto elim!: ExecuteTransactionE)
  then show "run_within_limits acc b0
      (s\<lparr>rsRuntime := t, rsAttempts := rsAttempts s @ [transaction_event date (length (rsAttempts s)) x]\<rparr>)"
    using ExecuteTransaction_kept [OF e sane] I limits_kept_trans by (auto simp: run_within_limits_def balances_now_def)
qed (auto simp: run_within_limits_def take_snapshot_def balances_now_def SnapshotBalances_def)

lemma simulation_limits:
  assumes run: "simulateScheduled env request purchases candidateDates = Some (Inr run)"
    and sane: "sane_ledger (accountIndex (siAccounts (rqModel request))) (ssBalances (rqInitialState request))"
  shows "(\<forall>sn\<in>set (rnSnapshots run).
      limits_kept (accountIndex (siAccounts (rqModel request))) (ssBalances (rqInitialState request)) (snBalances sn)) \<and>
    limits_kept (accountIndex (siAccounts (rqModel request))) (ssBalances (rqInitialState request))
      (ssBalances (rnFinalState run))"
proof -
  let ?acc = "accountIndex (siAccounts (rqModel request))" and ?b0 = "ssBalances (rqInitialState request)"
  obtain eventDates s where s: "run_dates (envPow env) (rqHistoryCutInstant request) eventDates
      (Mapping.ordered_keys eventDates) (start_run request) = Some (Inr s)" "run = finish_run request s"
    using run by (rule simulateScheduledE)
  have "run_within_limits ?acc ?b0 (start_run request)"
    using sane limits_kept_refl [OF sane]
    by (simp add: run_within_limits_def start_run_def balances_now_def CreateTransitionRuntime_def CloneSimulationState_def
        SnapshotBalances_def)
  from limits.dates_keep [OF this s(1)] show ?thesis
    by (simp add: run_within_limits_def s(2) finish_run_def balances_now_def CloneSimulationState_def SnapshotBalances_def)
qed

section \<open>The log of a run\<close>

text \<open>The occurrences a run executes: those that history has not replayed, in order.\<close>

definition run_plan ::
  "int \<Rightarrow> DatedTransactionOccurrence list gomap \<Rightarrow> string list \<Rightarrow> (string \<times> DatedTransactionOccurrence) list" where
  "run_plan limit eventDates dates =
     concat (map (\<lambda>date. map (Pair date)
       (filter (\<lambda>occurrence. replayed_already limit occurrence date = Some False)
         (sortOccurrences (go_index [] eventDates date)))) dates)"

definition log_entry :: "TransactionEvent \<Rightarrow> string \<times> string" where
  "log_entry e = (teDate e, teTransactionID e)"

definition plan_entry :: "string \<times> DatedTransactionOccurrence \<Rightarrow> string \<times> string" where
  "plan_entry x = (fst x, trID (ocTransaction (snd x)))"

definition sequence_from :: "nat \<Rightarrow> nat \<Rightarrow> int list" where
  "sequence_from n k = map int [n..<n + k]"

lemma sequence_from_Suc: "sequence_from n (Suc k) = int n # sequence_from (Suc n) k"
  by (simp add: sequence_from_def upt_conv_Cons del: upt_Suc)

lemma sequence_from_add: "sequence_from n (j + k) = sequence_from n j @ sequence_from (n + j) k"
  using upt_add_eq_append [of n "n + j" k] by (simp add: sequence_from_def add.assoc)

lemma sequence_from_0 [simp]: "sequence_from n 0 = []"
  by (simp add: sequence_from_def)

lemma run_occurrences_log:
  "run_occurrences pow limit date occurrences s = Some (Inr s') \<Longrightarrow>
     rsSnapshots s' = rsSnapshots s \<and>
     (\<exists>es. rsAttempts s' = rsAttempts s @ es \<and>
       map log_entry es = map (\<lambda>o'. (date, trID (ocTransaction o')))
         (filter (\<lambda>o'. replayed_already limit o' date = Some False) occurrences) \<and>
       map teSequence es = sequence_from (length (rsAttempts s)) (length es))"
proof (induction occurrences arbitrary: s)
  case (Cons occurrence occurrences)
  from Cons.prems obtain s1 where s1: "run_occurrence pow limit date occurrence s = Some (Inr s1)"
      "run_occurrences pow limit date occurrences s1 = Some (Inr s')"
    by (auto simp: and_then_eq_Inr)
  note IH = Cons.IH [OF s1(2)]
  show ?case
  proof (cases "replayed_already limit occurrence date = Some False")
    case False
    then have "s1 = s"
      using s1(1) by (auto simp: run_occurrence_def split: option.splits bool.splits)
    then show ?thesis using IH False by simp
  next
    case True
    then obtain x t where x: "ExecuteTransaction pow (rsRuntime s) occurrence date False = Some (Inr (x, t))"
        "s1 = s\<lparr>rsRuntime := t, rsAttempts := rsAttempts s @ [transaction_event date (length (rsAttempts s)) x]\<rparr>"
      using s1(1) by (auto simp: run_occurrence_def and_then_eq_Inr)
    obtain es where es: "rsAttempts s' = rsAttempts s1 @ es"
        "map log_entry es = map (\<lambda>o'. (date, trID (ocTransaction o')))
           (filter (\<lambda>o'. replayed_already limit o' date = Some False) occurrences)"
        "map teSequence es = sequence_from (length (rsAttempts s1)) (length es)"
      using IH by blast
    have "xtTransactionID x = trID (ocTransaction occurrence)"
      using x(1) by (auto elim!: ExecuteTransactionE)
    then have "log_entry (transaction_event date n x) = (date, trID (ocTransaction occurrence))" for n
      by (simp add: log_entry_def transaction_event_def)
    moreover have "teSequence (transaction_event date n x) = int n" for n
      by (simp add: transaction_event_def)
    moreover have "rsSnapshots s' = rsSnapshots s" "length (rsAttempts s1) = Suc (length (rsAttempts s))"
        "rsAttempts s1 = rsAttempts s @ [transaction_event date (length (rsAttempts s)) x]"
      using IH x(2) by simp_all
    ultimately show ?thesis
      using True es
      by (intro conjI exI [of _ "transaction_event date (length (rsAttempts s)) x # es"]) (simp_all add: sequence_from_Suc)
  qed
qed auto

lemma run_dates_log:
  "run_dates pow limit eventDates dates s = Some (Inr s') \<Longrightarrow>
     map snDate (rsSnapshots s') = map snDate (rsSnapshots s) @ dates \<and>
     (\<exists>es. rsAttempts s' = rsAttempts s @ es \<and>
       map log_entry es = map plan_entry (run_plan limit eventDates dates) \<and>
       map teSequence es = sequence_from (length (rsAttempts s)) (length es))"
proof (induction dates arbitrary: s)
  case (Cons date dates)
  let ?os = "sortOccurrences (go_index [] eventDates date)"
  from Cons.prems obtain s1 where s1: "run_occurrences pow limit date ?os s = Some (Inr s1)"
      "run_dates pow limit eventDates dates (take_snapshot date s1) = Some (Inr s')"
    by (auto simp: and_then_eq_Inr)
  obtain es1 where es1: "rsSnapshots s1 = rsSnapshots s" "rsAttempts s1 = rsAttempts s @ es1"
      "map log_entry es1 = map (\<lambda>o'. (date, trID (ocTransaction o'))) (filter (\<lambda>o'. replayed_already limit o' date = Some False) ?os)"
      "map teSequence es1 = sequence_from (length (rsAttempts s)) (length es1)"
    using run_occurrences_log [OF s1(1)] by blast
  obtain es2 where es2: "map snDate (rsSnapshots s') = map snDate (rsSnapshots (take_snapshot date s1)) @ dates"
      "rsAttempts s' = rsAttempts s1 @ es2" "map log_entry es2 = map plan_entry (run_plan limit eventDates dates)"
      "map teSequence es2 = sequence_from (length (rsAttempts s1)) (length es2)"
    using Cons.IH [OF s1(2)] by (auto simp: take_snapshot_def)
  have "sequence_from (length (rsAttempts s)) (length (es1 @ es2)) =
      sequence_from (length (rsAttempts s)) (length es1) @ sequence_from (length (rsAttempts s1)) (length es2)"
    by (simp add: es1(2) sequence_from_add)
  then show ?case
    using es1 es2
    by (intro conjI exI [of _ "es1 @ es2"]) (auto simp: take_snapshot_def run_plan_def plan_entry_def)
qed (simp add: run_plan_def)

section \<open>Where occurrences come from\<close>

definition origin_ok :: "Schedule list \<Rightarrow> Transaction list \<Rightarrow> DatedTransactionOccurrence \<Rightarrow> bool" where
  "origin_ok rules transactions occurrence \<longleftrightarrow> ocPurchase occurrence = None \<and>
     (case ocRule occurrence of
        Some r \<Rightarrow> r \<in> set rules \<and> trID (ocTransaction occurrence) = scID r
      | None \<Rightarrow> ocTransaction occurrence \<in> set transactions)"

definition all_origins :: "(DatedTransactionOccurrence \<Rightarrow> bool) \<Rightarrow> DatedTransactionOccurrence list gomap \<Rightarrow> bool" where
  "all_origins P m \<longleftrightarrow> finite (Mapping.keys m) \<and> (\<forall>date. \<forall>o'\<in>set (go_index [] m date). P o')"

lemma all_origins_append: "all_origins P m \<Longrightarrow> P v \<Longrightarrow> all_origins P (append_at m k v)"
  by (auto simp: all_origins_def append_at_def lookup_default_update')

lemma all_origins_mono: "all_origins P m \<Longrightarrow> (\<And>x. P x \<Longrightarrow> Q x) \<Longrightarrow> all_origins Q m"
  by (auto simp: all_origins_def)

lemma instance_specs_rules:
  "instance_specs w i rules = Some specs \<Longrightarrow> (j, r, d) \<in> set specs \<Longrightarrow> r \<in> set rules"
proof (induction rules arbitrary: i specs)
  case (Cons r0 rules)
  then obtain ds rest where "instance_specs w (i + 1) rules = Some rest" "specs = map (\<lambda>d. (i, r0, d)) ds @ rest"
    by (auto split: option.splits)
  with Cons show ?case by auto
qed simp

lemma add_instances_origins:
  "add_instances specs n res = Some (n', res') \<Longrightarrow> \<forall>(j, r, d)\<in>set specs. r \<in> set rules \<Longrightarrow>
     all_origins (origin_ok rules ts) (roByDate res) \<Longrightarrow> all_origins (origin_ok rules ts) (roByDate res')"
proof (induction specs n res rule: add_instances.induct)
  case (2 i r d specs n res)
  from 2(2) obtain stamp where stamp: "dayCloseUnix d = Some stamp"
    by (auto split: option.splits)
  have "origin_ok rules ts \<lparr>ocTransaction = rule_instance r stamp, ocIndex = n, ocRule = Some r, ocPurchase = None,
      ocDocPath = Some (''schedules'', i)\<rparr>"
    using 2(3) by (simp add: origin_ok_def rule_instance_def)
  then show ?case
    using 2 stamp by (simp add: Let_def all_origins_append)
qed simp

lemma add_transactions_origins:
  "set xs \<subseteq> set ts \<Longrightarrow> all_origins (origin_ok rules ts) (roByDate res) \<Longrightarrow>
     all_origins (origin_ok rules ts) (roByDate (add_transactions w i xs n res))"
proof (induction xs arbitrary: i n res)
  case (Cons x xs)
  have "origin_ok rules ts \<lparr>ocTransaction = x, ocIndex = n, ocRule = None, ocPurchase = None, ocDocPath = Some (''transactions'', i)\<rparr>"
    using Cons.prems(1) by (simp add: origin_ok_def)
  then show ?case
    using Cons.prems by (simp add: Let_def Cons.IH all_origins_append)
qed simp

lemma ResolveOccurrences_origins:
  assumes "ResolveOccurrences rules ts a b incl = Some res"
  shows "all_origins (origin_ok rules ts) (roByDate res)"
proof -
  obtain specs n res1 where
    s: "instance_specs (rule_window_dates (claimsByRule ts) (in_window a b incl) b) 0 rules = Some specs"
    and r: "add_instances specs 0 \<lparr>roInstances = [], roByDate = Mapping.empty\<rparr> = Some (n, res1)"
    and res: "res = add_transactions (in_window a b incl) 0 ts n res1"
    using assms by (auto simp: ResolveOccurrences_def Let_def split: option.splits)
  have "all_origins (origin_ok rules ts) (roByDate res1)"
    using r instance_specs_rules [OF s]
    by (intro add_instances_origins [OF r]) (auto simp: all_origins_def lookup_default_empty)
  then show ?thesis
    unfolding res by (rule add_transactions_origins [OF subset_refl])
qed

definition event_origin :: "SimulationInputs \<Rightarrow> scheduledPurchase list \<Rightarrow> DatedTransactionOccurrence \<Rightarrow> bool" where
  "event_origin model purchases occurrence \<longleftrightarrow>
     origin_ok (siSchedules model) (siTransactions model) occurrence \<or>
     ocRule occurrence = None \<and> (\<exists>p\<in>set purchases. ocPurchase occurrence = Some (spPurchase p) \<and>
       trID (ocTransaction occurrence) = ppID (spPurchase p))"

lemma candidate_date_origins: "all_origins P m \<Longrightarrow> all_origins P (add_candidate_date m date)"
  by (auto simp: add_candidate_date_def all_origins_def lookup_default_update' split: if_splits)

lemma candidate_dates_origins: "all_origins P m \<Longrightarrow> all_origins P (foldl add_candidate_date m dates)"
  by (induction dates arbitrary: m) (simp_all add: candidate_date_origins)

lemma purchases_origins:
  "appendScheduledPurchases i ps m = Some m' \<Longrightarrow> set ps \<subseteq> set purchases \<Longrightarrow>
     all_origins (event_origin model purchases) m \<Longrightarrow> all_origins (event_origin model purchases) m'"
proof (induction i ps m rule: appendScheduledPurchases.induct)
  case (2 i p ps m)
  from 2(2) obtain t where t: "plannedToTransaction (spPurchase p) = Some t"
      "appendScheduledPurchases (i + 1) ps (append_at m (spDate p)
         \<lparr>ocTransaction = t, ocIndex = int i, ocRule = None, ocPurchase = Some (spPurchase p), ocDocPath = None\<rparr>) = Some m'"
    by (auto split: option.splits)
  have "event_origin model purchases
      \<lparr>ocTransaction = t, ocIndex = int i, ocRule = None, ocPurchase = Some (spPurchase p), ocDocPath = None\<rparr>"
    using t(1) 2(3) by (auto simp: event_origin_def plannedToTransaction_def)
  with 2 t show ?case by (simp add: all_origins_append)
qed simp

lemma event_dates_origins:
  assumes "event_dates request purchases candidateDates = Some m"
  shows "all_origins (event_origin (rqModel request) purchases) m"
proof -
  obtain res where r: "ResolveOccurrences (siSchedules (rqModel request)) (siTransactions (rqModel request))
             (rqStartDate request) (rqEndDate request) (rqIncludeStartDateEvents request) = Some res"
    and m: "appendScheduledPurchases 0 purchases (foldl add_candidate_date (roByDate res) candidateDates) = Some m"
    using assms by (auto simp: event_dates_def split: option.splits)
  have "all_origins (event_origin (rqModel request) purchases) (roByDate res)"
    using ResolveOccurrences_origins [OF r] by (rule all_origins_mono) (simp add: event_origin_def)
  then show ?thesis
    using purchases_origins [OF m subset_refl] candidate_dates_origins by blast
qed

section \<open>The annual cap\<close>

definition capped :: "rat \<Rightarrow> rat \<Rightarrow> string \<Rightarrow> string \<Rightarrow> run_state \<Rightarrow> bool" where
  "capped c r0 i year s \<longleftrightarrow> under_cap c r0 (ledger (rtState (rsRuntime s)) i year)"

text \<open>Every occurrence under the identity \<open>i\<close> belongs to a rule with the cap \<open>c\<close>.\<close>

definition cap_of :: "string \<Rightarrow> rat \<Rightarrow> DatedTransactionOccurrence list gomap \<Rightarrow> bool" where
  "cap_of i c m \<longleftrightarrow> \<bar>c\<bar> < p2 44 - 1 \<and>
     (\<forall>date. \<forall>o'\<in>set (go_index [] m date). trID (ocTransaction o') = i \<longrightarrow>
        (\<exists>r. ocRule o' = Some r \<and> scAnnualCap r = Some (FNum c)))"

interpretation caps: run_invariant pow limit eventDates
  "\<lambda>s. cap_of i c eventDates \<longrightarrow> run_within_limits acc b0 s \<and> capped c r0 i year s"
  for pow limit eventDates acc b0 c r0 i year
proof (unfold_locales, intro impI)
  fix occurrence date x t and s :: run_state
  let ?s' = "s\<lparr>rsRuntime := t, rsAttempts := rsAttempts s @ [transaction_event date (length (rsAttempts s)) x]\<rparr>"
  assume o: "occurrence \<in> set (go_index [] eventDates date)" and cap: "cap_of i c eventDates"
    and I: "cap_of i c eventDates \<longrightarrow> run_within_limits acc b0 s \<and> capped c r0 i year s"
    and e: "ExecuteTransaction pow (rsRuntime s) occurrence date False = Some (Inr (x, t))"
  then have I: "run_within_limits acc b0 s" "capped c r0 i year s" by blast+
  obtain p rate s' where
    p: "PrepareTransactionExecution pow occurrence date False (snapshotExecutionState (rsRuntime s)) rate = Some (Inr p)"
    and s': "executed_state p date (rtAccountByID (rsRuntime s)) (rtState (rsRuntime s)) = Some s'"
    and t: "t = (rsRuntime s)\<lparr>rtState := s'\<rparr>"
    using e by (rule ExecuteTransactionE)
  have sane: "sane_ledger (rtAccountByID (rsRuntime s)) (ssBalances (rtState (rsRuntime s)))"
    using I(1) limits_kept_sane by (auto simp: run_within_limits_def balances_now_def)
  have "under_cap c r0 (ledger s' i year)"
  proof (cases "trID (ocTransaction occurrence) = i \<and> year = take 4 date")
    case True
    then obtain r where r: "ocRule occurrence = Some r" "scAnnualCap r = Some (FNum c)" "\<bar>c\<bar> < p2 44 - 1"
      using cap o by (auto simp: cap_of_def)
    show ?thesis
      using capped_execution [OF p s' sane r, of r0] True I(2) by (simp add: capped_def)
  next
    case False
    then have "ledger s' i year = ledger (rtState (rsRuntime s)) i year"
      using executed_ledger [OF s', of i year] prepared_amount(1) [OF p] by auto
    then show ?thesis using I(2) by (simp add: capped_def)
  qed
  moreover have "run_within_limits acc b0 ?s'"
    using limits.step [OF o I(1) e] .
  ultimately show "run_within_limits acc b0 ?s' \<and> capped c r0 i year ?s'"
    by (simp add: capped_def t)
qed (auto simp: capped_def take_snapshot_def limits.snap [unfolded take_snapshot_def])

lemma simulation_cap:
  assumes run: "simulateScheduled env request purchases candidateDates = Some (Inr run)"
    and sane: "sane_ledger (accountIndex (siAccounts (rqModel request))) (ssBalances (rqInitialState request))"
    and c: "\<bar>c\<bar> < p2 44 - 1"
    and rules: "\<forall>r\<in>set (siSchedules (rqModel request)). scID r = i \<longrightarrow> scAnnualCap r = Some (FNum c)"
    and others: "\<forall>t\<in>set (siTransactions (rqModel request)). trID t \<noteq> i" "\<forall>p\<in>set purchases. ppID (spPurchase p) \<noteq> i"
    and r0: "under_cap c r0 (ledger (rqInitialState request) i year)"
  shows "under_cap c r0 (ledger (rnFinalState run) i year)"
proof -
  let ?acc = "accountIndex (siAccounts (rqModel request))" and ?b0 = "ssBalances (rqInitialState request)"
  obtain m s where m: "event_dates request purchases candidateDates = Some m"
    and s: "run_dates (envPow env) (rqHistoryCutInstant request) m (Mapping.ordered_keys m) (start_run request) = Some (Inr s)"
      "run = finish_run request s"
    using run by (rule simulateScheduledE)
  have cap: "cap_of i c m"
    using event_dates_origins [OF m] c rules others
    by (fastforce simp: cap_of_def all_origins_def event_origin_def origin_ok_def split: option.splits)
  have start: "cap_of i c m \<longrightarrow> run_within_limits ?acc ?b0 (start_run request) \<and> capped c r0 i year (start_run request)"
    using sane limits_kept_refl [OF sane] r0
    by (simp add: run_within_limits_def capped_def ledger_def start_run_def balances_now_def CreateTransitionRuntime_def
        CloneSimulationState_def SnapshotBalances_def)
  show ?thesis
    using caps.dates_keep [OF start s(1)] cap by (simp add: capped_def ledger_def s(2) finish_run_def CloneSimulationState_def)
qed

end
