(* ===== verification/Simulation_Properties.thy ===== *)
theory Simulation_Properties
  imports Simulation_Laws
begin

text \<open>
  The properties of the projection kernel, with a sample run: a monthly deposit of 300 with an
  annual cap of 250, simulated on one of its dates.
\<close>

section \<open>A sample run\<close>

definition deposit :: Schedule where
  "deposit = \<lparr>scID = ''pay'', scName = ''Pay'', scSourceAccountID = None, scDestinations = Some [''savings''],
     scAmount = \<lparr>amResolver = ''expression'', amConfig = [(''expression'', JStr ''300'')], amInputs = []\<rparr>,
     scFrequency = FrequencyMonthly, scStartDate = ''2024-01-31'', scEndDate = None,
     scAnnualCap = Some (FNum 250), scPriority = 1, scEnabled = True\<rparr>"

definition sample_state :: SimulationState where
  "sample_state = \<lparr>ssBalances = sample_balances, ssLatestAmounts = Mapping.empty, ssLatestDates = Mapping.empty,
     ssAmountsByYear = Mapping.empty\<rparr>"

definition sample_request :: SimulationRequest where
  "sample_request =
     \<lparr>rqModel = \<lparr>siAccounts = [wallet, card, savings], siTransactions = [], siSchedules = [deposit],
                siPaymentTerms = [], siPlannedPurchases = []\<rparr>,
      rqInitialState = sample_state, rqStartDate = ''2024-01-31'', rqEndDate = ''2024-01-31'',
      rqIncludeStartDateEvents = True, rqMonteCarloSample = None, rqHistoryCutInstant = 0\<rparr>"

definition sample_env :: environment where
  "sample_env = \<lparr>envPow = (\<lambda>x y. x), envResimulationAllowed = True\<rparr>"

definition deposit_occurrence :: DatedTransactionOccurrence where
  "deposit_occurrence = \<lparr>ocTransaction = rule_instance deposit 1706745599, ocIndex = 0, ocRule = Some deposit,
     ocPurchase = None, ocDocPath = Some (''schedules'', 0)\<rparr>"

lemma deposit_dates:
  "dates_from (advanceDate ''2024-01-31'' FrequencyMonthly) ''2024-01-31'' 0 = Some [''2024-01-31'']"
proof -
  have "AddMonthsClamped ''2024-01-31'' 0 = Some ''2024-01-31''" "AddMonthsClamped ''2024-01-31'' 1 = Some ''2024-02-29''"
    by code_simp+
  then show ?thesis
    by (auto intro!: dates_from_step)
qed

lemma sample_event_dates:
  "event_dates sample_request [] [] = Some (Mapping.update ''2024-01-31'' [deposit_occurrence] Mapping.empty)"
proof -
  have "dayCloseUnix ''2024-01-31'' = Some 1706745599"
    by code_simp
  then show ?thesis
    using deposit_dates
    by (simp add: event_dates_def sample_request_def ResolveOccurrences_def rule_window_dates_def effective_end_def
        in_window_def claimed_def claimsByRule_def append_at_def deposit_occurrence_def Let_def lookup_default_empty
        CompareIsoDates_def deposit_def)
qed

lemma sample_amount: "EvaluateArithmetic ''300'' ctx = Some (Inr (FNum 300))" "ArithmeticRequirements ''300'' = Some (Inr [])"
proof -
  have n: "numeral_text ''300''"
    unfolding numeral_text_def by (intro exI [of _ "''300''"] exI [of _ "[]"]) (simp add: is_digit_iff)
  have "decimal_value ''300'' = 300"
    by (simp add: decimal_value_def digits_value_def byte_digit_def)
  then have v: "f64_of_rat (decimal_value ''300'') = FNum 300"
    by (simp add: f64_of_rat_numeral)
  show "EvaluateArithmetic ''300'' ctx = Some (Inr (FNum 300))" "ArithmeticRequirements ''300'' = Some (Inr [])"
    using EvaluateArithmetic_numeral [OF n] by (simp_all add: v)
qed

lemma deposit_amount: "ResolveTransactionAmountDescriptor pow (scAmount deposit) ctx = Some (Inr (FNum 300))"
  by (simp add: deposit_def ResolveTransactionAmountDescriptor_def LookupAmountResolver_def amountResolvers_def
      expression_resolver_def config_expression_def sample_amount validateExactKeys_def isNonFinite_def)

definition sample_runtime :: TransitionRuntime where
  "sample_runtime = CreateTransitionRuntime (rqModel sample_request) sample_state ''2024-01-31'' None"

lemma deposit_prepared:
  assumes "esRealizedByYear s = Mapping.empty"
  shows "PrepareTransactionExecution pow deposit_occurrence ''2024-01-31'' False s None =
     Some (Inr \<lparr>pxTransaction = rule_instance deposit 1706745599, pxRequestedAmount = FNum 300,
       pxAnnualCapRemaining = FNum 250, pxHistoricalActual = False, pxIsLoss = False\<rparr>)"
proof -
  have a: "trAmount (rule_instance deposit 1706745599) = scAmount deposit"
    by (simp add: rule_instance_def)
  have "scAnnualCap deposit = Some (FNum 250)" by (simp add: deposit_def)
  moreover have "maxFloat 0 (FNum 250 - 0) = FNum 250"
    by (simp add: zero_f64_def minus_f64_def f64_of_rat_numeral maxFloat_def)
  ultimately show ?thesis
    by (simp add: PrepareTransactionExecution_def ComputeRequestedAmount_def deposit_occurrence_def a deposit_amount
        cap_remaining_def assms lookup_default_empty zero_f64_def)
qed

lemma deposit_rate: "sampled_rate t (ocTransaction deposit_occurrence) date = Some (Inr None)"
proof -
  have "VolatileRateInputOf (trAmount (ocTransaction deposit_occurrence)) = None"
    by (simp add: VolatileRateInputOf_def deposit_occurrence_def rule_instance_def deposit_def)
  then show ?thesis
    by (simp add: sampled_rate_def)
qed

lemma deposit_executes:
  assumes "ssAmountsByYear (rtState t) = Mapping.empty"
  obtains x t' where "ExecuteTransaction pow t deposit_occurrence ''2024-01-31'' False = Some (Inr (x, t'))"
    "xtTransactionID x = ''pay''"
proof -
  have "esRealizedByYear (snapshotExecutionState t) = Mapping.empty"
    using assms by (simp add: snapshotExecutionState_def)
  from deposit_prepared [OF this, of pow] show ?thesis
    using that
    by (simp add: ExecuteTransaction_def deposit_rate ApplyPreparedExecution_eq executed_state_def observeTransaction_def
        Let_def) (simp add: rule_instance_def deposit_def)
qed

lemma deposit_realized:
  "resRealizedAmount (prepared_result \<lparr>pxTransaction = rule_instance deposit 1706745599, pxRequestedAmount = FNum 300,
       pxAnnualCapRemaining = FNum 250, pxHistoricalActual = False, pxIsLoss = False\<rparr> sample_balances sample_accounts) = FNum 250"
proof -
  have "balance_of sample_balances ''savings'' = 0"
    by (simp add: balance_of_sample)
  then have "GetTotalDestinationHeadroom sample_balances sample_accounts [''savings''] = 0 + math_Max 0 (FNum 10000000000000 - 0)"
    by (simp add: GetTotalDestinationHeadroom_def lookup_sample_accounts sample_limits)
  also have "\<dots> = FNum 10000000000000"
    by (simp add: zero_f64_def minus_f64_def f64_of_rat_numeral)
  finally have "GetTotalDestinationHeadroom sample_balances sample_accounts [''savings''] = FNum 10000000000000" .
  moreover have "trSourceAccountID (rule_instance deposit 1706745599) = None"
      "trDestinations (rule_instance deposit 1706745599) = Some [''savings'']"
    by (simp_all add: rule_instance_def deposit_def)
  moreover have "math_Min (FInf False) (FNum x) = FNum x" "feq (FNum 300) 0 = False" for x
    by (simp_all add: math_Min_def feq_def zero_f64_def)
  ultimately show ?thesis
    by (simp add: prepared_result_def maxFloat_0_num ResolveTransactionTransaction_def ResolveAccountTransaction_def Let_def)
qed

lemma sample_run:
  obtains run where "simulateScheduled sample_env sample_request [] [] = Some (Inr run)"
    "map log_entry (rnTransactionAttempts run) = [(''2024-01-31'', ''pay'')]"
    "ledger (rnFinalState run) ''pay'' ''2024'' = FNum 250"
proof -
  let ?p = "\<lparr>pxTransaction = rule_instance deposit 1706745599, pxRequestedAmount = FNum 300,
       pxAnnualCapRemaining = FNum 250, pxHistoricalActual = False, pxIsLoss = False\<rparr>"
  have rt: "rtAccountByID sample_runtime = sample_accounts" "ssBalances (rtState sample_runtime) = sample_balances"
    by (simp_all add: sample_runtime_def CreateTransitionRuntime_def sample_request_def sample_accounts_def
        CloneSimulationState_def sample_state_def SnapshotBalances_def)
  obtain s' where s': "executed_state ?p ''2024-01-31'' sample_accounts (rtState sample_runtime) = Some s'"
    by (simp add: executed_state_def observeTransaction_def Let_def)
  have "ledger s' ''pay'' ''2024'' = ledger (rtState sample_runtime) ''pay'' ''2024'' + FNum 250"
    using executed_ledger [OF s', of "''pay''" "''2024''"] deposit_realized rt(2)
    by (simp add: rule_instance_def deposit_def)
  also have "\<dots> = FNum 250"
    by (simp add: ledger_def sample_runtime_def CreateTransitionRuntime_def CloneSimulationState_def sample_state_def
        lookup_default_empty zero_f64_def f64_of_rat_numeral)
  finally have l: "ledger s' ''pay'' ''2024'' = FNum 250" .
  have fresh: "esRealizedByYear (snapshotExecutionState sample_runtime) = Mapping.empty"
    by (simp add: snapshotExecutionState_def sample_runtime_def CreateTransitionRuntime_def CloneSimulationState_def
        sample_state_def)
  obtain x where x: "ExecuteTransaction pow sample_runtime deposit_occurrence ''2024-01-31'' False =
      Some (Inr (x, sample_runtime\<lparr>rtState := s'\<rparr>))" "xtTransactionID x = ''pay''" for pow
    using that
    by (simp add: ExecuteTransaction_def deposit_rate deposit_prepared [OF fresh] ApplyPreparedExecution_eq rt s')
      (simp add: rule_instance_def deposit_def)
  have keys: "Mapping.ordered_keys (Mapping.update ''2024-01-31'' [deposit_occurrence] Mapping.empty) = [''2024-01-31'']"
    by (simp add: ordered_keys_def)
  have start: "start_run sample_request = \<lparr>rsRuntime = sample_runtime, rsAttempts = [], rsSnapshots = []\<rparr>"
    by (simp add: start_run_def sample_runtime_def sample_request_def)
  have "rqHistoryCutInstant sample_request = 0" "envResimulationAllowed sample_env"
    by (simp_all add: sample_request_def sample_env_def)
  moreover have "go_index [] (Mapping.update ''2024-01-31'' [deposit_occurrence] Mapping.empty) ''2024-01-31'' = [deposit_occurrence]"
    by (simp add: lookup_default_update')
  moreover define s where "s = take_snapshot ''2024-01-31'' \<lparr>rsRuntime = sample_runtime\<lparr>rtState := s'\<rparr>,
      rsAttempts = [transaction_event ''2024-01-31'' 0 x], rsSnapshots = []\<rparr>"
  ultimately have "simulateScheduled sample_env sample_request [] [] = Some (Inr (finish_run sample_request s))"
    by (simp add: simulateScheduled_def requireResimulationAllowed_def sample_event_dates keys start
        sortOccurrences_def run_occurrence_def replayed_already_def x(1))
  moreover have "rsAttempts s = [transaction_event ''2024-01-31'' 0 x]" "rtState (rsRuntime s) = s'"
    by (simp_all add: s_def take_snapshot_def)
  ultimately show ?thesis
    using that [of "finish_run sample_request s"] x(2) l
    by (simp add: finish_run_def log_entry_def transaction_event_def CloneSimulationState_def ledger_def)
qed

section \<open>Properties\<close>

text \<open>
  C3. Whatever a projection executes, no account leaves its limits.  From balances the model of
  floats covers, every snapshot of a run and its final state keep each account between its floor
  and its ceiling, or where it started if that was outside, up to 1/256; rounding does not add up
  over the run.
\<close>

theorem simulation_keeps_limits:
  assumes "simulateScheduled env request purchases candidateDates = Some (Inr run)"
    and "sane_ledger (accountIndex (siAccounts (rqModel request))) (ssBalances (rqInitialState request))"
  shows "let acc = accountIndex (siAccounts (rqModel request)); b = ssBalances (rqInitialState request)
    in (\<forall>sn\<in>set (rnSnapshots run). limits_kept acc b (snBalances sn)) \<and>
       limits_kept acc b (ssBalances (rnFinalState run))"
  using simulation_limits [OF assms] by (simp add: Let_def)

lemma sample_request_sane:
  "sane_ledger (accountIndex (siAccounts (rqModel sample_request))) (ssBalances (rqInitialState sample_request))"
  using sample_sane by (simp add: sample_request_def sample_state_def sample_accounts_def)

lemma simulation_keeps_limits_witness:
  "\<exists>run. simulateScheduled sample_env sample_request [] [] = Some (Inr run) \<and>
     limits_kept sample_accounts sample_balances (ssBalances (rnFinalState run))"
proof -
  obtain run where r: "simulateScheduled sample_env sample_request [] [] = Some (Inr run)"
    by (rule sample_run)
  show ?thesis
    using r simulation_keeps_limits [OF r sample_request_sane]
    by (auto simp: Let_def sample_request_def sample_state_def sample_accounts_def)
qed

text \<open>
  C8. The log of a run is exactly its plan: one snapshot per event date in increasing order, and
  one attempt for every occurrence that the history cut does not cover, date by date in the order
  of \<open>sortOccurrences\<close>, numbered from zero.  Nothing is skipped, repeated or reordered.
\<close>

theorem simulation_log:
  assumes "simulateScheduled env request purchases candidateDates = Some (Inr run)"
  shows "\<exists>m. event_dates request purchases candidateDates = Some m \<and>
    map snDate (rnSnapshots run) = sorted_list_of_set (Mapping.keys m) \<and>
    map (\<lambda>e. (teDate e, teTransactionID e)) (rnTransactionAttempts run) =
      concat (map (\<lambda>date. map (\<lambda>o'. (date, trID (ocTransaction o')))
        (filter (\<lambda>o'. replayed_already (rqHistoryCutInstant request) o' date = Some False)
          (sortOccurrences (go_index [] m date)))) (sorted_list_of_set (Mapping.keys m))) \<and>
    map teSequence (rnTransactionAttempts run) = map int [0..<length (rnTransactionAttempts run)]"
proof -
  obtain m s where m: "event_dates request purchases candidateDates = Some m"
    and s: "run_dates (envPow env) (rqHistoryCutInstant request) m (Mapping.ordered_keys m) (start_run request) = Some (Inr s)"
      "run = finish_run request s"
    using assms by (rule simulateScheduledE)
  have "finite (Mapping.keys m)"
    using event_dates_origins [OF m] by (simp add: all_origins_def)
  then have k: "Mapping.ordered_keys m = sorted_list_of_set (Mapping.keys m)"
    by (simp add: ordered_keys_def)
  have "log_entry = (\<lambda>e. (teDate e, teTransactionID e))"
    by (simp add: fun_eq_iff log_entry_def)
  then show ?thesis
    using m run_dates_log [OF s(1)] unfolding k
    by (auto simp: s(2) finish_run_def start_run_def run_plan_def plan_entry_def map_concat comp_def sequence_from_def)
qed

lemma simulation_log_witness:
  "\<exists>run. simulateScheduled sample_env sample_request [] [] = Some (Inr run) \<and>
     map snDate (rnSnapshots run) = [''2024-01-31''] \<and> map teSequence (rnTransactionAttempts run) = [0]"
proof -
  obtain run where r: "simulateScheduled sample_env sample_request [] [] = Some (Inr run)"
      "map log_entry (rnTransactionAttempts run) = [(''2024-01-31'', ''pay'')]"
    by (rule sample_run)
  have "length (rnTransactionAttempts run) = 1"
    using r(2) by auto
  then show ?thesis
    using r(1) simulation_log [OF r(1)] by (auto simp: sample_event_dates)
qed

text \<open>
  C5. The annual cap holds along a run.  Over a whole run, the amount recorded for a capped rule in a
  year only grows, and it ends at most 1/256, the room for rounding, above the cap; when it started
  higher than that, it ends where it started.
\<close>

theorem simulation_annual_cap:
  assumes "simulateScheduled env request purchases candidateDates = Some (Inr run)"
    and "sane_ledger (accountIndex (siAccounts (rqModel request))) (ssBalances (rqInitialState request))"
    and "\<forall>r\<in>set (siSchedules (rqModel request)). scID r = i \<longrightarrow> scAnnualCap r = Some (FNum c)" "\<bar>c\<bar> < p2 44 - 1"
    and "\<forall>t\<in>set (siTransactions (rqModel request)). trID t \<noteq> i" "\<forall>p\<in>set purchases. ppID (spPurchase p) \<noteq> i"
    and "ledger (rqInitialState request) i year = FNum r0" "rnd r0 = r0" "\<bar>r0\<bar> < p2 44"
  shows "\<exists>r. ledger (rnFinalState run) i year = FNum r \<and> r0 \<le> r \<and> r \<le> max r0 (c + slack)"
proof -
  have "under_cap c r0 (ledger (rqInitialState request) i year)"
    using assms(7-9) by (simp add: under_cap_def)
  then show ?thesis
    using simulation_cap [OF assms(1,2,4,3,5,6)] by (auto simp: under_cap_def)
qed

lemma simulation_annual_cap_witness:
  "\<exists>run r. simulateScheduled sample_env sample_request [] [] = Some (Inr run) \<and>
     ledger (rnFinalState run) ''pay'' ''2024'' = FNum r \<and> 0 \<le> r \<and> r \<le> max 0 (250 + slack)"
proof -
  obtain run where r: "simulateScheduled sample_env sample_request [] [] = Some (Inr run)"
    by (rule sample_run)
  have "\<bar>250\<bar> < p2 44 - 1" "\<bar>0\<bar> < p2 44"
    by (simp_all add: p2_def)
  moreover have "\<forall>r\<in>set (siSchedules (rqModel sample_request)). scID r = ''pay'' \<longrightarrow> scAnnualCap r = Some (FNum 250)"
      "\<forall>t\<in>set (siTransactions (rqModel sample_request)). trID t \<noteq> ''pay''"
      "ledger (rqInitialState sample_request) ''pay'' ''2024'' = FNum 0"
    by (simp_all add: sample_request_def deposit_def ledger_def sample_state_def lookup_default_empty zero_f64_def)
  ultimately show ?thesis
    using r simulation_annual_cap [OF r sample_request_sane, of "''pay''" 250 "''2024''" 0] by auto
qed

end
