(* ===== verification/Issues.thy ===== *)
theory Issues
  imports Simulate
begin

text \<open>
  Validation issues and preparation errors (\<open>ModelValidationIssue\<close> of
  \<open>backend/internal/types/results.go\<close>, \<open>SimulationPreparationError\<close> of \<open>prepare.go\<close>).  A message
  put together from strings and whole numbers is its text; a message that prints an error, a quoted
  string or a float is kept as the call that prints it, with its arguments.  The process the code
  runs in is the record \<open>process\<close>: the guard and \<open>math.Pow\<close>, the order in which
  \<open>range\<close> visits a map, and \<open>time.Parse(time.RFC3339, _)\<close>.
\<close>

datatype ValidationSeverity = SeverityError | SeverityWarning

datatype path_part = PathKey string | PathIndex nat

datatype issue_message =
  Text string
| AmountErrorText amount_error
| ReplayText string string execution_error
| StartDateText string
| AsOfText string
| BoundsText f64 f64
| QuotedText string string string

record ModelValidationIssue =
  viSeverity :: ValidationSeverity
  viCode :: string
  viMessage :: issue_message
  viPath :: "path_part list"

datatype preparation_error =
  SimulationPreparationError "ModelValidationIssue list"
| PreparationRefused execution_error

definition error_issue :: "string \<Rightarrow> issue_message \<Rightarrow> path_part list \<Rightarrow> ModelValidationIssue" where
  "error_issue code message path =
     \<lparr>viSeverity = SeverityError, viCode = code, viMessage = message, viPath = path\<rparr>"

abbreviation preparation_failed :: "string \<Rightarrow> issue_message \<Rightarrow> path_part list \<Rightarrow> preparation_error" where
  "preparation_failed code message path \<equiv> SimulationPreparationError [error_issue code message path]"

record process =
  pcEnv :: environment
  pcRange :: "DatedTransactionOccurrence list gomap \<Rightarrow> string list"
  pcParseTime :: "string \<Rightarrow> int option"

text \<open>What the language promises of \<open>range\<close> over a map: every key, once.\<close>

definition range_visits_keys :: "process \<Rightarrow> bool" where
  "range_visits_keys p \<longleftrightarrow>
     (\<forall>m. finite (Mapping.keys m) \<longrightarrow> distinct (pcRange p m) \<and> set (pcRange p m) = Mapping.keys m)"

end
