(* ===== verification/History.thy ===== *)
theory History
  imports Issues
begin

text \<open>
  Chronological replay and request preparation: \<open>backend/internal/domain/prepare.go\<close>, the reads of
  \<open>position.go\<close> and \<open>balance_adjustments.go\<close>, and \<open>ParseAsOfCut\<close> of \<open>chrono.go\<close>.  Transactions, rule
  instances and observations up to the cut form one list of events, sorted by \<open>history_less\<close>; one
  forward pass executes the movements, sets the observed balances and samples a snapshot a day.
\<close>

section \<open>Events\<close>

datatype history_item =
  Observation Checkpoint
| Movement DatedTransactionOccurrence

record historyEvent =
  heInstant :: int
  heItem :: history_item
  heExecDate :: string
  heSeq :: nat

definition history_less :: "historyEvent \<Rightarrow> historyEvent \<Rightarrow> bool" where
  "history_less a b =
     (if heInstant a \<noteq> heInstant b then heInstant a < heInstant b
      else case (heItem a, heItem b) of
        (Observation c, Observation d) \<Rightarrow>
          let leftOwner = IsOwnerAuthored (ckSource c); rightOwner = IsOwnerAuthored (ckSource d) in
          if leftOwner \<noteq> rightOwner then \<not> leftOwner \<and> rightOwner else heSeq a < heSeq b
      | (Movement c, Movement d) \<Rightarrow>
          let tied = compareDatedTransactionOccurrences c d in
          if tied \<noteq> 0 then tied < 0 else heSeq a < heSeq b
      | (Movement _, Observation _) \<Rightarrow> True
      | (Observation _, Movement _) \<Rightarrow> False)"

text \<open>\<open>seq\<close> counts the events appended so far.\<close>

definition add_event :: "int \<Rightarrow> history_item \<Rightarrow> string \<Rightarrow> historyEvent list \<Rightarrow> historyEvent list" where
  "add_event instant item date events =
     events @ [\<lparr>heInstant = instant, heItem = item, heExecDate = date, heSeq = length events\<rparr>]"

definition replayable :: "int \<Rightarrow> int \<Rightarrow> bool" where
  "replayable cutInstant instant \<longleftrightarrow> 0 < instant \<and> instant \<le> cutInstant"

record collected =
  clEvents :: "historyEvent list"
  clAddedTransaction :: "bool gomap"

fun collect_day ::
  "int \<Rightarrow> string \<Rightarrow> DatedTransactionOccurrence list \<Rightarrow> collected \<Rightarrow> collected option" where
  "collect_day cutInstant date [] s = Some s"
| "collect_day cutInstant date (occurrence # occurrences) s =
     (if \<not> trEnabled (ocTransaction occurrence) then collect_day cutInstant date occurrences s
      else case EffectiveOccurrenceInstant occurrence date of
        None \<Rightarrow> None
      | Some instant \<Rightarrow>
          if \<not> replayable cutInstant instant then collect_day cutInstant date occurrences s
          else
            collect_day cutInstant date occurrences
              (s\<lparr>clEvents := add_event instant (Movement occurrence) date (clEvents s),
                 clAddedTransaction :=
                   (if ocRule occurrence = None
                    then Mapping.update (trID (ocTransaction occurrence)) True (clAddedTransaction s)
                    else clAddedTransaction s)\<rparr>))"

fun collect_days ::
  "int \<Rightarrow> DatedTransactionOccurrence list gomap \<Rightarrow> string list \<Rightarrow> collected \<Rightarrow> collected option" where
  "collect_days cutInstant byDate [] s = Some s"
| "collect_days cutInstant byDate (date # dates) s =
     (case collect_day cutInstant date (go_index [] byDate date) s of
        None \<Rightarrow> None
      | Some s' \<Rightarrow> collect_days cutInstant byDate dates s')"

text \<open>Transactions from before the first observation still replay.\<close>

definition early_occurrence :: "Transaction \<Rightarrow> nat \<Rightarrow> DatedTransactionOccurrence" where
  "early_occurrence t i =
     \<lparr>ocTransaction = t, ocIndex = 1000000 + int i, ocRule = None, ocPurchase = None,
      ocDocPath = Some (''transactions'', i)\<rparr>"

primrec collect_early ::
  "string \<Rightarrow> int \<Rightarrow> bool gomap \<Rightarrow> nat \<Rightarrow> Transaction list \<Rightarrow> historyEvent list \<Rightarrow> historyEvent list" where
  "collect_early startDate cutInstant added i [] events = events"
| "collect_early startDate cutInstant added i (t # ts) events =
     (let day = transactionDay t; instant = TransactionInstant t in
      if go_index False added (trID t) \<or> \<not> trEnabled t \<or> day = '''' \<or> 0 < CompareIsoDates day startDate \<or>
         \<not> replayable cutInstant instant
      then collect_early startDate cutInstant added (i + 1) ts events
      else collect_early startDate cutInstant added (i + 1) ts
             (add_event instant (Movement (early_occurrence t i)) day events))"

primrec collect_observations :: "int \<Rightarrow> Checkpoint list \<Rightarrow> historyEvent list \<Rightarrow> historyEvent list" where
  "collect_observations cutInstant [] events = events"
| "collect_observations cutInstant (c # cs) events =
     (if \<not> replayable cutInstant (CheckpointInstant c) then collect_observations cutInstant cs events
      else collect_observations cutInstant cs
             (add_event (CheckpointInstant c) (Observation c) (FormatIsoDate (CheckpointInstant c)) events))"

definition earliest_day :: "string \<Rightarrow> Checkpoint list \<Rightarrow> string" where
  "earliest_day startDate checkpoints =
     foldl (\<lambda>earliestDay c.
         let day = FormatIsoDate (CheckpointInstant c)
         in if CompareIsoDates day earliestDay < 0 then day else earliestDay)
       startDate checkpoints"

definition future_checkpoint :: "string \<Rightarrow> Checkpoint list \<Rightarrow> Checkpoint option" where
  "future_checkpoint startDate checkpoints =
     find (\<lambda>c. 0 < CompareIsoDates (FormatIsoDate (CheckpointInstant c)) startDate) checkpoints"

definition history_events ::
  "(DatedTransactionOccurrence list gomap \<Rightarrow> string list) \<Rightarrow> FinancialModel \<Rightarrow> string \<Rightarrow> int \<Rightarrow>
   historyEvent list option" where
  "history_events visit model startDate cutInstant =
     (case ResolveOccurrences (fmSchedules model) (fmTransactions model)
             (earliest_day startDate (fmCheckpoints model)) startDate True of
        None \<Rightarrow> None
      | Some history \<Rightarrow>
          map_option (\<lambda>s.
              sort_by history_less
                (collect_observations cutInstant (fmCheckpoints model)
                  (collect_early startDate cutInstant (clAddedTransaction s) 0 (fmTransactions model) (clEvents s))))
            (collect_days cutInstant (roByDate history) (visit (roByDate history))
              \<lparr>clEvents = [], clAddedTransaction = Mapping.empty\<rparr>))"

section \<open>The forward pass\<close>

record BalanceAdjustment =
  baAccountID :: string
  baObservedAt :: int
  baPreviousBalance :: f64
  baBalance :: f64
  baAdjustment :: f64
  baSource :: string

record HistoricalObservationSnapshot =
  hsDate :: string
  hsBalances :: "f64 gomap"
  hsCorrections :: "CheckpointCorrection list"

definition roundCurrency :: "f64 \<Rightarrow> f64" where
  "roundCurrency value = math_Round value"

record replay_state =
  rpRuntime :: TransitionRuntime
  rpLatestObserved :: "Checkpoint gomap"
  rpAdjustments :: "BalanceAdjustment list"
  rpSnapshots :: "HistoricalObservationSnapshot list"
  rpCorrections :: "CheckpointCorrection list"
  rpCurrentDay :: string

abbreviation replay_balances :: "replay_state \<Rightarrow> f64 gomap" where
  "replay_balances s \<equiv> ssBalances (rtState (rpRuntime s))"

definition flushDay :: "replay_state \<Rightarrow> replay_state" where
  "flushDay s =
     (if rpCurrentDay s = '''' then s
      else s\<lparr>rpSnapshots := rpSnapshots s @
               [\<lparr>hsDate = rpCurrentDay s, hsBalances = SnapshotBalances (replay_balances s),
                 hsCorrections = rpCorrections s\<rparr>],
             rpCorrections := []\<rparr>)"

definition open_day :: "string \<Rightarrow> replay_state \<Rightarrow> replay_state" where
  "open_day date s = (if date \<noteq> rpCurrentDay s then (flushDay s)\<lparr>rpCurrentDay := date\<rparr> else s)"

definition observe :: "Checkpoint \<Rightarrow> replay_state \<Rightarrow> replay_state" where
  "observe observation s =
     (let modeledBalance = balance_of (replay_balances s) (ckAccountID observation);
          t = rpRuntime s
      in s\<lparr>rpAdjustments := rpAdjustments s @
             [\<lparr>baAccountID = ckAccountID observation, baObservedAt = ckObservedAt observation,
               baPreviousBalance = roundCurrency modeledBalance, baBalance = roundCurrency (ckBalance observation),
               baAdjustment = roundCurrency (ckBalance observation - modeledBalance), baSource = ckSource observation\<rparr>],
           rpRuntime := t\<lparr>rtState := (rtState t)\<lparr>ssBalances :=
             Mapping.update (ckAccountID observation) (ckBalance observation) (ssBalances (rtState t))\<rparr>\<rparr>,
           rpCorrections := rpCorrections s @
             [\<lparr>ccAccountID = ckAccountID observation, ccObservedBalance = ckBalance observation,
               ccModeledBalance = modeledBalance, ccAdjustment = ckBalance observation - modeledBalance\<rparr>],
           rpLatestObserved := Mapping.update (ckAccountID observation) observation (rpLatestObserved s)\<rparr>)"

definition doc_path :: "DatedTransactionOccurrence \<Rightarrow> path_part list" where
  "doc_path occurrence = (case ocDocPath occurrence of None \<Rightarrow> [] | Some (k, i) \<Rightarrow> [PathKey k, PathIndex i])"

definition replay_failed :: "DatedTransactionOccurrence \<Rightarrow> string \<Rightarrow> execution_error \<Rightarrow> preparation_error" where
  "replay_failed occurrence date e =
     preparation_failed ''transaction.history.execution''
       (ReplayText (trID (ocTransaction occurrence)) date e) (doc_path occurrence)"

definition executeOccurrence ::
  "(f64 \<Rightarrow> f64 \<Rightarrow> f64) \<Rightarrow> DatedTransactionOccurrence \<Rightarrow> string \<Rightarrow> replay_state \<Rightarrow> (preparation_error + replay_state) option" where
  "executeOccurrence pow occurrence date s =
     (case ExecuteTransaction pow (rpRuntime s) occurrence date (ocRule occurrence = None) of
        None \<Rightarrow> None
      | Some (Inl e) \<Rightarrow> Some (Inl (replay_failed occurrence date e))
      | Some (Inr (_, t)) \<Rightarrow> Some (Inr (s\<lparr>rpRuntime := t\<rparr>)))"

definition replay_event ::
  "(f64 \<Rightarrow> f64 \<Rightarrow> f64) \<Rightarrow> historyEvent \<Rightarrow> replay_state \<Rightarrow> (preparation_error + replay_state) option" where
  "replay_event pow event s =
     (let s = open_day (heExecDate event) s in
      case heItem event of
        Observation observation \<Rightarrow> Some (Inr (observe observation s))
      | Movement occurrence \<Rightarrow> executeOccurrence pow occurrence (heExecDate event) s)"

fun replay_events ::
  "(f64 \<Rightarrow> f64 \<Rightarrow> f64) \<Rightarrow> historyEvent list \<Rightarrow> replay_state \<Rightarrow> (preparation_error + replay_state) option" where
  "replay_events pow [] s = Some (Inr s)"
| "replay_events pow (event # events) s = and_then (replay_event pow event s) (replay_events pow events)"

definition simulation_inputs :: "FinancialModel \<Rightarrow> SimulationInputs" where
  "simulation_inputs model =
     \<lparr>siAccounts = fmAccounts model, siTransactions = fmTransactions model, siSchedules = fmSchedules model,
      siPaymentTerms = fmPaymentTerms model, siPlannedPurchases = fmPlannedPurchases model\<rparr>"

definition start_replay :: "FinancialModel \<Rightarrow> string \<Rightarrow> replay_state" where
  "start_replay model startDate =
     \<lparr>rpRuntime = CreateTransitionRuntime (simulation_inputs model)
        \<lparr>ssBalances = InitAccountBalances (fmAccounts model), ssLatestAmounts = Mapping.empty,
         ssLatestDates = Mapping.empty, ssAmountsByYear = Mapping.empty\<rparr> startDate None,
      rpLatestObserved = Mapping.empty, rpAdjustments = [], rpSnapshots = [], rpCorrections = [],
      rpCurrentDay = ''''\<rparr>"

record historicalReplay =
  hrState :: SimulationState
  hrSnapshots :: "HistoricalObservationSnapshot list"
  hrIncludeStartDateEvents :: bool
  hrLatestObserved :: "Checkpoint gomap"
  hrAdjustments :: "BalanceAdjustment list"

definition finish_replay :: "replay_state \<Rightarrow> historicalReplay" where
  "finish_replay s =
     (let s = flushDay s
      in \<lparr>hrState = rtState (rpRuntime s), hrSnapshots = rpSnapshots s, hrIncludeStartDateEvents = True,
          hrLatestObserved = rpLatestObserved s, hrAdjustments = rpAdjustments s\<rparr>)"

definition future_message :: "Checkpoint \<Rightarrow> string \<Rightarrow> issue_message" where
  "future_message checkpoint startDate =
     Text (''Checkpoint for '' @ CHR 0x27 # ckAccountID checkpoint @ CHR 0x27 #
           '' is after the projection start ('' @ startDate @ '').'')"

definition replayChronologicalHistoryAt ::
  "process \<Rightarrow> FinancialModel \<Rightarrow> string \<Rightarrow> int \<Rightarrow> (preparation_error + historicalReplay) option" where
  "replayChronologicalHistoryAt p model startDate cutInstant =
     (case future_checkpoint startDate (fmCheckpoints model) of
        Some checkpoint \<Rightarrow>
          Some (Inl (preparation_failed ''checkpoint.date.future'' (future_message checkpoint startDate)
            [PathKey ''checkpoints'']))
      | None \<Rightarrow>
          (case history_events (pcRange p) model startDate cutInstant of
             None \<Rightarrow> None
           | Some events \<Rightarrow>
               and_then (replay_events (envPow (pcEnv p)) events (start_replay model startDate))
                 (\<lambda>s. Some (Inr (finish_replay s)))))"

definition replayChronologicalHistory ::
  "process \<Rightarrow> FinancialModel \<Rightarrow> string \<Rightarrow> (preparation_error + historicalReplay) option" where
  "replayChronologicalHistory p model startDate =
     (case dayCloseUnix startDate of
        None \<Rightarrow> None
      | Some cutInstant \<Rightarrow> replayChronologicalHistoryAt p model startDate cutInstant)"

definition replayHistoricalState ::
  "process \<Rightarrow> FinancialModel \<Rightarrow> string \<Rightarrow>
   (preparation_error + SimulationState \<times> HistoricalObservationSnapshot list \<times> bool) option" where
  "replayHistoricalState p model startDate =
     and_then (replayChronologicalHistory p model startDate)
       (\<lambda>r. Some (Inr (hrState r, hrSnapshots r, hrIncludeStartDateEvents r)))"

section \<open>Preparation\<close>

record preparedPosition =
  poModel :: FinancialModel
  poState :: SimulationState
  poSnapshots :: "HistoricalObservationSnapshot list"
  poIncludeStartDateEvents :: bool
  poReplay :: historicalReplay

definition EmptyEvaluationTables :: EvaluationTables where
  "EmptyEvaluationTables =
     \<lparr>etFinancialIndependence = [], etNetWorthThreshold = [], etAccountBalance = [],
      etTransactionFulfillment = [], etCycleFulfillment = [], etPlannedPurchases = [], etWhatIf = []\<rparr>"

text \<open>The model a nil pointer stands for.\<close>

definition empty_model :: FinancialModel where
  "empty_model =
     \<lparr>fmSourcePath = '''', fmAccounts = [], fmCheckpoints = [], fmEvaluations = EmptyEvaluationTables,
      fmTransactions = [], fmSchedules = [], fmPaymentTerms = [], fmPlannedPurchases = []\<rparr>"

definition start_date_failed :: "string \<Rightarrow> preparation_error" where
  "start_date_failed startDate =
     preparation_failed ''settings.projection-start.format'' (StartDateText startDate)
       [PathKey ''fallbackProjectionStartDate'']"

text \<open>The validator is the argument the code passes; like every call it may not return.\<close>

definition preparePositionWithValidator ::
  "process \<Rightarrow> FinancialModel option \<Rightarrow> string \<Rightarrow> int \<Rightarrow> ModelOverrides \<Rightarrow>
   (FinancialModel \<Rightarrow> ModelValidationIssue list option) \<Rightarrow> (preparation_error + preparedPosition) option" where
  "preparePositionWithValidator p model startDate cutInstant overrides validate =
     (let effectiveModel = ApplyModelOverrides (case model of None \<Rightarrow> empty_model | Some m \<Rightarrow> m) overrides
      in case validate effectiveModel of
           None \<Rightarrow> None
         | Some issues \<Rightarrow>
             (let validationErrors = filter (\<lambda>issue. viSeverity issue = SeverityError) issues
              in if validationErrors \<noteq> [] then Some (Inl (SimulationPreparationError validationErrors))
                 else if \<not> IsValidIsoDate startDate then Some (Inl (start_date_failed startDate))
                 else and_then (replayChronologicalHistoryAt p effectiveModel startDate cutInstant)
                   (\<lambda>replay. Some (Inr
                     \<lparr>poModel = effectiveModel, poState = hrState replay, poSnapshots = hrSnapshots replay,
                      poIncludeStartDateEvents = hrIncludeStartDateEvents replay, poReplay = replay\<rparr>))))"

text \<open>Ordinary reads drop the observations after the cut.\<close>

definition prepareFinancePositionAt ::
  "process \<Rightarrow> (FinancialModel \<Rightarrow> ModelValidationIssue list option) \<Rightarrow> FinancialModel option \<Rightarrow> string \<Rightarrow> int \<Rightarrow>
   ModelOverrides \<Rightarrow> (preparation_error + preparedPosition) option" where
  "prepareFinancePositionAt p validateFinance model startDate cutInstant overrides =
     preparePositionWithValidator p
       (map_option (\<lambda>m. m\<lparr>fmCheckpoints := filter (\<lambda>c. CheckpointInstant c \<le> cutInstant) (fmCheckpoints m)\<rparr>) model)
       startDate cutInstant overrides validateFinance"

record ProjectionRuntimeSettings =
  psFallbackProjectionStartDate :: string
  psHorizonYears :: int
  psEvaluations :: EvaluationTables
  psAsOfInstant :: "int option"

record PreparedProjection =
  ppEffectiveModel :: FinancialModel
  ppHistoricalSnapshots :: "HistoricalObservationSnapshot list"
  ppRequest :: SimulationRequest

text \<open>The cut of a request: the close of the start date, or an instant of that day.\<close>

definition request_cut :: "ProjectionRuntimeSettings \<Rightarrow> string \<Rightarrow> (preparation_error + int) option" where
  "request_cut settings startDate =
     (case psAsOfInstant settings of
        None \<Rightarrow> map_option Inr (dayCloseUnix startDate)
      | Some instant \<Rightarrow>
          if FormatIsoDate instant \<noteq> startDate
          then Some (Inl (preparation_failed ''settings.asOfInstant.day-mismatch''
            (Text (''asOfInstant must fall on the projection start date '' @ startDate @ ''.'')) [PathKey ''asOfInstant'']))
          else Some (Inr instant))"

definition PrepareSimulationRequest ::
  "process \<Rightarrow> (FinancialModel \<Rightarrow> ModelValidationIssue list option) \<Rightarrow> FinancialModel option \<Rightarrow>
   ProjectionRuntimeSettings \<Rightarrow> ModelOverrides \<Rightarrow> MonteCarloSample option \<Rightarrow>
   (preparation_error + PreparedProjection) option" where
  "PrepareSimulationRequest p validateModel model settings overrides monteCarloSample =
     (case requireResimulationAllowed (pcEnv p) ''PrepareSimulationRequest'' of
        None \<Rightarrow> None
      | Some (Inl e) \<Rightarrow> Some (Inl (PreparationRefused e))
      | Some (Inr _) \<Rightarrow>
          let startDate = psFallbackProjectionStartDate settings in
          if \<not> IsValidIsoDate startDate then Some (Inl (start_date_failed startDate))
          else and_then (request_cut settings startDate) (\<lambda>cutInstant.
            and_then (preparePositionWithValidator p model startDate cutInstant overrides validateModel) (\<lambda>position.
              map_option (\<lambda>endDate. Inr
                \<lparr>ppEffectiveModel = poModel position, ppHistoricalSnapshots = poSnapshots position,
                 ppRequest =
                   \<lparr>rqModel = simulation_inputs (poModel position), rqInitialState = poState position,
                    rqStartDate = startDate, rqEndDate = endDate, rqIncludeStartDateEvents = True,
                    rqMonteCarloSample = monteCarloSample, rqHistoryCutInstant = cutInstant\<rparr>\<rparr>)
                (AddYearsClamped startDate (psHorizonYears settings)))))"

section \<open>Current position\<close>

definition ParseAsOfCut :: "process \<Rightarrow> string \<Rightarrow> (issue_message + int \<times> string) option" where
  "ParseAsOfCut p asOf =
     (if IsValidIsoDate asOf then map_option (\<lambda>c. Inr (c, asOf)) (dayCloseUnix asOf)
      else case pcParseTime p asOf of
        None \<Rightarrow> Some (Inl (AsOfText asOf))
      | Some instant \<Rightarrow> Some (Inr (instant, FormatIsoDate instant)))"

record PositionAccount =
  paUnroundedBalance :: f64
  paAccountID :: string
  paBalance :: f64
  paObservedBalance :: "f64 option"
  paObservedAt :: "int option"
  paAvailableBalance :: "f64 option"

record CurrentPosition =
  cpAsOfDate :: string
  cpNetWorth :: f64
  cpAccounts :: "PositionAccount list"

definition position_account :: "preparedPosition \<Rightarrow> Account \<Rightarrow> PositionAccount" where
  "position_account position account =
     (let balance = balance_of (ssBalances (poState position)) (acID account);
          observed = Mapping.lookup (hrLatestObserved (poReplay position)) (acID account)
      in \<lparr>paUnroundedBalance = balance, paAccountID = acID account, paBalance = roundCurrency balance,
          paObservedBalance = map_option ckBalance observed,
          paObservedAt = map_option CheckpointInstant observed,
          paAvailableBalance = Option.bind observed ckAvailableBalance\<rparr>)"

definition ResolveCurrentPosition ::
  "process \<Rightarrow> (FinancialModel \<Rightarrow> ModelValidationIssue list option) \<Rightarrow> FinancialModel option \<Rightarrow> string \<Rightarrow>
   ModelOverrides \<Rightarrow> (preparation_error + CurrentPosition) option" where
  "ResolveCurrentPosition p validateFinance model asOfDate overrides =
     (case ParseAsOfCut p asOfDate of
        None \<Rightarrow> None
      | Some (Inl e) \<Rightarrow>
          Some (Inl (preparation_failed ''settings.projection-start.format'' e [PathKey ''asOfDate'']))
      | Some (Inr (cutInstant, cutDay)) \<Rightarrow>
          and_then (prepareFinancePositionAt p validateFinance model cutDay cutInstant overrides) (\<lambda>position.
            Some (Inr
              \<lparr>cpAsOfDate = asOfDate,
               cpNetWorth = roundCurrency (ComputeNetWorth (ssBalances (poState position)) (fmAccounts (poModel position))),
               cpAccounts = map (position_account position) (fmAccounts (poModel position))\<rparr>)))"

definition ResolveBalanceAdjustments ::
  "process \<Rightarrow> (FinancialModel \<Rightarrow> ModelValidationIssue list option) \<Rightarrow> FinancialModel option \<Rightarrow> string \<Rightarrow>
   ((issue_message + preparation_error) + BalanceAdjustment list) option" where
  "ResolveBalanceAdjustments p validateFinance model asOf =
     (case ParseAsOfCut p asOf of
        None \<Rightarrow> None
      | Some (Inl e) \<Rightarrow> Some (Inl (Inl e))
      | Some (Inr (instant, day)) \<Rightarrow>
          (case prepareFinancePositionAt p validateFinance model day instant EmptyModelOverrides of
             None \<Rightarrow> None
           | Some (Inl e) \<Rightarrow> Some (Inl (Inr e))
           | Some (Inr position) \<Rightarrow> Some (Inr (hrAdjustments (poReplay position)))))"

end
