(* ===== verification/History_Laws.thy ===== *)
theory History_Laws
  imports History Simulation_Laws
begin

text \<open>
  Laws of the replay.  The sorted list of events is a function of the events alone: neither the
  order in which the map of occurrences is visited nor the sequence numbers matter.  Every run of
  the forward pass is described by the locale \<open>replay_invariant\<close>.
\<close>

section \<open>Stable sorts that agree\<close>

context less_order
begin

lemma ordered_by_ties_unique:
  "ordered_by lt xs \<Longrightarrow> ordered_by lt ys \<Longrightarrow> (\<And>a. filter (ties a) xs = filter (ties a) ys) \<Longrightarrow> xs = ys"
proof (induction xs arbitrary: ys)
  case Nil
  have "ties y y" for y using irrefl by (simp add: ties_def)
  then show ?case using Nil(3) [of "hd ys"] by (cases ys) auto
next
  case (Cons x xs)
  have refl: "ties a a" for a using irrefl by (simp add: ties_def)
  obtain y ys' where ys: "ys = y # ys'"
    using Cons.prems(3) [of x] refl by (cases ys) auto
  have "x \<in> set (filter (ties x) ys)" "y \<in> set (filter (ties y) (x # xs))"
    using Cons.prems(3) [of x] Cons.prems(3) [of y] refl ys by (metis filter.simps(2) list.set_intros(1))+
  then have "x \<in> set ys" "y \<in> set (x # xs)"
    by (metis filter_is_subset subsetD)+
  then have "ties x y"
    using Cons.prems(1,2) ys irrefl by (auto simp: ties_def)
  then have "x = y"
    using Cons.prems(3) [of x] ys refl by simp
  moreover have "filter (ties a) xs = filter (ties a) ys'" for a
    using Cons.prems(3) [of a] \<open>x = y\<close> ys by (auto split: if_splits)
  ultimately show ?case
    using Cons.IH [of ys'] Cons.prems(1,2) ys by simp
qed

lemma sort_by_cong_ties: "(\<And>a. filter (ties a) xs = filter (ties a) ys) \<Longrightarrow> sort_by lt xs = sort_by lt ys"
  by (rule ordered_by_ties_unique) (simp_all add: ordered_sort_by stable_sort_by)

end

lemma insert_by_tiebreak:
  "\<forall>y\<in>set ys. q x < (q y :: nat) \<Longrightarrow>
     insert_by (\<lambda>a b. lt a b \<or> eq a b \<and> q a < q b) x ys = insert_by lt x ys"
  by (induction ys) auto

lemma sort_by_tiebreak:
  "sorted_wrt (\<lambda>x y. q x < (q y :: nat)) xs \<Longrightarrow>
     sort_by (\<lambda>a b. lt a b \<or> eq a b \<and> q a < q b) xs = sort_by lt xs"
  by (induction xs) (simp_all add: insert_by_tiebreak)

lemma map_insert_by: "map f (insert_by (\<lambda>a b. r (f a) (f b)) x xs) = insert_by r (f x) (map f xs)"
  by (induction xs) auto

lemma map_sort_by: "map f (sort_by (\<lambda>a b. r (f a) (f b)) xs) = sort_by r (map f xs)"
  by (induction xs) (simp_all add: map_insert_by)

section \<open>Events without their sequence numbers\<close>

type_synonym bare_event = "int \<times> history_item \<times> string"

definition bare :: "historyEvent \<Rightarrow> bare_event" where
  "bare e = (heInstant e, heItem e, heExecDate e)"

definition item_key :: "history_item \<Rightarrow> int list" where
  "item_key x = (case x of Movement o' \<Rightarrow> 0 # occurrence_key o'
     | Observation c \<Rightarrow> [1, of_bool (IsOwnerAuthored (ckSource c))])"

definition event_key :: "bare_event \<Rightarrow> int list" where
  "event_key = (\<lambda>(i, x, d). i # item_key x)"

definition event_less :: "bare_event \<Rightarrow> bare_event \<Rightarrow> bool" where
  "event_less a b \<longleftrightarrow> event_key a < event_key b"

interpretation event_order: less_order event_less
  using less_order_key [of event_key] unfolding event_less_def .

lemma compare_0_key: "compareDatedTransactionOccurrences a b = 0 \<longleftrightarrow> occurrence_key a = occurrence_key b"
  by (auto simp: compareDatedTransactionOccurrences_def occurrence_key_def cmp_Compare_def Let_def split: option.splits)

lemma history_less_key:
  "history_less a b \<longleftrightarrow>
     event_less (bare a) (bare b) \<or> event_key (bare a) = event_key (bare b) \<and> heSeq a < heSeq b"
proof (cases "heItem a"; cases "heItem b")
  fix o' p assume "heItem a = Movement o'" "heItem b = Movement p"
  then show ?thesis
    using compare_0_key [of o' p] occurrence_less_key [of o' p]
    by (auto simp: history_less_def event_less_def bare_def event_key_def item_key_def occurrence_less_def Let_def)
qed (auto simp: history_less_def event_less_def bare_def event_key_def item_key_def Let_def)

text \<open>The events a step appends, numbered by their position.\<close>

definition in_sequence :: "historyEvent list \<Rightarrow> bool" where
  "in_sequence es \<longleftrightarrow> map heSeq es = [0..<length es]"

lemma in_sequence_add [simp]: "in_sequence es \<Longrightarrow> in_sequence (add_event i x d es)"
  by (simp add: in_sequence_def add_event_def)

lemma bare_add [simp]: "map bare (add_event i x d es) = map bare es @ [(i, x, d)]"
  by (simp add: add_event_def bare_def)

lemma in_sequence_sorted: "in_sequence es \<Longrightarrow> sorted_wrt (\<lambda>x y. heSeq x < heSeq y) es"
proof -
  assume "in_sequence es"
  then have "sorted_wrt (<) (map heSeq es)"
    by (simp add: in_sequence_def)
  then show ?thesis by (simp add: sorted_wrt_map)
qed

lemma bare_sorted: "in_sequence es \<Longrightarrow> map bare (sort_by history_less es) = sort_by event_less (map bare es)"
proof -
  assume "in_sequence es"
  have "sort_by history_less es = sort_by (\<lambda>a b. event_less (bare a) (bare b)) es"
    using sort_by_tiebreak [OF in_sequence_sorted [OF \<open>in_sequence es\<close>],
        of "\<lambda>a b. event_less (bare a) (bare b)" "\<lambda>a b. event_key (bare a) = event_key (bare b)"]
    by (simp add: history_less_key [abs_def])
  then show ?thesis by (simp add: map_sort_by)
qed

section \<open>What is collected\<close>

definition moves_on :: "int \<Rightarrow> string \<Rightarrow> DatedTransactionOccurrence list \<Rightarrow> bare_event list" where
  "moves_on cutInstant date os =
     map (\<lambda>o'. (the (EffectiveOccurrenceInstant o' date), Movement o', date))
       (filter (\<lambda>o'. trEnabled (ocTransaction o') \<and>
          replayable cutInstant (the (EffectiveOccurrenceInstant o' date))) os)"

definition instants_known :: "string \<Rightarrow> DatedTransactionOccurrence list \<Rightarrow> bool" where
  "instants_known date os \<longleftrightarrow>
     (\<forall>o'\<in>set os. trEnabled (ocTransaction o') \<longrightarrow> EffectiveOccurrenceInstant o' date \<noteq> None)"

definition one_time_id :: "bare_event \<Rightarrow> string set" where
  "one_time_id = (\<lambda>(i, x, d). case x of
     Movement o' \<Rightarrow> if ocRule o' = None then {trID (ocTransaction o')} else {}
   | Observation c \<Rightarrow> {})"

definition one_time_ids :: "bare_event list \<Rightarrow> string set" where
  "one_time_ids es = (\<Union>e\<in>set es. one_time_id e)"

lemma one_time_ids_simps [simp]:
  "one_time_ids [] = {}" "one_time_ids (xs @ ys) = one_time_ids xs \<union> one_time_ids ys"
  "one_time_ids (e # es) = one_time_id e \<union> one_time_ids es"
  "one_time_id (i, Movement o', d) = (if ocRule o' = None then {trID (ocTransaction o')} else {})"
  by (simp_all add: one_time_ids_def one_time_id_def)

definition added_ids :: "bool gomap \<Rightarrow> string set" where
  "added_ids m = {i. go_index False m i}"

lemma added_ids_update [simp]: "added_ids (Mapping.update i True m) = insert i (added_ids m)"
  by (auto simp: added_ids_def lookup_default_update')

definition extends :: "collected \<Rightarrow> bare_event list \<Rightarrow> collected \<Rightarrow> bool" where
  "extends s es s' \<longleftrightarrow>
     map bare (clEvents s') = map bare (clEvents s) @ es \<and> (in_sequence (clEvents s) \<longrightarrow> in_sequence (clEvents s')) \<and>
     added_ids (clAddedTransaction s') = added_ids (clAddedTransaction s) \<union> one_time_ids es"

lemma extends_refl: "extends s [] s"
  by (simp add: extends_def)

lemma extends_trans: "extends s es s' \<Longrightarrow> extends s' fs s'' \<Longrightarrow> extends s (es @ fs) s''"
  by (auto simp: extends_def)

lemma collect_day_extends:
  "if instants_known date os then \<exists>s'. collect_day cutInstant date os s = Some s' \<and> extends s (moves_on cutInstant date os) s'
   else collect_day cutInstant date os s = None"
proof (induction os arbitrary: s)
  case Nil
  then show ?case by (simp add: instants_known_def moves_on_def extends_refl)
next
  case (Cons o' os)
  show ?case
  proof (cases "\<not> trEnabled (ocTransaction o')")
    case True
    then have "instants_known date (o' # os) = instants_known date os"
        "moves_on cutInstant date (o' # os) = moves_on cutInstant date os"
      by (simp_all add: instants_known_def moves_on_def)
    then show ?thesis using Cons [of s] True by simp
  next
    case enabled: False
    show ?thesis
    proof (cases "EffectiveOccurrenceInstant o' date")
      case None
      then show ?thesis using enabled by (auto simp: instants_known_def)
    next
      case (Some i)
      show ?thesis
      proof (cases "replayable cutInstant i")
        case False
        then have "instants_known date (o' # os) = instants_known date os"
            "moves_on cutInstant date (o' # os) = moves_on cutInstant date os"
          using enabled Some by (simp_all add: instants_known_def moves_on_def)
        then show ?thesis using Cons [of s] enabled Some False by simp
      next
        case True
        define s1 where "s1 = s\<lparr>clEvents := add_event i (Movement o') date (clEvents s),
          clAddedTransaction := (if ocRule o' = None
            then Mapping.update (trID (ocTransaction o')) True (clAddedTransaction s) else clAddedTransaction s)\<rparr>"
        have "extends s [(i, Movement o', date)] s1"
          by (simp add: extends_def s1_def)
        then have "extends s (moves_on cutInstant date (o' # os)) s'" if "extends s1 (moves_on cutInstant date os) s'" for s'
          using extends_trans [OF \<open>extends s [(i, Movement o', date)] s1\<close> that] enabled Some True by (simp add: moves_on_def)
        moreover have "collect_day cutInstant date (o' # os) s = collect_day cutInstant date os s1"
          using enabled Some True by (simp add: s1_def)
        moreover have "instants_known date (o' # os) = instants_known date os"
          using Some by (simp add: instants_known_def)
        ultimately show ?thesis using Cons [of s1] by (auto split: if_splits)
      qed
    qed
  qed
qed

definition moves_over :: "int \<Rightarrow> DatedTransactionOccurrence list gomap \<Rightarrow> string list \<Rightarrow> bare_event list" where
  "moves_over cutInstant m dates = concat (map (\<lambda>d. moves_on cutInstant d (go_index [] m d)) dates)"

lemma collect_days_extends:
  "if \<forall>d\<in>set dates. instants_known d (go_index [] m d)
   then \<exists>s'. collect_days cutInstant m dates s = Some s' \<and> extends s (moves_over cutInstant m dates) s'
   else collect_days cutInstant m dates s = None"
proof (induction dates arbitrary: s)
  case (Cons d dates)
  show ?case
  proof (cases "instants_known d (go_index [] m d)")
    case True
    then obtain s1 where s1: "collect_day cutInstant d (go_index [] m d) s = Some s1"
        "extends s (moves_on cutInstant d (go_index [] m d)) s1"
      using collect_day_extends [of d "go_index [] m d" cutInstant s] by auto
    then show ?thesis
      using Cons [of s1] True extends_trans [OF s1(2)] by (auto simp: moves_over_def split: if_splits)
  next
    case False
    then show ?thesis using collect_day_extends [of d "go_index [] m d" cutInstant s] by auto
  qed
qed (simp add: moves_over_def extends_refl)

primrec early_moves :: "string \<Rightarrow> int \<Rightarrow> string set \<Rightarrow> nat \<Rightarrow> Transaction list \<Rightarrow> bare_event list" where
  "early_moves startDate cutInstant added i [] = []"
| "early_moves startDate cutInstant added i (t # ts) =
     (if trID t \<in> added \<or> \<not> trEnabled t \<or> transactionDay t = '''' \<or> startDate < transactionDay t \<or>
         \<not> replayable cutInstant (TransactionInstant t) then []
      else [(TransactionInstant t, Movement (early_occurrence t i), transactionDay t)]) @
     early_moves startDate cutInstant added (i + 1) ts"

lemma collect_early_bare:
  "map bare (collect_early startDate cutInstant m i ts es) =
     map bare es @ early_moves startDate cutInstant (added_ids m) i ts"
  "in_sequence es \<Longrightarrow> in_sequence (collect_early startDate cutInstant m i ts es)"
  by (induction ts arbitrary: i es) (auto simp: Let_def added_ids_def)

definition observations_to :: "int \<Rightarrow> Checkpoint list \<Rightarrow> bare_event list" where
  "observations_to cutInstant cs =
     map (\<lambda>c. (CheckpointInstant c, Observation c, FormatIsoDate (CheckpointInstant c)))
       (filter (\<lambda>c. replayable cutInstant (CheckpointInstant c)) cs)"

lemma collect_observations_bare:
  "map bare (collect_observations cutInstant cs es) = map bare es @ observations_to cutInstant cs"
  "in_sequence es \<Longrightarrow> in_sequence (collect_observations cutInstant cs es)"
  by (induction cs arbitrary: es) (auto simp: observations_to_def)

text \<open>All that replays, unsorted.\<close>

definition replayed :: "FinancialModel \<Rightarrow> string \<Rightarrow> int \<Rightarrow> DatedTransactionOccurrence list gomap \<Rightarrow> string list \<Rightarrow> bare_event list" where
  "replayed model startDate cutInstant m dates =
     moves_over cutInstant m dates @
     early_moves startDate cutInstant (one_time_ids (moves_over cutInstant m dates)) 0 (fmTransactions model) @
     observations_to cutInstant (fmCheckpoints model)"

definition history_occurrences :: "FinancialModel \<Rightarrow> string \<Rightarrow> ResolvedOccurrences option" where
  "history_occurrences model startDate =
     ResolveOccurrences (fmSchedules model) (fmTransactions model) (earliest_day startDate (fmCheckpoints model)) startDate True"

lemma history_events_bare:
  "map_option (map bare) (history_events visit model startDate cutInstant) =
     (case history_occurrences model startDate of
        None \<Rightarrow> None
      | Some r \<Rightarrow>
          if \<forall>d\<in>set (visit (roByDate r)). instants_known d (go_index [] (roByDate r) d)
          then Some (sort_by event_less (replayed model startDate cutInstant (roByDate r) (visit (roByDate r))))
          else None)"
proof (cases "history_occurrences model startDate")
  case (Some r)
  let ?m = "roByDate r" and ?s0 = "\<lparr>clEvents = [], clAddedTransaction = Mapping.empty\<rparr>"
  note ex = collect_days_extends [of "visit ?m" ?m cutInstant ?s0]
  show ?thesis
  proof (cases "\<forall>d\<in>set (visit ?m). instants_known d (go_index [] ?m d)")
    case True
    then obtain s where s: "collect_days cutInstant ?m (visit ?m) ?s0 = Some s" "extends ?s0 (moves_over cutInstant ?m (visit ?m)) s"
      using ex by auto
    have a: "added_ids Mapping.empty = {}"
      by (simp add: added_ids_def lookup_default_empty)
    have "map bare (clEvents s) = moves_over cutInstant ?m (visit ?m)" "in_sequence (clEvents s)"
        "added_ids (clAddedTransaction s) = one_time_ids (moves_over cutInstant ?m (visit ?m))"
      using s(2) a by (simp_all add: extends_def in_sequence_def)
    then show ?thesis
      using True Some s(1)
      by (simp add: history_events_def history_occurrences_def bare_sorted collect_observations_bare collect_early_bare
          replayed_def)
  next
    case False
    then show ?thesis
      using ex Some by (simp add: history_events_def history_occurrences_def)
  qed
qed (simp add: history_events_def history_occurrences_def)

section \<open>The map may be visited in any order\<close>

definition indices_apart :: "DatedTransactionOccurrence list gomap \<Rightarrow> int \<Rightarrow> bool" where
  "indices_apart m n \<longleftrightarrow> finite (Mapping.keys m) \<and>
     (\<forall>d i. i < length (go_index [] m d) \<longrightarrow> ocIndex (go_index [] m d ! i) < n) \<and>
     (\<forall>d i e j. i < length (go_index [] m d) \<longrightarrow> j < length (go_index [] m e) \<longrightarrow>
        ocIndex (go_index [] m d ! i) = ocIndex (go_index [] m e ! j) \<longrightarrow> d = e \<and> i = j)"

lemma indices_apart_append:
  assumes "indices_apart m n" "ocIndex v = n"
  shows "indices_apart (append_at m k v) (n + 1)"
proof -
  have "finite (Mapping.keys (append_at m k v))"
    using assms(1) by (simp add: indices_apart_def append_at_def)
  moreover have old: "i < length (go_index [] m d) \<and> go_index [] (append_at m k v) d ! i = go_index [] m d ! i \<or>
      d = k \<and> i = length (go_index [] m k) \<and> ocIndex (go_index [] (append_at m k v) d ! i) = n"
    if "i < length (go_index [] (append_at m k v) d)" for d i
    using that assms(2) by (auto simp: go_index_append_at nth_append split: if_splits)
  moreover have less: "ocIndex (go_index [] m d ! i) < n" if "i < length (go_index [] m d)" for d i
    using assms(1) that by (simp add: indices_apart_def)
  moreover have "ocIndex (go_index [] (append_at m k v) d ! i) < n + 1" if "i < length (go_index [] (append_at m k v) d)" for d i
    using old [OF that] less [of i d] by auto
  moreover have "d = e \<and> i = j"
    if "i < length (go_index [] (append_at m k v) d)" "j < length (go_index [] (append_at m k v) e)"
      "ocIndex (go_index [] (append_at m k v) d ! i) = ocIndex (go_index [] (append_at m k v) e ! j)" for d i e j
  proof -
    have "\<And>d i e j. i < length (go_index [] m d) \<Longrightarrow> j < length (go_index [] m e) \<Longrightarrow>
        ocIndex (go_index [] m d ! i) = ocIndex (go_index [] m e ! j) \<Longrightarrow> d = e \<and> i = j"
      using assms(1) by (simp add: indices_apart_def)
    then show ?thesis
      using old [OF that(1)] old [OF that(2)] less [of i d] less [of j e] that(3) by (elim disjE) force+
  qed
  ultimately show ?thesis
    unfolding indices_apart_def by blast
qed

lemma add_instances_apart:
  "add_instances specs n res = Some (n', res') \<Longrightarrow> indices_apart (roByDate res) n \<Longrightarrow> indices_apart (roByDate res') n'"
  by (induction specs n res rule: add_instances.induct) (auto simp: Let_def indices_apart_append split: option.splits)

lemma add_transactions_apart:
  "indices_apart (roByDate res) n \<Longrightarrow> \<exists>n'. indices_apart (roByDate (add_transactions w i ts n res)) n'"
  by (induction ts arbitrary: i n res) (auto simp: Let_def indices_apart_append)

lemma ResolveOccurrences_apart:
  assumes "ResolveOccurrences rules ts a b incl = Some res"
  shows "\<exists>n. indices_apart (roByDate res) n"
proof -
  obtain specs n res1 where r: "add_instances specs 0 \<lparr>roInstances = [], roByDate = Mapping.empty\<rparr> = Some (n, res1)"
    and res: "res = add_transactions (in_window a b incl) 0 ts n res1"
    using assms by (auto simp: ResolveOccurrences_def Let_def split: option.splits)
  have "indices_apart (roByDate res1) n"
    by (rule add_instances_apart [OF r]) (simp add: indices_apart_def lookup_default_empty)
  then show ?thesis
    unfolding res by (rule add_transactions_apart)
qed

definition event_index :: "bare_event \<Rightarrow> int" where
  "event_index = (\<lambda>(i, x, d). case x of Movement o' \<Rightarrow> ocIndex o' | Observation c \<Rightarrow> 0)"

lemma distinct_map_filterI: "distinct (map f xs) \<Longrightarrow> distinct (map f (filter P xs))"
  by (induction xs) auto

lemma moves_over_apart:
  assumes "indices_apart m n"
  shows "distinct dates \<Longrightarrow> distinct (map event_index (moves_over cutInstant m dates))"
proof (induction dates)
  case (Cons d dates)
  have day: "event_index ` set (moves_on cutInstant e (go_index [] m e)) \<subseteq> ocIndex ` set (go_index [] m e)" for e
    by (auto simp: moves_on_def event_index_def)
  have "distinct (map ocIndex (go_index [] m d))"
    using assms by (auto simp: indices_apart_def distinct_conv_nth)
  then have "distinct (map event_index (moves_on cutInstant d (go_index [] m d)))"
    by (simp add: moves_on_def event_index_def comp_def distinct_map_filterI)
  moreover have ix: "ocIndex ` set (go_index [] m d) \<inter> ocIndex ` set (go_index [] m e) = {}" if "e \<noteq> d" for e
    using assms that unfolding indices_apart_def by (auto simp: in_set_conv_nth)
  have "event_index ` set (moves_on cutInstant d (go_index [] m d)) \<inter>
      event_index ` set (moves_on cutInstant e (go_index [] m e)) = {}" if "e \<noteq> d" for e
    using Int_mono [OF day [of d] day [of e]] ix [OF that] by simp
  then have "event_index ` set (moves_on cutInstant d (go_index [] m d)) \<inter>
      event_index ` set (moves_over cutInstant m dates) = {}"
  proof -
    assume apart: "\<And>e. e \<noteq> d \<Longrightarrow> event_index ` set (moves_on cutInstant d (go_index [] m d)) \<inter>
      event_index ` set (moves_on cutInstant e (go_index [] m e)) = {}"
    have "event_index ` set (moves_over cutInstant m dates) =
        (\<Union>e\<in>set dates. event_index ` set (moves_on cutInstant e (go_index [] m e)))"
      by (simp add: moves_over_def image_UN)
    moreover have "e \<noteq> d" if "e \<in> set dates" for e
      using Cons.prems that by auto
    ultimately show ?thesis
      by (simp only: Int_UN_distrib) (simp add: apart)
  qed
  ultimately show ?case
    using Cons by (simp add: moves_over_def)
qed (simp add: moves_over_def)

lemma event_ties_index: "event_order.ties a b \<Longrightarrow> \<exists>i o' d. a = (i, Movement o', d) \<Longrightarrow> event_index a = event_index b"
proof -
  assume t: "event_order.ties a b" and m: "\<exists>i o' d. a = (i, Movement o', d)"
  have "event_key a = event_key b"
    using t less_linear [of "event_key a" "event_key b"] by (auto simp: event_order.ties_def event_less_def)
  then show ?thesis
    using m by (cases b) (auto simp: event_key_def item_key_def event_index_def occurrence_key_def Let_def
        split: history_item.splits option.splits)
qed

lemma single_filter_perm:
  assumes "mset xs = mset ys" "distinct (map f xs)" "\<And>x y. x \<in> set xs \<Longrightarrow> y \<in> set xs \<Longrightarrow> P x \<Longrightarrow> P y \<Longrightarrow> f x = f y"
  shows "filter P xs = filter P ys"
proof -
  have "distinct (map f (filter P xs))"
    using assms(2) by (rule distinct_map_filterI)
  then have "length (filter P xs) \<le> 1"
  proof (cases "filter P xs")
    case (Cons a as)
    have "as = []"
    proof (rule ccontr)
      assume "as \<noteq> []"
      then obtain b bs where "as = b # bs" by (cases as) auto
      then have "a \<in> set (filter P xs)" "b \<in> set (filter P xs)" using Cons by auto
      then have "f a = f b" using assms(3) by auto
      then show False using \<open>distinct (map f (filter P xs))\<close> Cons \<open>as = b # bs\<close> by simp
    qed
    then show ?thesis using Cons by simp
  qed simp
  moreover have "mset (filter P xs) = mset (filter P ys)"
    using assms(1) by simp
  ultimately show ?thesis
    by (cases "filter P xs") (auto simp flip: mset_filter)
qed

lemma mset_concat_map: "mset xs = mset ys \<Longrightarrow> mset (concat (map f xs)) = mset (concat (map f ys))"
  by (simp add: mset_concat flip: mset_map) (simp flip: sum_mset_sum_list add: mset_map)

lemma history_events_visit:
  assumes "\<And>m. finite (Mapping.keys m) \<Longrightarrow> distinct (visit m) \<and> set (visit m) = Mapping.keys m"
    and "\<And>m. finite (Mapping.keys m) \<Longrightarrow> distinct (visit' m) \<and> set (visit' m) = Mapping.keys m"
  shows "map_option (map bare) (history_events visit model startDate cutInstant) =
    map_option (map bare) (history_events visit' model startDate cutInstant)"
proof (cases "history_occurrences model startDate")
  case (Some r)
  let ?m = "roByDate r"
  let ?L = "moves_over cutInstant ?m (visit ?m)" and ?L' = "moves_over cutInstant ?m (visit' ?m)"
  obtain n where n: "indices_apart ?m n"
    using Some unfolding history_occurrences_def by (blast dest: ResolveOccurrences_apart)
  then have v: "distinct (visit ?m)" "set (visit ?m) = Mapping.keys ?m" "distinct (visit' ?m)" "set (visit' ?m) = Mapping.keys ?m"
    using assms by (auto simp: indices_apart_def)
  then have "mset (visit ?m) = mset (visit' ?m)"
    by (metis set_eq_iff_mset_eq_distinct)
  then have L: "mset ?L = mset ?L'"
    unfolding moves_over_def by (rule mset_concat_map)
  have "filter (event_order.ties a) ?L = filter (event_order.ties a) ?L'" for a
  proof (rule single_filter_perm [OF L moves_over_apart [OF n v(1)]])
    fix x y
    assume x: "x \<in> set ?L" "y \<in> set ?L" "event_order.ties a x" "event_order.ties a y"
    then have "event_order.ties x y"
      using event_order.negtrans by (meson event_order.ties_def)
    moreover have "\<exists>i o' d. x = (i, Movement o', d)"
      using x(1) by (auto simp: moves_over_def moves_on_def)
    ultimately show "event_index x = event_index y"
      by (rule event_ties_index)
  qed
  moreover have "one_time_ids ?L = one_time_ids ?L'"
    using L by (metis one_time_ids_def set_mset_mset)
  ultimately have "sort_by event_less (replayed model startDate cutInstant ?m (visit ?m)) =
      sort_by event_less (replayed model startDate cutInstant ?m (visit' ?m))"
    by (intro event_order.sort_by_cong_ties) (simp add: replayed_def)
  then show ?thesis
    using Some v by (simp add: history_events_bare)
qed (simp add: history_events_bare)

lemma replay_event_bare: "bare e = bare e' \<Longrightarrow> replay_event pow e = replay_event pow e'"
  by (rule ext) (simp add: bare_def replay_event_def Let_def split: history_item.split)

lemma replay_events_bare:
  "map bare es = map bare es' \<Longrightarrow> replay_events pow es s = replay_events pow es' s"
proof (induction es arbitrary: es' s)
  case (Cons e es)
  then obtain f fs where "es' = f # fs" "bare e = bare f" "map bare es = map bare fs"
    by auto
  then show ?case
    using Cons.IH replay_event_bare [of e f pow]
    by (cases "replay_event pow f s") (auto simp: and_then_def split: sum.split)
qed simp

section \<open>Invariants of the forward pass\<close>

locale replay_invariant =
  fixes pow :: "f64 \<Rightarrow> f64 \<Rightarrow> f64" and I :: "bare_event list \<Rightarrow> replay_state \<Rightarrow> bool"
  assumes observed: "I es s \<Longrightarrow> I (es @ [(i, Observation c, d)]) (observe c (open_day d s))"
    and executed: "I es s \<Longrightarrow>
      ExecuteTransaction pow (rpRuntime (open_day d s)) o' d (ocRule o' = None) = Some (Inr (x, t)) \<Longrightarrow>
      I (es @ [(i, Movement o', d)]) ((open_day d s)\<lparr>rpRuntime := t\<rparr>)"
begin

lemma event_keeps:
  assumes "I es s" "replay_event pow e s = Some (Inr s')"
  shows "I (es @ [bare e]) s'"
proof (cases "heItem e")
  case (Observation c)
  then show ?thesis
    using assms observed [OF assms(1)] by (auto simp: replay_event_def bare_def Let_def)
next
  case (Movement o')
  then show ?thesis
    using assms executed [OF assms(1)]
    by (auto simp: replay_event_def bare_def Let_def executeOccurrence_def split: option.splits sum.splits)
qed

lemma events_keep: "I es s \<Longrightarrow> replay_events pow fs s = Some (Inr s') \<Longrightarrow> I (es @ map bare fs) s'"
proof (induction fs arbitrary: es s)
  case (Cons f fs)
  then obtain s1 where "replay_event pow f s = Some (Inr s1)" "replay_events pow fs s1 = Some (Inr s')"
    by (auto simp: and_then_eq_Inr)
  then show ?case
    using Cons.IH [OF event_keeps [OF Cons.prems(1)]] by simp
qed simp

end

lemma open_day_simps [simp]:
  "rpRuntime (open_day d s) = rpRuntime s" "rpLatestObserved (open_day d s) = rpLatestObserved s"
  "rpAdjustments (open_day d s) = rpAdjustments s"
  by (simp_all add: open_day_def flushDay_def)

text \<open>The observation an account's balance still rests on: nothing has moved through it since.\<close>

definition route :: "DatedTransactionOccurrence \<Rightarrow> string set" where
  "route o' = set_option (trSourceAccountID (ocTransaction o')) \<union> set (destinations (ocTransaction o'))"

definition observed_step :: "string \<Rightarrow> Checkpoint option \<Rightarrow> bare_event \<Rightarrow> Checkpoint option" where
  "observed_step a acc = (\<lambda>(i, x, d). case x of
     Observation c \<Rightarrow> if ckAccountID c = a then Some c else acc
   | Movement o' \<Rightarrow> acc)"

definition anchored_step :: "string \<Rightarrow> Checkpoint option \<Rightarrow> bare_event \<Rightarrow> Checkpoint option" where
  "anchored_step a acc = (\<lambda>(i, x, d). case x of
     Observation c \<Rightarrow> if ckAccountID c = a then Some c else acc
   | Movement o' \<Rightarrow> if a \<in> route o' then None else acc)"

lemma anchor_steps [simp]:
  "observed_step a acc (i, Observation c, d) = (if ckAccountID c = a then Some c else acc)"
  "observed_step a acc (i, Movement o', d) = acc"
  "anchored_step a acc (i, Observation c, d) = (if ckAccountID c = a then Some c else acc)"
  "anchored_step a acc (i, Movement o', d) = (if a \<in> route o' then None else acc)"
  by (simp_all add: observed_step_def anchored_step_def)

definition event_observation :: "bare_event \<Rightarrow> Checkpoint list" where
  "event_observation = (\<lambda>(i, x, d). case x of Observation c \<Rightarrow> [c] | Movement o' \<Rightarrow> [])"

definition adjustment_entry :: "BalanceAdjustment \<Rightarrow> string \<times> int \<times> f64 \<times> string" where
  "adjustment_entry b = (baAccountID b, baObservedAt b, baBalance b, baSource b)"

definition observation_entry :: "Checkpoint \<Rightarrow> string \<times> int \<times> f64 \<times> string" where
  "observation_entry c = (ckAccountID c, ckObservedAt c, roundCurrency (ckBalance c), ckSource c)"

definition observations_recorded :: "bare_event list \<Rightarrow> replay_state \<Rightarrow> bool" where
  "observations_recorded es s \<longleftrightarrow>
     (\<forall>a. Mapping.lookup (rpLatestObserved s) a = foldl (observed_step a) None es) \<and>
     (\<forall>a c. foldl (anchored_step a) None es = Some c \<longrightarrow> balance_of (replay_balances s) a = ckBalance c) \<and>
     map adjustment_entry (rpAdjustments s) = map observation_entry (concat (map event_observation es))"

lemma executed_frame:
  assumes "ExecuteTransaction pow (rpRuntime (open_day d s)) o' d (ocRule o' = None) = Some (Inr (x, t))" "a \<notin> route o'"
  shows "balance_of (ssBalances (rtState t)) a = balance_of (replay_balances s) a"
proof -
  obtain p rate s' where
    p: "PrepareTransactionExecution pow o' d (ocRule o' = None) (snapshotExecutionState (rpRuntime s)) rate = Some (Inr p)"
    and s': "executed_state p d (rtAccountByID (rpRuntime s)) (rtState (rpRuntime s)) = Some s'"
    and t: "t = (rpRuntime s)\<lparr>rtState := s'\<rparr>"
    using assms(1) by (auto elim: ExecuteTransactionE)
  have "execution_route p = route o'"
    using prepared_amount(1) [OF p] by (simp add: execution_route_def route_def)
  then show ?thesis
    using execute_prepared_frame [of a p] executed_state_balances [OF s'] assms(2) by (simp add: t lookup_default_def)
qed

interpretation anchors: replay_invariant pow observations_recorded
  for pow
proof unfold_locales
  fix es s i c d
  assume "observations_recorded es s"
  then show "observations_recorded (es @ [(i, Observation c, d)]) (observe c (open_day d s))"
    by (auto simp: observations_recorded_def observe_def Let_def balance_of_update
        event_observation_def adjustment_entry_def observation_entry_def)
next
  fix es s d o' x t i
  assume I: "observations_recorded es s"
    and e: "ExecuteTransaction pow (rpRuntime (open_day d s)) o' d (ocRule o' = None) = Some (Inr (x, t))"
  show "observations_recorded (es @ [(i, Movement o', d)]) ((open_day d s)\<lparr>rpRuntime := t\<rparr>)"
    using I executed_frame [OF e]
    by (auto simp: observations_recorded_def event_observation_def)
qed

text \<open>An account that is neither observed nor on the route of a movement keeps the balance it started with.\<close>

definition disturbs :: "string \<Rightarrow> bare_event \<Rightarrow> bool" where
  "disturbs a = (\<lambda>(i, x, d). case x of Observation c \<Rightarrow> ckAccountID c = a | Movement o' \<Rightarrow> a \<in> route o')"

definition undisturbed_kept :: "(string \<Rightarrow> f64) \<Rightarrow> bare_event list \<Rightarrow> replay_state \<Rightarrow> bool" where
  "undisturbed_kept initial es s \<longleftrightarrow> (\<forall>a. (\<forall>e\<in>set es. \<not> disturbs a e) \<longrightarrow> balance_of (replay_balances s) a = initial a)"

interpretation undisturbed: replay_invariant pow "undisturbed_kept initial"
  for pow initial
proof unfold_locales
  fix es s i c d
  assume "undisturbed_kept initial es s"
  then show "undisturbed_kept initial (es @ [(i, Observation c, d)]) (observe c (open_day d s))"
    by (auto simp: undisturbed_kept_def disturbs_def observe_def Let_def balance_of_update)
next
  fix es s d o' x t i
  assume "undisturbed_kept initial es s"
    and "ExecuteTransaction pow (rpRuntime (open_day d s)) o' d (ocRule o' = None) = Some (Inr (x, t))"
  then show "undisturbed_kept initial (es @ [(i, Movement o', d)]) ((open_day d s)\<lparr>rpRuntime := t\<rparr>)"
    using executed_frame by (auto simp: undisturbed_kept_def disturbs_def)
qed

text \<open>One snapshot for each day on which something happens, and the corrections of that day.\<close>

definition correction_entry :: "CheckpointCorrection \<Rightarrow> string \<times> f64" where
  "correction_entry c = (ccAccountID c, ccObservedBalance c)"

definition event_day :: "bare_event \<Rightarrow> string" where
  "event_day = (\<lambda>(i, x, d). d)"

definition open_days :: "replay_state \<Rightarrow> string list" where
  "open_days s = map hsDate (rpSnapshots s) @ (if rpCurrentDay s = '''' then [] else [rpCurrentDay s])"

definition corrections_so_far :: "replay_state \<Rightarrow> (string \<times> f64) list" where
  "corrections_so_far s = map correction_entry (concat (map hsCorrections (rpSnapshots s)) @ rpCorrections s)"

lemma event_simps [simp]:
  "event_day (i, x, d) = d" "event_observation (i, Observation c, d) = [c]" "event_observation (i, Movement o', d) = []"
  by (simp_all add: event_day_def event_observation_def)

definition days_sampled :: "bare_event list \<Rightarrow> replay_state \<Rightarrow> bool" where
  "days_sampled es s \<longleftrightarrow>
     ('''' \<notin> event_day ` set es \<longrightarrow> open_days s = remdups_adj (map event_day es) \<and>
        (es = [] \<longrightarrow> rpCurrentDay s = '''') \<and> (es \<noteq> [] \<longrightarrow> rpCurrentDay s = event_day (last es))) \<and>
     corrections_so_far s =
       map (\<lambda>c. (ckAccountID c, ckBalance c)) (concat (map event_observation es))"

lemma remdups_adj_snoc:
  "remdups_adj (xs @ [x]) = (if xs \<noteq> [] \<and> last xs = x then remdups_adj xs else remdups_adj xs @ [x])"
  by (induction xs rule: remdups_adj.induct) (auto split: if_splits)

lemma open_days_open:
  assumes "days_sampled es s" "'''' \<notin> event_day ` set (es @ [(i, x, d)])"
  shows "open_days (open_day d s) = remdups_adj (map event_day (es @ [(i, x, d)])) \<and> rpCurrentDay (open_day d s) = d"
proof -
  have d: "d \<noteq> ''''" and es: "'''' \<notin> event_day ` set es"
    using assms(2) by (auto simp: event_day_def)
  have s: "open_days s = remdups_adj (map event_day es)" "es = [] \<Longrightarrow> rpCurrentDay s = ''''"
      "es \<noteq> [] \<Longrightarrow> rpCurrentDay s = event_day (last es)"
    using assms(1) es by (auto simp: days_sampled_def)
  have last: "es \<noteq> [] \<Longrightarrow> last (map event_day es) = rpCurrentDay s"
    using s(3) by (simp add: last_map)
  have new: "event_day (i, x, d) = d" by (simp add: event_day_def)
  show ?thesis
  proof (cases "rpCurrentDay s = d")
    case True
    then have "es \<noteq> []" using s(2) d by auto
    then show ?thesis
      using True s(1) last by (simp add: open_day_def remdups_adj_snoc new)
  next
    case False
    have "open_days ((flushDay s)\<lparr>rpCurrentDay := d\<rparr>) = open_days s @ [d]"
      using d by (simp add: open_days_def flushDay_def)
    then show ?thesis
      using False s(1) last by (auto simp: open_day_def remdups_adj_snoc new)
  qed
qed

lemma corrections_open [simp]: "corrections_so_far (open_day d s) = corrections_so_far s"
  by (simp add: corrections_so_far_def open_day_def flushDay_def)

lemma observe_sampling:
  "open_days (observe c s) = open_days s" "rpCurrentDay (observe c s) = rpCurrentDay s"
  "corrections_so_far (observe c s) = corrections_so_far s @ [(ckAccountID c, ckBalance c)]"
  by (simp_all add: observe_def open_days_def corrections_so_far_def correction_entry_def Let_def)

interpretation sampling: replay_invariant pow days_sampled
  for pow
proof unfold_locales
  fix es s i c d
  assume I: "days_sampled es s"
  show "days_sampled (es @ [(i, Observation c, d)]) (observe c (open_day d s))"
    using I open_days_open [OF I, of i "Observation c" d] by (simp add: days_sampled_def observe_sampling)
next
  fix es s d o' x t i
  assume I: "days_sampled es s"
  have "open_days (s'\<lparr>rpRuntime := t\<rparr>) = open_days s'" "corrections_so_far (s'\<lparr>rpRuntime := t\<rparr>) = corrections_so_far s'" for s'
    by (simp_all add: open_days_def corrections_so_far_def)
  then show "days_sampled (es @ [(i, Movement o', d)]) ((open_day d s)\<lparr>rpRuntime := t\<rparr>)"
    using I open_days_open [OF I, of i "Movement o'" d] by (simp add: days_sampled_def)
qed

end
