(* ===== verification/History_Properties.thy ===== *)
theory History_Properties
  imports History_Laws Simulation_Properties
begin

text \<open>
  The properties of the replay, with a sample: the monthly deposit of the projection sample, whose
  balance the owner observes at the close of the day of the deposit.
\<close>

section \<open>Observations in the order of the replay\<close>

context less_order
begin

lemma filter_sort_by: "filter P (sort_by lt xs) = sort_by lt (filter P xs)"
proof (rule ordered_by_ties_unique)
  show "ordered_by lt (filter P (sort_by lt xs))"
    using ordered_sort_by [of xs] by (simp add: ordered_by_def sorted_wrt_filter)
  show "filter (ties a) (filter P (sort_by lt xs)) = filter (ties a) (sort_by lt (filter P xs))" for a
  proof -
    have "filter (ties a) (filter P (sort_by lt xs)) = filter P (filter (ties a) (sort_by lt xs))"
      by (simp add: conj_commute)
    also have "\<dots> = filter (ties a) (filter P xs)"
      by (simp add: stable_sort_by conj_commute)
    finally show ?thesis by (simp add: stable_sort_by)
  qed
qed (rule ordered_sort_by)

end

definition is_observation :: "bare_event \<Rightarrow> bool" where
  "is_observation e \<longleftrightarrow> event_observation e \<noteq> []"

definition observation_event :: "Checkpoint \<Rightarrow> bare_event" where
  "observation_event c = (CheckpointInstant c, Observation c, FormatIsoDate (CheckpointInstant c))"

lemma concat_observations: "concat (map event_observation es) = concat (map event_observation (filter is_observation es))"
  by (induction es) (simp_all add: is_observation_def)

lemma not_observations: "filter is_observation (moves_over c m ds) = []" "filter is_observation (early_moves s c A i ts) = []"
proof -
  show "filter is_observation (moves_over c m ds) = []"
    by (auto simp: moves_over_def moves_on_def is_observation_def filter_empty_conv)
  show "filter is_observation (early_moves s c A i ts) = []"
    by (induction ts arbitrary: i) (simp_all add: is_observation_def)
qed

lemma event_less_observation: "event_less (observation_event c) (observation_event d) = observation_less c d"
  by (simp add: event_less_def event_key_def item_key_def observation_event_def observation_less_key observation_key_def
      CheckpointInstant_def)

lemma observations_to_eq:
  "observations_to cutInstant cs = map observation_event (filter (\<lambda>c. replayable cutInstant (CheckpointInstant c)) cs)"
  by (simp add: observations_to_def observation_event_def)

lemma replayed_observations:
  "concat (map event_observation (sort_by event_less (replayed model startDate cutInstant m ds))) =
     SortObservations (filter (\<lambda>c. replayable cutInstant (CheckpointInstant c)) (fmCheckpoints model))"
proof -
  let ?cs = "filter (\<lambda>c. replayable cutInstant (CheckpointInstant c)) (fmCheckpoints model)"
  have "filter is_observation (map observation_event xs) = map observation_event xs" for xs
    by (induction xs) (simp_all add: is_observation_def observation_event_def)
  then have "filter is_observation (replayed model startDate cutInstant m ds) = map observation_event ?cs"
    by (simp add: replayed_def not_observations observations_to_eq)
  then have "filter is_observation (sort_by event_less (replayed model startDate cutInstant m ds)) =
      map observation_event (sort_by observation_less ?cs)"
    using map_sort_by [of observation_event event_less ?cs]
    by (simp add: event_order.filter_sort_by event_less_observation)
  moreover have "concat (map event_observation (map observation_event xs)) = xs" for xs
    by (induction xs) (simp_all add: observation_event_def)
  ultimately show ?thesis
    unfolding concat_observations [of "sort_by _ _"] by (simp add: SortObservations_def)
qed

lemma history_events_sorted:
  assumes "history_events visit model startDate cutInstant = Some es"
  shows "\<exists>m ds. map bare es = sort_by event_less (replayed model startDate cutInstant m ds)"
    and "ordered_by event_less (map bare es)"
proof -
  show *: "\<exists>m ds. map bare es = sort_by event_less (replayed model startDate cutInstant m ds)"
    using history_events_bare [of visit model startDate cutInstant] assms
    by (auto split: option.splits if_splits)
  then show "ordered_by event_less (map bare es)"
    using event_order.ordered_sort_by by auto
qed

lemma replayE:
  assumes "replayChronologicalHistoryAt p model startDate cutInstant = Some (Inr r)"
  obtains es s where "history_events (pcRange p) model startDate cutInstant = Some es"
    "replay_events (envPow (pcEnv p)) es (start_replay model startDate) = Some (Inr s)" "r = finish_replay s"
    "future_checkpoint startDate (fmCheckpoints model) = None"
  using assms by (auto simp: replayChronologicalHistoryAt_def and_then_eq_Inr split: option.splits)

lemma start_recorded: "observations_recorded [] (start_replay model startDate)"
  by (simp add: observations_recorded_def start_replay_def)

lemma start_sampled: "days_sampled [] (start_replay model startDate)"
  by (simp add: days_sampled_def start_replay_def open_days_def corrections_so_far_def)

lemma finish_replay_simps:
  "hrState (finish_replay s) = rtState (rpRuntime s)" "hrLatestObserved (finish_replay s) = rpLatestObserved s"
  "hrAdjustments (finish_replay s) = rpAdjustments s"
  by (simp_all add: finish_replay_def flushDay_def Let_def)

lemma foldl_observed:
  "foldl (observed_step a) acc es =
     (let cs = filter (\<lambda>c. ckAccountID c = a) (concat (map event_observation es)) in if cs = [] then acc else Some (last cs))"
proof (induction es arbitrary: acc)
  case (Cons e es)
  obtain i x d where "e = (i, x, d)" by (cases e)
  then show ?case
    using Cons by (cases x) (simp_all add: Let_def)
qed simp

text \<open>An observation with no movement through its account after it stands.\<close>

lemma anchored_observation:
  "\<lbrakk>ordered_by event_less es; foldl (observed_step a) None es = Some c;
    \<forall>e\<in>set es. is_observation e \<longrightarrow> (\<exists>c. e = observation_event c);
    \<forall>(i, x, d)\<in>set es. \<forall>o'. x = Movement o' \<longrightarrow> CheckpointInstant c < i \<longrightarrow> a \<notin> route o'\<rbrakk>
   \<Longrightarrow> foldl (anchored_step a) None es = Some c"
proof (induction es rule: rev_induct)
  case (snoc e es)
  obtain i x d where e: "e = (i, x, d)" by (cases e)
  show ?case
  proof (cases "event_observation e = [] \<or> a \<noteq> ckAccountID (hd (event_observation e))")
    case False
    then show ?thesis
      using snoc.prems(2) e by (cases x) simp_all
  next
    case True
    have c: "foldl (observed_step a) None es = Some c"
      using snoc.prems(2) e True by (cases x) simp_all
    have ord: "ordered_by event_less es" "\<forall>y\<in>set es. \<not> event_less e y"
      using snoc.prems(1) by (simp_all add: ordered_by_def sorted_wrt_append)
    have IH: "foldl (anchored_step a) None es = Some c"
      using snoc.IH ord(1) c snoc.prems(3,4) by simp
    show ?thesis
    proof (cases x)
      case (Observation c')
      then show ?thesis using IH True e by simp
    next
      case (Movement o')
      have "c \<in> set (concat (map event_observation es))"
        using c unfolding foldl_observed Let_def
        by (metis filter_is_subset in_mono last_in_set option.distinct(1) option.inject)
      then obtain f where f: "f \<in> set es" "c \<in> set (event_observation f)" by auto
      moreover from this have "is_observation f" by (auto simp: is_observation_def)
      ultimately obtain c0 where c0: "f = observation_event c0" using snoc.prems(3) by auto
      with f have "f = observation_event c" by (simp add: observation_event_def)
      then have "\<not> event_less e (observation_event c)" using ord(2) f(1) by auto
      then have "CheckpointInstant c < i"
        using Movement e by (auto simp: event_less_def event_key_def item_key_def observation_event_def not_less)
      then have "a \<notin> route o'" using snoc.prems(4) e Movement by auto
      then show ?thesis using IH e Movement by simp
    qed
  qed
qed simp

lemma replayed_observation_events:
  "e \<in> set (replayed model startDate cutInstant m ds) \<Longrightarrow> is_observation e \<Longrightarrow> \<exists>c. e = observation_event c"
proof -
  assume e: "e \<in> set (replayed model startDate cutInstant m ds)" "is_observation e"
  then have "e \<in> set (filter is_observation (replayed model startDate cutInstant m ds))" by simp
  then show ?thesis
    by (auto simp: replayed_def not_observations observations_to_eq)
qed

section \<open>Days and instants\<close>

definition in_calendar :: "int \<Rightarrow> bool" where
  "in_calendar t \<longleftrightarrow> first_day \<le> t div 86400 \<and> t div 86400 \<le> last_day"

lemma in_calendar_pos: "0 < t \<Longrightarrow> t < 253402300800 \<Longrightarrow> in_calendar t"
proof -
  assume t: "0 < t" "t < 253402300800"
  have "first_day \<le> 0" "last_day = 2932896"
    by code_simp+
  then show ?thesis
    using t by (simp add: in_calendar_def) linarith
qed

lemma FormatIsoDate_day: "FormatIsoDate t = date_of_day (t div 86400)"
  by (simp add: FormatIsoDate_def date_of_day_def)

lemma instant_day:
  assumes "in_calendar t"
  shows "IsValidIsoDate (FormatIsoDate t)" "day_number (FormatIsoDate t) = t div 86400"
  using assms date_of_day by (simp_all add: in_calendar_def FormatIsoDate_day)

lemma instant_day_mono:
  "in_calendar s \<Longrightarrow> in_calendar t \<Longrightarrow> s \<le> t \<Longrightarrow> FormatIsoDate s \<le> FormatIsoDate t"
  using zdiv_mono1 [of s t 86400] by (simp add: date_le_iff instant_day)

lemma day_close_day: "IsValidIsoDate d \<Longrightarrow> dayCloseUnix d = Some i \<Longrightarrow> FormatIsoDate i = d"
  by (auto simp: dayCloseUnix_valid FormatIsoDate_day date_of_day_number)

lemma dayCloseUnix_SomeD: "dayCloseUnix d = Some i \<Longrightarrow> IsValidIsoDate d"
  by (auto simp: dayCloseUnix_def MustParseIsoDate_def IsValidIsoDate_def split: sum.splits)

lemma valid_nonempty [simp]: "\<not> IsValidIsoDate ''''"
  by code_simp

definition occurrence_dated :: "string \<Rightarrow> DatedTransactionOccurrence \<Rightarrow> bool" where
  "occurrence_dated d o' \<longleftrightarrow> (case ocRule o' of
     Some r \<Rightarrow> IsValidIsoDate d
   | None \<Rightarrow> d = transactionDay (ocTransaction o') \<and> d \<noteq> '''')"

definition all_dated :: "DatedTransactionOccurrence list gomap \<Rightarrow> bool" where
  "all_dated m \<longleftrightarrow> (\<forall>d. \<forall>o'\<in>set (go_index [] m d). occurrence_dated d o')"

lemma all_dated_append: "all_dated m \<Longrightarrow> occurrence_dated k v \<Longrightarrow> all_dated (append_at m k v)"
  by (auto simp: all_dated_def go_index_append_at)

lemma add_instances_dated:
  "add_instances specs n res = Some (n', res') \<Longrightarrow> all_dated (roByDate res) \<Longrightarrow> all_dated (roByDate res')"
proof (induction specs n res rule: add_instances.induct)
  case (2 i r d specs n res)
  from 2(2) obtain stamp where stamp: "dayCloseUnix d = Some stamp"
    by (auto split: option.splits)
  then have "occurrence_dated d \<lparr>ocTransaction = rule_instance r stamp, ocIndex = n, ocRule = Some r, ocPurchase = None,
      ocDocPath = Some (''schedules'', i)\<rparr>"
    by (simp add: occurrence_dated_def dayCloseUnix_SomeD)
  then show ?case
    using 2 stamp by (simp add: Let_def all_dated_append)
qed simp

lemma add_transactions_dated:
  "all_dated (roByDate res) \<Longrightarrow> all_dated (roByDate (add_transactions w i ts n res))"
proof (induction ts arbitrary: i n res)
  case (Cons t ts)
  have "occurrence_dated (transactionDay t) \<lparr>ocTransaction = t, ocIndex = n, ocRule = None, ocPurchase = None,
      ocDocPath = Some (''transactions'', i)\<rparr>" if "transactionDay t \<noteq> ''''"
    using that by (simp add: occurrence_dated_def)
  then show ?case
    using Cons by (simp add: Let_def all_dated_append)
qed simp

lemma ResolveOccurrences_dated:
  assumes "ResolveOccurrences rules ts a b incl = Some res"
  shows "all_dated (roByDate res)"
proof -
  obtain specs n res1 where r: "add_instances specs 0 \<lparr>roInstances = [], roByDate = Mapping.empty\<rparr> = Some (n, res1)"
    and res: "res = add_transactions (in_window a b incl) 0 ts n res1"
    using assms by (auto simp: ResolveOccurrences_def Let_def split: option.splits)
  have "all_dated (roByDate res1)"
    by (rule add_instances_dated [OF r]) (simp add: all_dated_def lookup_default_empty)
  then show ?thesis
    unfolding res by (rule add_transactions_dated)
qed

text \<open>Every event has an instant up to the cut, and its day is the day of that instant.\<close>

definition on_its_day :: "int \<Rightarrow> bare_event \<Rightarrow> bool" where
  "on_its_day cutInstant = (\<lambda>(i, x, d). 0 < i \<and> i \<le> cutInstant \<and> d = FormatIsoDate i)"

lemma transactionDay_instant: "transactionDay t = (if TransactionInstant t \<le> 0 then '''' else FormatIsoDate (TransactionInstant t))"
  by (auto simp: transactionDay_def TransactionInstant_def Let_def)

lemma early_on_day: "\<forall>e\<in>set (early_moves s c A i ts). on_its_day c e"
  by (induction ts arbitrary: i) (auto simp: on_its_day_def replayable_def transactionDay_instant)

lemma replayed_on_day:
  assumes "all_dated m" "\<forall>d\<in>set dates. instants_known d (go_index [] m d)"
  shows "\<forall>e\<in>set (replayed model startDate cutInstant m dates). on_its_day cutInstant e"
proof -
  have "\<forall>e\<in>set (moves_over cutInstant m dates). on_its_day cutInstant e"
  proof
    fix e assume "e \<in> set (moves_over cutInstant m dates)"
    then obtain d o' where o: "d \<in> set dates" "o' \<in> set (go_index [] m d)" "trEnabled (ocTransaction o')"
        "replayable cutInstant (the (EffectiveOccurrenceInstant o' d))"
        "e = (the (EffectiveOccurrenceInstant o' d), Movement o', d)"
      by (auto simp: moves_over_def moves_on_def)
    obtain i where i: "EffectiveOccurrenceInstant o' d = Some i"
      using assms(2) o(1-3) by (auto simp: instants_known_def)
    have "occurrence_dated d o'"
      using assms(1) o(2) by (simp add: all_dated_def)
    then have "d = FormatIsoDate i"
      using i day_close_day
      by (auto simp: occurrence_dated_def EffectiveOccurrenceInstant_def transactionDay_instant
          split: option.splits if_splits)
    then show "on_its_day cutInstant e"
      using o(4,5) i by (simp add: on_its_day_def replayable_def)
  qed
  moreover have "\<forall>e\<in>set (observations_to cutInstant (fmCheckpoints model)). on_its_day cutInstant e"
    by (auto simp: observations_to_def on_its_day_def replayable_def)
  ultimately show ?thesis
    using early_on_day by (auto simp: replayed_def)
qed

lemma history_eventsE:
  assumes "history_events visit model startDate cutInstant = Some es"
  obtains r where "history_occurrences model startDate = Some r"
    "map bare es = sort_by event_less (replayed model startDate cutInstant (roByDate r) (visit (roByDate r)))"
    "\<forall>d\<in>set (visit (roByDate r)). instants_known d (go_index [] (roByDate r) d)"
    "\<forall>e\<in>set (map bare es). on_its_day cutInstant e"
proof -
  obtain r where r: "history_occurrences model startDate = Some r"
      "map bare es = sort_by event_less (replayed model startDate cutInstant (roByDate r) (visit (roByDate r)))"
      "\<forall>d\<in>set (visit (roByDate r)). instants_known d (go_index [] (roByDate r) d)"
    using history_events_bare [of visit model startDate cutInstant] assms by (auto split: option.splits if_splits)
  have "all_dated (roByDate r)"
    using r(1) unfolding history_occurrences_def by (rule ResolveOccurrences_dated)
  from replayed_on_day [OF this r(3), of model startDate cutInstant] show ?thesis
    using that [OF r] unfolding r(2) by simp
qed

lemma history_days_nonempty:
  assumes "history_events visit model startDate cutInstant = Some es"
  shows "'''' \<notin> event_day ` set (map bare es)"
proof -
  have "FormatIsoDate i \<noteq> ''''" for i
    by (simp add: FormatIsoDate_def split: prod.split)
  then have "event_day e \<noteq> ''''" if "on_its_day cutInstant e" for e
    using that by (cases e) (auto simp: on_its_day_def)
  moreover have "\<forall>e\<in>set (map bare es). on_its_day cutInstant e"
    using assms by (rule history_eventsE)
  ultimately show ?thesis by (metis imageE)
qed

section \<open>A sample history\<close>

definition seen :: Checkpoint where
  "seen = \<lparr>ckAccountID = ''savings'', ckBalance = FNum 500, ckAvailableBalance = None, ckSource = ''user'',
     ckObservedAt = 1706745599\<rparr>"

definition history_model :: FinancialModel where
  "history_model = empty_model\<lparr>fmAccounts := [wallet, card, savings], fmCheckpoints := [seen], fmSchedules := [deposit]\<rparr>"

definition sample_process :: process where
  "sample_process = \<lparr>pcEnv = sample_env, pcRange = Mapping.ordered_keys, pcParseTime = (\<lambda>_. None)\<rparr>"

lemma sample_process_visits: "range_visits_keys sample_process"
  by (simp add: range_visits_keys_def sample_process_def ordered_keys_def)

definition backward_process :: process where
  "backward_process = sample_process\<lparr>pcRange := (\<lambda>m. rev (Mapping.ordered_keys m))\<rparr>"

lemma backward_process_visits: "range_visits_keys backward_process"
  by (simp add: range_visits_keys_def backward_process_def sample_process_def ordered_keys_def)

lemma seen_day: "FormatIsoDate 1706745599 = ''2024-01-31''" "dayCloseUnix ''2024-01-31'' = Some 1706745599"
  by code_simp+

definition history_moves :: "historyEvent list" where
  "history_moves =
    [\<lparr>heInstant = 1706745599, heItem = Movement deposit_occurrence, heExecDate = ''2024-01-31'', heSeq = 0\<rparr>,
     \<lparr>heInstant = 1706745599, heItem = Observation seen, heExecDate = ''2024-01-31'', heSeq = 1\<rparr>]"

lemma sample_earliest: "earliest_day ''2024-01-31'' [seen] = ''2024-01-31''"
  by (simp add: earliest_day_def CheckpointInstant_def seen_def seen_day Let_def CompareIsoDates_def)

lemma sample_history_occurrences:
  "\<exists>r. ResolveOccurrences [deposit] [] ''2024-01-31'' ''2024-01-31'' True = Some r \<and>
     roByDate r = Mapping.update ''2024-01-31'' [deposit_occurrence] Mapping.empty"
  using sample_event_dates
  by (auto simp: event_dates_def sample_request_def split: option.splits)

lemma sample_history_events:
  "history_events Mapping.ordered_keys history_model ''2024-01-31'' 1706745599 = Some history_moves"
proof -
  obtain r where r: "ResolveOccurrences [deposit] [] ''2024-01-31'' ''2024-01-31'' True = Some r"
      "roByDate r = Mapping.update ''2024-01-31'' [deposit_occurrence] Mapping.empty"
    using sample_history_occurrences by blast
  have "ocRule deposit_occurrence = Some deposit" "trEnabled (ocTransaction deposit_occurrence)"
    by (simp_all add: deposit_occurrence_def rule_instance_def)
  then show ?thesis
    by (simp add: history_events_def history_model_def empty_model_def r sample_earliest ordered_keys_def
        lookup_default_update' EffectiveOccurrenceInstant_def seen_day replayable_def CheckpointInstant_def add_event_def
        history_less_def history_moves_def) (simp add: seen_def seen_day)
qed

lemma sample_replay:
  obtains r where "replayChronologicalHistoryAt sample_process history_model ''2024-01-31'' 1706745599 = Some (Inr r)"
proof -
  have f: "future_checkpoint ''2024-01-31'' (fmCheckpoints history_model) = None"
    by (simp add: future_checkpoint_def history_model_def CheckpointInstant_def seen_def seen_day)
  let ?s = "open_day ''2024-01-31'' (start_replay history_model ''2024-01-31'')"
  have "ssAmountsByYear (rtState (rpRuntime ?s)) = Mapping.empty"
    by (simp add: start_replay_def CreateTransitionRuntime_def CloneSimulationState_def)
  then obtain x t where "ExecuteTransaction (envPow sample_env) (rpRuntime ?s) deposit_occurrence ''2024-01-31'' False = Some (Inr (x, t))"
    using deposit_executes by metis
  then have "replay_event (envPow sample_env) (hd history_moves) (start_replay history_model ''2024-01-31'') = Some (Inr (?s\<lparr>rpRuntime := t\<rparr>))"
    by (simp add: history_moves_def replay_event_def executeOccurrence_def Let_def) (simp add: deposit_occurrence_def)
  then obtain s where "replay_events (envPow sample_env) history_moves (start_replay history_model ''2024-01-31'') = Some (Inr s)"
    by (simp add: history_moves_def) (simp add: replay_event_def Let_def)
  then show ?thesis
    using that f sample_history_events by (simp add: replayChronologicalHistoryAt_def sample_process_def)
qed

section \<open>Properties\<close>

text \<open>
  C7. The replay is deterministic.  The language visits a map in an arbitrary order, but the
  replayed history, its snapshots and adjustments, and every error are the same whatever that
  order is.
\<close>

theorem replay_visit_order:
  assumes "range_visits_keys p" "range_visits_keys p'" "pcEnv p = pcEnv p'"
  shows "replayChronologicalHistoryAt p model startDate cutInstant = replayChronologicalHistoryAt p' model startDate cutInstant"
proof -
  have "map_option (map bare) (history_events (pcRange p) model startDate cutInstant) =
      map_option (map bare) (history_events (pcRange p') model startDate cutInstant)"
    using assms(1,2) unfolding range_visits_keys_def by (intro history_events_visit) blast+
  then have "history_events (pcRange p) model startDate cutInstant = None \<and> history_events (pcRange p') model startDate cutInstant = None \<or>
    (\<exists>es es'. history_events (pcRange p) model startDate cutInstant = Some es \<and>
       history_events (pcRange p') model startDate cutInstant = Some es' \<and> map bare es = map bare es')"
    by (cases "history_events (pcRange p) model startDate cutInstant";
        cases "history_events (pcRange p') model startDate cutInstant") auto
  then show ?thesis
  proof (elim disjE exE conjE)
    fix es es' assume e: "history_events (pcRange p) model startDate cutInstant = Some es"
      "history_events (pcRange p') model startDate cutInstant = Some es'" "map bare es = map bare es'"
    show ?thesis
      unfolding replayChronologicalHistoryAt_def e(1,2) assms(3) option.case
      by (simp only: replay_events_bare [OF e(3)])
  qed (simp add: replayChronologicalHistoryAt_def split: option.split)
qed

lemma replay_visit_order_witness:
  "replayChronologicalHistoryAt sample_process history_model ''2024-01-31'' 1706745599 =
     replayChronologicalHistoryAt backward_process history_model ''2024-01-31'' 1706745599"
  using replay_visit_order [OF sample_process_visits backward_process_visits] by (simp add: backward_process_def)

text \<open>
  C10. Observations apply once each, in the order of \<open>SortObservations\<close> (by instant, at the same
  instant the owner's last), and none after the cut.  The adjustments and the corrections of the
  snapshots list exactly them, and the latest observation of an account is the last of its own.
\<close>

theorem replay_observations:
  assumes "replayChronologicalHistoryAt p model startDate cutInstant = Some (Inr r)"
  shows "let observations = SortObservations (filter (\<lambda>c. 0 < ckObservedAt c \<and> ckObservedAt c \<le> cutInstant) (fmCheckpoints model))
    in map (\<lambda>b. (baAccountID b, baObservedAt b, baBalance b, baSource b)) (hrAdjustments r) =
         map (\<lambda>c. (ckAccountID c, ckObservedAt c, roundCurrency (ckBalance c), ckSource c)) observations \<and>
       map (\<lambda>c. (ccAccountID c, ccObservedBalance c)) (concat (map hsCorrections (hrSnapshots r))) =
         map (\<lambda>c. (ckAccountID c, ckBalance c)) observations \<and>
       (\<forall>a. Mapping.lookup (hrLatestObserved r) a =
          (let own = filter (\<lambda>c. ckAccountID c = a) observations in if own = [] then None else Some (last own)))"
proof -
  obtain es s where es: "history_events (pcRange p) model startDate cutInstant = Some es"
    and s: "replay_events (envPow (pcEnv p)) es (start_replay model startDate) = Some (Inr s)" "r = finish_replay s"
    using assms by (rule replayE)
  have obs: "concat (map event_observation (map bare es)) =
      SortObservations (filter (\<lambda>c. 0 < ckObservedAt c \<and> ckObservedAt c \<le> cutInstant) (fmCheckpoints model))"
  proof -
    obtain m ds where "map bare es = sort_by event_less (replayed model startDate cutInstant m ds)"
      using history_events_sorted(1) [OF es] by blast
    then show ?thesis
      by (simp only: replayed_observations) (simp add: replayable_def CheckpointInstant_def)
  qed
  have "'''' \<notin> event_day ` set (map bare es)"
    using es by (rule history_days_nonempty)
  moreover have d: "days_sampled (map bare es) s"
    using sampling.events_keep [OF start_sampled s(1)] by simp
  ultimately have day: "es \<noteq> [] \<longrightarrow> rpCurrentDay s = event_day (last (map bare es))"
    and nonempty: "'''' \<notin> event_day ` set (map bare es)"
    by (simp_all add: days_sampled_def)
  have "rpCurrentDay s \<noteq> ''''" if "es \<noteq> []"
  proof -
    have "last (map bare es) \<in> set (map bare es)"
      using that by (intro last_in_set) simp
    then have "event_day (last (map bare es)) \<noteq> ''''"
      using nonempty by (metis imageI)
    with day that show ?thesis by simp
  qed
  moreover have "es = [] \<longrightarrow> rpCorrections s = []"
    using d by (auto simp: days_sampled_def corrections_so_far_def)
  ultimately have "map correction_entry (concat (map hsCorrections (hrSnapshots r))) = corrections_so_far s"
    by (cases "es = []") (auto simp: s(2) finish_replay_def flushDay_def corrections_so_far_def Let_def)
  moreover have "observations_recorded (map bare es) s"
    using anchors.events_keep [OF start_recorded s(1)] by simp
  ultimately show ?thesis
    using d obs
    by (simp add: observations_recorded_def days_sampled_def s(2) finish_replay_simps foldl_observed
        adjustment_entry_def [abs_def] observation_entry_def [abs_def] correction_entry_def [abs_def])
qed

lemma replay_observations_witness:
  "\<exists>r. replayChronologicalHistoryAt sample_process history_model ''2024-01-31'' 1706745599 = Some (Inr r) \<and>
     map baAccountID (hrAdjustments r) = [''savings''] \<and> Mapping.lookup (hrLatestObserved r) ''savings'' = Some seen"
proof -
  obtain r where r: "replayChronologicalHistoryAt sample_process history_model ''2024-01-31'' 1706745599 = Some (Inr r)"
    by (rule sample_replay)
  have "filter (\<lambda>c. 0 < ckObservedAt c \<and> ckObservedAt c \<le> 1706745599) (fmCheckpoints history_model) = [seen]"
    by (simp add: history_model_def seen_def)
  then show ?thesis
    using r replay_observations [OF r] by (auto simp: SortObservations_def Let_def seen_def)
qed

lemma InitAccountBalances_zero: "balance_of (InitAccountBalances accounts) a = 0"
proof -
  have "balance_of m a = 0 \<Longrightarrow> balance_of (foldl (\<lambda>m x. Mapping.update (acID x) 0 m) m accounts) a = 0" for m :: "f64 gomap"
    by (induction accounts arbitrary: m) (simp_all add: balance_of_update)
  then show ?thesis
    by (simp add: InitAccountBalances_def lookup_default_empty)
qed

lemma start_undisturbed: "undisturbed_kept (\<lambda>a. 0) [] (start_replay model startDate)"
  by (simp add: undisturbed_kept_def start_replay_def CreateTransitionRuntime_def CloneSimulationState_def
      SnapshotBalances_def InitAccountBalances_zero)

lemma never_observed: "foldl (observed_step a) None es = None \<Longrightarrow> e \<in> set es \<Longrightarrow> e = (i, Observation c, d) \<Longrightarrow> ckAccountID c \<noteq> a"
  by (fastforce simp: foldl_observed Let_def filter_empty_conv split: if_splits)

text \<open>
  C6. An observation sets its account's balance, and nothing but movements changes the others.  Unless a movement after the
  latest observation of an account goes through the account, its balance at the cut is the observed one, whatever was
  modelled before and whatever the other accounts do.  An account that has no observation and that no movement goes
  through ends at the balance every account starts with, zero.
\<close>

theorem replay_anchors:
  assumes "replayChronologicalHistoryAt p model startDate cutInstant = Some (Inr r)"
    and "history_events (pcRange p) model startDate cutInstant = Some es"
    and "\<forall>e\<in>set es. \<forall>o'. heItem e = Movement o' \<and>
           (case Mapping.lookup (hrLatestObserved r) a of None \<Rightarrow> True | Some c \<Rightarrow> ckObservedAt c < heInstant e) \<longrightarrow>
           trSourceAccountID (ocTransaction o') \<noteq> Some a \<and> a \<notin> set (destinations (ocTransaction o'))"
  shows "balance_of (ssBalances (hrState r)) a =
    (case Mapping.lookup (hrLatestObserved r) a of None \<Rightarrow> 0 | Some c \<Rightarrow> ckBalance c)"
proof -
  obtain s where s: "replay_events (envPow (pcEnv p)) es (start_replay model startDate) = Some (Inr s)" "r = finish_replay s"
    using assms(1,2) by (auto elim: replayE)
  have rec: "observations_recorded (map bare es) s"
    using anchors.events_keep [OF start_recorded s(1)] by simp
  have latest: "foldl (observed_step a) None (map bare es) = Mapping.lookup (hrLatestObserved r) a"
    using rec by (simp add: observations_recorded_def s(2) finish_replay_simps)
  show ?thesis
  proof (cases "Mapping.lookup (hrLatestObserved r) a")
    case None
    have "undisturbed_kept (\<lambda>a. 0) (map bare es) s"
      using undisturbed.events_keep [OF start_undisturbed s(1)] by simp
    moreover have "\<not> disturbs a (bare e)" if e: "e \<in> set es" for e
    proof (cases "heItem e")
      case (Observation c)
      moreover have "bare e \<in> set (map bare es)" using e by simp
      ultimately show ?thesis
        using never_observed [OF latest [unfolded None], of "bare e"] by (simp add: disturbs_def bare_def)
    next
      case (Movement o')
      with assms(3) e show ?thesis
        by (auto simp: None disturbs_def bare_def route_def)
    qed
    ultimately show ?thesis
      using None by (simp add: undisturbed_kept_def s(2) finish_replay_simps)
  next
    case (Some c)
    have "\<forall>e\<in>set (map bare es). is_observation e \<longrightarrow> (\<exists>c. e = observation_event c)"
      using history_events_sorted(1) [OF assms(2)] replayed_observation_events by (metis set_sort_by)
    moreover have "\<forall>(i, x, d)\<in>set (map bare es). \<forall>o'. x = Movement o' \<longrightarrow> CheckpointInstant c < i \<longrightarrow> a \<notin> route o'"
    proof -
      have "a \<notin> route o'" if "e \<in> set es" "heItem e = Movement o'" "ckObservedAt c < heInstant e" for e o'
        using assms(3) that by (auto simp: Some route_def)
      then show ?thesis
        by (auto simp: bare_def CheckpointInstant_def)
    qed
    ultimately have "foldl (anchored_step a) None (map bare es) = Some c"
      using anchored_observation [OF history_events_sorted(2) [OF assms(2)]] latest Some by simp
    then have "balance_of (replay_balances s) a = ckBalance c"
      using rec unfolding observations_recorded_def by blast
    moreover have "hrState r = rtState (rpRuntime s)"
      by (simp add: s(2) finish_replay_simps)
    ultimately show ?thesis
      by (simp add: Some)
  qed
qed

lemma replay_anchors_witness:
  "\<exists>r. replayChronologicalHistoryAt sample_process history_model ''2024-01-31'' 1706745599 = Some (Inr r) \<and>
     balance_of (ssBalances (hrState r)) ''savings'' = FNum 500 \<and> balance_of (ssBalances (hrState r)) ''card'' = 0"
proof -
  obtain r where r: "replayChronologicalHistoryAt sample_process history_model ''2024-01-31'' 1706745599 = Some (Inr r)"
    by (rule sample_replay)
  obtain s where s: "replay_events (envPow (pcEnv sample_process)) history_moves (start_replay history_model ''2024-01-31'') = Some (Inr s)"
      "r = finish_replay s"
    using r sample_history_events by (auto elim!: replayE simp: sample_process_def)
  have "observations_recorded (map bare history_moves) s"
    using anchors.events_keep [OF start_recorded s(1)] by simp
  then have latest: "Mapping.lookup (hrLatestObserved r) ''savings'' = Some seen" "Mapping.lookup (hrLatestObserved r) ''card'' = None"
    by (simp_all add: observations_recorded_def s(2) finish_replay_simps history_moves_def bare_def) (simp_all add: seen_def)
  have events: "history_events (pcRange sample_process) history_model ''2024-01-31'' 1706745599 = Some history_moves"
    using sample_history_events by (simp add: sample_process_def)
  have "balance_of (ssBalances (hrState r)) ''savings'' = ckBalance seen"
    using replay_anchors [OF r events, of "''savings''"] by (simp add: latest) (simp add: history_moves_def seen_def)
  moreover have "balance_of (ssBalances (hrState r)) ''card'' = 0"
    using replay_anchors [OF r events, of "''card''"]
    by (simp add: latest) (simp add: history_moves_def deposit_occurrence_def rule_instance_def deposit_def destinations_def)
  ultimately show ?thesis
    using r by (simp add: seen_def)
qed

lemma sorted_remdups_adj: "sorted (xs :: 'a::linorder list) \<Longrightarrow> sorted_wrt (<) (remdups_adj xs)"
  by (induction xs rule: remdups_adj.induct) force+

text \<open>
  The historical snapshots are one a day: for each calendar day with an event, in increasing
  order, none after the day of the cut, and the last one is the state the replay ends in.
\<close>

theorem replay_snapshots:
  assumes "replayChronologicalHistoryAt p model startDate cutInstant = Some (Inr r)"
    and "history_events (pcRange p) model startDate cutInstant = Some es" "cutInstant < 253402300800"
  shows "sorted_wrt (<) (map hsDate (hrSnapshots r)) \<and> set (map hsDate (hrSnapshots r)) = heExecDate ` set es \<and>
    (\<forall>d\<in>set (map hsDate (hrSnapshots r)). IsValidIsoDate d \<and> d \<le> FormatIsoDate cutInstant) \<and>
    (es \<noteq> [] \<longrightarrow> hsBalances (last (hrSnapshots r)) = ssBalances (hrState r))"
proof -
  obtain s where s: "replay_events (envPow (pcEnv p)) es (start_replay model startDate) = Some (Inr s)" "r = finish_replay s"
    using assms(1,2) by (auto elim: replayE)
  have day: "\<forall>e\<in>set (map bare es). on_its_day cutInstant e"
    using assms(2) by (rule history_eventsE)
  then have cal: "0 < i \<and> i \<le> cutInstant \<and> in_calendar i \<and> in_calendar cutInstant \<and> d = FormatIsoDate i" if "(i, x, d) \<in> set (map bare es)" for i x d
    using that assms(3) in_calendar_pos [of i] in_calendar_pos [of cutInstant] by (force simp: on_its_day_def)
  have valid: "\<forall>d\<in>event_day ` set (map bare es). IsValidIsoDate d \<and> d \<le> FormatIsoDate cutInstant"
    using cal instant_day(1) instant_day_mono by (fastforce simp: event_day_def)
  have "sorted_wrt (\<lambda>x y. \<not> event_less y x) (map bare es)"
    using history_events_sorted(2) [OF assms(2)] by (simp add: ordered_by_def)
  then have "sorted_wrt (\<lambda>x y. event_day x \<le> event_day y) (map bare es)"
  proof (rule sorted_wrt_mono_rel [rotated])
    fix x y assume xy: "x \<in> set (map bare es)" "y \<in> set (map bare es)" "\<not> event_less y x"
    obtain i v d j w e where "x = (i, v, d)" "y = (j, w, e)" by (cases x; cases y) auto
    then show "event_day x \<le> event_day y"
      using cal [of i v d] cal [of j w e] xy instant_day_mono [of i j]
      by (auto simp: event_less_def event_key_def)
  qed
  then have "sorted (map event_day (map bare es))"
    by (simp add: sorted_wrt_map)
  then have sorted: "sorted_wrt (<) (remdups_adj (map event_day (map bare es)))"
    by (rule sorted_remdups_adj)
  have sampled: "days_sampled (map bare es) s"
    using sampling.events_keep [OF start_sampled s(1)] by simp
  have "'''' \<notin> event_day ` set (map bare es)"
    using valid by auto
  with sampled have opened: "open_days s = remdups_adj (map event_day (map bare es))"
      "es \<noteq> [] \<longrightarrow> rpCurrentDay s = event_day (last (map bare es))"
    by (auto simp: days_sampled_def)
  have "map hsDate (hrSnapshots r) = open_days s"
    by (simp add: s(2) finish_replay_def flushDay_def open_days_def Let_def)
  moreover have "es \<noteq> [] \<longrightarrow> rpCurrentDay s \<noteq> ''''"
    using opened(2) valid by (metis imageI last_in_set list.map_disc_iff valid_nonempty)
  then have "es \<noteq> [] \<longrightarrow> hsBalances (last (hrSnapshots r)) = ssBalances (hrState r)"
    by (simp add: s(2) finish_replay_def flushDay_def SnapshotBalances_def Let_def)
  moreover have "event_day ` set (map bare es) = heExecDate ` set es"
    by (auto simp: event_day_def bare_def image_iff)
  ultimately show ?thesis
    using sorted valid by (simp add: opened(1) image_image)
qed

lemma replay_snapshots_witness:
  "\<exists>r. replayChronologicalHistoryAt sample_process history_model ''2024-01-31'' 1706745599 = Some (Inr r) \<and>
     set (map hsDate (hrSnapshots r)) = {''2024-01-31''} \<and> sorted_wrt (<) (map hsDate (hrSnapshots r))"
proof -
  obtain r where r: "replayChronologicalHistoryAt sample_process history_model ''2024-01-31'' 1706745599 = Some (Inr r)"
    by (rule sample_replay)
  have "heExecDate ` set history_moves = {''2024-01-31''}"
    by (simp add: history_moves_def)
  then show ?thesis
    using r replay_snapshots [OF r, of history_moves] sample_history_events by (simp add: sample_process_def)
qed

end
