(* ===== verification/Cut_Properties.thy ===== *)
theory Cut_Properties
  imports History_Properties
begin

text \<open>
  The history cut: preparation and projection together.  What the replay executes and what the
  simulation attempts are disjoint and together complete, and the current position read at a cut is
  the state a projection with that cut starts from.
\<close>

section \<open>A prepared request\<close>

lemma prepareE:
  assumes "PrepareSimulationRequest p validate model settings overrides sample = Some (Inr prep)"
  obtains r cutInstant endDate where
    "replayChronologicalHistoryAt p (ppEffectiveModel prep) (psFallbackProjectionStartDate settings) cutInstant = Some (Inr r)"
    "IsValidIsoDate (psFallbackProjectionStartDate settings)"
    "request_cut settings (psFallbackProjectionStartDate settings) = Some (Inr cutInstant)"
    "ppEffectiveModel prep = ApplyModelOverrides (case model of None \<Rightarrow> empty_model | Some m \<Rightarrow> m) overrides"
    "ppRequest prep = \<lparr>rqModel = simulation_inputs (ppEffectiveModel prep), rqInitialState = hrState r,
       rqStartDate = psFallbackProjectionStartDate settings, rqEndDate = endDate, rqIncludeStartDateEvents = True,
       rqMonteCarloSample = sample, rqHistoryCutInstant = cutInstant\<rparr>"
    "ppHistoricalSnapshots prep = hrSnapshots r"
  using assms that
  by (auto simp: PrepareSimulationRequest_def preparePositionWithValidator_def Let_def and_then_eq_Inr
      split: option.splits sum.splits if_splits)

lemma request_cut_day:
  assumes "request_cut settings startDate = Some (Inr cutInstant)" "IsValidIsoDate startDate"
  shows "FormatIsoDate cutInstant = startDate"
  using assms by (auto simp: request_cut_def day_close_day split: option.splits if_splits)

section \<open>The movements of the history and of the run\<close>



definition origin_instant :: "DatedTransactionOccurrence \<Rightarrow> string \<Rightarrow> int" where
  "origin_instant o' d = the (EffectiveOccurrenceInstant o' d)"








section \<open>Due dates do not depend on the end of the window\<close>


section \<open>The window of a request meets the window of its history\<close>







section \<open>Properties\<close>


definition sample_settings :: ProjectionRuntimeSettings where
  "sample_settings = \<lparr>psFallbackProjectionStartDate = ''2024-01-31'', psHorizonYears = 0,
     psEvaluations = EmptyEvaluationTables, psAsOfInstant = None\<rparr>"

lemma history_model_effective: "ApplyModelOverrides history_model EmptyModelOverrides = history_model"
  by (simp add: ApplyModelOverrides_empty history_model_def empty_model_def seen_def savings_def)

lemma sample_prepared:
  obtains prep r where "PrepareSimulationRequest sample_process (\<lambda>_. Some []) (Some history_model) sample_settings
      EmptyModelOverrides None = Some (Inr prep)"
    "replayChronologicalHistoryAt sample_process history_model ''2024-01-31'' 1706745599 = Some (Inr r)"
    "ppEffectiveModel prep = history_model"
    "ppRequest prep = \<lparr>rqModel = simulation_inputs history_model, rqInitialState = hrState r,
       rqStartDate = ''2024-01-31'', rqEndDate = ''2024-01-31'', rqIncludeStartDateEvents = True,
       rqMonteCarloSample = None, rqHistoryCutInstant = 1706745599\<rparr>"
proof -
  obtain r where r: "replayChronologicalHistoryAt sample_process history_model ''2024-01-31'' 1706745599 = Some (Inr r)"
    by (rule sample_replay)
  have "AddYearsClamped ''2024-01-31'' 0 = Some ''2024-01-31''" "IsValidIsoDate ''2024-01-31''"
    by code_simp+
  note dates = this
  have f: "psFallbackProjectionStartDate sample_settings = ''2024-01-31''" "psHorizonYears sample_settings = 0"
    "request_cut sample_settings ''2024-01-31'' = Some (Inr 1706745599)"
    by (simp_all add: sample_settings_def request_cut_def seen_day)
  have g: "requireResimulationAllowed (pcEnv sample_process) caller = Some (Inr ())" for caller
    by (simp add: requireResimulationAllowed_def sample_process_def sample_env_def)
  have "preparePositionWithValidator sample_process (Some history_model) ''2024-01-31'' 1706745599 EmptyModelOverrides (\<lambda>_. Some []) =
      Some (Inr \<lparr>poModel = history_model, poState = hrState r, poSnapshots = hrSnapshots r,
        poIncludeStartDateEvents = hrIncludeStartDateEvents r, poReplay = r\<rparr>)"
    by (simp add: preparePositionWithValidator_def history_model_effective r dates(2))
  then show ?thesis
    using that r by (simp add: PrepareSimulationRequest_def f g dates Let_def)
qed


text \<open>Observations after the cut do not reach the replay.\<close>

definition up_to :: "int \<Rightarrow> FinancialModel \<Rightarrow> FinancialModel" where
  "up_to cutInstant model = model\<lparr>fmCheckpoints := filter (\<lambda>c. CheckpointInstant c \<le> cutInstant) (fmCheckpoints model)\<rparr>"

lemma up_to_simps [simp]:
  "fmAccounts (up_to i m) = fmAccounts m" "fmTransactions (up_to i m) = fmTransactions m"
  "fmSchedules (up_to i m) = fmSchedules m" "simulation_inputs (up_to i m) = simulation_inputs m"
  "fmCheckpoints (up_to i m) = filter (\<lambda>c. CheckpointInstant c \<le> i) (fmCheckpoints m)"
  by (simp_all add: up_to_def simulation_inputs_def)

lemma ApplyModelOverrides_up_to: "ApplyModelOverrides (up_to i m) ov = up_to i (ApplyModelOverrides m ov)"
  by (simp add: ApplyModelOverrides_def up_to_def Let_def conj_commute)

lemma earliest_day_up_to:
  assumes "in_calendar cutInstant" "\<forall>c\<in>set cs. in_calendar (CheckpointInstant c)" "e \<le> FormatIsoDate cutInstant"
  shows "earliest_day e (filter (\<lambda>c. CheckpointInstant c \<le> cutInstant) cs) = earliest_day e cs"
  using assms(2,3)
proof (induction cs arbitrary: e)
  case (Cons c cs)
  let ?day = "FormatIsoDate (CheckpointInstant c)" and ?keep = "filter (\<lambda>c. CheckpointInstant c \<le> cutInstant) cs"
  have step: "earliest_day e (c # cs) = earliest_day (if ?day < e then ?day else e) cs" for cs
    by (cases "?day < e") (simp_all add: earliest_day_def Let_def)
  have IH: "earliest_day (if ?day < e then ?day else e) ?keep = earliest_day (if ?day < e then ?day else e) cs"
    using Cons by (intro Cons.IH) (auto dest: order.strict_trans1 less_imp_le)
  show ?case
  proof (cases "CheckpointInstant c \<le> cutInstant")
    case True
    then show ?thesis using IH by (simp add: step)
  next
    case False
    then have "e \<le> ?day"
      using instant_day_mono [OF assms(1), of "CheckpointInstant c"] Cons.prems by auto
    then show ?thesis
      using False IH by (simp add: step) (simp add: not_less [symmetric])
  qed
qed (simp add: earliest_day_def)

lemma observations_up_to: "collect_observations i (filter (\<lambda>c. CheckpointInstant c \<le> i) cs) es = collect_observations i cs es"
  by (induction cs arbitrary: es) (auto simp: replayable_def)

lemma replay_up_to:
  assumes "in_calendar cutInstant" "FormatIsoDate cutInstant = startDate"
    "\<forall>c\<in>set (fmCheckpoints model). in_calendar (CheckpointInstant c)"
    "future_checkpoint startDate (fmCheckpoints model) = None"
  shows "replayChronologicalHistoryAt p (up_to cutInstant model) startDate cutInstant =
    replayChronologicalHistoryAt p model startDate cutInstant"
proof -
  have "earliest_day startDate (fmCheckpoints (up_to cutInstant model)) = earliest_day startDate (fmCheckpoints model)"
    using earliest_day_up_to [OF assms(1,3), of startDate] assms(2) by simp
  then have "history_events visit (up_to cutInstant model) startDate cutInstant = history_events visit model startDate cutInstant" for visit
    by (simp add: history_events_def observations_up_to split: option.split)
  moreover have "future_checkpoint startDate (fmCheckpoints (up_to cutInstant model)) = None"
    using assms(4) by (auto simp: future_checkpoint_def find_None_iff)
  moreover have "start_replay (up_to cutInstant model) d = start_replay model d" for d
    by (simp add: start_replay_def)
  ultimately show ?thesis
    using assms(4) by (simp add: replayChronologicalHistoryAt_def split: option.split)
qed

text \<open>
  C35. The balances read now are the balances a projection from now starts with.  At the same cut and
  with the same overrides, the current position shows for every account exactly the balance in the
  initial state of the prepared projection, and the net worth of that state.
\<close>

theorem position_is_baseline:
  assumes prep: "PrepareSimulationRequest p validate (Some model) settings overrides sample = Some (Inr prep)"
    and position: "ResolveCurrentPosition p validateFinance (Some model) asOf overrides = Some (Inr pos)"
    and same: "ParseAsOfCut p asOf = Some (Inr (rqHistoryCutInstant (ppRequest prep), rqStartDate (ppRequest prep)))"
    and instants: "0 < rqHistoryCutInstant (ppRequest prep)" "rqHistoryCutInstant (ppRequest prep) < 253402300800"
      "\<forall>c\<in>set (fmCheckpoints (ppEffectiveModel prep)). 0 < ckObservedAt c \<and> ckObservedAt c < 253402300800"
  shows "map paAccountID (cpAccounts pos) = map acID (fmAccounts (ppEffectiveModel prep)) \<and>
    map paUnroundedBalance (cpAccounts pos) =
      map (\<lambda>a. balance_of (ssBalances (rqInitialState (ppRequest prep))) (acID a)) (fmAccounts (ppEffectiveModel prep)) \<and>
    cpNetWorth pos = roundCurrency
      (ComputeNetWorth (ssBalances (rqInitialState (ppRequest prep))) (fmAccounts (ppEffectiveModel prep)))"
proof -
  obtain r cutInstant endDate where
    r: "replayChronologicalHistoryAt p (ppEffectiveModel prep) (psFallbackProjectionStartDate settings) cutInstant = Some (Inr r)"
    and d: "IsValidIsoDate (psFallbackProjectionStartDate settings)"
      "request_cut settings (psFallbackProjectionStartDate settings) = Some (Inr cutInstant)"
    and eff: "ppEffectiveModel prep = ApplyModelOverrides model overrides"
    and q: "ppRequest prep = \<lparr>rqModel = simulation_inputs (ppEffectiveModel prep), rqInitialState = hrState (r :: historicalReplay),
       rqStartDate = psFallbackProjectionStartDate settings, rqEndDate = endDate, rqIncludeStartDateEvents = True,
       rqMonteCarloSample = sample, rqHistoryCutInstant = cutInstant\<rparr>"
    by (rule prepareE [OF prep]) (simp add: that)
  define s where "s = psFallbackProjectionStartDate settings"
  have cal: "in_calendar cutInstant" "FormatIsoDate cutInstant = s"
    using instants(1,2) request_cut_day [OF d(2,1)] by (simp_all add: q in_calendar_pos s_def)
  have cks: "\<forall>c\<in>set (fmCheckpoints (ppEffectiveModel prep)). in_calendar (CheckpointInstant c)"
    using instants(3) by (simp add: in_calendar_pos CheckpointInstant_def)
  have future: "future_checkpoint s (fmCheckpoints (ppEffectiveModel prep)) = None"
    using r by (auto elim: replayE simp: s_def)
  have "replayChronologicalHistoryAt p (up_to cutInstant (ppEffectiveModel prep)) s cutInstant = Some (Inr r)"
    using replay_up_to [OF cal cks future] r by (simp add: s_def)
  moreover have "ParseAsOfCut p asOf = Some (Inr (cutInstant, s))"
    using same by (simp add: q s_def)
  moreover have "map_option (\<lambda>m. m\<lparr>fmCheckpoints := filter (\<lambda>c. CheckpointInstant c \<le> cutInstant) (fmCheckpoints m)\<rparr>) (Some model) =
      Some (up_to cutInstant model)"
    by (simp add: up_to_def)
  moreover have "ApplyModelOverrides (up_to cutInstant model) overrides = up_to cutInstant (ppEffectiveModel prep)"
    by (simp add: ApplyModelOverrides_up_to eff)
  moreover define P where "P = \<lparr>poModel = up_to cutInstant (ppEffectiveModel prep), poState = hrState r,
      poSnapshots = hrSnapshots r, poIncludeStartDateEvents = hrIncludeStartDateEvents r, poReplay = r\<rparr>"
  ultimately have "pos = \<lparr>cpAsOfDate = asOf,
       cpNetWorth = roundCurrency (ComputeNetWorth (ssBalances (poState P)) (fmAccounts (poModel P))),
       cpAccounts = map (position_account P) (fmAccounts (poModel P))\<rparr>"
    using position
    by (auto simp: ResolveCurrentPosition_def prepareFinancePositionAt_def preparePositionWithValidator_def Let_def
        and_then_eq_Inr split: option.splits if_splits)
  moreover have "poState P = hrState r" "poModel P = up_to cutInstant (ppEffectiveModel prep)"
    by (simp_all add: P_def)
  ultimately show ?thesis
    by (simp add: q position_account_def Let_def comp_def)
qed

lemma position_is_baseline_witness:
  "\<exists>prep pos. PrepareSimulationRequest sample_process (\<lambda>_. Some []) (Some history_model) sample_settings
      EmptyModelOverrides None = Some (Inr prep) \<and>
    ResolveCurrentPosition sample_process (\<lambda>_. Some []) (Some history_model) ''2024-01-31'' EmptyModelOverrides = Some (Inr pos) \<and>
    map paAccountID (cpAccounts pos) = map acID [wallet, card, savings]"
proof -
  obtain prep r where prep: "PrepareSimulationRequest sample_process (\<lambda>_. Some []) (Some history_model) sample_settings
      EmptyModelOverrides None = Some (Inr prep)" "ppEffectiveModel prep = history_model"
    and r: "replayChronologicalHistoryAt sample_process history_model ''2024-01-31'' 1706745599 = Some (Inr (r :: historicalReplay))"
    and q: "ppRequest prep = \<lparr>rqModel = simulation_inputs history_model, rqInitialState = hrState r,
       rqStartDate = ''2024-01-31'', rqEndDate = ''2024-01-31'', rqIncludeStartDateEvents = True,
       rqMonteCarloSample = None, rqHistoryCutInstant = 1706745599\<rparr>"
    by (rule sample_prepared) (simp add: that)
  have "IsValidIsoDate ''2024-01-31''" by code_simp
  then have cut: "ParseAsOfCut sample_process ''2024-01-31'' = Some (Inr (1706745599, ''2024-01-31''))"
    by (simp add: ParseAsOfCut_def seen_day)
  have "history_model\<lparr>fmCheckpoints := filter (\<lambda>c. CheckpointInstant c \<le> 1706745599) (fmCheckpoints history_model)\<rparr> = history_model"
    by (simp add: history_model_def CheckpointInstant_def seen_def)
  then obtain pos where pos: "ResolveCurrentPosition sample_process (\<lambda>_. Some []) (Some history_model) ''2024-01-31'' EmptyModelOverrides = Some (Inr pos)"
    using \<open>IsValidIsoDate ''2024-01-31''\<close>
    by (simp add: ResolveCurrentPosition_def cut prepareFinancePositionAt_def preparePositionWithValidator_def
        history_model_effective r Let_def)
  have "map paAccountID (cpAccounts pos) = map acID (fmAccounts (ppEffectiveModel prep))"
    using position_is_baseline [OF prep(1) pos] cut by (simp add: q prep(2)) (simp add: history_model_def seen_def)
  then show ?thesis
    using prep pos by (auto simp: history_model_def)
qed

end
