(* ===== verification/Path.thy ===== *)
theory Path
  imports History
begin

text \<open>
  Projection paths: the rows of \<open>backend/internal/types/projection.go\<close> and the adaptation of a run
  (\<open>createRow\<close>, \<open>classifyAttempts\<close> and \<open>buildProjectionPath\<close> of \<open>path.go\<close>,
  \<open>EvaluateAccountBalance\<close> of \<open>evaluation_account_balance.go\<close> and its loan variant in
  \<open>account_display_balance.go\<close>).
\<close>

section \<open>Rows\<close>

record AccountDelta =
  imTransactionID :: string
  imDelta :: f64

record AccountSnapshot =
  saAccountID :: string
  saDate :: string
  saBalance :: f64
  saImpacts :: "AccountDelta list"

record ProjectionRow =
  rwDate :: string
  rwIsHistorical :: bool
  rwNetWorth :: f64
  rwAccountSnapshots :: "AccountSnapshot list"
  rwExternalInflowAmount :: f64
  rwExternalOutflowAmount :: f64
  rwInternalTransferAmount :: f64
  rwCheckpointCorrections :: "CheckpointCorrection list"

record ProjectionStartState =
  pzLatestAmounts :: "f64 gomap"
  pzLatestDates :: "string gomap"
  pzAmountsByYear :: "f64 gomap gomap"

record ProjectionPath =
  phRows :: "ProjectionRow list"
  phTransactionEvents :: "TransactionEvent list"
  phEffectiveModel :: FinancialModel
  phStartState :: ProjectionStartState
  phStartDate :: string
  phEndDate :: string
  phHistoryCutInstant :: int

definition account_snapshot ::
  "string \<Rightarrow> f64 gomap \<Rightarrow> AccountDelta list gomap \<Rightarrow> Account \<Rightarrow> AccountSnapshot" where
  "account_snapshot date balances accountImpacts account =
     \<lparr>saAccountID = acID account, saDate = date, saBalance = balance_of balances (acID account),
      saImpacts = go_index [] accountImpacts (acID account)\<rparr>"

record classifiedAttempts =
  caAccountImpacts :: "AccountDelta list gomap"
  caExternalInflowAmount :: f64
  caExternalOutflowAmount :: f64
  caInternalTransferAmount :: f64

definition no_attempts :: classifiedAttempts where
  "no_attempts =
     \<lparr>caAccountImpacts = Mapping.empty, caExternalInflowAmount = 0, caExternalOutflowAmount = 0,
      caInternalTransferAmount = 0\<rparr>"

text \<open>\<open>createRow\<close>; its three amounts and the impacts arrive together as the classified attempts.\<close>

definition createRow ::
  "string \<Rightarrow> bool \<Rightarrow> f64 gomap \<Rightarrow> Account list \<Rightarrow> classifiedAttempts \<Rightarrow> CheckpointCorrection list \<Rightarrow> ProjectionRow" where
  "createRow date isHistorical balances accounts classified checkpointCorrections =
     \<lparr>rwDate = date, rwIsHistorical = isHistorical, rwNetWorth = ComputeNetWorth balances accounts,
      rwAccountSnapshots = map (account_snapshot date balances (caAccountImpacts classified)) accounts,
      rwExternalInflowAmount = caExternalInflowAmount classified,
      rwExternalOutflowAmount = caExternalOutflowAmount classified,
      rwInternalTransferAmount = caInternalTransferAmount classified,
      rwCheckpointCorrections = checkpointCorrections\<rparr>"

section \<open>Attempts of a day\<close>

definition add_impact :: "string \<Rightarrow> AccountDelta list gomap \<Rightarrow> AccountDeltaEntry \<Rightarrow> AccountDelta list gomap" where
  "add_impact transactionID impacts delta =
     append_at impacts (deAccountID delta) \<lparr>imTransactionID = transactionID, imDelta = deDelta delta\<rparr>"

definition classify_attempt ::
  "Transaction gomap \<Rightarrow> classifiedAttempts \<Rightarrow> TransactionEvent \<Rightarrow> classifiedAttempts" where
  "classify_attempt transactionsByID result attempt =
     (case Mapping.lookup transactionsByID (teTransactionID attempt) of
        None \<Rightarrow> result
      | Some t \<Rightarrow>
          (let result = result\<lparr>caAccountImpacts :=
                 foldl (add_impact (trID t)) (caAccountImpacts result) (teAccountDeltas attempt)\<rparr>
           in if IsExternalInflow t
              then result\<lparr>caExternalInflowAmount := caExternalInflowAmount result + teRealizedAmount attempt\<rparr>
              else if IsExternalOutflow t
              then result\<lparr>caExternalOutflowAmount := caExternalOutflowAmount result + teRealizedAmount attempt\<rparr>
              else if IsInternalTransfer t
              then result\<lparr>caInternalTransferAmount := caInternalTransferAmount result + teRealizedAmount attempt\<rparr>
              else result))"

definition classifyAttempts :: "TransactionEvent list \<Rightarrow> Transaction gomap \<Rightarrow> classifiedAttempts" where
  "classifyAttempts attempts transactionsByID = foldl (classify_attempt transactionsByID) no_attempts attempts"

definition transactions_by_id :: "FinancialModel \<Rightarrow> Transaction gomap" where
  "transactions_by_id model =
     foldl (\<lambda>m t. Mapping.update (trID t) t m) Mapping.empty (ResolvedTransactionTransactions model)"

definition attempts_by_date :: "TransactionEvent list \<Rightarrow> TransactionEvent list gomap" where
  "attempts_by_date attempts = foldl (\<lambda>m a. append_at m (teDate a) a) Mapping.empty attempts"

section \<open>The path of a run\<close>

definition historical_row :: "FinancialModel \<Rightarrow> HistoricalObservationSnapshot \<Rightarrow> ProjectionRow" where
  "historical_row model s =
     createRow (hsDate s) True (hsBalances s) (fmAccounts model) no_attempts (hsCorrections s)"

definition projected_row :: "FinancialModel \<Rightarrow> SimulationRun \<Rightarrow> bool \<Rightarrow> SimulationSnapshot \<Rightarrow> ProjectionRow" where
  "projected_row model run detailed s =
     createRow (snDate s) False (snBalances s) (fmAccounts model)
       (if detailed
        then classifyAttempts (go_index [] (attempts_by_date (rnTransactionAttempts run)) (snDate s)) (transactions_by_id model)
        else no_attempts)
       []"

definition buildProjectionPath :: "PreparedProjection \<Rightarrow> SimulationRun \<Rightarrow> bool \<Rightarrow> ProjectionPath" where
  "buildProjectionPath prepared run detailed =
     (let effectiveModel = ppEffectiveModel prepared;
          initialState = CloneSimulationState (rnInitialState run)
      in \<lparr>phRows = map (historical_row effectiveModel) (ppHistoricalSnapshots prepared) @
                   map (projected_row effectiveModel run detailed) (rnSnapshots run),
          phTransactionEvents = rnTransactionAttempts run, phEffectiveModel = effectiveModel,
          phStartState = \<lparr>pzLatestAmounts = ssLatestAmounts initialState, pzLatestDates = ssLatestDates initialState,
            pzAmountsByYear = ssAmountsByYear initialState\<rparr>,
          phStartDate = rnStartDate run, phEndDate = rnEndDate run,
          phHistoryCutInstant = rqHistoryCutInstant (ppRequest prepared)\<rparr>)"

definition BuildProjectionPath :: "PreparedProjection \<Rightarrow> SimulationRun \<Rightarrow> ProjectionPath" where
  "BuildProjectionPath prepared run = buildProjectionPath prepared run True"

definition BuildStochasticSamplePath :: "PreparedProjection \<Rightarrow> SimulationRun \<Rightarrow> ProjectionPath" where
  "BuildStochasticSamplePath prepared run = buildProjectionPath prepared run False"

section \<open>Reaching a balance\<close>

record AccountBalancePathResult =
  arReached :: bool
  arFirstReachedDate :: "string option"

definition accountBalanceInRow :: "ProjectionRow \<Rightarrow> string \<Rightarrow> f64 option" where
  "accountBalanceInRow row accountID =
     map_option saBalance (find (\<lambda>s. saAccountID s = accountID) (rwAccountSnapshots row))"

text \<open>The sum over the components of a loan, if every one of them is in the row.\<close>

fun display_total :: "ProjectionRow \<Rightarrow> f64 \<Rightarrow> AccountComponent list \<Rightarrow> f64 option" where
  "display_total row subtotal [] = Some subtotal"
| "display_total row subtotal (component # components) =
     (case accountBalanceInRow row (cpAccountID component) of
        None \<Rightarrow> None
      | Some balance \<Rightarrow> display_total row (subtotal + balance) components)"

definition first_reached :: "(ProjectionRow \<Rightarrow> f64 option) \<Rightarrow> f64 \<Rightarrow> ProjectionRow list \<Rightarrow> AccountBalancePathResult" where
  "first_reached balance target rows =
     (let reached = find (\<lambda>row. \<not> rwIsHistorical row \<and> (case balance row of None \<Rightarrow> False | Some b \<Rightarrow> target \<le> b)) rows
      in \<lparr>arReached = (reached \<noteq> None), arFirstReachedDate = map_option rwDate reached\<rparr>)"

definition evaluateDisplayAccountBalance :: "ProjectionPath \<Rightarrow> AccountDisplay \<Rightarrow> f64 \<Rightarrow> AccountBalancePathResult" where
  "evaluateDisplayAccountBalance path display target =
     first_reached (\<lambda>row. display_total row 0 (adComponents display)) target (phRows path)"

text \<open>The position of an account in the model, then in a row: the fast path of the loop.\<close>

definition balance_at_index :: "nat option \<Rightarrow> string \<Rightarrow> ProjectionRow \<Rightarrow> f64 option" where
  "balance_at_index index accountID row =
     (case index of
        Some i \<Rightarrow>
          if i < length (rwAccountSnapshots row) \<and> saAccountID (rwAccountSnapshots row ! i) = accountID
          then Some (saBalance (rwAccountSnapshots row ! i))
          else accountBalanceInRow row accountID
      | None \<Rightarrow> accountBalanceInRow row accountID)"

fun account_position :: "string \<Rightarrow> nat \<Rightarrow> Account list \<Rightarrow> (nat \<times> Account) option" where
  "account_position accountID i [] = None"
| "account_position accountID i (a # as) =
     (if acID a = accountID then Some (i, a) else account_position accountID (i + 1) as)"

text \<open>\<open>!ok || balance < target\<close> continues the loop: a NaN balance counts as reached.\<close>

definition EvaluateAccountBalance :: "ProjectionPath \<Rightarrow> string \<Rightarrow> f64 \<Rightarrow> AccountBalancePathResult" where
  "EvaluateAccountBalance path accountID target =
     (let position = account_position accountID 0 (fmAccounts (phEffectiveModel path));
          reached = find (\<lambda>row. \<not> rwIsHistorical row \<and>
            (case balance_at_index (map_option fst position) accountID row of None \<Rightarrow> False | Some b \<Rightarrow> \<not> b < target)) (phRows path)
      in case Option.bind position (\<lambda>(i, a). acDisplay a) of
           Some display \<Rightarrow> evaluateDisplayAccountBalance path display target
         | None \<Rightarrow> \<lparr>arReached = (reached \<noteq> None), arFirstReachedDate = map_option rwDate reached\<rparr>)"

end
