(* ===== verification/Funding.thy ===== *)
theory Funding
  imports Path
begin

text \<open>
  The assessment of transaction events: \<open>evaluation_constraints.go\<close> and \<open>funding.go\<close> under
  \<open>backend/internal/domain\<close>.  Balances before each event are reconstructed backwards from the
  row of its date; the constraints that bound a shortfall are classified against them.  \<open>None\<close> is
  the panic of slicing the year out of a date shorter than four bytes.
\<close>

section \<open>Constraints\<close>

definition transactionEpsilon :: f64 where
  "transactionEpsilon = f64_of_rat (1 / 1000000000)"

record accountTransactionConstraint =
  kcType :: string
  kcAccountID :: string
  kcAccountIDs :: "string list"

definition constraint_toTypes :: "accountTransactionConstraint \<Rightarrow> json" where
  "constraint_toTypes c =
     (if kcType c = ''source-unavailable'' \<or> kcType c = ''source-floor''
      then JObj [(''type'', JStr (kcType c)), (''accountId'', JStr (kcAccountID c))]
      else if kcType c = ''destination-ceiling''
      then JObj [(''type'', JStr (kcType c)), (''accountIds'', JArr (map JStr (kcAccountIDs c)))]
      else JObj [(''type'', JStr ''action-limit'')])"

record transactionConstraintInput =
  kiSourceAccountID :: "string option"
  kiDestinations :: "string list option"
  kiRequestedAmount :: f64
  kiRealizedAmount :: f64
  kiBalancesBefore :: "f64 gomap"
  kiAccountsByID :: "Account gomap"
  kiLimitRemaining :: "f64 option"

definition isBinding :: "f64 \<Rightarrow> f64 \<Rightarrow> bool" where
  "isBinding limit realized \<longleftrightarrow> \<not> isInf limit \<and> math_Abs (limit - realized) < transactionEpsilon"

text \<open>The part of the classification after the source.\<close>

definition destination_and_limit :: "transactionConstraintInput \<Rightarrow> accountTransactionConstraint list" where
  "destination_and_limit input =
     (case kiDestinations input of
        None \<Rightarrow> []
      | Some ds \<Rightarrow>
          if isBinding (GetTotalDestinationHeadroom (kiBalancesBefore input) (kiAccountsByID input) ds) (kiRealizedAmount input)
          then [\<lparr>kcType = ''destination-ceiling'', kcAccountID = '''', kcAccountIDs = ds\<rparr>] else []) @
     (case kiLimitRemaining input of
        None \<Rightarrow> []
      | Some limit \<Rightarrow>
          if isBinding limit (kiRealizedAmount input)
          then [\<lparr>kcType = ''action-limit'', kcAccountID = '''', kcAccountIDs = []\<rparr>] else [])"

definition ClassifyTransactionConstraints :: "transactionConstraintInput \<Rightarrow> accountTransactionConstraint list" where
  "ClassifyTransactionConstraints input =
     (if kiRequestedAmount input - kiRealizedAmount input \<le> transactionEpsilon then []
      else case kiSourceAccountID input of
        Some s \<Rightarrow>
          if \<not> accountExists (kiAccountsByID input) s
          then [\<lparr>kcType = ''source-unavailable'', kcAccountID = s, kcAccountIDs = []\<rparr>]
          else
            (if isBinding (GetWithdrawableAmount (kiBalancesBefore input) (kiAccountsByID input) s) (kiRealizedAmount input)
             then [\<lparr>kcType = ''source-floor'', kcAccountID = s, kcAccountIDs = []\<rparr>] else []) @
            destination_and_limit input
      | None \<Rightarrow> destination_and_limit input)"

section \<open>Balances before each event\<close>

definition projected_rows_by_date :: "ProjectionRow list \<Rightarrow> ProjectionRow gomap" where
  "projected_rows_by_date rows =
     foldl (\<lambda>m row. if rwIsHistorical row then m else Mapping.update (rwDate row) row m) Mapping.empty rows"

definition row_balances :: "ProjectionRow \<Rightarrow> f64 gomap" where
  "row_balances row = foldl (\<lambda>m s. Mapping.update (saAccountID s) (saBalance s) m) Mapping.empty (rwAccountSnapshots row)"

definition undo_delta :: "f64 gomap \<Rightarrow> AccountDeltaEntry \<Rightarrow> f64 gomap" where
  "undo_delta before delta =
     Mapping.update (deAccountID delta) (balance_of before (deAccountID delta) - deDelta delta) before"

fun undo_events :: "TransactionEvent list \<Rightarrow> f64 gomap \<Rightarrow> (int, f64 gomap) mapping \<Rightarrow> (int, f64 gomap) mapping" where
  "undo_events [] balances m = m"
| "undo_events (event # events) balances m =
     (let before = foldl undo_delta balances (teAccountDeltas event)
      in undo_events events before (Mapping.update (teSequence event) before m))"

definition reconstruct_date ::
  "ProjectionRow gomap \<Rightarrow> TransactionEvent list gomap \<Rightarrow> (int, f64 gomap) mapping \<Rightarrow> string \<Rightarrow> (int, f64 gomap) mapping" where
  "reconstruct_date rows events m date =
     (case Mapping.lookup rows date of
        None \<Rightarrow> m
      | Some row \<Rightarrow>
          undo_events (sort_by (\<lambda>a b. teSequence b < teSequence a) (go_index [] events date)) (row_balances row) m)"

definition ReconstructBalancesBeforeEvents :: "ProjectionPath \<Rightarrow> (int, f64 gomap) mapping" where
  "ReconstructBalancesBeforeEvents path =
     (let events = attempts_by_date (phTransactionEvents path)
      in foldl (reconstruct_date (projected_rows_by_date (phRows path)) events) Mapping.empty (Mapping.ordered_keys events))"

section \<open>The assessment\<close>

definition minReportableUnfulfilledAmount :: f64 where
  "minReportableUnfulfilledAmount = f64_of_rat (1 / 2)"

definition reportableUnfulfilled :: "TransactionEvent \<Rightarrow> f64" where
  "reportableUnfulfilled event =
     (let amount = math_Max 0 (teRequestedAmount event - teRealizedAmount event)
      in if minReportableUnfulfilledAmount \<le> amount then amount else 0)"

record evaluatedTransactionEvent =
  eeEvent :: TransactionEvent
  eeBindingConstraints :: "accountTransactionConstraint list"
  eeDestinationLimited :: f64
  eeUnfulfilled :: f64
  eeFundingShortfall :: f64
  eeCapRemaining :: "f64 option"
  eeAvailableAmount :: "f64 option"

definition evaluated_fulfillment :: "evaluatedTransactionEvent \<Rightarrow> TransactionFulfillment" where
  "evaluated_fulfillment evaluated =
     \<lparr>tfUnfulfilledAmount = roundCurrency (eeUnfulfilled evaluated),
      tfDestinationLimitedAmount = roundCurrency (eeDestinationLimited evaluated)\<rparr>"

definition availableAmountFromLimits ::
  "Transaction option \<Rightarrow> f64 gomap \<Rightarrow> bool \<Rightarrow> Account gomap \<Rightarrow> f64 option \<Rightarrow> f64 option" where
  "availableAmountFromLimits transaction balancesBefore hasBalances accountsByID capRemaining =
     (case transaction of
        None \<Rightarrow> None
      | Some t \<Rightarrow>
          if \<not> hasBalances then None
          else
            let available = FInf False;
                available = (case trSourceAccountID t of
                    None \<Rightarrow> available
                  | Some s \<Rightarrow>
                      if Mapping.lookup accountsByID s \<noteq> None
                      then math_Min available (GetWithdrawableAmount balancesBefore accountsByID s) else 0);
                available = (case trDestinations t of
                    None \<Rightarrow> available
                  | Some ds \<Rightarrow> math_Min available (GetTotalDestinationHeadroom balancesBefore accountsByID ds));
                available = (case capRemaining of None \<Rightarrow> available | Some c \<Rightarrow> math_Min available c)
            in if isInf available then None else Some (roundCurrency available))"

definition cap_key :: "string \<Rightarrow> string \<Rightarrow> string" where
  "cap_key transactionID year = transactionID @ CHR '':'' # year"

definition start_realized :: "f64 gomap gomap \<Rightarrow> f64 gomap" where
  "start_realized amountsByYear =
     foldl (\<lambda>m i. foldl (\<lambda>m year. Mapping.update (cap_key i year) (balance_of (go_index Mapping.empty amountsByYear i) year) m)
         m (Mapping.ordered_keys (go_index Mapping.empty amountsByYear i)))
       Mapping.empty (Mapping.ordered_keys amountsByYear)"

record assessment =
  asAccountsByID :: "Account gomap"
  asTransactionsByID :: "Transaction gomap"
  asCapsByID :: "f64 gomap"
  asBalancesBefore :: "(int, f64 gomap) mapping"

definition event_less_by_sequence :: "TransactionEvent \<Rightarrow> TransactionEvent \<Rightarrow> bool" where
  "event_less_by_sequence a b \<longleftrightarrow>
     (if teDate a \<noteq> teDate b then teDate a < teDate b else teSequence a < teSequence b)"

text \<open>What is left of the cap before an event, for a capped identity that the model knows.\<close>

definition cap_before :: "assessment \<Rightarrow> f64 \<Rightarrow> TransactionEvent \<Rightarrow> f64 option" where
  "cap_before x realizedBefore event =
     (case (Mapping.lookup (asCapsByID x) (teTransactionID event), Mapping.lookup (asTransactionsByID x) (teTransactionID event)) of
        (Some c, Some _) \<Rightarrow> Some (math_Max 0 (c - realizedBefore))
      | _ \<Rightarrow> None)"

definition event_constraints :: "assessment \<Rightarrow> f64 \<Rightarrow> TransactionEvent \<Rightarrow> accountTransactionConstraint list" where
  "event_constraints x realizedBefore event =
     (case Mapping.lookup (asTransactionsByID x) (teTransactionID event) of
        None \<Rightarrow> []
      | Some t \<Rightarrow>
          ClassifyTransactionConstraints
            \<lparr>kiSourceAccountID = trSourceAccountID t, kiDestinations = trDestinations t,
             kiRequestedAmount = teRequestedAmount event, kiRealizedAmount = teRealizedAmount event,
             kiBalancesBefore = Mapping.lookup_default Mapping.empty (asBalancesBefore x) (teSequence event),
             kiAccountsByID = asAccountsByID x, kiLimitRemaining = cap_before x realizedBefore event\<rparr>)"

definition evaluate_event :: "assessment \<Rightarrow> f64 \<Rightarrow> TransactionEvent \<Rightarrow> evaluatedTransactionEvent" where
  "evaluate_event x realizedBefore event =
     (let bindingConstraints = event_constraints x realizedBefore event;
          residual = reportableUnfulfilled event;
          destinationLimited = (\<exists>c\<in>set bindingConstraints. kcType c = ''destination-ceiling'')
      in \<lparr>eeEvent = event, eeBindingConstraints = bindingConstraints,
          eeDestinationLimited = (if destinationLimited then residual else 0),
          eeUnfulfilled = (if destinationLimited then 0 else residual),
          eeFundingShortfall =
            (if destinationLimited then 0 else math_Max 0 (teRequestedAmount event - teRealizedAmount event)),
          eeCapRemaining = cap_before x realizedBefore event,
          eeAvailableAmount =
            (case Mapping.lookup (asBalancesBefore x) (teSequence event) of
               None \<Rightarrow> None
             | Some balances \<Rightarrow>
                 if bindingConstraints \<noteq> []
                 then availableAmountFromLimits (Mapping.lookup (asTransactionsByID x) (teTransactionID event)) balances True
                        (asAccountsByID x) (cap_before x realizedBefore event)
                 else None)\<rparr>)"

fun evaluate_events ::
  "assessment \<Rightarrow> f64 gomap \<Rightarrow> TransactionEvent list \<Rightarrow> evaluatedTransactionEvent list option" where
  "evaluate_events x realized [] = Some []"
| "evaluate_events x realized (event # events) =
     (if length (teDate event) < 4 then None
      else
        let capKey = cap_key (teTransactionID event) (take 4 (teDate event));
            realizedBefore = balance_of realized capKey;
            realized = Mapping.update capKey (realizedBefore + maxFloat 0 (teRealizedAmount event)) realized
        in map_option ((#) (evaluate_event x realizedBefore event)) (evaluate_events x realized events))"

definition path_assessment :: "ProjectionPath \<Rightarrow> assessment" where
  "path_assessment path =
     \<lparr>asAccountsByID = accountIndex (fmAccounts (phEffectiveModel path)),
      asTransactionsByID = transactions_by_id (phEffectiveModel path),
      asCapsByID = RuleCapsByID (phEffectiveModel path),
      asBalancesBefore = ReconstructBalancesBeforeEvents path\<rparr>"

definition evaluateTransactionEvents :: "ProjectionPath \<Rightarrow> evaluatedTransactionEvent list option" where
  "evaluateTransactionEvents path =
     evaluate_events (path_assessment path) (start_realized (pzAmountsByYear (phStartState path)))
       (sort_by event_less_by_sequence (phTransactionEvents path))"

definition hasFundingGapAfter :: "ProjectionPath \<Rightarrow> string \<Rightarrow> int \<Rightarrow> bool option" where
  "hasFundingGapAfter path date sequence =
     map_option (\<lambda>evaluated. \<exists>e\<in>set evaluated.
         (date < teDate (eeEvent e) \<or> teDate (eeEvent e) = date \<and> sequence < teSequence (eeEvent e)) \<and>
         transactionEpsilon < eeFundingShortfall e)
       (evaluateTransactionEvents path)"

definition HasFundingGapFrom :: "ProjectionPath \<Rightarrow> string \<Rightarrow> bool option" where
  "HasFundingGapFrom path date = hasFundingGapAfter path date (- 1)"

end
