(* ===== verification/Report.thy ===== *)
theory Report
  imports Funding
begin

text \<open>
  Public results: the rest of \<open>backend/internal/domain/path.go\<close>.  Events and rows are shown rounded
  to whole currency.  \<open>roundRow\<close> takes its row by value but writes through its slices, which the
  row shares with the path it comes from: the snapshots and corrections of the path are rounded in
  place, the row's own fields are not.  \<open>shared_after_round\<close> is what is left in the path, and
  \<open>RenderProjectionResult\<close> returns the rows it was given as the call leaves them.
\<close>

section \<open>Rounding\<close>

definition round_delta :: "AccountDeltaEntry \<Rightarrow> AccountDeltaEntry" where
  "round_delta delta = delta\<lparr>deDelta := roundCurrency (deDelta delta)\<rparr>"

definition cloneTransactionEvent :: "TransactionEvent \<Rightarrow> TransactionEvent" where
  "cloneTransactionEvent event =
     event\<lparr>teRequestedAmount := roundCurrency (teRequestedAmount event),
       teRealizedAmount := roundCurrency (teRealizedAmount event),
       teAccountDeltas := map round_delta (teAccountDeltas event),
       teAvailableAmount := map_option roundCurrency (teAvailableAmount event)\<rparr>"

definition round_snapshot :: "AccountSnapshot \<Rightarrow> AccountSnapshot" where
  "round_snapshot s =
     s\<lparr>saBalance := roundCurrency (saBalance s),
       saImpacts := map (\<lambda>i. i\<lparr>imDelta := roundCurrency (imDelta i)\<rparr>) (saImpacts s)\<rparr>"

definition round_correction :: "CheckpointCorrection \<Rightarrow> CheckpointCorrection" where
  "round_correction c =
     c\<lparr>ccObservedBalance := roundCurrency (ccObservedBalance c),
       ccModeledBalance := roundCurrency (ccModeledBalance c), ccAdjustment := roundCurrency (ccAdjustment c)\<rparr>"

definition roundRow :: "ProjectionRow \<Rightarrow> ProjectionRow" where
  "roundRow row =
     row\<lparr>rwNetWorth := roundCurrency (rwNetWorth row),
       rwExternalInflowAmount := roundCurrency (rwExternalInflowAmount row),
       rwExternalOutflowAmount := roundCurrency (rwExternalOutflowAmount row),
       rwInternalTransferAmount := roundCurrency (rwInternalTransferAmount row),
       rwAccountSnapshots := map round_snapshot (rwAccountSnapshots row),
       rwCheckpointCorrections := map round_correction (rwCheckpointCorrections row)\<rparr>"

definition shared_after_round :: "ProjectionRow \<Rightarrow> ProjectionRow" where
  "shared_after_round row =
     row\<lparr>rwAccountSnapshots := rwAccountSnapshots (roundRow row),
       rwCheckpointCorrections := rwCheckpointCorrections (roundRow row)\<rparr>"

section \<open>Events\<close>

definition public_event :: "evaluatedTransactionEvent option \<Rightarrow> TransactionEvent \<Rightarrow> TransactionEvent" where
  "public_event evaluated source =
     (let constraints = (case evaluated of None \<Rightarrow> [] | Some e \<Rightarrow> eeBindingConstraints e)
      in (cloneTransactionEvent source)
          \<lparr>teFulfillment := Some (case evaluated of
               None \<Rightarrow> \<lparr>tfUnfulfilledAmount = roundCurrency 0, tfDestinationLimitedAmount = roundCurrency 0\<rparr>
             | Some e \<Rightarrow> evaluated_fulfillment e),
           teBindingConstraints := map constraint_toTypes constraints,
           teAvailableAmount := (if constraints = [] then None else Option.bind evaluated eeAvailableAmount)\<rparr>)"

definition publicTransactionEvents :: "ProjectionPath \<Rightarrow> TransactionEvent list option" where
  "publicTransactionEvents path =
     map_option (\<lambda>evaluated.
         let evaluatedBySequence =
               foldl (\<lambda>m e. Mapping.update (teSequence (eeEvent e)) e m) Mapping.empty evaluated
         in map (\<lambda>source. public_event (Mapping.lookup evaluatedBySequence (teSequence source)) source)
              (phTransactionEvents path))
       (evaluateTransactionEvents path)"

section \<open>Results\<close>

record ProjectionAccountSummary =
  pmAccountID :: string
  pmName :: string
  pmColor :: "string option"
  pmEnabled :: bool
  pmStartingBalance :: f64
  pmEndingBalance :: f64

record ProjectionResult =
  pjRows :: "ProjectionRow list"
  pjAccountSummaries :: "ProjectionAccountSummary list"
  pjExternalInflowAmount :: f64
  pjExternalOutflowAmount :: f64
  pjInternalTransferAmount :: f64
  pjLatestHistoricalDate :: "string option"
  pjProjectionStartDate :: string
  pjCurrentNetWorth :: f64
  pjFinalNetWorth :: f64
  pjTransactionEvents :: "TransactionEvent list"

definition last_row :: "ProjectionRow list \<Rightarrow> ProjectionRow option" where
  "last_row rows = (if rows = [] then None else Some (last rows))"

definition account_summary :: "f64 gomap \<Rightarrow> f64 gomap \<Rightarrow> Account \<Rightarrow> ProjectionAccountSummary" where
  "account_summary initialBalances endingBalances account =
     \<lparr>pmAccountID = acID account, pmName = acName account, pmColor = acColor account, pmEnabled = acEnabled account,
      pmStartingBalance = roundCurrency (balance_of initialBalances (acID account)),
      pmEndingBalance = roundCurrency (balance_of endingBalances (acID account))\<rparr>"

definition sum_rows :: "(ProjectionRow \<Rightarrow> f64) \<Rightarrow> ProjectionRow list \<Rightarrow> f64" where
  "sum_rows f rows = foldl (\<lambda>t row. t + f row) 0 rows"

definition RenderProjectionResult ::
  "ProjectionRow list \<Rightarrow> TransactionEvent list \<Rightarrow> FinancialModel \<Rightarrow> f64 gomap \<Rightarrow> string \<Rightarrow>
   ProjectionResult \<times> ProjectionRow list" where
  "RenderProjectionResult rows events model initialBalances startDate =
     (let accounts = fmAccounts model;
          latestHistoricalRow = last_row (filter rwIsHistorical rows);
          latestRow = last_row rows;
          currentNetWorth = (case latestHistoricalRow of
            None \<Rightarrow> ComputeNetWorth initialBalances accounts | Some row \<Rightarrow> rwNetWorth row);
          endingBalances = (case latestRow of None \<Rightarrow> initialBalances | Some row \<Rightarrow> row_balances row);
          finalNetWorth = (case latestRow of None \<Rightarrow> currentNetWorth | Some row \<Rightarrow> rwNetWorth row)
      in (\<lparr>pjRows = map roundRow rows,
           pjAccountSummaries = map (account_summary initialBalances endingBalances) accounts,
           pjExternalInflowAmount = roundCurrency (sum_rows rwExternalInflowAmount rows),
           pjExternalOutflowAmount = roundCurrency (sum_rows rwExternalOutflowAmount rows),
           pjInternalTransferAmount = roundCurrency (sum_rows rwInternalTransferAmount rows),
           pjLatestHistoricalDate = map_option rwDate latestHistoricalRow,
           pjProjectionStartDate = startDate,
           pjCurrentNetWorth = roundCurrency currentNetWorth,
           pjFinalNetWorth = roundCurrency finalNetWorth,
           pjTransactionEvents = events\<rparr>,
          map shared_after_round rows))"

definition AdaptSimulationRun :: "PreparedProjection \<Rightarrow> SimulationRun \<Rightarrow> (ProjectionPath \<times> ProjectionResult) option" where
  "AdaptSimulationRun prepared run =
     (let path = BuildProjectionPath prepared run
      in map_option (\<lambda>events.
           let (result, rows) = RenderProjectionResult (phRows path) events (phEffectiveModel path)
                 (ssBalances (rnInitialState run)) (rnStartDate run)
           in (path\<lparr>phRows := rows\<rparr>, result))
         (publicTransactionEvents path))"

section \<open>Entry points\<close>

text \<open>
  An orchestrated call counts as one, so the resimulation guard lets it through
  (\<open>withOrchestratorSim\<close> of \<open>evaluation_runtime.go\<close>).
\<close>

definition orchestrated :: "environment \<Rightarrow> environment" where
  "orchestrated env = env\<lparr>envResimulationAllowed := True\<rparr>"

definition orchestratedPrepare ::
  "process \<Rightarrow> (FinancialModel \<Rightarrow> ModelValidationIssue list option) \<Rightarrow> FinancialModel option \<Rightarrow>
   ProjectionRuntimeSettings \<Rightarrow> ModelOverrides \<Rightarrow> MonteCarloSample option \<Rightarrow>
   (preparation_error + PreparedProjection) option" where
  "orchestratedPrepare p validateModel model settings overrides sample =
     PrepareSimulationRequest (p\<lparr>pcEnv := orchestrated (pcEnv p)\<rparr>) validateModel model settings overrides sample"

definition orchestratedSimulate :: "environment \<Rightarrow> SimulationRequest \<Rightarrow> (execution_error + SimulationRun) option" where
  "orchestratedSimulate env request = Simulate (orchestrated env) request"

datatype projection_error = PrepareFailed preparation_error | SimulateFailed execution_error

definition ProjectRawFinancialModel ::
  "process \<Rightarrow> (FinancialModel \<Rightarrow> ModelValidationIssue list option) \<Rightarrow> FinancialModel option \<Rightarrow>
   ProjectionRuntimeSettings \<Rightarrow> ModelOverrides \<Rightarrow> MonteCarloSample option \<Rightarrow>
   (projection_error + ProjectionPath \<times> ProjectionResult) option" where
  "ProjectRawFinancialModel p validateModel model settings overrides sample =
     (case orchestratedPrepare p validateModel model settings overrides sample of
        None \<Rightarrow> None
      | Some (Inl e) \<Rightarrow> Some (Inl (PrepareFailed e))
      | Some (Inr prepared) \<Rightarrow>
          (case orchestratedSimulate (pcEnv p) (ppRequest prepared) of
             None \<Rightarrow> None
           | Some (Inl e) \<Rightarrow> Some (Inl (SimulateFailed e))
           | Some (Inr run) \<Rightarrow> map_option Inr (AdaptSimulationRun prepared run)))"

definition HistoricalProjectionRows ::
  "process \<Rightarrow> (FinancialModel \<Rightarrow> ModelValidationIssue list option) \<Rightarrow> FinancialModel option \<Rightarrow>
   ProjectionRuntimeSettings \<Rightarrow> ModelOverrides \<Rightarrow> (preparation_error + ProjectionRow list \<times> f64 gomap) option" where
  "HistoricalProjectionRows p validateModel model settings overrides =
     and_then (orchestratedPrepare p validateModel model settings overrides None) (\<lambda>prepared.
       Some (Inr (map (historical_row (ppEffectiveModel prepared)) (ppHistoricalSnapshots prepared),
                  ssBalances (rqInitialState (ppRequest prepared)))))"

end
