(* ===== verification/Purchases.thy ===== *)
theory Purchases
  imports Report
begin

text \<open>
  Planned purchases: \<open>simulatePurchases\<close> of \<open>backend/internal/domain/purchases.go\<close> with its candidate
  request, and the evaluation that reports it (\<open>evaluation_purchases.go\<close>, \<open>balancesAt\<close> of
  \<open>evaluation_fi.go\<close>).  The queue is worked off in priority order; a purchase is accepted on
  the first date on which a whole candidate simulation pays it in full and opens no later gap.
\<close>

section \<open>Candidates\<close>

definition balancesAt :: "ProjectionRow option \<Rightarrow> Account list \<Rightarrow> f64 gomap" where
  "balancesAt row accounts =
     (case row of
        None \<Rightarrow> InitAccountBalances accounts
      | Some r \<Rightarrow>
          foldl (\<lambda>m s. Mapping.update (saAccountID s) (saBalance s) m) (InitAccountBalances accounts) (rwAccountSnapshots r))"

text \<open>The loop stops at the first projected row.\<close>

definition purchasesCandidateRequest :: "ProjectionPath \<Rightarrow> MonteCarloSample option \<Rightarrow> SimulationRequest" where
  "purchasesCandidateRequest path sample =
     (let model = phEffectiveModel path;
          latestHistorical = last_row (takeWhile rwIsHistorical (phRows path))
      in \<lparr>rqModel = simulation_inputs model,
          rqInitialState = CloneSimulationState
            \<lparr>ssBalances = balancesAt latestHistorical (fmAccounts model),
             ssLatestAmounts = pzLatestAmounts (phStartState path), ssLatestDates = pzLatestDates (phStartState path),
             ssAmountsByYear = pzAmountsByYear (phStartState path)\<rparr>,
          rqStartDate = phStartDate path, rqEndDate = phEndDate path, rqIncludeStartDateEvents = True,
          rqMonteCarloSample = sample, rqHistoryCutInstant = phHistoryCutInstant path\<rparr>)"

definition fullyFundedPurchase :: "SimulationRun \<Rightarrow> string \<Rightarrow> TransactionEvent option" where
  "fullyFundedPurchase run i =
     find (\<lambda>event. teTransactionID event = i \<and> teRequestedAmount event - teRealizedAmount event \<le> transactionEpsilon)
       (rnTransactionAttempts run)"

text \<open>The zero request of the synthesized \<open>PreparedProjection\<close>: only its model is set.\<close>

definition zero_request :: SimulationRequest where
  "zero_request =
     \<lparr>rqModel = \<lparr>siAccounts = [], siTransactions = [], siSchedules = [], siPaymentTerms = [], siPlannedPurchases = []\<rparr>,
      rqInitialState = \<lparr>ssBalances = Mapping.empty, ssLatestAmounts = Mapping.empty, ssLatestDates = Mapping.empty,
        ssAmountsByYear = Mapping.empty\<rparr>,
      rqStartDate = '''', rqEndDate = '''', rqIncludeStartDateEvents = False, rqMonteCarloSample = None,
      rqHistoryCutInstant = 0\<rparr>"

definition model_of_inputs :: "SimulationInputs \<Rightarrow> FinancialModel" where
  "model_of_inputs inputs =
     \<lparr>fmSourcePath = '''', fmAccounts = siAccounts inputs, fmCheckpoints = [], fmEvaluations = EmptyEvaluationTables,
      fmTransactions = siTransactions inputs, fmSchedules = siSchedules inputs,
      fmPaymentTerms = siPaymentTerms inputs, fmPlannedPurchases = siPlannedPurchases inputs\<rparr>"

definition simulationPath :: "SimulationRun \<Rightarrow> ProjectionPath" where
  "simulationPath run =
     BuildStochasticSamplePath
       \<lparr>ppEffectiveModel = model_of_inputs (rnModel run), ppHistoricalSnapshots = [], ppRequest = zero_request\<rparr> run"

section \<open>The queue\<close>

definition validatePlannedPurchaseCost :: "f64 \<Rightarrow> string \<Rightarrow> execution_error + unit" where
  "validatePlannedPurchaseCost cost i =
     (if isNaN cost \<or> isInf cost \<or> cost \<le> 0 then Inl (PurchaseCost i) else Inr ())"

fun purchase_queue :: "PlannedPurchase list \<Rightarrow> execution_error + PlannedPurchase list" where
  "purchase_queue [] = Inr []"
| "purchase_queue (p # ps) =
     (if \<not> ppEnabled p then purchase_queue ps
      else case validatePlannedPurchaseCost (ppCost p) (ppID p) of
        Inl e \<Rightarrow> Inl e
      | Inr _ \<Rightarrow> (case purchase_queue ps of Inl e \<Rightarrow> Inl e | Inr queue \<Rightarrow> Inr (p # queue)))"

definition queue_order :: "PlannedPurchase list \<Rightarrow> PlannedPurchase list" where
  "queue_order queue = sort_by (\<lambda>p q. ppPriority p < ppPriority q) queue"

definition candidate_dates :: "SimulationRequest \<Rightarrow> PlannedPurchase list \<Rightarrow> ResolvedOccurrences \<Rightarrow> string list" where
  "candidate_dates request queue resolved =
     sorted_list_of_set
       (set (filter (\<lambda>day. rqStartDate request \<le> day \<and> day \<le> rqEndDate request) (map ppEarliestDate queue)) \<union>
        (if rqStartDate request \<le> rqEndDate request then {rqStartDate request} else {}) \<union>
        Mapping.keys (roByDate resolved))"

section \<open>Scheduling\<close>

record purchase_plan =
  plScheduled :: "scheduledPurchase list"
  plAccepted :: SimulationRun
  plLastDate :: string

definition cannot_afford :: "SimulationRequest \<Rightarrow> PlannedPurchase \<Rightarrow> SimulationSnapshot \<Rightarrow> bool" where
  "cannot_afford request purchase snapshot \<longleftrightarrow>
     (case ppFundingAccountID purchase of
        None \<Rightarrow> True
      | Some s \<Rightarrow>
          GetWithdrawableAmount (snBalances snapshot) (accountIndex (siAccounts (rqModel request))) s + transactionEpsilon
            < ppCost purchase)"

text \<open>One date: \<open>Inr None\<close> is \<open>continue\<close>, \<open>Inr (Some plan)\<close> accepts the candidate.\<close>

definition try_date ::
  "environment \<Rightarrow> SimulationRequest \<Rightarrow> string list \<Rightarrow> PlannedPurchase \<Rightarrow> purchase_plan \<Rightarrow> SimulationSnapshot \<Rightarrow>
   (execution_error + purchase_plan option) option" where
  "try_date env request dates purchase plan snapshot =
     (let date = snDate snapshot;
          candidateSchedule = plScheduled plan @ [\<lparr>spPurchase = purchase, spDate = date\<rparr>]
      in if date < plLastDate plan \<or> date < ppEarliestDate purchase then Some (Inr None)
         else if cannot_afford request purchase snapshot then Some (Inr None)
         else and_then (simulateScheduled env request candidateSchedule dates) (\<lambda>candidate.
           case fullyFundedPurchase candidate (ppID purchase) of
             None \<Rightarrow> Some (Inr None)
           | Some event \<Rightarrow>
               (case hasFundingGapAfter (simulationPath candidate) date (teSequence event) of
                  None \<Rightarrow> None
                | Some gap \<Rightarrow>
                    Some (Inr (if gap then None
                      else Some \<lparr>plScheduled = candidateSchedule, plAccepted = candidate, plLastDate = date\<rparr>)))))"

fun try_dates ::
  "environment \<Rightarrow> SimulationRequest \<Rightarrow> string list \<Rightarrow> PlannedPurchase \<Rightarrow> purchase_plan \<Rightarrow> SimulationSnapshot list \<Rightarrow>
   (execution_error + purchase_plan option) option" where
  "try_dates env request dates purchase plan [] = Some (Inr None)"
| "try_dates env request dates purchase plan (snapshot # snapshots) =
     and_then (try_date env request dates purchase plan snapshot) (\<lambda>found.
       case found of
         None \<Rightarrow> try_dates env request dates purchase plan snapshots
       | Some plan' \<Rightarrow> Some (Inr (Some plan')))"

text \<open>The queue is strict: the first purchase without a date ends it.\<close>

fun schedule_purchases ::
  "environment \<Rightarrow> SimulationRequest \<Rightarrow> string list \<Rightarrow> PlannedPurchase list \<Rightarrow> purchase_plan \<Rightarrow>
   (execution_error + purchase_plan) option" where
  "schedule_purchases env request dates [] plan = Some (Inr plan)"
| "schedule_purchases env request dates (purchase # queue) plan =
     and_then (try_dates env request dates purchase plan (rnSnapshots (plAccepted plan))) (\<lambda>found.
       case found of
         None \<Rightarrow> Some (Inr plan)
       | Some plan' \<Rightarrow> schedule_purchases env request dates queue plan')"

definition simulatePurchases :: "environment \<Rightarrow> SimulationRequest \<Rightarrow> (execution_error + SimulationRun) option" where
  "simulatePurchases env request =
     and_then (requireResimulationAllowed env ''simulatePurchases'') (\<lambda>_.
     and_then (Some (purchase_queue (siPlannedPurchases (rqModel request)))) (\<lambda>queue.
       if queue = [] then simulateScheduled env request [] []
       else case ResolveOccurrences (siSchedules (rqModel request)) (siTransactions (rqModel request))
                   (rqStartDate request) (rqEndDate request) (rqIncludeStartDateEvents request) of
              None \<Rightarrow> None
            | Some resolved \<Rightarrow>
                (let dates = candidate_dates request queue resolved
                 in and_then (simulateScheduled env request [] dates) (\<lambda>accepted.
                    and_then (schedule_purchases env request dates (queue_order queue)
                        \<lparr>plScheduled = [], plAccepted = accepted, plLastDate = rqStartDate request\<rparr>)
                      (\<lambda>plan. Some (Inr (plAccepted plan)))))))"

section \<open>The evaluation\<close>

record PurchaseOutcome =
  poPurchaseID :: string
  poDate :: "string option"
  poAmount :: f64

record PlannedPurchasesPathResult =
  prPurchases :: "PurchaseOutcome list"
  prAllFunded :: bool
  prFirstReachedDate :: "string option"

definition purchase_outcome :: "SimulationRun \<Rightarrow> PlannedPurchase \<Rightarrow> PurchaseOutcome" where
  "purchase_outcome run planned =
     \<lparr>poPurchaseID = ppID planned, poDate = map_option teDate (fullyFundedPurchase run (ppID planned)),
      poAmount = ppCost planned\<rparr>"

definition purchases_result :: "ProjectionPath \<Rightarrow> SimulationRun \<Rightarrow> PlannedPurchasesPathResult" where
  "purchases_result path run =
     (let outcomes = map (purchase_outcome run) (filter ppEnabled (fmPlannedPurchases (phEffectiveModel path)));
          completed = foldl (\<lambda>completed o'. case poDate o' of None \<Rightarrow> completed
              | Some date \<Rightarrow> if completed < date then date else completed) (phStartDate path) outcomes;
          allFunded = (\<forall>o'\<in>set outcomes. poDate o' \<noteq> None)
      in \<lparr>prPurchases = outcomes, prAllFunded = allFunded,
          prFirstReachedDate = (if allFunded then Some completed else None)\<rparr>)"

definition evaluatePlannedPurchases ::
  "environment \<Rightarrow> ProjectionPath \<Rightarrow> MonteCarloSample option \<Rightarrow> (execution_error + PlannedPurchasesPathResult) option" where
  "evaluatePlannedPurchases env path sample =
     and_then (simulatePurchases env (purchasesCandidateRequest path sample))
       (\<lambda>run. Some (Inr (purchases_result path run)))"

definition purchases_NumericValue :: "PlannedPurchasesPathResult \<Rightarrow> f64" where
  "purchases_NumericValue r = foldl (\<lambda>funded p. if poDate p \<noteq> None then funded + f64_of_rat 1 else funded) 0 (prPurchases r)"

end
