(* ===== verification/Path_Properties.thy ===== *)
theory Path_Properties
  imports Purchases Simulation_Properties
begin

text \<open>
  The properties of paths and their assessment: what a row shows of the attempts of its day, when an
  account reaches a balance, what an event's assessment says, and what rendering a result does to
  the path it was rendered from.
\<close>

section \<open>A sample run\<close>

definition report_model :: FinancialModel where
  "report_model = (model_of_inputs (rqModel sample_request))\<lparr>fmAccounts := [wallet, savings]\<rparr>"

definition report_prepared :: PreparedProjection where
  "report_prepared = \<lparr>ppEffectiveModel = report_model, ppHistoricalSnapshots = [], ppRequest = sample_request\<rparr>"

definition report_event :: TransactionEvent where
  "report_event = \<lparr>teDate = ''2024-01-31'', teSequence = 0, teTransactionID = ''pay'', teRequestedAmount = FNum 300,
     teRealizedAmount = FNum 250, teAccountDeltas = [\<lparr>deAccountID = ''savings'', deDelta = FNum 250\<rparr>],
     teBindingConstraints = [], teAvailableAmount = None, teFulfillment = None\<rparr>"

definition report_snapshot :: SimulationSnapshot where
  "report_snapshot = \<lparr>snDate = ''2024-01-31'', snBalances = Mapping.update ''checking'' (FNum (1999 / 2))
     (Mapping.update ''savings'' (FNum 250) Mapping.empty)\<rparr>"

definition report_run :: SimulationRun where
  "report_run = \<lparr>rnModel = rqModel sample_request, rnStartDate = ''2024-01-31'', rnEndDate = ''2024-01-31'',
     rnIncludeStartDateEvents = True, rnInitialState = sample_state, rnFinalState = sample_state,
     rnSnapshots = [report_snapshot], rnTransactionAttempts = [report_event], rnMonteCarloSample = None\<rparr>"

definition delta_pairs :: "string \<Rightarrow> TransactionEvent \<Rightarrow> (string \<times> f64) list" where
  "delta_pairs a e = map (\<lambda>d. (teTransactionID e, deDelta d)) (filter (\<lambda>d. deAccountID d = a) (teAccountDeltas e))"

lemma report_simps:
  "rnSnapshots report_run = [report_snapshot]" "rnTransactionAttempts report_run = [report_event]"
  "ppHistoricalSnapshots report_prepared = []" "ppEffectiveModel report_prepared = report_model"
  "fmAccounts report_model = [wallet, savings]" "acID wallet = ''checking''" "acID savings = ''savings''"
  "acDisplay wallet = None" "acDisplay savings = None" "snDate report_snapshot = ''2024-01-31''"
  "balance_of (snBalances report_snapshot) ''checking'' = FNum (1999 / 2)" "teDate report_event = ''2024-01-31''"
  "delta_pairs ''savings'' report_event = [(''pay'', FNum 250)]"
  by (simp_all add: report_run_def report_prepared_def report_model_def report_snapshot_def report_event_def delta_pairs_def
      wallet_def savings_def lookup_default_update)

lemma report_pay: "Mapping.lookup (transactions_by_id report_model) (teTransactionID report_event) \<noteq> None"
  by (simp add: transactions_by_id_def report_model_def model_of_inputs_def sample_request_def ResolvedTransactionTransactions_def
      rule_template_def rule_instance_def deposit_def lookup_update report_event_def)

section \<open>Rows of a path\<close>

lemma go_index_impacts:
  "go_index [] (foldl (add_impact i) m ds) a =
     go_index [] m a @ map (\<lambda>d. \<lparr>imTransactionID = i, imDelta = deDelta d\<rparr>) (filter (\<lambda>d. deAccountID d = a) ds)"
  by (induction ds arbitrary: m) (simp_all add: add_impact_def go_index_append_at)

lemma attempts_by_date_index: "go_index [] (attempts_by_date es) d = filter (\<lambda>e. teDate e = d) es"
proof -
  have "go_index [] (foldl (\<lambda>m a. append_at m (teDate a) a) m es) d = go_index [] m d @ filter (\<lambda>e. teDate e = d) es" for m
    by (induction es arbitrary: m) (simp_all add: go_index_append_at)
  from this [of Mapping.empty] show ?thesis
    by (simp add: attempts_by_date_def lookup_default_empty)
qed

definition attempt_impacts :: "Transaction gomap \<Rightarrow> string \<Rightarrow> TransactionEvent \<Rightarrow> AccountDelta list" where
  "attempt_impacts ts a e = (case Mapping.lookup ts (teTransactionID e) of None \<Rightarrow> []
     | Some t \<Rightarrow> map (\<lambda>d. \<lparr>imTransactionID = trID t, imDelta = deDelta d\<rparr>) (filter (\<lambda>d. deAccountID d = a) (teAccountDeltas e)))"

lemma classify_impacts:
  "go_index [] (caAccountImpacts (classify_attempt ts r e)) a = go_index [] (caAccountImpacts r) a @ attempt_impacts ts a e"
  by (auto simp: classify_attempt_def attempt_impacts_def go_index_impacts Let_def split: option.split)

lemma classifyAttempts_impacts:
  "go_index [] (caAccountImpacts (classifyAttempts es ts)) a = concat (map (attempt_impacts ts a) es)"
proof -
  have "go_index [] (caAccountImpacts (foldl (classify_attempt ts) r es)) a =
      go_index [] (caAccountImpacts r) a @ concat (map (attempt_impacts ts a) es)" for r
    by (induction es arbitrary: r) (simp_all add: classify_impacts)
  from this [of no_attempts] show ?thesis
    by (simp add: classifyAttempts_def no_attempts_def lookup_default_empty)
qed

lemma transactions_by_id_lookup:
  "Mapping.lookup (transactions_by_id model) i = Some t \<Longrightarrow> t \<in> set (ResolvedTransactionTransactions model) \<and> trID t = i"
proof -
  have "Mapping.lookup (foldl (\<lambda>m t. Mapping.update (trID t) t m) m ts) i = Some t \<longrightarrow>
      t \<in> set ts \<and> trID t = i \<or> Mapping.lookup m i = Some t" for m ts
  proof (induction ts arbitrary: m)
    case (Cons u us)
    then show ?case
      using Cons.IH [of "Mapping.update (trID u) u m"] by (cases "trID u = i") (auto simp: lookup_update lookup_update_neq)
  qed simp
  from this [of Mapping.empty "ResolvedTransactionTransactions model"]
  show "Mapping.lookup (transactions_by_id model) i = Some t \<Longrightarrow> t \<in> set (ResolvedTransactionTransactions model) \<and> trID t = i"
    by (simp add: transactions_by_id_def lookup_empty)
qed

lemma attempt_impacts_pairs:
  assumes "Mapping.lookup (transactions_by_id model) (teTransactionID e) \<noteq> None"
  shows "map (\<lambda>m. (imTransactionID m, imDelta m)) (attempt_impacts (transactions_by_id model) a e) = delta_pairs a e"
proof -
  obtain t where t: "Mapping.lookup (transactions_by_id model) (teTransactionID e) = Some t"
    using assms by (cases "Mapping.lookup (transactions_by_id model) (teTransactionID e)") simp_all
  moreover have "trID t = teTransactionID e"
    using transactions_by_id_lookup [OF t] by simp
  ultimately show ?thesis
    by (simp add: attempt_impacts_def delta_pairs_def comp_def)
qed

lemma classified_pairs:
  assumes "\<forall>e\<in>set es. Mapping.lookup (transactions_by_id model) (teTransactionID e) \<noteq> None"
  shows "map (\<lambda>m. (imTransactionID m, imDelta m))
      (go_index [] (caAccountImpacts (classifyAttempts es (transactions_by_id model))) a) = concat (map (delta_pairs a) es)"
  using assms unfolding classifyAttempts_impacts
  by (induction es) (simp_all add: attempt_impacts_pairs del: not_None_eq)

text \<open>
  A detailed row shows every account once, with the balance of the run's snapshot, and as its
  impacts exactly the deltas that the attempts of that day made to it, in the order they ran, under
  the identity of the transaction or schedule that made them.
\<close>

theorem projected_row_impacts:
  assumes "i < length (rnSnapshots run)" "k < length (fmAccounts (ppEffectiveModel prepared))"
    and "\<forall>e\<in>set (rnTransactionAttempts run). Mapping.lookup (transactions_by_id (ppEffectiveModel prepared)) (teTransactionID e) \<noteq> None"
  shows "let path = BuildProjectionPath prepared run; sn = rnSnapshots run ! i; a = acID (fmAccounts (ppEffectiveModel prepared) ! k);
           row = phRows path ! (length (ppHistoricalSnapshots prepared) + i); account = rwAccountSnapshots row ! k
    in rwDate row = snDate sn \<and> \<not> rwIsHistorical row \<and> saAccountID account = a \<and> saBalance account = balance_of (snBalances sn) a \<and>
       map (\<lambda>m. (imTransactionID m, imDelta m)) (saImpacts account) =
         concat (map (delta_pairs a) (filter (\<lambda>e. teDate e = snDate sn) (rnTransactionAttempts run)))"
proof -
  let ?ts = "transactions_by_id (ppEffectiveModel prepared)" and ?sn = "rnSnapshots run ! i"
    and ?a = "acID (fmAccounts (ppEffectiveModel prepared) ! k)"
  have row: "phRows (BuildProjectionPath prepared run) ! (length (ppHistoricalSnapshots prepared) + i) =
      projected_row (ppEffectiveModel prepared) run True ?sn"
    using assms(1) by (simp add: BuildProjectionPath_def buildProjectionPath_def nth_append Let_def)
  have impacts: "map (\<lambda>m. (imTransactionID m, imDelta m))
      (go_index [] (caAccountImpacts (classifyAttempts (go_index [] (attempts_by_date (rnTransactionAttempts run)) (snDate ?sn)) ?ts)) ?a) =
      concat (map (delta_pairs ?a) (filter (\<lambda>e. teDate e = snDate ?sn) (rnTransactionAttempts run)))"
    unfolding attempts_by_date_index by (rule classified_pairs) (simp add: assms(3) del: not_None_eq)
  have account: "rwAccountSnapshots (projected_row (ppEffectiveModel prepared) run True ?sn) ! k =
      account_snapshot (snDate ?sn) (snBalances ?sn)
        (caAccountImpacts (classifyAttempts (go_index [] (attempts_by_date (rnTransactionAttempts run)) (snDate ?sn)) ?ts))
        (fmAccounts (ppEffectiveModel prepared) ! k)"
    using assms(2) by (simp only: projected_row_def createRow_def ProjectionRow.select_convs nth_map if_True)
  have "rwDate (projected_row m run b s) = snDate s" "\<not> rwIsHistorical (projected_row m run b s)" for m b s
    by (simp_all add: projected_row_def createRow_def)
  then show ?thesis
    by (simp only: Let_def row account account_snapshot_def AccountSnapshot.select_convs impacts simp_thms)
qed

lemma projected_row_impacts_witness:
  "map (\<lambda>m. (imTransactionID m, imDelta m))
     (saImpacts (rwAccountSnapshots (phRows (BuildProjectionPath report_prepared report_run) ! 0) ! 1)) = [(''pay'', FNum 250)]"
  using projected_row_impacts [of 0 report_run 1 report_prepared] report_pay by (simp add: report_simps Let_def)

text \<open>
  A sample path carries the same data as a detailed one: dates, net worth, balances, corrections,
  events and the starting state are equal, only impacts and cashflow totals are left out.
\<close>

theorem sample_path_equal:
  "let sample = BuildStochasticSamplePath prepared run; path = BuildProjectionPath prepared run
   in sample\<lparr>phRows := []\<rparr> = path\<lparr>phRows := []\<rparr> \<and>
      map (\<lambda>r. (rwDate r, rwIsHistorical r, rwNetWorth r, map (\<lambda>s. (saAccountID s, saDate s, saBalance s)) (rwAccountSnapshots r),
             rwCheckpointCorrections r)) (phRows sample) =
      map (\<lambda>r. (rwDate r, rwIsHistorical r, rwNetWorth r, map (\<lambda>s. (saAccountID s, saDate s, saBalance s)) (rwAccountSnapshots r),
             rwCheckpointCorrections r)) (phRows path) \<and>
      map row_balances (phRows sample) = map row_balances (phRows path)"
proof -
  have balances: "row_balances (projected_row m run b s) = row_balances (projected_row m run c s)" for m b c s
  proof -
    have "foldl (\<lambda>m s. Mapping.update (saAccountID s) (saBalance s) m) acc (map (account_snapshot d bs x) as) =
        foldl (\<lambda>m s. Mapping.update (saAccountID s) (saBalance s) m) acc (map (account_snapshot d bs y) as)" for acc d bs x y as
      by (induction as arbitrary: acc) (simp_all add: account_snapshot_def)
    then show ?thesis
      by (simp only: row_balances_def projected_row_def createRow_def ProjectionRow.select_convs)
  qed
  have "map row_balances (map (projected_row m run False) ss) = map row_balances (map (projected_row m run True) ss)" for m ss
    by (simp add: balances [of m False _ True])
  moreover have "(\<lambda>r. (rwDate r, rwIsHistorical r, rwNetWorth r, map (\<lambda>s. (saAccountID s, saDate s, saBalance s)) (rwAccountSnapshots r),
      rwCheckpointCorrections r)) (projected_row m run False s) =
    (\<lambda>r. (rwDate r, rwIsHistorical r, rwNetWorth r, map (\<lambda>s. (saAccountID s, saDate s, saBalance s)) (rwAccountSnapshots r),
      rwCheckpointCorrections r)) (projected_row m run True s)" for m s
    by (simp add: projected_row_def createRow_def account_snapshot_def comp_def)
  ultimately show ?thesis
    by (simp add: BuildStochasticSamplePath_def BuildProjectionPath_def buildProjectionPath_def Let_def)
qed

section \<open>Reaching a balance\<close>

lemma account_position_Some:
  "account_position i n as = Some (k, a) \<Longrightarrow> n \<le> k \<and> k < n + length as \<and> as ! (k - n) = a \<and> acID a = i"
proof (induction as arbitrary: n)
  case (Cons b as)
  show ?case
  proof (cases "acID b = i")
    case False
    then have "account_position i (Suc n) as = Some (k, a)"
      using Cons.prems by simp
    from Cons.IH [OF this] have "Suc n \<le> k" "k < Suc n + length as" "as ! (k - Suc n) = a" "acID a = i"
      by simp_all
    moreover obtain j where "k = Suc n + j"
      using \<open>Suc n \<le> k\<close> le_Suc_ex by blast
    ultimately show ?thesis by simp
  qed (use Cons.prems in auto)
qed simp

lemma account_position_None: "account_position i n as = None \<longleftrightarrow> i \<notin> acID ` set as"
  by (induction as arbitrary: n) auto

lemma projected_row_fields:
  "rwIsHistorical (historical_row m h)" "\<not> rwIsHistorical (projected_row m run d s)" "rwDate (projected_row m run d s) = snDate s"
  "length (rwAccountSnapshots (projected_row m run d s)) = length (fmAccounts m)"
  by (simp_all add: historical_row_def projected_row_def createRow_def)

lemma projected_row_account:
  assumes "k < length (fmAccounts m)"
  shows "saAccountID (rwAccountSnapshots (projected_row m run d s) ! k) = acID (fmAccounts m ! k)"
    "saBalance (rwAccountSnapshots (projected_row m run d s) ! k) = balance_of (snBalances s) (acID (fmAccounts m ! k))"
  unfolding projected_row_def createRow_def ProjectionRow.select_convs nth_map [OF assms]
  by (simp_all add: account_snapshot_def)

lemma shared_after_round_fields:
  "rwIsHistorical (shared_after_round row) = rwIsHistorical row" "rwDate (shared_after_round row) = rwDate row"
  "rwNetWorth (shared_after_round row) = rwNetWorth row"
  "rwAccountSnapshots (shared_after_round row) = map round_snapshot (rwAccountSnapshots row)"
  "saAccountID (round_snapshot s) = saAccountID s" "saBalance (round_snapshot s) = roundCurrency (saBalance s)"
  by (simp_all add: shared_after_round_def roundRow_def round_snapshot_def)

lemma find_map: "find P (map f xs) = map_option f (find (P \<circ> f) xs)"
  by (induction xs) auto

lemma find_append: "find P (xs @ ys) = (case find P xs of None \<Rightarrow> find P ys | Some x \<Rightarrow> Some x)"
  by (induction xs) auto

text \<open>What the loop finds on rows that follow the snapshots of a run.\<close>

lemma EvaluateAccountBalance_rows:
  assumes rows: "phRows path = map h hs @ map r ss" and h: "\<And>x. rwIsHistorical (h x)"
    and i: "i \<in> acID ` set (fmAccounts (phEffectiveModel path))"
    and plain: "\<forall>a\<in>set (fmAccounts (phEffectiveModel path)). acDisplay a = None"
    and r: "\<And>s. \<not> rwIsHistorical (r s) \<and> rwDate (r s) = snDate s"
    and len: "\<And>s. length (rwAccountSnapshots (r s)) = length (fmAccounts (phEffectiveModel path))"
    and snaps: "\<And>s k. k < length (fmAccounts (phEffectiveModel path)) \<Longrightarrow>
       saAccountID (rwAccountSnapshots (r s) ! k) = acID (fmAccounts (phEffectiveModel path) ! k) \<and>
       saBalance (rwAccountSnapshots (r s) ! k) = b s (acID (fmAccounts (phEffectiveModel path) ! k))"
  shows "arFirstReachedDate (EvaluateAccountBalance path i target) = map_option snDate (find (\<lambda>s. \<not> b s i < target) ss) \<and>
    (arReached (EvaluateAccountBalance path i target) \<longleftrightarrow> (\<exists>s\<in>set ss. \<not> b s i < target))"
proof -
  let ?as = "fmAccounts (phEffectiveModel path)"
  obtain k a where ka: "account_position i 0 ?as = Some (k, a)"
    using i account_position_None [of i 0 ?as] by auto
  from account_position_Some [OF this] have k: "k < length ?as" "?as ! k = a" "acID a = i" by simp_all
  then have "a \<in> set ?as" by auto
  then have "acDisplay a = None" using plain by simp
  define P where "P = (\<lambda>row. \<not> rwIsHistorical row \<and>
      (case balance_at_index (Some k) i row of None \<Rightarrow> False | Some b \<Rightarrow> \<not> b < target))"
  have row: "P (r s) \<longleftrightarrow> \<not> b s i < target" for s
    using snaps [OF k(1), of s] k r len by (simp add: P_def balance_at_index_def)
  have hist: "find P (map h xs) = None" for xs
    by (induction xs) (simp_all add: P_def h)
  have "find P (phRows path) = map_option r (find (\<lambda>s. \<not> b s i < target) ss)"
    by (simp only: rows find_append hist option.case) (simp add: find_map comp_def row)
  moreover have "EvaluateAccountBalance path i target =
      \<lparr>arReached = (find P (phRows path) \<noteq> None), arFirstReachedDate = map_option rwDate (find P (phRows path))\<rparr>"
    using ka \<open>acDisplay a = None\<close> by (simp add: EvaluateAccountBalance_def P_def Let_def)
  ultimately show ?thesis
    by (simp add: option.map_comp comp_def find_None_iff Bex_def r)
qed

text \<open>
  The balance evaluation answers its question: on the path of a run, an account reaches a target
  exactly when a snapshot of the run shows a balance not below it, and the date reported is that of
  the first one; history does not count.  The shortcut by position never changes the answer.
\<close>

theorem EvaluateAccountBalance_first:
  assumes "i \<in> acID ` set (fmAccounts (ppEffectiveModel prepared))"
    and "\<forall>a\<in>set (fmAccounts (ppEffectiveModel prepared)). acDisplay a = None"
  shows "arFirstReachedDate (EvaluateAccountBalance (buildProjectionPath prepared run detailed) i target) =
      map_option snDate (find (\<lambda>sn. \<not> balance_of (snBalances sn) i < target) (rnSnapshots run)) \<and>
    (arReached (EvaluateAccountBalance (buildProjectionPath prepared run detailed) i target) \<longleftrightarrow>
      (\<exists>sn\<in>set (rnSnapshots run). \<not> balance_of (snBalances sn) i < target))"
proof -
  have model: "phEffectiveModel (buildProjectionPath prepared run detailed) = ppEffectiveModel prepared"
    by (simp add: buildProjectionPath_def Let_def)
  have "phRows (buildProjectionPath prepared run detailed) =
      map (historical_row (ppEffectiveModel prepared)) (ppHistoricalSnapshots prepared) @
      map (projected_row (ppEffectiveModel prepared) run detailed) (rnSnapshots run)"
    by (simp add: buildProjectionPath_def Let_def)
  then show ?thesis
    by (rule EvaluateAccountBalance_rows [where b = "\<lambda>s. balance_of (snBalances s)"])
      (simp_all add: model assms projected_row_fields projected_row_account)
qed

lemma EvaluateAccountBalance_first_witness:
  "arFirstReachedDate (EvaluateAccountBalance (buildProjectionPath report_prepared report_run False) ''checking'' (FNum 999)) =
    Some ''2024-01-31''"
proof -
  have "\<not> FNum (1999 / 2) < FNum 999" by simp
  then show ?thesis
    by (subst EvaluateAccountBalance_first [THEN conjunct1]) (simp_all add: report_simps)
qed

section \<open>What rendering leaves of the path\<close>

text \<open>
  Rendering the result of a run rounds the path it returns: each evaluation of that path compares
  balances rounded to whole currency, so that an account counts as having reached a target that its
  exact balance on the path never reaches (the witness: 999.5 reaches 1000 only on the rendered path).
\<close>

theorem rendered_path_reaches_rounded:
  assumes "AdaptSimulationRun prepared run = Some (path, result)"
    and "i \<in> acID ` set (fmAccounts (ppEffectiveModel prepared))"
    and "\<forall>a\<in>set (fmAccounts (ppEffectiveModel prepared)). acDisplay a = None"
  shows "arFirstReachedDate (EvaluateAccountBalance path i target) =
      map_option snDate (find (\<lambda>sn. \<not> roundCurrency (balance_of (snBalances sn) i) < target) (rnSnapshots run)) \<and>
    (arReached (EvaluateAccountBalance path i target) \<longleftrightarrow>
      (\<exists>sn\<in>set (rnSnapshots run). \<not> roundCurrency (balance_of (snBalances sn) i) < target))"
proof -
  obtain events where "path = (BuildProjectionPath prepared run)
      \<lparr>phRows := map shared_after_round (phRows (BuildProjectionPath prepared run))\<rparr>"
    using assms(1) by (auto simp: AdaptSimulationRun_def RenderProjectionResult_def Let_def)
  then have "phRows path = map (shared_after_round \<circ> historical_row (ppEffectiveModel prepared)) (ppHistoricalSnapshots prepared) @
      map (shared_after_round \<circ> projected_row (ppEffectiveModel prepared) run True) (rnSnapshots run)"
    and model: "phEffectiveModel path = ppEffectiveModel prepared"
    by (simp_all add: BuildProjectionPath_def buildProjectionPath_def Let_def)
  from this(1) show ?thesis
    by (rule EvaluateAccountBalance_rows [where b = "\<lambda>s i. roundCurrency (balance_of (snBalances s) i)"])
      (simp_all add: model assms(2,3) projected_row_fields projected_row_account shared_after_round_fields)
qed

lemma report_adapted: "\<exists>path result. AdaptSimulationRun report_prepared report_run = Some (path, result)"
  by (simp add: AdaptSimulationRun_def RenderProjectionResult_def publicTransactionEvents_def evaluateTransactionEvents_def
      BuildProjectionPath_def buildProjectionPath_def report_run_def report_event_def Let_def sort_by_def)

lemma report_exact: "arReached (EvaluateAccountBalance (BuildProjectionPath report_prepared report_run) ''checking'' (FNum 1000)) = False"
  by (simp add: EvaluateAccountBalance_def BuildProjectionPath_def buildProjectionPath_def report_prepared_def report_model_def
      report_run_def projected_row_def createRow_def account_snapshot_def report_snapshot_def balance_at_index_def
      wallet_def savings_def lookup_default_update Let_def)

lemma rendered_path_reaches_rounded_witness:
  "\<exists>path result. AdaptSimulationRun report_prepared report_run = Some (path, result) \<and>
     arReached (EvaluateAccountBalance path ''checking'' (FNum 1000)) \<and>
     \<not> arReached (EvaluateAccountBalance (BuildProjectionPath report_prepared report_run) ''checking'' (FNum 1000))"
proof -
  obtain path result where adapted: "AdaptSimulationRun report_prepared report_run = Some (path, result)"
    using report_adapted by blast
  have "\<not> roundCurrency (balance_of (snBalances report_snapshot) ''checking'') < FNum 1000"
    by (simp add: report_simps roundCurrency_def round_half_away_def)
  then have "arReached (EvaluateAccountBalance path ''checking'' (FNum 1000))"
    by (subst rendered_path_reaches_rounded [OF adapted, THEN conjunct2]) (simp_all add: report_simps)
  then show ?thesis using adapted report_exact by blast
qed

end
