(* ===== verification/Funding_Properties.thy ===== *)
theory Funding_Properties
  imports Path_Properties
begin

text \<open>
  The properties of the assessment of events: it assesses each event once, against the cap as the
  earlier events of the same identity and year left it, and a funding gap is a shortfall that no full
  destination explains.
\<close>

section \<open>The ledger of the assessment\<close>

definition cap_day :: "TransactionEvent \<Rightarrow> string \<times> string" where
  "cap_day e = (teTransactionID e, take 4 (teDate e))"

lemma cap_key_inject:
  "length y = length y' \<Longrightarrow> cap_key i y = cap_key i' y' \<longleftrightarrow> i = i' \<and> y = y'"
  by (auto simp: cap_key_def append_eq_append_conv)

definition realized_before :: "f64 gomap \<Rightarrow> TransactionEvent list \<Rightarrow> TransactionEvent \<Rightarrow> f64" where
  "realized_before start earlier e =
     foldl (\<lambda>t e. t + maxFloat 0 (teRealizedAmount e)) (balance_of start (cap_key (teTransactionID e) (take 4 (teDate e))))
       (filter (\<lambda>e'. cap_day e' = cap_day e) earlier)"

definition after_event :: "f64 gomap \<Rightarrow> TransactionEvent \<Rightarrow> f64 gomap" where
  "after_event m e = (let k = cap_key (teTransactionID e) (take 4 (teDate e))
     in Mapping.update k (balance_of m k + maxFloat 0 (teRealizedAmount e)) m)"

lemma realized_before_fold:
  assumes "\<forall>e\<in>set (e # es). 4 \<le> length (teDate e)"
  shows "balance_of (foldl after_event m es) (cap_key (teTransactionID e) (take 4 (teDate e))) = realized_before m es e"
  using assms
proof (induction es arbitrary: m)
  case (Cons a as)
  have "length (take 4 (teDate a)) = length (take 4 (teDate e))"
    using Cons.prems by simp
  then have "cap_key (teTransactionID a) (take 4 (teDate a)) = cap_key (teTransactionID e) (take 4 (teDate e)) \<longleftrightarrow> cap_day a = cap_day e"
    by (auto simp: cap_key_inject cap_day_def)
  then show ?case
    using Cons.IH [of "after_event m a"] Cons.prems
    by (simp add: realized_before_def after_event_def lookup_default_update' Let_def cap_day_def)
qed (simp add: realized_before_def)

lemma evaluate_events_fold:
  assumes "\<forall>e\<in>set es. 4 \<le> length (teDate e)"
  shows "evaluate_events x m es = Some (map (\<lambda>i. evaluate_event x
      (balance_of (foldl after_event m (take i es)) (cap_key (teTransactionID (es ! i)) (take 4 (teDate (es ! i))))) (es ! i)) [0..<length es])"
  using assms
proof (induction es arbitrary: m)
  case (Cons a as)
  have "evaluate_events x m (a # as) = map_option ((#) (evaluate_event x
      (balance_of m (cap_key (teTransactionID a) (take 4 (teDate a)))) a)) (evaluate_events x (after_event m a) as)"
    using Cons.prems by (simp add: after_event_def Let_def)
  then show ?case
    using Cons.IH [of "after_event m a"] Cons.prems by (simp add: upt_conv_Cons map_Suc_upt [symmetric] comp_def del: upt_Suc)
qed simp

text \<open>
  The assessment returns for every path whose events carry a date, assesses each event exactly once in
  the order of date and sequence, and measures the cap of the i-th one by what was realized when the
  run started plus what the earlier events of the same identity and year realized.
\<close>

theorem assessment_ledger:
  assumes "\<forall>e\<in>set (phTransactionEvents path). 4 \<le> length (teDate e)"
  shows "let events = sort_by event_less_by_sequence (phTransactionEvents path);
      start = start_realized (pzAmountsByYear (phStartState path))
    in evaluateTransactionEvents path = Some (map (\<lambda>i.
         evaluate_event (path_assessment path) (realized_before start (take i events) (events ! i)) (events ! i))
       [0..<length (phTransactionEvents path)])"
proof -
  let ?es = "sort_by event_less_by_sequence (phTransactionEvents path)"
  have "\<forall>e\<in>set (?es ! i # take i ?es). 4 \<le> length (teDate e)" if "i < length ?es" for i
    using that assms nth_mem [OF that] by (auto dest: in_set_takeD)
  from realized_before_fold [OF this] show ?thesis
    by (simp add: evaluateTransactionEvents_def evaluate_events_fold assms Let_def)
qed

lemma assessment_ledger_witness:
  "map_option length (evaluateTransactionEvents (BuildProjectionPath report_prepared report_run)) = Some 1"
  using assessment_ledger [of "BuildProjectionPath report_prepared report_run"]
  by (simp add: BuildProjectionPath_def buildProjectionPath_def Let_def report_simps)

section \<open>Funding gaps\<close>

lemma destination_ceiling_listed:
  "(\<exists>c\<in>set (destination_and_limit input). kcType c = ''destination-ceiling'') \<longleftrightarrow>
     (\<exists>ds. kiDestinations input = Some ds \<and>
        isBinding (GetTotalDestinationHeadroom (kiBalancesBefore input) (kiAccountsByID input) ds) (kiRealizedAmount input))"
  by (cases "kiDestinations input"; cases "kiLimitRemaining input") (auto simp: destination_and_limit_def)

text \<open>An event that its destinations could not take more of.\<close>

definition destination_bound :: "ProjectionPath \<Rightarrow> TransactionEvent \<Rightarrow> bool" where
  "destination_bound path e \<longleftrightarrow>
     (let x = path_assessment path in
      case Mapping.lookup (asTransactionsByID x) (teTransactionID e) of
        None \<Rightarrow> False
      | Some t \<Rightarrow>
          \<not> teRequestedAmount e - teRealizedAmount e \<le> transactionEpsilon \<and>
          (case trSourceAccountID t of None \<Rightarrow> True | Some s \<Rightarrow> accountExists (asAccountsByID x) s) \<and>
          (case trDestinations t of None \<Rightarrow> False | Some ds \<Rightarrow>
             isBinding (GetTotalDestinationHeadroom (Mapping.lookup_default Mapping.empty (asBalancesBefore x) (teSequence e))
               (asAccountsByID x) ds) (teRealizedAmount e)))"

lemma event_constraints_destination:
  "(\<exists>c\<in>set (event_constraints (path_assessment path) r e). kcType c = ''destination-ceiling'') \<longleftrightarrow> destination_bound path e"
proof -
  have classified: "(\<exists>c\<in>set (ClassifyTransactionConstraints input). kcType c = ''destination-ceiling'') \<longleftrightarrow>
      \<not> kiRequestedAmount input - kiRealizedAmount input \<le> transactionEpsilon \<and>
      (case kiSourceAccountID input of None \<Rightarrow> True | Some s \<Rightarrow> accountExists (kiAccountsByID input) s) \<and>
      (\<exists>c\<in>set (destination_and_limit input). kcType c = ''destination-ceiling'')" for input
    unfolding ClassifyTransactionConstraints_def by (cases "kiSourceAccountID input") auto
  show ?thesis
  proof (cases "Mapping.lookup (asTransactionsByID (path_assessment path)) (teTransactionID e)")
    case None
    then show ?thesis by (simp add: event_constraints_def destination_bound_def Let_def)
  next
    case (Some t)
    show ?thesis
      by (simp only: event_constraints_def destination_bound_def Some option.case Let_def classified destination_ceiling_listed
          transactionConstraintInput.select_convs) (cases "trDestinations t"; simp)
  qed
qed

text \<open>
  C36. A later funding gap is reported exactly when some event after the given one asked for more than it
  got, by more than the tolerance, and not because its destinations were full.
\<close>

theorem hasFundingGapAfter_meaning:
  assumes "\<forall>e\<in>set (phTransactionEvents path). 4 \<le> length (teDate e)"
  shows "hasFundingGapAfter path date sequence = Some (\<exists>e\<in>set (phTransactionEvents path).
    (date < teDate e \<or> teDate e = date \<and> sequence < teSequence e) \<and>
    \<not> destination_bound path e \<and> transactionEpsilon < math_Max 0 (teRequestedAmount e - teRealizedAmount e))"
proof -
  let ?es = "sort_by event_less_by_sequence (phTransactionEvents path)"
  have positive: "\<not> transactionEpsilon < 0"
    using f64_of_rat_nonneg [of "1 / 1000000000"] by (cases transactionEpsilon) (auto simp: transactionEpsilon_def zero_f64_def)
  have gap: "transactionEpsilon < eeFundingShortfall (evaluate_event (path_assessment path) r e) \<longleftrightarrow>
      \<not> destination_bound path e \<and> transactionEpsilon < math_Max 0 (teRequestedAmount e - teRealizedAmount e)" for r e
    using positive by (simp add: evaluate_event_def Let_def event_constraints_destination)
  have event: "eeEvent (evaluate_event x r e) = e" for x r e
    by (simp add: evaluate_event_def Let_def)
  have "(\<exists>i\<in>{0..<length xs}. P (xs ! i)) \<longleftrightarrow> (\<exists>e\<in>set xs. P e)" for P and xs :: "TransactionEvent list"
    by (auto simp: in_set_conv_nth Bex_def)
  from this [of ?es] show ?thesis
    using assms by (simp add: hasFundingGapAfter_def evaluateTransactionEvents_def evaluate_events_fold gap event)
qed

lemma hasFundingGapAfter_meaning_witness:
  "hasFundingGapAfter (BuildProjectionPath report_prepared report_run) ''2024-01-30'' 5 = Some True"
proof -
  let ?path = "BuildProjectionPath report_prepared report_run"
  have events: "phTransactionEvents ?path = [report_event]"
    by (simp add: BuildProjectionPath_def buildProjectionPath_def Let_def report_simps)
  have model: "phEffectiveModel ?path = report_model"
    by (simp add: BuildProjectionPath_def buildProjectionPath_def Let_def report_simps)
  have epsilon: "transactionEpsilon \<le> FNum 1"
    using f64_of_rat_mono [of "1 / 1000000000" 1] by (simp add: transactionEpsilon_def f64_of_rat_numeral)
  have above: "\<not> FNum r < transactionEpsilon" if "1 \<le> r" for r
  proof -
    have "x \<le> FNum 1 \<Longrightarrow> \<not> FNum r < x" for x
      using that by (cases x) auto
    then show ?thesis using epsilon by blast
  qed
  let ?row = "projected_row report_model report_run True report_snapshot"
  have rows: "phRows ?path = [?row]"
    by (simp add: BuildProjectionPath_def buildProjectionPath_def Let_def report_simps)
  have index: "attempts_by_date [report_event] = Mapping.update ''2024-01-31'' [report_event] Mapping.empty"
    by (simp add: attempts_by_date_def append_at_def report_simps lookup_default_empty)
  have "projected_rows_by_date [?row] = Mapping.update ''2024-01-31'' ?row Mapping.empty"
    by (simp add: projected_rows_by_date_def projected_row_fields report_simps)
  then have "ReconstructBalancesBeforeEvents ?path = undo_events [report_event] (row_balances ?row) Mapping.empty"
    by (simp add: ReconstructBalancesBeforeEvents_def events rows index reconstruct_date_def lookup_update lookup_default_update
        Mapping.ordered_keys_def)
  moreover have "balance_of (row_balances ?row) ''savings'' = FNum 250"
    by (simp add: row_balances_def projected_row_def createRow_def report_simps account_snapshot_def lookup_default_update')
      (simp add: report_snapshot_def lookup_default_update')
  ultimately have before: "balance_of (Mapping.lookup_default Mapping.empty (ReconstructBalancesBeforeEvents ?path) (teSequence report_event)) ''savings'' = FNum 0"
    by (simp add: report_event_def undo_delta_def lookup_update lookup_default_update minus_f64_def)
  have "\<not> isBinding (GetTotalDestinationHeadroom b (accountIndex [wallet, savings]) [''savings'']) (FNum 250)"
    if "balance_of b ''savings'' = FNum 0" for b
  proof -
    have "MaxBalanceValue savings = FNum 10000000000000"
      by (simp add: savings_def NoCeiling_def MaxBalanceValue_def f64_of_rat_numeral)
    then show ?thesis
      using that above
      by (simp add: GetTotalDestinationHeadroom_def accountIndex_def report_simps lookup_update' isBinding_def zero_f64_def
          minus_f64_def f64_of_rat_numeral)
  qed
  moreover have "Mapping.lookup (transactions_by_id report_model) (teTransactionID report_event) = Some (rule_template deposit)"
    by (simp add: transactions_by_id_def report_model_def model_of_inputs_def sample_request_def
        ResolvedTransactionTransactions_def report_event_def rule_template_def rule_instance_def deposit_def lookup_update)
  moreover have "trDestinations (rule_template deposit) = Some [''savings'']"
    by (simp add: rule_template_def rule_instance_def deposit_def)
  ultimately have "\<not> destination_bound ?path report_event"
    using before by (simp add: destination_bound_def path_assessment_def model report_simps Let_def)
      (simp add: report_event_def)
  moreover have "transactionEpsilon < math_Max 0 (teRequestedAmount report_event - teRealizedAmount report_event)"
  proof -
    have "x \<le> FNum 1 \<Longrightarrow> x < FNum 50" for x by (cases x) auto
    then show ?thesis
      using epsilon by (simp add: report_event_def minus_f64_def f64_of_rat_numeral zero_f64_def)
  qed
  ultimately show ?thesis
    using hasFundingGapAfter_meaning [of ?path "''2024-01-30''" 5] events by (simp add: report_simps)
qed

end
