(* ===== verification/Purchase_Properties.thy ===== *)
theory Purchase_Properties
  imports Funding_Properties
begin

text \<open>
  The properties of planned purchases: the run that the scheduler returns is a run of the kernel for a
  schedule that works the queue off in order, and it keeps the promises of the purchase accepted last.
\<close>

section \<open>Schedules\<close>

text \<open>What the scheduler knows of its plan: the purchases done, and why the last one was accepted.\<close>

definition honoured :: "SimulationRun \<Rightarrow> scheduledPurchase \<Rightarrow> bool" where
  "honoured run s \<longleftrightarrow>
     (\<exists>event. fullyFundedPurchase run (ppID (spPurchase s)) = Some event \<and>
        hasFundingGapAfter (simulationPath run) (spDate s) (teSequence event) = Some False)"

definition plan_ok ::
  "environment \<Rightarrow> SimulationRequest \<Rightarrow> string list \<Rightarrow> PlannedPurchase list \<Rightarrow> purchase_plan \<Rightarrow> bool" where
  "plan_ok env request dates accepted plan \<longleftrightarrow>
     simulateScheduled env request (plScheduled plan) dates = Some (Inr (plAccepted plan)) \<and>
     map spPurchase (plScheduled plan) = accepted \<and>
     plLastDate plan = (if plScheduled plan = [] then rqStartDate request else spDate (last (plScheduled plan))) \<and>
     sorted (rqStartDate request # map spDate (plScheduled plan)) \<and>
     (\<forall>s\<in>set (plScheduled plan). ppEarliestDate (spPurchase s) \<le> spDate s) \<and>
     (plScheduled plan \<noteq> [] \<longrightarrow> honoured (plAccepted plan) (last (plScheduled plan)))"

lemma try_date_accepts:
  assumes "try_date env request dates purchase plan snapshot = Some (Inr (Some plan'))"
  shows "plScheduled plan' = plScheduled plan @ [\<lparr>spPurchase = purchase, spDate = snDate snapshot\<rparr>]"
    "simulateScheduled env request (plScheduled plan') dates = Some (Inr (plAccepted plan'))"
    "plLastDate plan' = snDate snapshot" "plLastDate plan \<le> snDate snapshot" "ppEarliestDate purchase \<le> snDate snapshot"
    "honoured (plAccepted plan') (last (plScheduled plan'))"
proof -
  let ?schedule = "plScheduled plan @ [\<lparr>spPurchase = purchase, spDate = snDate snapshot\<rparr>]"
  from assms have dates: "\<not> snDate snapshot < plLastDate plan" "\<not> snDate snapshot < ppEarliestDate purchase"
    by (auto simp: try_date_def split: if_splits)
  from assms have steps: "and_then (simulateScheduled env request ?schedule dates) (\<lambda>candidate.
       case fullyFundedPurchase candidate (ppID purchase) of
         None \<Rightarrow> Some (Inr None)
       | Some event \<Rightarrow>
           (case hasFundingGapAfter (simulationPath candidate) (snDate snapshot) (teSequence event) of
              None \<Rightarrow> None
            | Some gap \<Rightarrow>
                Some (Inr (if gap then None
                  else Some \<lparr>plScheduled = ?schedule, plAccepted = candidate, plLastDate = snDate snapshot\<rparr>)))) =
      Some (Inr (Some plan'))"
    by (auto simp: try_date_def Let_def split: if_splits)
  then obtain candidate event where
      sim: "simulateScheduled env request ?schedule dates = Some (Inr candidate)"
      and event: "fullyFundedPurchase candidate (ppID purchase) = Some event"
      and gap: "hasFundingGapAfter (simulationPath candidate) (snDate snapshot) (teSequence event) = Some False"
      and plan': "plan' = \<lparr>plScheduled = ?schedule, plAccepted = candidate, plLastDate = snDate snapshot\<rparr>"
    by (auto simp: and_then_def split: option.splits sum.splits if_splits)
  show "plScheduled plan' = ?schedule" "simulateScheduled env request (plScheduled plan') dates = Some (Inr (plAccepted plan'))"
    "plLastDate plan' = snDate snapshot" "plLastDate plan \<le> snDate snapshot" "ppEarliestDate purchase \<le> snDate snapshot"
    using sim dates by (simp_all add: plan' not_less)
  show "honoured (plAccepted plan') (last (plScheduled plan'))"
    using event gap by (auto simp: honoured_def plan')
qed

lemma try_dates_accepts:
  "try_dates env request dates purchase plan snapshots = Some (Inr (Some plan')) \<Longrightarrow>
     \<exists>snapshot\<in>set snapshots. try_date env request dates purchase plan snapshot = Some (Inr (Some plan'))"
  by (induction snapshots) (auto simp: and_then_def split: option.splits sum.splits)

lemma sorted_snoc:
  assumes "sorted xs" "xs \<noteq> []" "last xs \<le> (d :: 'a :: linorder)"
  shows "sorted (xs @ [d])"
proof -
  have "sorted ys \<Longrightarrow> x \<in> set ys \<Longrightarrow> x \<le> last ys" for x :: 'a and ys
    by (induction ys) auto
  then show ?thesis
    using assms by (auto simp: sorted_append intro: order_trans)
qed

lemma plan_ok_step:
  assumes "plan_ok env request dates accepted plan"
    and "try_date env request dates purchase plan snapshot = Some (Inr (Some plan'))"
  shows "plan_ok env request dates (accepted @ [purchase]) plan'"
proof -
  note accepts = try_date_accepts [OF assms(2)]
  let ?days = "rqStartDate request # map spDate (plScheduled plan)"
  have "last ?days = plLastDate plan"
    using assms(1) by (simp add: plan_ok_def last_map)
  then have "sorted (?days @ [snDate snapshot])"
    using assms(1) accepts(4) by (intro sorted_snoc) (simp_all add: plan_ok_def)
  then show ?thesis
    using assms(1) accepts by (auto simp: plan_ok_def)
qed

lemma schedule_purchases_ok:
  assumes "schedule_purchases env request dates queue plan = Some (Inr plan')"
    and "plan_ok env request dates accepted plan"
  shows "\<exists>n. plan_ok env request dates (accepted @ take n queue) plan'"
  using assms
proof (induction queue arbitrary: plan accepted)
  case (Cons purchase queue)
  let ?tries = "try_dates env request dates purchase plan (rnSnapshots (plAccepted plan))"
  from Cons.prems(1) obtain found where tries: "?tries = Some (Inr found)"
    by (auto simp: and_then_def split: option.splits sum.splits)
  show ?case
  proof (cases found)
    case None
    then have "plan' = plan" using Cons.prems(1) tries by (simp add: and_then_def)
    then show ?thesis using Cons.prems(2) by (intro exI [of _ 0]) simp
  next
    case (Some next_plan)
    then obtain snapshot where "try_date env request dates purchase plan snapshot = Some (Inr (Some next_plan))"
      using try_dates_accepts tries by blast
    from plan_ok_step [OF Cons.prems(2) this] have "plan_ok env request dates (accepted @ [purchase]) next_plan" .
    moreover have "schedule_purchases env request dates queue next_plan = Some (Inr plan')"
      using Cons.prems(1) tries Some by (simp add: and_then_def)
    ultimately obtain n where "plan_ok env request dates ((accepted @ [purchase]) @ take n queue) plan'"
      using Cons.IH by blast
    then show ?thesis by (intro exI [of _ "Suc n"]) simp
  qed
qed (use assms in \<open>auto intro: exI [of _ 0]\<close>)

text \<open>
  C9. Whatever run the purchase scheduler returns is a run of the projection kernel for some schedule: the
  scheduled purchases are the first of the enabled ones in order of priority, their dates never go
  back, never precede the start or the purchase's earliest date, and in the run returned the last one
  is paid in full and opens no later funding gap.
\<close>

theorem simulatePurchases_schedule:
  assumes "simulatePurchases env request = Some (Inr run)"
  shows "\<exists>queue scheduled dates n.
    purchase_queue (siPlannedPurchases (rqModel request)) = Inr queue \<and>
    simulateScheduled env request scheduled dates = Some (Inr run) \<and>
    map spPurchase scheduled = take n (queue_order queue) \<and>
    sorted (rqStartDate request # map spDate scheduled) \<and>
    (\<forall>s\<in>set scheduled. ppEarliestDate (spPurchase s) \<le> spDate s) \<and>
    (scheduled \<noteq> [] \<longrightarrow> honoured run (last scheduled))"
proof -
  obtain queue where queue: "purchase_queue (siPlannedPurchases (rqModel request)) = Inr queue"
    using assms by (auto simp: simulatePurchases_def and_then_def split: option.splits sum.splits)
  show ?thesis
  proof (cases "queue = []")
    case True
    then have "simulateScheduled env request [] [] = Some (Inr run)"
      using assms queue by (auto simp: simulatePurchases_def and_then_def split: option.splits sum.splits)
    then show ?thesis using queue by (intro exI [of _ queue] exI [of _ "[]"] exI [of _ 0]) simp
  next
    case False
    then obtain resolved where resolved: "ResolveOccurrences (siSchedules (rqModel request)) (siTransactions (rqModel request))
        (rqStartDate request) (rqEndDate request) (rqIncludeStartDateEvents request) = Some resolved"
      using assms queue by (auto simp: simulatePurchases_def and_then_def split: option.splits sum.splits)
    let ?dates = "candidate_dates request queue resolved"
    obtain first plan where first: "simulateScheduled env request [] ?dates = Some (Inr first)"
      and plan: "schedule_purchases env request ?dates (queue_order queue)
          \<lparr>plScheduled = [], plAccepted = first, plLastDate = rqStartDate request\<rparr> = Some (Inr plan)"
      and run: "run = plAccepted plan"
      using assms queue resolved False
      by (auto simp: simulatePurchases_def and_then_def Let_def split: option.splits sum.splits)
    have "plan_ok env request ?dates [] \<lparr>plScheduled = [], plAccepted = first, plLastDate = rqStartDate request\<rparr>"
      using first by (simp add: plan_ok_def)
    from schedule_purchases_ok [OF plan this] obtain n where "plan_ok env request ?dates (take n (queue_order queue)) plan"
      by auto
    then show ?thesis
      using queue run unfolding plan_ok_def by blast
  qed
qed

section \<open>What a purchase asks for\<close>

lemma purchase_amount:
  assumes "wf64 (ppCost p)" "0 < ppCost p" "\<not> isInf (ppCost p)" "plannedToTransaction p = Some t"
  shows "ResolveTransactionAmountDescriptor pow (trAmount t) ctx = Some (Inr (ppCost p))"
proof -
  have "trAmount t = \<lparr>amResolver = ''expression'', amConfig = [(''expression'', JStr (FormatFloat_f (ppCost p)))], amInputs = []\<rparr>"
    using assms(4) by (auto simp: plannedToTransaction_def)
  moreover have "\<not> isNonFinite (ppCost p)"
    using assms(1-3) by (cases "ppCost p") (auto simp: isNonFinite_def zero_f64_def)
  ultimately show ?thesis
    by (simp add: ResolveTransactionAmountDescriptor_def LookupAmountResolver_def amountResolvers_def
      expression_resolver_def config_expression_def FormatFloat_f_read [OF assms(1-3)] validateExactKeys_def)
qed

text \<open>
  A scheduled purchase that the queue accepts asks for exactly its cost, to the last bit, although the
  cost travels through the text of an expression; no annual cap limits it, and it is never a loss.
\<close>

theorem purchase_prepared:
  assumes "wf64 (ppCost p)" "validatePlannedPurchaseCost (ppCost p) (ppID p) = Inr ()" "plannedToTransaction p = Some t"
    and "ocTransaction occurrence = t" "ocRule occurrence = None" "4 \<le> length date"
  shows "PrepareTransactionExecution pow occurrence date False s rate = Some (Inr
    \<lparr>pxTransaction = t, pxRequestedAmount = ppCost p, pxAnnualCapRemaining = FInf False, pxHistoricalActual = False, pxIsLoss = False\<rparr>)"
proof -
  have cost: "0 < ppCost p" "\<not> isInf (ppCost p)"
    using assms(2) by (cases "ppCost p"; auto simp: validatePlannedPurchaseCost_def zero_f64_def split: if_splits)+
  moreover have "\<not> ppCost p < 0"
    using cost by (cases "ppCost p") (auto simp: zero_f64_def)
  ultimately show ?thesis
    using purchase_amount [OF assms(1) cost assms(3)] assms(4-6)
    by (simp add: PrepareTransactionExecution_def ComputeRequestedAmount_def cap_remaining_def)
qed

section \<open>A sample purchase\<close>

definition bike :: PlannedPurchase where
  "bike = \<lparr>ppID = ''bike'', ppName = ''Bike'', ppFundingAccountID = Some ''checking'', ppCost = FNum 50,
     ppEarliestDate = ''2024-01-30'', ppEnabled = True, ppPriority = 1\<rparr>"

definition bike_request :: SimulationRequest where
  "bike_request = sample_request\<lparr>rqModel := (rqModel sample_request)\<lparr>siSchedules := [], siPlannedPurchases := [bike]\<rparr>\<rparr>"

definition bike_transaction :: Transaction where
  "bike_transaction = \<lparr>trID = ''bike'', trName = ''Bike'', trSourceAccountID = Some ''checking'', trDestinations = None,
     trAmount = \<lparr>amResolver = ''expression'', amConfig = [(''expression'', JStr (FormatFloat_f (FNum 50)))], amInputs = []\<rparr>,
     trPostedTime = 1706572800, trTransactionTime = 1706572800, trClaim = None, trEnabled = True,
     trPending = False, trSource = '''', trExecutionOrder = 0, trVoid = False\<rparr>"

lemma bike_transaction: "plannedToTransaction bike = Some bike_transaction"
proof -
  have "midnightUnix ''2024-01-30'' = Some 1706572800" by code_simp
  then show ?thesis by (simp add: plannedToTransaction_def bike_def bike_transaction_def)
qed

lemma purchase_prepared_witness:
  "\<forall>pow s. PrepareTransactionExecution pow
     \<lparr>ocTransaction = bike_transaction, ocIndex = 0, ocRule = None, ocPurchase = Some bike, ocDocPath = None\<rparr>
     ''2024-01-31'' False s None = Some (Inr \<lparr>pxTransaction = bike_transaction, pxRequestedAmount = FNum 50,
       pxAnnualCapRemaining = FInf False, pxHistoricalActual = False, pxIsLoss = False\<rparr>)"
proof -
  have "wf64 (f64_of_rat 50)" by simp
  then have "wf64 (ppCost bike)" by (simp add: f64_of_rat_numeral bike_def)
  moreover have "validatePlannedPurchaseCost (ppCost bike) (ppID bike) = Inr ()"
    by (simp add: validatePlannedPurchaseCost_def bike_def zero_f64_def)
  ultimately show ?thesis
    using purchase_prepared [OF _ _ bike_transaction, of
        "\<lparr>ocTransaction = bike_transaction, ocIndex = 0, ocRule = None, ocPurchase = Some bike, ocDocPath = None\<rparr>"]
    by (simp add: bike_def)
qed

text \<open>The bike is bought on the only day of the run: a whole pass through the scheduler.\<close>

definition bike_occurrence :: DatedTransactionOccurrence where
  "bike_occurrence = \<lparr>ocTransaction = bike_transaction, ocIndex = 0, ocRule = None, ocPurchase = Some bike, ocDocPath = None\<rparr>"

definition bike_schedule :: scheduledPurchase where
  "bike_schedule = \<lparr>spPurchase = bike, spDate = ''2024-01-31''\<rparr>"

lemma bike_resolved:
  "ResolveOccurrences [] [] a b c = Some \<lparr>roInstances = [], roByDate = Mapping.empty\<rparr>"
  by (simp add: ResolveOccurrences_def Let_def)

lemma bike_inputs:
  "siSchedules (rqModel bike_request) = []" "siTransactions (rqModel bike_request) = []"
  "siPlannedPurchases (rqModel bike_request) = [bike]" "siAccounts (rqModel bike_request) = [wallet, card, savings]"
  "rqStartDate bike_request = ''2024-01-31''" "rqEndDate bike_request = ''2024-01-31''" "rqHistoryCutInstant bike_request = 0"
  "rqMonteCarloSample bike_request = None" "rqInitialState bike_request = sample_state" "envResimulationAllowed sample_env"
  by (simp_all add: bike_request_def sample_request_def sample_env_def)

lemma bike_dates: "candidate_dates bike_request [bike] \<lparr>roInstances = [], roByDate = Mapping.empty\<rparr> = [''2024-01-31'']"
proof -
  have "\<not> ''2024-01-31'' \<le> ''2024-01-30''" by code_simp
  then show ?thesis by (simp add: candidate_dates_def bike_inputs) (simp add: bike_def)
qed

lemma bike_event_dates:
  "event_dates bike_request [] [''2024-01-31''] = Some (Mapping.update ''2024-01-31'' [] Mapping.empty)"
  "event_dates bike_request [bike_schedule] [''2024-01-31''] =
     Some (Mapping.update ''2024-01-31'' [bike_occurrence] (Mapping.update ''2024-01-31'' [] Mapping.empty))"
  by (simp_all add: event_dates_def bike_inputs bike_resolved add_candidate_date_def bike_schedule_def bike_transaction
      append_at_def lookup_default_update bike_occurrence_def)

definition bike_runtime :: TransitionRuntime where
  "bike_runtime = CreateTransitionRuntime (rqModel bike_request) sample_state ''2024-01-31'' None"

lemma bike_start: "start_run bike_request = \<lparr>rsRuntime = bike_runtime, rsAttempts = [], rsSnapshots = []\<rparr>"
  by (simp add: start_run_def bike_runtime_def bike_inputs)

lemma bike_first:
  "simulateScheduled sample_env bike_request [] [''2024-01-31''] = Some (Inr (finish_run bike_request
     (take_snapshot ''2024-01-31'' \<lparr>rsRuntime = bike_runtime, rsAttempts = [], rsSnapshots = []\<rparr>)))"
  by (simp add: simulateScheduled_def requireResimulationAllowed_def bike_inputs bike_event_dates bike_start ordered_keys_def
      lookup_default_update sortOccurrences_def)

lemma sample_withdrawable: "GetWithdrawableAmount sample_balances sample_accounts ''checking'' = FNum 400"
  by (simp add: GetWithdrawableAmount_def lookup_sample_accounts sample_limits balance_of_sample)
    (simp add: zero_f64_def minus_f64_def f64_of_rat_numeral)

lemma bike_executes:
  obtains x t' where "ExecuteTransaction pow bike_runtime bike_occurrence ''2024-01-31'' False = Some (Inr (x, t'))"
    "xtTransactionID x = ''bike''" "xtResult x = \<lparr>resRequestedAmount = FNum 50, resRealizedAmount = FNum 50\<rparr>"
proof -
  have rt: "rtAccountByID bike_runtime = sample_accounts" "ssBalances (rtState bike_runtime) = sample_balances"
    by (simp_all add: bike_runtime_def CreateTransitionRuntime_def bike_inputs sample_accounts_def
        CloneSimulationState_def sample_state_def SnapshotBalances_def)
  have "wf64 (f64_of_rat 50)" by simp
  then have cost: "wf64 (ppCost bike)" "0 < ppCost bike" "\<not> isInf (ppCost bike)"
    by (simp_all add: f64_of_rat_numeral bike_def zero_f64_def)
  have "PrepareTransactionExecution pow bike_occurrence ''2024-01-31'' False s None = Some (Inr \<lparr>pxTransaction = bike_transaction,
      pxRequestedAmount = FNum 50, pxAnnualCapRemaining = FInf False, pxHistoricalActual = False, pxIsLoss = False\<rparr>)" for s
    using purchase_amount [OF cost bike_transaction]
    by (simp add: PrepareTransactionExecution_def ComputeRequestedAmount_def cap_remaining_def bike_occurrence_def)
      (simp add: bike_def zero_f64_def)
  moreover have "sampled_rate bike_runtime (ocTransaction bike_occurrence) ''2024-01-31'' = Some (Inr None)"
    by (simp add: sampled_rate_def bike_runtime_def CreateTransitionRuntime_def split: option.split)
  moreover have "prepared_result \<lparr>pxTransaction = bike_transaction,
      pxRequestedAmount = FNum 50, pxAnnualCapRemaining = FInf False, pxHistoricalActual = False, pxIsLoss = False\<rparr>
      sample_balances sample_accounts = \<lparr>resRequestedAmount = FNum 50, resRealizedAmount = FNum 50\<rparr>"
  proof -
    have "math_Min (FInf False) (FNum x) = FNum x" "math_Min (FNum x) (FInf False) = FNum x" "feq (FNum 50) 0 = False" for x
      by (simp_all add: math_Min_def feq_def zero_f64_def)
    moreover have "trSourceAccountID bike_transaction = Some ''checking''" "trDestinations bike_transaction = None"
      by (simp_all add: bike_transaction_def)
    ultimately show ?thesis
      by (simp add: prepared_result_def maxFloat_0_num ResolveTransactionTransaction_def ResolveAccountTransaction_def Let_def
          accountExists_def lookup_sample_accounts sample_withdrawable)
  qed
  ultimately show ?thesis
    using that
    by (simp add: ExecuteTransaction_def ApplyPreparedExecution_eq executed_state_def observeTransaction_def rt Let_def)
      (simp add: bike_transaction_def)
qed

lemma bike_run:
  obtains run where "simulateScheduled sample_env bike_request [bike_schedule] [''2024-01-31''] = Some (Inr run)"
    "honoured run bike_schedule" "rnSnapshots run \<noteq> []" "map teTransactionID (rnTransactionAttempts run) = [''bike'']"
proof -
  obtain x t' where x: "ExecuteTransaction (envPow sample_env) bike_runtime bike_occurrence ''2024-01-31'' False = Some (Inr (x, t'))"
    "xtTransactionID x = ''bike''" "xtResult x = \<lparr>resRequestedAmount = FNum 50, resRealizedAmount = FNum 50\<rparr>"
    using bike_executes by blast
  let ?e = "transaction_event ''2024-01-31'' 0 x"
  define run where "run = finish_run bike_request (take_snapshot ''2024-01-31'' \<lparr>rsRuntime = t', rsAttempts = [?e], rsSnapshots = []\<rparr>)"
  have "simulateScheduled sample_env bike_request [bike_schedule] [''2024-01-31''] = Some (Inr run)"
    using x(1) by (simp add: simulateScheduled_def requireResimulationAllowed_def bike_inputs bike_event_dates bike_start
        ordered_keys_def lookup_default_update sortOccurrences_def run_occurrence_def replayed_already_def run_def)
  moreover have attempts: "rnTransactionAttempts run = [?e]" and snaps: "rnSnapshots run \<noteq> []"
    by (simp_all add: run_def finish_run_def take_snapshot_def)
  moreover have "honoured run bike_schedule"
  proof -
    have "FNum 50 - FNum 50 \<le> transactionEpsilon"
      using f64_of_rat_nonneg [of "1 / 1000000000"] by (simp add: transactionEpsilon_def minus_f64_def zero_f64_def)
    then have "fullyFundedPurchase run ''bike'' = Some ?e"
      using x by (simp add: fullyFundedPurchase_def attempts transaction_event_def)
    moreover have "phTransactionEvents (simulationPath run) = [?e]"
      by (simp add: simulationPath_def BuildStochasticSamplePath_def buildProjectionPath_def Let_def attempts)
    then have "hasFundingGapAfter (simulationPath run) ''2024-01-31'' (teSequence ?e) = Some False"
      by (simp add: hasFundingGapAfter_def evaluateTransactionEvents_def Let_def evaluate_event_def transaction_event_def)
    ultimately show ?thesis
      by (simp add: honoured_def bike_schedule_def bike_def)
  qed
  ultimately show ?thesis
    using that [of run] x(2) by (simp add: transaction_event_def)
qed

lemma bike_bought:
  obtains run where "simulatePurchases sample_env bike_request = Some (Inr run)"
    "map teTransactionID (rnTransactionAttempts run) = [''bike'']"
proof -
  obtain run where run: "simulateScheduled sample_env bike_request [bike_schedule] [''2024-01-31''] = Some (Inr run)"
    "honoured run bike_schedule" "rnSnapshots run \<noteq> []" "map teTransactionID (rnTransactionAttempts run) = [''bike'']"
    using bike_run by blast
  let ?first = "finish_run bike_request (take_snapshot ''2024-01-31'' \<lparr>rsRuntime = bike_runtime, rsAttempts = [], rsSnapshots = []\<rparr>)"
  let ?plan = "\<lparr>plScheduled = [], plAccepted = ?first, plLastDate = ''2024-01-31''\<rparr>"
  let ?snapshot = "\<lparr>snDate = ''2024-01-31'', snBalances = sample_balances\<rparr>"
  have snapshots: "rnSnapshots ?first = [?snapshot]"
    by (simp add: finish_run_def take_snapshot_def bike_runtime_def CreateTransitionRuntime_def CloneSimulationState_def
        SnapshotBalances_def sample_state_def)
  have "\<not> ''2024-01-31'' < ''2024-01-30''" by code_simp
  moreover have "\<not> cannot_afford bike_request bike ?snapshot"
  proof -
    obtain e where e: "transactionEpsilon = FNum e" "0 \<le> e"
      using f64_of_rat_nonneg [of "1 / 1000000000"] f64_of_rat_mono [of "1 / 1000000000" 1]
      by (cases "f64_of_rat (1 / 1000000000)") (auto simp: transactionEpsilon_def zero_f64_def f64_of_rat_numeral)
    have "FNum 400 \<le> FNum 400 + transactionEpsilon"
      using f64_of_rat_mono [of 400 "400 + e"] e(2) unfolding e(1) by (simp add: f64_of_rat_numeral)
    moreover have "FNum 400 \<le> y \<Longrightarrow> \<not> y < FNum 50" for y by (cases y) auto
    ultimately have "\<not> FNum 400 + transactionEpsilon < FNum 50" by blast
    then show ?thesis
      using sample_withdrawable
      by (simp add: cannot_afford_def) (simp add: bike_def bike_inputs sample_accounts_def [symmetric])
  qed
  ultimately have "try_date sample_env bike_request [''2024-01-31''] bike ?plan ?snapshot =
      Some (Inr (Some \<lparr>plScheduled = [bike_schedule], plAccepted = run, plLastDate = ''2024-01-31''\<rparr>))"
    using run(1,2) by (auto simp: try_date_def honoured_def bike_schedule_def Let_def) (simp_all add: bike_def)
  then have schedule: "schedule_purchases sample_env bike_request [''2024-01-31''] [bike] ?plan =
      Some (Inr \<lparr>plScheduled = [bike_schedule], plAccepted = run, plLastDate = ''2024-01-31''\<rparr>)"
    by (simp add: snapshots)
  have queue: "purchase_queue [bike] = Inr [bike]"
    by (simp add: validatePlannedPurchaseCost_def bike_def zero_f64_def)
  have order: "queue_order [bike] = [bike]" by (simp add: queue_order_def)
  have "simulatePurchases sample_env bike_request = Some (Inr run)"
    by (simp only: simulatePurchases_def requireResimulationAllowed_def bike_inputs bike_resolved queue order and_then_simps
        option.case Let_def bike_dates bike_first schedule list.distinct if_True if_False purchase_plan.select_convs)
  from that [OF this run(4)] show ?thesis .
qed

lemma simulatePurchases_schedule_witness:
  "\<exists>run scheduled dates. simulatePurchases sample_env bike_request = Some (Inr run) \<and>
     simulateScheduled sample_env bike_request scheduled dates = Some (Inr run) \<and>
     map teTransactionID (rnTransactionAttempts run) = [''bike'']"
proof -
  obtain run where run: "simulatePurchases sample_env bike_request = Some (Inr run)"
    "map teTransactionID (rnTransactionAttempts run) = [''bike'']"
    using bike_bought by blast
  from simulatePurchases_schedule [OF run(1)] obtain scheduled dates where
    "simulateScheduled sample_env bike_request scheduled dates = Some (Inr run)" by (elim exE conjE)
  with run show ?thesis by (intro exI conjI)
qed

end
