(* ===== verification/Go_Strings.thy ===== *)
theory Go_Strings
  imports Prelude
begin

text \<open>
  The functions of Go's \<open>strings\<close> package that the code applies to names, identifiers and codes:
  \<open>TrimSpace\<close>, \<open>Fields\<close> joined again, \<open>ToUpper\<close> as far as it decides an ASCII code.  A string is a
  list of bytes; a white-space rune is its UTF-8 encoding.  No encoding of a space begins inside
  another rune, so looking for the encodings byte by byte finds exactly the white-space runes.
\<close>

section \<open>White space\<close>

definition space_encodings :: "string list" where
  "space_encodings =
     map (\<lambda>n. [char_of (n :: nat)]) [0x09, 0x0A, 0x0B, 0x0C, 0x0D, 0x20] @
     map (\<lambda>n. [CHR 0xC2, char_of (n :: nat)]) [0x85, 0xA0] @
     [[CHR 0xE1, CHR 0x9A, CHR 0x80]] @
     map (\<lambda>n. [CHR 0xE2, CHR 0x80, char_of (n :: nat)])
       [0x80, 0x81, 0x82, 0x83, 0x84, 0x85, 0x86, 0x87, 0x88, 0x89, 0x8A, 0xA8, 0xA9, 0xAF] @
     [[CHR 0xE2, CHR 0x81, CHR 0x9F], [CHR 0xE3, CHR 0x80, CHR 0x80]]"

text \<open>The length of the space a string begins with, 0 when it begins with none.\<close>

definition space_at :: "string list \<Rightarrow> string \<Rightarrow> nat" where
  "space_at encodings s =
     (case find (\<lambda>e. take (length e) s = e) encodings of None \<Rightarrow> 0 | Some e \<Rightarrow> length e)"

lemma space_at_le: "space_at encodings s \<le> length s"
proof (cases "find (\<lambda>e. take (length e) s = e) encodings")
  case (Some e)
  then have "take (length e) s = e" by (simp add: find_Some_iff) metis
  then have "length e \<le> length s" by (metis length_take min.cobounded1)
  with Some show ?thesis by (simp add: space_at_def)
qed (simp add: space_at_def)

function trim_left :: "string list \<Rightarrow> string \<Rightarrow> string" where
  "trim_left encodings s =
     (if space_at encodings s = 0 then s else trim_left encodings (drop (space_at encodings s) s))"
  by auto
termination
proof (relation "measure (length \<circ> snd)")
  fix encodings s assume "space_at encodings s \<noteq> 0"
  then show "((encodings, drop (space_at encodings s) s), (encodings, s)) \<in> measure (length \<circ> snd)"
    using space_at_le [of encodings s] by simp
qed simp

declare trim_left.simps [simp del]

definition TrimSpace :: "string \<Rightarrow> string" where
  "TrimSpace s = rev (trim_left (map rev space_encodings) (rev (trim_left space_encodings s)))"

text \<open>\<open>strings.Join(strings.Fields(s), "")\<close>: the string without its spaces.\<close>

function without_spaces :: "string \<Rightarrow> string" where
  "without_spaces s =
     (if s = [] then []
      else if space_at space_encodings s = 0 then hd s # without_spaces (tl s)
      else without_spaces (drop (space_at space_encodings s) s))"
  by auto
termination
proof (relation "measure length")
  fix s :: string assume "s \<noteq> []" "space_at space_encodings s \<noteq> 0"
  then show "(drop (space_at space_encodings s) s, s) \<in> measure length"
    by simp
qed simp_all

declare without_spaces.simps [simp del]

section \<open>Upper case\<close>

definition ascii_upper :: "char \<Rightarrow> char" where
  "ascii_upper c = (if CHR ''a'' \<le> c \<and> c \<le> CHR ''z'' then char_of (of_char c - 32 :: nat) else c)"

text \<open>
  Two more runes have an ASCII capital: dotless i (C4 B1) and long s (C5 BF).  Any other rune maps
  to runes outside ASCII or, with its bytes, to none, and is left alone here; a string that holds
  one is no code of three capitals before or after.
\<close>

fun ToUpper :: "string \<Rightarrow> string" where
  "ToUpper [] = []"
| "ToUpper [c] = [ascii_upper c]"
| "ToUpper (c # d # s) =
     (if c = CHR 0xC4 \<and> d = CHR 0xB1 then CHR ''I'' # ToUpper s
      else if c = CHR 0xC5 \<and> d = CHR 0xBF then CHR ''S'' # ToUpper s
      else ascii_upper c # ToUpper (d # s))"

section \<open>Laws\<close>

lemma trim_left_decompose: "\<exists>k. trim_left encodings s = drop k s"
proof (induction encodings s rule: trim_left.induct)
  case (1 encodings s)
  show ?case
  proof (cases "space_at encodings s = 0")
    case False
    then obtain k where "trim_left encodings (drop (space_at encodings s) s) = drop k (drop (space_at encodings s) s)"
      using 1 by blast
    then show ?thesis using False by (subst trim_left.simps) auto
  qed (use trim_left.simps in \<open>auto intro: exI [of _ 0]\<close>)
qed

lemma trim_left_done: "space_at encodings (trim_left encodings s) = 0"
  by (induction encodings s rule: trim_left.induct) (simp add: trim_left.simps)

lemma trim_left_idem: "trim_left encodings (trim_left encodings s) = trim_left encodings s"
  using trim_left_done trim_left.simps by metis

text \<open>Text that begins and ends with a visible ASCII character has nothing to trim.\<close>

lemma space_encodings_ends:
  "\<forall>e\<in>set space_encodings. e \<noteq> [] \<and> (hd e \<le> CHR '' '' \<or> CHR 0x80 \<le> hd e) \<and> (last e \<le> CHR '' '' \<or> CHR 0x80 \<le> last e)"
  by code_simp

lemma space_at_plain:
  assumes "\<forall>e\<in>set encodings. e \<noteq> [] \<and> (hd e \<le> CHR '' '' \<or> CHR 0x80 \<le> hd e)"
    and "s \<noteq> []" "CHR '' '' < hd s" "hd s < CHR 0x80"
  shows "space_at encodings s = 0"
proof -
  have "take (length e) s \<noteq> e" if "e \<in> set encodings" for e
  proof
    assume "take (length e) s = e"
    then have "hd e = hd s" using assms(1,2) that by (cases e; cases s) auto
    then show False using assms that by fastforce
  qed
  then have "find (\<lambda>e. take (length e) s = e) encodings = None" by (simp add: find_None_iff)
  then show ?thesis by (simp add: space_at_def)
qed

lemma TrimSpace_plain:
  assumes "s \<noteq> []" "CHR '' '' < hd s" "hd s < CHR 0x80" "CHR '' '' < last s" "last s < CHR 0x80"
  shows "TrimSpace s = s"
proof -
  have "space_at space_encodings s = 0" "space_at (map rev space_encodings) (rev s) = 0"
    using assms space_encodings_ends by (intro space_at_plain; simp add: hd_rev)+
  then show ?thesis
    by (simp add: TrimSpace_def trim_left.simps [of _ s] trim_left.simps [of _ "rev s"])
qed

end
