(* ===== verification/Go_Loops.thy ===== *)
theory Go_Loops
  imports Prelude "HOL-Library.Mapping"
begin

text \<open>
  Loops over slices that the components share: the search for the first error, the loop that
  appends results row by row while it updates local variables, and the index of rows by key.
\<close>

section \<open>The first error\<close>

fun first_error :: "('a \<Rightarrow> 'e option) \<Rightarrow> 'a list \<Rightarrow> 'e option" where
  "first_error check [] = None"
| "first_error check (x # xs) = (case check x of Some e \<Rightarrow> Some e | None \<Rightarrow> first_error check xs)"

lemma first_error_None: "first_error check xs = None \<longleftrightarrow> (\<forall>x\<in>set xs. check x = None)"
  by (induction xs) (simp_all split: option.split)

section \<open>Calls that return\<close>

definition returns :: "'a option \<Rightarrow> bool" where
  "returns m \<longleftrightarrow> m \<noteq> None"

lemma returns_simps [simp]:
  "returns (Some x)" "\<not> returns None" "returns (map_option f m) \<longleftrightarrow> returns m"
  by (simp_all add: returns_def)

lemma returns_and_then: "returns m \<Longrightarrow> (\<And>v. m = Some (Inr v) \<Longrightarrow> returns (f v)) \<Longrightarrow> returns (and_then m f)"
  by (cases m) (auto simp: and_then_def split: sum.splits)

lemma returns_option: "returns m \<Longrightarrow> (\<And>v. m = Some v \<Longrightarrow> returns (f v)) \<Longrightarrow> returns (case m of None \<Rightarrow> None | Some v \<Rightarrow> f v)"
  by (cases m) simp_all

lemma returnsE: "returns m \<Longrightarrow> (\<And>v. m = Some v \<Longrightarrow> thesis) \<Longrightarrow> thesis"
  by (auto simp: returns_def)

lemma those_map: "those (map f xs) = Some ys \<longleftrightarrow> (\<forall>x\<in>set xs. f x \<noteq> None) \<and> ys = map (\<lambda>x. the (f x)) xs"
  by (induction xs arbitrary: ys) (auto split: option.split)

section \<open>Rows in order\<close>

text \<open>
  \<open>for index, row := range rows\<close> with a body that appends to the results and updates the state.
  The second form has a body that may not return.
\<close>

fun scan :: "(nat \<Rightarrow> 'a \<Rightarrow> 's \<Rightarrow> 'b list \<times> 's) \<Rightarrow> nat \<Rightarrow> 'a list \<Rightarrow> 's \<Rightarrow> 'b list \<times> 's" where
  "scan body i [] s = ([], s)"
| "scan body i (x # xs) s =
     (let (out, s) = body i x s; (rest, s) = scan body (i + 1) xs s in (out @ rest, s))"

fun scan_may :: "(nat \<Rightarrow> 'a \<Rightarrow> 's \<Rightarrow> ('b list \<times> 's) option) \<Rightarrow> nat \<Rightarrow> 'a list \<Rightarrow> 's \<Rightarrow> ('b list \<times> 's) option" where
  "scan_may body i [] s = Some ([], s)"
| "scan_may body i (x # xs) s =
     (case body i x s of
        None \<Rightarrow> None
      | Some (out, s) \<Rightarrow> map_option (\<lambda>(rest, s). (out @ rest, s)) (scan_may body (i + 1) xs s))"

fun each :: "(nat \<Rightarrow> 'a \<Rightarrow> 'b list) \<Rightarrow> nat \<Rightarrow> 'a list \<Rightarrow> 'b list" where
  "each body i [] = []"
| "each body i (x # xs) = body i x @ each body (i + 1) xs"

lemma each_all:
  assumes "\<And>i x. x \<in> set xs \<Longrightarrow> list_all P (body i x) \<longleftrightarrow> Q x"
  shows "list_all P (each body i xs) \<longleftrightarrow> (\<forall>x\<in>set xs. Q x)"
  using assms by (induction xs arbitrary: i) auto

lemma scan_Cons:
  "fst (scan body i (x # xs) s) = fst (body i x s) @ fst (scan body (i + 1) xs (snd (body i x s)))"
  "snd (scan body i (x # xs) s) = snd (scan body (i + 1) xs (snd (body i x s)))"
  by (simp_all split: prod.split)

lemma scan_may_returns: "(\<And>i x s. x \<in> set xs \<Longrightarrow> returns (body i x s)) \<Longrightarrow> returns (scan_may body i xs s)"
  by (induction xs arbitrary: i s) (force intro: returns_option split: prod.split)+

section \<open>Indices by key\<close>

lemma index_other:
  "k x \<notin> k ` set xs \<Longrightarrow> Mapping.lookup (foldl (\<lambda>m a. Mapping.update (k a) a m) m xs) (k x) = Mapping.lookup m (k x)"
  by (induction xs arbitrary: m) (auto simp: lookup_update')

lemma index_member:
  assumes "distinct (map k xs)" "x \<in> set xs"
  shows "Mapping.lookup (foldl (\<lambda>m a. Mapping.update (k a) a m) m xs) (k x) = Some x"
  using assms
proof (induction xs arbitrary: m)
  case (Cons y ys)
  then show ?case
    using index_other [of k x ys "Mapping.update (k x) x m"] by (cases "x = y") (auto simp: lookup_update')
qed simp

lemma index_None:
  "i \<notin> k ` set xs \<Longrightarrow> Mapping.lookup (foldl (\<lambda>m a. Mapping.update (k a) a m) m xs) i = Mapping.lookup m i"
  by (induction xs arbitrary: m) (auto simp: lookup_update')

end
