(* ===== verification/Split.thy ===== *)
theory Split
  imports Go_Strings Go_Loops "HOL-Library.Word" "HOL-Library.Signed_Division"
begin

text \<open>
  Splitting an expense and settling it: \<open>backend/internal/domain/split.go\<close> and
  \<open>backend/internal/store/settlement.go\<close>.  Amounts are 64-bit integers of minor units, with Go's
  wrap-around and truncating division.  A map argument that the code ranges over is the list of
  its entries in the order the range visits them.
\<close>

section \<open>Integers of 64 bits\<close>

type_synonym int64 = "64 word"

definition int64_of_int :: "int \<Rightarrow> int64" where
  "int64_of_int = word_of_int"

text \<open>Go divides towards zero; the remainder has the sign of the dividend.\<close>

definition quo64 :: "int64 \<Rightarrow> int64 \<Rightarrow> int64" where
  "quo64 a b = word_of_int (sint a sdiv sint b)"

definition rem64 :: "int64 \<Rightarrow> int64 \<Rightarrow> int64" where
  "rem64 a b = word_of_int (sint a smod sint b)"

section \<open>Allocation\<close>

record SplitShare =
  shParticipantID :: string
  shAmountMinor :: int64

record SplitInput =
  inTotalMinor :: int64
  inCurrency :: string
  inInitiatorID :: string
  inParticipantIDs :: "string list"
  inOverrides :: "(string \<times> int64) list"

datatype split_error =
  InvalidCurrency string
| NegativeTotal int64
| NoParticipants
| NoInitiator
| EmptyParticipant
| DuplicateParticipant string
| InitiatorNotParticipant
| UnknownParticipant string
| NegativeOverride string
| OverrideCount nat nat
| OverrideSum int64 int64

definition normalizeCurrency :: "string \<Rightarrow> split_error + string" where
  "normalizeCurrency currency =
     (let code = ToUpper (TrimSpace currency)
      in if length code \<noteq> 3 then Inl (InvalidCurrency currency)
         else if \<exists>c\<in>set code. c < CHR ''A'' \<or> CHR ''Z'' < c then Inl (InvalidCurrency currency)
         else Inr code)"

text \<open>The participants in order, each non-empty and new; the first that is not decides the error.\<close>

fun check_participants :: "string set \<Rightarrow> string list \<Rightarrow> split_error option" where
  "check_participants seen [] = None"
| "check_participants seen (i # is) =
     (if TrimSpace i = [] then Some EmptyParticipant
      else if i \<in> seen then Some (DuplicateParticipant i)
      else check_participants (insert i seen) is)"

definition override_error :: "string list \<Rightarrow> string \<times> int64 \<Rightarrow> split_error option" where
  "override_error participants entry =
     (if fst entry \<notin> set participants then Some (UnknownParticipant (fst entry))
      else if snd entry <s 0 then Some (NegativeOverride (fst entry))
      else None)"

definition override_sum :: "(string \<times> int64) list \<Rightarrow> int64" where
  "override_sum overrides = foldl (\<lambda>sum entry. sum + snd entry) 0 overrides"

definition override_of :: "(string \<times> int64) list \<Rightarrow> string \<Rightarrow> int64" where
  "override_of overrides i = (case map_of overrides i of None \<Rightarrow> 0 | Some amount \<Rightarrow> amount)"

definition allocateOverrides :: "SplitInput \<Rightarrow> split_error + SplitShare list" where
  "allocateOverrides input =
     (case first_error (override_error (inParticipantIDs input)) (inOverrides input) of
        Some e \<Rightarrow> Inl e
      | None \<Rightarrow>
          if length (inOverrides input) \<noteq> length (inParticipantIDs input)
          then Inl (OverrideCount (length (inParticipantIDs input)) (length (inOverrides input)))
          else if override_sum (inOverrides input) \<noteq> inTotalMinor input
          then Inl (OverrideSum (override_sum (inOverrides input)) (inTotalMinor input))
          else Inr (map (\<lambda>i. \<lparr>shParticipantID = i, shAmountMinor = override_of (inOverrides input) i\<rparr>)
                 (inParticipantIDs input)))"

definition equal_shares :: "SplitInput \<Rightarrow> SplitShare list" where
  "equal_shares input =
     (let count = int64_of_int (int (length (inParticipantIDs input)));
          base = quo64 (inTotalMinor input) count;
          remainder = rem64 (inTotalMinor input) count
      in map (\<lambda>i. \<lparr>shParticipantID = i,
             shAmountMinor = (if i = inInitiatorID input then base + remainder else base)\<rparr>)
           (inParticipantIDs input))"

definition AllocateSplit :: "SplitInput \<Rightarrow> split_error + SplitShare list" where
  "AllocateSplit input =
     (case normalizeCurrency (inCurrency input) of
        Inl e \<Rightarrow> Inl e
      | Inr _ \<Rightarrow>
          if inTotalMinor input <s 0 then Inl (NegativeTotal (inTotalMinor input))
          else if inParticipantIDs input = [] then Inl NoParticipants
          else if TrimSpace (inInitiatorID input) = [] then Inl NoInitiator
          else
            (case check_participants {} (inParticipantIDs input) of
               Some e \<Rightarrow> Inl e
             | None \<Rightarrow>
                 if inInitiatorID input \<notin> set (inParticipantIDs input) then Inl InitiatorNotParticipant
                 else if inOverrides input \<noteq> [] then allocateOverrides input
                 else Inr (equal_shares input)))"

section \<open>Settlements\<close>

record Settlement =
  stID :: string
  stSplitID :: string
  stParticipantID :: string
  stAmountMinor :: int64
  stLinkedOwnerID :: string
  stLinkedTransactionID :: string
  stActorID :: string
  stRequestID :: string
  stCreatedAt :: int64

definition Linked :: "Settlement \<Rightarrow> bool" where
  "Linked s \<longleftrightarrow> stLinkedOwnerID s \<noteq> [] \<and> stLinkedTransactionID s \<noteq> []"

datatype settlement_state = Outstanding | PartiallySettled | Settled

record ParticipantSettlement =
  psParticipantID :: string
  psOwedMinor :: int64
  psSettledMinor :: int64
  psOutstandingMinor :: int64
  psState :: settlement_state

definition settled_amounts :: "Settlement list \<Rightarrow> (string, int64) mapping" where
  "settled_amounts settlements =
     foldl (\<lambda>m r. Mapping.update (stParticipantID r)
         (Mapping.lookup_default 0 m (stParticipantID r) + stAmountMinor r) m) Mapping.empty settlements"

definition settlement_position :: "int64 \<Rightarrow> int64 \<Rightarrow> string \<Rightarrow> ParticipantSettlement" where
  "settlement_position owed settled participant =
     (let outstanding = owed - settled
      in \<lparr>psParticipantID = participant, psOwedMinor = owed, psSettledMinor = settled,
          psOutstandingMinor = (if outstanding <s 0 then 0 else outstanding),
          psState = (if owed \<le>s settled then Settled else if 0 <s settled then PartiallySettled else Outstanding)\<rparr>)"

text \<open>\<open>Inl\<close> names the participant whose owed share is negative, the first one visited.\<close>

definition SummarizeSettlements ::
  "(string \<times> int64) list \<Rightarrow> Settlement list \<Rightarrow> string + ParticipantSettlement list" where
  "SummarizeSettlements owed settlements =
     (case first_error (\<lambda>(participant, amount). if amount <s 0 then Some participant else None) owed of
        Some participant \<Rightarrow> Inl participant
      | None \<Rightarrow>
          let settled = settled_amounts settlements;
              participants = sorted_list_of_set (set (map fst owed) \<union> Mapping.keys settled)
          in Inr (map (\<lambda>i. settlement_position (override_of owed i) (Mapping.lookup_default 0 settled i) i) participants))"

definition SplitSettlementState :: "ParticipantSettlement list \<Rightarrow> settlement_state" where
  "SplitSettlementState summary =
     (if \<forall>p\<in>set summary. psState p = Settled then Settled
      else if \<exists>p\<in>set summary. 0 <s psSettledMinor p then PartiallySettled
      else Outstanding)"

end
