(* ===== verification/Split_Properties.thy ===== *)
theory Split_Properties
  imports Split
begin

text \<open>
  The properties of splits and settlements: an equal split hands out the total to the last unit, an
  override split does so unless its sum wraps around, and a settlement summary accounts for each
  payment once.
\<close>

section \<open>Words as integers\<close>

lemma sint_in_range:
  "- (2 ^ 63) \<le> i \<Longrightarrow> i < 2 ^ 63 \<Longrightarrow> sint (word_of_int i :: int64) = i"
  by (simp add: sint_sbintrunc' signed_take_bit_int_eq_self)

lemma sint_nonneg_less: "0 \<le> sint (a :: int64) \<Longrightarrow> sint a < 2 ^ 63"
  using sint_lt [of a] by simp

lemma nonneg_word: "\<not> a <s (0 :: int64) \<longleftrightarrow> 0 \<le> sint a"
  by (simp add: word_sless_alt not_less)

lemma quo_rem64:
  assumes "0 \<le> sint a" "0 < n" "n < 2 ^ 63"
  shows "sint (quo64 a (int64_of_int n)) = sint a div n" "sint (rem64 a (int64_of_int n)) = sint a mod n"
    "sint (quo64 a (int64_of_int n) + rem64 a (int64_of_int n)) = sint a div n + sint a mod n"
proof -
  have n: "sint (int64_of_int n) = n"
    using assms by (simp add: int64_of_int_def sint_in_range)
  have lt: "sint a < 2 ^ 63" using assms(1) by (rule sint_nonneg_less)
  have pos: "0 \<le> sint a div n" "0 \<le> sint a mod n"
    using assms by (simp_all add: pos_imp_zdiv_nonneg_iff)
  have "sint a div n + sint a mod n \<le> n * (sint a div n) + sint a mod n"
    using assms(2) pos(1) mult_right_mono [of 1 n "sint a div n"] by linarith
  also have "\<dots> = sint a" by (rule mult_div_mod_eq)
  finally have sum: "sint a div n + sint a mod n < 2 ^ 63" using lt by simp
  with pos have le: "sint a div n < 2 ^ 63" "sint a mod n < 2 ^ 63" by linarith+
  have q: "sint a sdiv n = sint a div n" "sint a smod n = sint a mod n"
    using assms by (simp_all add: signed_divide_int_def signed_modulo_int_def sgn_if)
  have words: "quo64 a (int64_of_int n) = word_of_int (sint a div n)" "rem64 a (int64_of_int n) = word_of_int (sint a mod n)"
    by (simp_all only: quo64_def rem64_def n q)
  show "sint (quo64 a (int64_of_int n)) = sint a div n"
    unfolding words using pos le by (intro sint_in_range) linarith+
  show "sint (rem64 a (int64_of_int n)) = sint a mod n"
    unfolding words using pos le by (intro sint_in_range) linarith+
  show "sint (quo64 a (int64_of_int n) + rem64 a (int64_of_int n)) = sint a div n + sint a mod n"
    unfolding words wi_hom_add using pos sum by (intro sint_in_range) linarith+
qed

lemma check_participants_distinct:
  "check_participants seen is = None \<longleftrightarrow> distinct is \<and> set is \<inter> seen = {} \<and> (\<forall>i\<in>set is. TrimSpace i \<noteq> [])"
  by (induction seen "is" rule: check_participants.induct) auto

lemma AllocateSplit_Inr:
  assumes "AllocateSplit input = Inr shares"
  shows "0 \<le> sint (inTotalMinor input)" "distinct (inParticipantIDs input)" "inInitiatorID input \<in> set (inParticipantIDs input)"
    "(if inOverrides input = [] then Inr (equal_shares input) else allocateOverrides input) = Inr shares"
proof -
  from assms obtain code where code: "normalizeCurrency (inCurrency input) = Inr code"
    by (cases "normalizeCurrency (inCurrency input)") (simp_all add: AllocateSplit_def)
  have none: "check_participants {} (inParticipantIDs input) = None"
    using assms code by (cases "check_participants {} (inParticipantIDs input)") (simp_all add: AllocateSplit_def split: if_splits)
  have "\<not> inTotalMinor input <s 0 \<and> inInitiatorID input \<in> set (inParticipantIDs input) \<and>
      (if inOverrides input = [] then Inr (equal_shares input) else allocateOverrides input) = Inr shares"
    using assms unfolding AllocateSplit_def code none sum.case option.case by (simp split: if_split_asm)
  then show "0 \<le> sint (inTotalMinor input)" "distinct (inParticipantIDs input)" "inInitiatorID input \<in> set (inParticipantIDs input)"
    "(if inOverrides input = [] then Inr (equal_shares input) else allocateOverrides input) = Inr shares"
    using none by (simp_all only: nonneg_word check_participants_distinct)
qed

section \<open>Equal shares\<close>

lemma sum_one_more:
  fixes b r :: int
  assumes "distinct is" "i \<in> set is"
  shows "(\<Sum>j\<leftarrow>is. if j = i then b + r else b) = int (length is) * b + r"
proof -
  have "(\<Sum>j\<leftarrow>is. if j = i then b + r else b) = (\<Sum>j\<in>set is. b + (if j = i then r else 0))"
    unfolding sum_list_distinct_conv_sum_set [OF assms(1)] by (rule sum.cong) auto
  also have "\<dots> = int (length is) * b + r"
    using assms by (simp add: sum.distrib distinct_card)
  finally show ?thesis .
qed

text \<open>
  C26. An equal split hands out the whole total: the shares follow the participants' order, none is
  negative, they add up to the total exactly, without wrap-around, everyone but the initiator owes
  the total divided by the number of participants, rounded down, and the initiator owes the remainder on top, which
  is less than one unit per participant.
\<close>

theorem equal_split_exact:
  assumes "AllocateSplit input = Inr shares" "inOverrides input = []" "int (length (inParticipantIDs input)) < 2 ^ 63"
  shows "map shParticipantID shares = inParticipantIDs input \<and>
    (\<Sum>s\<leftarrow>shares. sint (shAmountMinor s)) = sint (inTotalMinor input) \<and>
    (let base = sint (inTotalMinor input) div int (length shares); rest = sint (inTotalMinor input) mod int (length shares)
     in 0 \<le> base \<and> 0 \<le> rest \<and> rest < int (length shares) \<and>
        (\<forall>s\<in>set shares. sint (shAmountMinor s) = (if shParticipantID s = inInitiatorID input then base + rest else base)))"
proof -
  let ?is = "inParticipantIDs input" and ?T = "sint (inTotalMinor input)"
  let ?n = "int (length ?is)"
  have in': "0 \<le> ?T" "distinct ?is" "inInitiatorID input \<in> set ?is" "shares = equal_shares input"
    using AllocateSplit_Inr [OF assms(1)] assms(2) by simp_all
  then have n: "0 < ?n" by (auto intro: length_pos_if_in_set)
  note amounts = quo_rem64 [OF in'(1) n assms(3)]
  have share: "sint (shAmountMinor s) = (if shParticipantID s = inInitiatorID input then ?T div ?n + ?T mod ?n else ?T div ?n)"
    if "s \<in> set shares" for s
    using that by (auto simp: in'(4) equal_shares_def Let_def amounts)
  have ids: "map shParticipantID shares = ?is"
    by (simp add: in'(4) equal_shares_def Let_def comp_def)
  have "(\<Sum>s\<leftarrow>shares. sint (shAmountMinor s)) =
      (\<Sum>i\<leftarrow>map shParticipantID shares. if i = inInitiatorID input then ?T div ?n + ?T mod ?n else ?T div ?n)"
    using share by (simp add: comp_def cong: map_cong)
  then have "(\<Sum>s\<leftarrow>shares. sint (shAmountMinor s)) = ?T"
    using in'(2,3) unfolding ids by (simp add: sum_one_more)
  moreover have "length shares = length ?is" using ids by (metis length_map)
  ultimately show ?thesis
    using ids share in'(1) n by (simp add: pos_imp_zdiv_nonneg_iff)
qed

definition dinner :: SplitInput where
  "dinner = \<lparr>inTotalMinor = 1000, inCurrency = ''usd'', inInitiatorID = ''b'', inParticipantIDs = [''a'', ''b'', ''c''],
     inOverrides = []\<rparr>"

lemma equal_split_exact_witness:
  "\<exists>shares. AllocateSplit dinner = Inr shares \<and> (\<Sum>s\<leftarrow>shares. sint (shAmountMinor s)) = 1000"
proof -
  have "TrimSpace [c] = [c]" if "CHR '' '' < c" "c < CHR 0x80" for c
    using that by (intro TrimSpace_plain) simp_all
  then have "TrimSpace ''usd'' = ''usd''" "TrimSpace ''a'' = ''a''" "TrimSpace ''b'' = ''b''" "TrimSpace ''c'' = ''c''"
    by (simp_all add: TrimSpace_plain less_char_def)
  then have "AllocateSplit dinner = Inr (equal_shares dinner)"
    by (simp add: AllocateSplit_def normalizeCurrency_def dinner_def ascii_upper_def less_eq_char_def less_char_def word_sless_alt)
  then obtain shares where "AllocateSplit dinner = Inr shares" by blast
  moreover from equal_split_exact [OF this] have "(\<Sum>s\<leftarrow>shares. sint (shAmountMinor s)) = 1000"
    by (simp add: dinner_def)
  ultimately show ?thesis by blast
qed

section \<open>Overrides\<close>

lemma override_sum_sint: "\<exists>k. (\<Sum>e\<leftarrow>es. sint (snd e)) = sint (override_sum es) + k * 2 ^ 64"
proof -
  have "word_of_int (\<Sum>e\<leftarrow>es. sint (snd e)) + a = foldl (\<lambda>sum entry. sum + snd entry) a es" for a :: int64
  proof (induction es arbitrary: a)
    case (Cons e es)
    show ?case
      by (simp add: wi_hom_add [symmetric] ac_simps Cons.IH [symmetric])
  qed simp
  from this [of 0] have "override_sum es = word_of_int (\<Sum>e\<leftarrow>es. sint (snd e))"
    by (simp add: override_sum_def)
  moreover have "\<exists>k. i = sint (word_of_int i :: int64) + k * 2 ^ 64" for i :: int
  proof -
    have "i mod 2 ^ 64 = sint (word_of_int i :: int64) mod 2 ^ 64"
      using word_of_int_eq_iff [where 'a = 64, of i "sint (word_of_int i :: int64)"]
      by (simp add: take_bit_eq_mod)
    then have "2 ^ 64 dvd i - sint (word_of_int i :: int64)"
      by (rule mod_eq_dvd_iff [THEN iffD1])
    then obtain k where "i - sint (word_of_int i :: int64) = 2 ^ 64 * k" by (rule dvdE)
    then show ?thesis by (intro exI [of _ k]) (simp add: algebra_simps)
  qed
  ultimately show ?thesis by simp
qed

lemma allocateOverrides_Inr:
  assumes "allocateOverrides input = Inr shares"
  shows "\<forall>e\<in>set (inOverrides input). fst e \<in> set (inParticipantIDs input) \<and> 0 \<le> sint (snd e)"
    "length (inOverrides input) = length (inParticipantIDs input)" "override_sum (inOverrides input) = inTotalMinor input"
    "shares = map (\<lambda>i. \<lparr>shParticipantID = i, shAmountMinor = override_of (inOverrides input) i\<rparr>) (inParticipantIDs input)"
proof -
  have none: "first_error (override_error (inParticipantIDs input)) (inOverrides input) = None"
    using assms by (cases "first_error (override_error (inParticipantIDs input)) (inOverrides input)")
      (simp_all add: allocateOverrides_def)
  then show "\<forall>e\<in>set (inOverrides input). fst e \<in> set (inParticipantIDs input) \<and> 0 \<le> sint (snd e)"
    unfolding first_error_None override_error_def by (metis nonneg_word option.distinct(1))
  show "length (inOverrides input) = length (inParticipantIDs input)" "override_sum (inOverrides input) = inTotalMinor input"
    "shares = map (\<lambda>i. \<lparr>shParticipantID = i, shAmountMinor = override_of (inOverrides input) i\<rparr>) (inParticipantIDs input)"
    using assms none by (auto simp: allocateOverrides_def split: if_splits)
qed

text \<open>The entries of a map, listed by key in another order, have the same sum.\<close>

lemma override_shares_sum:
  assumes "distinct (map fst es)" "distinct is" "set (map fst es) \<subseteq> set is" "length es = length is"
  shows "(\<Sum>i\<leftarrow>is. sint (override_of es i)) = (\<Sum>e\<leftarrow>es. sint (snd e))"
proof -
  have "card (set (map fst es)) = card (set is)"
    using assms(1,2,4) by (metis distinct_card length_map)
  then have same: "set is = set (map fst es)"
    using assms(3) by (metis List.finite_set card_subset_eq)
  have "(\<Sum>i\<leftarrow>is. sint (override_of es i)) = (\<Sum>i\<leftarrow>map fst es. sint (override_of es i))"
    using assms(1,2) same by (simp only: sum_list_distinct_conv_sum_set)
  also have "\<dots> = (\<Sum>e\<leftarrow>es. sint (snd e))"
    using assms(1) by (auto simp: override_of_def comp_def intro!: arg_cong [of _ _ sum_list] map_cong)
  finally show ?thesis .
qed

text \<open>
  C40. An override split gives every participant the amount named for it.  The amounts are nonnegative and
  add up to the total modulo 2 ^ 64, so exactly to the total whenever their sum fits 64 bits.
\<close>

theorem override_split_sum:
  assumes "AllocateSplit input = Inr shares" "inOverrides input \<noteq> []" "distinct (map fst (inOverrides input))"
  shows "map (\<lambda>s. (shParticipantID s, shAmountMinor s)) shares =
      map (\<lambda>i. (i, override_of (inOverrides input) i)) (inParticipantIDs input) \<and>
    (\<forall>s\<in>set shares. 0 \<le> sint (shAmountMinor s)) \<and>
    (\<exists>k. (\<Sum>s\<leftarrow>shares. sint (shAmountMinor s)) = sint (inTotalMinor input) + k * 2 ^ 64) \<and>
    ((\<Sum>s\<leftarrow>shares. sint (shAmountMinor s)) < 2 ^ 63 \<longrightarrow>
       (\<Sum>s\<leftarrow>shares. sint (shAmountMinor s)) = sint (inTotalMinor input))"
proof -
  have in': "0 \<le> sint (inTotalMinor input)" "distinct (inParticipantIDs input)" "allocateOverrides input = Inr shares"
    using AllocateSplit_Inr [OF assms(1)] assms(2) by simp_all
  note overrides = allocateOverrides_Inr [OF in'(3)]
  have "set (map fst (inOverrides input)) \<subseteq> set (inParticipantIDs input)"
    using overrides(1) by auto
  then have sum: "(\<Sum>s\<leftarrow>shares. sint (shAmountMinor s)) = (\<Sum>e\<leftarrow>inOverrides input. sint (snd e))"
    using override_shares_sum [OF assms(3) in'(2)] overrides(2) by (simp add: overrides(4) comp_def)
  have nonneg: "\<forall>s\<in>set shares. 0 \<le> sint (shAmountMinor s)"
    using overrides(1) by (auto simp: overrides(4) override_of_def split: option.split dest!: map_of_SomeD)
  then have "0 \<le> (\<Sum>s\<leftarrow>shares. sint (shAmountMinor s))"
    by (intro sum_list_nonneg) auto
  moreover obtain k where k: "(\<Sum>s\<leftarrow>shares. sint (shAmountMinor s)) = sint (inTotalMinor input) + k * 2 ^ 64"
    using override_sum_sint [of "inOverrides input"] overrides(3) sum by auto
  moreover have "k = 0" if "(\<Sum>s\<leftarrow>shares. sint (shAmountMinor s)) < 2 ^ 63"
    using that calculation in'(1) sint_nonneg_less [OF in'(1)] by auto
  ultimately show ?thesis
    using nonneg by (auto simp: overrides(4) comp_def)
qed

text \<open>Three shares whose sum wraps around to the total: 0 is divided into shares of 2 ^ 64 in all.\<close>

definition wrapping_split :: SplitInput where
  "wrapping_split = \<lparr>inTotalMinor = 0, inCurrency = ''USD'', inInitiatorID = ''a'', inParticipantIDs = [''a'', ''b'', ''c''],
     inOverrides = [(''a'', 0x7FFFFFFFFFFFFFFF), (''b'', 0x7FFFFFFFFFFFFFFF), (''c'', 2)]\<rparr>"

lemma wrapping_accepted:
  obtains shares where "AllocateSplit wrapping_split = Inr shares"
proof -
  have "TrimSpace ''USD'' = ''USD''" "TrimSpace ''a'' = ''a''" "TrimSpace ''b'' = ''b''" "TrimSpace ''c'' = ''c''"
    by (simp_all add: TrimSpace_plain less_char_def)
  then show ?thesis
    using that by (simp add: AllocateSplit_def normalizeCurrency_def wrapping_split_def ascii_upper_def less_eq_char_def
        less_char_def word_sless_alt allocateOverrides_def override_error_def override_sum_def)
qed

lemma override_split_sum_witness:
  "\<exists>shares. AllocateSplit wrapping_split = Inr shares \<and>
     (\<Sum>s\<leftarrow>shares. sint (shAmountMinor s)) = 2 ^ 64 \<and> sint (inTotalMinor wrapping_split) = 0"
proof -
  obtain shares where shares: "AllocateSplit wrapping_split = Inr shares" by (rule wrapping_accepted)
  have "map (\<lambda>s. (shParticipantID s, shAmountMinor s)) shares =
      map (\<lambda>i. (i, override_of (inOverrides wrapping_split) i)) (inParticipantIDs wrapping_split)"
    using override_split_sum [OF shares] by (simp add: wrapping_split_def)
  from arg_cong [OF this, of "map (sint \<circ> snd)"]
  have "map (\<lambda>s. sint (shAmountMinor s)) shares = [2 ^ 63 - 1, 2 ^ 63 - 1, 2]"
    by (simp add: comp_def wrapping_split_def override_of_def)
  then show ?thesis using shares by (simp add: wrapping_split_def)
qed

section \<open>Settlements\<close>

definition paid :: "Settlement list \<Rightarrow> string \<Rightarrow> int" where
  "paid settlements i = (\<Sum>r\<leftarrow>filter (\<lambda>r. stParticipantID r = i) settlements. sint (stAmountMinor r))"

lemma settled_amounts_lookup:
  "Mapping.lookup_default 0 (settled_amounts settlements) i = word_of_int (paid settlements i)"
  "Mapping.keys (settled_amounts settlements) = stParticipantID ` set settlements"
proof -
  have "Mapping.lookup_default 0 (foldl (\<lambda>m r. Mapping.update (stParticipantID r)
         (Mapping.lookup_default 0 m (stParticipantID r) + stAmountMinor r) m) m settlements) i =
      Mapping.lookup_default 0 m i + word_of_int (paid settlements i)" for m
    by (induction settlements arbitrary: m)
      (simp_all add: paid_def Mapping.lookup_default_update' wi_hom_add [symmetric] ac_simps)
  then show "Mapping.lookup_default 0 (settled_amounts settlements) i = word_of_int (paid settlements i)"
    by (simp add: settled_amounts_def lookup_default_empty)
  have "Mapping.keys (foldl (\<lambda>m r. Mapping.update (stParticipantID r)
         (Mapping.lookup_default 0 m (stParticipantID r) + stAmountMinor r) m) m settlements) =
      Mapping.keys m \<union> stParticipantID ` set settlements" for m
    by (induction settlements arbitrary: m) auto
  then show "Mapping.keys (settled_amounts settlements) = stParticipantID ` set settlements"
    by (simp add: settled_amounts_def)
qed

lemma SummarizeSettlements_Inr:
  assumes "SummarizeSettlements owed settlements = Inr summary"
  shows "\<forall>e\<in>set owed. 0 \<le> sint (snd e)"
    "summary = map (\<lambda>i. settlement_position (override_of owed i) (word_of_int (paid settlements i)) i)
       (sorted_list_of_set (set (map fst owed) \<union> stParticipantID ` set settlements))"
proof -
  have none: "first_error (\<lambda>(participant, amount). if amount <s 0 then Some participant else None) owed = None"
    using assms by (cases "first_error (\<lambda>(participant, amount). if amount <s 0 then Some participant else None) owed")
      (simp_all add: SummarizeSettlements_def)
  then show "\<forall>e\<in>set owed. 0 \<le> sint (snd e)"
    unfolding first_error_None by (fastforce simp: nonneg_word [symmetric])
  show "summary = map (\<lambda>i. settlement_position (override_of owed i) (word_of_int (paid settlements i)) i)
       (sorted_list_of_set (set (map fst owed) \<union> stParticipantID ` set settlements))"
    using assms unfolding SummarizeSettlements_def none by (simp add: Let_def settled_amounts_lookup)
qed

lemma settlement_position_correct:
  assumes "0 \<le> sint owed" "0 \<le> t" "t < 2 ^ 63"
  shows "let p = settlement_position owed (word_of_int t) i in
     psParticipantID p = i \<and> sint (psSettledMinor p) = t \<and> sint (psOutstandingMinor p) = max 0 (sint owed - t) \<and>
     psState p = (if sint owed \<le> t then Settled else if 0 < t then PartiallySettled else Outstanding)"
proof -
  have t: "sint (word_of_int t :: int64) = t"
    using assms by (intro sint_in_range) linarith+
  have "owed - word_of_int t = word_of_int (sint owed - t)"
    by (simp add: wi_hom_sub [symmetric])
  moreover have "sint (word_of_int (sint owed - t) :: int64) = sint owed - t"
    using assms sint_nonneg_less [OF assms(1)] by (intro sint_in_range) linarith+
  ultimately have "sint (owed - word_of_int t) = sint owed - t" by simp
  then show ?thesis
    by (auto simp: settlement_position_def Let_def word_sless_alt word_sle_eq t)
qed

text \<open>
  C27. A settlement summary lists everyone who owes or has paid exactly once, in order, and accounts for
  each payment once: what is settled is the sum of the participant's payments, what is outstanding is
  what the share leaves of it but never less than nothing, the state follows from the two, and the
  split is settled exactly when nothing is outstanding.
\<close>

theorem settlement_summary:
  assumes "SummarizeSettlements owed settlements = Inr summary"
    and "\<forall>r\<in>set settlements. 0 \<le> sint (stAmountMinor r)" "\<forall>i. paid settlements i < 2 ^ 63"
  shows "map psParticipantID summary = sorted_list_of_set (set (map fst owed) \<union> stParticipantID ` set settlements) \<and>
    (\<forall>p\<in>set summary. let o' = sint (override_of owed (psParticipantID p)); t = paid settlements (psParticipantID p) in
       sint (psSettledMinor p) = t \<and> sint (psOutstandingMinor p) = max 0 (o' - t) \<and>
       psState p = (if o' \<le> t then Settled else if 0 < t then PartiallySettled else Outstanding)) \<and>
    (SplitSettlementState summary = Settled \<longleftrightarrow> (\<forall>p\<in>set summary. sint (psOutstandingMinor p) = 0))"
proof -
  note summary = SummarizeSettlements_Inr [OF assms(1)]
  have owed: "0 \<le> sint (override_of owed i)" for i
    using summary(1) by (auto simp: override_of_def split: option.split dest!: map_of_SomeD)
  have "0 \<le> paid settlements i" for i
    using assms(2) by (auto simp: paid_def intro!: sum_list_nonneg)
  then have position: "let p = settlement_position (override_of owed i) (word_of_int (paid settlements i)) i in
     psParticipantID p = i \<and> sint (psSettledMinor p) = paid settlements i \<and>
     sint (psOutstandingMinor p) = max 0 (sint (override_of owed i) - paid settlements i) \<and>
     psState p = (if sint (override_of owed i) \<le> paid settlements i then Settled
       else if 0 < paid settlements i then PartiallySettled else Outstanding)" for i
    using assms(3) owed by (intro settlement_position_correct) simp_all
  then have ids: "map psParticipantID summary = sorted_list_of_set (set (map fst owed) \<union> stParticipantID ` set settlements)"
    by (simp add: summary(2) comp_def Let_def)
  have each: "\<forall>p\<in>set summary. let o' = sint (override_of owed (psParticipantID p)); t = paid settlements (psParticipantID p) in
       sint (psSettledMinor p) = t \<and> sint (psOutstandingMinor p) = max 0 (o' - t) \<and>
       psState p = (if o' \<le> t then Settled else if 0 < t then PartiallySettled else Outstanding)"
    using position by (simp add: summary(2) Let_def)
  then have "psState p = Settled \<longleftrightarrow> sint (psOutstandingMinor p) = 0" if "p \<in> set summary" for p
    using that by (auto simp: Let_def)
  then have "SplitSettlementState summary = Settled \<longleftrightarrow> (\<forall>p\<in>set summary. sint (psOutstandingMinor p) = 0)"
    by (auto simp: SplitSettlementState_def)
  with ids each show ?thesis by blast
qed

definition payoff :: Settlement where
  "payoff = \<lparr>stID = ''s1'', stSplitID = ''d'', stParticipantID = ''a'', stAmountMinor = 100, stLinkedOwnerID = '''',
     stLinkedTransactionID = '''', stActorID = ''a'', stRequestID = ''r'', stCreatedAt = 1\<rparr>"

lemma settlement_summary_witness:
  "\<exists>summary. SummarizeSettlements [(''a'', 333), (''b'', 334)] [payoff] = Inr summary \<and>
     map psParticipantID summary = [''a'', ''b''] \<and> SplitSettlementState summary \<noteq> Settled"
proof -
  obtain summary where s: "SummarizeSettlements [(''a'', 333), (''b'', 334)] [payoff] = Inr summary"
    by (simp add: SummarizeSettlements_def word_sless_alt Let_def)
  have "\<forall>i. paid [payoff] i < 2 ^ 63" by (simp add: paid_def payoff_def)
  moreover have "\<forall>r\<in>set [payoff]. 0 \<le> sint (stAmountMinor r)" by (simp add: payoff_def)
  ultimately have summary: "map psParticipantID summary = sorted_list_of_set (set (map fst [(''a'', 333 :: int64), (''b'', 334)]) \<union> stParticipantID ` set [payoff])"
    "\<forall>p\<in>set summary. sint (psOutstandingMinor p) =
       max 0 (sint (override_of [(''a'', 333), (''b'', 334)] (psParticipantID p)) - paid [payoff] (psParticipantID p))"
    "SplitSettlementState summary = Settled \<longleftrightarrow> (\<forall>p\<in>set summary. sint (psOutstandingMinor p) = 0)"
    using settlement_summary [OF s] by (simp_all add: Let_def)
  have "sorted_list_of_set {''a'', ''b''} = [''a'', ''b'']" by code_simp
  then have ids: "map psParticipantID summary = [''a'', ''b'']"
    using summary(1) by (simp add: payoff_def insert_commute)
  then obtain p where p: "p \<in> set summary" "psParticipantID p = ''a''"
    by (cases summary) auto
  have "sint (psOutstandingMinor p) = 233"
    using bspec [OF summary(2) p(1)] by (simp add: p(2) override_of_def paid_def payoff_def)
  then have "SplitSettlementState summary \<noteq> Settled"
    using p(1) unfolding summary(3) by (metis zero_neq_numeral)
  with s ids show ?thesis by (intro exI conjI)
qed

end
