(* ===== verification/Loans.thy ===== *)
theory Loans
  imports Issues Go_Strings
begin

text \<open>
  Loans: \<open>account_display.go\<close> and \<open>loan_rule_terms.go\<close> under \<open>backend/internal/domain\<close>, with the types
  of \<open>backend/internal/types/account_display.go\<close>.  The form is compiled to two accounts, two
  observations and two schedules; reading the schedules back recovers the terms; a model may hold
  a loan only if its parts fit together.
\<close>

section \<open>Building a loan\<close>

record LoanTerms =
  ltName :: string
  ltPrincipal :: f64
  ltAccruedInterest :: f64
  ltObservedAt :: int
  ltRecordBalances :: bool
  ltAnnualRate :: f64
  ltInterestFrequency :: Frequency
  ltInterestStartDate :: string
  ltPayment :: f64
  ltPaymentFrequency :: Frequency
  ltPaymentStartDate :: string
  ltFundingAccountID :: string
  ltEnabled :: bool

record LoanBundle =
  lbAccounts :: "Account list"
  lbCheckpoints :: "Checkpoint list"
  lbSchedules :: "Schedule list"

datatype loan_error = LoanIdentity | LoanAmounts | LoanRate | LoanUnsupported

definition loan_limit :: f64 where
  "loan_limit = f64_of_rat 10000000000"

definition loan_amount_ok :: "f64 \<Rightarrow> bool" where
  "loan_amount_ok amount \<longleftrightarrow> \<not> (isNaN amount \<or> isInf amount \<or> amount < 0 \<or> loan_limit < amount)"

definition loan_display :: "string \<Rightarrow> string \<Rightarrow> string \<Rightarrow> string \<Rightarrow> string \<Rightarrow> AccountDisplay" where
  "loan_display name i interestID interestRuleID paymentRuleID =
     \<lparr>adName = name,
      adComponents = [\<lparr>cpAccountID = i, cpRole = ''principal''\<rparr>, \<lparr>cpAccountID = interestID, cpRole = ''interest''\<rparr>],
      adInterestScheduleID = interestRuleID, adPaymentScheduleID = paymentRuleID\<rparr>"

definition loan_account :: "string \<Rightarrow> string \<Rightarrow> bool \<Rightarrow> AccountDisplay option \<Rightarrow> Account" where
  "loan_account i name enabled display =
     \<lparr>acDisplay = display, acID = i, acName = name, acKind = ''debt'', acMinBalance = None, acMaxBalance = Some 0,
      acColor = None, acEnabled = enabled\<rparr>"

definition loan_charge :: "string \<Rightarrow> string \<Rightarrow> string \<Rightarrow> string \<Rightarrow> LoanTerms \<Rightarrow> Schedule" where
  "loan_charge name i interestID interestRuleID terms =
     \<lparr>scID = interestRuleID, scName = name @ '' Interest'', scSourceAccountID = Some interestID, scDestinations = None,
      scAmount = \<lparr>amResolver = ''expression'', amConfig = [(''expression'', JStr ''abs(principal) * rate'')],
        amInputs =
          [(''principal'', \<lparr>ibSource = ''provider'', ibValue = JNull, ibProvider = ''model-value'',
              ibArguments = [(''id'', JStr i)]\<rparr>),
           (''rate'', \<lparr>ibSource = ''provider'', ibValue = JNull, ibProvider = ''occurrence-rate'',
              ibArguments = [(''annualRate'', JNum (ltAnnualRate terms)), (''volatility'', JNum 0)]\<rparr>)]\<rparr>,
      scFrequency = ltInterestFrequency terms, scStartDate = ltInterestStartDate terms, scEndDate = None,
      scAnnualCap = None, scPriority = 6, scEnabled = ltEnabled terms\<rparr>"

definition loan_payment :: "string \<Rightarrow> string \<Rightarrow> string \<Rightarrow> string \<Rightarrow> LoanTerms \<Rightarrow> Schedule" where
  "loan_payment name i interestID paymentRuleID terms =
     \<lparr>scID = paymentRuleID, scName = name @ '' Payment'', scSourceAccountID = Some (ltFundingAccountID terms),
      scDestinations = Some [interestID, i],
      scAmount = \<lparr>amResolver = ''expression'', amConfig = [(''expression'', JStr (Sprintf_g (ltPayment terms)))], amInputs = []\<rparr>,
      scFrequency = ltPaymentFrequency terms, scStartDate = ltPaymentStartDate terms, scEndDate = None,
      scAnnualCap = None, scPriority = 7, scEnabled = ltEnabled terms\<rparr>"

definition loan_checkpoint :: "string \<Rightarrow> f64 \<Rightarrow> int \<Rightarrow> Checkpoint" where
  "loan_checkpoint i amount observedAt =
     \<lparr>ckAccountID = i, ckBalance = - amount, ckAvailableBalance = None, ckSource = ''user'', ckObservedAt = observedAt\<rparr>"

definition BuildLoan :: "string \<Rightarrow> string \<Rightarrow> string \<Rightarrow> string \<Rightarrow> LoanTerms \<Rightarrow> loan_error + LoanBundle" where
  "BuildLoan i interestID interestRuleID paymentRuleID terms =
     (if TrimSpace (ltName terms) = [] \<or> ltObservedAt terms \<le> 0 \<or> ltFundingAccountID terms = [] \<or>
         ltFundingAccountID terms = i \<or> ltFundingAccountID terms = interestID
      then Inl LoanIdentity
      else if \<not> list_all loan_amount_ok [ltPrincipal terms, ltAccruedInterest terms, ltPayment terms, ltAnnualRate terms]
      then Inl LoanAmounts
      else if f64_of_rat 1 < ltAnnualRate terms then Inl LoanRate
      else
        let name = TrimSpace (ltName terms);
            display = loan_display name i interestID interestRuleID paymentRuleID
        in Inr
          \<lparr>lbAccounts =
             [loan_account i (name @ '' (Principal)'') (ltEnabled terms) (Some display),
              loan_account interestID (name @ '' (Interest)'') (ltEnabled terms) None],
           lbCheckpoints =
             [loan_checkpoint i (ltPrincipal terms) (ltObservedAt terms),
              loan_checkpoint interestID (ltAccruedInterest terms) (ltObservedAt terms)],
           lbSchedules =
             [loan_charge name i interestID interestRuleID terms, loan_payment name i interestID paymentRuleID terms]\<rparr>)"

section \<open>Reading the rules of a loan\<close>

text \<open>
  The literal of a payment: \<open>^-?(?:\d+\.?\d*|\.\d+)(?:e[-+]?\d+)?$\<close> without regard to case, and its
  \<open>strconv.ParseFloat\<close>, whose exponent stops growing at 10000.
\<close>

definition exponent_value :: "string \<Rightarrow> int" where
  "exponent_value ds = foldl (\<lambda>e c. if e < 10000 then e * 10 + byte_digit c else e) 0 ds"

definition exponent_of :: "string \<Rightarrow> int option" where
  "exponent_of s =
     (case s of
        [] \<Rightarrow> Some 0
      | c # t \<Rightarrow>
          if c \<noteq> CHR ''e'' \<and> c \<noteq> CHR ''E'' then None
          else
            let negative = (t \<noteq> [] \<and> hd t = CHR ''-'');
                ds = (if t \<noteq> [] \<and> (hd t = CHR ''-'' \<or> hd t = CHR ''+'') then tl t else t)
            in if ds \<noteq> [] \<and> list_all is_digit ds
               then Some (if negative then - exponent_value ds else exponent_value ds) else None)"

definition payment_literal :: "string \<Rightarrow> f64 option" where
  "payment_literal s =
     (let negative = (s \<noteq> [] \<and> hd s = CHR ''-'');
          s = (if negative then tl s else s);
          whole = takeWhile is_digit s;
          rest = dropWhile is_digit s;
          dot = (rest \<noteq> [] \<and> hd rest = CHR ''.'');
          part = (if dot then takeWhile is_digit (tl rest) else []);
          rest = (if dot then dropWhile is_digit (tl rest) else rest)
      in if whole = [] \<and> part = [] then None
         else map_option (\<lambda>e.
             let value = f64_of_rat (digits_value (whole @ part) * p10 (e - int (length part)))
             in if negative then - value else value)
           (exponent_of rest))"

text \<open>The inputs of the charge: the rate, the name it has, and the name of the principal.\<close>

fun loan_inputs ::
  "string \<Rightarrow> (string \<times> AmountInputBinding) list \<Rightarrow> f64 \<times> string \<times> string \<Rightarrow> (f64 \<times> string \<times> string) option" where
  "loan_inputs principalID [] found = Some found"
| "loan_inputs principalID ((key, input) # inputs) (annualRate, rateInput, principalInput) =
     (if ibSource input \<noteq> ''provider'' then None
      else if ibProvider input = ''model-value''
      then
        (if map_of (ibArguments input) ''id'' \<noteq> Some (JStr principalID) \<or> length (ibArguments input) \<noteq> 1 then None
         else loan_inputs principalID inputs (annualRate, rateInput, key))
      else if ibProvider input = ''occurrence-rate''
      then
        (case (map_of (ibArguments input) ''annualRate'', map_of (ibArguments input) ''volatility'') of
           (Some (JNum value), Some (JNum volatility)) \<Rightarrow>
             if isNaN value \<or> isInf value \<or> value < 0 \<or> f64_of_rat 1 < value \<or> length (ibArguments input) \<noteq> 2 \<or>
                \<not> feq volatility 0
             then None
             else loan_inputs principalID inputs (value, key, principalInput)
         | _ \<Rightarrow> None)
      else None)"

definition config_text :: "TransactionAmountResolution \<Rightarrow> string option" where
  "config_text amount = (case map_of (amConfig amount) ''expression'' of Some (JStr s) \<Rightarrow> Some s | _ \<Rightarrow> None)"

definition payment_ok :: "f64 \<Rightarrow> bool" where
  "payment_ok payment \<longleftrightarrow>
     loan_amount_ok payment \<and> feq (fdiv (math_Round (payment * f64_of_rat 100)) (f64_of_rat 100)) payment"

definition LoanRuleTerms :: "string \<Rightarrow> Schedule \<Rightarrow> Schedule \<Rightarrow> loan_error + f64 \<times> f64 \<times> string" where
  "LoanRuleTerms principalID charge payment =
     (if scEndDate charge \<noteq> None \<or> scEndDate payment \<noteq> None \<or> scAnnualCap charge \<noteq> None \<or> scAnnualCap payment \<noteq> None \<or>
         amResolver (scAmount charge) \<noteq> ''expression'' \<or> amResolver (scAmount payment) \<noteq> ''expression'' \<or>
         length (amInputs (scAmount charge)) \<noteq> 2 \<or> amInputs (scAmount payment) \<noteq> []
      then Inl LoanUnsupported
      else
        case loan_inputs principalID (amInputs (scAmount charge)) (0, [], []) of
          None \<Rightarrow> Inl LoanUnsupported
        | Some (annualRate, rateInput, principalInput) \<Rightarrow>
            (case (config_text (scAmount charge), config_text (scAmount payment)) of
               (Some expression, Some literal) \<Rightarrow>
                 if principalInput = [] \<or> rateInput = [] \<or>
                    without_spaces expression \<noteq> ''abs('' @ principalInput @ '')*'' @ rateInput
                 then Inl LoanUnsupported
                 else
                   (case payment_literal (TrimSpace literal) of
                      None \<Rightarrow> Inl LoanUnsupported
                    | Some paymentAmount \<Rightarrow>
                        if payment_ok paymentAmount then Inr (annualRate, paymentAmount, rateInput)
                        else Inl LoanUnsupported)
             | _ \<Rightarrow> Inl LoanUnsupported))"

section \<open>Loans of a model\<close>

record display_check =
  dcInvalid :: bool
  dcClaimed :: "string set"
  dcRoles :: "string \<Rightarrow> string"

definition check_component :: "Account gomap \<Rightarrow> Account \<Rightarrow> display_check \<Rightarrow> AccountComponent \<Rightarrow> display_check" where
  "check_component accounts a s c =
     s\<lparr>dcInvalid := dcInvalid s \<or>
         (case Mapping.lookup accounts (cpAccountID c) of
            None \<Rightarrow> True
          | Some member \<Rightarrow>
              cpAccountID c \<in> dcClaimed s \<or> acKind member \<noteq> ''debt'' \<or> acEnabled member \<noteq> acEnabled a \<or>
              \<not> feq (MaxBalanceValue member) 0 \<or> (acDisplay member \<noteq> None \<and> acID member \<noteq> acID a) \<or>
              dcRoles s (cpRole c) \<noteq> []),
       dcClaimed := insert (cpAccountID c) (dcClaimed s),
       dcRoles := (dcRoles s)(cpRole c := cpAccountID c)\<rparr>"

definition loan_rules_ok :: "Account \<Rightarrow> (string \<Rightarrow> string) \<Rightarrow> Schedule \<Rightarrow> Schedule \<Rightarrow> bool" where
  "loan_rules_ok a roles charge payment \<longleftrightarrow>
     (case LoanRuleTerms (acID a) charge payment of Inl _ \<Rightarrow> False | Inr _ \<Rightarrow> True) \<and>
     scEnabled charge = acEnabled a \<and> scEnabled payment = acEnabled a \<and>
     roles ''principal'' = acID a \<and> roles ''interest'' \<noteq> [] \<and>
     scSourceAccountID charge = Some (roles ''interest'') \<and>
     (scDestinations charge = None \<or> scDestinations charge = Some []) \<and>
     scDestinations payment = Some [roles ''interest'', acID a]"

definition schedule_index :: "Schedule list \<Rightarrow> Schedule gomap" where
  "schedule_index rules = foldl (\<lambda>m r. Mapping.update (scID r) r m) Mapping.empty rules"

text \<open>One account with a display; the identities taken so far pass on to the next.\<close>

definition check_display ::
  "FinancialModel \<Rightarrow> Account \<Rightarrow> AccountDisplay \<Rightarrow> string set \<Rightarrow> bool \<times> string set" where
  "check_display model a d taken =
     (let s = foldl (check_component (accountIndex (fmAccounts model)) a)
            \<lparr>dcInvalid = (TrimSpace (adName d) = [] \<or> length (adComponents d) \<noteq> 2), dcClaimed = taken, dcRoles = (\<lambda>_. [])\<rparr>
            (adComponents d);
          rules = schedule_index (fmSchedules model)
      in (dcInvalid s \<or>
          (case (Mapping.lookup rules (adInterestScheduleID d), Mapping.lookup rules (adPaymentScheduleID d)) of
             (Some charge, Some payment) \<Rightarrow> \<not> loan_rules_ok a (dcRoles s) charge payment
           | _ \<Rightarrow> True),
          dcClaimed s))"

definition display_issue :: "nat \<Rightarrow> ModelValidationIssue" where
  "display_issue i =
     error_issue ''account.display.invalid''
       (Text ''A loan needs exclusive principal and interest components, matching inclusion, zero ceilings, and its interest and payment rules.'')
       [PathKey ''accounts'', PathIndex i, PathKey ''display'']"

fun display_issues :: "FinancialModel \<Rightarrow> nat \<Rightarrow> Account list \<Rightarrow> string set \<Rightarrow> ModelValidationIssue list" where
  "display_issues model i [] taken = []"
| "display_issues model i (a # as) taken =
     (case acDisplay a of
        None \<Rightarrow> display_issues model (i + 1) as taken
      | Some d \<Rightarrow>
          (let (invalid, taken) = check_display model a d taken
           in (if invalid then [display_issue i] else []) @ display_issues model (i + 1) as taken))"

definition validateAccountDisplays :: "FinancialModel \<Rightarrow> ModelValidationIssue list" where
  "validateAccountDisplays model = display_issues model 0 (fmAccounts model) {}"

end
