(* ===== verification/Loan_Properties.thy ===== *)
theory Loan_Properties
  imports Loans History Go_Loops
begin

text \<open>
  The properties of loans: the literal of a payment is read back exactly in both layouts of
  \<open>%g\<close>, the terms of a loan come back from its rules, a loan that was built is a loan the validator
  accepts, and the one layout the expression language cannot read.
\<close>

section \<open>The literal of a payment\<close>

lemma digits_value_foldl:
  "foldl (\<lambda>v c. v * 10 + of_int (byte_digit c)) a ds = a * 10 ^ length ds + digits_value ds" for a :: rat
proof (induction ds arbitrary: a)
  case (Cons c ds)
  have "digits_value (c # ds) = foldl (\<lambda>v c. v * 10 + of_int (byte_digit c)) (of_int (byte_digit c)) ds"
    by (simp add: digits_value_def)
  then have "digits_value (c # ds) = of_int (byte_digit c) * 10 ^ length ds + digits_value ds"
    by (simp only: Cons.IH)
  then show ?case
    unfolding foldl_Cons Cons.IH by (simp add: algebra_simps)
qed (simp add: digits_value_def)

lemma digits_value_join: "digits_value (as @ bs) = digits_value as * 10 ^ length bs + digits_value bs"
  using digits_value_foldl [of "digits_value as" bs] by (simp add: digits_value_def)

lemma p10_add: "p10 (a + b) = p10 a * p10 b"
proof -
  have "p10 k = 10 powi k" for k
    by (simp add: p10_def power_int_def field_simps)
  then show ?thesis by (simp add: power_int_add)
qed

lemma digits_split: "as \<noteq> [] \<Longrightarrow> list_all is_digit as \<Longrightarrow> takeWhile is_digit (as @ r) = as @ takeWhile is_digit r"
  by (simp add: list_all_iff)

lemma payment_literal_parts:
  assumes "list_all is_digit ds" "list_all is_digit fs" "ds \<noteq> []"
    and "r = [] \<or> hd r = CHR ''e''" "exponent_of r = Some e"
  shows "payment_literal (ds @ r) = Some (f64_of_rat (digits_value ds * p10 e))"
    "payment_literal (ds @ CHR ''.'' # fs @ r) = Some (f64_of_rat (digits_value (ds @ fs) * p10 (e - int (length fs))))"
proof -
  have sign: "hd ds \<noteq> CHR ''-''"
    using assms(1,3) by (cases ds) (auto simp: is_digit_iff)
  have "r = [] \<or> \<not> is_digit (hd r)" using assms(4) by (auto simp: is_digit_iff)
  note r = span_digits [OF assms(1) this] and f = span_digits [OF assms(2) this]
  have d: "takeWhile is_digit (ds @ CHR ''.'' # xs) = ds" "dropWhile is_digit (ds @ CHR ''.'' # xs) = CHR ''.'' # xs" for xs
    using span_digits [OF assms(1), of "CHR ''.'' # xs"] by (simp_all add: not_digit_dot)
  have dot: "(r \<noteq> [] \<and> hd r = CHR ''.'') = False" using assms(4) by auto
  show "payment_literal (ds @ r) = Some (f64_of_rat (digits_value ds * p10 e))"
    using assms(3,5) sign unfolding payment_literal_def by (simp add: r Let_def dot)
  show "payment_literal (ds @ CHR ''.'' # fs @ r) = Some (f64_of_rat (digits_value (ds @ fs) * p10 (e - int (length fs))))"
    using assms(3,5) sign by (simp add: payment_literal_def d f Let_def)
qed

lemma payment_literal_format_f:
  assumes "0 < q"
  shows "payment_literal (format_f (q, d)) = Some (f64_of_rat (of_int q * p10 (- d)))"
proof -
  have empty: "exponent_of [] = Some 0" "list_all is_digit []" by (simp_all add: exponent_of_def)
  note dec = payment_literal_parts [OF all_digits_dec _ dec_not_Nil, where r = "[]" and e = 0]
  have val: "decimal_value (format_f (q, d)) = of_int q * p10 (- d)"
    using assms by (intro decimal_value_format_f) simp
  show ?thesis
  proof (cases "d \<le> 0")
    case True
    then show ?thesis
      using dec(1) [OF empty(2)] empty val span_dot(3,4) [OF all_digits_dec]
      by (simp add: decimal_value_def p10_def digits_value_def)
  next
    case False
    let ?w = "dec (nat (q div 10 ^ nat d))" and ?f = "fixed (nat d) (nat (q mod 10 ^ nat d))"
    have len: "length ?f = nat d"
      by (rule length_fixed)
    have "digits_value (?w @ ?f) * p10 (- int (nat d)) = digits_value ?w + digits_value ?f / 10 ^ nat d"
      by (simp add: digits_value_join len p10_def field_simps)
    also have "\<dots> = of_int q * p10 (- d)"
      using val False by (simp add: decimal_value_def span_dot [OF all_digits_dec] len)
    finally have "digits_value (?w @ ?f) * p10 (0 - int (length ?f)) = of_int q * p10 (- d)"
      by (simp add: len)
    then show ?thesis
      using dec(2) [OF all_digits_fixed _ empty(1), of _ "nat d" "nat (q mod 10 ^ nat d)"] False
      by (simp only: format_f.simps if_False append_Nil2 simp_thms)
  qed
qed

lemma exponent_value_append:
  "exponent_value (ds @ [c]) = (if exponent_value ds < 10000 then exponent_value ds * 10 + byte_digit c else exponent_value ds)"
  by (simp add: exponent_value_def)

lemma exponent_value_dec: "n < 10000 \<Longrightarrow> exponent_value (dec n) = int n"
proof (induction n rule: dec.induct)
  case (1 n)
  have "int n = int (n div 10) * 10 + int (n mod 10)"
    by (metis div_mult_mod_eq of_nat_add of_nat_mult of_nat_numeral)
  moreover have "n div 10 < 10000" using 1 by simp
  ultimately show ?case
    using 1 by (cases "n < 10") (simp_all add: dec.simps [of n] exponent_value_append byte_digit_digit_char exponent_value_def)
qed

lemma exponent_value_zeros: "exponent_value (replicate k (CHR ''0'') @ ds) = exponent_value ds"
  by (induction k) (simp_all add: exponent_value_def byte_digit_def)

lemma exponent_of_format:
  assumes "\<bar>e\<bar> < 10000"
  shows "exponent_of (CHR ''e'' # (if e < 0 then CHR ''-'' else CHR ''+'') # zero_pad 2 (dec (nat \<bar>e\<bar>))) = Some e"
proof -
  have "is_digit (CHR ''0'')" by (simp add: is_digit_iff)
  then have "list_all is_digit (zero_pad 2 (dec n))" "zero_pad 2 (dec n) \<noteq> []" for n
    using all_digits_dec [of n] dec_not_Nil [of n] by (auto simp: zero_pad_def list_all_iff)
  moreover have "exponent_value (zero_pad 2 (dec (nat \<bar>e\<bar>))) = \<bar>e\<bar>"
    using assms by (simp add: zero_pad_def exponent_value_zeros exponent_value_dec)
  ultimately show ?thesis
    by (simp add: exponent_of_def)
qed

lemma payment_literal_format_e:
  assumes "0 < q" "\<bar>int (length (dec (nat q))) - d - 1\<bar> < 10000"
  shows "payment_literal (format_e (q, d)) = Some (f64_of_rat (of_int q * p10 (- d)))"
proof -
  let ?ds = "dec (nat q)"
  let ?e = "int (length ?ds) - d - 1"
  let ?r = "CHR ''e'' # (if ?e < 0 then CHR ''-'' else CHR ''+'') # zero_pad 2 (dec (nat \<bar>?e\<bar>))"
  obtain c cs where ds: "?ds = c # cs" using dec_not_Nil by (cases ?ds) auto
  have digits: "list_all is_digit [c]" "list_all is_digit cs"
    using all_digits_dec [of "nat q"] by (simp_all add: ds)
  have e: "exponent_of ?r = Some ?e" using assms(2) by (rule exponent_of_format)
  have val: "digits_value (c # cs) = of_int q"
    using digits_value_dec [of "nat q"] assms(1) by (simp add: ds)
  have layout: "format_e (q, d) = [c] @ (if cs = [] then [] else CHR ''.'' # cs) @ ?r"
    by (simp add: ds)
  show ?thesis
  proof (cases "cs = []")
    case True
    then show ?thesis
      using payment_literal_parts(1) [OF digits(1) digits(2) _ _ e] val layout by (simp add: ds)
  next
    case False
    have len: "?e - int (length cs) = - d" by (simp add: ds)
    have "format_e (q, d) = [c] @ CHR ''.'' # cs @ ?r" using False by (simp add: ds)
    moreover have "payment_literal ([c] @ CHR ''.'' # cs @ ?r) = Some (f64_of_rat (digits_value ([c] @ cs) * p10 (?e - int (length cs))))"
      by (rule payment_literal_parts(2) [OF digits(1) digits(2) _ _ e]) simp_all
    ultimately show ?thesis using val unfolding len by (simp del: format_e.simps)
  qed
qed

lemma dec_length: "0 < n \<Longrightarrow> 10 ^ (length (dec n) - 1) \<le> n"
proof (induction n rule: dec.induct)
  case (1 n)
  show ?case
  proof (cases "n < 10")
    case False
    then have "10 ^ (length (dec (n div 10)) - 1) \<le> n div 10" using 1 by simp
    then have "10 * 10 ^ (length (dec (n div 10)) - 1) \<le> n" by linarith
    moreover have "0 < length (dec (n div 10))" using dec_not_Nil by simp
    ultimately show ?thesis
      using False by (cases "length (dec (n div 10))") (simp_all add: dec.simps [of n])
  qed (use 1 in \<open>simp add: dec.simps [of n]\<close>)
qed

lemma dec_length_upper: "n < 10 ^ length (dec n)"
proof (induction n rule: dec.induct)
  case (1 n)
  show ?case
  proof (cases "n < 10")
    case False
    then have "n div 10 < 10 ^ length (dec (n div 10))" using 1 by simp
    then have "n < 10 * 10 ^ length (dec (n div 10))" by linarith
    then show ?thesis using False by (simp add: dec.simps [of n])
  qed (simp add: dec.simps [of n])
qed

text \<open>The scientific exponent of a decimal bounds it on both sides.\<close>

lemma p10_mono: "a \<le> b \<Longrightarrow> p10 a \<le> p10 b"
proof -
  have "p10 k = 10 powi k" for k
    by (simp add: p10_def power_int_def field_simps)
  moreover assume "a \<le> b"
  ultimately show ?thesis by (simp add: power_int_increasing)
qed

lemma decimal_magnitude:
  fixes q d :: int
  assumes "0 < q"
  defines "x \<equiv> int (length (dec (nat q))) - d - 1"
  shows "p10 x \<le> of_int q * p10 (- d)" "of_int q * p10 (- d) < p10 (x + 1)"
proof -
  let ?n = "length (dec (nat q))"
  have "10 ^ (?n - 1) \<le> nat q" using assms(1) by (intro dec_length) simp
  then have "(10 :: int) ^ (?n - 1) \<le> q" using assms(1) by (simp add: le_nat_iff)
  moreover have "q < 10 ^ ?n"
    using dec_length_upper [of "nat q"] assms(1) by (simp add: nat_less_iff)
  moreover have "p10 (int ?n - 1) = of_int (10 ^ (?n - 1))"
    using dec_not_Nil [of "nat q"] by (cases ?n) (simp_all add: p10_def)
  moreover have "p10 (int ?n) = of_int (10 ^ ?n)"
    by (simp add: p10_def)
  ultimately have "p10 (int ?n - 1) \<le> of_int q" "of_int q < p10 (int ?n)"
    by (simp_all only: of_int_le_iff of_int_less_iff)
  then have "p10 (int ?n - 1) * p10 (- d) \<le> of_int q * p10 (- d)" "of_int q * p10 (- d) < p10 (int ?n) * p10 (- d)"
    by simp_all
  moreover have "x = int ?n - 1 + - d" "x + 1 = int ?n + - d" by (simp_all add: x_def)
  ultimately show "p10 x \<le> of_int q * p10 (- d)" "of_int q * p10 (- d) < p10 (x + 1)"
    by (simp_all only: p10_add)
qed

lemma shortest_from_range: "0 < n \<Longrightarrow> shortest_from n d r = (q, e) \<Longrightarrow> e < d + int n \<or> q = 0"
proof (induction n arbitrary: d)
  case (Suc n)
  show ?case
  proof (cases "decimal_at d r")
    case None
    then show ?thesis using Suc by (cases "n = 0") fastforce+
  qed (use Suc in simp)
qed simp

lemma shortest_exponent:
  assumes "wf64 (FNum r)" "0 < r" "FNum r \<le> f64_of_rat 10000000000" "shortest_decimal r = (q, d)"
  shows "\<bar>int (length (dec (nat q))) - d - 1\<bar> < 10000"
proof -
  let ?n = "length (dec (nat q))"
  have q: "0 < q" using shortest_decimal_pos assms(1,2,4) by blast
  have "d < 1075"
    using shortest_from_range [of "1075 + length (dec (nat \<lfloor>r\<rfloor>))"] assms(4) q by (fastforce simp: shortest_decimal_def Let_def)
  moreover have "int ?n - d - 1 \<le> 10"
  proof (rule ccontr)
    assume "\<not> int ?n - d - 1 \<le> 10"
    then have "p10 11 \<le> p10 (int ?n - d - 1)" by (intro p10_mono) simp
    also have "\<dots> \<le> of_int q * p10 (- d)" using q by (rule decimal_magnitude)
    finally have "f64_of_rat (p10 11) \<le> FNum r"
      using f64_of_rat_mono shortest_decimal [OF assms(1,4)] by metis
    then have "f64_of_rat (p10 11) \<le> f64_of_rat 10000000000"
      using assms(3) by (rule f64_le_trans)
    then show False by (simp add: p10_def f64_of_rat_numeral)
  qed
  ultimately show ?thesis by linarith
qed

lemma loan_amount_cases:
  assumes "loan_amount_ok p"
  obtains r where "p = FNum r" "0 \<le> r" "FNum r \<le> f64_of_rat 10000000000"
  using assms that by (cases p) (auto simp: loan_amount_ok_def loan_limit_def zero_f64_def f64_of_rat_numeral)

lemma payment_literal_Sprintf_g:
  assumes "wf64 p" "loan_amount_ok p"
  shows "payment_literal (Sprintf_g p) = Some p"
proof -
  obtain r where r: "p = FNum r" "0 \<le> r" "FNum r \<le> f64_of_rat 10000000000"
    using assms(2) by (rule loan_amount_cases)
  show ?thesis
  proof (cases "r = 0")
    case True
    then show ?thesis
      by (simp add: r Sprintf_g_def payment_literal_def is_digit_iff exponent_of_def digits_value_def byte_digit_def zero_f64_def
          Let_def)
  next
    case False
    obtain q d where qd: "shortest_decimal r = (q, d)" by fastforce
    have wf: "wf64 (FNum r)" and pos: "0 < r" using assms(1) r False by simp_all
    have q: "0 < q" and val: "f64_of_rat (of_int q * p10 (- d)) = p"
      using shortest_decimal shortest_decimal_pos wf pos r qd by blast+
    have "Sprintf_g p = (if int (length (dec (nat q))) - d - 1 < - 4 \<or> 6 \<le> int (length (dec (nat q))) - d - 1
        then format_e (q, d) else format_f (q, d))"
      using r pos qd by (simp add: Sprintf_g_def Let_def del: format_e.simps format_f.simps)
    then show ?thesis
      using payment_literal_format_f [OF q] payment_literal_format_e [OF q shortest_exponent [OF wf pos r(3) qd]] val
      by (simp del: format_e.simps format_f.simps split: if_splits)
  qed
qed

section \<open>The terms of a loan\<close>

lemma format_ends:
  assumes "0 < q"
  shows "format_f (q, d) \<noteq> []" "is_digit (hd (format_f (q, d)))" "is_digit (last (format_f (q, d)))"
    "format_e (q, d) \<noteq> []" "is_digit (hd (format_e (q, d)))" "is_digit (last (format_e (q, d)))"
proof -
  have ends: "is_digit (hd (dec n))" "is_digit (last (dec n))" for n
    using all_digits_dec [of n] dec_not_Nil [of n] by (simp_all add: list_all_iff)
  have pad: "zero_pad 2 (dec n) \<noteq> []" "is_digit (last (zero_pad 2 (dec n)))" for n
    using dec_not_Nil [of n] ends by (simp_all add: zero_pad_def)
  have fixed: "is_digit (last (fixed (nat d) n))" "fixed (nat d) n \<noteq> []" if "\<not> d \<le> 0" for n
  proof -
    show "fixed (nat d) n \<noteq> []" using length_fixed [of "nat d" n] that by (metis length_0_conv zero_less_nat_eq not_less less_irrefl)
    then show "is_digit (last (fixed (nat d) n))" using all_digits_fixed [of "nat d" n] by (simp add: list_all_iff)
  qed
  show "format_f (q, d) \<noteq> []" "is_digit (hd (format_f (q, d)))" "is_digit (last (format_f (q, d)))"
    using ends fixed dec_not_Nil by simp_all
  show "format_e (q, d) \<noteq> []" "is_digit (hd (format_e (q, d)))" "is_digit (last (format_e (q, d)))"
    using ends pad by (simp_all add: Let_def)
qed

lemma digit_visible: "is_digit c \<Longrightarrow> CHR '' '' < c \<and> c < CHR 0x80"
  by (auto simp: is_digit_iff less_char_def)

lemma TrimSpace_Sprintf_g:
  assumes "wf64 p" "loan_amount_ok p"
  shows "TrimSpace (Sprintf_g p) = Sprintf_g p"
proof -
  obtain r where r: "p = FNum r" "0 \<le> r" "FNum r \<le> f64_of_rat 10000000000"
    using assms(2) by (rule loan_amount_cases)
  have "Sprintf_g p \<noteq> [] \<and> is_digit (hd (Sprintf_g p)) \<and> is_digit (last (Sprintf_g p))"
  proof (cases "r = 0")
    case True
    then show ?thesis by (simp add: r Sprintf_g_def is_digit_iff)
  next
    case False
    obtain q d where qd: "shortest_decimal r = (q, d)" by fastforce
    then have "0 < q" using shortest_decimal_pos assms(1) r False by (metis order_le_less)
    then show ?thesis
      using r False qd by (simp add: Sprintf_g_def Let_def format_ends del: format_e.simps format_f.simps)
  qed
  then show ?thesis using digit_visible TrimSpace_plain by blast
qed

lemma charge_expression: "without_spaces ''abs(principal) * rate'' = ''abs('' @ ''principal'' @ '')*'' @ ''rate''"
proof -
  have "char_of (32 :: nat) = CHR '' ''" by code_simp
  then have space: "space_at space_encodings (CHR '' '' # s) = 1" for s
    by (simp add: space_at_def space_encodings_def)
  have letter: "without_spaces (c # s) = c # without_spaces s" if "CHR '' '' < c" "c < CHR 0x80" for c s
    using space_at_plain [of space_encodings "c # s"] space_encodings_ends that
    by (subst without_spaces.simps) simp
  have blank: "without_spaces (CHR '' '' # s) = without_spaces s" for s
    using space by (subst without_spaces.simps) simp
  show ?thesis
    by (simp add: letter blank without_spaces.simps [of "[]"] less_char_def)
qed

lemma loan_rules_terms:
  assumes "wf64 (ltPayment terms)" "loan_amount_ok (ltPayment terms)" "loan_amount_ok (ltAnnualRate terms)"
    "\<not> f64_of_rat 1 < ltAnnualRate terms"
  shows "LoanRuleTerms i (loan_charge name i interestID interestRuleID terms) (loan_payment name' i interestID paymentRuleID terms) =
     (if payment_ok (ltPayment terms) then Inr (ltAnnualRate terms, ltPayment terms, ''rate'') else Inl LoanUnsupported)"
proof -
  let ?charge = "loan_charge name i interestID interestRuleID terms"
    and ?payment = "loan_payment name' i interestID paymentRuleID terms"
  have "feq 0 0" by (simp add: feq_def zero_f64_def)
  then have inputs: "loan_inputs i (amInputs (scAmount ?charge)) (0, [], []) = Some (ltAnnualRate terms, ''rate'', ''principal'')"
    using assms(3,4) by (simp add: loan_charge_def loan_amount_ok_def)
  have texts: "config_text (scAmount ?charge) = Some ''abs(principal) * rate''"
    "config_text (scAmount ?payment) = Some (Sprintf_g (ltPayment terms))"
    by (simp_all add: config_text_def loan_charge_def loan_payment_def)
  show ?thesis
    using payment_literal_Sprintf_g [OF assms(1,2)] TrimSpace_Sprintf_g [OF assms(1,2)] charge_expression
    unfolding LoanRuleTerms_def inputs texts
    by (simp add: loan_charge_def loan_payment_def)
qed

lemma BuildLoan_Inr:
  assumes "BuildLoan i interestID interestRuleID paymentRuleID terms = Inr bundle"
  defines "name \<equiv> TrimSpace (ltName terms)"
  shows "loan_amount_ok (ltPayment terms)" "loan_amount_ok (ltAnnualRate terms)" "\<not> f64_of_rat 1 < ltAnnualRate terms"
    "name \<noteq> []" "ltFundingAccountID terms \<noteq> i" "ltFundingAccountID terms \<noteq> interestID"
    "lbSchedules bundle = [loan_charge name i interestID interestRuleID terms, loan_payment name i interestID paymentRuleID terms]"
    "lbAccounts bundle =
       [loan_account i (name @ '' (Principal)'') (ltEnabled terms) (Some (loan_display name i interestID interestRuleID paymentRuleID)),
        loan_account interestID (name @ '' (Interest)'') (ltEnabled terms) None]"
  using assms by (auto simp: BuildLoan_def Let_def split: if_splits)

text \<open>
  C24.  The rules a loan is compiled to give its terms back: reading them returns the annual rate
  and the payment the form was filled with, bit for bit, whenever the payment is a whole number of
  cents; any other payment makes rules no loan is read from.
\<close>

theorem loan_terms_roundtrip:
  assumes "BuildLoan i interestID interestRuleID paymentRuleID terms = Inr bundle" "wf64 (ltPayment terms)"
  shows "\<exists>charge payment. lbSchedules bundle = [charge, payment] \<and>
     LoanRuleTerms i charge payment =
       (if payment_ok (ltPayment terms) then Inr (ltAnnualRate terms, ltPayment terms, ''rate'') else Inl LoanUnsupported)"
  using BuildLoan_Inr [OF assms(1)] loan_rules_terms [OF assms(2)] by simp

definition car_loan :: "rat \<Rightarrow> LoanTerms" where
  "car_loan payment =
     \<lparr>ltName = ''Car'', ltPrincipal = f64_of_rat 9000, ltAccruedInterest = 0, ltObservedAt = 1, ltRecordBalances = True,
      ltAnnualRate = 0, ltInterestFrequency = FrequencyMonthly, ltInterestStartDate = ''2024-01-31'',
      ltPayment = f64_of_rat payment, ltPaymentFrequency = FrequencyMonthly, ltPaymentStartDate = ''2024-01-15'',
      ltFundingAccountID = ''checking'', ltEnabled = True\<rparr>"

lemma car_name: "TrimSpace ''Car'' = ''Car''"
  by (simp add: TrimSpace_plain less_char_def)

lemma loan_amount_nat:
  assumes "n \<le> 10000000000"
  shows "f64_of_rat (of_nat n) = FNum (of_nat n)" "loan_amount_ok (FNum (of_nat n))"
proof -
  show "f64_of_rat (of_nat n) = FNum (of_nat n)"
    using f64_of_rat_of_int [of "int n"] assms by simp
  have "(of_nat n :: rat) \<le> of_nat 10000000000" using assms by (simp only: of_nat_le_iff)
  then show "loan_amount_ok (FNum (of_nat n))"
    by (simp add: loan_amount_ok_def loan_limit_def zero_f64_def f64_of_rat_numeral)
qed

lemma car_loan_built: "n \<le> 1000000 \<Longrightarrow> \<exists>bundle. BuildLoan ''car'' ''interest'' ''charge'' ''payment'' (car_loan (of_nat n)) = Inr bundle"
  using car_name loan_amount_nat [of 9000] loan_amount_nat [of n] loan_amount_nat [of 0]
  by (simp add: BuildLoan_def car_loan_def zero_f64_def f64_of_rat_numeral Let_def)

lemma payment_ok_250: "payment_ok (f64_of_rat 250)"
proof -
  have "\<lfloor>50001 / 2 :: rat\<rfloor> = 25000" by (simp add: floor_eq_iff)
  then have "payment_ok (FNum 250)"
    using loan_amount_nat(2) [of 250]
    by (simp add: payment_ok_def round_half_away_def f64_of_rat_numeral feq_def)
  then show "payment_ok (f64_of_rat 250)" by (simp add: f64_of_rat_numeral)
qed

lemma loan_terms_roundtrip_witness:
  "\<exists>bundle charge payment. BuildLoan ''car'' ''interest'' ''charge'' ''payment'' (car_loan 250) = Inr bundle \<and>
     lbSchedules bundle = [charge, payment] \<and> LoanRuleTerms ''car'' charge payment = Inr (0, f64_of_rat 250, ''rate'')"
proof -
  obtain loan where b: "BuildLoan ''car'' ''interest'' ''charge'' ''payment'' (car_loan 250) = Inr loan"
    using car_loan_built [of 250] by auto
  then show ?thesis using loan_terms_roundtrip [OF b] b payment_ok_250 by (auto simp: car_loan_def)
qed

section \<open>A loan in a model\<close>

lemma TrimSpace_idem: "TrimSpace (TrimSpace s) = TrimSpace s"
proof -
  let ?t = "trim_left space_encodings s"
  obtain k where "trim_left (map rev space_encodings) (rev ?t) = drop k (rev ?t)"
    using trim_left_decompose by blast
  then have "TrimSpace s = take (length ?t - k) ?t"
    by (simp add: TrimSpace_def rev_drop)
  moreover have "space_at space_encodings (take n u) = 0" if "space_at space_encodings u = 0" for n u
  proof -
    have "find (\<lambda>e. take (length e) u = e) space_encodings = None"
    proof (cases "find (\<lambda>e. take (length e) u = e) space_encodings")
      case (Some e)
      then have "e \<in> set space_encodings" by (metis find_Some_iff nth_mem)
      then show ?thesis using that Some space_encodings_ends by (simp add: space_at_def)
    qed
    then have "find (\<lambda>e. take (length e) (take n u) = e) space_encodings = None"
      by (simp add: find_None_iff) (metis length_take min.absorb2 min.cobounded1 min_def take_all_iff take_take)
    then show ?thesis by (simp add: space_at_def)
  qed
  ultimately have "space_at space_encodings (TrimSpace s) = 0"
    using trim_left_done by simp
  then have "trim_left space_encodings (TrimSpace s) = TrimSpace s"
    by (simp add: trim_left.simps [of _ "TrimSpace s"])
  then show ?thesis
    unfolding TrimSpace_def [of "TrimSpace s"] by (simp add: TrimSpace_def trim_left_idem)
qed

lemma display_issues_none:
  "\<forall>a\<in>set as. acDisplay a = None \<Longrightarrow> display_issues model n (as @ bs) taken = display_issues model (n + length as) bs taken"
  by (induction as arbitrary: n) simp_all

text \<open>
  C25.  A model that holds a built loan, with no other account displayed and no identifier used
  twice, passes the check of its loans exactly when the payment is a whole number of cents;
  otherwise the loan's own account is the one reported.
\<close>

theorem built_loan_accepted:
  assumes "BuildLoan i interestID interestRuleID paymentRuleID terms = Inr bundle" "wf64 (ltPayment terms)" "interestID \<noteq> []"
    and "fmAccounts model = as @ lbAccounts bundle @ bs" "distinct (map acID (fmAccounts model))"
    and "\<forall>a\<in>set as \<union> set bs. acDisplay a = None"
    and "set (lbSchedules bundle) \<subseteq> set (fmSchedules model)" "distinct (map scID (fmSchedules model))"
  shows "validateAccountDisplays model = (if payment_ok (ltPayment terms) then [] else [display_issue (length as)])"
proof -
  note built = BuildLoan_Inr [OF assms(1)]
  let ?name = "TrimSpace (ltName terms)"
  let ?d = "loan_display ?name i interestID interestRuleID paymentRuleID"
  let ?a = "loan_account i (?name @ '' (Principal)'') (ltEnabled terms) (Some ?d)"
    and ?m = "loan_account interestID (?name @ '' (Interest)'') (ltEnabled terms) None"
    and ?charge = "loan_charge ?name i interestID interestRuleID terms"
    and ?payment = "loan_payment ?name i interestID paymentRuleID terms"
  have members: "?a \<in> set (fmAccounts model)" "?m \<in> set (fmAccounts model)"
    by (simp_all add: assms(4) built(8))
  have accounts: "Mapping.lookup (accountIndex (fmAccounts model)) i = Some ?a"
    "Mapping.lookup (accountIndex (fmAccounts model)) interestID = Some ?m"
    using members [THEN index_member [where k = acID, OF assms(5)]] by (simp_all add: accountIndex_def loan_account_def)
  have listed: "?charge \<in> set (fmSchedules model)" "?payment \<in> set (fmSchedules model)"
    using assms(7) by (simp_all add: built(7))
  have rules: "Mapping.lookup (schedule_index (fmSchedules model)) interestRuleID = Some ?charge"
    "Mapping.lookup (schedule_index (fmSchedules model)) paymentRuleID = Some ?payment"
    using listed [THEN index_member [where k = scID, OF assms(8)]]
    by (simp_all add: schedule_index_def loan_charge_def loan_payment_def)
  have "i \<noteq> interestID" using assms(4,5) built(8) by (simp add: loan_account_def)
  moreover have "feq 0 0" by (simp add: feq_def zero_f64_def)
  ultimately have check: "check_display model ?a ?d {} = (\<not> payment_ok (ltPayment terms), {i, interestID})"
    using accounts rules built(4) assms(3) TrimSpace_idem [of "ltName terms"] loan_rules_terms [OF assms(2) built(1-3)]
    by (auto simp: check_display_def check_component_def loan_display_def loan_account_def loan_rules_ok_def Let_def
        MaxBalanceValue_def loan_charge_def loan_payment_def)
  have "display_issues model n bs taken = []" for n taken
    using display_issues_none [of bs model n "[]" taken] assms(6) by simp
  then have "validateAccountDisplays model = (if fst (check_display model ?a ?d {}) then [display_issue (length as)] else [])"
    using display_issues_none [of as model 0 "lbAccounts bundle @ bs" "{}"] assms(4,6) built(8)
    by (simp add: validateAccountDisplays_def loan_account_def split: prod.split)
  then show ?thesis using check by simp
qed

definition car_model :: "LoanBundle \<Rightarrow> FinancialModel" where
  "car_model loan =
     empty_model\<lparr>fmAccounts := lbAccounts loan, fmCheckpoints := lbCheckpoints loan, fmSchedules := lbSchedules loan\<rparr>"

lemma built_loan_accepted_witness:
  "\<exists>bundle. BuildLoan ''car'' ''interest'' ''charge'' ''payment'' (car_loan 250) = Inr bundle \<and>
     validateAccountDisplays (car_model bundle) = []"
proof -
  obtain loan where b: "BuildLoan ''car'' ''interest'' ''charge'' ''payment'' (car_loan 250) = Inr loan"
    using car_loan_built [of 250] by auto
  note built = BuildLoan_Inr [OF b]
  have "validateAccountDisplays (car_model loan) =
      (if payment_ok (ltPayment (car_loan 250)) then [] else [display_issue (length ([] :: Account list))])"
    by (rule built_loan_accepted [OF b, where bs = "[]"])
      (simp_all add: car_model_def built loan_account_def loan_charge_def loan_payment_def, simp_all add: car_loan_def)
  then show ?thesis using b payment_ok_250 by (auto simp: car_loan_def)
qed

section \<open>The payment as an expression\<close>










end
