(* ===== verification/Evaluation_Config.thy ===== *)
theory Evaluation_Config
  imports Issues Go_Strings Go_Loops
begin

text \<open>
  The configurations of evaluations: \<open>backend/internal/domain/evaluation_config.go\<close>, with
  \<open>validateWhatIfConfig\<close> of \<open>evaluation_whatif.go\<close>, \<open>validatePlannedPurchasesConfig\<close> of
  \<open>evaluation_purchases.go\<close> and the types of \<open>backend/internal/types/evaluation.go\<close>.  A
  configuration is the JSON value it was decoded to.  A parser returns \<open>None\<close> where a type
  assertion of the code would panic.  The conversion of a float outside \<open>int64\<close> depends on the
  machine and is the parameter \<open>overflow\<close>.
\<close>

section \<open>Reading fields\<close>

fun asObject :: "json \<Rightarrow> json_object option" where
  "asObject (JObj obj) = Some obj"
| "asObject _ = None"

definition numberField :: "json_object \<Rightarrow> string \<Rightarrow> f64 option" where
  "numberField obj key =
     (case as_number (map_of obj key) of
        None \<Rightarrow> None
      | Some v \<Rightarrow> if isNonFinite v then None else Some v)"

definition stringField :: "json_object \<Rightarrow> string \<Rightarrow> string option" where
  "stringField obj key = as_string (map_of obj key)"

fun json_strings :: "json list \<Rightarrow> string list option" where
  "json_strings [] = Some []"
| "json_strings (JStr s # items) = map_option ((#) s) (json_strings items)"
| "json_strings (_ # items) = None"

definition stringArrayField :: "json_object \<Rightarrow> string \<Rightarrow> string list option" where
  "stringArrayField obj key = (case map_of obj key of Some (JArr items) \<Rightarrow> json_strings items | _ \<Rightarrow> None)"

text \<open>A number that was checked to be there; Go's zero otherwise.\<close>

definition number_or_zero :: "json_object \<Rightarrow> string \<Rightarrow> f64" where
  "number_or_zero obj key = (case numberField obj key of None \<Rightarrow> 0 | Some v \<Rightarrow> v)"

definition float_to_int :: "(f64 \<Rightarrow> int) \<Rightarrow> f64 \<Rightarrow> int" where
  "float_to_int overflow v =
     (case v of
        FNum r \<Rightarrow>
          let n = (if r < 0 then \<lceil>r\<rceil> else \<lfloor>r\<rfloor>) in if - (2 ^ 63) \<le> n \<and> n < 2 ^ 63 then n else overflow v
      | _ \<Rightarrow> overflow v)"

section \<open>Financial independence plans\<close>

record FISource =
  fsType :: string
  fsTransactionID :: string
  fsAccountID :: string
  fsIncluded :: bool
  fsWithdrawalRateOverride :: "f64 option"

definition PrincipalAllowDrawdown :: string where "PrincipalAllowDrawdown = ''allow-drawdown''"
definition PrincipalPreserveNominal :: string where "PrincipalPreserveNominal = ''preserve-nominal-principal''"
definition PrincipalPreserveReal :: string where "PrincipalPreserveReal = ''preserve-real-principal''"
definition ExpenseBasisProjectionStart :: string where "ExpenseBasisProjectionStart = ''projection-start-purchasing-power''"
definition ExpenseBasisFIDateDollars :: string where "ExpenseBasisFIDateDollars = ''fi-date-dollars''"

record FIPlan =
  fpMinimumNetWorth :: f64
  fpAnnualExpenseTarget :: f64
  fpAnnualExpenseTargetBasis :: string
  fpAnnualExpenseGrowthRate :: f64
  fpWithdrawalRate :: f64
  fpEvaluationYears :: int
  fpRequiredConfidence :: f64
  fpSources :: "FISource list"
  fpContinuingTransactionIDs :: "string list"
  fpPrincipalPolicy :: string

definition finiteNonNegative :: "f64 \<Rightarrow> f64 \<Rightarrow> f64" where
  "finiteNonNegative v fallback = (if isNaN v \<or> isInf v then fallback else math_Max 0 v)"

definition normalize_source :: "FISource \<Rightarrow> FISource" where
  "normalize_source source =
     (if fsType source = ''cashflow'' then source
      else source\<lparr>fsWithdrawalRateOverride :=
        map_option (\<lambda>v. math_Min (f64_of_rat 1) (finiteNonNegative v 0)) (fsWithdrawalRateOverride source)\<rparr>)"

definition spendable_income_ids :: "FISource list \<Rightarrow> string set" where
  "spendable_income_ids sources =
     set (map fsTransactionID (filter (\<lambda>s. fsType s = ''cashflow'' \<and> fsIncluded s) sources))"

fun continuing_ids :: "string set \<Rightarrow> string set \<Rightarrow> string list \<Rightarrow> string list" where
  "continuing_ids spendable seen [] = []"
| "continuing_ids spendable seen (i # ids) =
     (if i \<in> seen \<or> i \<in> spendable then continuing_ids spendable seen ids
      else i # continuing_ids spendable (insert i seen) ids)"

definition normalizePrincipalPolicy :: "string \<Rightarrow> string" where
  "normalizePrincipalPolicy policy =
     (if policy = PrincipalPreserveNominal then PrincipalPreserveNominal
      else if policy = PrincipalPreserveReal then PrincipalPreserveReal
      else PrincipalAllowDrawdown)"

fun math_Floor :: "f64 \<Rightarrow> f64" where
  "math_Floor (FNum r) = FNum (of_int \<lfloor>r\<rfloor>)"
| "math_Floor v = v"

definition normalize_years :: "(f64 \<Rightarrow> int) \<Rightarrow> int \<Rightarrow> int" where
  "normalize_years overflow years =
     (let n = float_to_int overflow (math_Floor (finiteNonNegative (f64_of_rat (of_int years)) (f64_of_rat 1)))
      in if n < 1 then 1 else n)"

definition NormalizeFIPlan :: "(f64 \<Rightarrow> int) \<Rightarrow> FIPlan \<Rightarrow> FIPlan" where
  "NormalizeFIPlan overflow plan =
     (let sources = map normalize_source (fpSources plan)
      in \<lparr>fpMinimumNetWorth = finiteNonNegative (fpMinimumNetWorth plan) 0,
          fpAnnualExpenseTarget = finiteNonNegative (fpAnnualExpenseTarget plan) 0,
          fpAnnualExpenseTargetBasis =
            (if fpAnnualExpenseTargetBasis plan = ExpenseBasisProjectionStart then ExpenseBasisProjectionStart
             else ExpenseBasisFIDateDollars),
          fpAnnualExpenseGrowthRate = finiteNonNegative (fpAnnualExpenseGrowthRate plan) 0,
          fpWithdrawalRate = math_Min (f64_of_rat 1) (finiteNonNegative (fpWithdrawalRate plan) 0),
          fpEvaluationYears = normalize_years overflow (fpEvaluationYears plan),
          fpRequiredConfidence =
            math_Min (f64_of_rat 1)
              (math_Max (f64_of_rat (1 / 100)) (finiteNonNegative (fpRequiredConfidence plan) (f64_of_rat 1))),
          fpSources = sources,
          fpContinuingTransactionIDs = continuing_ids (spendable_income_ids sources) {} (fpContinuingTransactionIDs plan),
          fpPrincipalPolicy = normalizePrincipalPolicy (fpPrincipalPolicy plan)\<rparr>)"

definition fi_invalid :: issue_message where
  "fi_invalid = Text ''Financial independence configuration is invalid.''"

definition fi_source_ok :: "json \<Rightarrow> bool" where
  "fi_source_ok source \<longleftrightarrow>
     (case asObject source of
        None \<Rightarrow> False
      | Some o' \<Rightarrow>
          (case map_of o' ''included'' of Some (JBool _) \<Rightarrow> True | _ \<Rightarrow> False) \<and>
          (if map_of o' ''type'' = Some (JStr ''cashflow'')
           then stringField o' ''transactionId'' \<noteq> None \<and> length o' \<le> 3
           else if map_of o' ''type'' = Some (JStr ''asset'')
           then stringField o' ''accountId'' \<noteq> None \<and>
             (case map_of o' ''withdrawalRateOverride'' of
                None \<Rightarrow> True | Some (JNum v) \<Rightarrow> \<not> isNonFinite v | Some _ \<Rightarrow> False) \<and>
             length o' \<le> 4
           else False))"

definition fi_numeric_keys :: "string list" where
  "fi_numeric_keys =
     [''minimumNetWorth'', ''annualExpenseTarget'', ''annualExpenseGrowthRate'', ''withdrawalRate'', ''evaluationYears'',
      ''requiredConfidence'']"

definition fi_shape_ok :: "json_object \<Rightarrow> bool" where
  "fi_shape_ok obj \<longleftrightarrow>
     (case map_of obj ''sources'' of Some (JArr sources) \<Rightarrow> list_all fi_source_ok sources | _ \<Rightarrow> False) \<and>
     stringArrayField obj ''continuingTransactionIds'' \<noteq> None \<and>
     (case stringField obj ''principalPolicy'' of
        None \<Rightarrow> False
      | Some policy \<Rightarrow> policy \<in> {PrincipalAllowDrawdown, PrincipalPreserveNominal, PrincipalPreserveReal}) \<and>
     (case map_of obj ''annualExpenseTargetBasis'' of
        None \<Rightarrow> True
      | Some (JStr basis) \<Rightarrow> basis \<in> {ExpenseBasisProjectionStart, ExpenseBasisFIDateDollars}
      | Some _ \<Rightarrow> False)"

definition ValidateFIPlanConfig :: "json \<Rightarrow> issue_message option" where
  "ValidateFIPlanConfig config =
     (case asObject config of
        None \<Rightarrow> Some fi_invalid
      | Some obj \<Rightarrow>
          if \<not> fi_shape_ok obj then Some fi_invalid
          else map_option (\<lambda>key. Text (''Financial independence '' @ key @ '' must be a finite number.''))
            (find (\<lambda>key. numberField obj key = None) fi_numeric_keys))"

definition fi_source :: "json \<Rightarrow> FISource option" where
  "fi_source source =
     (case asObject source of
        None \<Rightarrow> None
      | Some o' \<Rightarrow>
          (case map_of o' ''included'' of
             Some (JBool included) \<Rightarrow>
               if map_of o' ''type'' = Some (JStr ''cashflow'')
               then map_option (\<lambda>i. \<lparr>fsType = ''cashflow'', fsTransactionID = i, fsAccountID = '''', fsIncluded = included,
                      fsWithdrawalRateOverride = None\<rparr>) (stringField o' ''transactionId'')
               else
                 (case stringField o' ''accountId'' of
                    None \<Rightarrow> None
                  | Some i \<Rightarrow>
                      let asset = \<lparr>fsType = ''asset'', fsTransactionID = '''', fsAccountID = i, fsIncluded = included,
                             fsWithdrawalRateOverride = None\<rparr>
                      in (case map_of o' ''withdrawalRateOverride'' of
                            None \<Rightarrow> Some asset
                          | Some (JNum v) \<Rightarrow> Some (asset\<lparr>fsWithdrawalRateOverride := Some v\<rparr>)
                          | Some _ \<Rightarrow> None))
           | _ \<Rightarrow> None))"

fun fi_sources :: "json list \<Rightarrow> FISource list option" where
  "fi_sources [] = Some []"
| "fi_sources (source # sources) =
     (case (fi_source source, fi_sources sources) of (Some s, Some ss) \<Rightarrow> Some (s # ss) | _ \<Rightarrow> None)"

definition fi_plan_of :: "(f64 \<Rightarrow> int) \<Rightarrow> json_object \<Rightarrow> FISource list \<Rightarrow> FIPlan" where
  "fi_plan_of overflow obj sources =
     \<lparr>fpMinimumNetWorth = number_or_zero obj ''minimumNetWorth'',
      fpAnnualExpenseTarget = number_or_zero obj ''annualExpenseTarget'',
      fpAnnualExpenseTargetBasis =
        (if map_of obj ''annualExpenseTargetBasis'' = Some (JStr ExpenseBasisProjectionStart) then ExpenseBasisProjectionStart
         else ExpenseBasisFIDateDollars),
      fpAnnualExpenseGrowthRate = number_or_zero obj ''annualExpenseGrowthRate'',
      fpWithdrawalRate = number_or_zero obj ''withdrawalRate'',
      fpEvaluationYears = float_to_int overflow (number_or_zero obj ''evaluationYears''),
      fpRequiredConfidence = number_or_zero obj ''requiredConfidence'',
      fpSources = sources,
      fpContinuingTransactionIDs =
        (case stringArrayField obj ''continuingTransactionIds'' of None \<Rightarrow> [] | Some ids \<Rightarrow> ids),
      fpPrincipalPolicy =
        (if map_of obj ''principalPolicy'' = Some (JStr PrincipalPreserveNominal) then PrincipalPreserveNominal
         else if map_of obj ''principalPolicy'' = Some (JStr PrincipalPreserveReal) then PrincipalPreserveReal
         else PrincipalAllowDrawdown)\<rparr>"

definition ParseFIPlan :: "(f64 \<Rightarrow> int) \<Rightarrow> json \<Rightarrow> (issue_message + FIPlan) option" where
  "ParseFIPlan overflow config =
     (case ValidateFIPlanConfig config of
        Some e \<Rightarrow> Some (Inl e)
      | None \<Rightarrow>
          (case asObject config of
             None \<Rightarrow> None
           | Some obj \<Rightarrow>
               map_option (\<lambda>sources. Inr (NormalizeFIPlan overflow (fi_plan_of overflow obj sources)))
                 (case map_of obj ''sources'' of Some (JArr sources) \<Rightarrow> fi_sources sources | _ \<Rightarrow> Some [])))"

section \<open>The other configurations\<close>

definition ValidateThresholdConfig :: "json \<Rightarrow> issue_message option" where
  "ValidateThresholdConfig config =
     (let invalid = Some (Text ''Net worth threshold target must be a finite number.'')
      in case asObject config of
           None \<Rightarrow> invalid
         | Some obj \<Rightarrow> if numberField obj ''target'' = None then invalid else None)"

definition ParseThresholdConfig :: "json \<Rightarrow> (issue_message + f64) option" where
  "ParseThresholdConfig config =
     (case ValidateThresholdConfig config of
        Some e \<Rightarrow> Some (Inl e)
      | None \<Rightarrow> map_option (\<lambda>obj. Inr (number_or_zero obj ''target'')) (asObject config))"

record AccountBalanceConfig =
  abAccountID :: string
  abTarget :: f64

definition ValidateAccountBalanceConfig :: "json \<Rightarrow> issue_message option" where
  "ValidateAccountBalanceConfig config =
     (case asObject config of
        None \<Rightarrow> Some (Text ''Account balance target must be an object.'')
      | Some obj \<Rightarrow>
          if stringField obj ''accountId'' = None \<or> stringField obj ''accountId'' = Some ''''
          then Some (Text ''Account balance evaluation must name an account.'')
          else if numberField obj ''target'' = None
          then Some (Text ''Account balance target must be a finite number.'')
          else None)"

definition ParseAccountBalanceConfig :: "json \<Rightarrow> (issue_message + AccountBalanceConfig) option" where
  "ParseAccountBalanceConfig config =
     (case ValidateAccountBalanceConfig config of
        Some e \<Rightarrow> Some (Inl e)
      | None \<Rightarrow>
          map_option (\<lambda>obj. Inr
            \<lparr>abAccountID = (case stringField obj ''accountId'' of None \<Rightarrow> '''' | Some i \<Rightarrow> i),
             abTarget = number_or_zero obj ''target''\<rparr>) (asObject config))"

text \<open>The first occurrence of each identifier, in order.\<close>

definition unique_ids :: "string list \<Rightarrow> string list" where
  "unique_ids ids = continuing_ids {} {} ids"

definition ValidateFulfillmentConfig :: "json \<Rightarrow> issue_message option" where
  "ValidateFulfillmentConfig config =
     (let invalid = Some (Text ''Transaction fulfillment transactionIds must be null or an array of IDs.'')
      in case asObject config of
           None \<Rightarrow> Some (Text ''Transaction fulfillment configuration must be an object.'')
         | Some obj \<Rightarrow>
             (case map_of obj ''transactionIds'' of
                None \<Rightarrow> None
              | Some JNull \<Rightarrow> None
              | Some (JArr items) \<Rightarrow>
                  (case json_strings items of
                     None \<Rightarrow> invalid
                   | Some ids \<Rightarrow> if list_ex (\<lambda>i. TrimSpace i = '''') ids then invalid else None)
              | Some _ \<Rightarrow> invalid))"

text \<open>\<open>nil\<close> stands for all transactions, and an empty array parses to it.\<close>

definition ParseFulfillmentConfig :: "json \<Rightarrow> (issue_message + string list option) option" where
  "ParseFulfillmentConfig config =
     (case ValidateFulfillmentConfig config of
        Some e \<Rightarrow> Some (Inl e)
      | None \<Rightarrow>
          (case asObject config of
             None \<Rightarrow> None
           | Some obj \<Rightarrow>
               (case map_of obj ''transactionIds'' of
                  None \<Rightarrow> Some (Inr None)
                | Some JNull \<Rightarrow> Some (Inr None)
                | Some (JArr items) \<Rightarrow>
                    map_option (\<lambda>ids. Inr (if ids = [] then None else Some (unique_ids ids))) (json_strings items)
                | Some _ \<Rightarrow> None)))"

record CycleFulfillmentConfig =
  cyAccountIDs :: "string list"
  cyStatementDay :: int
  cyBudget :: f64

definition statement_day_ok :: "f64 \<Rightarrow> bool" where
  "statement_day_ok day \<longleftrightarrow>
     (case day of FNum r \<Rightarrow> r = of_int \<lfloor>r\<rfloor> \<and> 1 \<le> r \<and> r \<le> 28 | _ \<Rightarrow> False)"

definition ValidateCycleFulfillmentConfig :: "json \<Rightarrow> issue_message option" where
  "ValidateCycleFulfillmentConfig config =
     (let no_account = Some (Text ''Cycle fulfillment must list at least one account.'');
          no_day = Some (Text ''Cycle fulfillment statementDay must be an integer between 1 and 28.'')
      in case asObject config of
           None \<Rightarrow> Some (Text ''Cycle fulfillment configuration must be an object.'')
         | Some obj \<Rightarrow>
             (case stringArrayField obj ''accountIds'' of
                None \<Rightarrow> no_account
              | Some ids \<Rightarrow>
                  if ids = [] \<or> list_ex (\<lambda>i. TrimSpace i = '''') ids then no_account
                  else
                    (case as_number (map_of obj ''statementDay'') of
                       None \<Rightarrow> no_day
                     | Some day \<Rightarrow>
                         if \<not> statement_day_ok day then no_day
                         else
                           (case numberField obj ''budget'' of
                              None \<Rightarrow> Some (Text ''Cycle fulfillment budget must be a finite number at or above zero.'')
                            | Some budget \<Rightarrow>
                                if budget < 0
                                then Some (Text ''Cycle fulfillment budget must be a finite number at or above zero.'')
                                else None))))"

definition ParseCycleFulfillmentConfig ::
  "(f64 \<Rightarrow> int) \<Rightarrow> json \<Rightarrow> (issue_message + CycleFulfillmentConfig) option" where
  "ParseCycleFulfillmentConfig overflow config =
     (case ValidateCycleFulfillmentConfig config of
        Some e \<Rightarrow> Some (Inl e)
      | None \<Rightarrow>
          map_option (\<lambda>obj. Inr
            \<lparr>cyAccountIDs = unique_ids (case stringArrayField obj ''accountIds'' of None \<Rightarrow> [] | Some ids \<Rightarrow> ids),
             cyStatementDay = float_to_int overflow (number_or_zero obj ''statementDay''),
             cyBudget = number_or_zero obj ''budget''\<rparr>) (asObject config))"

definition validatePlannedPurchasesConfig :: "json \<Rightarrow> issue_message option" where
  "validatePlannedPurchasesConfig config =
     (if asObject config = Some [] then None else Some (Text ''Planned purchases config must be an empty object.''))"

definition whatIfAllowedKeys :: "string list" where
  "whatIfAllowedKeys =
     [''addedAccounts'', ''addedTransactions'', ''addedSchedules'', ''disabledAccountIds'', ''disabledTransactionIds'',
      ''disabledScheduleIds'']"

definition what_if_problem :: "string \<Rightarrow> string \<Rightarrow> issue_message" where
  "what_if_problem key problem = QuotedText ''What-if field '' key problem"

fun what_if_item_error :: "string \<Rightarrow> json \<Rightarrow> issue_message option" where
  "what_if_item_error key (JObj item) =
     (case map_of item ''id'' of
        None \<Rightarrow> Some (what_if_problem key '' items must include an id.'')
      | Some (JStr i) \<Rightarrow>
          if i = '''' then Some (what_if_problem key '' items must include a non-empty id.'') else None
      | Some _ \<Rightarrow> Some (what_if_problem key '' items must include a non-empty id.''))"
| "what_if_item_error key _ = Some (what_if_problem key '' must be an array of objects.'')"

definition what_if_field_error :: "string \<times> json \<Rightarrow> issue_message option" where
  "what_if_field_error = (\<lambda>(key, v).
     if key \<notin> set whatIfAllowedKeys then Some (what_if_problem key '' is not supported.'')
     else if v = JNull then None
     else
       (case v of
          JArr items \<Rightarrow>
            if key \<in> {''disabledAccountIds'', ''disabledTransactionIds'', ''disabledScheduleIds''}
            then
              (if list_all (\<lambda>item. case item of JStr s \<Rightarrow> s \<noteq> '''' | _ \<Rightarrow> False) items then None
               else Some (what_if_problem key '' must be an array of non-empty IDs.''))
            else first_error (what_if_item_error key) items
        | _ \<Rightarrow> Some (what_if_problem key '' must be an array.'')))"

definition validateWhatIfConfig :: "json \<Rightarrow> issue_message option" where
  "validateWhatIfConfig config =
     (case asObject config of
        None \<Rightarrow> Some (Text ''What-if config must be an object.'')
      | Some obj \<Rightarrow> first_error what_if_field_error obj)"

section \<open>The tables\<close>

definition evaluation_tables :: "EvaluationTables \<Rightarrow> (string \<times> EvaluationInstance list) list" where
  "evaluation_tables t =
     [(''financialIndependence'', etFinancialIndependence t), (''netWorthThreshold'', etNetWorthThreshold t),
      (''accountBalance'', etAccountBalance t), (''transactionFulfillment'', etTransactionFulfillment t),
      (''cycleFulfillment'', etCycleFulfillment t), (''plannedPurchases'', etPlannedPurchases t),
      (''whatIf'', etWhatIf t)]"

text \<open>\<open>ValidateConfig\<close> of the definition registered for a type.\<close>

definition registered_validator :: "string \<Rightarrow> (json \<Rightarrow> issue_message option) option" where
  "registered_validator evaluationType =
     map_of
       [(''financialIndependence'', ValidateFIPlanConfig), (''netWorthThreshold'', ValidateThresholdConfig),
        (''accountBalance'', ValidateAccountBalanceConfig), (''transactionFulfillment'', ValidateFulfillmentConfig),
        (''cycleFulfillment'', ValidateCycleFulfillmentConfig), (''plannedPurchases'', validatePlannedPurchasesConfig),
        (''whatIf'', validateWhatIfConfig)] evaluationType"

end
