(* ===== verification/Validation.thy ===== *)
theory Validation
  imports Evaluation_Config Loans Purchases
begin

text \<open>
  The validation of a financial model: \<open>validation.go\<close>, \<open>purchase_validation.go\<close> and the checks of
  \<open>payment_terms.go\<close>, under \<open>backend/internal/domain\<close>.  Each function returns the issues it
  appends, in order.  \<open>None\<close> means that a call does not return: \<open>ValidateAmountDescriptor\<close> and
  \<open>ruleOccursOn\<close> are the only ones that could.
\<close>

section \<open>Issues\<close>

definition warning_issue :: "string \<Rightarrow> issue_message \<Rightarrow> path_part list \<Rightarrow> ModelValidationIssue" where
  "warning_issue code message path =
     \<lparr>viSeverity = SeverityWarning, viCode = code, viMessage = message, viPath = path\<rparr>"

definition quoted :: "string \<Rightarrow> string" where
  "quoted s = CHR 0x27 # s @ [CHR 0x27]"

text \<open>\<open>strconv.FormatInt(n, 10)\<close>, which \<open>%d\<close> prints too.\<close>

definition itoa :: "int \<Rightarrow> string" where
  "itoa n = (if n < 0 then CHR ''-'' # dec (nat (- n)) else dec (nat n))"

definition row_path :: "string \<Rightarrow> nat \<Rightarrow> path_part list" where
  "row_path table index = [PathKey table, PathIndex index]"

definition pathWithField :: "path_part list \<Rightarrow> string \<Rightarrow> path_part list" where
  "pathWithField path field = path @ [PathKey field]"

section \<open>Identities\<close>

definition unique_id :: "string \<Rightarrow> string \<Rightarrow> nat \<Rightarrow> string \<Rightarrow> nat gomap \<Rightarrow> ModelValidationIssue list \<times> nat gomap" where
  "unique_id codePrefix table index i firstSeen =
     (case Mapping.lookup firstSeen i of
        Some firstRow \<Rightarrow>
          ([error_issue (codePrefix @ ''.duplicate'')
              (Text (''ID '' @ quoted i @ '' is duplicated. First seen on row '' @ itoa (int firstRow) @ ''.''))
              (pathWithField (row_path table index) ''id'')], firstSeen)
      | None \<Rightarrow> ([], Mapping.update i (index + 2) firstSeen))"

definition validateUniqueIDs :: "string list \<Rightarrow> string \<Rightarrow> string \<Rightarrow> ModelValidationIssue list" where
  "validateUniqueIDs ids codePrefix table = fst (scan (unique_id codePrefix table) 0 ids Mapping.empty)"

definition collision :: "string \<Rightarrow> string \<Rightarrow> (string \<Rightarrow> string) \<Rightarrow> nat \<Rightarrow> string \<Rightarrow> bool gomap \<Rightarrow> ModelValidationIssue list \<times> bool gomap" where
  "collision code table message index i ids =
     (if go_index False ids i
      then [error_issue code (Text (message i)) (pathWithField (row_path table index) ''id'')] else [],
      Mapping.update i True ids)"

definition rule_collision :: "nat \<Rightarrow> string \<Rightarrow> bool gomap \<Rightarrow> ModelValidationIssue list \<times> bool gomap" where
  "rule_collision = collision ''rule.id.collision'' ''schedules''
     (\<lambda>i. ''Schedule ID '' @ quoted i @
        '' collides with a transaction ID. Transaction and schedule IDs share one namespace.'')"

definition purchase_collision :: "nat \<Rightarrow> string \<Rightarrow> bool gomap \<Rightarrow> ModelValidationIssue list \<times> bool gomap" where
  "purchase_collision = collision ''plannedPurchase.id.collision'' ''plannedPurchases''
     (\<lambda>i. ''Planned purchase ID '' @ quoted i @
        '' collides with a transaction or schedule ID. IDs must be unique across transactions and purchases.'')"

definition id_set :: "string list \<Rightarrow> bool gomap" where
  "id_set ids = foldl (\<lambda>m i. Mapping.update i True m) Mapping.empty ids"

definition validate_collisions :: "FinancialModel \<Rightarrow> ModelValidationIssue list \<times> bool gomap" where
  "validate_collisions model =
     (let (rules, ids) = scan rule_collision 0 (map scID (fmSchedules model)) (id_set (map trID (fmTransactions model)));
          (purchases, ids) = scan purchase_collision 0 (map ppID (fmPlannedPurchases model)) ids
      in (rules @ purchases, ids))"

definition joinAccountKinds :: string where
  "joinAccountKinds = concat (hd accountKinds # map ((@) '', '') (tl accountKinds))"

definition account_issues :: "bool gomap \<Rightarrow> nat \<Rightarrow> Account \<Rightarrow> ModelValidationIssue list" where
  "account_issues transactionIDs index a =
     (if go_index False transactionIDs (acID a)
      then [error_issue ''account.id.collision''
              (Text (''Account ID '' @ quoted (acID a) @
                 '' collides with a transaction or schedule ID. IDs must be unique across accounts, transactions, and schedules.''))
              (pathWithField (row_path ''accounts'' index) ''id'')] else []) @
     (if acEnabled a \<and> acColor a = None
      then [warning_issue ''account.color.missing''
              (Text (''Enabled account '' @ quoted (acID a) @
                 '' has no chart color. Charts will use a neutral fallback until a color is provided.''))
              (pathWithField (row_path ''accounts'' index) ''color'')] else []) @
     (if \<not> AccountKind_Valid (acKind a)
      then [error_issue ''account.kind.unknown''
              (Text (''Account '' @ quoted (acID a) @ '' has kind '' @ quoted (acKind a) @ ''. Expected one of '' @
                 joinAccountKinds @ ''.''))
              (pathWithField (row_path ''accounts'' index) ''kind'')] else [])"

section \<open>Checkpoints\<close>

definition checkpoint_key :: "Checkpoint \<Rightarrow> string" where
  "checkpoint_key c = ckAccountID c @ CHR 0x00 # itoa (ckObservedAt c)"

definition checkpoint_issues ::
  "bool gomap \<Rightarrow> nat \<Rightarrow> Checkpoint \<Rightarrow> string set \<Rightarrow> ModelValidationIssue list \<times> string set" where
  "checkpoint_issues accountIDs index c keys =
     ((if \<not> go_index False accountIDs (ckAccountID c)
       then [error_issue ''checkpoint.account.missing''
               (Text (''Checkpoint account '' @ quoted (ckAccountID c) @ '' does not exist.''))
               (pathWithField (row_path ''checkpoints'' index) ''AccountId'')] else []) @
      (if ckObservedAt c \<le> 0
       then [error_issue ''checkpoint.observedAt.required''
               (Text (''Checkpoint for '' @ quoted (ckAccountID c) @ '' needs its exact observation time (Unix seconds).''))
               (pathWithField (row_path ''checkpoints'' index) ''observedAt'')] else []) @
      (if checkpoint_key c \<in> keys
       then [error_issue ''checkpoint.account-date.duplicate''
               (Text (''Account '' @ quoted (ckAccountID c) @ '' has more than one checkpoint at the same instant '' @
                  itoa (ckObservedAt c) @ ''.''))
               (row_path ''checkpoints'' index)] else []),
      insert (checkpoint_key c) keys)"

section \<open>Amounts and their dependencies\<close>

definition amount_issues ::
  "AmountReferenceContext \<Rightarrow> string \<Rightarrow> nat \<Rightarrow> string \<times> TransactionAmountResolution \<Rightarrow> string list gomap \<Rightarrow>
     (ModelValidationIssue list \<times> string list gomap) option" where
  "amount_issues references table index entry dependencies =
     (let (i, amount) = entry;
          path = pathWithField (row_path table index) ''amount'';
          volatile =
            (if 1 < CountVolatileRateInputs amount
             then [error_issue ''transaction.amount.multiple_volatile_rates''
                     (Text ''Amounts carry at most one volatile provider input: one transaction shares one pre-sampled annual rate.'')
                     path] else [])
      in case ValidateAmountDescriptor amount (Some references) of
           None \<Rightarrow> None
         | Some (Inl e) \<Rightarrow>
             Some (error_issue ''transaction.amount.invalid'' (AmountErrorText e) path # volatile, dependencies)
         | Some (Inr deps) \<Rightarrow> Some (volatile, Mapping.update i deps dependencies))"

definition transaction_amounts :: "FinancialModel \<Rightarrow> (string \<times> TransactionAmountResolution) list" where
  "transaction_amounts model = map (\<lambda>t. (trID t, trAmount t)) (fmTransactions model)"

definition rule_amounts :: "FinancialModel \<Rightarrow> (string \<times> TransactionAmountResolution) list" where
  "rule_amounts model = map (\<lambda>r. (scID r, scAmount r)) (fmSchedules model)"

definition validateTransactionAmounts ::
  "FinancialModel \<Rightarrow> bool gomap \<Rightarrow> bool gomap \<Rightarrow> (ModelValidationIssue list \<times> string list gomap) option" where
  "validateTransactionAmounts model accountIDs transactionIDs =
     (let references = \<lparr>afAccountIDs = accountIDs, afTransactionIDs = transactionIDs\<rparr>
      in case scan_may (amount_issues references ''transactions'') 0 (transaction_amounts model) Mapping.empty of
           None \<Rightarrow> None
         | Some (transactions, dependencies) \<Rightarrow>
             map_option (\<lambda>(rules, dependencies). (transactions @ rules, dependencies))
               (scan_may (amount_issues references ''schedules'') 0 (rule_amounts model) dependencies))"

text \<open>
  The depth-first search for a cycle: the nodes on the stack, the finished ones, and those of the
  finished ones that were found on or before a cycle.  A unit of fuel is a level of the recursion;
  \<open>search_fuel\<close> is always enough (\<open>visit_correct\<close> in \<open>Validation_Laws\<close>).
\<close>

record search =
  srVisiting :: "string set"
  srVisited :: "string set"
  srCyclic :: "string set"

definition finish_visit :: "string \<Rightarrow> bool \<Rightarrow> search \<Rightarrow> search" where
  "finish_visit i hasCycle s =
     s\<lparr>srVisiting := srVisiting s - {i}, srVisited := insert i (srVisited s),
       srCyclic := (if hasCycle then insert i (srCyclic s) else srCyclic s)\<rparr>"

function visit :: "nat \<Rightarrow> string list gomap \<Rightarrow> string \<Rightarrow> search \<Rightarrow> (bool \<times> search) option"
  and visit_all :: "nat \<Rightarrow> string list gomap \<Rightarrow> string \<Rightarrow> string list \<Rightarrow> search \<Rightarrow> (bool \<times> search) option"
where
  "visit 0 dependencies i s = None"
| "visit (Suc n) dependencies i s =
     (if i \<in> srVisiting s then Some (True, s)
      else if i \<in> srVisited s then Some (i \<in> srCyclic s, s)
      else
        (case visit_all n dependencies i (go_index [] dependencies i) (s\<lparr>srVisiting := insert i (srVisiting s)\<rparr>) of
           None \<Rightarrow> None
         | Some (hasCycle, s) \<Rightarrow> Some (hasCycle, finish_visit i hasCycle s)))"
| "visit_all n dependencies i [] s = Some (False, s)"
| "visit_all n dependencies i (d # ds) s =
     (case (if d = i then Some (True, s) else visit n dependencies d s) of
        None \<Rightarrow> None
      | Some (found, s) \<Rightarrow>
          map_option (\<lambda>(hasCycle, s). (found \<or> hasCycle, s)) (visit_all n dependencies i ds s))"
  by pat_completeness auto
termination
  by (relation "measures [case_sum (\<lambda>(n, _). n) (\<lambda>(n, _). n),
        case_sum (\<lambda>_. 0) (\<lambda>(n, dependencies, i, ds, s). length ds + 1)]") auto

definition search_fuel :: "string list gomap \<Rightarrow> nat" where
  "search_fuel dependencies = card (Mapping.keys dependencies) + 1"

definition circular_error :: "string \<Rightarrow> nat \<Rightarrow> string \<Rightarrow> ModelValidationIssue" where
  "circular_error table index i =
     error_issue ''transaction.amount.circular''
       (Text (''Amount resolution for '' @ quoted i @ '' creates a circular transaction dependency.''))
       (pathWithField (row_path table index) ''amount'')"

definition circular_issue ::
  "string list gomap \<Rightarrow> string \<Rightarrow> nat \<Rightarrow> string \<Rightarrow> search \<Rightarrow> (ModelValidationIssue list \<times> search) option" where
  "circular_issue dependencies table index i s =
     map_option (\<lambda>(hasCycle, s). (if hasCycle then [circular_error table index i] else [], s))
       (visit (search_fuel dependencies) dependencies i s)"

definition validateTransactionDependencies ::
  "FinancialModel \<Rightarrow> string list gomap \<Rightarrow> ModelValidationIssue list option" where
  "validateTransactionDependencies model dependencies =
     (case scan_may (circular_issue dependencies ''transactions'') 0 (map trID (fmTransactions model))
         \<lparr>srVisiting = {}, srVisited = {}, srCyclic = {}\<rparr> of
        None \<Rightarrow> None
      | Some (transactions, s) \<Rightarrow>
          map_option (\<lambda>(rules, _). transactions @ rules)
            (scan_may (circular_issue dependencies ''schedules'') 0 (map scID (fmSchedules model)) s))"

section \<open>Planned purchases\<close>

definition purchase_issues :: "bool gomap \<Rightarrow> nat \<Rightarrow> PlannedPurchase \<Rightarrow> ModelValidationIssue list" where
  "purchase_issues accountIDs index p =
     (let field = pathWithField (row_path ''plannedPurchases'' index)
      in (if TrimSpace (ppName p) = ''''
          then [error_issue ''purchase.name.empty'' (Text ''A planned purchase needs a name.'') (field ''name'')] else []) @
         (if ppPriority p < 0
          then [error_issue ''purchase.priority.invalid'' (Text ''Purchase priority must be nonnegative.'') (field ''priority'')]
          else []) @
         (case validatePlannedPurchaseCost (ppCost p) (ppID p) of
            Inl _ \<Rightarrow>
              [error_issue ''purchase.cost.invalid''
                 (Text (''Planned purchase '' @ quoted (ppID p) @ '' needs a fixed positive cost.'')) (field ''cost'')]
          | Inr _ \<Rightarrow> []) @
         (if (case ppFundingAccountID p of None \<Rightarrow> True | Some i \<Rightarrow> \<not> go_index False accountIDs i)
          then [error_issue ''purchase.route.invalid'' (Text ''A planned purchase needs a funding account that exists.'')
                  (field ''fundingAccountId'')] else []) @
         (if \<not> IsValidIsoDate (ppEarliestDate p)
          then [error_issue ''purchase.date.invalid''
                  (Text ''Planned purchase earliestDate must be a YYYY-MM-DD calendar date.'') (field ''earliestDate'')]
          else []))"

definition purchase_references :: "FinancialModel \<Rightarrow> string list gomap \<Rightarrow> ModelValidationIssue list" where
  "purchase_references model dependencies =
     concat (map (\<lambda>t. concat (map (\<lambda>d.
         if d \<in> ppID ` set (fmPlannedPurchases model)
         then [error_issue ''purchase.reference.invalid'' (Text ''Amounts cannot depend on a planned purchase.'')
                 [PathKey ''transactions'']] else [])
       (go_index [] dependencies (trID t)))) (ResolvedTransactionTransactions model))"

definition validatePurchases :: "FinancialModel \<Rightarrow> string list gomap \<Rightarrow> ModelValidationIssue list" where
  "validatePurchases model dependencies =
     each (purchase_issues (id_set (map acID (fmAccounts model)))) 0 (fmPlannedPurchases model) @
     purchase_references model dependencies"

section \<open>Routes and schedules\<close>

definition destination_issues ::
  "bool gomap \<Rightarrow> string \<Rightarrow> string \<Rightarrow> path_part list \<Rightarrow> nat \<Rightarrow> string \<Rightarrow> string set \<Rightarrow>
     ModelValidationIssue list \<times> string set" where
  "destination_issues accountIDs code row base index d seen =
     ((if \<not> go_index False accountIDs d
       then [error_issue code (Text (row @ '' destination account '' @ quoted d @ '' does not exist.''))
               (pathWithField base ''destinations'')] else []) @
      (if d \<in> seen
       then [error_issue ''schedule.destinations.duplicate''
               (Text (''Destination account '' @ quoted d @ '' appears more than once.''))
               (pathWithField base ''destinations'')] else []),
      insert d seen)"

definition slice :: "'a list option \<Rightarrow> 'a list" where
  "slice s = (case s of None \<Rightarrow> [] | Some xs \<Rightarrow> xs)"

text \<open>The checks of a route, which transactions and schedules have in common but for their texts.\<close>

definition route_issues ::
  "bool gomap \<Rightarrow> string \<Rightarrow> string \<Rightarrow> string \<Rightarrow> path_part list \<Rightarrow> string option \<Rightarrow> string list option \<Rightarrow>
     ModelValidationIssue list" where
  "route_issues accountIDs kind row rows base source dests =
     (case source of
        None \<Rightarrow> []
      | Some a \<Rightarrow>
          if go_index False accountIDs a then []
          else [error_issue (kind @ ''.source.missing'') (Text (row @ '' source account '' @ quoted a @ '' does not exist.''))
                  (pathWithField base ''sourceAccountId'')]) @
     fst (scan (destination_issues accountIDs (kind @ ''.destination.missing'') row base) 0 (slice dests) {}) @
     (if source = None \<and> slice dests = []
      then [error_issue (kind @ ''.accounts.empty'') (Text (rows @ '' must set sourceAccountId, destinations, or both.'')) base]
      else []) @
     (case source of
        None \<Rightarrow> []
      | Some a \<Rightarrow>
          if a \<in> set (slice dests)
          then [error_issue (kind @ ''.accounts.same'') (Text (row @ '' sourceAccountId must not appear in destinations.'')) base]
          else [])"

definition transaction_issues :: "bool gomap \<Rightarrow> nat \<Rightarrow> Transaction \<Rightarrow> ModelValidationIssue list" where
  "transaction_issues accountIDs index t =
     (let base = row_path ''transactions'' index
      in route_issues accountIDs ''transaction'' ''Transaction'' ''Transactions'' base (trSourceAccountID t) (trDestinations t) @
         (if trPostedTime t \<le> 0 \<and> \<not> trPending t \<and> \<not> trVoid t
          then [error_issue ''transaction.postedTime.invalid''
                  (Text (''Transaction '' @ quoted (trID t) @ '' posted time must be positive Unix seconds.''))
                  (pathWithField base ''postedTime'')] else []) @
         (if trTransactionTime t \<le> 0
          then [error_issue ''transaction.transactionTime.invalid''
                  (Text (''Transaction '' @ quoted (trID t) @ '' transaction time must be positive Unix seconds.''))
                  (pathWithField base ''transactionTime'')] else []))"

definition validateTransactionRoutes :: "Transaction list \<Rightarrow> bool gomap \<Rightarrow> ModelValidationIssue list" where
  "validateTransactionRoutes transactions accountIDs = each (transaction_issues accountIDs) 0 transactions"

definition schedule_issues :: "bool gomap \<Rightarrow> nat \<Rightarrow> Schedule \<Rightarrow> ModelValidationIssue list" where
  "schedule_issues accountIDs index r =
     (let base = row_path ''schedules'' index
      in route_issues accountIDs ''schedule'' ''Schedule'' ''Schedules'' base (scSourceAccountID r) (scDestinations r) @
         (case scFrequency r of
            FrequencyUnknown f \<Rightarrow>
              [error_issue ''schedule.frequency.invalid''
                 (Text (''Schedule '' @ quoted (scID r) @ '' has frequency '' @ quoted f @
                    ''. Expected daily, weekly, monthly, quarterly, or annual.''))
                 (pathWithField base ''frequency'')]
          | _ \<Rightarrow> []) @
         (if \<not> IsValidIsoDate (scStartDate r)
          then [error_issue ''schedule.start-date.format''
                  (Text (''Schedule '' @ quoted (scID r) @ '' startDate must be a YYYY-MM-DD calendar date.''))
                  (pathWithField base ''startDate'')] else []) @
         (case scEndDate r of
            None \<Rightarrow> []
          | Some e \<Rightarrow>
              (if \<not> IsValidIsoDate e
               then [error_issue ''schedule.end-date.format''
                       (Text (''Schedule '' @ quoted (scID r) @ '' endDate must be a YYYY-MM-DD calendar date.''))
                       (pathWithField base ''endDate'')] else []) @
              (if IsValidIsoDate (scStartDate r) \<and> IsValidIsoDate e \<and> CompareIsoDates e (scStartDate r) < 0
               then [error_issue ''schedule.window.invalid''
                       (Text ''Schedule endDate must be the same as or later than startDate.'')
                       (pathWithField base ''endDate'')] else [])))"

definition validateSchedules :: "FinancialModel \<Rightarrow> bool gomap \<Rightarrow> ModelValidationIssue list" where
  "validateSchedules model accountIDs = each (schedule_issues accountIDs) 0 (fmSchedules model)"

section \<open>Claims\<close>

definition claim_key :: "TransactionClaim \<Rightarrow> string" where
  "claim_key c = clScheduleID c @ CHR 0x00 # clOccurrenceDate c"

definition claim_issues ::
  "Schedule gomap \<Rightarrow> nat \<Rightarrow> Transaction \<Rightarrow> string set \<Rightarrow> (ModelValidationIssue list \<times> string set) option" where
  "claim_issues rulesByID index t claims =
     (case trClaim t of
        None \<Rightarrow> Some ([], claims)
      | Some claim \<Rightarrow>
          let base = row_path ''transactions'' index @ [PathKey ''claim''];
              date = clOccurrenceDate claim;
              found = (\<lambda>code message path. Some ([error_issue code (Text message) path], claims))
          in case Mapping.lookup rulesByID (clScheduleID claim) of
               None \<Rightarrow>
                 found ''transaction.claim.schedule.missing''
                   (''Transaction '' @ quoted (trID t) @ '' claims schedule '' @ quoted (clScheduleID claim) @
                      '', which does not exist.'')
                   (base @ [PathKey ''scheduleId''])
             | Some rule \<Rightarrow>
                 if \<not> IsValidIsoDate date
                 then found ''transaction.claim.date.format''
                   (''Transaction '' @ quoted (trID t) @ '' claim occurrenceDate must be a YYYY-MM-DD calendar date.'')
                   (base @ [PathKey ''occurrenceDate''])
                 else if \<not> IsValidIsoDate (scStartDate rule) then Some ([], claims)
                 else if CompareIsoDates date (scStartDate rule) < 0
                 then found ''transaction.claim.date.range''
                   (''Transaction '' @ quoted (trID t) @ '' claims '' @ date @ '', which is before schedule '' @
                      quoted (scID rule) @ '' starts.'')
                   (base @ [PathKey ''occurrenceDate''])
                 else
                   (case ruleOccursOn rule date of
                      None \<Rightarrow> None
                    | Some False \<Rightarrow>
                        found ''transaction.claim.date.unscheduled''
                          (''Transaction '' @ quoted (trID t) @ '' claims '' @ date @
                             '', which is not a scheduled occurrence of schedule '' @ quoted (scID rule) @ ''.'')
                          (base @ [PathKey ''occurrenceDate''])
                    | Some True \<Rightarrow>
                        if claim_key claim \<in> claims
                        then found ''transaction.claim.duplicate''
                          (''Schedule '' @ quoted (clScheduleID claim) @ '' occurrence on '' @ date @
                             '' is claimed more than once.'') base
                        else Some ([], insert (claim_key claim) claims)))"

definition validateTransactionClaims :: "FinancialModel \<Rightarrow> ModelValidationIssue list option" where
  "validateTransactionClaims model =
     map_option fst (scan_may (claim_issues (schedule_index (fmSchedules model))) 0 (fmTransactions model) {})"

section \<open>Bounds and payment terms\<close>

definition bounds_issues :: "nat \<Rightarrow> Account \<Rightarrow> ModelValidationIssue list" where
  "bounds_issues index a =
     (if MaxBalanceValue a < MinBalanceValue a
      then [error_issue ''account.balance.bounds'' (BoundsText (MinBalanceValue a) (MaxBalanceValue a))
              (row_path ''accounts'' index)] else [])"

definition validateAccountBounds :: "Account list \<Rightarrow> ModelValidationIssue list" where
  "validateAccountBounds accounts = each bounds_issues 0 accounts"

definition term_fields :: "Account gomap \<Rightarrow> nat \<Rightarrow> PaymentTerms \<Rightarrow> ModelValidationIssue list" where
  "term_fields accountsByID index terms =
     (let issue = (\<lambda>code message field. [error_issue code (Text message) (pathWithField (row_path ''paymentTerms'' index) field)]);
          for_account = ''Payment terms for '' @ quoted (ptAccountID terms)
      in (if map_option acKind (Mapping.lookup accountsByID (ptAccountID terms)) \<noteq> Some ''debt''
          then issue ''terms.account.kind''
            (''Payment terms reference account '' @ quoted (ptAccountID terms) @ '', which is not a debt account.'') ''accountId''
          else []) @
         (if ptMinimumFixed terms < 0 \<or> isNonFinite (ptMinimumFixed terms)
          then issue ''terms.minimum.invalid'' (for_account @ '' need a fixed minimum at or above zero.'') ''minimumFixed''
          else []) @
         (case ptMinimumPercent terms of
            None \<Rightarrow> []
          | Some percent \<Rightarrow>
              if percent < 0 \<or> f64_of_rat 1 < percent \<or> isNonFinite percent
              then issue ''terms.minimum.invalid'' (for_account @ '' need a percent minimum between 0 and 1.'') ''minimumPercent''
              else []) @
         (if ptDueDay terms < 1 \<or> 28 < ptDueDay terms
          then issue ''terms.dueDay.invalid'' (for_account @ '' need a due day between 1 and 28.'') ''dueDay''
          else []) @
         (case ptStatementDay terms of
            None \<Rightarrow> []
          | Some day \<Rightarrow>
              if day < 1 \<or> 28 < day
              then issue ''terms.statementDay.invalid'' (for_account @ '' need a statement day between 1 and 28.'') ''statementDay''
              else []))"

definition term_issues ::
  "bool gomap \<Rightarrow> Account gomap \<Rightarrow> nat \<Rightarrow> PaymentTerms \<Rightarrow> string set \<Rightarrow> ModelValidationIssue list \<times> string set" where
  "term_issues accountIDs accountsByID index terms seen =
     (let i = ptAccountID terms; path = pathWithField (row_path ''paymentTerms'' index) ''accountId''
      in if i \<in> seen
         then ([error_issue ''terms.account.duplicate''
                  (Text (''Account '' @ quoted i @ '' has more than one payment-terms row.'')) path], seen)
         else if \<not> go_index False accountIDs i
         then ([error_issue ''terms.account.missing''
                  (Text (''Payment terms reference account '' @ quoted i @ '', which does not exist.'')) path], insert i seen)
         else (term_fields accountsByID index terms, insert i seen))"

definition validatePaymentTerms :: "FinancialModel \<Rightarrow> bool gomap \<Rightarrow> ModelValidationIssue list" where
  "validatePaymentTerms model accountIDs =
     fst (scan (term_issues accountIDs (accountIndex (fmAccounts model))) 0 (fmPaymentTerms model) {})"

definition covered_accounts :: "Schedule list \<Rightarrow> string set" where
  "covered_accounts rules = set (concat (map (\<lambda>r. slice (scDestinations r)) (filter scEnabled rules)))"

definition coverage_issues :: "string set \<Rightarrow> nat \<Rightarrow> PaymentTerms \<Rightarrow> ModelValidationIssue list" where
  "coverage_issues covered index terms =
     (if ptAccountID terms \<in> covered then []
      else [warning_issue ''terms.payment.missing''
              (Text (''Payment terms for '' @ quoted (ptAccountID terms) @ '' have no enabled payment behind them.''))
              (pathWithField (row_path ''paymentTerms'' index) ''accountId'')])"

definition validatePaymentTermsCoverage :: "FinancialModel \<Rightarrow> ModelValidationIssue list" where
  "validatePaymentTermsCoverage model =
     each (coverage_issues (covered_accounts (fmSchedules model))) 0 (fmPaymentTerms model)"

section \<open>Evaluations\<close>

definition instance_id_issues ::
  "nat \<Rightarrow> string \<times> string \<Rightarrow> string set \<Rightarrow> ModelValidationIssue list \<times> string set" where
  "instance_id_issues index entry seen =
     (let (evaluationType, i) = entry
      in if i \<in> seen
         then ([error_issue ''evaluation.instanceId.duplicate''
                  (Text (''ID '' @ quoted i @ '' is duplicated across behavior configuration files.''))
                  [PathKey ''evaluations'', PathKey evaluationType]], seen)
         else ([], insert i seen))"

definition validateEvaluationInstanceIDs :: "FinancialModel \<Rightarrow> ModelValidationIssue list" where
  "validateEvaluationInstanceIDs model =
     fst (scan instance_id_issues 0
       (concat (map (\<lambda>(evaluationType, rows). map (\<lambda>row. (evaluationType, evInstanceID row)) rows)
          (evaluation_tables (fmEvaluations model)))) {})"

definition config_issues :: "string \<Rightarrow> (json \<Rightarrow> issue_message option) \<Rightarrow> nat \<Rightarrow> EvaluationInstance \<Rightarrow> ModelValidationIssue list" where
  "config_issues evaluationType validate index row =
     (case validate (evConfig row) of
        None \<Rightarrow> []
      | Some message \<Rightarrow>
          [error_issue ''evaluation.config.invalid'' message
             [PathKey ''evaluations'', PathKey evaluationType, PathIndex index]])"

definition validateEvaluationConfigs :: "FinancialModel \<Rightarrow> ModelValidationIssue list" where
  "validateEvaluationConfigs model =
     concat (map (\<lambda>(evaluationType, rows).
         case registered_validator evaluationType of
           None \<Rightarrow> []
         | Some validate \<Rightarrow> each (config_issues evaluationType validate) 0 rows)
       (evaluation_tables (fmEvaluations model)))"

definition reference_issue :: "string \<Rightarrow> string \<Rightarrow> string \<Rightarrow> string \<Rightarrow> nat \<Rightarrow> EvaluationInstance \<Rightarrow> string \<Rightarrow> ModelValidationIssue" where
  "reference_issue code kind table field index row i =
     error_issue code
       (Text (kind @ '' evaluation '' @ quoted (evInstanceID row) @ '' references account '' @ quoted i @ '', which does not exist.''))
       [PathKey ''evaluations'', PathKey table, PathIndex index, PathKey ''config'', PathKey field]"

definition balance_reference ::
  "bool gomap \<Rightarrow> nat \<Rightarrow> EvaluationInstance \<Rightarrow> unit \<Rightarrow> (ModelValidationIssue list \<times> unit) option" where
  "balance_reference accountIDs index row s =
     map_option (\<lambda>parsed.
         (case parsed of
            Inl _ \<Rightarrow> []
          | Inr config \<Rightarrow>
              if go_index False accountIDs (abAccountID config) then []
              else [reference_issue ''evaluation.accountBalance.accountId.invalid'' ''Account balance'' ''accountBalance'' ''accountId''
                      index row (abAccountID config)], s))
       (ParseAccountBalanceConfig (evConfig row))"

definition cycle_references ::
  "(f64 \<Rightarrow> int) \<Rightarrow> bool gomap \<Rightarrow> nat \<Rightarrow> EvaluationInstance \<Rightarrow> unit \<Rightarrow> (ModelValidationIssue list \<times> unit) option" where
  "cycle_references overflow accountIDs index row s =
     map_option (\<lambda>parsed.
         (case parsed of
            Inl _ \<Rightarrow> []
          | Inr config \<Rightarrow>
              map (reference_issue ''evaluation.cycleFulfillment.accountId.invalid'' ''Cycle fulfillment'' ''cycleFulfillment''
                     ''accountIds'' index row)
                (filter (\<lambda>i. \<not> go_index False accountIDs i) (cyAccountIDs config)), s))
       (ParseCycleFulfillmentConfig overflow (evConfig row))"

definition validateEvaluationAccountReferences ::
  "(f64 \<Rightarrow> int) \<Rightarrow> FinancialModel \<Rightarrow> bool gomap \<Rightarrow> ModelValidationIssue list option" where
  "validateEvaluationAccountReferences overflow model accountIDs =
     do {
       (balances, _) \<leftarrow> scan_may (balance_reference accountIDs) 0 (etAccountBalance (fmEvaluations model)) ();
       (cycles, _) \<leftarrow> scan_may (cycle_references overflow accountIDs) 0 (etCycleFulfillment (fmEvaluations model)) ();
       Some (balances @ cycles)
     }"

section \<open>The whole model\<close>

definition account_ids :: "FinancialModel \<Rightarrow> bool gomap" where
  "account_ids model = id_set (map acID (fmAccounts model))"

definition validateModel :: "(f64 \<Rightarrow> int) \<Rightarrow> FinancialModel \<Rightarrow> bool \<Rightarrow> ModelValidationIssue list option" where
  "validateModel overflow model includeEvaluation =
     (let accountIDs = account_ids model;
          (collisions, transactionIDs) = validate_collisions model;
          identities =
            validateUniqueIDs (map acID (fmAccounts model)) ''account.id'' ''accounts'' @
            validateUniqueIDs (map trID (fmTransactions model)) ''transaction.id'' ''transactions'' @
            validateUniqueIDs (map scID (fmSchedules model)) ''rule.id'' ''schedules'' @
            validateUniqueIDs (map ppID (fmPlannedPurchases model)) ''plannedPurchase.id'' ''plannedPurchases'' @
            (if includeEvaluation then validateEvaluationInstanceIDs model else []) @
            collisions @
            each (account_issues transactionIDs) 0 (fmAccounts model) @
            fst (scan (checkpoint_issues accountIDs) 0 (fmCheckpoints model) {})
      in do {
        (amounts, dependencies) \<leftarrow> validateTransactionAmounts model accountIDs transactionIDs;
        circular \<leftarrow> validateTransactionDependencies model dependencies;
        claims \<leftarrow> validateTransactionClaims model;
        references \<leftarrow>
          (if includeEvaluation
           then map_option ((@) (validateEvaluationConfigs model)) (validateEvaluationAccountReferences overflow model accountIDs)
           else Some []);
        Some (identities @ amounts @ validatePurchases model dependencies @ circular @
          validateTransactionRoutes (fmTransactions model) accountIDs @
          validateSchedules model accountIDs @ claims @ validateAccountBounds (fmAccounts model) @
          references @
          validatePaymentTerms model accountIDs @ validatePaymentTermsCoverage model)
      })"

definition ValidateFinancialModel :: "(f64 \<Rightarrow> int) \<Rightarrow> FinancialModel \<Rightarrow> ModelValidationIssue list option" where
  "ValidateFinancialModel overflow model =
     map_option (\<lambda>issues. issues @ validateAccountDisplays model) (validateModel overflow model True)"

definition ValidateFinanceModel :: "(f64 \<Rightarrow> int) \<Rightarrow> FinancialModel \<Rightarrow> ModelValidationIssue list option" where
  "ValidateFinanceModel overflow model =
     map_option (\<lambda>issues. issues @ validateAccountDisplays model) (validateModel overflow model False)"

definition EvaluationReferenceIssues :: "(f64 \<Rightarrow> int) \<Rightarrow> FinancialModel \<Rightarrow> ModelValidationIssue list option" where
  "EvaluationReferenceIssues overflow model =
     validateEvaluationAccountReferences overflow model (account_ids model)"

text \<open>\<open>issue.Code + "\\x00" + issue.Message\<close>; no code holds a NUL byte, and the messages compared are texts, so the pair
  has the same equality.\<close>

definition referenceIssueKey :: "ModelValidationIssue \<Rightarrow> string \<times> issue_message" where
  "referenceIssueKey issue = (viCode issue, viMessage issue)"

definition is_error :: "ModelValidationIssue \<Rightarrow> bool" where
  "is_error issue \<longleftrightarrow> viSeverity issue = SeverityError"

definition ValidateFinanceWriteChange ::
  "(f64 \<Rightarrow> int) \<Rightarrow> ModelValidationIssue list \<Rightarrow> FinancialModel \<Rightarrow> ModelValidationIssue list option" where
  "ValidateFinanceWriteChange overflow storedReferences candidate =
     do {
       issues \<leftarrow> ValidateFinanceModel overflow candidate;
       references \<leftarrow> EvaluationReferenceIssues overflow candidate;
       let known = referenceIssueKey ` set (filter is_error storedReferences);
       Some (issues @ filter (\<lambda>issue. is_error issue \<and> referenceIssueKey issue \<notin> known) references)
     }"

definition SummarizeValidationIssues ::
  "ModelValidationIssue list \<Rightarrow> ModelValidationIssue list \<times> ModelValidationIssue list \<times> bool" where
  "SummarizeValidationIssues issues =
     (let errors = filter is_error issues
      in (errors, filter (\<lambda>issue. viSeverity issue = SeverityWarning) issues, errors = []))"

end
