(* ===== verification/Validation_Laws.thy ===== *)
theory Validation_Laws
  imports Validation
begin

text \<open>
  The cycle search of the validator: with the fuel it is given it always returns, and it answers
  whether a cycle of dependencies can be reached.
\<close>

section \<open>The dependency graph\<close>

definition depends :: "string list gomap \<Rightarrow> (string \<times> string) set" where
  "depends dependencies = {(i, d). d \<in> set (go_index [] dependencies i)}"

text \<open>A row whose amount can never be resolved: its dependencies lead into a cycle.\<close>

definition reaches_cycle :: "string list gomap \<Rightarrow> string \<Rightarrow> bool" where
  "reaches_cycle dependencies i \<longleftrightarrow> (\<exists>c. (i, c) \<in> (depends dependencies)\<^sup>* \<and> (c, c) \<in> (depends dependencies)\<^sup>+)"

text \<open>A row that can be resolved after the rows it depends on, whose turn has come before.\<close>

inductive settled :: "string list gomap \<Rightarrow> string \<Rightarrow> bool" for dependencies where
  settled: "(\<And>d. d \<in> set (go_index [] dependencies i) \<Longrightarrow> settled dependencies d) \<Longrightarrow> settled dependencies i"

inductive_cases settledE: "settled dependencies i"

lemma reaches_cycle_step: "(i, d) \<in> depends dependencies \<Longrightarrow> reaches_cycle dependencies d \<Longrightarrow> reaches_cycle dependencies i"
  unfolding reaches_cycle_def by (meson converse_rtrancl_into_rtrancl)

lemma settled_reachable: "(i, d) \<in> (depends dependencies)\<^sup>* \<Longrightarrow> settled dependencies i \<Longrightarrow> settled dependencies d"
  by (induction rule: rtrancl_induct) (auto simp: depends_def elim: settledE)

lemma settled_no_loop: "settled dependencies i \<Longrightarrow> (i, i) \<notin> (depends dependencies)\<^sup>+"
proof (induction rule: settled.induct)
  case (settled i)
  show ?case
  proof
    assume "(i, i) \<in> (depends dependencies)\<^sup>+"
    then obtain d where d: "(i, d) \<in> depends dependencies" "(d, i) \<in> (depends dependencies)\<^sup>*"
      by (meson tranclD)
    then have "(d, d) \<in> (depends dependencies)\<^sup>+" by (rule rtrancl_into_trancl1 [rotated])
    then show False using settled.IH [of d] d(1) by (simp add: depends_def)
  qed
qed

lemma settled_no_cycle: "settled dependencies i \<Longrightarrow> \<not> reaches_cycle dependencies i"
  unfolding reaches_cycle_def using settled_reachable settled_no_loop by metis

section \<open>The search\<close>

text \<open>
  What holds of the finished nodes: those found on a cycle reach one, the others are settled.
\<close>

definition search_ok :: "string list gomap \<Rightarrow> search \<Rightarrow> bool" where
  "search_ok dependencies s \<longleftrightarrow>
     (\<forall>i\<in>srCyclic s. reaches_cycle dependencies i) \<and>
     (\<forall>i\<in>srVisited s - srCyclic s. settled dependencies i)"

lemma search_visiting [simp]: "search_ok dependencies (s\<lparr>srVisiting := X\<rparr>) = search_ok dependencies s"
  by (simp add: search_ok_def)

lemma card_not_visiting:
  assumes "i \<in> Mapping.keys dependencies" "i \<notin> X" "finite (Mapping.keys dependencies)"
  shows "card (Mapping.keys dependencies - insert i X) < card (Mapping.keys dependencies - X)"
  using assms by (intro psubset_card_mono) auto

lemma go_index_keys: "i \<notin> Mapping.keys dependencies \<Longrightarrow> go_index [] dependencies i = []"
  by (simp add: lookup_default_def keys_dom_lookup domIff)

text \<open>
  Every node on the stack leads to the node the search is at, so meeting one again closes a cycle.
\<close>

lemma visit_correct:
  assumes "finite (Mapping.keys dependencies)"
  shows "card (Mapping.keys dependencies - srVisiting s) < n \<Longrightarrow> search_ok dependencies s \<Longrightarrow>
      \<forall>v\<in>srVisiting s. (v, i) \<in> (depends dependencies)\<^sup>+ \<Longrightarrow>
      \<exists>found s'. visit n dependencies i s = Some (found, s') \<and> search_ok dependencies s' \<and> srVisiting s' = srVisiting s \<and>
        (if found then reaches_cycle dependencies i else settled dependencies i)"
    "card (Mapping.keys dependencies - srVisiting s) < n \<or> ds = [] \<Longrightarrow> search_ok dependencies s \<Longrightarrow>
      \<forall>v\<in>srVisiting s. (v, i) \<in> (depends dependencies)\<^sup>* \<Longrightarrow> set ds \<subseteq> set (go_index [] dependencies i) \<Longrightarrow>
      \<exists>found s'. visit_all n dependencies i ds s = Some (found, s') \<and> search_ok dependencies s' \<and> srVisiting s' = srVisiting s \<and>
        (if found then reaches_cycle dependencies i else \<forall>d\<in>set ds. settled dependencies d)"
  using assms
proof (induction n dependencies i s and n dependencies i ds s rule: visit_visit_all.induct)
  case (2 n dependencies i s)
  consider "i \<in> srVisiting s" | "i \<notin> srVisiting s" "i \<in> srVisited s" | "i \<notin> srVisiting s" "i \<notin> srVisited s" by blast
  then show ?case
  proof cases
    case 1
    then have "reaches_cycle dependencies i" using 2 by (auto simp: reaches_cycle_def)
    then show ?thesis using 1 2 by auto
  next
    case 2
    then show ?thesis using "2.prems" by (auto simp: search_ok_def)
  next
    case 3
    let ?s = "s\<lparr>srVisiting := insert i (srVisiting s)\<rparr>"
    have fuel: "card (Mapping.keys dependencies - srVisiting ?s) < n \<or> go_index [] dependencies i = []"
    proof (cases "i \<in> Mapping.keys dependencies")
      case True
      from card_not_visiting [OF this 3(1) "2.prems"(4)] "2.prems"(1) show ?thesis by simp
    qed (simp add: go_index_keys)
    have stack: "\<forall>v\<in>srVisiting ?s. (v, i) \<in> (depends dependencies)\<^sup>*"
      using "2.prems"(3) by (auto intro: trancl_into_rtrancl)
    from "2.IH" [OF 3 fuel _ stack _ "2.prems"(4)] "2.prems"(2)
    obtain found s' where r: "visit_all n dependencies i (go_index [] dependencies i) ?s = Some (found, s')"
      "search_ok dependencies s'" "srVisiting s' = srVisiting ?s"
      "if found then reaches_cycle dependencies i else \<forall>d\<in>set (go_index [] dependencies i). settled dependencies d"
      by auto
    have answer: "if found then reaches_cycle dependencies i else settled dependencies i"
      using r(4) by (auto intro: settled.intros split: if_splits)
    then have "search_ok dependencies (finish_visit i found s')"
      using r(2) by (auto simp: search_ok_def finish_visit_def)
    moreover have "srVisiting (finish_visit i found s') = srVisiting s"
      using r(3) 3(1) by (simp add: finish_visit_def)
    ultimately show ?thesis using answer 3 r(1) by simp
  qed
next
  case (4 n dependencies i d ds s)
  have edge: "(i, d) \<in> depends dependencies" using "4.prems"(4) by (simp add: depends_def)
  have "\<exists>found s'. (if d = i then Some (True, s) else visit n dependencies d s) = Some (found, s') \<and>
      search_ok dependencies s' \<and> srVisiting s' = srVisiting s \<and>
      (if found then reaches_cycle dependencies i else settled dependencies d)"
  proof (cases "d = i")
    case True
    then show ?thesis using edge "4.prems"(2) by (auto simp: reaches_cycle_def)
  next
    case False
    have "\<forall>v\<in>srVisiting s. (v, d) \<in> (depends dependencies)\<^sup>+"
      using "4.prems"(3) edge by (auto intro: rtrancl_into_trancl1)
    with "4.IH"(1) [OF False] "4.prems" show ?thesis
      using reaches_cycle_step [OF edge] False by (fastforce split: if_splits)
  qed
  then obtain found s' where first: "(if d = i then Some (True, s) else visit n dependencies d s) = Some (found, s')"
    "search_ok dependencies s'" "srVisiting s' = srVisiting s"
    "if found then reaches_cycle dependencies i else settled dependencies d" by blast
  have "\<exists>found' s''. visit_all n dependencies i ds s' = Some (found', s'') \<and> search_ok dependencies s'' \<and>
      srVisiting s'' = srVisiting s' \<and>
      (if found' then reaches_cycle dependencies i else \<forall>d\<in>set ds. settled dependencies d)"
    using "4.IH"(2) [OF first(1)] "4.prems" first by simp
  then show ?case using first by (fastforce split: if_splits)
qed auto

lemma visit_answer:
  assumes "finite (Mapping.keys dependencies)" "search_ok dependencies s" "srVisiting s = {}"
  shows "\<exists>s'. visit (search_fuel dependencies) dependencies i s = Some (reaches_cycle dependencies i, s') \<and>
     search_ok dependencies s' \<and> srVisiting s' = {}"
proof -
  obtain found s' where r: "visit (search_fuel dependencies) dependencies i s = Some (found, s')" "search_ok dependencies s'"
    "srVisiting s' = {}" "if found then reaches_cycle dependencies i else settled dependencies i"
    using visit_correct(1) [OF assms(1), of s "search_fuel dependencies" i] assms(2,3) by (auto simp: search_fuel_def)
  then have "found \<longleftrightarrow> reaches_cycle dependencies i"
    using settled_no_cycle by (metis (full_types))
  then show ?thesis using r by simp
qed

definition circular_rows :: "string list gomap \<Rightarrow> string \<Rightarrow> nat \<Rightarrow> string \<Rightarrow> ModelValidationIssue list" where
  "circular_rows dependencies table index i = (if reaches_cycle dependencies i then [circular_error table index i] else [])"

lemma circular_scan:
  assumes "finite (Mapping.keys dependencies)" "search_ok dependencies s" "srVisiting s = {}"
  shows "\<exists>s'. scan_may (circular_issue dependencies table) n ids s = Some (each (circular_rows dependencies table) n ids, s') \<and>
     search_ok dependencies s' \<and> srVisiting s' = {}"
  using assms(2,3)
proof (induction ids arbitrary: n s)
  case (Cons i ids)
  obtain s' where s': "visit (search_fuel dependencies) dependencies i s = Some (reaches_cycle dependencies i, s')"
    "search_ok dependencies s'" "srVisiting s' = {}"
    using visit_answer [OF assms(1) Cons.prems] by blast
  then show ?case
    using Cons.IH [of s' "n + 1"] by (auto simp: circular_issue_def circular_rows_def)
qed simp

lemma dependencies_reported:
  assumes "finite (Mapping.keys dependencies)"
  shows "validateTransactionDependencies model dependencies =
     Some (each (circular_rows dependencies ''transactions'') 0 (map trID (fmTransactions model)) @
       each (circular_rows dependencies ''schedules'') 0 (map scID (fmSchedules model)))"
proof -
  have "search_ok dependencies \<lparr>srVisiting = {}, srVisited = {}, srCyclic = {}\<rparr>" by (simp add: search_ok_def)
  from circular_scan [OF assms this, of "''transactions''" 0 "map trID (fmTransactions model)"]
  show ?thesis
    using circular_scan [OF assms, of _ "''schedules''" 0 "map scID (fmSchedules model)"]
    by (fastforce simp: validateTransactionDependencies_def)
qed

lemma scan_may_finite:
  "scan_may (amount_issues references table) n entries dependencies = Some (out, dependencies') \<Longrightarrow>
     finite (Mapping.keys dependencies) \<Longrightarrow> finite (Mapping.keys dependencies')"
  by (induction entries arbitrary: n dependencies out)
    (fastforce simp: amount_issues_def Let_def split: option.splits sum.splits prod.splits)+

lemma amounts_finite:
  "validateTransactionAmounts model accountIDs transactionIDs = Some (issues, dependencies) \<Longrightarrow>
     finite (Mapping.keys dependencies)"
  unfolding validateTransactionAmounts_def Let_def by (auto split: option.splits dest!: scan_may_finite)

end
