(* ===== verification/Validation_Properties.thy ===== *)
theory Validation_Properties
  imports Validation_Laws Arithmetic_Laws Occurrence_Laws Simulation_Properties
begin

text \<open>
  What the validation of a model means: a model without an error is exactly a well-formed one, and
  the validation itself always returns.
\<close>

section \<open>Errors of a list of issues\<close>

abbreviation clean :: "ModelValidationIssue list \<Rightarrow> bool" where
  "clean issues \<equiv> list_all (\<lambda>issue. \<not> is_error issue) issues"

lemma clean_iff [simp]: "\<not> is_error (warning_issue c m p)" "is_error (error_issue c m p)"
  by (simp_all add: is_error_def warning_issue_def error_issue_def)

lemma clean_if: "clean (if b then [error_issue c m p] else []) \<longleftrightarrow> \<not> b"
  by simp

lemma clean_each:
  assumes "\<And>i x. clean (body i x) \<longleftrightarrow> Q x"
  shows "clean (each body i xs) \<longleftrightarrow> (\<forall>x\<in>set xs. Q x)"
  using assms by (intro each_all) simp

section \<open>Identities\<close>

lemma go_index_update: "go_index x (Mapping.update k v m) j = (if j = k then v else go_index x m j)"
  by (simp add: lookup_default_def lookup_update')

lemma id_set_index: "go_index False (foldl (\<lambda>m i. Mapping.update i True m) m ids) i \<longleftrightarrow> i \<in> set ids \<or> go_index False m i"
  by (induction ids arbitrary: m) (auto simp: go_index_update)

lemma id_set_iff [simp]: "go_index False (id_set ids) i \<longleftrightarrow> i \<in> set ids"
  by (simp add: id_set_def id_set_index lookup_default_empty)

lemma unique_clean: "clean (validateUniqueIDs ids codePrefix table) \<longleftrightarrow> distinct ids"
proof -
  have "clean (fst (scan (unique_id codePrefix table) n ids m)) \<longleftrightarrow> distinct ids \<and> (\<forall>i\<in>set ids. Mapping.lookup m i = None)" for n m
    by (induction ids arbitrary: n m) (auto simp: scan_Cons unique_id_def lookup_update' simp del: scan.simps(2) split: option.splits if_splits)
  from this [of 0 Mapping.empty] show ?thesis by (simp add: validateUniqueIDs_def)
qed

lemma collision_step:
  "snd (collision code table message n i m) = Mapping.update i True m"
  "clean (fst (collision code table message n i m)) \<longleftrightarrow> \<not> go_index False m i"
  by (simp_all add: collision_def)

lemma collision_clean:
  "clean (fst (scan (collision code table message) n ids m)) \<longleftrightarrow> distinct ids \<and> (\<forall>i\<in>set ids. \<not> go_index False m i)"
  by (induction ids arbitrary: n m) (auto simp: scan_Cons collision_step go_index_update simp del: scan.simps(2))

lemma collision_ids:
  "snd (scan (collision code table message) n ids m) = foldl (\<lambda>m i. Mapping.update i True m) m ids"
  by (induction ids arbitrary: n m) (simp_all add: scan_Cons collision_step del: scan.simps(2))

definition payable_ids :: "FinancialModel \<Rightarrow> string list" where
  "payable_ids model =
     map trID (fmTransactions model) @ map scID (fmSchedules model) @ map ppID (fmPlannedPurchases model)"

lemma collisions_clean:
  "clean (fst (validate_collisions model)) \<longleftrightarrow>
     distinct (map scID (fmSchedules model)) \<and> distinct (map ppID (fmPlannedPurchases model)) \<and>
     (\<forall>i\<in>scID ` set (fmSchedules model). i \<notin> trID ` set (fmTransactions model)) \<and>
     (\<forall>i\<in>ppID ` set (fmPlannedPurchases model). i \<notin> trID ` set (fmTransactions model) \<union> scID ` set (fmSchedules model))"
  "snd (validate_collisions model) = id_set (payable_ids model)"
proof -
  let ?scan = "\<lambda>body ids m. scan body 0 ids m"
  let ?base = "id_set (map trID (fmTransactions model))"
  let ?m = "foldl (\<lambda>m i. Mapping.update i True m) ?base (map scID (fmSchedules model))"
  have "snd (scan rule_collision 0 (map scID (fmSchedules model)) ?base) = ?m"
    using collision_ids by (simp only: rule_collision_def)
  then have fst_snd: "fst (validate_collisions model) =
      fst (?scan rule_collision (map scID (fmSchedules model)) ?base) @
      fst (?scan purchase_collision (map ppID (fmPlannedPurchases model)) ?m)"
    "snd (validate_collisions model) = snd (?scan purchase_collision (map ppID (fmPlannedPurchases model)) ?m)"
    unfolding validate_collisions_def Let_def case_prod_beta by simp_all
  have "go_index False ?m i \<longleftrightarrow> i \<in> trID ` set (fmTransactions model) \<union> scID ` set (fmSchedules model)" for i
    by (auto simp: id_set_index)
  then show "clean (fst (validate_collisions model)) \<longleftrightarrow>
     distinct (map scID (fmSchedules model)) \<and> distinct (map ppID (fmPlannedPurchases model)) \<and>
     (\<forall>i\<in>scID ` set (fmSchedules model). i \<notin> trID ` set (fmTransactions model)) \<and>
     (\<forall>i\<in>ppID ` set (fmPlannedPurchases model). i \<notin> trID ` set (fmTransactions model) \<union> scID ` set (fmSchedules model))"
    unfolding fst_snd list_all_append rule_collision_def purchase_collision_def collision_clean by auto
  show "snd (validate_collisions model) = id_set (payable_ids model)"
    unfolding fst_snd purchase_collision_def collision_ids by (simp add: id_set_def payable_ids_def)
qed

section \<open>Observations\<close>

lemma dec_no_nul: "CHR 0x00 \<notin> set (itoa n)"
proof -
  have "CHR 0x00 \<notin> set (dec k)" for k
    using all_digits_dec [of k] by (auto simp: list_all_iff is_digit_iff)
  then show ?thesis by (simp add: itoa_def)
qed

lemma dec_inject: "dec m = dec n \<Longrightarrow> m = n"
  by (metis digits_value_dec of_nat_eq_iff)

lemma itoa_inject: "itoa m = itoa n \<Longrightarrow> m = n"
proof -
  have digit: "hd (dec k) \<noteq> CHR ''-''" for k
    using all_digits_dec [of k] dec_not_Nil [of k] by (cases "dec k") (auto simp: is_digit_iff)
  assume eq: "itoa m = itoa n"
  have "m < 0 \<longleftrightarrow> n < 0"
    using eq digit [of "nat m"] digit [of "nat n"] by (auto simp: itoa_def split: if_splits) (metis list.sel(1))+
  then show ?thesis
    using eq dec_inject [of "nat m" "nat n"] dec_inject [of "nat (- m)" "nat (- n)"] by (simp add: itoa_def split: if_splits)
qed

lemma nul_key_inject:
  assumes "a @ CHR 0x00 # s = b @ CHR 0x00 # t" "CHR 0x00 \<notin> set s" "CHR 0x00 \<notin> set t"
  shows "a = b \<and> s = t"
proof -
  have prefix: "xs = ys \<and> us = vs" if "xs @ CHR 0x00 # us = ys @ CHR 0x00 # vs" "CHR 0x00 \<notin> set xs" "CHR 0x00 \<notin> set ys"
    for xs ys us vs :: string
    using that
  proof (induction xs arbitrary: ys)
    case (Cons x xs)
    then show ?case by (cases ys) auto
  next
    case Nil
    then show ?case by (cases ys) auto
  qed
  have "rev s @ CHR 0x00 # rev a = rev t @ CHR 0x00 # rev b"
    using arg_cong [OF assms(1), of rev] by simp
  from prefix [OF this] show ?thesis using assms(2,3) by simp
qed

lemma checkpoint_key_inject:
  "checkpoint_key c = checkpoint_key d \<longleftrightarrow> (ckAccountID c, ckObservedAt c) = (ckAccountID d, ckObservedAt d)"
  using nul_key_inject [of "ckAccountID c" "itoa (ckObservedAt c)" "ckAccountID d" "itoa (ckObservedAt d)"] dec_no_nul itoa_inject
  by (auto simp: checkpoint_key_def)

lemma checkpoints_clean:
  "clean (fst (scan (checkpoint_issues accountIDs) n checkpoints keys)) \<longleftrightarrow>
     (\<forall>c\<in>set checkpoints. go_index False accountIDs (ckAccountID c) \<and> 0 < ckObservedAt c) \<and>
     distinct (map checkpoint_key checkpoints) \<and> (\<forall>c\<in>set checkpoints. checkpoint_key c \<notin> keys)"
proof (induction checkpoints arbitrary: n keys)
  case (Cons c checkpoints)
  have "clean (fst (checkpoint_issues accountIDs n c keys)) \<longleftrightarrow>
      go_index False accountIDs (ckAccountID c) \<and> 0 < ckObservedAt c \<and> checkpoint_key c \<notin> keys"
    "snd (checkpoint_issues accountIDs n c keys) = insert (checkpoint_key c) keys"
    by (auto simp: checkpoint_issues_def)
  then show ?case unfolding scan_Cons list_all_append Cons.IH by (auto simp: image_iff)
qed simp

section \<open>Amounts\<close>

definition amount_ok :: "AmountReferenceContext \<Rightarrow> TransactionAmountResolution \<Rightarrow> bool" where
  "amount_ok references amount \<longleftrightarrow>
     (\<exists>deps. ValidateAmountDescriptor amount (Some references) = Some (Inr deps)) \<and> CountVolatileRateInputs amount \<le> 1"

definition valid_dependencies :: "AmountReferenceContext \<Rightarrow> TransactionAmountResolution \<Rightarrow> string list" where
  "valid_dependencies references amount =
     (case ValidateAmountDescriptor amount (Some references) of Some (Inr deps) \<Rightarrow> deps | _ \<Rightarrow> [])"

text \<open>Checking an amount returns: nothing it calls can panic, and the parser always returns.\<close>

lemma argument_returns:
  "returns (validateIDArgument args)" "returns (argFloat args key required fallback)" "returns (validateRateArgs args)"
  "returns (text_argument args key e)" "returns (number_argument args key nonneg e)"
proof -
  show "returns (validateIDArgument args)" "returns (text_argument args key e)" "returns (number_argument args key nonneg e)"
    by (simp_all add: validateIDArgument_def text_argument_def number_argument_def split: option.split)
  have "returns (argFloat args key required fallback)" for key required fallback
    by (simp add: argFloat_def split: option.split)
  then show "returns (argFloat args key required fallback)" "returns (validateRateArgs args)"
    unfolding validateRateArgs_def by (auto intro!: returns_and_then)
qed

lemma validate_references_returns:
  "map_of (amountProviders pow) name = Some provider \<Longrightarrow> returns (pvValidateReferences provider args refs)"
  using argument_returns
  by (auto simp: amountProviders_def model_value_references_def account_references_def late_fee_references_def
      balance_fee_references_def intro!: returns_and_then split: if_splits)

lemma parse_brackets_returns: "returns (parse_brackets rows)"
proof (induction rows)
  case (Cons r rows)
  have "returns (parseInlineBracket r)"
  proof (cases r)
    case (JObj step)
    have "returns (bracket_limit rate u)" for rate u
      by (cases "(rate, u)" rule: bracket_limit.cases) auto
    then show ?thesis using JObj by (simp split: option.split)
  qed simp_all
  then show ?case using Cons by (simp add: returns_and_then)
qed simp

lemma validateBracketTable_returns: "returns (validateBracketTable config)"
proof -
  have "returns (bracket_deduction u)" for u by (cases u rule: bracket_deduction.cases) auto
  then show ?thesis
    using parse_brackets_returns by (simp add: validateBracketTable_def Let_def returns_and_then)
qed

lemma compile_input_returns: "returns (compile_input s)"
  using parse_tokens_returns by (simp add: compile_input_def returns_and_then returns_def [of "parse_tokens _"])

lemma required_inputs_return:
  assumes "LookupAmountResolver name = Some resolver"
  shows "returns (rvRequiredInputs resolver config)"
proof -
  have "returns (arithmetic_outcome m)" if "returns m" for m :: "(arithmetic_error + string list) option"
    using that by (cases m rule: arithmetic_outcome.cases) auto
  moreover have "returns (ArithmeticRequirements s)" for s
    using compile_input_returns [of s] by (auto simp: ArithmeticRequirements_def elim!: returnsE split: sum.split)
  ultimately show ?thesis
    using assms validateBracketTable_returns
    by (auto simp: LookupAmountResolver_def amountResolvers_def expression_resolver_def bracket_resolver_def returns_and_then
        split: if_splits)
qed

lemma ValidateAmountDescriptor_returns: "returns (ValidateAmountDescriptor amount references)"
proof -
  have input: "returns (validate_input references name binding)" for name binding
    using validate_references_returns
    by (auto simp: validate_input_def LookupAmountProvider_def returns_and_then split: option.split)
  have "returns (validate_inputs references inputs names)" for inputs names
    using input by (induction references inputs names rule: validate_inputs.induct) (auto simp: returns_and_then split: option.split)
  moreover have "returns (validateExactKeys inputs required)" for inputs required
    by (simp add: validateExactKeys_def Let_def)
  ultimately show ?thesis
    using required_inputs_return by (auto simp: ValidateAmountDescriptor_def returns_and_then split: option.split)
qed

text \<open>The amounts pass exactly when each does, and the dependencies are those of the rows, by identifier.\<close>

lemma amounts_step:
  "\<exists>issues. amount_issues references table n (i, amount) dependencies =
     Some (issues, if \<exists>deps. ValidateAmountDescriptor amount (Some references) = Some (Inr deps)
       then Mapping.update i (valid_dependencies references amount) dependencies else dependencies) \<and>
     (clean issues \<longleftrightarrow> amount_ok references amount)"
  using ValidateAmountDescriptor_returns [of amount "Some references"]
  by (auto simp: amount_issues_def amount_ok_def valid_dependencies_def Let_def elim!: returnsE split: sum.split)

lemma amounts_scan:
  "\<exists>issues dependencies'. scan_may (amount_issues references table) n entries dependencies = Some (issues, dependencies') \<and>
     (clean issues \<longleftrightarrow> (\<forall>(i, amount)\<in>set entries. amount_ok references amount)) \<and>
     (clean issues \<longrightarrow> dependencies' =
        foldl (\<lambda>m (i, amount). Mapping.update i (valid_dependencies references amount) m) dependencies entries)"
proof (induction entries arbitrary: n dependencies)
  case (Cons entry entries)
  obtain i amount where entry: "entry = (i, amount)" by fastforce
  obtain issues where first: "amount_issues references table n entry dependencies =
      Some (issues, if \<exists>deps. ValidateAmountDescriptor amount (Some references) = Some (Inr deps)
        then Mapping.update i (valid_dependencies references amount) dependencies else dependencies)"
    "clean issues \<longleftrightarrow> amount_ok references amount"
    using amounts_step entry by blast
  show ?case
    using Cons.IH [of "n + 1" "if \<exists>deps. ValidateAmountDescriptor amount (Some references) = Some (Inr deps)
        then Mapping.update i (valid_dependencies references amount) dependencies else dependencies"] first
    by (auto simp: entry amount_ok_def)
qed simp

definition reference_context :: "FinancialModel \<Rightarrow> AmountReferenceContext" where
  "reference_context model =
     \<lparr>afAccountIDs = account_ids model, afTransactionIDs = id_set (payable_ids model)\<rparr>"

definition model_amounts :: "FinancialModel \<Rightarrow> (string \<times> TransactionAmountResolution) list" where
  "model_amounts model = transaction_amounts model @ rule_amounts model"

definition model_dependencies :: "FinancialModel \<Rightarrow> string list gomap" where
  "model_dependencies model =
     foldl (\<lambda>m (i, amount). Mapping.update i (valid_dependencies (reference_context model) amount) m) Mapping.empty
       (model_amounts model)"

lemma amounts_clean:
  "\<exists>issues dependencies. validateTransactionAmounts model (account_ids model) (id_set (payable_ids model)) =
       Some (issues, dependencies) \<and> finite (Mapping.keys dependencies) \<and>
     (clean issues \<longleftrightarrow> (\<forall>(i, amount)\<in>set (model_amounts model). amount_ok (reference_context model) amount)) \<and>
     (clean issues \<longrightarrow> dependencies = model_dependencies model)"
proof -
  obtain issues dependencies where t: "scan_may (amount_issues (reference_context model) ''transactions'') 0 (transaction_amounts model)
      Mapping.empty = Some (issues, dependencies)"
    "clean issues \<longleftrightarrow> (\<forall>(i, amount)\<in>set (transaction_amounts model). amount_ok (reference_context model) amount)"
    "clean issues \<longrightarrow> dependencies = foldl (\<lambda>m (i, amount). Mapping.update i (valid_dependencies (reference_context model) amount) m)
       Mapping.empty (transaction_amounts model)"
    using amounts_scan [of "reference_context model" "''transactions''" 0 "transaction_amounts model" Mapping.empty]
    by (elim exE conjE) (rule that)
  obtain issues' dependencies' where r: "scan_may (amount_issues (reference_context model) ''schedules'') 0 (rule_amounts model)
      dependencies = Some (issues', dependencies')"
    "clean issues' \<longleftrightarrow> (\<forall>(i, amount)\<in>set (rule_amounts model). amount_ok (reference_context model) amount)"
    "clean issues' \<longrightarrow> dependencies' = foldl (\<lambda>m (i, amount). Mapping.update i (valid_dependencies (reference_context model) amount) m)
       dependencies (rule_amounts model)"
    using amounts_scan [of "reference_context model" "''schedules''" 0 "rule_amounts model" dependencies]
    by (elim exE conjE) (rule that)
  have "validateTransactionAmounts model (account_ids model) (id_set (payable_ids model)) = Some (issues @ issues', dependencies')"
    using t(1) r(1) by (simp add: validateTransactionAmounts_def reference_context_def Let_def)
  moreover from amounts_finite [OF this] have "finite (Mapping.keys dependencies')" .
  ultimately show ?thesis
    using t r by (auto simp: model_dependencies_def model_amounts_def)
qed

section \<open>Routes and schedules\<close>

definition route_ok :: "string set \<Rightarrow> string option \<Rightarrow> string list option \<Rightarrow> bool" where
  "route_ok accounts source dests \<longleftrightarrow>
     (source \<noteq> None \<or> slice dests \<noteq> []) \<and> (\<forall>a. source = Some a \<longrightarrow> a \<in> accounts \<and> a \<notin> set (slice dests)) \<and>
     set (slice dests) \<subseteq> accounts \<and> distinct (slice dests)"

lemma destinations_clean:
  "clean (fst (scan (destination_issues accountIDs code row base) n ds seen)) \<longleftrightarrow>
     (\<forall>d\<in>set ds. go_index False accountIDs d \<and> d \<notin> seen) \<and> distinct ds"
proof (induction ds arbitrary: n seen)
  case (Cons d ds)
  have "clean (fst (destination_issues accountIDs code row base n d seen)) \<longleftrightarrow> go_index False accountIDs d \<and> d \<notin> seen"
    "snd (destination_issues accountIDs code row base n d seen) = insert d seen"
    by (simp_all add: destination_issues_def)
  then show ?case unfolding scan_Cons list_all_append Cons.IH by auto
qed simp

lemma route_clean:
  "clean (route_issues (id_set ids) kind row rows base source dests) \<longleftrightarrow> route_ok (set ids) source dests"
  by (auto simp: route_issues_def destinations_clean route_ok_def split: option.split)

definition transaction_ok :: "string set \<Rightarrow> Transaction \<Rightarrow> bool" where
  "transaction_ok accounts t \<longleftrightarrow>
     route_ok accounts (trSourceAccountID t) (trDestinations t) \<and> 0 < trTransactionTime t \<and>
     (0 < trPostedTime t \<or> trPending t \<or> trVoid t)"

definition rule_ok :: "string set \<Rightarrow> Schedule \<Rightarrow> bool" where
  "rule_ok accounts r \<longleftrightarrow>
     route_ok accounts (scSourceAccountID r) (scDestinations r) \<and> schedule_ok r \<and>
     (\<forall>e. scEndDate r = Some e \<longrightarrow> IsValidIsoDate e \<and> scStartDate r \<le> e)"

lemma transaction_clean: "clean (transaction_issues (id_set ids) n t) \<longleftrightarrow> transaction_ok (set ids) t"
  by (auto simp: transaction_issues_def transaction_ok_def route_clean Let_def)

lemma rule_clean: "clean (schedule_issues (id_set ids) n r) \<longleftrightarrow> rule_ok (set ids) r"
  by (cases "scFrequency r") (auto simp: schedule_issues_def rule_ok_def schedule_ok_def route_clean Let_def split: option.split)

section \<open>Claims\<close>

definition claim_ok :: "Schedule list \<Rightarrow> TransactionClaim \<Rightarrow> bool" where
  "claim_ok rules c \<longleftrightarrow>
     (\<exists>r\<in>set rules. scID r = clScheduleID c \<and> IsValidIsoDate (clOccurrenceDate c) \<and> scStartDate r \<le> clOccurrenceDate c \<and>
        ruleOccursOn r (clOccurrenceDate c) = Some True)"

definition claims_of :: "Transaction list \<Rightarrow> TransactionClaim list" where
  "claims_of ts = List.map_filter trClaim ts"

lemma valid_no_nul: "IsValidIsoDate d \<Longrightarrow> CHR 0x00 \<notin> set d"
proof -
  have "CHR 0x00 \<notin> set (fixed w n)" for w n
    using all_digits_fixed [of w n] by (auto simp: list_all_iff is_digit_iff)
  then show "IsValidIsoDate d \<Longrightarrow> CHR 0x00 \<notin> set d"
    by (elim IsValidIsoDateE) (simp add: iso_date_def)
qed

lemma claim_key_inject:
  "IsValidIsoDate (clOccurrenceDate c) \<Longrightarrow> IsValidIsoDate (clOccurrenceDate d) \<Longrightarrow> claim_key c = claim_key d \<Longrightarrow> c = d"
  using nul_key_inject [of "clScheduleID c" "clOccurrenceDate c" "clScheduleID d" "clOccurrenceDate d"]
  by (simp add: claim_key_def valid_no_nul)

lemma claim_step:
  assumes "distinct (map scID rules)" "\<forall>r\<in>set rules. schedule_ok r" "trClaim t = Some c" "clOccurrenceDate c < year_9999"
  shows "\<exists>issues s. claim_issues (schedule_index rules) n t claims = Some (issues, s) \<and>
     (clean issues \<longleftrightarrow> claim_ok rules c \<and> claim_key c \<notin> claims) \<and> (clean issues \<longrightarrow> s = insert (claim_key c) claims)"
proof (cases "\<exists>r\<in>set rules. scID r = clScheduleID c")
  case False
  then have "clScheduleID c \<notin> scID ` set rules" by (metis imageE)
  then have "Mapping.lookup (schedule_index rules) (clScheduleID c) = None"
    using index_None [of "clScheduleID c" scID rules Mapping.empty] by (simp add: schedule_index_def)
  then show ?thesis using False assms(3) by (auto simp: claim_issues_def claim_ok_def Let_def)
next
  case True
  then obtain r where r: "r \<in> set rules" "scID r = clScheduleID c" by blast
  then have found: "Mapping.lookup (schedule_index rules) (clScheduleID c) = Some r"
    using index_member [OF assms(1) r(1)] by (simp add: schedule_index_def)
  have only: "r' = r" if "r' \<in> set rules" "scID r' = clScheduleID c" for r'
    using that r assms(1) by (metis distinct_map inj_onD)
  have ok: "claim_ok rules c \<longleftrightarrow> IsValidIsoDate (clOccurrenceDate c) \<and> scStartDate r \<le> clOccurrenceDate c \<and>
      ruleOccursOn r (clOccurrenceDate c) = Some True"
    unfolding claim_ok_def using r only by metis
  have start: "IsValidIsoDate (scStartDate r)" using assms(2) r(1) by (simp add: schedule_ok_def)
  obtain b where b: "ruleOccursOn r (clOccurrenceDate c) = Some b"
    using ruleOccursOn_dates [of r "clOccurrenceDate c"] assms(2,4) r(1) by blast
  show ?thesis
    using start assms(3) by (cases b) (auto simp: claim_issues_def found ok b Let_def)
qed

lemma claims_scan:
  assumes "distinct (map scID rules)" "\<forall>r\<in>set rules. schedule_ok r" "\<forall>c\<in>set (claims_of ts). clOccurrenceDate c < year_9999"
  shows "\<exists>issues s. scan_may (claim_issues (schedule_index rules)) n ts claims = Some (issues, s) \<and>
     (clean issues \<longleftrightarrow> (\<forall>c\<in>set (claims_of ts). claim_ok rules c \<and> claim_key c \<notin> claims) \<and> distinct (map claim_key (claims_of ts)))"
  using assms(3)
proof (induction ts arbitrary: n claims)
  case (Cons t ts)
  show ?case
  proof (cases "trClaim t")
    case None
    then show ?thesis using Cons.IH [of "n + 1" claims] Cons.prems by (auto simp: claim_issues_def claims_of_def map_filter_simps)
  next
    case (Some c)
    then have claims: "claims_of (t # ts) = c # claims_of ts" by (simp add: claims_of_def map_filter_simps)
    obtain issues s where first: "claim_issues (schedule_index rules) n t claims = Some (issues, s)"
      "clean issues \<longleftrightarrow> claim_ok rules c \<and> claim_key c \<notin> claims" "clean issues \<longrightarrow> s = insert (claim_key c) claims"
      using claim_step [OF assms(1,2) Some] Cons.prems claims by fastforce
    obtain issues' s' where rest: "scan_may (claim_issues (schedule_index rules)) (n + 1) ts s = Some (issues', s')"
      "clean issues' \<longleftrightarrow> (\<forall>c\<in>set (claims_of ts). claim_ok rules c \<and> claim_key c \<notin> s) \<and> distinct (map claim_key (claims_of ts))"
      using Cons.IH [of "n + 1" s] Cons.prems claims by auto
    have "scan_may (claim_issues (schedule_index rules)) n (t # ts) claims = Some (issues @ issues', s')"
      using first(1) rest(1) by simp
    moreover have "clean (issues @ issues') \<longleftrightarrow>
        (\<forall>c\<in>set (claims_of (t # ts)). claim_ok rules c \<and> claim_key c \<notin> claims) \<and> distinct (map claim_key (claims_of (t # ts)))"
      unfolding claims list_all_append rest(2) using first(2,3) by (auto simp: image_iff)
    ultimately show ?thesis by blast
  qed
qed (simp add: claims_of_def map_filter_simps)

lemma claims_clean:
  assumes "distinct (map scID (fmSchedules model))" "\<forall>r\<in>set (fmSchedules model). schedule_ok r"
    and "\<forall>c\<in>set (claims_of (fmTransactions model)). clOccurrenceDate c < year_9999"
  shows "\<exists>issues. validateTransactionClaims model = Some issues \<and>
     (clean issues \<longleftrightarrow> (\<forall>c\<in>set (claims_of (fmTransactions model)). claim_ok (fmSchedules model) c) \<and>
        distinct (claims_of (fmTransactions model)))"
proof -
  let ?cs = "claims_of (fmTransactions model)"
  obtain issues s where "scan_may (claim_issues (schedule_index (fmSchedules model))) 0 (fmTransactions model) {} = Some (issues, s)"
    "clean issues \<longleftrightarrow> (\<forall>c\<in>set ?cs. claim_ok (fmSchedules model) c \<and> claim_key c \<notin> {}) \<and> distinct (map claim_key ?cs)"
    using claims_scan [OF assms, of 0 "{}"] by (elim exE conjE) (rule that)
  moreover have "distinct (map claim_key ?cs) \<longleftrightarrow> distinct ?cs" if "\<forall>c\<in>set ?cs. claim_ok (fmSchedules model) c"
    using that claim_key_inject by (auto simp: distinct_map inj_on_def claim_ok_def)
  ultimately show ?thesis by (auto simp: validateTransactionClaims_def)
qed

lemma claims_return:
  assumes "\<forall>c\<in>set (claims_of (fmTransactions model)). clOccurrenceDate c < year_9999"
  shows "returns (validateTransactionClaims model)"
proof -
  have occurs: "returns (ruleOccursOn r d)" if "IsValidIsoDate (scStartDate r)" "d < year_9999" for r d
  proof (cases "validScheduleFrequency (scFrequency r)")
    case True
    then have "schedule_ok r" using that(1) by (simp add: schedule_ok_def)
    from ruleOccursOn_dates [OF this that(2)] show ?thesis by (auto simp: returns_def)
  qed (simp add: ruleOccursOn_def)
  have "returns (claim_issues rules n t claims)" if "t \<in> set (fmTransactions model)" for rules n t claims
  proof (cases "trClaim t")
    case (Some c)
    then have "clOccurrenceDate c < year_9999"
      using assms that by (force simp: claims_of_def map_filter_def)
    then show ?thesis
      using Some occurs by (fastforce simp: claim_issues_def Let_def elim!: returnsE split: option.split bool.split)
  qed (simp add: claim_issues_def)
  then show ?thesis unfolding validateTransactionClaims_def by (simp add: scan_may_returns)
qed

section \<open>Accounts, purchases and payment terms\<close>

definition account_ok :: "string set \<Rightarrow> Account \<Rightarrow> bool" where
  "account_ok payable a \<longleftrightarrow>
     acID a \<notin> payable \<and> AccountKind_Valid (acKind a) \<and> \<not> MaxBalanceValue a < MinBalanceValue a"

lemma account_clean:
  "clean (account_issues (id_set ids) n a) \<longleftrightarrow> acID a \<notin> set ids \<and> AccountKind_Valid (acKind a)"
  "clean (bounds_issues n a) \<longleftrightarrow> \<not> MaxBalanceValue a < MinBalanceValue a"
  by (simp_all add: account_issues_def bounds_issues_def)

definition purchase_ok :: "string set \<Rightarrow> PlannedPurchase \<Rightarrow> bool" where
  "purchase_ok accounts p \<longleftrightarrow>
     TrimSpace (ppName p) \<noteq> '''' \<and> 0 \<le> ppPriority p \<and> 0 < ppCost p \<and> \<not> isInf (ppCost p) \<and>
     (\<exists>a\<in>accounts. ppFundingAccountID p = Some a) \<and> IsValidIsoDate (ppEarliestDate p)"

lemma purchase_clean: "clean (purchase_issues (id_set ids) n p) \<longleftrightarrow> purchase_ok (set ids) p"
proof -
  have "(isNaN (ppCost p) \<or> isInf (ppCost p) \<or> ppCost p \<le> 0) \<longleftrightarrow> \<not> (0 < ppCost p \<and> \<not> isInf (ppCost p))"
    by (cases "ppCost p") (auto simp: zero_f64_def)
  then show ?thesis
    by (auto simp: purchase_issues_def validatePlannedPurchaseCost_def purchase_ok_def Let_def split: option.split)
qed

definition terms_ok :: "Account list \<Rightarrow> PaymentTerms \<Rightarrow> bool" where
  "terms_ok accounts terms \<longleftrightarrow>
     (\<exists>a\<in>set accounts. acID a = ptAccountID terms \<and> acKind a = ''debt'') \<and>
     0 \<le> ptMinimumFixed terms \<and> \<not> isNonFinite (ptMinimumFixed terms) \<and>
     (\<forall>p. ptMinimumPercent terms = Some p \<longrightarrow> 0 \<le> p \<and> p \<le> f64_of_rat 1) \<and>
     1 \<le> ptDueDay terms \<and> ptDueDay terms \<le> 28 \<and>
     (\<forall>d. ptStatementDay terms = Some d \<longrightarrow> 1 \<le> d \<and> d \<le> 28)"

lemma f64_in_range:
  "p < 0 \<or> f64_of_rat 1 < p \<or> isNonFinite p \<longleftrightarrow> \<not> (0 \<le> p \<and> p \<le> f64_of_rat 1)"
  "p < 0 \<or> isNonFinite p \<longleftrightarrow> \<not> (0 \<le> p \<and> \<not> isNonFinite p)"
  by (cases p; auto simp: isNonFinite_def zero_f64_def f64_of_rat_numeral)+

lemma term_fields_clean:
  assumes "distinct (map acID accounts)"
  shows "ptAccountID terms \<in> acID ` set accounts \<and> clean (term_fields (accountIndex accounts) n terms) \<longleftrightarrow> terms_ok accounts terms"
proof (cases "ptAccountID terms \<in> acID ` set accounts")
  case True
  then obtain a where a: "a \<in> set accounts" "acID a = ptAccountID terms" by force
  then have "Mapping.lookup (accountIndex accounts) (ptAccountID terms) = Some a"
    using index_member [OF assms a(1)] by (simp add: accountIndex_def)
  moreover have "(\<exists>a\<in>set accounts. acID a = ptAccountID terms \<and> acKind a = ''debt'') \<longleftrightarrow> acKind a = ''debt''"
    using a assms by (metis distinct_map inj_onD)
  ultimately show ?thesis
    using True by (auto simp: term_fields_def terms_ok_def f64_in_range Let_def split: option.split)
qed (auto simp: terms_ok_def image_iff)

lemma terms_scan:
  assumes "distinct (map acID accounts)"
  shows "clean (fst (scan (term_issues (id_set (map acID accounts)) (accountIndex accounts)) n terms seen)) \<longleftrightarrow>
     (\<forall>t\<in>set terms. terms_ok accounts t \<and> ptAccountID t \<notin> seen) \<and> distinct (map ptAccountID terms)"
proof (induction terms arbitrary: n seen)
  case (Cons t terms)
  have "clean (fst (term_issues (id_set (map acID accounts)) (accountIndex accounts) n t seen)) \<longleftrightarrow>
      terms_ok accounts t \<and> ptAccountID t \<notin> seen"
    "ptAccountID t \<notin> seen \<Longrightarrow>
      snd (term_issues (id_set (map acID accounts)) (accountIndex accounts) n t seen) = insert (ptAccountID t) seen"
    using term_fields_clean [OF assms, of t n] by (auto simp: term_issues_def Let_def)
  then show ?case unfolding scan_Cons list_all_append Cons.IH by (auto simp: image_iff)
qed simp

section \<open>Dependencies\<close>

definition dependency_relation :: "FinancialModel \<Rightarrow> (string \<times> string) set" where
  "dependency_relation model =
     {(i, d). \<exists>amount. (i, amount) \<in> set (model_amounts model) \<and>
        d \<in> set (valid_dependencies (reference_context model) amount)}"

lemma pair_index:
  "Mapping.lookup (foldl (\<lambda>m (i, a). Mapping.update i (f a) m) m xs) i =
     (case map_of (rev xs) i of Some a \<Rightarrow> Some (f a) | None \<Rightarrow> Mapping.lookup m i)"
  by (induction xs rule: rev_induct) (auto simp: lookup_update' split: option.split)

lemma model_amounts_ids: "map fst (model_amounts model) = map trID (fmTransactions model) @ map scID (fmSchedules model)"
  by (simp add: model_amounts_def transaction_amounts_def rule_amounts_def comp_def)

lemma amounts_distinct: "distinct (payable_ids model) \<Longrightarrow> distinct (map fst (model_amounts model))"
  unfolding model_amounts_ids payable_ids_def by auto

lemma model_dependencies_index:
  assumes "distinct (payable_ids model)"
  shows "go_index [] (model_dependencies model) i =
     (case map_of (model_amounts model) i of None \<Rightarrow> [] | Some amount \<Rightarrow> valid_dependencies (reference_context model) amount)"
proof -
  have d: "distinct (map fst (model_amounts model))" using assms by (rule amounts_distinct)
  then have "map_of (rev (model_amounts model)) i = Some a \<longleftrightarrow> map_of (model_amounts model) i = Some a" for a
    by (simp add: map_of_eq_Some_iff rev_map [symmetric])
  then have "map_of (rev (model_amounts model)) i = map_of (model_amounts model) i"
    by (metis not_None_eq)
  then show ?thesis
    by (simp add: model_dependencies_def lookup_default_def pair_index lookup_empty split: option.split)
qed

lemma depends_relation:
  assumes "distinct (payable_ids model)"
  shows "depends (model_dependencies model) = dependency_relation model"
proof -
  have d: "distinct (map fst (model_amounts model))" using assms by (rule amounts_distinct)
  have "d' \<in> set (go_index [] (model_dependencies model) i) \<longleftrightarrow>
      (\<exists>amount. (i, amount) \<in> set (model_amounts model) \<and> d' \<in> set (valid_dependencies (reference_context model) amount))" for i d'
    unfolding model_dependencies_index [OF assms] map_of_eq_Some_iff [OF d, symmetric]
    by (cases "map_of (model_amounts model) i") auto
  then show ?thesis by (auto simp: depends_def dependency_relation_def)
qed

lemma each_circular_clean: "clean (each (circular_rows dependencies table) n ids) \<longleftrightarrow> (\<forall>i\<in>set ids. \<not> reaches_cycle dependencies i)"
  by (rule clean_each) (simp add: circular_rows_def circular_error_def)

lemma circular_clean:
  assumes "distinct (payable_ids model)" "finite (Mapping.keys (model_dependencies model))"
  shows "\<exists>issues. validateTransactionDependencies model (model_dependencies model) = Some issues \<and>
     (clean issues \<longleftrightarrow> acyclic (dependency_relation model))"
proof -
  let ?ids = "set (map fst (model_amounts model))"
  have row: "c \<in> ?ids" if "(c, c) \<in> (dependency_relation model)\<^sup>+" for c
    using that by (force dest: tranclD simp: dependency_relation_def)
  have "(\<forall>i\<in>?ids. \<not> reaches_cycle (model_dependencies model) i) \<longleftrightarrow> acyclic (dependency_relation model)"
    unfolding reaches_cycle_def depends_relation [OF assms(1)] acyclic_def using row by blast
  then show ?thesis
    using dependencies_reported [OF assms(2)]
    by (auto simp: each_circular_clean model_amounts_ids)
qed

lemma purchase_references_clean:
  assumes "distinct (payable_ids model)"
  shows "clean (purchase_references model (model_dependencies model)) \<longleftrightarrow>
     (\<forall>(i, amount)\<in>set (model_amounts model).
        set (valid_dependencies (reference_context model) amount) \<inter> ppID ` set (fmPlannedPurchases model) = {})"
proof -
  have d: "distinct (map fst (model_amounts model))" using assms by (rule amounts_distinct)
  have ids: "trID ` set (ResolvedTransactionTransactions model) = fst ` set (model_amounts model)"
    by (force simp: ResolvedTransactionTransactions_def model_amounts_def transaction_amounts_def rule_amounts_def rule_template_def
        rule_instance_def)
  have "clean (purchase_references model (model_dependencies model)) \<longleftrightarrow>
      (\<forall>i\<in>trID ` set (ResolvedTransactionTransactions model).
         \<forall>d\<in>set (go_index [] (model_dependencies model) i). d \<notin> ppID ` set (fmPlannedPurchases model))"
    by (auto simp: purchase_references_def list_all_iff)
  also have "\<dots> \<longleftrightarrow> (\<forall>x\<in>set (model_amounts model).
      \<forall>d\<in>set (valid_dependencies (reference_context model) (snd x)). d \<notin> ppID ` set (fmPlannedPurchases model))"
  proof -
    have "go_index [] (model_dependencies model) (fst x) = valid_dependencies (reference_context model) (snd x)"
      if "x \<in> set (model_amounts model)" for x
      using that map_of_eq_Some_iff [OF d, of "fst x" "snd x"] by (simp add: model_dependencies_index [OF assms])
    then show ?thesis unfolding ids ball_simps by (intro ball_cong) simp_all
  qed
  finally show ?thesis by (simp add: case_prod_beta disjoint_iff Ball_def)
qed

section \<open>Well-formed models\<close>

text \<open>
  What the rest of the program may rely on: one space of identifiers; accounts with a known kind
  and consistent bounds; observations of accounts that exist, one per account and instant; amounts
  that can be resolved in some order; routes between accounts that exist; schedules with dates and a
  frequency; claims of occurrences that are scheduled, none claimed twice; funded purchases;
  payment terms of debts; loans whose parts fit.
\<close>

definition well_formed_model :: "FinancialModel \<Rightarrow> bool" where
  "well_formed_model model \<longleftrightarrow>
     (let accounts = set (map acID (fmAccounts model)) in
      distinct (payable_ids model) \<and> distinct (map acID (fmAccounts model)) \<and>
      (\<forall>a\<in>set (fmAccounts model). account_ok (set (payable_ids model)) a) \<and>
      (\<forall>c\<in>set (fmCheckpoints model). ckAccountID c \<in> accounts \<and> 0 < ckObservedAt c) \<and>
      distinct (map (\<lambda>c. (ckAccountID c, ckObservedAt c)) (fmCheckpoints model)) \<and>
      (\<forall>(i, amount)\<in>set (model_amounts model). amount_ok (reference_context model) amount \<and>
         set (valid_dependencies (reference_context model) amount) \<inter> ppID ` set (fmPlannedPurchases model) = {}) \<and>
      acyclic (dependency_relation model) \<and>
      (\<forall>t\<in>set (fmTransactions model). transaction_ok accounts t) \<and>
      (\<forall>r\<in>set (fmSchedules model). rule_ok accounts r) \<and>
      (\<forall>c\<in>set (claims_of (fmTransactions model)). claim_ok (fmSchedules model) c) \<and>
      distinct (claims_of (fmTransactions model)) \<and>
      (\<forall>p\<in>set (fmPlannedPurchases model). purchase_ok accounts p) \<and>
      (\<forall>t\<in>set (fmPaymentTerms model). terms_ok (fmAccounts model) t) \<and>
      distinct (map ptAccountID (fmPaymentTerms model)) \<and>
      validateAccountDisplays model = [])"

lemma displays_clean: "clean (validateAccountDisplays model) \<longleftrightarrow> validateAccountDisplays model = []"
proof -
  have "clean (display_issues model n as taken) \<longleftrightarrow> display_issues model n as taken = []" for n as taken
    by (induction model n as taken rule: display_issues.induct)
      (auto simp: display_issue_def Let_def split: option.split prod.split)
  then show ?thesis by (simp add: validateAccountDisplays_def)
qed

lemma identities_clean:
  "clean (validateUniqueIDs (map acID (fmAccounts model)) c1 t1 @ validateUniqueIDs (map trID (fmTransactions model)) c2 t2 @
       validateUniqueIDs (map scID (fmSchedules model)) c3 t3 @ validateUniqueIDs (map ppID (fmPlannedPurchases model)) c4 t4 @
       fst (validate_collisions model)) \<longleftrightarrow>
     distinct (map acID (fmAccounts model)) \<and> distinct (payable_ids model)"
proof -
  have "distinct (as @ bs @ cs) \<longleftrightarrow> distinct as \<and> distinct bs \<and> distinct cs \<and> (\<forall>i\<in>set bs. i \<notin> set as) \<and>
      (\<forall>i\<in>set cs. i \<notin> set as \<union> set bs)" for as bs cs :: "string list"
    by auto
  from this [of "map trID (fmTransactions model)" "map scID (fmSchedules model)" "map ppID (fmPlannedPurchases model)"]
  show ?thesis
    unfolding list_all_append unique_clean collisions_clean payable_ids_def set_map by argo
qed

lemma checkpoint_keys_distinct:
  "distinct (map checkpoint_key cs) \<longleftrightarrow> distinct (map (\<lambda>c. (ckAccountID c, ckObservedAt c)) cs)"
  using checkpoint_key_inject by (auto simp: distinct_map inj_on_def)

lemma fixed_clean:
  assumes "accountIDs = account_ids model" "transactionIDs = id_set (payable_ids model)"
  shows "clean (each (account_issues transactionIDs) 0 (fmAccounts model)) \<and> clean (validateAccountBounds (fmAccounts model)) \<longleftrightarrow>
      (\<forall>a\<in>set (fmAccounts model). account_ok (set (payable_ids model)) a)"
    "clean (fst (scan (checkpoint_issues accountIDs) 0 (fmCheckpoints model) {})) \<longleftrightarrow>
      (\<forall>c\<in>set (fmCheckpoints model). ckAccountID c \<in> set (map acID (fmAccounts model)) \<and> 0 < ckObservedAt c) \<and>
      distinct (map (\<lambda>c. (ckAccountID c, ckObservedAt c)) (fmCheckpoints model))"
    "clean (validateTransactionRoutes (fmTransactions model) accountIDs) \<longleftrightarrow>
      (\<forall>t\<in>set (fmTransactions model). transaction_ok (set (map acID (fmAccounts model))) t)"
    "clean (validateSchedules model accountIDs) \<longleftrightarrow>
      (\<forall>r\<in>set (fmSchedules model). rule_ok (set (map acID (fmAccounts model))) r)"
    "clean (validatePaymentTermsCoverage model)"
    "clean (each (purchase_issues (id_set (map acID (fmAccounts model)))) 0 (fmPlannedPurchases model)) \<longleftrightarrow>
      (\<forall>p\<in>set (fmPlannedPurchases model). purchase_ok (set (map acID (fmAccounts model))) p)"
proof -
  note ids = assms account_ids_def
  show "clean (each (account_issues transactionIDs) 0 (fmAccounts model)) \<and> clean (validateAccountBounds (fmAccounts model)) \<longleftrightarrow>
      (\<forall>a\<in>set (fmAccounts model). account_ok (set (payable_ids model)) a)"
    unfolding ids validateAccountBounds_def clean_each [OF account_clean(1)] clean_each [OF account_clean(2)]
    by (auto simp: account_ok_def)
  show "clean (fst (scan (checkpoint_issues accountIDs) 0 (fmCheckpoints model) {})) \<longleftrightarrow>
      (\<forall>c\<in>set (fmCheckpoints model). ckAccountID c \<in> set (map acID (fmAccounts model)) \<and> 0 < ckObservedAt c) \<and>
      distinct (map (\<lambda>c. (ckAccountID c, ckObservedAt c)) (fmCheckpoints model))"
    unfolding ids checkpoints_clean checkpoint_keys_distinct by simp
  show "clean (validateTransactionRoutes (fmTransactions model) accountIDs) \<longleftrightarrow>
      (\<forall>t\<in>set (fmTransactions model). transaction_ok (set (map acID (fmAccounts model))) t)"
    unfolding ids validateTransactionRoutes_def by (rule clean_each) (rule transaction_clean)
  show "clean (validateSchedules model accountIDs) \<longleftrightarrow>
      (\<forall>r\<in>set (fmSchedules model). rule_ok (set (map acID (fmAccounts model))) r)"
    unfolding ids validateSchedules_def by (rule clean_each) (rule rule_clean)
  show "clean (validatePaymentTermsCoverage model)"
    unfolding validatePaymentTermsCoverage_def
    by (subst clean_each [where Q = "\<lambda>_. True"]) (simp_all add: coverage_issues_def)
  show "clean (each (purchase_issues (id_set (map acID (fmAccounts model)))) 0 (fmPlannedPurchases model)) \<longleftrightarrow>
      (\<forall>p\<in>set (fmPlannedPurchases model). purchase_ok (set (map acID (fmAccounts model))) p)"
    by (rule clean_each) (rule purchase_clean)
qed

lemma all_amounts:
  "(\<forall>(i, amount)\<in>S. P amount \<and> Q amount) \<longleftrightarrow> (\<forall>(i, amount)\<in>S. P amount) \<and> (\<forall>(i, amount)\<in>S. Q amount)"
  by auto

lemma issues_well_formed:
  assumes "\<forall>c\<in>set (claims_of (fmTransactions model)). clOccurrenceDate c < year_9999" "finite (Mapping.keys dependencies)"
    and "clean amounts \<longleftrightarrow> (\<forall>(i, amount)\<in>set (model_amounts model). amount_ok (reference_context model) amount)"
    and "clean amounts \<longrightarrow> dependencies = model_dependencies model"
    and "validateTransactionDependencies model dependencies = Some circular" "validateTransactionClaims model = Some claims"
  shows "clean ((validateUniqueIDs (map acID (fmAccounts model)) ''account.id'' ''accounts'' @
        validateUniqueIDs (map trID (fmTransactions model)) ''transaction.id'' ''transactions'' @
        validateUniqueIDs (map scID (fmSchedules model)) ''rule.id'' ''schedules'' @
        validateUniqueIDs (map ppID (fmPlannedPurchases model)) ''plannedPurchase.id'' ''plannedPurchases'' @
        fst (validate_collisions model)) @
      each (account_issues (id_set (payable_ids model))) 0 (fmAccounts model) @
      fst (scan (checkpoint_issues (account_ids model)) 0 (fmCheckpoints model) {}) @
      amounts @ validatePurchases model dependencies @ circular @
      validateTransactionRoutes (fmTransactions model) (account_ids model) @ validateSchedules model (account_ids model) @ claims @
      validateAccountBounds (fmAccounts model) @ validatePaymentTerms model (account_ids model) @
      validatePaymentTermsCoverage model @ validateAccountDisplays model) \<longleftrightarrow> well_formed_model model"
    (is "clean (?identities @ _) \<longleftrightarrow> _")
proof -
  note fixed = fixed_clean [OF refl refl, of model]
  let ?accounts = "set (map acID (fmAccounts model))"
  have rules: "schedule_ok r" if "\<forall>r\<in>set (fmSchedules model). rule_ok ?accounts r" "r \<in> set (fmSchedules model)" for r
    using that by (simp add: rule_ok_def)
  have conditional: "clean circular \<longleftrightarrow> acyclic (dependency_relation model)"
    "clean (validatePurchases model dependencies) \<longleftrightarrow> (\<forall>p\<in>set (fmPlannedPurchases model). purchase_ok ?accounts p) \<and>
       (\<forall>(i, amount)\<in>set (model_amounts model).
          set (valid_dependencies (reference_context model) amount) \<inter> ppID ` set (fmPlannedPurchases model) = {})"
    "clean claims \<longleftrightarrow> (\<forall>c\<in>set (claims_of (fmTransactions model)). claim_ok (fmSchedules model) c) \<and>
       distinct (claims_of (fmTransactions model))"
    "clean (validatePaymentTerms model (account_ids model)) \<longleftrightarrow>
       (\<forall>t\<in>set (fmPaymentTerms model). terms_ok (fmAccounts model) t) \<and> distinct (map ptAccountID (fmPaymentTerms model))"
    if "clean amounts" "distinct (payable_ids model)" "distinct (map acID (fmAccounts model))"
      "\<forall>r\<in>set (fmSchedules model). rule_ok ?accounts r"
  proof -
    have d: "dependencies = model_dependencies model" using assms(4) that(1) by blast
    show "clean circular \<longleftrightarrow> acyclic (dependency_relation model)"
      using circular_clean [OF that(2)] assms(2,5) d by auto
    show "clean (validatePurchases model dependencies) \<longleftrightarrow> (\<forall>p\<in>set (fmPlannedPurchases model). purchase_ok ?accounts p) \<and>
       (\<forall>(i, amount)\<in>set (model_amounts model).
          set (valid_dependencies (reference_context model) amount) \<inter> ppID ` set (fmPlannedPurchases model) = {})"
      unfolding validatePurchases_def list_all_append fixed d purchase_references_clean [OF that(2)] ..
    have "distinct (map scID (fmSchedules model))" using that(2) by (simp add: payable_ids_def)
    then show "clean claims \<longleftrightarrow> (\<forall>c\<in>set (claims_of (fmTransactions model)). claim_ok (fmSchedules model) c) \<and>
       distinct (claims_of (fmTransactions model))"
      using claims_clean [of model] rules [OF that(4)] assms(1,6) by auto
    show "clean (validatePaymentTerms model (account_ids model)) \<longleftrightarrow>
       (\<forall>t\<in>set (fmPaymentTerms model). terms_ok (fmAccounts model) t) \<and> distinct (map ptAccountID (fmPaymentTerms model))"
      unfolding validatePaymentTerms_def account_ids_def terms_scan [OF that(3)] by simp
  qed
  show ?thesis
    unfolding list_all_append [of _ ?identities] identities_clean well_formed_model_def Let_def all_amounts
    using conditional fixed assms(3) displays_clean [of model] by (simp add: list_all_append) argo
qed

lemma finance_model_valid:
  assumes "\<forall>c\<in>set (claims_of (fmTransactions model)). clOccurrenceDate c < year_9999"
  shows "\<exists>issues. ValidateFinanceModel overflow model = Some issues \<and>
     (snd (snd (SummarizeValidationIssues issues)) \<longleftrightarrow> well_formed_model model)"
proof -
  let ?ids = "set (map acID (fmAccounts model))"
  obtain amounts dependencies where amounts: "validateTransactionAmounts model (account_ids model) (id_set (payable_ids model)) =
      Some (amounts, dependencies)" "finite (Mapping.keys dependencies)"
    "clean amounts \<longleftrightarrow> (\<forall>(i, amount)\<in>set (model_amounts model). amount_ok (reference_context model) amount)"
    "clean amounts \<longrightarrow> dependencies = model_dependencies model"
    using amounts_clean [of model] by (elim exE conjE) (rule that)
  obtain circular where circular: "validateTransactionDependencies model dependencies = Some circular"
    using dependencies_reported [OF amounts(2)] by blast
  obtain claims where claims: "validateTransactionClaims model = Some claims"
    using claims_return [OF assms] by (rule returnsE)
  let ?identities = "validateUniqueIDs (map acID (fmAccounts model)) ''account.id'' ''accounts'' @
      validateUniqueIDs (map trID (fmTransactions model)) ''transaction.id'' ''transactions'' @
      validateUniqueIDs (map scID (fmSchedules model)) ''rule.id'' ''schedules'' @
      validateUniqueIDs (map ppID (fmPlannedPurchases model)) ''plannedPurchase.id'' ''plannedPurchases'' @
      fst (validate_collisions model)"
    and ?rows = "each (account_issues (id_set (payable_ids model))) 0 (fmAccounts model)"
    and ?observations = "fst (scan (checkpoint_issues (account_ids model)) 0 (fmCheckpoints model) {})"
  define issues where "issues = ?identities @ ?rows @ ?observations @ amounts @ validatePurchases model dependencies @ circular @
      validateTransactionRoutes (fmTransactions model) (account_ids model) @ validateSchedules model (account_ids model) @ claims @
      validateAccountBounds (fmAccounts model) @ validatePaymentTerms model (account_ids model) @
      validatePaymentTermsCoverage model @ validateAccountDisplays model"
  have "ValidateFinanceModel overflow model = Some issues"
    using amounts(1) circular claims collisions_clean(2) [of model]
    by (simp add: ValidateFinanceModel_def validateModel_def issues_def Let_def case_prod_beta)
  moreover have "snd (snd (SummarizeValidationIssues issues)) \<longleftrightarrow> clean issues"
    by (simp add: SummarizeValidationIssues_def Let_def filter_empty_conv list_all_iff)
  moreover have "clean issues \<longleftrightarrow> well_formed_model model"
    unfolding issues_def using assms amounts(2-4) circular claims by (rule issues_well_formed)
  ultimately show ?thesis by blast
qed

text \<open>
  C23.  Validating a model returns, as long as no claim names a date of the year 9999, and it reports
  no error exactly when the model is well formed; warnings do not count.
\<close>

theorem accepted_model_well_formed:
  assumes "\<forall>c\<in>set (claims_of (fmTransactions model)). clOccurrenceDate c < year_9999"
  shows "\<exists>issues. ValidateFinanceModel overflow model = Some issues \<and>
     (snd (snd (SummarizeValidationIssues issues)) \<longleftrightarrow> well_formed_model model)"
  using assms by (rule finance_model_valid)

text \<open>A household: three accounts and a monthly deposit.\<close>

definition household :: FinancialModel where
  "household = empty_model\<lparr>fmAccounts := [wallet, card, savings], fmSchedules := [deposit]\<rparr>"

lemma household_amount: "ValidateAmountDescriptor (scAmount deposit) references = Some (Inr [])"
  by (simp add: deposit_def ValidateAmountDescriptor_def LookupAmountResolver_def amountResolvers_def expression_resolver_def
      config_expression_def sample_amount validateExactKeys_def)

lemma household_rows:
  "fmAccounts household = [wallet, card, savings]" "fmTransactions household = []" "fmSchedules household = [deposit]"
  "fmPlannedPurchases household = []" "fmCheckpoints household = []" "fmPaymentTerms household = []"
  by (simp_all add: household_def empty_model_def)

lemma household_well_formed: "well_formed_model household"
proof -
  have amounts: "model_amounts household = [(''pay'', scAmount deposit)]"
    by (simp add: model_amounts_def transaction_amounts_def rule_amounts_def household_rows deposit_def)
  have "amount_ok (reference_context household) (scAmount deposit)" "valid_dependencies (reference_context household) (scAmount deposit) = []"
    by (simp_all add: amount_ok_def valid_dependencies_def household_amount) (simp add: deposit_def CountVolatileRateInputs_def)
  then have "dependency_relation household = {}" "\<forall>(i, amount)\<in>set (model_amounts household). amount_ok (reference_context household) amount \<and>
      set (valid_dependencies (reference_context household) amount) \<inter> ppID ` set (fmPlannedPurchases household) = {}"
    by (simp_all add: amounts dependency_relation_def)
  moreover have "\<forall>a\<in>set (fmAccounts household). account_ok (set (payable_ids household)) a"
    by (simp add: household_rows payable_ids_def account_ok_def wallet_def card_def savings_def deposit_def AccountKind_Valid_def
        accountKinds_def MaxBalanceValue_def MinBalanceValue_def NoCeiling_def NoFloor_def f64_of_rat_numeral)
  moreover have "rule_ok (set (map acID (fmAccounts household))) deposit"
  proof -
    have "IsValidIsoDate ''2024-01-31''" by code_simp
    then show ?thesis
      by (simp add: household_rows rule_ok_def route_ok_def slice_def schedule_ok_def deposit_def wallet_def card_def savings_def)
  qed
  moreover have "distinct (map acID (fmAccounts household))" "distinct (payable_ids household)"
    by (simp_all add: household_rows payable_ids_def wallet_def card_def savings_def)
  moreover have "validateAccountDisplays household = []"
    by (simp add: validateAccountDisplays_def household_rows wallet_def card_def savings_def)
  ultimately show ?thesis
    by (simp add: well_formed_model_def household_rows claims_of_def map_filter_simps acyclic_def)
qed

lemma accepted_model_well_formed_witness:
  "(\<exists>issues. ValidateFinanceModel (\<lambda>_. 0) household = Some issues \<and> snd (snd (SummarizeValidationIssues issues))) \<and>
   (\<exists>issues. ValidateFinanceModel (\<lambda>_. 0) (household\<lparr>fmAccounts := [wallet, wallet]\<rparr>) = Some issues \<and>
      \<not> snd (snd (SummarizeValidationIssues issues)))"
proof
  have none: "claims_of (fmTransactions household) = []"
    by (simp add: household_rows claims_of_def map_filter_simps)
  show "\<exists>issues. ValidateFinanceModel (\<lambda>_. 0) household = Some issues \<and> snd (snd (SummarizeValidationIssues issues))"
    using accepted_model_well_formed [of household "\<lambda>_. 0"] none household_well_formed by simp
  have "\<not> well_formed_model (household\<lparr>fmAccounts := [wallet, wallet]\<rparr>)"
    by (simp add: well_formed_model_def)
  then show "\<exists>issues. ValidateFinanceModel (\<lambda>_. 0) (household\<lparr>fmAccounts := [wallet, wallet]\<rparr>) = Some issues \<and>
      \<not> snd (snd (SummarizeValidationIssues issues))"
    using accepted_model_well_formed [of "household\<lparr>fmAccounts := [wallet, wallet]\<rparr>" "\<lambda>_. 0"] none by simp
qed

section \<open>Cycles of dependencies\<close>

lemma settled_iff:
  assumes "finite (Mapping.keys dependencies)"
  shows "settled dependencies i \<longleftrightarrow> \<not> reaches_cycle dependencies i"
proof
  assume "\<not> reaches_cycle dependencies i"
  have start: "search_ok dependencies \<lparr>srVisiting = {}, srVisited = {}, srCyclic = {}\<rparr>" by (simp add: search_ok_def)
  from visit_correct(1) [OF assms _ this, of "search_fuel dependencies" i]
  show "settled dependencies i" using \<open>\<not> reaches_cycle dependencies i\<close> by (auto simp: search_fuel_def split: if_splits)
qed (rule settled_no_cycle)

text \<open>
  C38.  The search for circular amounts returns on every graph of dependencies, and it reports, in
  the order of the rows, exactly the transactions and schedules whose dependencies lead into a
  cycle; every other row is settled, that is, it can be resolved after the rows it depends on.
\<close>

theorem dependency_cycles_reported:
  assumes "finite (Mapping.keys dependencies)"
  shows "validateTransactionDependencies model dependencies =
       Some (each (\<lambda>index i. if reaches_cycle dependencies i then [circular_error ''transactions'' index i] else []) 0
           (map trID (fmTransactions model)) @
         each (\<lambda>index i. if reaches_cycle dependencies i then [circular_error ''schedules'' index i] else []) 0
           (map scID (fmSchedules model))) \<and>
     (settled dependencies i \<longleftrightarrow> \<not> reaches_cycle dependencies i)"
  using dependencies_reported [OF assms, of model] settled_iff [OF assms] by (simp_all add: circular_rows_def [abs_def])

text \<open>The payment depends on the rent, the rent on the interest, and the interest on the rent.\<close>

definition rent_loop :: "string list gomap" where
  "rent_loop = Mapping.update ''pay'' [''rent''] (Mapping.update ''rent'' [''interest'']
     (Mapping.update ''interest'' [''rent''] (Mapping.update ''gift'' [] Mapping.empty)))"

lemma dependency_cycles_reported_witness:
  "validateTransactionDependencies (household\<lparr>fmSchedules := [deposit, deposit\<lparr>scID := ''gift''\<rparr>]\<rparr>) rent_loop =
     Some [circular_error ''schedules'' 0 ''pay''] \<and> settled rent_loop ''gift''"
proof -
  have finite: "finite (Mapping.keys rent_loop)" by (simp add: rent_loop_def)
  have edges: "(''pay'', ''rent'') \<in> depends rent_loop" "(''rent'', ''interest'') \<in> depends rent_loop"
    "(''interest'', ''rent'') \<in> depends rent_loop"
    by (simp_all add: depends_def rent_loop_def lookup_default_update')
  note round = trancl_into_trancl [OF r_into_trancl [OF edges(2)] edges(3)]
  have "(''pay'', ''rent'') \<in> (depends rent_loop)\<^sup>* \<and> (''rent'', ''rent'') \<in> (depends rent_loop)\<^sup>+"
    by (rule conjI [OF r_into_rtrancl [OF edges(1)] round])
  then have "reaches_cycle rent_loop ''pay''" unfolding reaches_cycle_def by (rule exI)
  moreover have "settled rent_loop ''gift''"
    by (rule settled.settled) (simp add: rent_loop_def lookup_default_update')
  ultimately show ?thesis
    using dependency_cycles_reported [OF finite, of "household\<lparr>fmSchedules := [deposit, deposit\<lparr>scID := ''gift''\<rparr>]\<rparr>" "''gift''"]
    by (simp add: household_rows deposit_def)
qed

end
