(* ===== verification/Run_Safety.thy ===== *)
theory Run_Safety
  imports Validation_Properties History_Properties
begin

text \<open>
  What the validator is worth to a run: on a model it accepts, neither the replay of history nor
  the simulation panics or loops, and the only errors left are the ones that depend on balances: an
  account without terms, a number that is not finite, an expression that cannot be evaluated.  The
  amounts come first, then the occurrences, then the runs.
\<close>

section \<open>Safe results\<close>

text \<open>A result that is there, and whose error, if it is one, is of the given kind.\<close>

definition safe :: "('e \<Rightarrow> bool) \<Rightarrow> ('e + 'a) option \<Rightarrow> bool" where
  "safe expected m \<longleftrightarrow> (\<exists>r. m = Some r \<and> (\<forall>e. r = Inl e \<longrightarrow> expected e))"

lemma safe_simps [simp]:
  "safe expected (Some (Inr v))" "safe expected (Some (Inl e)) \<longleftrightarrow> expected e" "\<not> safe expected None"
  by (auto simp: safe_def)

lemma safe_and_then:
  "safe expected m \<Longrightarrow> (\<And>v. m = Some (Inr v) \<Longrightarrow> safe expected (f v)) \<Longrightarrow> safe expected (and_then m f)"
  by (auto simp: safe_def and_then_def split: sum.split)

fun run_time_error :: "amount_error \<Rightarrow> bool" where
  "run_time_error (TermsMissing _) = True"
| "run_time_error (InputNotFinite _) = True"
| "run_time_error (ExpressionError (Eval _)) = True"
| "run_time_error NonfiniteResult = True"
| "run_time_error _ = False"

fun run_error :: "execution_error \<Rightarrow> bool" where
  "run_error (AmountFailed e) = run_time_error e"
| "run_error (ResimulationRefused _) = True"
| "run_error _ = False"

section \<open>Amounts\<close>

text \<open>The dates of a context are long enough for \<open>DaysBetween\<close> to read their digits.\<close>

definition context_ok :: "AmountProviderContext \<Rightarrow> bool" where
  "context_ok ctx \<longleftrightarrow> 10 \<le> length (axDate ctx) \<and> (axRuleStartDate ctx = '''' \<or> 10 \<le> length (axRuleStartDate ctx))"

lemma DaysBetween_long: "10 \<le> length a \<Longrightarrow> 10 \<le> length b \<Longrightarrow> \<exists>n. DaysBetween a b = Some n"
  by (simp add: DaysBetween_def splitIsoDate_def)

lemma id_argument: "validateIDArgument args = Some (Inr i) \<Longrightarrow> as_string (map_of args ''id'') = Some i"
  by (auto simp: validateIDArgument_def argString_def split: option.splits if_splits)

lemma growth_safe: "context_ok ctx \<Longrightarrow> and_then (argFloat args ''annualGrowthRate'' True 0) (\<lambda>_. ok ()) = Some (Inr ()) \<Longrightarrow>
    safe expected (growth_factor pow args ctx)"
  using DaysBetween_long [of "axRuleStartDate ctx" "axDate ctx"]
  by (auto simp: growth_factor_def context_ok_def and_then_eq_Inr split: option.split)

lemma terms_safe: "safe run_time_error (case Mapping.lookup m i of None \<Rightarrow> err (TermsMissing i) | Some v \<Rightarrow> ok (f v))"
  by (simp split: option.split)

lemma late_fee_safe:
  assumes "late_fee_references args refs = Some (Inr ())"
  shows "safe run_time_error (late_fee args ctx)"
proof -
  obtain p a f where "text_argument args ''payment'' LateFeePayment = ok p" "text_argument args ''account'' LateFeeAccount = ok a"
    "number_argument args ''fee'' True LateFeeFee = ok f"
    using assms by (auto simp: late_fee_references_def and_then_eq_Inr split: if_splits)
  then show ?thesis
    by (simp add: late_fee_def Let_def split: option.split)
qed

lemma balance_fee_safe:
  assumes "balance_fee_references args refs = Some (Inr ())"
  shows "safe expected (balance_fee args ctx)"
proof -
  obtain a t f where "text_argument args ''account'' BalanceFeeAccount = ok a"
    "number_argument args ''threshold'' False BalanceFeeThreshold = ok t" "number_argument args ''fee'' True BalanceFeeFee = ok f"
    using assms by (auto simp: balance_fee_references_def and_then_eq_Inr split: if_splits)
  then show ?thesis by (simp add: balance_fee_def)
qed

lemma provider_safe:
  assumes "LookupAmountProvider (\<lambda>_ _. 0) name = Some v0" "pvValidateReferences v0 args refs = Some (Inr ())" "context_ok ctx"
  shows "\<exists>v. LookupAmountProvider pow name = Some v \<and> safe run_time_error (pvResolve v args ctx)"
  using assms late_fee_safe [of args refs ctx] balance_fee_safe [of args refs _ ctx] growth_safe [OF assms(3), of args _ pow]
  by (auto simp: LookupAmountProvider_def amountProviders_def model_value_references_def account_references_def and_then_eq_Inr
      model_value_def account_balance_def occurrence_rate_def terms_minimum_def terms_safe Let_def dest!: id_argument
      split: if_splits option.splits)

text \<open>An accepted binding, and the numbers an accepted list of bindings gives.\<close>

lemma input_safe:
  assumes "validate_input (Some refs) name binding = Some (Inr ds)" "context_ok ctx"
  shows "safe run_time_error (input_value pow ctx name binding)"
  unfolding input_value_def
proof (rule safe_and_then)
  show "safe run_time_error (if ibSource binding = ''literal''
        then (case as_number (Some (ibValue binding)) of None \<Rightarrow> err (InputNotFinite name) | Some v \<Rightarrow> ok v)
        else (case LookupAmountProvider pow (ibProvider binding) of
                None \<Rightarrow> err (UnknownProvider (ibProvider binding))
              | Some provider \<Rightarrow> pvResolve provider (ibArguments binding) ctx))"
  proof (cases "ibSource binding = ''literal''")
    case False
    then obtain v0 where "LookupAmountProvider (\<lambda>_ _. 0) (ibProvider binding) = Some v0"
      "pvValidateReferences v0 (ibArguments binding) refs = Some (Inr ())"
      using assms(1) by (auto simp: validate_input_def and_then_eq_Inr split: option.splits)
    from provider_safe [OF this assms(2), of pow] show ?thesis using False by auto
  qed (auto split: option.split)
qed simp

lemma input_value_finite: "input_value pow ctx name binding = Some (Inr v) \<Longrightarrow> \<not> isNonFinite v"
  by (auto simp: input_value_def and_then_eq_Inr split: if_splits)

lemma validate_inputs_each:
  assumes "validate_inputs references inputs names = Some (Inr ds)" "name \<in> set names" "map_of inputs name = Some binding"
  shows "\<exists>ds. validate_input references name binding = Some (Inr ds)"
  using assms(1,2)
proof (induction names arbitrary: ds)
  case (Cons n names)
  then show ?case
    using assms(3) by (cases "map_of inputs n") (auto simp: and_then_eq_Inr)
qed simp

definition all_finite :: "f64 gomap \<Rightarrow> bool" where
  "all_finite m \<longleftrightarrow> (\<forall>n v. Mapping.lookup m n = Some v \<longrightarrow> \<not> isNonFinite v)"

lemma concrete_inputs_safe:
  assumes "\<forall>(name, binding)\<in>set inputs. \<exists>ds. validate_input (Some refs) name binding = Some (Inr ds)" "context_ok ctx"
  shows "safe run_time_error (concrete_inputs pow ctx inputs m)"
  using assms(1)
proof (induction inputs arbitrary: m)
  case (Cons input inputs)
  obtain name binding where i: "input = (name, binding)" by (cases input)
  have "safe run_time_error (input_value pow ctx name binding)"
    using Cons.prems i input_safe [OF _ assms(2)] by auto
  then show ?case
    using Cons i by (auto intro!: safe_and_then)
qed simp

lemma concrete_inputs_values:
  assumes "concrete_inputs pow ctx inputs m = Some (Inr m')" "all_finite m"
  shows "all_finite m' \<and> set (map fst inputs) \<union> Mapping.keys m \<subseteq> Mapping.keys m'"
  using assms
proof (induction inputs arbitrary: m)
  case (Cons input inputs)
  obtain name binding where i: "input = (name, binding)" by (cases input)
  obtain v where v: "input_value pow ctx name binding = Some (Inr v)"
    "concrete_inputs pow ctx inputs (Mapping.update name v m) = Some (Inr m')"
    using Cons.prems(1) by (auto simp: i and_then_eq_Inr)
  have "all_finite (Mapping.update name v m)"
    using Cons.prems(2) input_value_finite [OF v(1)] by (auto simp: all_finite_def lookup_update')
  from Cons.IH [OF v(2) this] show ?case by (auto simp: i)
qed simp

text \<open>A resolver whose requirements hold and whose inputs are there fails only on the values.\<close>

lemma finite_input_ok: "all_finite m \<Longrightarrow> n \<in> Mapping.keys m \<Longrightarrow> \<exists>v. finite_input m n = Some (Inr v)"
  by (auto simp: finite_input_def all_finite_def keys_dom_lookup split: option.split)

lemma resolver_safe:
  assumes "LookupAmountResolver name = Some resolver" "rvRequiredInputs resolver config = Some (Inr required)"
    and "all_finite inputs" "set required \<subseteq> Mapping.keys inputs"
  shows "safe run_time_error (rvResolve resolver config inputs)"
proof -
  consider "resolver = expression_resolver" | "resolver = bracket_resolver"
    using assms(1) by (auto simp: LookupAmountResolver_def amountResolvers_def split: if_splits)
  then show ?thesis
  proof cases
    case 1
    then obtain parsed where "compile_input (config_expression config) = Some (Inr parsed)"
      using assms(2) by (auto simp: expression_resolver_def ArithmeticRequirements_def split: option.splits sum.splits)
    then show ?thesis
      by (simp add: 1 expression_resolver_def EvaluateArithmetic_def split: sum.split)
  next
    case 2
    then have table: "validateBracketTable config = Some (Inr ())" "required = [''gross'', ''pretax'']"
      using assms(2) by (auto simp: bracket_resolver_def and_then_eq_Inr)
    obtain brackets where "parse_brackets (bracket_rows (map_of config ''brackets'')) = Some (Inr brackets)"
      using table(1) by (auto simp: validateBracketTable_def and_then_eq_Inr Let_def split: if_splits)
    moreover obtain gross pretax where "finite_input inputs ''gross'' = Some (Inr gross)" "finite_input inputs ''pretax'' = Some (Inr pretax)"
      using finite_input_ok [OF assms(3), of "''gross''"] finite_input_ok [OF assms(3), of "''pretax''"] assms(4) table(2) by auto
    ultimately show ?thesis using table(1) by (simp add: 2 bracket_resolver_def progressive_bracket_def Let_def)
  qed
qed

text \<open>The keys of \<open>amInputs\<close> are those of a Go map, hence distinct.\<close>

definition binding_keys_ok :: "TransactionAmountResolution \<Rightarrow> bool" where
  "binding_keys_ok amount \<longleftrightarrow> distinct (map fst (amInputs amount))"

lemma amount_safe:
  assumes "ValidateAmountDescriptor amount (Some refs) = Some (Inr ds)" "binding_keys_ok amount" "context_ok ctx"
  shows "safe run_time_error (ResolveTransactionAmountDescriptor pow amount ctx)"
proof -
  obtain resolver required where r: "LookupAmountResolver (amResolver amount) = Some resolver"
    "rvRequiredInputs resolver (amConfig amount) = Some (Inr required)"
    "validateExactKeys (amInputs amount) required = Some (Inr ())"
    "validate_inputs (Some refs) (amInputs amount) (sort (map fst (amInputs amount))) = Some (Inr ds)"
    using assms(1) by (auto simp: ValidateAmountDescriptor_def and_then_eq_Inr split: option.splits)
  have inputs: "\<forall>(name, binding)\<in>set (amInputs amount). \<exists>ds. validate_input (Some refs) name binding = Some (Inr ds)"
    using validate_inputs_each [OF r(4)] assms(2) by (force simp: binding_keys_ok_def)
  have required: "set required \<subseteq> set (map fst (amInputs amount))"
    using r(3) by (auto simp: validateExactKeys_def Let_def filter_empty_conv split: if_splits)
  have "safe run_time_error (rvResolve resolver (amConfig amount) m)"
    if "concrete_inputs pow ctx (amInputs amount) Mapping.empty = Some (Inr m)" for m
    using concrete_inputs_values [OF that] required
    by (intro resolver_safe [OF r(1,2)]) (auto simp: all_finite_def)
  then show ?thesis
    by (auto simp: ResolveTransactionAmountDescriptor_def r(1,2,3) intro!: safe_and_then concrete_inputs_safe [OF inputs assms(3)])
qed

section \<open>Occurrences\<close>

definition occurrence_ok :: "AmountReferenceContext \<Rightarrow> string \<Rightarrow> DatedTransactionOccurrence \<Rightarrow> bool" where
  "occurrence_ok refs date occurrence \<longleftrightarrow>
     10 \<le> length date \<and>
     (\<exists>ds. ValidateAmountDescriptor (trAmount (ocTransaction occurrence)) (Some refs) = Some (Inr ds)) \<and>
     binding_keys_ok (trAmount (ocTransaction occurrence)) \<and>
     (\<forall>r. ocRule occurrence = Some r \<longrightarrow> IsValidIsoDate date \<and> IsValidIsoDate (scStartDate r))"

lemma valid_date_length: "IsValidIsoDate d \<Longrightarrow> length d = 10"
  by (elim IsValidIsoDateE) (simp add: iso_date_def)

lemma amount_failed_safe: "safe run_time_error m \<Longrightarrow> safe run_error (amount_failed m)"
  by (cases m rule: amount_failed.cases) simp_all

lemma amount_failed_ok: "amount_failed m = Some (Inr v) \<longleftrightarrow> m = Some (Inr v)"
  by (cases m rule: amount_failed.cases) simp_all

lemma prepare_safe:
  assumes "occurrence_ok refs date occurrence"
  shows "safe run_time_error (PrepareTransactionExecution pow occurrence date historicalActual s rate)"
proof -
  have "context_ok (amount_context occurrence date s rate)"
    using assms valid_date_length
    by (auto simp: context_ok_def amount_context_def occurrence_ok_def split: option.split)
  then have "safe run_time_error (ComputeRequestedAmount pow occurrence date s rate)"
    using assms amount_safe by (auto simp: ComputeRequestedAmount_def occurrence_ok_def)
  moreover have "\<exists>c. cap_remaining occurrence date historicalActual s = Some c"
    using assms by (auto simp: cap_remaining_def occurrence_ok_def Let_def)
  ultimately show ?thesis
    by (auto simp: PrepareTransactionExecution_def intro!: safe_and_then)
qed

lemma apply_returns: "10 \<le> length date \<Longrightarrow> \<exists>r. ApplyPreparedExecution t prepared date = Some r"
  by (simp add: ApplyPreparedExecution_def applyAndCollectDeltas_def observeTransaction_def Let_def)

lemma apply_sample:
  "ApplyPreparedExecution t prepared date = Some (x, t') \<Longrightarrow> rtMonteCarloSample t' = rtMonteCarloSample t"
  by (auto simp: ApplyPreparedExecution_def applyAndCollectDeltas_def observeTransaction_def Let_def split: if_splits)

lemma execute_safe:
  assumes "occurrence_ok refs date occurrence" "rtMonteCarloSample t = None"
  shows "safe run_error (ExecuteTransaction pow t occurrence date historicalActual)"
    and "ExecuteTransaction pow t occurrence date historicalActual = Some (Inr (x, t')) \<Longrightarrow> rtMonteCarloSample t' = None"
proof -
  have rate: "sampled_rate t (ocTransaction occurrence) date = Some (Inr None)"
    using assms(2) by (simp add: sampled_rate_def split: option.split)
  have long: "10 \<le> length date" using assms(1) by (simp add: occurrence_ok_def)
  note applied = apply_returns [OF long, of t]
  show "safe run_error (ExecuteTransaction pow t occurrence date historicalActual)"
    unfolding ExecuteTransaction_def rate and_then_simps
  proof (rule safe_and_then [OF amount_failed_safe [OF prepare_safe [OF assms(1)]]])
    show "safe run_error (map_option Inr (ApplyPreparedExecution t prepared date))" for prepared
      using applied [of prepared] by auto
  qed
  show "ExecuteTransaction pow t occurrence date historicalActual = Some (Inr (x, t')) \<Longrightarrow> rtMonteCarloSample t' = None"
    using assms(2) apply_sample by (fastforce simp: ExecuteTransaction_def rate and_then_eq_Inr)
qed

section \<open>The simulation\<close>

lemma run_occurrence_safe:
  assumes "occurrence_ok refs date occurrence" "rtMonteCarloSample (rsRuntime s) = None"
  shows "safe run_error (run_occurrence pow limit date occurrence s)"
    and "run_occurrence pow limit date occurrence s = Some (Inr s') \<Longrightarrow> rtMonteCarloSample (rsRuntime s') = None"
proof -
  have "\<exists>b. replayed_already limit occurrence date = Some b"
    using assms(1) by (auto simp: replayed_already_def EffectiveOccurrenceInstant_def occurrence_ok_def dayCloseUnix_valid split: option.split)
  then obtain b where b: "replayed_already limit occurrence date = Some b" by blast
  note execute = execute_safe [OF assms(1), of "rsRuntime s" pow False]
  show "safe run_error (run_occurrence pow limit date occurrence s)"
    using execute(1) assms(2) by (auto simp: run_occurrence_def b intro!: safe_and_then split: bool.split)
  show "run_occurrence pow limit date occurrence s = Some (Inr s') \<Longrightarrow> rtMonteCarloSample (rsRuntime s') = None"
    using execute(2) assms(2) by (auto simp: run_occurrence_def b and_then_eq_Inr split: bool.splits)
qed

lemma run_occurrences_safe:
  assumes "\<forall>occurrence\<in>set occurrences. occurrence_ok refs date occurrence" "rtMonteCarloSample (rsRuntime s) = None"
  shows "safe run_error (run_occurrences pow limit date occurrences s) \<and>
    (\<forall>s'. run_occurrences pow limit date occurrences s = Some (Inr s') \<longrightarrow> rtMonteCarloSample (rsRuntime s') = None)"
  using assms
proof (induction occurrences arbitrary: s)
  case (Cons occurrence occurrences)
  then have o: "occurrence_ok refs date occurrence" by simp
  note one = run_occurrence_safe [OF o Cons.prems(2)]
  have rest: "safe run_error (run_occurrences pow limit date occurrences r) \<and>
      (\<forall>s'. run_occurrences pow limit date occurrences r = Some (Inr s') \<longrightarrow> rtMonteCarloSample (rsRuntime s') = None)"
    if "run_occurrence pow limit date occurrence s = Some (Inr r)" for r
  proof (rule Cons.IH)
    show "\<forall>x\<in>set occurrences. occurrence_ok refs date x" using Cons.prems(1) by simp
    show "rtMonteCarloSample (rsRuntime r) = None" by (rule one(2) [OF that])
  qed
  have "safe run_error (run_occurrences pow limit date (occurrence # occurrences) s)"
    using rest by (simp add: safe_and_then [OF one(1)])
  moreover have "\<forall>s'. run_occurrences pow limit date (occurrence # occurrences) s = Some (Inr s') \<longrightarrow>
      rtMonteCarloSample (rsRuntime s') = None"
    using rest by (auto simp: and_then_eq_Inr)
  ultimately show ?case ..
qed simp

lemma run_dates_safe:
  assumes "\<forall>date. \<forall>occurrence\<in>set (go_index [] eventDates date). occurrence_ok refs date occurrence"
    and "rtMonteCarloSample (rsRuntime s) = None"
  shows "safe run_error (run_dates pow limit eventDates dates s)"
  using assms(2)
proof (induction dates arbitrary: s)
  case (Cons date dates)
  have "\<forall>occurrence\<in>set (sortOccurrences (go_index [] eventDates date)). occurrence_ok refs date occurrence"
    using assms(1) by (simp add: sortOccurrences_def)
  note day = run_occurrences_safe [OF this Cons.prems, of pow limit]
  show ?case
    using day Cons.IH by (auto simp: take_snapshot_def intro!: safe_and_then)
qed simp

section \<open>The occurrences of an accepted model\<close>

definition keys_ok :: "FinancialModel \<Rightarrow> bool" where
  "keys_ok model \<longleftrightarrow>
     (\<forall>t\<in>set (fmTransactions model). binding_keys_ok (trAmount t)) \<and> (\<forall>r\<in>set (fmSchedules model). binding_keys_ok (scAmount r))"

definition amounts_ok :: "FinancialModel \<Rightarrow> bool" where
  "amounts_ok model \<longleftrightarrow>
     (\<forall>r\<in>set (fmSchedules model). schedule_ok r \<and> amount_ok (reference_context model) (scAmount r)) \<and>
     (\<forall>t\<in>set (fmTransactions model). amount_ok (reference_context model) (trAmount t))"

lemma well_formed_amounts: "well_formed_model model \<Longrightarrow> amounts_ok model"
  by (auto simp: well_formed_model_def amounts_ok_def model_amounts_def transaction_amounts_def rule_amounts_def rule_ok_def Let_def)

lemma transactionDay_long: "transactionDay t \<noteq> '''' \<Longrightarrow> 10 \<le> length (transactionDay t)"
proof -
  have pad: "w \<le> length (format_0d w n)" for w n
    by (auto simp: format_0d_def zero_pad_def)
  have "10 \<le> length (FormatIsoDate u)" for u
    unfolding FormatIsoDate_def
    using add_mono [OF pad [of 4] add_mono [OF pad [of 2] pad [of 2]]] by (simp split: prod.split)
  then show "transactionDay t \<noteq> '''' \<Longrightarrow> 10 \<le> length (transactionDay t)"
    by (simp add: transactionDay_def Let_def split: if_splits)
qed

lemma resolved_occurrences_ok:
  assumes "amounts_ok model" "keys_ok model" "windowEnd < year_9999"
  shows "\<exists>r. ResolveOccurrences (fmSchedules model) (fmTransactions model) windowStart windowEnd incl = Some r \<and>
    (\<forall>d. \<forall>occurrence\<in>set (go_index [] (roByDate r) d). occurrence_ok (reference_context model) d occurrence)"
proof -
  have rules: "rules_ok (fmSchedules model)"
    using assms(1) by (simp add: rules_ok_def amounts_ok_def schedule_ok_def)
  let ?specs = "due_specs (due_dates (fmTransactions model) windowStart windowEnd incl) 0 (fmSchedules model)"
    and ?moves = "placed (in_window windowStart windowEnd incl) 0 (fmTransactions model)"
  obtain r where r: "ResolveOccurrences (fmSchedules model) (fmTransactions model) windowStart windowEnd incl = Some r"
    "\<And>d. go_index [] (roByDate r) d =
       map instance_occurrence (filter (\<lambda>(n, i, rule, date). date = d) (numbered 0 ?specs)) @
       map transaction_occurrence (filter (\<lambda>(n, i, t). transactionDay t = d) (numbered (int (length ?specs)) ?moves))"
    using ResolveOccurrences_by_date [OF rules assms(3)] unfolding Let_def by metis
  have due: "rule \<in> set (fmSchedules model) \<and> IsValidIsoDate d" if "(k, i, rule, d) \<in> set (numbered 0 ?specs)" for k i rule d
  proof -
    have "(i, rule, d) \<in> set ?specs" using that by (blast intro: ex_numbered [THEN iffD1])
    then have "rule \<in> set (fmSchedules model)" "d \<in> set (due_dates (fmTransactions model) windowStart windowEnd incl rule)"
      by (auto simp: set_due_specs)
    then show ?thesis using rule_window_dates_due(2) [OF rules _ assms(3)] by blast
  qed
  have moved: "t \<in> set (fmTransactions model) \<and> 10 \<le> length (transactionDay t)"
    if "(k, i, t) \<in> set (numbered n ?moves)" for k i t n
  proof -
    have "(i, t) \<in> set ?moves" using that by (blast intro: ex_numbered [THEN iffD1])
    then show ?thesis
      using transactionDay_long by (auto simp: placed_def in_set_enumerate_eq)
  qed
  have "occurrence_ok (reference_context model) d occurrence" if o: "occurrence \<in> set (go_index [] (roByDate r) d)" for d occurrence
    using o unfolding r(2)
    using assms(1,2) due moved
    by (fastforce simp: occurrence_ok_def instance_occurrence_def transaction_occurrence_def rule_instance_def amounts_ok_def
        amount_ok_def keys_ok_def schedule_ok_def valid_date_length)
  with r(1) show ?thesis by blast
qed

section \<open>The replay of history\<close>

definition event_ok :: "AmountReferenceContext \<Rightarrow> historyEvent \<Rightarrow> bool" where
  "event_ok refs e \<longleftrightarrow>
     (case heItem e of Observation _ \<Rightarrow> True | Movement occurrence \<Rightarrow> occurrence_ok refs (heExecDate e) occurrence)"

lemma event_ok_simps [simp]:
  "event_ok refs \<lparr>heInstant = instant, heItem = Observation c, heExecDate = date, heSeq = n\<rparr>"
  "event_ok refs \<lparr>heInstant = instant, heItem = Movement occurrence, heExecDate = date, heSeq = n\<rparr> \<longleftrightarrow>
     occurrence_ok refs date occurrence"
  by (simp_all add: event_ok_def)

lemma instant_returns:
  assumes "occurrence_ok refs date occurrence"
  obtains instant where "EffectiveOccurrenceInstant occurrence date = Some instant"
  using assms by (cases "ocRule occurrence") (auto simp: EffectiveOccurrenceInstant_def occurrence_ok_def dayCloseUnix_valid)

lemma collect_day_ok:
  assumes "\<forall>occurrence\<in>set occurrences. occurrence_ok refs date occurrence" "\<forall>e\<in>set (clEvents s). event_ok refs e"
  shows "\<exists>s'. collect_day cutInstant date occurrences s = Some s' \<and> (\<forall>e\<in>set (clEvents s'). event_ok refs e)"
  using assms
proof (induction occurrences arbitrary: s)
  case (Cons occurrence occurrences)
  have o: "occurrence_ok refs date occurrence" using Cons.prems(1) by simp
  then obtain instant where i: "EffectiveOccurrenceInstant occurrence date = Some instant" by (rule instant_returns)
  show ?case
    using Cons.prems Cons.IH o by (auto simp: i add_event_def)
qed simp

lemma collect_days_ok:
  assumes "\<forall>date. \<forall>occurrence\<in>set (go_index [] byDate date). occurrence_ok refs date occurrence"
    and "\<forall>e\<in>set (clEvents s). event_ok refs e"
  shows "\<exists>s'. collect_days cutInstant byDate dates s = Some s' \<and> (\<forall>e\<in>set (clEvents s'). event_ok refs e)"
  using assms(2)
proof (induction dates arbitrary: s)
  case (Cons date dates)
  have "\<forall>occurrence\<in>set (go_index [] byDate date). occurrence_ok refs date occurrence" using assms(1) by blast
  from collect_day_ok [OF this Cons.prems, of cutInstant] obtain s' where
    "collect_day cutInstant date (go_index [] byDate date) s = Some s'" "\<forall>e\<in>set (clEvents s'). event_ok refs e" by blast
  then show ?case using Cons.IH by simp
qed simp

lemma collect_early_ok:
  assumes "\<forall>t\<in>set ts. binding_keys_ok (trAmount t) \<and> amount_ok refs (trAmount t)" "\<forall>e\<in>set events. event_ok refs e"
  shows "\<forall>e\<in>set (collect_early startDate cutInstant added i ts events). event_ok refs e"
  using assms
proof (induction ts arbitrary: i events)
  case (Cons t ts)
  have "transactionDay t \<noteq> '''' \<Longrightarrow> occurrence_ok refs (transactionDay t) (early_occurrence t i)"
    using Cons.prems(1) transactionDay_long by (simp add: occurrence_ok_def early_occurrence_def amount_ok_def)
  then have "transactionDay t \<noteq> '''' \<Longrightarrow>
      \<forall>e\<in>set (add_event (TransactionInstant t) (Movement (early_occurrence t i)) (transactionDay t) events). event_ok refs e"
    using Cons.prems(2) by (simp add: add_event_def)
  then show ?case
    using Cons.IH Cons.prems by (cases "transactionDay t = ''''") (simp_all add: Let_def)
qed simp

lemma collect_observations_ok:
  "\<forall>e\<in>set events. event_ok refs e \<Longrightarrow> \<forall>e\<in>set (collect_observations cutInstant cs events). event_ok refs e"
proof (induction cs arbitrary: events)
  case (Cons c cs)
  have "\<forall>e\<in>set (add_event (CheckpointInstant c) (Observation c) (FormatIsoDate (CheckpointInstant c)) events). event_ok refs e"
    using Cons.prems by (simp add: add_event_def)
  from Cons.IH [OF this] Cons.IH [OF Cons.prems] show ?case by simp
qed simp

lemma history_events_ok:
  assumes "amounts_ok model" "keys_ok model" "startDate < year_9999"
  shows "\<exists>events. history_events days model startDate cutInstant = Some events \<and>
    (\<forall>e\<in>set events. event_ok (reference_context model) e)"
proof -
  obtain r where r: "ResolveOccurrences (fmSchedules model) (fmTransactions model)
      (earliest_day startDate (fmCheckpoints model)) startDate True = Some r"
    "\<forall>d. \<forall>occurrence\<in>set (go_index [] (roByDate r) d). occurrence_ok (reference_context model) d occurrence"
    using resolved_occurrences_ok [OF assms] by blast
  obtain s where s: "collect_days cutInstant (roByDate r) (days (roByDate r)) \<lparr>clEvents = [], clAddedTransaction = Mapping.empty\<rparr> = Some s"
    "\<forall>e\<in>set (clEvents s). event_ok (reference_context model) e"
    using collect_days_ok [OF r(2), of "\<lparr>clEvents = [], clAddedTransaction = Mapping.empty\<rparr>" cutInstant "days (roByDate r)"]
    by auto
  have "\<forall>t\<in>set (fmTransactions model). binding_keys_ok (trAmount t) \<and> amount_ok (reference_context model) (trAmount t)"
    using assms(1,2) by (simp add: amounts_ok_def keys_ok_def)
  from collect_observations_ok [OF collect_early_ok [OF this s(2)]] r(1) s(1) show ?thesis
    by (simp add: history_events_def)
qed

text \<open>What can still stop the preparation of an accepted model: a replayed occurrence, the dates of the request.\<close>

fun preparation_error_ok :: "preparation_error \<Rightarrow> bool" where
  "preparation_error_ok (SimulationPreparationError issues) \<longleftrightarrow>
     (\<exists>issue. issues = [issue] \<and> (case viMessage issue of ReplayText _ _ e \<Rightarrow> run_error e
        | _ \<Rightarrow> viCode issue \<in> {''checkpoint.date.future'', ''settings.projection-start.format'', ''settings.asOfInstant.day-mismatch''}))"
| "preparation_error_ok (PreparationRefused _) = True"

lemma replay_event_safe:
  assumes "event_ok refs e" "rtMonteCarloSample (rpRuntime s) = None"
  shows "safe preparation_error_ok (replay_event pow e s)"
    and "replay_event pow e s = Some (Inr s') \<Longrightarrow> rtMonteCarloSample (rpRuntime s') = None"
proof -
  let ?s = "open_day (heExecDate e) s"
  have opened: "rtMonteCarloSample (rpRuntime ?s) = None"
    using assms(2) by (simp add: open_day_def flushDay_def)
  show "safe preparation_error_ok (replay_event pow e s)"
  proof (cases "heItem e")
    case (Movement occurrence)
    then have "occurrence_ok refs (heExecDate e) occurrence" using assms(1) by (simp add: event_ok_def)
    from execute_safe(1) [OF this opened, of pow "ocRule occurrence = None"] show ?thesis
      by (auto simp: replay_event_def Movement executeOccurrence_def replay_failed_def error_issue_def safe_def Let_def
          split: sum.split)
  qed (simp add: replay_event_def Let_def)
  show "rtMonteCarloSample (rpRuntime s') = None" if r: "replay_event pow e s = Some (Inr s')"
  proof (cases "heItem e")
    case (Movement occurrence)
    then have "occurrence_ok refs (heExecDate e) occurrence" using assms(1) by (simp add: event_ok_def)
    note executed = execute_safe(2) [OF this opened]
    show ?thesis
      using r executed by (auto simp: replay_event_def Movement executeOccurrence_def Let_def split: option.splits sum.splits)
  next
    case (Observation c)
    then show ?thesis using r opened by (auto simp: replay_event_def observe_def Let_def)
  qed
qed

lemma replay_events_safe:
  assumes "\<forall>e\<in>set events. event_ok refs e" "rtMonteCarloSample (rpRuntime s) = None"
  shows "safe preparation_error_ok (replay_events pow events s)"
  using assms
proof (induction events arbitrary: s)
  case (Cons e events)
  have e: "event_ok refs e" using Cons.prems(1) by simp
  have "safe preparation_error_ok (replay_events pow events s')" if "replay_event pow e s = Some (Inr s')" for s'
  proof (rule Cons.IH)
    show "\<forall>e\<in>set events. event_ok refs e" using Cons.prems(1) by simp
    show "rtMonteCarloSample (rpRuntime s') = None" by (rule replay_event_safe(2) [OF e Cons.prems(2) that])
  qed
  then show ?case by (simp add: safe_and_then [OF replay_event_safe(1) [OF e Cons.prems(2)]])
qed simp

lemma replay_safe:
  assumes "amounts_ok model" "keys_ok model" "startDate < year_9999"
  shows "safe preparation_error_ok (replayChronologicalHistoryAt p model startDate cutInstant)"
proof -
  obtain events where e: "history_events (pcRange p) model startDate cutInstant = Some events"
    "\<forall>e\<in>set events. event_ok (reference_context model) e"
    using history_events_ok [OF assms] by blast
  have "rtMonteCarloSample (rpRuntime (start_replay model startDate)) = None"
    by (simp add: start_replay_def CreateTransitionRuntime_def)
  from replay_events_safe [OF e(2) this] show ?thesis
    by (auto simp: replayChronologicalHistoryAt_def e(1) future_message_def error_issue_def split: option.split intro!: safe_and_then)
qed

section \<open>Accepted models\<close>

lemma financial_model_ok:
  assumes "ValidateFinancialModel overflow model = Some issues" "snd (snd (SummarizeValidationIssues issues))"
  shows "amounts_ok model" "ApplyModelOverrides model EmptyModelOverrides = model"
proof -
  obtain amounts dependencies where amounts: "validateTransactionAmounts model (account_ids model) (id_set (payable_ids model)) =
      Some (amounts, dependencies)"
    "clean amounts \<longleftrightarrow> (\<forall>(i, amount)\<in>set (model_amounts model). amount_ok (reference_context model) amount)"
    using amounts_clean [of model] by blast
  have "clean issues"
    using assms(2) by (simp add: SummarizeValidationIssues_def Let_def filter_empty_conv list_all_iff)
  then have clean: "clean amounts" "clean (validateSchedules model (account_ids model))"
    "clean (fst (scan (checkpoint_issues (account_ids model)) 0 (fmCheckpoints model) {}))"
    using assms(1) amounts(1) collisions_clean(2) [of model]
    by (auto simp: ValidateFinancialModel_def validateModel_def Let_def case_prod_beta bind_eq_Some_conv)
  show "amounts_ok model"
    using clean(1,2) amounts(2) fixed_clean(4) [OF refl refl, of model]
    by (auto simp: amounts_ok_def model_amounts_def transaction_amounts_def rule_amounts_def rule_ok_def)
  have "\<forall>c\<in>set (fmCheckpoints model). ckAccountID c \<in> set (map acID (fmAccounts model))"
    using clean(3) fixed_clean(2) [OF refl refl, of model] by simp
  then have "filter (\<lambda>c. ckAccountID c \<in> set (map acID (fmAccounts model))) (fmCheckpoints model) = fmCheckpoints model"
    by (simp add: filter_id_conv)
  then show "ApplyModelOverrides model EmptyModelOverrides = model"
    by (simp add: ApplyModelOverrides_def EmptyModelOverrides_def Let_def)
qed

lemma simulate_safe:
  assumes "amounts_ok model" "keys_ok model" "rqModel request = simulation_inputs model"
    and "rqEndDate request < year_9999" "rqMonteCarloSample request = None"
  shows "safe run_error (Simulate env request)"
proof -
  obtain r where r: "ResolveOccurrences (fmSchedules model) (fmTransactions model) (rqStartDate request) (rqEndDate request)
      (rqIncludeStartDateEvents request) = Some r"
    "\<forall>d. \<forall>occurrence\<in>set (go_index [] (roByDate r) d). occurrence_ok (reference_context model) d occurrence"
    using resolved_occurrences_ok [OF assms(1,2,4)] by blast
  have dates: "event_dates request [] [] = Some (roByDate r)"
    using r(1) by (simp add: event_dates_def assms(3) simulation_inputs_def)
  have "rtMonteCarloSample (rsRuntime (start_run request)) = None"
    by (simp add: start_run_def CreateTransitionRuntime_def assms(5))
  note run = run_dates_safe [OF r(2) this]
  show ?thesis
    by (auto simp: Simulate_def simulateScheduled_def requireResimulationAllowed_def dates intro!: safe_and_then run)
qed

lemma add_years_returns: "IsValidIsoDate d \<Longrightarrow> \<exists>e. AddYearsClamped d n = Some e"
  using valid_date_length [of d] by (simp add: AddYearsClamped_def AddMonthsClamped_def splitIsoDate_def)

text \<open>
  C22.  A model the validator accepts can be projected: the preparation returns, and fails only for
  the dates of the request or with an occurrence that cannot be replayed; and the simulation of a
  request so prepared returns, and fails only on balances (an account without terms, an expression
  that cannot be evaluated, a number that is not finite) or because the process refuses to simulate.
  No malformed amount, unknown provider or missing input is left to be found, and nothing panics or
  runs on for ever.  The horizon ends before the year 9999.
\<close>

theorem accepted_model_projects:
  assumes "ValidateFinancialModel overflow model = Some issues" "snd (snd (SummarizeValidationIssues issues))" "keys_ok model"
    and "psFallbackProjectionStartDate settings < year_9999"
    and "\<forall>e. AddYearsClamped (psFallbackProjectionStartDate settings) (psHorizonYears settings) = Some e \<longrightarrow> e < year_9999"
  shows "safe preparation_error_ok
       (PrepareSimulationRequest p (ValidateFinancialModel overflow) (Some model) settings EmptyModelOverrides None) \<and>
     (\<forall>prep. PrepareSimulationRequest p (ValidateFinancialModel overflow) (Some model) settings EmptyModelOverrides None = Some (Inr prep) \<longrightarrow>
        safe run_error (Simulate (pcEnv p) (ppRequest prep)))"
proof -
  let ?start = "psFallbackProjectionStartDate settings"
  note ok = financial_model_ok(1) [OF assms(1,2)]
  have errors: "filter (\<lambda>issue. viSeverity issue = SeverityError) issues = []"
    using assms(2) by (simp add: SummarizeValidationIssues_def is_error_def [abs_def] Let_def)
  note overrides = financial_model_ok(2) [OF assms(1,2)]
  have position: "preparePositionWithValidator p (Some model) ?start cut EmptyModelOverrides (ValidateFinancialModel overflow) =
      (if \<not> IsValidIsoDate ?start then Some (Inl (start_date_failed ?start))
       else and_then (replayChronologicalHistoryAt p model ?start cut) (\<lambda>replay. Some (Inr
         \<lparr>poModel = model, poState = hrState replay, poSnapshots = hrSnapshots replay,
          poIncludeStartDateEvents = hrIncludeStartDateEvents replay, poReplay = replay\<rparr>)))" for cut
    by (simp add: preparePositionWithValidator_def overrides assms(1) errors)
  have start: "preparation_error_ok (start_date_failed ?start)"
    by (simp add: start_date_failed_def error_issue_def)
  have cut: "safe preparation_error_ok (request_cut settings ?start)" if "IsValidIsoDate ?start"
    using that by (simp add: request_cut_def dayCloseUnix_valid error_issue_def split: option.split)
  have prepare: "safe preparation_error_ok (preparePositionWithValidator p (Some model) ?start cut EmptyModelOverrides (ValidateFinancialModel overflow))" for cut
    unfolding position using start by (simp add: safe_and_then [OF replay_safe [OF ok assms(3,4)]])
  show ?thesis
  proof (intro conjI allI impI)
    show "safe preparation_error_ok (PrepareSimulationRequest p (ValidateFinancialModel overflow) (Some model) settings EmptyModelOverrides None)"
      using start add_years_returns [of ?start "psHorizonYears settings"]
      by (auto simp: PrepareSimulationRequest_def requireResimulationAllowed_def Let_def
          intro!: safe_and_then [OF cut] safe_and_then [OF prepare])
    fix prep
    assume "PrepareSimulationRequest p (ValidateFinancialModel overflow) (Some model) settings EmptyModelOverrides None = Some (Inr prep)"
    then have "rqModel (ppRequest prep) = simulation_inputs model" "rqEndDate (ppRequest prep) < year_9999"
      "rqMonteCarloSample (ppRequest prep) = None"
      using assms(5) by (auto simp: PrepareSimulationRequest_def position and_then_eq_Inr Let_def split: option.splits sum.splits if_splits)
    then show "safe run_error (Simulate (pcEnv p) (ppRequest prep))"
      by (rule simulate_safe [OF ok assms(3)])
  qed
qed

definition household_settings :: ProjectionRuntimeSettings where
  "household_settings =
     \<lparr>psFallbackProjectionStartDate = ''2024-01-31'', psHorizonYears = 1, psEvaluations = EmptyEvaluationTables, psAsOfInstant = None\<rparr>"

lemma household_valid:
  "\<exists>issues. ValidateFinancialModel (\<lambda>_. 0) household = Some issues \<and> snd (snd (SummarizeValidationIssues issues))"
proof -
  have "ValidateFinancialModel (\<lambda>_. 0) household = ValidateFinanceModel (\<lambda>_. 0) household"
    by (simp add: ValidateFinancialModel_def ValidateFinanceModel_def validateModel_def household_def empty_model_def
        EmptyEvaluationTables_def validateEvaluationInstanceIDs_def validateEvaluationConfigs_def evaluation_tables_def
        validateEvaluationAccountReferences_def registered_validator_def Let_def case_prod_beta)
  moreover have "claims_of (fmTransactions household) = []"
    by (simp add: household_rows claims_of_def map_filter_simps)
  ultimately show ?thesis
    using finance_model_valid [of household "\<lambda>_. 0"] household_well_formed by simp
qed

lemma accepted_model_projects_witness:
  "safe preparation_error_ok
     (PrepareSimulationRequest sample_process (ValidateFinancialModel (\<lambda>_. 0)) (Some household) household_settings EmptyModelOverrides None)"
proof -
  obtain issues where issues: "ValidateFinancialModel (\<lambda>_. 0) household = Some issues" "snd (snd (SummarizeValidationIssues issues))"
    using household_valid by blast
  have keys: "keys_ok household"
    by (simp add: keys_ok_def household_rows binding_keys_ok_def deposit_def)
  have start: "psFallbackProjectionStartDate household_settings < year_9999" by code_simp
  have "AddYearsClamped ''2024-01-31'' 1 = Some ''2025-01-31''" "''2025-01-31'' < year_9999" by code_simp+
  then have "\<forall>e. AddYearsClamped (psFallbackProjectionStartDate household_settings) (psHorizonYears household_settings) = Some e \<longrightarrow>
      e < year_9999"
    by (simp add: household_settings_def)
  from accepted_model_projects [OF issues keys start this] show ?thesis ..
qed

end
