(* ===== verification/Evaluation_Runtime.thy ===== *)
theory Evaluation_Runtime
  imports Report Evaluation_Config
begin

text \<open>
  The evaluation runtime: \<open>backend/internal/domain/evaluation_runtime.go\<close> with the result types of
  \<open>backend/internal/types/results.go\<close> and \<open>evaluation_tables.go\<close>.  A definition is the record of
  functions the code registers, over the types of its configuration \<open>'c\<close>, of its results \<open>'r\<close> and of
  its accumulator \<open>'a\<close>; an accumulator the code updates in place is returned updated.  A definition
  and the configuration it parsed belong to each other, so a runtime holds them as a pair.  An outer
  \<open>None\<close> is a panic or a call that does not return.

  The guard that keeps readers from simulating counts in variables of the process: a reader may
  simulate only while some other request has a simulation in flight, the argument \<open>inflight\<close>.
\<close>

section \<open>Results\<close>

datatype EvaluationResultStatus = StatusSatisfied | StatusNotSatisfied | StatusWarning | StatusIndeterminate

text \<open>The message of a diagnostic: a text of the code, or the text of an error of the kernel; \<open>CycleText cycle transaction
  date e\<close> is the error of a replayed transaction as the code wraps it.\<close>

datatype diagnostic_message = DiagnosticText issue_message | ExecutionText execution_error | CycleText string string string execution_error

record EvaluationDiagnostic =
  dgCode :: string
  dgSeverity :: string
  dgMessage :: diagnostic_message
  dgDate :: "string option"
  dgRelatedAccountIDs :: "string list"
  dgRelatedTransactionIDs :: "string list"

record EvaluationResultEnvelope =
  evInstance :: string
  evResultName :: string
  evStatus :: EvaluationResultStatus
  evDeterministic :: json
  evProbabilistic :: json
  evDiagnostics :: "EvaluationDiagnostic list"

record EvaluationResultTables =
  erFinancialIndependence :: "EvaluationResultEnvelope list"
  erNetWorthThreshold :: "EvaluationResultEnvelope list"
  erAccountBalance :: "EvaluationResultEnvelope list"
  erTransactionFulfillment :: "EvaluationResultEnvelope list"
  erCycleFulfillment :: "EvaluationResultEnvelope list"
  erPlannedPurchases :: "EvaluationResultEnvelope list"
  erWhatIf :: "EvaluationResultEnvelope list"

definition result_tables :: "EvaluationResultTables \<Rightarrow> (string \<times> EvaluationResultEnvelope list) list" where
  "result_tables t =
     [(''financialIndependence'', erFinancialIndependence t), (''netWorthThreshold'', erNetWorthThreshold t),
      (''accountBalance'', erAccountBalance t), (''transactionFulfillment'', erTransactionFulfillment t),
      (''cycleFulfillment'', erCycleFulfillment t), (''plannedPurchases'', erPlannedPurchases t),
      (''whatIf'', erWhatIf t)]"

section \<open>Definitions\<close>

record EvaluationContext =
  exPath :: ProjectionPath
  exModel :: FinancialModel
  exMonteCarloSample :: "MonteCarloSample option"
  exDetailLevel :: string

record EvaluationFinalizeContext =
  ezModel :: FinancialModel
  ezDeterministicPath :: ProjectionPath
  ezRunCount :: int

record EvaluationWorkloadPlan =
  wpUnitsPerRun :: int
  wpUnitLabel :: string
  wpUnitAction :: string
  wpIntensiveUnitLabel :: string
  wpIntensiveUnitAction :: string
  wpDescription :: string

record EvaluationWorkloadMeasurement =
  wmUnitsCompleted :: int
  wmIntensiveUnitsCompleted :: int

definition EvaluationKindReader :: string where "EvaluationKindReader = ''reader''"
definition EvaluationKindSimulator :: string where "EvaluationKindSimulator = ''simulator''"

text \<open>A nil function of the struct is \<open>None\<close>; \<open>edToJSON\<close> is the method of the result's type.\<close>

record ('c, 'r, 'a) EvaluationDefinition =
  edType :: string
  edName :: string
  edKind :: string
  edAllowSimulation :: bool
  edParseConfig :: "json \<Rightarrow> (issue_message + 'c) option"
  edEvaluatePath :: "environment \<Rightarrow> EvaluationContext \<Rightarrow> 'c \<Rightarrow> (diagnostic_message + 'r) option"
  edToJSON :: "'r \<Rightarrow> json"
  edCreateAccumulator :: "'c \<Rightarrow> 'r \<Rightarrow> diagnostic_message + 'a"
  edAccumulate :: "'a \<Rightarrow> 'r \<Rightarrow> diagnostic_message + 'a"
  edFinalize :: "'a \<Rightarrow> EvaluationFinalizeContext \<Rightarrow> diagnostic_message + json"
  edStatus :: "'r option \<Rightarrow> json \<Rightarrow> EvaluationResultStatus"
  edDescribeStochasticWork :: "(EvaluationContext \<Rightarrow> 'c \<Rightarrow> EvaluationWorkloadPlan option) option"
  edMeasureStochasticWork :: "('a \<Rightarrow> EvaluationWorkloadMeasurement) option"
  edDiagnoseConfig :: "(EvaluationContext \<Rightarrow> 'c \<Rightarrow> EvaluationDiagnostic list) option"

definition KindOrDefault :: "('c, 'r, 'a) EvaluationDefinition option \<Rightarrow> string" where
  "KindOrDefault d =
     (case d of None \<Rightarrow> EvaluationKindReader
      | Some d \<Rightarrow> if edKind d = '''' then EvaluationKindReader else edKind d)"

definition IsSimulator :: "('c, 'r, 'a) EvaluationDefinition \<Rightarrow> bool" where
  "IsSimulator d \<longleftrightarrow> edKind d = EvaluationKindSimulator \<and> edAllowSimulation d"

text \<open>The registry: the definitions by type, and the types in order.  Registering twice panics.\<close>

record ('c, 'r, 'a) EvaluationRegistry =
  rgDefinitions :: "(string, ('c, 'r, 'a) EvaluationDefinition) mapping"
  rgOrder :: "string list"

definition NewEvaluationRegistry :: "('c, 'r, 'a) EvaluationRegistry" where
  "NewEvaluationRegistry = \<lparr>rgDefinitions = Mapping.empty, rgOrder = []\<rparr>"

definition misconfigured :: "('c, 'r, 'a) EvaluationDefinition \<Rightarrow> bool" where
  "misconfigured d \<longleftrightarrow> edKind d = EvaluationKindSimulator \<and> \<not> edAllowSimulation d"

definition Register :: "('c, 'r, 'a) EvaluationDefinition \<Rightarrow> ('c, 'r, 'a) EvaluationRegistry \<Rightarrow> ('c, 'r, 'a) EvaluationRegistry option" where
  "Register d registry =
     (if Mapping.lookup (rgDefinitions registry) (edType d) \<noteq> None then None
      else if misconfigured d then None
      else Some \<lparr>rgDefinitions = Mapping.update (edType d) d (rgDefinitions registry),
                 rgOrder = sort (rgOrder registry @ [edType d])\<rparr>)"

definition registry_Validate :: "('c, 'r, 'a) EvaluationRegistry \<Rightarrow> issue_message option" where
  "registry_Validate registry =
     first_error (\<lambda>evaluationType.
         case Mapping.lookup (rgDefinitions registry) evaluationType of
           Some d \<Rightarrow>
             if misconfigured d
             then Some (QuotedText ''Evaluation definition '' evaluationType '' selects Kind simulator without AllowSimulation.'')
             else None
         | None \<Rightarrow> None)
       (rgOrder registry)"

definition registry_Get :: "('c, 'r, 'a) EvaluationRegistry \<Rightarrow> string \<Rightarrow> ('c, 'r, 'a) EvaluationDefinition option" where
  "registry_Get registry evaluationType = Mapping.lookup (rgDefinitions registry) evaluationType"

definition withReaderGuard :: "bool \<Rightarrow> ('c, 'r, 'a) EvaluationDefinition \<Rightarrow> environment \<Rightarrow> environment" where
  "withReaderGuard inflight d env = env\<lparr>envResimulationAllowed := IsSimulator d \<or> inflight\<rparr>"

section \<open>One configured evaluation\<close>

record ('c, 'r, 'a) instanceRuntime =
  irType :: string
  irInstanceID :: string
  irName :: string
  irEnabled :: bool
  irDefinition :: "(('c, 'r, 'a) EvaluationDefinition \<times> 'c) option"
  irDiagnostics :: "EvaluationDiagnostic list"
  irDeterministic :: "'r option"
  irProbabilistic :: json
  irAccumulator :: "'a option"
  irStochasticFailed :: bool
  irWorkloadPlan :: "EvaluationWorkloadPlan option"

definition hasErrors :: "('c, 'r, 'a) instanceRuntime \<Rightarrow> bool" where
  "hasErrors r \<longleftrightarrow> (\<exists>d\<in>set (irDiagnostics r). dgSeverity d = ''error'')"

definition diagnostic :: "string \<Rightarrow> string \<Rightarrow> diagnostic_message \<Rightarrow> EvaluationDiagnostic" where
  "diagnostic code severity message =
     \<lparr>dgCode = code, dgSeverity = severity, dgMessage = message, dgDate = None, dgRelatedAccountIDs = [],
      dgRelatedTransactionIDs = []\<rparr>"

definition errorDiagnostic :: "string \<Rightarrow> diagnostic_message \<Rightarrow> EvaluationDiagnostic" where
  "errorDiagnostic code e = diagnostic code ''error'' e"

definition add_diagnostics :: "EvaluationDiagnostic list \<Rightarrow> ('c, 'r, 'a) instanceRuntime \<Rightarrow> ('c, 'r, 'a) instanceRuntime" where
  "add_diagnostics ds r = r\<lparr>irDiagnostics := irDiagnostics r @ ds\<rparr>"

definition evaluateDeterministic ::
  "bool \<Rightarrow> environment \<Rightarrow> EvaluationContext \<Rightarrow> ('c, 'r, 'a) instanceRuntime \<Rightarrow> ('c, 'r, 'a) instanceRuntime option" where
  "evaluateDeterministic inflight env ctx r =
     (case irDefinition r of
        None \<Rightarrow> Some r
      | Some (d, config) \<Rightarrow>
          if hasErrors r then Some r
          else
            let r = add_diagnostics (case edDiagnoseConfig d of None \<Rightarrow> [] | Some f \<Rightarrow> f ctx config) r
            in map_option (\<lambda>result.
                 case result of
                   Inl e \<Rightarrow> add_diagnostics [errorDiagnostic ''evaluation-runtime-error'' e] r
                 | Inr v \<Rightarrow> r\<lparr>irDeterministic := Some v\<rparr>)
                 (edEvaluatePath d (withReaderGuard inflight d env) ctx config))"

definition prepareStochasticWork :: "EvaluationContext \<Rightarrow> ('c, 'r, 'a) instanceRuntime \<Rightarrow> ('c, 'r, 'a) instanceRuntime" where
  "prepareStochasticWork ctx r =
     (case irDefinition r of
        None \<Rightarrow> r
      | Some (d, config) \<Rightarrow>
          if hasErrors r then r
          else (case edDescribeStochasticWork d of None \<Rightarrow> r | Some f \<Rightarrow> r\<lparr>irWorkloadPlan := f ctx config\<rparr>))"

definition startStochastic :: "('c, 'r, 'a) instanceRuntime \<Rightarrow> ('c, 'r, 'a) instanceRuntime" where
  "startStochastic r =
     (case (irDefinition r, irDeterministic r) of
        (Some (d, config), Some deterministic) \<Rightarrow>
          if hasErrors r then r
          else (case edCreateAccumulator d config deterministic of
                  Inl e \<Rightarrow> add_diagnostics [errorDiagnostic ''evaluation-accumulator-error'' e] (r\<lparr>irStochasticFailed := True\<rparr>)
                | Inr a \<Rightarrow> r\<lparr>irAccumulator := Some a\<rparr>)
      | _ \<Rightarrow> r)"

text \<open>A run that fails stops the evaluation's aggregation and clears what it had aggregated.\<close>

definition stochastic_failure :: "string \<Rightarrow> diagnostic_message \<Rightarrow> ('c, 'r, 'a) instanceRuntime \<Rightarrow> ('c, 'r, 'a) instanceRuntime" where
  "stochastic_failure code e r =
     add_diagnostics [errorDiagnostic code e] (r\<lparr>irStochasticFailed := True, irProbabilistic := JNull\<rparr>)"

definition consume_path ::
  "bool \<Rightarrow> environment \<Rightarrow> EvaluationContext \<Rightarrow> ('c, 'r, 'a) instanceRuntime \<Rightarrow> ('c, 'r, 'a) instanceRuntime option" where
  "consume_path inflight env ctx r =
     (case (irDefinition r, irAccumulator r) of
        (Some (d, config), Some a) \<Rightarrow>
          if irStochasticFailed r then Some r
          else map_option (\<lambda>result.
                 case result of
                   Inl e \<Rightarrow> stochastic_failure ''evaluation-runtime-error'' e r
                 | Inr v \<Rightarrow>
                     (case edAccumulate d a v of
                        Inl e \<Rightarrow> stochastic_failure ''evaluation-runtime-error'' e r
                      | Inr a \<Rightarrow> r\<lparr>irAccumulator := Some a\<rparr>))
                 (edEvaluatePath d (withReaderGuard inflight d env) ctx config)
      | _ \<Rightarrow> Some r)"

definition finalize :: "EvaluationFinalizeContext \<Rightarrow> ('c, 'r, 'a) instanceRuntime \<Rightarrow> ('c, 'r, 'a) instanceRuntime" where
  "finalize ctx r =
     (case (irDefinition r, irAccumulator r) of
        (Some (d, config), Some a) \<Rightarrow>
          if irStochasticFailed r then r
          else (case edFinalize d a ctx of
                  Inl e \<Rightarrow> stochastic_failure ''evaluation-finalize-error'' e r
                | Inr v \<Rightarrow> r\<lparr>irProbabilistic := v\<rparr>)
      | _ \<Rightarrow> r)"

record StochasticEvaluationWorkload =
  swType :: string
  swInstanceID :: string
  swName :: string
  swCompletedUnits :: int
  swTotalUnits :: int
  swIntensiveUnitsCompleted :: "int option"
  swUnitLabel :: string
  swUnitAction :: string
  swIntensiveUnitLabel :: string
  swIntensiveUnitAction :: string
  swDescription :: string

definition measured :: "('c, 'r, 'a) instanceRuntime \<Rightarrow> EvaluationWorkloadMeasurement option" where
  "measured r =
     (case (irDefinition r, irAccumulator r) of
        (Some (d, _), Some a) \<Rightarrow>
          if irStochasticFailed r then None else map_option (\<lambda>f. f a) (edMeasureStochasticWork d)
      | _ \<Rightarrow> None)"

definition workloadProgress :: "int \<Rightarrow> int \<Rightarrow> ('c, 'r, 'a) instanceRuntime \<Rightarrow> StochasticEvaluationWorkload option" where
  "workloadProgress completedRuns totalRuns r =
     map_option (\<lambda>plan.
         \<lparr>swType = irType r, swInstanceID = irInstanceID r, swName = irName r,
          swCompletedUnits = (case measured r of None \<Rightarrow> completedRuns * wpUnitsPerRun plan | Some m \<Rightarrow> wmUnitsCompleted m),
          swTotalUnits = totalRuns * wpUnitsPerRun plan,
          swIntensiveUnitsCompleted = map_option wmIntensiveUnitsCompleted (measured r),
          swUnitLabel = wpUnitLabel plan, swUnitAction = wpUnitAction plan,
          swIntensiveUnitLabel = wpIntensiveUnitLabel plan, swIntensiveUnitAction = wpIntensiveUnitAction plan,
          swDescription = wpDescription plan\<rparr>)
       (irWorkloadPlan r)"

definition envelope :: "('c, 'r, 'a) instanceRuntime \<Rightarrow> EvaluationResultEnvelope" where
  "envelope r =
     \<lparr>evInstance = irInstanceID r, evResultName = irName r,
      evStatus =
        (if hasErrors r then StatusWarning
         else case irDefinition r of
                None \<Rightarrow> StatusIndeterminate
              | Some (d, _) \<Rightarrow> edStatus d (irDeterministic r) (irProbabilistic r)),
      evDeterministic =
        (case (irDefinition r, irDeterministic r) of
           (Some (d, _), Some v) \<Rightarrow> edToJSON d v | _ \<Rightarrow> JNull),
      evProbabilistic = irProbabilistic r, evDiagnostics = irDiagnostics r\<rparr>"

section \<open>The set of configured evaluations\<close>

definition rawInstances :: "EvaluationTables \<Rightarrow> (string \<times> EvaluationInstance) list" where
  "rawInstances tables = concat (map (\<lambda>(t, rows). map (Pair t) rows) (evaluation_tables tables))"

definition runtime_of :: "string \<Rightarrow> EvaluationInstance \<Rightarrow> EvaluationDiagnostic list \<Rightarrow>
    (('c, 'r, 'a) EvaluationDefinition \<times> 'c) option \<Rightarrow> ('c, 'r, 'a) instanceRuntime" where
  "runtime_of evaluationType row diagnostics d =
     \<lparr>irType = evaluationType, irInstanceID = evInstanceID row, irName = evName row, irEnabled = evEnabled row,
      irDefinition = d, irDiagnostics = diagnostics, irDeterministic = None, irProbabilistic = JNull,
      irAccumulator = None, irStochasticFailed = False, irWorkloadPlan = None\<rparr>"

definition duplicate_message :: "string \<Rightarrow> diagnostic_message" where
  "duplicate_message i =
     DiagnosticText (if TrimSpace i = '''' then Text ''Evaluation instance ID is required.''
       else QuotedText ''Evaluation instance ID '' i '' is duplicated.'')"

definition new_runtime ::
  "('c, 'r, 'a) EvaluationRegistry \<Rightarrow> (string \<Rightarrow> nat) \<Rightarrow> string \<times> EvaluationInstance \<Rightarrow> ('c, 'r, 'a) instanceRuntime option" where
  "new_runtime registry idCounts = (\<lambda>(evaluationType, row).
     if TrimSpace (evInstanceID row) = '''' \<or> 1 < idCounts (evInstanceID row)
     then Some (runtime_of evaluationType row
       [diagnostic ''duplicate-evaluation-instance-id'' ''error'' (duplicate_message (evInstanceID row))] None)
     else if \<not> evEnabled row
     then Some (runtime_of evaluationType row
       [diagnostic ''evaluation-disabled'' ''info'' (DiagnosticText (Text ''Evaluation is disabled.''))] None)
     else
       (case registry_Get registry evaluationType of
          None \<Rightarrow> Some (runtime_of evaluationType row
            [diagnostic ''unknown-evaluation-definition'' ''error''
               (DiagnosticText (QuotedText ''No evaluator is registered for '' evaluationType ''.''))] None)
        | Some d \<Rightarrow>
            map_option (\<lambda>parsed.
                case parsed of
                  Inl e \<Rightarrow> runtime_of evaluationType row [errorDiagnostic ''invalid-evaluation-config'' (DiagnosticText e)] None
                | Inr config \<Rightarrow> runtime_of evaluationType row [] (Some (d, config)))
              (edParseConfig d (evConfig row))))"

text \<open>The loop over the instances: the first row of every ID.\<close>

fun first_rows :: "string set \<Rightarrow> (string \<times> EvaluationInstance) list \<Rightarrow> (string \<times> EvaluationInstance) list" where
  "first_rows seenIDs [] = []"
| "first_rows seenIDs ((t, row) # rows) =
     (if evInstanceID row \<in> seenIDs then first_rows seenIDs rows
      else (t, row) # first_rows (insert (evInstanceID row) seenIDs) rows)"

definition NewEvaluationRuntimeSet ::
  "EvaluationTables \<Rightarrow> ('c, 'r, 'a) EvaluationRegistry \<Rightarrow> ('c, 'r, 'a) instanceRuntime list option" where
  "NewEvaluationRuntimeSet tables registry =
     (let instances = rawInstances tables;
          idCounts = (\<lambda>i. length (filter (\<lambda>(t, row). evInstanceID row = i) instances))
      in those (map (new_runtime registry idCounts) (first_rows {} instances)))"

definition simulates :: "('c, 'r, 'a) instanceRuntime \<Rightarrow> bool" where
  "simulates r \<longleftrightarrow> (case irDefinition r of None \<Rightarrow> False | Some (d, _) \<Rightarrow> IsSimulator d)"

definition PartitionByKind ::
  "('c, 'r, 'a) instanceRuntime list \<Rightarrow> ('c, 'r, 'a) instanceRuntime list \<times> ('c, 'r, 'a) instanceRuntime list" where
  "PartitionByKind runtimes = (filter (\<lambda>r. \<not> simulates r) runtimes, filter simulates runtimes)"

definition EvaluateDeterministic ::
  "bool \<Rightarrow> environment \<Rightarrow> EvaluationContext \<Rightarrow> ('c, 'r, 'a) instanceRuntime list \<Rightarrow> ('c, 'r, 'a) instanceRuntime list option" where
  "EvaluateDeterministic inflight env ctx runtimes = those (map (evaluateDeterministic inflight env ctx) runtimes)"

definition Consume ::
  "bool \<Rightarrow> environment \<Rightarrow> EvaluationContext \<Rightarrow> ('c, 'r, 'a) instanceRuntime list \<Rightarrow> ('c, 'r, 'a) instanceRuntime list option" where
  "Consume inflight env ctx runtimes = those (map (consume_path inflight env ctx) runtimes)"

definition PrepareStochasticWork :: "EvaluationContext \<Rightarrow> ('c, 'r, 'a) instanceRuntime list \<Rightarrow> ('c, 'r, 'a) instanceRuntime list" where
  "PrepareStochasticWork ctx runtimes = map (prepareStochasticWork ctx) runtimes"

definition StartStochastic :: "('c, 'r, 'a) instanceRuntime list \<Rightarrow> ('c, 'r, 'a) instanceRuntime list" where
  "StartStochastic runtimes = map startStochastic runtimes"

definition Finalize :: "EvaluationFinalizeContext \<Rightarrow> ('c, 'r, 'a) instanceRuntime list \<Rightarrow> ('c, 'r, 'a) instanceRuntime list" where
  "Finalize ctx runtimes = map (finalize ctx) runtimes"

definition WorkloadProgress :: "int \<Rightarrow> int \<Rightarrow> ('c, 'r, 'a) instanceRuntime list \<Rightarrow> StochasticEvaluationWorkload list" where
  "WorkloadProgress completedRuns totalRuns runtimes = List.map_filter (workloadProgress completedRuns totalRuns) runtimes"

text \<open>The envelopes of a type, in the order of the set.\<close>

definition envelopes_of :: "('c, 'r, 'a) instanceRuntime list \<Rightarrow> string \<Rightarrow> EvaluationResultEnvelope list" where
  "envelopes_of runtimes t = map envelope (filter (\<lambda>r. irType r = t) runtimes)"

definition tables_by :: "(string \<Rightarrow> EvaluationResultEnvelope list) \<Rightarrow> EvaluationResultTables" where
  "tables_by rows =
     \<lparr>erFinancialIndependence = rows ''financialIndependence'', erNetWorthThreshold = rows ''netWorthThreshold'',
      erAccountBalance = rows ''accountBalance'', erTransactionFulfillment = rows ''transactionFulfillment'',
      erCycleFulfillment = rows ''cycleFulfillment'', erPlannedPurchases = rows ''plannedPurchases'',
      erWhatIf = rows ''whatIf''\<rparr>"

definition runtime_Result :: "('c, 'r, 'a) instanceRuntime list \<Rightarrow> EvaluationResultTables" where
  "runtime_Result runtimes = tables_by (envelopes_of runtimes)"

text \<open>The envelopes of both collections by instance ID; a later one replaces an earlier one.\<close>

definition envelopes_by_id :: "EvaluationResultTables option list \<Rightarrow> EvaluationResultEnvelope gomap" where
  "envelopes_by_id collections =
     foldl (\<lambda>byID envelope. Mapping.update (evInstance envelope) envelope byID) Mapping.empty
       (concat (map (\<lambda>c. case c of None \<Rightarrow> [] | Some t \<Rightarrow> concat (map snd (result_tables t))) collections))"

definition MergeEvaluationResultCollections ::
  "('c, 'r, 'a) instanceRuntime list \<Rightarrow> EvaluationResultTables option \<Rightarrow> EvaluationResultTables option \<Rightarrow> EvaluationResultTables" where
  "MergeEvaluationResultCollections runtimes reader simulator =
     (let byID = envelopes_by_id [reader, simulator]
      in tables_by (\<lambda>t. List.map_filter (\<lambda>r. Mapping.lookup byID (irInstanceID r)) (filter (\<lambda>r. irType r = t) runtimes)))"

end
