(* ===== verification/Sampling.thy ===== *)
theory Sampling
  imports Evaluation_Config
begin

text \<open>
  Sampling and percentiles: \<open>backend/internal/domain/sampler.go\<close>, \<open>mathRound\<close> of \<open>stochastic.go\<close>, and
  the discovery and drawing of samples in \<open>stochastic_session.go\<close>.  The generator computes in floats
  as the code does.  \<open>math.Log\<close>, \<open>math.Sqrt\<close>, \<open>math.Cos\<close>, \<open>math.Exp\<close> and \<open>math.Pi\<close> are the record
  \<open>math_functions\<close>, and the source of an unseeded sampler is a parameter: no property depends on
  their values.  \<open>None\<close> is a panic: an index out of range, or \<open>make\<close> with a negative length.
\<close>

section \<open>Rounding and conversion\<close>

fun math_Ceil :: "f64 \<Rightarrow> f64" where
  "math_Ceil (FNum r) = FNum (of_int \<lceil>r\<rceil>)"
| "math_Ceil v = v"

fun math_Trunc :: "f64 \<Rightarrow> f64" where
  "math_Trunc (FNum r) = FNum (of_int (if r < 0 then \<lceil>r\<rceil> else \<lfloor>r\<rfloor>))"
| "math_Trunc v = v"

text \<open>\<open>math.Mod(x, m)\<close> for a whole positive \<open>m\<close>; the remainder is exact and has the sign of \<open>x\<close>.\<close>

fun math_Mod :: "f64 \<Rightarrow> int \<Rightarrow> f64" where
  "math_Mod (FNum r) m = f64_of_rat (r - of_int m * of_int (let q = r / of_int m in if q < 0 then \<lceil>q\<rceil> else \<lfloor>q\<rfloor>))"
| "math_Mod _ m = FNaN"

definition mathRound :: "f64 \<Rightarrow> f64" where
  "mathRound v = math_Floor (v + f64_of_rat (1 / 2))"

definition RoundSampleValue :: "f64 \<Rightarrow> f64" where
  "RoundSampleValue v = mathRound v"

text \<open>\<open>int(v)\<close> of a float computed from a length, which is far below \<open>2 ^ 63\<close>.\<close>

definition int_of_float :: "f64 \<Rightarrow> int" where
  "int_of_float v = float_to_int (\<lambda>_. 0) v"

section \<open>The generator\<close>

definition lcgMask :: int where "lcgMask = 0x7fffffff"

definition lcgStateAdvance :: "int \<Rightarrow> int" where
  "lcgStateAdvance state =
     (let s = f64_of_int state * f64_of_int 1664525 + f64_of_int 1013904223
      in if isNaN s \<or> isInf s then 0
         else
           let m = math_Mod (math_Trunc s) 4294967296;
               m = (if m < 0 then m + f64_of_int 4294967296 else m)
           in int_of_float m mod 2 ^ 31)"

definition lcg_next :: "int \<Rightarrow> f64 \<times> int" where
  "lcg_next state =
     (let state = lcgStateAdvance state in (fdiv (f64_of_int state) (f64_of_int lcgMask), state))"

record math_functions =
  mfLog :: "f64 \<Rightarrow> f64"
  mfSqrt :: "f64 \<Rightarrow> f64"
  mfCos :: "f64 \<Rightarrow> f64"
  mfExp :: "f64 \<Rightarrow> f64"
  mfPi :: f64

text \<open>A sampler draws from its source; the state of the source is passed and returned.\<close>

type_synonym 's uniform = "'s \<Rightarrow> f64 \<times> 's"

type_synonym 's sampler = "f64 \<Rightarrow> f64 \<Rightarrow> 's \<Rightarrow> f64 \<times> 's"

definition NewStochasticSampler :: "math_functions \<Rightarrow> 's uniform \<Rightarrow> 's sampler" where
  "NewStochasticSampler mf uniform expectedReturn volatility s =
     (if volatility \<le> 0 then (expectedReturn, s)
      else
        let (u, s) = uniform s;
            (v, s) = uniform s;
            standardNormal =
              mfSqrt mf (f64_of_int (- 2) * mfLog mf (math_Max u (f64_of_rat (1 / 10000000000)))) *
              mfCos mf (f64_of_int 2 * mfPi mf * v);
            sigma = volatility;
            mu = mfLog mf (f64_of_int 1 + expectedReturn) - fdiv (sigma * sigma) (f64_of_int 2)
        in (mfExp mf (mu + sigma * standardNormal) - f64_of_int 1, s))"

record StochasticConfig =
  tcRunCount :: int
  tcSeed :: "int option"

definition NormalizeStochasticConfig :: "StochasticConfig \<Rightarrow> StochasticConfig" where
  "NormalizeStochasticConfig config =
     (let runCount = tcRunCount config
      in \<lparr>tcRunCount = (if runCount < 1 then 1 else if runCount > 10000 then 10000 else runCount),
          tcSeed = tcSeed config\<rparr>)"

section \<open>Percentiles\<close>

fun MergeSorted :: "f64 list \<Rightarrow> f64 list \<Rightarrow> f64 list" where
  "MergeSorted [] bs = bs"
| "MergeSorted (a # as) [] = a # as"
| "MergeSorted (a # as) (b # bs) =
     (if a \<le> b then a # MergeSorted as (b # bs) else b # MergeSorted (a # as) bs)"

text \<open>\<open>sort.Float64s\<close> puts the values that are not numbers first.\<close>

definition float_less :: "f64 \<Rightarrow> f64 \<Rightarrow> bool" where
  "float_less a b \<longleftrightarrow> a < b \<or> isNaN a \<and> \<not> isNaN b"

definition Float64s :: "f64 list \<Rightarrow> f64 list" where
  "Float64s values = sort_by float_less values"

definition value_at :: "f64 list \<Rightarrow> int \<Rightarrow> f64 option" where
  "value_at xs i = (if i < 0 \<or> int (length xs) \<le> i then None else Some (xs ! nat i))"

definition quantile :: "f64 list \<Rightarrow> f64 \<Rightarrow> f64 option" where
  "quantile xs q =
     (let pos = q * f64_of_int (int (length xs) - 1);
          lo = int_of_float (math_Floor pos);
          hi = int_of_float (math_Ceil pos)
      in if lo = hi then value_at xs lo
         else
           let frac = pos - f64_of_int lo
           in (case (value_at xs lo, value_at xs hi) of
                 (Some a, Some b) \<Rightarrow> Some (a * (f64_of_int 1 - frac) + b * frac)
               | _ \<Rightarrow> None))"

record PercentileBands =
  pbP10 :: f64
  pbP25 :: f64
  pbP50 :: f64
  pbP75 :: f64
  pbP90 :: f64

definition zero_bands :: PercentileBands where
  "zero_bands = \<lparr>pbP10 = 0, pbP25 = 0, pbP50 = 0, pbP75 = 0, pbP90 = 0\<rparr>"

definition ComputePercentilesFromSorted :: "f64 list \<Rightarrow> PercentileBands option" where
  "ComputePercentilesFromSorted xs =
     (if xs = [] then Some zero_bands
      else do {
        p10 \<leftarrow> quantile xs (f64_of_rat (1 / 10));
        p25 \<leftarrow> quantile xs (f64_of_rat (1 / 4));
        p50 \<leftarrow> quantile xs (f64_of_rat (1 / 2));
        p75 \<leftarrow> quantile xs (f64_of_rat (3 / 4));
        p90 \<leftarrow> quantile xs (f64_of_rat (9 / 10));
        Some \<lparr>pbP10 = p10, pbP25 = p25, pbP50 = p50, pbP75 = p75, pbP90 = p90\<rparr>
      })"

definition ComputePercentiles :: "f64 list \<Rightarrow> PercentileBands option" where
  "ComputePercentiles values =
     (if values = [] then Some zero_bands else ComputePercentilesFromSorted (Float64s values))"

definition percentilesToJSON :: "PercentileBands \<Rightarrow> json" where
  "percentilesToJSON bands =
     JObj [(''p10'', JNum (pbP10 bands)), (''p25'', JNum (pbP25 bands)), (''p50'', JNum (pbP50 bands)),
           (''p75'', JNum (pbP75 bands)), (''p90'', JNum (pbP90 bands))]"

section \<open>What to draw\<close>

text \<open>
  The number of annual rates each volatile identity needs: the horizon, or more where an occurrence
  falls in a later projection year.  The map of occurrences is visited in any order.
\<close>

definition rule_counts :: "int \<Rightarrow> Schedule list \<Rightarrow> int gomap" where
  "rule_counts horizonYears rules =
     foldl (\<lambda>counts rule.
         case VolatileRateInputOf (scAmount rule) of
           Some params \<Rightarrow>
             if scEnabled rule \<and> 0 < vrVolatility params then Mapping.update (scID rule) horizonYears counts else counts
         | None \<Rightarrow> counts)
       Mapping.empty rules"

definition transaction_counts :: "int \<Rightarrow> Transaction list \<Rightarrow> int gomap \<Rightarrow> int gomap" where
  "transaction_counts horizonYears transactions counts =
     foldl (\<lambda>counts t.
         case VolatileRateInputOf (trAmount t) of
           Some params \<Rightarrow>
             if trEnabled t \<and> 0 < vrVolatility params \<and> Mapping.lookup counts (trID t) = None
             then Mapping.update (trID t) horizonYears counts else counts
         | None \<Rightarrow> counts)
       counts transactions"

definition raise_count :: "int \<Rightarrow> DatedTransactionOccurrence \<Rightarrow> int gomap \<Rightarrow> int gomap" where
  "raise_count requiredCount occurrence counts =
     (let i = trID (ocTransaction occurrence)
      in if VolatileRateInputOf (trAmount (ocTransaction occurrence)) = None then counts
         else (case Mapping.lookup counts i of
                 None \<Rightarrow> Mapping.update i requiredCount counts
               | Some current \<Rightarrow> if current < requiredCount then Mapping.update i requiredCount counts else counts))"

fun raise_dates ::
  "string \<Rightarrow> DatedTransactionOccurrence list gomap \<Rightarrow> string list \<Rightarrow> int gomap \<Rightarrow> int gomap option" where
  "raise_dates startDate byDate [] counts = Some counts"
| "raise_dates startDate byDate (date # dates) counts =
     (case ProjectionYearIndex startDate date of
        None \<Rightarrow> None
      | Some index \<Rightarrow>
          raise_dates startDate byDate dates (fold (raise_count (index + 1)) (go_index [] byDate date) counts))"

definition buildSampleCountsByTransactionId ::
  "(DatedTransactionOccurrence list gomap \<Rightarrow> string list) \<Rightarrow> Schedule list \<Rightarrow> Transaction list \<Rightarrow> int \<Rightarrow> string \<Rightarrow>
   string \<Rightarrow> bool \<Rightarrow> int gomap option" where
  "buildSampleCountsByTransactionId range_order rules transactions horizonYears startDate endDate includeStartDateEvents =
     (case ResolveOccurrences rules transactions startDate endDate includeStartDateEvents of
        None \<Rightarrow> None
      | Some resolved \<Rightarrow>
          raise_dates startDate (roByDate resolved) (range_order (roByDate resolved))
            (transaction_counts horizonYears transactions (rule_counts horizonYears rules)))"

definition samplingParamsByID :: "Schedule list \<Rightarrow> Transaction list \<Rightarrow> (string \<times> VolatileRateParams) list" where
  "samplingParamsByID rules transactions =
     List.map_filter (\<lambda>r. if scEnabled r then map_option (Pair (scID r)) (VolatileRateInputOf (scAmount r)) else None) rules @
     List.map_filter (\<lambda>t. if trEnabled t then map_option (Pair (trID t)) (VolatileRateInputOf (trAmount t)) else None) transactions"

fun draw :: "'s sampler \<Rightarrow> VolatileRateParams \<Rightarrow> nat \<Rightarrow> 's \<Rightarrow> f64 list \<times> 's" where
  "draw sampler params 0 s = ([], s)"
| "draw sampler params (Suc n) s =
     (let (v, s) = sampler (vrAnnualRate params) (vrVolatility params) s; (vs, s) = draw sampler params n s in (v # vs, s))"

fun draw_entries ::
  "'s sampler \<Rightarrow> int gomap \<Rightarrow> (string \<times> VolatileRateParams) list \<Rightarrow> f64 list gomap \<Rightarrow> 's \<Rightarrow> (f64 list gomap \<times> 's) option" where
  "draw_entries sampler sampleCounts [] rates s = Some (rates, s)"
| "draw_entries sampler sampleCounts ((i, params) # entries) rates s =
     (let count = go_index 0 sampleCounts i
      in if count < 0 then None
         else let (samples, s) = draw sampler params (nat count) s
              in draw_entries sampler sampleCounts entries (Mapping.update i samples rates) s)"

definition buildStochasticRates ::
  "Schedule list \<Rightarrow> Transaction list \<Rightarrow> int gomap \<Rightarrow> 's sampler \<Rightarrow> 's \<Rightarrow> (f64 list gomap \<times> 's) option" where
  "buildStochasticRates rules transactions sampleCounts sampler s =
     draw_entries sampler sampleCounts (samplingParamsByID rules transactions) Mapping.empty s"

end
