(* ===== verification/Stochastic.thy ===== *)
theory Stochastic
  imports Evaluation_Runtime Sampling
begin

text \<open>
  The Monte Carlo session: \<open>backend/internal/domain/stochastic_session.go\<close> and the sequential part of
  \<open>stochastic.go\<close>; the pool of workers is \<open>Worker_Pool\<close>.  The session is the record the coordinator
  writes; the state of the random source, which only the producer reads and writes, is passed beside it.
  Calls of the progress callback are logged in the session.  A context that is cancelled, and a
  simulation in flight elsewhere, are predicates on the number of trials already accumulated.
\<close>

section \<open>The session\<close>

definition stochasticProgressBatch :: int where "stochasticProgressBatch = 50"
definition stochasticProgressTargetUpdates :: int where "stochasticProgressTargetUpdates = 200"

definition GetStochasticProgressUpdateRunInterval :: "int \<Rightarrow> int" where
  "GetStochasticProgressUpdateRunInterval runCount =
     (let interval = (runCount + stochasticProgressTargetUpdates - 1) div stochasticProgressTargetUpdates;
          interval = (if interval < 1 then 1 else interval)
      in if interval > stochasticProgressBatch div 2 then stochasticProgressBatch div 2 else interval)"

datatype StochasticProgressPhase = PhasePreparing | PhaseDeterministicEvaluations | PhaseStochasticRuns

record StochasticProgress =
  sgPhase :: StochasticProgressPhase
  sgCompletedRuns :: int
  sgTotalRuns :: int
  sgFraction :: f64
  sgEvaluationWorkloads :: "StochasticEvaluationWorkload list"

record StochasticBandRow =
  sbDate :: string
  sbIsHistorical :: bool
  sbNetWorth :: PercentileBands

record StochasticProjectionResult =
  sjConfig :: StochasticConfig
  sjBands :: "StochasticBandRow list"
  sjFinalNetWorthPercentiles :: PercentileBands
  sjEvaluations :: EvaluationResultTables

record ('c, 'r, 'a) stochasticSession =
  tsConfig :: StochasticConfig
  tsPrepared :: PreparedProjection
  tsDeterministicPath :: ProjectionPath
  tsDeterministic :: ProjectionResult
  tsDeterministicEvaluations :: EvaluationResultTables
  tsRuntimes :: "('c, 'r, 'a) instanceRuntime list"
  tsSampleCounts :: "int gomap"
  tsSortedDates :: "string list"
  tsSortedValuesByDate :: "f64 list gomap"
  tsPendingValuesByDate :: "f64 list gomap"
  tsIsHistoricalByDate :: "bool gomap"
  tsProgressUpdateRuns :: int
  tsCompletedRuns :: int
  tsOnProgress :: bool
  tsReports :: "(StochasticProgress \<times> StochasticProjectionResult option) list"

datatype stochastic_error =
    PreparationFailed projection_error
  | TrialFailed execution_error
  | RunFailedAt int execution_error
  | ContextCancelled
  | PathsMissing int int

definition session_progress :: "StochasticProgressPhase \<Rightarrow> ('c, 'r, 'a) stochasticSession \<Rightarrow> StochasticProgress" where
  "session_progress phase s =
     \<lparr>sgPhase = phase, sgCompletedRuns = tsCompletedRuns s, sgTotalRuns = tcRunCount (tsConfig s),
      sgFraction = fdiv (f64_of_int (tsCompletedRuns s)) (f64_of_int (tcRunCount (tsConfig s))),
      sgEvaluationWorkloads = WorkloadProgress (tsCompletedRuns s) (tcRunCount (tsConfig s)) (tsRuntimes s)\<rparr>"

definition report ::
  "StochasticProgress \<Rightarrow> StochasticProjectionResult option \<Rightarrow> ('c, 'r, 'a) stochasticSession \<Rightarrow> ('c, 'r, 'a) stochasticSession" where
  "report snapshot partial s = (if tsOnProgress s then s\<lparr>tsReports := tsReports s @ [(snapshot, partial)]\<rparr> else s)"

section \<open>Trials\<close>

text \<open>The uniform draws: the seeded generator, or the generator of the library.\<close>

definition session_uniform :: "'u uniform \<Rightarrow> (int + 'u) uniform" where
  "session_uniform fallback source =
     (case source of
        Inl state \<Rightarrow> let (v, state) = lcg_next state in (v, Inl state)
      | Inr u \<Rightarrow> let (v, u) = fallback u in (v, Inr u))"

definition createSample ::
  "'s sampler \<Rightarrow> ('c, 'r, 'a) stochasticSession \<Rightarrow> 's \<Rightarrow> (MonteCarloSample \<times> 's) option" where
  "createSample sampler s source =
     (let model = rqModel (ppRequest (tsPrepared s))
      in buildStochasticRates (siSchedules model) (siTransactions model) (tsSampleCounts s) sampler source)"

definition projectSample ::
  "environment \<Rightarrow> ('c, 'r, 'a) stochasticSession \<Rightarrow> MonteCarloSample \<Rightarrow> (execution_error + ProjectionPath) option" where
  "projectSample env s sample =
     map_option (map_sum id (BuildStochasticSamplePath (tsPrepared s)))
       (orchestratedSimulate env ((ppRequest (tsPrepared s))\<lparr>rqMonteCarloSample := Some sample\<rparr>))"

section \<open>Accumulation\<close>

definition band_row :: "('c, 'r, 'a) stochasticSession \<Rightarrow> string \<Rightarrow> StochasticBandRow option" where
  "band_row s date =
     map_option (\<lambda>bands. \<lparr>sbDate = date, sbIsHistorical = go_index False (tsIsHistoricalByDate s) date, sbNetWorth = bands\<rparr>)
       (ComputePercentilesFromSorted (go_index [] (tsSortedValuesByDate s) date))"

definition buildResult :: "('c, 'r, 'a) stochasticSession \<Rightarrow> StochasticProjectionResult option" where
  "buildResult s =
     map_option (\<lambda>bands.
         \<lparr>sjConfig = tsConfig s, sjBands = bands,
          sjFinalNetWorthPercentiles = (if bands = [] then zero_bands else sbNetWorth (last bands)),
          sjEvaluations = runtime_Result (tsRuntimes s)\<rparr>)
       (those (map (band_row s) (tsSortedDates s)))"

text \<open>The loop over the batch writes one date at a time: the order of the dates does not show.\<close>

definition flush_date :: "f64 list gomap \<Rightarrow> string \<Rightarrow> f64 list gomap \<Rightarrow> f64 list gomap" where
  "flush_date pending date sorted_values =
     (let batch = Float64s (go_index [] pending date)
      in Mapping.update date
           (case Mapping.lookup sorted_values date of None \<Rightarrow> batch | Some existing \<Rightarrow> MergeSorted existing batch)
           sorted_values)"

definition flushed :: "('c, 'r, 'a) stochasticSession \<Rightarrow> ('c, 'r, 'a) stochasticSession" where
  "flushed s =
     s\<lparr>tsSortedValuesByDate :=
         fold (flush_date (tsPendingValuesByDate s)) (Mapping.ordered_keys (tsPendingValuesByDate s)) (tsSortedValuesByDate s),
       tsPendingValuesByDate := Mapping.empty,
       tsRuntimes := Finalize
         \<lparr>ezModel = phEffectiveModel (tsDeterministicPath s), ezDeterministicPath = tsDeterministicPath s,
          ezRunCount = tsCompletedRuns s\<rparr> (tsRuntimes s)\<rparr>"

definition flushBatchLocked ::
  "('c, 'r, 'a) stochasticSession \<Rightarrow> (StochasticProjectionResult \<times> ('c, 'r, 'a) stochasticSession) option" where
  "flushBatchLocked s = map_option (\<lambda>result. (result, flushed s)) (buildResult (flushed s))"

definition append_value :: "ProjectionRow \<Rightarrow> f64 list gomap \<Rightarrow> f64 list gomap" where
  "append_value row pending = append_at pending (rwDate row) (mathRound (rwNetWorth row))"

definition note_historical :: "ProjectionRow \<Rightarrow> bool gomap \<Rightarrow> bool gomap" where
  "note_historical row m =
     (if Mapping.lookup m (rwDate row) = None then Mapping.update (rwDate row) (rwIsHistorical row) m else m)"

definition accumulate_path ::
  "ProjectionPath \<Rightarrow> ('c, 'r, 'a) instanceRuntime list \<Rightarrow> ('c, 'r, 'a) stochasticSession \<Rightarrow> ('c, 'r, 'a) stochasticSession" where
  "accumulate_path path runtimes s =
     s\<lparr>tsRuntimes := runtimes,
       tsPendingValuesByDate := fold append_value (phRows path) (tsPendingValuesByDate s),
       tsIsHistoricalByDate := fold note_historical (phRows path) (tsIsHistoricalByDate s),
       tsCompletedRuns := tsCompletedRuns s + 1\<rparr>"

definition batch_complete :: "('c, 'r, 'a) stochasticSession \<Rightarrow> bool" where
  "batch_complete s \<longleftrightarrow>
     tsCompletedRuns s mod stochasticProgressBatch = 0 \<or> tsCompletedRuns s = tcRunCount (tsConfig s)"

definition consumeOrdered ::
  "bool \<Rightarrow> environment \<Rightarrow> ProjectionPath \<Rightarrow> MonteCarloSample \<Rightarrow> ('c, 'r, 'a) stochasticSession \<Rightarrow>
   ('c, 'r, 'a) stochasticSession option" where
  "consumeOrdered inflight env path sample s =
     (case Consume inflight env
         \<lparr>exPath = path, exModel = phEffectiveModel path, exMonteCarloSample = Some sample, exDetailLevel = ''summary''\<rparr>
         (tsRuntimes s) of
        None \<Rightarrow> None
      | Some runtimes \<Rightarrow>
          let s = accumulate_path path runtimes s;
              snapshot = session_progress PhaseStochasticRuns s
          in if batch_complete s
             then map_option (\<lambda>(partial, s). report snapshot (Some partial) s) (flushBatchLocked s)
             else Some (if tsCompletedRuns s = 1 \<or> tsCompletedRuns s mod tsProgressUpdateRuns s = 0
                        then report snapshot None s else s))"

definition session_result :: "('c, 'r, 'a) stochasticSession \<Rightarrow> (stochastic_error + StochasticProjectionResult) option" where
  "session_result s =
     (if tsCompletedRuns s \<noteq> tcRunCount (tsConfig s)
      then Some (Inl (PathsMissing (tcRunCount (tsConfig s)) (tsCompletedRuns s)))
      else map_option Inr (buildResult s))"

section \<open>Starting a session\<close>

definition path_context :: "ProjectionPath \<Rightarrow> EvaluationContext" where
  "path_context path =
     \<lparr>exPath = path, exModel = phEffectiveModel path, exMonteCarloSample = None, exDetailLevel = ''summary''\<rparr>"

definition empty_runtime_session ::
  "StochasticConfig \<Rightarrow> bool \<Rightarrow> PreparedProjection \<Rightarrow> ProjectionPath \<Rightarrow> ProjectionResult \<Rightarrow> int gomap \<Rightarrow>
   ('c, 'r, 'a) instanceRuntime list \<Rightarrow> ('c, 'r, 'a) stochasticSession" where
  "empty_runtime_session config onProgress prepared path result sampleCounts runtimes =
     \<lparr>tsConfig = config, tsPrepared = prepared, tsDeterministicPath = path, tsDeterministic = result,
      tsDeterministicEvaluations = runtime_Result runtimes, tsRuntimes = runtimes, tsSampleCounts = sampleCounts,
      tsSortedDates = [], tsSortedValuesByDate = Mapping.empty, tsPendingValuesByDate = Mapping.empty,
      tsIsHistoricalByDate = Mapping.empty,
      tsProgressUpdateRuns = GetStochasticProgressUpdateRunInterval (tcRunCount config),
      tsCompletedRuns = 0, tsOnProgress = onProgress,
      tsReports = (if onProgress
        then [(\<lparr>sgPhase = PhasePreparing, sgCompletedRuns = 0, sgTotalRuns = tcRunCount config, sgFraction = 0,
                sgEvaluationWorkloads = []\<rparr>, None)] else [])\<rparr>"

definition session_source :: "'u \<Rightarrow> StochasticConfig \<Rightarrow> int + 'u" where
  "session_source fallback config = (case tcSeed config of None \<Rightarrow> Inr fallback | Some seed \<Rightarrow> Inl seed)"

definition newStochasticSession ::
  "process \<Rightarrow> (FinancialModel \<Rightarrow> ModelValidationIssue list option) \<Rightarrow> ('c, 'r, 'a) EvaluationRegistry \<Rightarrow> bool \<Rightarrow>
   FinancialModel option \<Rightarrow> ProjectionRuntimeSettings \<Rightarrow> ModelOverrides \<Rightarrow> StochasticConfig \<Rightarrow> bool \<Rightarrow>
   (stochastic_error + ('c, 'r, 'a) stochasticSession) option" where
  "newStochasticSession p validateModel registry inflight model settings overrides config onProgress =
     (let config = NormalizeStochasticConfig config
      in case orchestratedPrepare p validateModel model settings overrides None of
           None \<Rightarrow> None
         | Some (Inl e) \<Rightarrow> Some (Inl (PreparationFailed (PrepareFailed e)))
         | Some (Inr prepared) \<Rightarrow>
             (case orchestratedSimulate (pcEnv p) (ppRequest prepared) of
                None \<Rightarrow> None
              | Some (Inl e) \<Rightarrow> Some (Inl (PreparationFailed (SimulateFailed e)))
              | Some (Inr run) \<Rightarrow>
                  map_option Inr (do {
                    (path, result) \<leftarrow> AdaptSimulationRun prepared run;
                    let request = ppRequest prepared;
                    sampleCounts \<leftarrow> buildSampleCountsByTransactionId (pcRange p) (siSchedules (rqModel request))
                      (siTransactions (rqModel request)) (psHorizonYears settings) (rqStartDate request) (rqEndDate request)
                      (rqIncludeStartDateEvents request);
                    runtimes \<leftarrow> NewEvaluationRuntimeSet (psEvaluations settings) registry;
                    let runtimes = PrepareStochasticWork (path_context path) runtimes;
                    let s = empty_runtime_session config onProgress prepared path result sampleCounts runtimes;
                    let s = report (session_progress PhaseDeterministicEvaluations s) None s;
                    runtimes \<leftarrow> EvaluateDeterministic inflight (pcEnv p) (path_context path) runtimes;
                    let runtimes = StartStochastic runtimes;
                    let s = s\<lparr>tsRuntimes := runtimes\<rparr>;
                    let s = report (session_progress PhaseStochasticRuns s) None s;
                    Some (s\<lparr>tsDeterministicEvaluations := runtime_Result runtimes,
                            tsSortedDates := map rwDate (pjRows result)\<rparr>)
                  })))"

section \<open>A session with nothing to sample\<close>

fun consume_trials ::
  "(int \<Rightarrow> bool) \<Rightarrow> (int \<Rightarrow> bool) \<Rightarrow> environment \<Rightarrow> ProjectionPath \<Rightarrow> MonteCarloSample \<Rightarrow> nat \<Rightarrow> ('c, 'r, 'a) stochasticSession \<Rightarrow>
   (stochastic_error + ('c, 'r, 'a) stochasticSession) option" where
  "consume_trials cancelled inflight env path sample 0 s = Some (Inr s)"
| "consume_trials cancelled inflight env path sample (Suc n) s =
     (if cancelled (tsCompletedRuns s) then Some (Inl ContextCancelled)
      else (case consumeOrdered (inflight (tsCompletedRuns s)) env path sample s of
              None \<Rightarrow> None
            | Some s \<Rightarrow> consume_trials cancelled inflight env path sample n s))"

definition runUnsampledSession ::
  "(int \<Rightarrow> bool) \<Rightarrow> (int \<Rightarrow> bool) \<Rightarrow> environment \<Rightarrow> 's sampler \<Rightarrow> ('c, 'r, 'a) stochasticSession \<Rightarrow> 's \<Rightarrow>
   (stochastic_error + ('c, 'r, 'a) stochasticSession) option" where
  "runUnsampledSession cancelled inflight env sampler s source =
     (case createSample sampler s source of
        None \<Rightarrow> None
      | Some (sample, source) \<Rightarrow>
          (case projectSample env s sample of
             None \<Rightarrow> None
           | Some (Inl e) \<Rightarrow> Some (Inl (TrialFailed e))
           | Some (Inr path) \<Rightarrow> consume_trials cancelled inflight env path sample (nat (tcRunCount (tsConfig s))) s))"

end
