(* ===== verification/Worker_Pool.thy ===== *)
theory Worker_Pool
  imports Stochastic
begin

text \<open>
  The pool of \<open>runStochasticSession\<close> (\<open>backend/internal/domain/stochastic.go\<close>): a producer draws the
  samples in order and offers them on an unbuffered channel, a fixed number of workers simulate them, and
  the coordinator receives the paths from a buffered channel and accumulates them in submission order,
  holding back those that come early.  One step of the relation is one communication, one simulation or
  one decision of one goroutine; which goroutine moves is not determined.  A panic of a goroutine ends the
  process.  The deferred \<open>cancel\<close> of the coordinator runs when it decides to return; it has returned when
  every worker has exited as well.
\<close>

section \<open>Goroutines\<close>

text \<open>
  What the pool calls: drawing a sample from the source, simulating it, and accumulating a path.  The flag
  of the last is whether a simulation is in flight in the process, which the guard of the readers sees.
\<close>

record ('s, 'j, 'e, 'p, 'a) pool_calls =
  pkDraw :: "'s \<Rightarrow> ('j \<times> 's) option"
  pkProject :: "'j \<Rightarrow> ('e + 'p) option"
  pkAccept :: "bool \<Rightarrow> 'p \<Rightarrow> 'j \<Rightarrow> 'a \<Rightarrow> 'a option"

datatype ('j, 'e, 'p) pathResult = PathResult (index: nat) (drawn_sample: 'j) (outcome: "'e + 'p")

datatype ('j, 'e, 'p) worker = Waiting | Holding nat 'j | Sending "('j, 'e, 'p) pathResult" | Exited

datatype 'e coordinator = Running | Finished | RunFailed nat 'e | Stopped

record ('s, 'j, 'e, 'p, 'a) pool =
  plSource :: 's
  plNextRun :: nat
  plOffer :: "(nat \<times> 'j) option"
  plJobsClosed :: bool
  plWorkers :: "('j, 'e, 'p) worker list"
  plResults :: "('j, 'e, 'p) pathResult list"
  plPending :: "(nat \<times> 'p \<times> 'j) list"
  plNextIndex :: nat
  plSession :: 'a
  plCancelled :: bool
  plCoordinator :: "'e coordinator"
  plCrashed :: bool

definition pool_start :: "nat \<Rightarrow> 's \<Rightarrow> 'a \<Rightarrow> ('s, 'j, 'e, 'p, 'a) pool" where
  "pool_start workerCount source session =
     \<lparr>plSource = source, plNextRun = 0, plOffer = None, plJobsClosed = False, plWorkers = replicate workerCount Waiting,
      plResults = [], plPending = [], plNextIndex = 0, plSession = session, plCancelled = False,
      plCoordinator = Running, plCrashed = False\<rparr>"

section \<open>The coordinator\<close>

lemma length_delete: "map_of xs k = Some v \<Longrightarrow> length (AList.delete k xs) < length xs"
  by (induction xs) (auto simp: less_Suc_eq_le length_filter_le AList.delete_eq)

text \<open>
  The inner loop: accumulate the paths that are next in submission order.  \<open>None\<close> is a panic.
\<close>

function drain_pending ::
  "('p \<Rightarrow> 'j \<Rightarrow> 'a \<Rightarrow> 'a option) \<Rightarrow> (nat \<times> 'p \<times> 'j) list \<Rightarrow> nat \<Rightarrow> 'a \<Rightarrow>
   ((nat \<times> 'p \<times> 'j) list \<times> nat \<times> 'a) option" where
  "drain_pending accept pending nextIndex s =
     (case map_of pending nextIndex of
        None \<Rightarrow> Some (pending, nextIndex, s)
      | Some (path, sample) \<Rightarrow>
          (case accept path sample s of
             None \<Rightarrow> None
           | Some s \<Rightarrow> drain_pending accept (AList.delete nextIndex pending) (nextIndex + 1) s))"
  by pat_completeness auto
termination
  by (relation "measure (\<lambda>(accept, pending, nextIndex, s). length pending)") (auto simp: length_delete)

declare drain_pending.simps [simp del]

definition received ::
  "('p \<Rightarrow> 'j \<Rightarrow> 'a \<Rightarrow> 'a option) \<Rightarrow> ('j, 'e, 'p) pathResult \<Rightarrow> ('s, 'j, 'e, 'p, 'a) pool \<Rightarrow> ('s, 'j, 'e, 'p, 'a) pool" where
  "received accept result p =
     (case outcome result of
        Inl e \<Rightarrow> p\<lparr>plCoordinator := RunFailed (index result) e, plCancelled := True\<rparr>
      | Inr path \<Rightarrow>
          (case drain_pending accept (AList.update (index result) (path, drawn_sample result) (plPending p)) (plNextIndex p) (plSession p) of
             None \<Rightarrow> p\<lparr>plCrashed := True\<rparr>
           | Some (pending, nextIndex, s) \<Rightarrow>
               p\<lparr>plPending := pending, plNextIndex := nextIndex, plSession := s\<rparr>))"

section \<open>Steps\<close>

inductive pool_step ::
  "('s, 'j, 'e, 'p, 'a) pool_calls \<Rightarrow> nat \<Rightarrow> ('s, 'j, 'e, 'p, 'a) pool \<Rightarrow> ('s, 'j, 'e, 'p, 'a) pool \<Rightarrow> bool"
  for k :: "('s, 'j, 'e, 'p, 'a) pool_calls" and n :: nat where
  produce: "\<lbrakk>\<not> plCrashed p; \<not> plJobsClosed p; plOffer p = None; plNextRun p < n; pkDraw k (plSource p) = Some (sample, source)\<rbrakk> \<Longrightarrow>
     pool_step k n p (p\<lparr>plSource := source, plOffer := Some (plNextRun p, sample), plNextRun := plNextRun p + 1\<rparr>)"
| produce_panic: "\<lbrakk>\<not> plCrashed p; \<not> plJobsClosed p; plOffer p = None; plNextRun p < n; pkDraw k (plSource p) = None\<rbrakk> \<Longrightarrow>
     pool_step k n p (p\<lparr>plCrashed := True\<rparr>)"
| produced_all: "\<lbrakk>\<not> plCrashed p; \<not> plJobsClosed p; plOffer p = None; plNextRun p = n\<rbrakk> \<Longrightarrow>
     pool_step k n p (p\<lparr>plJobsClosed := True\<rparr>)"
| produce_cancelled: "\<lbrakk>\<not> plCrashed p; plOffer p = Some job; plCancelled p\<rbrakk> \<Longrightarrow>
     pool_step k n p (p\<lparr>plOffer := None, plJobsClosed := True\<rparr>)"
| hand: "\<lbrakk>\<not> plCrashed p; plOffer p = Some (i, sample); w < length (plWorkers p); plWorkers p ! w = Waiting\<rbrakk> \<Longrightarrow>
     pool_step k n p (p\<lparr>plOffer := None, plWorkers := (plWorkers p)[w := Holding i sample]\<rparr>)"
| no_more_jobs: "\<lbrakk>\<not> plCrashed p; plJobsClosed p; w < length (plWorkers p); plWorkers p ! w = Waiting\<rbrakk> \<Longrightarrow>
     pool_step k n p (p\<lparr>plWorkers := (plWorkers p)[w := Exited]\<rparr>)"
| check_cancelled: "\<lbrakk>\<not> plCrashed p; plCancelled p; w < length (plWorkers p); plWorkers p ! w = Holding i sample\<rbrakk> \<Longrightarrow>
     pool_step k n p (p\<lparr>plWorkers := (plWorkers p)[w := Exited]\<rparr>)"
| simulate: "\<lbrakk>\<not> plCrashed p; w < length (plWorkers p); plWorkers p ! w = Holding i sample; pkProject k sample = Some result\<rbrakk> \<Longrightarrow>
     pool_step k n p (p\<lparr>plWorkers := (plWorkers p)[w := Sending (PathResult i sample result)]\<rparr>)"
| simulate_panic: "\<lbrakk>\<not> plCrashed p; w < length (plWorkers p); plWorkers p ! w = Holding i sample; pkProject k sample = None\<rbrakk> \<Longrightarrow>
     pool_step k n p (p\<lparr>plCrashed := True\<rparr>)"
| send: "\<lbrakk>\<not> plCrashed p; w < length (plWorkers p); plWorkers p ! w = Sending result;
      length (plResults p) < 2 * length (plWorkers p)\<rbrakk> \<Longrightarrow>
     pool_step k n p (p\<lparr>plWorkers := (plWorkers p)[w := Waiting], plResults := plResults p @ [result]\<rparr>)"
| send_cancelled: "\<lbrakk>\<not> plCrashed p; plCancelled p; w < length (plWorkers p); plWorkers p ! w = Sending result\<rbrakk> \<Longrightarrow>
     pool_step k n p (p\<lparr>plWorkers := (plWorkers p)[w := Exited]\<rparr>)"
| receive: "\<lbrakk>\<not> plCrashed p; plCoordinator p = Running; plNextIndex p < n; plResults p = result # results\<rbrakk> \<Longrightarrow>
     pool_step k n p (received (pkAccept k inflight) result (p\<lparr>plResults := results\<rparr>))"
| stopped: "\<lbrakk>\<not> plCrashed p; plCoordinator p = Running; plNextIndex p < n; plCancelled p\<rbrakk> \<Longrightarrow>
     pool_step k n p (p\<lparr>plCoordinator := Stopped\<rparr>)"
| finished: "\<lbrakk>\<not> plCrashed p; plCoordinator p = Running; \<not> plNextIndex p < n\<rbrakk> \<Longrightarrow>
     pool_step k n p (p\<lparr>plCoordinator := Finished, plCancelled := True\<rparr>)"

text \<open>The caller's context can be cancelled at any moment.\<close>

inductive pool_reaches ::
  "('s, 'j, 'e, 'p, 'a) pool_calls \<Rightarrow> nat \<Rightarrow> ('s, 'j, 'e, 'p, 'a) pool \<Rightarrow> ('s, 'j, 'e, 'p, 'a) pool \<Rightarrow> bool"
  for k :: "('s, 'j, 'e, 'p, 'a) pool_calls" and n :: nat and start :: "('s, 'j, 'e, 'p, 'a) pool" where
  start: "pool_reaches k n start start"
| step: "pool_reaches k n start p \<Longrightarrow> pool_step k n p q \<Longrightarrow> pool_reaches k n start q"
| caller_cancels: "pool_reaches k n start p \<Longrightarrow> pool_reaches k n start (p\<lparr>plCancelled := True\<rparr>)"

definition pool_returned :: "('s, 'j, 'e, 'p, 'a) pool \<Rightarrow> bool" where
  "pool_returned p \<longleftrightarrow> \<not> plCrashed p \<and> plCoordinator p \<noteq> Running \<and> list_all (\<lambda>w. w = Exited) (plWorkers p)"

section \<open>The session's pool\<close>

definition session_calls ::
  "environment \<Rightarrow> 's sampler \<Rightarrow> ('c, 'r, 'a) stochasticSession \<Rightarrow>
   ('s, MonteCarloSample, execution_error, ProjectionPath, ('c, 'r, 'a) stochasticSession) pool_calls" where
  "session_calls env sampler session =
     \<lparr>pkDraw = createSample sampler session, pkProject = projectSample env session,
      pkAccept = (\<lambda>inflight. consumeOrdered inflight env)\<rparr>"

definition coordinator_result ::
  "('s, 'j, execution_error, 'p, 'a) pool \<Rightarrow> stochastic_error + 'a" where
  "coordinator_result p =
     (case plCoordinator p of
        RunFailed i e \<Rightarrow> Inl (RunFailedAt (int i) e)
      | Stopped \<Rightarrow> Inl ContextCancelled
      | _ \<Rightarrow> Inr (plSession p))"

text \<open>
  What \<open>runStochasticSession\<close> may return: a session without volatile amounts runs its one trial, any other
  runs the pool, which has one worker per processor.
\<close>

definition runStochasticSession ::
  "environment \<Rightarrow> 's sampler \<Rightarrow> nat \<Rightarrow> ('c, 'r, 'a) stochasticSession \<Rightarrow> 's \<Rightarrow>
   (stochastic_error + ('c, 'r, 'a) stochasticSession) \<Rightarrow> bool" where
  "runStochasticSession env sampler workerCount session source result \<longleftrightarrow>
     (if Mapping.is_empty (tsSampleCounts session)
      then \<exists>cancelled inflight. runUnsampledSession cancelled inflight env sampler session source = Some result
      else \<exists>p. pool_reaches (session_calls env sampler session) (nat (tcRunCount (tsConfig session)))
                 (pool_start workerCount source session) p \<and>
               pool_returned p \<and> coordinator_result p = result)"

text \<open>\<open>StochasticProjection\<close> and \<open>StochasticNetWorthSamples\<close>: the result, with the sorted values by date.\<close>

definition StochasticNetWorthSamples ::
  "process \<Rightarrow> (FinancialModel \<Rightarrow> ModelValidationIssue list option) \<Rightarrow> ('c, 'r, 'a) EvaluationRegistry \<Rightarrow> bool \<Rightarrow>
   math_functions \<Rightarrow> 'u uniform \<Rightarrow> 'u \<Rightarrow> nat \<Rightarrow> FinancialModel option \<Rightarrow> ProjectionRuntimeSettings \<Rightarrow> ModelOverrides \<Rightarrow>
   StochasticConfig \<Rightarrow> bool \<Rightarrow> (stochastic_error + StochasticProjectionResult \<times> f64 list gomap) \<Rightarrow> bool" where
  "StochasticNetWorthSamples p validateModel registry inflight mf fallback seed workerCount model settings overrides config onProgress result \<longleftrightarrow>
     (case newStochasticSession p validateModel registry inflight model settings overrides config onProgress of
        None \<Rightarrow> False
      | Some (Inl e) \<Rightarrow> result = Inl e
      | Some (Inr session) \<Rightarrow>
          (\<exists>r. runStochasticSession (pcEnv p) (NewStochasticSampler mf (session_uniform fallback)) workerCount session
                 (session_source seed (tsConfig session)) r \<and>
               (case r of
                  Inl e \<Rightarrow> result = Inl e
                | Inr s \<Rightarrow> map_option (map_sum id (\<lambda>v. (v, tsSortedValuesByDate s))) (session_result s) = Some result)))"

definition StochasticProjection ::
  "process \<Rightarrow> (FinancialModel \<Rightarrow> ModelValidationIssue list option) \<Rightarrow> ('c, 'r, 'a) EvaluationRegistry \<Rightarrow> bool \<Rightarrow>
   math_functions \<Rightarrow> 'u uniform \<Rightarrow> 'u \<Rightarrow> nat \<Rightarrow> FinancialModel option \<Rightarrow> ProjectionRuntimeSettings \<Rightarrow> ModelOverrides \<Rightarrow>
   StochasticConfig \<Rightarrow> bool \<Rightarrow> (stochastic_error + StochasticProjectionResult) \<Rightarrow> bool" where
  "StochasticProjection p validateModel registry inflight mf fallback seed workerCount model settings overrides config onProgress result \<longleftrightarrow>
     (\<exists>r. StochasticNetWorthSamples p validateModel registry inflight mf fallback seed workerCount model settings overrides config onProgress r \<and>
          result = map_sum id fst r)"

end
