(* ===== verification/Worker_Pool_Laws.thy ===== *)
theory Worker_Pool_Laws
  imports Worker_Pool
begin

text \<open>
  The pool against its specification: \<open>sequential\<close> draws, simulates and accumulates one trial after the
  other.  The invariant ties every item in flight to the sample its index was drawn with, and the session to
  the trials before the next index; the measure counts the moves each trial and goroutine has left.
\<close>

section \<open>One trial after the other\<close>

primrec sequential ::
  "('s, 'j, 'e, 'p, 'a) pool_calls \<Rightarrow> nat \<Rightarrow> 's \<Rightarrow> 'a \<Rightarrow> (nat \<times> 'e + 's \<times> 'a) option" where
  "sequential k 0 s a = Some (Inr (s, a))"
| "sequential k (Suc i) s a =
     and_then (sequential k i s a) (\<lambda>(s, a).
       case pkDraw k s of
         None \<Rightarrow> None
       | Some (sample, s) \<Rightarrow>
           (case pkProject k sample of
              None \<Rightarrow> None
            | Some (Inl e) \<Rightarrow> Some (Inl (i, e))
            | Some (Inr path) \<Rightarrow> map_option (\<lambda>a. Inr (s, a)) (pkAccept k False path sample a)))"

text \<open>The samples of the first trials, and the session after them.\<close>

primrec draws :: "('s, 'j, 'e, 'p, 'a) pool_calls \<Rightarrow> 's \<Rightarrow> nat \<Rightarrow> ('j list \<times> 's) option" where
  "draws k s 0 = Some ([], s)"
| "draws k s (Suc i) =
     (case draws k s i of
        None \<Rightarrow> None
      | Some (samples, s) \<Rightarrow> map_option (\<lambda>(sample, s). (samples @ [sample], s)) (pkDraw k s))"

primrec accepted :: "('s, 'j, 'e, 'p, 'a) pool_calls \<Rightarrow> 'j list \<Rightarrow> 'a \<Rightarrow> nat \<Rightarrow> 'a option" where
  "accepted k samples a 0 = Some a"
| "accepted k samples a (Suc i) =
     (case (accepted k samples a i, pkProject k (samples ! i)) of
        (Some a, Some (Inr path)) \<Rightarrow> pkAccept k False path (samples ! i) a
      | _ \<Rightarrow> None)"

lemma draws_length: "draws k s i = Some (samples, s') \<Longrightarrow> length samples = i"
  by (induction i arbitrary: samples s') (auto split: option.splits)

lemma accepted_prefix: "i \<le> length samples \<Longrightarrow> accepted k (samples @ later) a i = accepted k samples a i"
  by (induction i) (simp_all add: nth_append Suc_le_eq cong: option.case_cong sum.case_cong)

lemma sequential_draws:
  "draws k s i = Some (samples, s') \<Longrightarrow> accepted k samples a i = Some a' \<Longrightarrow> sequential k i s a = Some (Inr (s', a'))"
proof (induction i arbitrary: samples s' a')
  case (Suc i)
  then obtain before s1 sample where d: "draws k s i = Some (before, s1)" "pkDraw k s1 = Some (sample, s')"
    "samples = before @ [sample]"
    by (auto split: option.splits)
  have len: "length before = i" using draws_length [OF d(1)] .
  have at: "samples ! i = sample" by (simp add: d(3) nth_append len)
  have prefix: "accepted k samples a i = accepted k before a i"
    unfolding d(3) by (rule accepted_prefix) (simp add: len)
  obtain a1 path where a1: "accepted k before a i = Some a1" "pkProject k sample = Some (Inr path)"
    "pkAccept k False path sample a1 = Some a'"
    using Suc.prems(2) by (simp add: at prefix split: option.splits sum.splits)
  from Suc.IH [OF d(1) a1(1)] show ?case
    by (simp add: d(2) a1(2,3))
qed simp

section \<open>The inner loop\<close>

definition item_ok :: "'j list \<Rightarrow> nat \<Rightarrow> 'j \<Rightarrow> bool" where
  "item_ok samples i sample \<longleftrightarrow> i < length samples \<and> samples ! i = sample"

definition pending_ok :: "('s, 'j, 'e, 'p, 'a) pool_calls \<Rightarrow> 'j list \<Rightarrow> (nat \<times> 'p \<times> 'j) list \<Rightarrow> bool" where
  "pending_ok k samples pending \<longleftrightarrow>
     (\<forall>i path sample. map_of pending i = Some (path, sample) \<longrightarrow>
        item_ok samples i sample \<and> pkProject k sample = Some (Inr path))"

lemma item_ok_append: "item_ok samples i sample \<Longrightarrow> item_ok (samples @ later) i sample"
  by (auto simp: item_ok_def nth_append)

lemma pending_ok_delete: "pending_ok k samples pending \<Longrightarrow> pending_ok k samples (AList.delete i pending)"
  by (auto simp: pending_ok_def delete_conv')

text \<open>
  Sessions of a kind \<open>P\<close> that accumulation keeps, and to which it does not matter whether a simulation is
  in flight.
\<close>

definition order_only :: "('s, 'j, 'e, 'p, 'a) pool_calls \<Rightarrow> ('a \<Rightarrow> bool) \<Rightarrow> bool" where
  "order_only k P \<longleftrightarrow>
     (\<forall>inflight path sample s. P s \<longrightarrow> pkAccept k inflight path sample s = pkAccept k False path sample s \<and>
        (\<forall>s'. pkAccept k False path sample s = Some s' \<longrightarrow> P s'))"

lemma accepted_keeps: "order_only k P \<Longrightarrow> P a \<Longrightarrow> accepted k samples a i = Some s \<Longrightarrow> P s"
proof (induction i arbitrary: s)
  case (Suc i)
  obtain s1 path where s1: "accepted k samples a i = Some s1" "pkAccept k False path (samples ! i) s1 = Some s"
    using Suc.prems(3) by (auto split: option.splits sum.splits)
  have "P s1" by (rule Suc.IH [OF Suc.prems(1,2) s1(1)])
  then show ?case
    using Suc.prems(1) s1(2) unfolding order_only_def by blast
qed simp

lemma drain_accepts:
  assumes k: "order_only k P" "P a"
    and "\<And>path sample s. P s \<Longrightarrow> accept path sample s = pkAccept k False path sample s"
  shows "drain_pending accept pending i s = Some (pending', i', s') \<Longrightarrow> pending_ok k samples pending \<Longrightarrow> i \<le> length samples \<Longrightarrow>
    accepted k samples a i = Some s \<Longrightarrow>
    accepted k samples a i' = Some s' \<and> i \<le> i' \<and> i' \<le> length samples \<and> map_of pending' i' = None \<and>
    pending_ok k samples pending' \<and> dom (map_of pending) \<subseteq> dom (map_of pending') \<union> {i..<i'}"
proof (induction "length pending" arbitrary: pending i s rule: less_induct)
  case less
  show ?case
  proof (cases "map_of pending i")
    case None
    then show ?thesis
      using less.prems by (auto simp: drain_pending.simps [of accept pending])
  next
    case (Some v)
    then obtain path sample where v: "map_of pending i = Some (path, sample)" by (cases v) auto
    moreover have "accept path sample s = pkAccept k False path sample s"
      by (rule assms(3), rule accepted_keeps [OF k less.prems(4)])
    ultimately obtain s1 where s1: "pkAccept k False path sample s = Some s1"
      and rest: "drain_pending accept (AList.delete i pending) (i + 1) s1 = Some (pending', i', s')"
      using less.prems(1) by (auto simp: drain_pending.simps [of accept pending] split: option.splits)
    have ok: "i < length samples" "samples ! i = sample" "pkProject k sample = Some (Inr path)"
      using v less.prems(2) by (auto simp: pending_ok_def item_ok_def)
    have "accepted k samples a (i + 1) = Some s1"
      using less.prems(4) ok s1 by simp
    note h = less.hyps [OF length_delete [OF v] rest pending_ok_delete [OF less.prems(2)] _ this]
    have h1: "accepted k samples a i' = Some s'" "i + 1 \<le> i'" "i' \<le> length samples" "map_of pending' i' = None"
      "pending_ok k samples pending'" and h2: "dom (map_of (AList.delete i pending)) \<subseteq> dom (map_of pending') \<union> {i + 1..<i'}"
      using h ok(1) by simp_all
    have "dom (map_of pending) \<subseteq> insert i (dom (map_of (AList.delete i pending)))"
      by (auto simp: delete_conv')
    also have "\<dots> \<subseteq> insert i (dom (map_of pending') \<union> {i + 1..<i'})"
      by (rule insert_mono [OF h2])
    also have "\<dots> \<subseteq> dom (map_of pending') \<union> {i..<i'}"
      using h1(2) by auto
    finally show ?thesis
      using h1 by simp
  qed
qed

section \<open>The invariant\<close>

definition result_ok :: "('s, 'j, 'e, 'p, 'a) pool_calls \<Rightarrow> 'j list \<Rightarrow> ('j, 'e, 'p) pathResult \<Rightarrow> bool" where
  "result_ok k samples r \<longleftrightarrow> item_ok samples (index r) (drawn_sample r) \<and> pkProject k (drawn_sample r) = Some (outcome r)"

fun worker_ok :: "('s, 'j, 'e, 'p, 'a) pool_calls \<Rightarrow> 'j list \<Rightarrow> bool \<Rightarrow> ('j, 'e, 'p) worker \<Rightarrow> bool" where
  "worker_ok k samples leaving Waiting \<longleftrightarrow> True"
| "worker_ok k samples leaving (Holding i sample) \<longleftrightarrow> item_ok samples i sample"
| "worker_ok k samples leaving (Sending r) \<longleftrightarrow> result_ok k samples r"
| "worker_ok k samples leaving Exited \<longleftrightarrow> leaving"

fun busy :: "('j, 'e, 'p) worker \<Rightarrow> nat set" where
  "busy (Holding i sample) = {i}"
| "busy (Sending r) = {index r}"
| "busy _ = {}"

text \<open>The trials that are somewhere between the producer and the session.\<close>

definition in_flight :: "('s, 'j, 'e, 'p, 'a) pool \<Rightarrow> nat set" where
  "in_flight p =
     fst ` set_option (plOffer p) \<union> \<Union> (busy ` set (plWorkers p)) \<union> index ` set (plResults p) \<union> dom (map_of (plPending p))"

definition pool_inv ::
  "('s, 'j, 'e, 'p, 'a) pool_calls \<Rightarrow> nat \<Rightarrow> 's \<Rightarrow> 'a \<Rightarrow> 'j list \<Rightarrow> ('s, 'j, 'e, 'p, 'a) pool \<Rightarrow> bool" where
  "pool_inv k n s a samples p \<longleftrightarrow>
     draws k s (plNextRun p) = Some (samples, plSource p) \<and> plNextRun p \<le> n \<and>
     (\<forall>i sample. plOffer p = Some (i, sample) \<longrightarrow> item_ok samples i sample) \<and>
     (\<forall>w\<in>set (plWorkers p). worker_ok k samples (plCancelled p \<or> plJobsClosed p) w) \<and>
     (\<forall>r\<in>set (plResults p). result_ok k samples r) \<and> pending_ok k samples (plPending p) \<and>
     plNextIndex p \<le> length samples \<and> accepted k samples a (plNextIndex p) = Some (plSession p) \<and>
     map_of (plPending p) (plNextIndex p) = None \<and>
     (plJobsClosed p \<longrightarrow> plOffer p = None \<and> (plCancelled p \<or> plNextRun p = n)) \<and>
     (plCoordinator p \<noteq> Running \<longrightarrow> plCancelled p) \<and>
     (\<not> plCrashed p \<and> \<not> plCancelled p \<longrightarrow> {..<plNextRun p} \<subseteq> {..<plNextIndex p} \<union> in_flight p) \<and>
     (plCoordinator p = Finished \<longrightarrow> plNextIndex p = n) \<and>
     (\<forall>i e. plCoordinator p = RunFailed i e \<longrightarrow> i < length samples \<and> pkProject k (samples ! i) = Some (Inl e))"

lemma pool_invD:
  assumes "pool_inv k n s a samples p"
  shows "draws k s (plNextRun p) = Some (samples, plSource p)" "plNextRun p \<le> n"
    and "plOffer p = Some (i, sample) \<Longrightarrow> item_ok samples i sample"
    and "w \<in> set (plWorkers p) \<Longrightarrow> worker_ok k samples (plCancelled p \<or> plJobsClosed p) w"
    and "r \<in> set (plResults p) \<Longrightarrow> result_ok k samples r"
    and "pending_ok k samples (plPending p)" "plNextIndex p \<le> length samples"
    and "accepted k samples a (plNextIndex p) = Some (plSession p)" "map_of (plPending p) (plNextIndex p) = None"
    and "plJobsClosed p \<Longrightarrow> plOffer p = None \<and> (plCancelled p \<or> plNextRun p = n)"
    and "plCoordinator p \<noteq> Running \<Longrightarrow> plCancelled p"
    and "\<not> plCrashed p \<Longrightarrow> \<not> plCancelled p \<Longrightarrow> {..<plNextRun p} \<subseteq> {..<plNextIndex p} \<union> in_flight p"
    and "plCoordinator p = Finished \<Longrightarrow> plNextIndex p = n"
    and "plCoordinator p = RunFailed i e \<Longrightarrow> i < length samples \<and> pkProject k (samples ! i) = Some (Inl e)"
  using assms unfolding pool_inv_def by blast+

lemma pool_inv_leaving: "pool_inv k n s a samples p \<Longrightarrow> w \<in> set (plWorkers p) \<Longrightarrow> worker_ok k samples True w"
  by (cases w) (auto dest: pool_invD(4))

lemma pool_inv_covers:
  assumes "pool_inv k n s a samples p" "\<not> plCrashed p" "\<not> plCancelled p" "in_flight p \<subseteq> in_flight q"
  shows "{..<plNextRun p} \<subseteq> {..<plNextIndex p} \<union> in_flight q"
  using pool_invD(12) [OF assms(1-3)] assms(4) by blast

lemma pool_invI:
  assumes "draws k s (plNextRun p) = Some (samples, plSource p)" "plNextRun p \<le> n"
    and "\<And>i sample. plOffer p = Some (i, sample) \<Longrightarrow> item_ok samples i sample"
    and "\<And>w. w \<in> set (plWorkers p) \<Longrightarrow> worker_ok k samples (plCancelled p \<or> plJobsClosed p) w"
    and "\<And>r. r \<in> set (plResults p) \<Longrightarrow> result_ok k samples r"
    and "pending_ok k samples (plPending p)" "plNextIndex p \<le> length samples"
    and "accepted k samples a (plNextIndex p) = Some (plSession p)" "map_of (plPending p) (plNextIndex p) = None"
    and "plJobsClosed p \<Longrightarrow> plOffer p = None \<and> (plCancelled p \<or> plNextRun p = n)"
    and "plCoordinator p \<noteq> Running \<Longrightarrow> plCancelled p"
    and "\<not> plCrashed p \<Longrightarrow> \<not> plCancelled p \<Longrightarrow> {..<plNextRun p} \<subseteq> {..<plNextIndex p} \<union> in_flight p"
    and "plCoordinator p = Finished \<Longrightarrow> plNextIndex p = n"
    and "\<And>i e. plCoordinator p = RunFailed i e \<Longrightarrow> i < length samples \<and> pkProject k (samples ! i) = Some (Inl e)"
  shows "pool_inv k n s a samples p"
  using assms unfolding pool_inv_def by blast

text \<open>Moving one worker: the others stay, and its own trial moves with it.\<close>

lemma busy_update:
  assumes "w < length ws"
  shows "\<Union> (busy ` set ws) \<subseteq> \<Union> (busy ` set (ws[w := x])) \<union> busy (ws ! w)" "busy x \<subseteq> \<Union> (busy ` set (ws[w := x]))"
proof -
  show "\<Union> (busy ` set ws) \<subseteq> \<Union> (busy ` set (ws[w := x])) \<union> busy (ws ! w)"
  proof
    fix i
    assume "i \<in> \<Union> (busy ` set ws)"
    then obtain v where v: "v < length ws" "i \<in> busy (ws ! v)" by (auto simp: in_set_conv_nth)
    show "i \<in> \<Union> (busy ` set (ws[w := x])) \<union> busy (ws ! w)"
    proof (cases "v = w")
      case False
      then have "ws ! v \<in> set (ws[w := x])"
        using v(1) nth_mem [of v "ws[w := x]"] by simp
      with v(2) show ?thesis by blast
    qed (use v in auto)
  qed
  have "x \<in> set (ws[w := x])" using assms by (rule set_update_memI)
  then show "busy x \<subseteq> \<Union> (busy ` set (ws[w := x]))" by blast
qed

lemma workers_update:
  assumes "\<forall>v\<in>set ws. worker_ok k samples leaving v" "worker_ok k samples leaving x"
  shows "\<forall>v\<in>set (ws[w := x]). worker_ok k samples leaving v"
  using assms set_update_subset_insert [of ws w x] by blast

lemma worker_ok_mono:
  "worker_ok k samples leaving w \<Longrightarrow> (leaving \<Longrightarrow> leaving') \<Longrightarrow> worker_ok k (samples @ later) leaving' w"
  by (cases w) (auto simp: item_ok_append result_ok_def)

lemma worker_leaves: "worker_ok k samples leaving w \<Longrightarrow> worker_ok k samples True w"
  using worker_ok_mono [of k samples leaving w True "[]"] by simp

lemma pending_ok_append: "pending_ok k samples pending \<Longrightarrow> pending_ok k (samples @ later) pending"
  by (simp add: pending_ok_def item_ok_append)

lemma result_ok_append: "result_ok k samples r \<Longrightarrow> result_ok k (samples @ later) r"
  by (simp add: result_ok_def item_ok_append)

lemma cover_received:
  assumes "A \<subseteq> L \<union> (Q \<union> W \<union> ({i} \<union> R) \<union> P)" "P \<union> {i} \<subseteq> P' \<union> M" "L \<union> M \<subseteq> L'"
  shows "A \<subseteq> L' \<union> (Q \<union> W \<union> R \<union> P')"
  using assms by blast

lemma inv_received:
  assumes k: "order_only k P" "P a" and inv: "pool_inv k n s a samples p" and results: "plResults p = r # results"
    and run: "plCoordinator p = Running"
  shows "pool_inv k n s a samples (received (pkAccept k inflight) r (p\<lparr>plResults := results\<rparr>))"
proof -
  have r: "item_ok samples (index r) (drawn_sample r)" "pkProject k (drawn_sample r) = Some (outcome r)"
    using pool_invD(5) [OF inv, of r] results by (simp_all add: result_ok_def)
  note D = pool_invD [OF inv]
  show ?thesis
  proof (cases "outcome r")
    case (Inl e)
    then show ?thesis
      using r D pool_inv_leaving [OF inv] results by (intro pool_invI) (simp_all add: received_def item_ok_def)
  next
    case (Inr path)
    let ?pending = "AList.update (index r) (path, drawn_sample r) (plPending p)"
    have ok: "pending_ok k samples ?pending"
      using pool_invD(6) [OF inv] r Inr by (auto simp: pending_ok_def update_conv')
    have acc: "accepted k samples a (plNextIndex p) = Some (plSession p)" "plNextIndex p \<le> length samples"
      using D(8,7) .
    have same: "P s \<Longrightarrow> pkAccept k inflight path sample s = pkAccept k False path sample s" for path sample s
      using k(1) unfolding order_only_def by metis
    show ?thesis
    proof (cases "drain_pending (pkAccept k inflight) ?pending (plNextIndex p) (plSession p)")
      case None
      then show ?thesis
        using D results Inr by (intro pool_invI) (simp_all add: received_def)
    next
      case (Some v)
      then obtain pending' i' s' where d: "drain_pending (pkAccept k inflight) ?pending (plNextIndex p) (plSession p) = Some (pending', i', s')"
        by (cases v) auto
      note drained = drain_accepts [OF k same d ok acc(2,1)]
      have "{..<plNextRun p} \<subseteq> {..<i'} \<union> in_flight (p\<lparr>plResults := results, plPending := pending'\<rparr>)"
        if "\<not> plCrashed p" "\<not> plCancelled p"
      proof -
        have "{..<plNextRun p} \<subseteq> {..<plNextIndex p} \<union> (fst ` set_option (plOffer p) \<union> \<Union> (busy ` set (plWorkers p)) \<union>
            ({index r} \<union> index ` set results) \<union> dom (map_of (plPending p)))"
          using inv that results by (simp add: pool_inv_def in_flight_def)
        moreover have "dom (map_of (plPending p)) \<union> {index r} \<subseteq> dom (map_of pending') \<union> {plNextIndex p..<i'}"
        proof -
          have "dom (map_of ?pending) = dom (map_of (plPending p)) \<union> {index r}" by (auto simp: update_conv')
          then show ?thesis using drained by simp
        qed
        moreover have "{..<plNextIndex p} \<union> {plNextIndex p..<i'} \<subseteq> {..<i'}"
          using drained by auto
        ultimately have "{..<plNextRun p} \<subseteq> {..<i'} \<union> (fst ` set_option (plOffer p) \<union> \<Union> (busy ` set (plWorkers p)) \<union>
            index ` set results \<union> dom (map_of pending'))"
          by (rule cover_received)
        then show ?thesis by (simp add: in_flight_def)
      qed
      then show ?thesis
        using D results Inr d drained run
        by (intro pool_invI) (simp_all add: received_def in_flight_def)
    qed
  qed
qed

section \<open>Every step keeps it\<close>

lemma flight_moves:
  assumes "W \<subseteq> W' \<union> B" "B \<subseteq> X \<union> R'" "X \<subseteq> W'"
  shows "Q \<union> W \<union> R \<union> P \<subseteq> Q \<union> W' \<union> (R \<union> R') \<union> P"
  using assms by blast

lemma inv_worker:
  assumes inv: "pool_inv k n s a samples p" and w: "w < length (plWorkers p)"
    and ok: "worker_ok k samples (plCancelled p \<or> plJobsClosed p) x"
    and moved: "\<not> plCancelled p \<Longrightarrow> busy (plWorkers p ! w) \<subseteq> busy x \<union> index ` set out"
    and out: "\<forall>r\<in>set out. result_ok k samples r"
  shows "pool_inv k n s a samples (p\<lparr>plWorkers := (plWorkers p)[w := x], plResults := plResults p @ out\<rparr>)"
proof -
  let ?q = "p\<lparr>plWorkers := (plWorkers p)[w := x], plResults := plResults p @ out\<rparr>"
  have flight: "in_flight ?q = fst ` set_option (plOffer p) \<union> \<Union> (busy ` set ((plWorkers p)[w := x])) \<union>
      (index ` set (plResults p) \<union> index ` set out) \<union> dom (map_of (plPending p))"
    by (simp add: in_flight_def image_Un)
  have "in_flight p \<subseteq> in_flight ?q" if "\<not> plCancelled p"
    unfolding flight unfolding in_flight_def by (rule flight_moves [OF busy_update(1) [OF w] moved [OF that] busy_update(2) [OF w]])
  then have "{..<plNextRun p} \<subseteq> {..<plNextIndex p} \<union> in_flight ?q" if "\<not> plCrashed p" "\<not> plCancelled p"
    using pool_inv_covers [OF inv that] that by blast
  moreover have "\<forall>v\<in>set ((plWorkers p)[w := x]). worker_ok k samples (plCancelled p \<or> plJobsClosed p) v"
    using pool_invD(4) [OF inv] ok by (intro workers_update) auto
  moreover have "result_ok k samples r" if "r \<in> set (plResults p @ out)" for r
    using that pool_invD(5) [OF inv] out by auto
  ultimately show ?thesis
    using pool_invD [OF inv] by (intro pool_invI) simp_all
qed

lemma inv_worker_only:
  assumes "pool_inv k n s a samples p" "w < length (plWorkers p)" "worker_ok k samples (plCancelled p \<or> plJobsClosed p) x"
    and "\<not> plCancelled p \<Longrightarrow> busy (plWorkers p ! w) \<subseteq> busy x"
  shows "pool_inv k n s a samples (p\<lparr>plWorkers := (plWorkers p)[w := x]\<rparr>)"
  using inv_worker [of k n s a samples p w x "[]"] assms by simp

lemma inv_hand:
  assumes inv: "pool_inv k n s a samples p" and job: "plOffer p = Some (i, sample)"
    and w: "w < length (plWorkers p)" "plWorkers p ! w = Waiting"
  shows "pool_inv k n s a samples (p\<lparr>plOffer := None, plWorkers := (plWorkers p)[w := Holding i sample]\<rparr>)"
proof -
  have ok: "item_ok samples i sample" using inv job by (simp add: pool_inv_def)
  let ?q = "p\<lparr>plOffer := None, plWorkers := (plWorkers p)[w := Holding i sample]\<rparr>"
  have "in_flight p \<subseteq> in_flight ?q"
    using busy_update [OF w(1), of "Holding i sample"] w(2) job unfolding in_flight_def by simp blast
  then have "{..<plNextRun p} \<subseteq> {..<plNextIndex p} \<union> in_flight ?q" if "\<not> plCrashed p" "\<not> plCancelled p"
    using pool_inv_covers [OF inv that] by blast
  moreover have "\<forall>v\<in>set ((plWorkers p)[w := Holding i sample]). worker_ok k samples (plCancelled p \<or> plJobsClosed p) v"
    using pool_invD(4) [OF inv] ok by (intro workers_update) auto
  ultimately show ?thesis
    using pool_invD [OF inv] job by (intro pool_invI) simp_all
qed

lemma inv_produce:
  assumes inv: "pool_inv k n s a samples p" and idle: "plOffer p = None" "plNextRun p < n" "\<not> plJobsClosed p"
    and draw: "pkDraw k (plSource p) = Some (sample, source)"
  shows "pool_inv k n s a (samples @ [sample]) (p\<lparr>plSource := source, plOffer := Some (plNextRun p, sample), plNextRun := plNextRun p + 1\<rparr>)"
proof -
  let ?q = "p\<lparr>plSource := source, plOffer := Some (plNextRun p, sample), plNextRun := plNextRun p + 1\<rparr>"
  have d: "draws k s (plNextRun p) = Some (samples, plSource p)" using inv by (simp add: pool_inv_def)
  have len: "length samples = plNextRun p" by (rule draws_length [OF d])
  have "in_flight ?q = insert (plNextRun p) (in_flight p)"
    using idle(1) by (simp add: in_flight_def)
  then have "{..<plNextRun ?q} \<subseteq> {..<plNextIndex ?q} \<union> in_flight ?q" if "\<not> plCrashed p" "\<not> plCancelled p"
    using inv that by (auto simp: pool_inv_def less_Suc_eq)
  moreover have "accepted k (samples @ [sample]) a (plNextIndex p) = Some (plSession p)"
    using inv by (simp add: pool_inv_def accepted_prefix)
  moreover have "\<forall>w\<in>set (plWorkers p). worker_ok k (samples @ [sample]) (plCancelled p \<or> plJobsClosed p) w"
    using inv by (auto simp: pool_inv_def intro: worker_ok_mono)
  moreover have "item_ok (samples @ [sample]) (plNextRun p) sample"
    by (simp add: item_ok_def len [symmetric])
  moreover have "\<forall>i e. plCoordinator p = RunFailed i e \<longrightarrow> i < length (samples @ [sample]) \<and> pkProject k ((samples @ [sample]) ! i) = Some (Inl e)"
    using inv by (auto simp: pool_inv_def nth_append)
  ultimately show ?thesis
    using pool_invD [OF inv] idle draw d by (intro pool_invI) (simp_all add: result_ok_append pending_ok_append)
qed

lemma inv_cancel: "pool_inv k n s a samples p \<Longrightarrow> pool_inv k n s a samples (p\<lparr>plCancelled := True\<rparr>)"
  using pool_invD [of k n s a samples p] pool_inv_leaving [of k n s a samples p] by (intro pool_invI) simp_all

lemma inv_close:
  assumes "pool_inv k n s a samples p" "plOffer p = None \<and> plNextRun p = n \<or> plCancelled p"
  shows "pool_inv k n s a samples (p\<lparr>plOffer := None, plJobsClosed := True\<rparr>)"
proof -
  have "in_flight p = in_flight (p\<lparr>plOffer := None, plJobsClosed := True\<rparr>)" if "\<not> plCancelled p"
    using assms(2) that by (simp add: in_flight_def)
  then show ?thesis
    using pool_invD [OF assms(1)] pool_inv_leaving [OF assms(1)] assms(2) by (intro pool_invI) auto
qed

lemma close_idle: "plOffer p = None \<Longrightarrow> p\<lparr>plOffer := None, plJobsClosed := True\<rparr> = p\<lparr>plJobsClosed := True\<rparr>"
  by (cases p) simp

lemma inv_same: "pool_inv k n s a samples p \<Longrightarrow> \<exists>later. pool_inv k n s a (samples @ later) p"
  by (rule exI [of _ "[]"]) simp

lemma pool_step_inv:
  assumes "pool_step k n p q" and k: "order_only k P" "P a" and inv: "pool_inv k n s a samples p"
  shows "\<exists>later. pool_inv k n s a (samples @ later) q"
  using assms(1)
proof cases
  case (produce sample source)
  then show ?thesis using inv_produce [OF inv] by blast
next
  case (hand i sample w)
  show ?thesis unfolding hand(1) by (rule inv_same, rule inv_hand [OF inv hand(3-)])
next
  case (receive result results inflight)
  show ?thesis unfolding receive(1) by (rule inv_same, rule inv_received [OF k inv receive(5) receive(3)])
next
  case (simulate w i sample result)
  then have "item_ok samples i sample"
    using pool_invD(4) [OF inv, of "Holding i sample"] nth_mem [of w "plWorkers p"] by simp
  then show ?thesis
    unfolding simulate(1) using simulate
    by (intro inv_same inv_worker_only [OF inv]) (simp_all add: result_ok_def)
next
  case (send w result)
  then have "result_ok k samples result"
    using pool_invD(4) [OF inv, of "Sending result"] nth_mem [of w "plWorkers p"] by simp
  then show ?thesis
    unfolding send(1) using send by (intro inv_same inv_worker [OF inv]) simp_all
next
  case produced_all
  then have "pool_inv k n s a samples q" using inv_close [OF inv] close_idle [of p] by simp
  then show ?thesis by (rule inv_same)
next
  case (produce_cancelled job)
  then have "pool_inv k n s a samples q" using inv_close [OF inv] by simp
  then show ?thesis by (rule inv_same)
next
  case (no_more_jobs w)
  then show ?thesis
    unfolding no_more_jobs(1) by (intro inv_same inv_worker_only [OF inv]) simp_all
next
  case (check_cancelled w i sample)
  then show ?thesis
    unfolding check_cancelled(1) by (intro inv_same inv_worker_only [OF inv]) simp_all
next
  case (send_cancelled w result)
  then show ?thesis
    unfolding send_cancelled(1) by (intro inv_same inv_worker_only [OF inv]) simp_all
next
  case stopped
  show ?thesis
    unfolding stopped(1) using stopped(2-) pool_invD [OF inv]
    by (intro inv_same pool_invI) (simp_all add: in_flight_def)
next
  case finished
  have "plNextIndex p = n"
    using finished(4) pool_invD(2,7) [OF inv] draws_length [OF pool_invD(1) [OF inv]] by linarith
  then show ?thesis
    unfolding finished(1) using finished(2-) pool_invD [OF inv] pool_inv_leaving [OF inv]
    by (intro inv_same pool_invI) simp_all
next
  case produce_panic
  show ?thesis
    unfolding produce_panic(1) using pool_invD [OF inv] by (intro inv_same pool_invI) simp_all
next
  case (simulate_panic w i sample)
  show ?thesis
    unfolding simulate_panic(1) using pool_invD [OF inv] by (intro inv_same pool_invI) simp_all
qed

lemma pool_start_inv: "pool_inv k n s a [] (pool_start workerCount s a)"
  by (simp add: pool_inv_def pool_start_def pending_ok_def)

lemma pool_reaches_inv:
  assumes "pool_reaches k n (pool_start workerCount s a) p" "order_only k P" "P a"
  shows "\<exists>samples. pool_inv k n s a samples p"
  using assms(1)
proof induction
  case start
  show ?case by (rule exI, rule pool_start_inv)
next
  case (step p q)
  then obtain samples where "pool_inv k n s a samples p" by blast
  from pool_step_inv [OF step.hyps(2) assms(2,3) this] show ?case by blast
next
  case (caller_cancels p)
  then obtain samples where "pool_inv k n s a samples p" by blast
  from inv_cancel [OF this] show ?case by (rule exI)
qed

section \<open>Moves left\<close>

fun worker_moves :: "('j, 'e, 'p) worker \<Rightarrow> nat" where
  "worker_moves Waiting = 1"
| "worker_moves (Holding i sample) = 4"
| "worker_moves (Sending r) = 3"
| "worker_moves Exited = 0"

definition pool_moves :: "nat \<Rightarrow> ('s, 'j, 'e, 'p, 'a) pool \<Rightarrow> nat" where
  "pool_moves n p =
     5 * (n - plNextRun p) + (if plOffer p = None then 0 else 4) + sum_list (map worker_moves (plWorkers p)) + length (plResults p) +
     (if plJobsClosed p then 0 else 1) + (if plCancelled p then 0 else 1) + (if plCoordinator p = Running then 1 else 0) +
     (if plCrashed p then 0 else 1)"

lemma worker_moves_update:
  "w < length ws \<Longrightarrow> sum_list (map worker_moves (ws[w := x])) + worker_moves (ws ! w) = sum_list (map worker_moves ws) + worker_moves x"
proof (induction ws arbitrary: w)
  case (Cons y ws)
  then show ?case by (cases w) (auto simp: add.commute add.left_commute)
qed simp

lemma received_moves:
  "plCoordinator p = Running \<Longrightarrow> \<not> plCrashed p \<Longrightarrow> pool_moves n (received accept r p) \<le> pool_moves n p"
  by (auto simp: received_def pool_moves_def split: sum.splits option.splits)

lemma pool_step_moves: "pool_step k n p q \<Longrightarrow> pool_moves n q < pool_moves n p"
proof (induction rule: pool_step.induct)
  case (hand p i sample w)
  then show ?case using worker_moves_update [of w "plWorkers p" "Holding i sample"] by (simp add: pool_moves_def)
next
  case (no_more_jobs p w)
  then show ?case using worker_moves_update [of w "plWorkers p" Exited] by (simp add: pool_moves_def)
next
  case (check_cancelled p w i sample)
  then show ?case using worker_moves_update [of w "plWorkers p" Exited] by (simp add: pool_moves_def)
next
  case (simulate p w i sample result)
  then show ?case
    using worker_moves_update [of w "plWorkers p" "Sending (PathResult i sample result)"] by (simp add: pool_moves_def)
next
  case (send p w result)
  then show ?case using worker_moves_update [of w "plWorkers p" Waiting] by (simp add: pool_moves_def)
next
  case (send_cancelled p w result)
  then show ?case using worker_moves_update [of w "plWorkers p" Exited] by (simp add: pool_moves_def)
next
  case (receive p result results inflight)
  have "pool_moves n (received (pkAccept k inflight) result (p\<lparr>plResults := results\<rparr>)) \<le> pool_moves n (p\<lparr>plResults := results\<rparr>)"
    using receive by (intro received_moves) simp_all
  also have "\<dots> < pool_moves n p" using receive by (simp add: pool_moves_def)
  finally show ?case .
qed (auto simp: pool_moves_def)

section \<open>Nobody waits for ever\<close>

lemma pool_stuck:
  assumes inv: "pool_inv k n s a samples p" and workers: "plWorkers p \<noteq> []" and up: "\<not> plCrashed p"
    and stuck: "\<forall>q. \<not> pool_step k n p q"
  shows "pool_returned p \<and> plJobsClosed p"
proof -
  note D = pool_invD [OF inv]
  have holding: "plWorkers p ! w \<noteq> Holding i sample" if "w < length (plWorkers p)" for w i sample
    using stuck pool_step.simulate [of p w i sample k] pool_step.simulate_panic [of p w i sample k] up that
    by (cases "pkProject k sample") blast+
  have offer: "plOffer p \<noteq> None \<and> \<not> plCancelled p" if open_jobs: "\<not> plJobsClosed p"
  proof -
    have "plOffer p \<noteq> None"
    proof
      assume none: "plOffer p = None"
      show False
      proof (cases "plNextRun p = n")
        case True
        then show False using stuck pool_step.produced_all [of p n k] up open_jobs none by blast
      next
        case False
        then have "plNextRun p < n" using D(2) by simp
        then show False
          using stuck pool_step.produce [of p n k] pool_step.produce_panic [of p n k] up open_jobs none
          by (cases "pkDraw k (plSource p)") (blast, metis surj_pair)
      qed
    qed
    then show ?thesis using stuck pool_step.produce_cancelled [of p _ k n] up by blast
  qed
  have waiting: "plWorkers p ! w \<noteq> Waiting" if w: "w < length (plWorkers p)" for w
  proof (cases "plJobsClosed p")
    case True
    then show ?thesis using stuck pool_step.no_more_jobs [of p w k n] up w by blast
  next
    case False
    then obtain i sample where "plOffer p = Some (i, sample)" using offer by fastforce
    then show ?thesis using stuck pool_step.hand [of p i sample w k n] up w by blast
  qed
  have sending: "\<not> plCancelled p \<and> \<not> length (plResults p) < 2 * length (plWorkers p)"
    if "w < length (plWorkers p)" "plWorkers p ! w = Sending r" for w r
    using stuck pool_step.send [of p w r k n] pool_step.send_cancelled [of p w r k n] up that by blast
  have exited: "list_all (\<lambda>w. w = Exited) (plWorkers p)" if "plCancelled p \<or> plResults p = []"
    unfolding list_all_length
  proof (intro allI impI)
    fix w
    assume w: "w < length (plWorkers p)"
    then show "plWorkers p ! w = Exited"
      using holding [OF w] waiting [OF w] sending [OF w] that workers by (cases "plWorkers p ! w") auto
  qed
  show ?thesis
  proof (cases "plCoordinator p = Running")
    case False
    then have "plCancelled p" using D(11) by simp
    then show ?thesis using exited offer False up by (auto simp: pool_returned_def)
  next
    case True
    have next_index: "plNextIndex p < n"
      using stuck pool_step.finished [of p n k] up True by blast
    then have running: "\<not> plCancelled p"
      using stuck pool_step.stopped [of p n k] up True by blast
    have none: "plResults p = []"
    proof (cases "plResults p")
      case (Cons r results)
      then show ?thesis using stuck pool_step.receive [of p n r results k False] up True next_index by blast
    qed
    then have all: "w \<in> set (plWorkers p) \<Longrightarrow> w = Exited" for w
      using exited by (auto simp: list_all_iff)
    obtain w where "w \<in> set (plWorkers p)" using workers by (cases "plWorkers p") auto
    then have "plJobsClosed p" using D(4) all running by fastforce
    then have "plOffer p = None" "plNextRun p = n" using D(10) running by auto
    moreover have "\<Union> (busy ` set (plWorkers p)) = {}" using all by fastforce
    ultimately have "plNextIndex p \<in> dom (map_of (plPending p))"
      using D(12) [OF up running] next_index none by (auto simp: in_flight_def)
    then show ?thesis using D(9) by auto
  qed
qed

lemma received_workers [simp]: "plWorkers (received accept r p) = plWorkers p"
  by (auto simp: received_def split: sum.splits option.splits)

lemma pool_reaches_workers: "pool_reaches k n start p \<Longrightarrow> length (plWorkers p) = length (plWorkers start)"
proof (induction rule: pool_reaches.induct)
  case (step p q)
  from step.hyps(2) step.IH show ?case by cases simp_all
qed simp_all

lemma first_move:
  assumes "pkDraw k source = Some (sample, source')" "0 < n"
  shows "pool_step k n (pool_start workerCount source s)
    ((pool_start workerCount source s)\<lparr>plSource := source', plOffer := Some (0, sample), plNextRun := 1\<rparr>)"
  using pool_step.produce [of "pool_start workerCount source s" n k sample source'] assms by (simp add: pool_start_def)

end
