(* ===== verification/Sampling_Laws.thy ===== *)
theory Sampling_Laws
  imports Sampling Float_Error
begin

text \<open>
  Sorted buffers and percentiles: sorting keeps every value and orders the numbers, merging sorted
  buffers is sorting the values together, and every percentile of a non-empty buffer reads inside it.
\<close>

section \<open>Sorted buffers\<close>

interpretation float_less: less_order float_less
proof (unfold_locales, goal_cases)
  case (1 x y)
  then show ?case by (cases x; cases y) (auto simp: float_less_def)
next
  case (2 x y z)
  then show ?case by (cases x; cases y; cases z) (auto simp: float_less_def)
qed

lemma Float64s_mset [simp]: "mset (Float64s xs) = mset xs"
  and Float64s_set [simp]: "set (Float64s xs) = set xs"
  and Float64s_length [simp]: "length (Float64s xs) = length xs"
  and Float64s_Nil [simp]: "Float64s [] = []"
  by (simp_all add: Float64s_def)

lemma Float64s_ordered: "ordered_by float_less (Float64s xs)"
  unfolding Float64s_def by (rule float_less.ordered_sort_by)

lemma float_less_ties: "float_less.ties x y \<Longrightarrow> x = y"
  by (cases x; cases y) (auto simp: float_less.ties_def float_less_def)

lemma MergeSorted_Nil [simp]: "MergeSorted xs [] = xs"
  by (cases xs) auto

lemma MergeSorted_mset [simp]: "mset (MergeSorted xs ys) = mset xs + mset ys"
  by (induction xs ys rule: MergeSorted.induct) auto

lemma MergeSorted_set [simp]: "set (MergeSorted xs ys) = set xs \<union> set ys"
  by (induction xs ys rule: MergeSorted.induct) auto

lemma float_less_number: "a \<noteq> FNaN \<Longrightarrow> float_less b a \<longleftrightarrow> b = FNaN \<or> b < a"
  by (cases a; cases b) (auto simp: float_less_def)

lemma MergeSorted_ordered:
  "ordered_by float_less xs \<Longrightarrow> ordered_by float_less ys \<Longrightarrow> FNaN \<notin> set xs \<union> set ys \<Longrightarrow>
     ordered_by float_less (MergeSorted xs ys)"
proof (induction xs ys rule: MergeSorted.induct)
  case (3 a as b bs)
  have num: "a \<noteq> FNaN" "b \<noteq> FNaN"
    using "3.prems"(3) by auto
  show ?case
  proof (cases "a \<le> b")
    case True
    then have "\<not> float_less b a"
      using num by (cases a; cases b) (auto simp: float_less_def)
    then have "\<not> float_less y a" if "y \<in> set (b # bs)" for y
      using that "3.prems"(2) float_less.negtrans [of y b a] by auto
    then show ?thesis
      using 3 True by auto
  next
    case False
    then have "\<not> float_less a b"
      using num by (cases a; cases b) (auto simp: float_less_def)
    then have "\<not> float_less y b" if "y \<in> set (a # as)" for y
      using that "3.prems"(1) float_less.negtrans [of y a b] by auto
    then show ?thesis
      using 3 False by auto
  qed
qed auto

text \<open>An ordered list of numbers is determined by its values.\<close>

lemma Float64s_unique: "ordered_by float_less xs \<Longrightarrow> mset xs = mset ys \<Longrightarrow> xs = Float64s ys"
  by (rule float_less.ordered_unique) (auto simp: Float64s_ordered dest: float_less_ties)

lemma MergeSorted_Float64s:
  "FNaN \<notin> set xs \<union> set ys \<Longrightarrow> MergeSorted (Float64s xs) (Float64s ys) = Float64s (xs @ ys)"
  by (rule Float64s_unique) (simp_all add: MergeSorted_ordered Float64s_ordered)

lemma Float64s_cong: "mset xs = mset ys \<Longrightarrow> Float64s xs = Float64s ys"
  by (rule Float64s_unique) (simp_all add: Float64s_ordered)

section \<open>Percentiles\<close>

lemma f64_of_int_length: "xs \<noteq> [] \<Longrightarrow> int (length xs) \<le> 2 ^ 53 \<Longrightarrow>
    f64_of_int (int (length xs) - 1) = FNum (of_int (int (length xs) - 1))"
  unfolding f64_of_int_def by (rule f64_of_rat_of_int) (cases xs; simp)

lemma rnd_1 [simp]: "rnd 1 = 1"
  using rnd_of_int [of 1] by simp

lemma int_of_float_of_int: "\<bar>n\<bar> \<le> 2 ^ 53 \<Longrightarrow> int_of_float (FNum (of_int n)) = n"
  by (auto simp: int_of_float_def float_to_int_def Let_def)

text \<open>A share of the largest index, rounded, stays between the first index and the last.\<close>

lemma percentile_position:
  assumes "0 \<le> q" "q \<le> 1" "0 \<le> n" "n \<le> 2 ^ 53"
  obtains r where "f64_of_rat q * FNum (of_int n) = FNum r" "FNum (of_int n) * f64_of_rat q = FNum r"
    "0 \<le> r" "r \<le> of_int n" "r = rnd (rnd q * of_int n)"
proof -
  have q: "0 \<le> rnd q" "rnd q \<le> 1"
    using rnd_mono [of 0 q] rnd_mono [of q 1] assms(1,2) by auto
  then have fq: "f64_of_rat q = FNum (rnd q)"
    using p2_strict_mono [of 0 1024] by (simp add: f64_of_rat_def)
  let ?r = "rnd (rnd q * of_int n)"
  have "rnd q * of_int n \<le> of_int n"
    using q assms(3) by (simp add: mult_left_le_one_le)
  then have r: "0 \<le> ?r" "?r \<le> of_int n"
    using rnd_mono [of 0 "rnd q * of_int n"] rnd_mono [of "rnd q * of_int n" "of_int n"] q assms(3,4)
    by (auto simp: rnd_of_int)
  have "\<bar>?r\<bar> < p2 1024"
    using r p2_1024_big [of n] assms(3,4) by (simp add: abs_le_iff)
  then have "f64_of_rat (rnd q * of_int n) = FNum ?r"
    by (simp add: f64_of_rat_def)
  then show ?thesis
    using that [of ?r] r fq by (simp add: mult.commute)
qed

lemma value_at_in [simp]: "0 \<le> i \<Longrightarrow> i < int (length xs) \<Longrightarrow> value_at xs i = Some (xs ! nat i)"
  by (simp add: value_at_def)

lemma quantile_defined:
  assumes "xs \<noteq> []" "int (length xs) \<le> 2 ^ 53" "0 \<le> q" "q \<le> 1"
  shows "\<exists>v. quantile xs (f64_of_rat q) = Some v"
proof -
  define n where "n = int (length xs) - 1"
  have n: "0 \<le> n" "n \<le> 2 ^ 53" "int (length xs) = n + 1"
    using assms(1,2) by (cases xs; simp add: n_def)+
  obtain r where r: "f64_of_rat q * FNum (of_int n) = FNum r" "0 \<le> r" "r \<le> of_int n"
    using percentile_position [OF assms(3,4) n(1,2)] by metis
  have b: "0 \<le> \<lfloor>r\<rfloor>" "\<lfloor>r\<rfloor> \<le> n" "0 \<le> \<lceil>r\<rceil>" "\<lceil>r\<rceil> \<le> n"
    using r by (auto simp: ceiling_le_iff floor_le_iff le_floor_iff le_ceiling_iff)
  then have "\<bar>\<lfloor>r\<rfloor>\<bar> \<le> 2 ^ 53" "\<bar>\<lceil>r\<rceil>\<bar> \<le> 2 ^ 53"
    using n by linarith+
  then have "int_of_float (math_Floor (FNum r)) = \<lfloor>r\<rfloor>" "int_of_float (math_Ceil (FNum r)) = \<lceil>r\<rceil>"
    by (simp_all add: int_of_float_of_int)
  moreover have "f64_of_int (int (length xs) - 1) = FNum (of_int n)"
    using f64_of_int_length [OF assms(1,2)] by (simp only: n_def)
  moreover have "value_at xs \<lfloor>r\<rfloor> = Some (xs ! nat \<lfloor>r\<rfloor>)" "value_at xs \<lceil>r\<rceil> = Some (xs ! nat \<lceil>r\<rceil>)"
    using b n(3) by (auto intro!: value_at_in)
  ultimately have "quantile xs (f64_of_rat q) =
      Some (if \<lfloor>r\<rfloor> = \<lceil>r\<rceil> then xs ! nat \<lfloor>r\<rfloor>
            else xs ! nat \<lfloor>r\<rfloor> * (f64_of_int 1 - (FNum r - f64_of_int \<lfloor>r\<rfloor>)) + xs ! nat \<lceil>r\<rceil> * (FNum r - f64_of_int \<lfloor>r\<rfloor>))"
    unfolding quantile_def Let_def by (simp only: r(1) option.case split: if_split) simp
  then show ?thesis by blast
qed

lemma percentiles_defined:
  assumes "int (length xs) \<le> 2 ^ 53"
  shows "\<exists>bands. ComputePercentilesFromSorted xs = Some bands" "\<exists>bands. ComputePercentiles xs = Some bands"
proof -
  have *: "\<exists>bands. ComputePercentilesFromSorted ys = Some bands" if len: "int (length ys) \<le> 2 ^ 53" for ys
  proof (cases "ys = []")
    case False
    note q = quantile_defined [OF False len]
    show ?thesis
      using q [of "1 / 10"] q [of "1 / 4"] q [of "1 / 2"] q [of "3 / 4"] q [of "9 / 10"]
      by (auto simp: ComputePercentilesFromSorted_def)
  qed (simp add: ComputePercentilesFromSorted_def)
  show "\<exists>bands. ComputePercentilesFromSorted xs = Some bands" "\<exists>bands. ComputePercentiles xs = Some bands"
    using * [OF assms] * [of "Float64s xs"] assms by (auto simp: ComputePercentiles_def)
qed

lemma round_half_away_mono: "0 \<le> a \<Longrightarrow> a \<le> b \<Longrightarrow> round_half_away a \<le> round_half_away b"
  by (simp add: round_half_away_def floor_mono)

lemma round_half_away_range: "0 \<le> a \<Longrightarrow> a \<le> of_int n \<Longrightarrow> 0 \<le> round_half_away a \<and> round_half_away a \<le> n"
proof -
  assume a: "0 \<le> a" "a \<le> of_int n"
  have "round_half_away (of_int n) = n"
    using a math_Round_whole [of "FNum (of_int n)" n] by (simp add: whole_def)
  moreover have "round_half_away 0 = 0"
    by (simp add: round_half_away_def floor_unique)
  ultimately show ?thesis
    using round_half_away_mono [OF a] round_half_away_mono [of 0 a] a(1) by simp
qed

end
