(* ===== verification/Sampling_Properties.thy ===== *)
theory Sampling_Properties
  imports Sampling_Laws
begin

text \<open>
  What the percentile buffers hold: batch by batch they are the sorted values of all runs; and where
  the interpolation between two equal values does not give the value back.
\<close>

section \<open>Buffers\<close>

text \<open>A batch is sorted and merged into the buffer; the first batch is the buffer.\<close>

definition add_batch :: "f64 list option \<Rightarrow> f64 list \<Rightarrow> f64 list option" where
  "add_batch buffer batch =
     Some (case buffer of None \<Rightarrow> Float64s batch | Some existing \<Rightarrow> MergeSorted existing (Float64s batch))"

lemma add_batches:
  "FNaN \<notin> set vs \<union> \<Union> (set ` set batches) \<Longrightarrow>
     foldl add_batch (Some (Float64s vs)) batches = Some (Float64s (vs @ concat batches))"
proof (induction batches arbitrary: vs)
  case (Cons b bs)
  then show ?case
    using Cons.IH [of "vs @ b"] by (auto simp: add_batch_def MergeSorted_Float64s)
qed simp

section \<open>Rounding a number that is not representable\<close>

lemma round_half_even_eqI: "\<bar>y - of_int m\<bar> < 1 / 2 \<or> \<bar>y - of_int m\<bar> \<le> 1 / 2 \<and> even m \<Longrightarrow> round_half_even y = m"
proof -
  assume y: "\<bar>y - of_int m\<bar> < 1 / 2 \<or> \<bar>y - of_int m\<bar> \<le> 1 / 2 \<and> even m"
  then have odd: "odd m \<Longrightarrow> - (1 / 2) < y - of_int m \<and> y - of_int m < 1 / 2" and near: "- (1 / 2) \<le> y - of_int m" "y - of_int m \<le> 1 / 2"
    by (auto simp: abs_le_iff abs_less_iff simp del: divide_le_eq_numeral1 le_divide_eq_numeral1 divide_less_eq_numeral1 less_divide_eq_numeral1)
  then consider "of_int m \<le> y" "y < of_int m + 1" | "of_int (m - 1) \<le> y" "y < of_int (m - 1) + 1"
    by (cases "of_int m \<le> y") auto
  then show ?thesis
  proof cases
    case 1
    then have "\<lfloor>y\<rfloor> = m" by (rule floor_unique)
    then show ?thesis using odd near by (cases "odd m") (auto simp: round_half_even_def Let_def)
  next
    case 2
    then have "\<lfloor>y\<rfloor> = m - 1" by (rule floor_unique)
    then show ?thesis using odd near by (cases "odd m") (auto simp: round_half_even_def Let_def)
  qed
qed

lemma rnd_eqI:
  assumes x: "p2 (e + 52) \<le> x" "x < p2 (e + 53)" and e: "- 1074 \<le> e"
    and m: "\<bar>x - of_int m * p2 e\<bar> < p2 e / 2 \<or> \<bar>x - of_int m * p2 e\<bar> \<le> p2 e / 2 \<and> even m"
  shows "rnd x = of_int m * p2 e"
proof -
  have pos: "0 < x"
    using x(1) p2_pos [of "e + 52"] by linarith
  then have "rat_log2 \<bar>x\<bar> = e + 52"
    using rat_log2_ge [of x "e + 52"] rat_log2_lt [of x "e + 53"] x by simp
  then have u: "ulp_exp x = e"
    using e by (simp add: ulp_exp_def)
  have "x / p2 e - of_int m = (x - of_int m * p2 e) / p2 e"
    by (simp add: diff_divide_distrib)
  then have "\<bar>x / p2 e - of_int m\<bar> = \<bar>x - of_int m * p2 e\<bar> / p2 e"
    by (simp add: abs_divide)
  then have "round_half_even (x / p2 e) = m"
    using m by (intro round_half_even_eqI) (simp add: divide_less_eq divide_le_eq)
  then show ?thesis
    using pos u by (simp add: rnd_def)
qed

lemma f64_of_rat_eqI:
  assumes "p2 (e + 52) \<le> x" "x < p2 (e + 53)" "- 1074 \<le> e" "e \<le> 0"
    "\<bar>x - of_int m * p2 e\<bar> < p2 e / 2 \<or> \<bar>x - of_int m * p2 e\<bar> \<le> p2 e / 2 \<and> even m" "\<bar>m\<bar> \<le> 2 ^ 53"
  shows "f64_of_rat x = FNum (of_int m * p2 e)"
proof -
  have "p2 e \<le> 1"
    using p2_mono [of e 0] assms(4) by simp
  then have "\<bar>of_int m * p2 e\<bar> \<le> \<bar>of_int m\<bar>"
    by (simp add: abs_mult mult_left_le)
  then have "\<bar>of_int m * p2 e\<bar> < p2 1024"
    using p2_1024_big [OF assms(6)] by linarith
  then show ?thesis
    using rnd_eqI [OF assms(1-3,5)] by (simp add: f64_of_rat_def)
qed

section \<open>Equal values\<close>

text \<open>Three runs that end at 3: the tenth percentile is \<open>3 * (1 - 0.2) + 3 * 0.2\<close> in floats.\<close>

theorem identical_values_percentile:
  "quantile [FNum 3, FNum 3, FNum 3] (f64_of_rat (1 / 10)) = Some (FNum (3 + 1 / 2251799813685248))"
proof -
  have exact: "f64_of_rat x = FNum y" if "f64_of_rat x = FNum (of_int m * p2 e)" "of_int m * p2 e = y" for x y m e
    using that by simp
  have q: "f64_of_rat (1 / 10) = FNum (3602879701896397 / 36028797018963968)"
    by (rule exact [OF f64_of_rat_eqI [of "- 56" _ 7205759403792794]]) (simp_all add: p2_def)
  have i: "f64_of_int 2 = FNum 2" "f64_of_int 1 = FNum 1" "f64_of_int 0 = FNum 0"
    by (simp_all add: f64_of_int_def f64_of_rat_numeral zero_f64_def)
  have r: "f64_of_rat (3602879701896397 / 18014398509481984) = FNum (3602879701896397 / 18014398509481984)"
    by (rule exact [OF f64_of_rat_eqI [of "- 55" _ 7205759403792794]]) (simp_all add: p2_def)
  have s: "f64_of_rat (14411518807585587 / 18014398509481984) = FNum (3602879701896397 / 4503599627370496)"
    by (rule exact [OF f64_of_rat_eqI [of "- 53" _ 7205759403792794]]) (simp_all add: p2_def)
  have "f64_of_rat (10808639105689191 / 4503599627370496) = FNum (1351079888211149 / 562949953421312)"
    by (rule exact [OF f64_of_rat_eqI [of "- 51" _ 5404319552844596]]) (simp_all add: p2_def)
  moreover have "f64_of_rat (10808639105689191 / 18014398509481984) = FNum (1351079888211149 / 2251799813685248)"
    by (rule exact [OF f64_of_rat_eqI [of "- 53" _ 5404319552844596]]) (simp_all add: p2_def)
  moreover have "f64_of_rat (6755399441055745 / 2251799813685248) = FNum (6755399441055745 / 2251799813685248)"
    by (rule exact [OF f64_of_rat_eqI [of "- 51" _ 6755399441055745]]) (simp_all add: p2_def)
  moreover have "\<lceil>3602879701896397 / 18014398509481984 :: rat\<rceil> = 1" "\<lfloor>3602879701896397 / 18014398509481984 :: rat\<rfloor> = 0"
    by (simp_all add: ceiling_unique floor_unique)
  moreover have "int_of_float (FNum 0) = 0" "int_of_float (FNum 1) = 1"
    by (simp_all add: int_of_float_def float_to_int_def)
  ultimately show ?thesis
    by (simp add: quantile_def q i r s value_at_def minus_f64_def)
qed

end
