(* ===== verification/Session_Laws.thy ===== *)
theory Session_Laws
  imports Worker_Pool_Laws Sampling_Properties Occurrence_Laws
begin

text \<open>
  The session under the pool: accumulation keeps what the trials were started with, whether a simulation is in
  flight elsewhere does not show in a session whose readers answer from the path alone, the trials of a session
  without volatile amounts are the specification's, and the percentile buffers hold the values of the trials so far.
\<close>

section \<open>Readers\<close>

text \<open>A reader that answers from the path does not look at the guard that keeps it from simulating.\<close>

definition ignores_guard :: "('c, 'r, 'a) instanceRuntime \<Rightarrow> bool" where
  "ignores_guard r \<longleftrightarrow>
     (\<forall>d c. irDefinition r = Some (d, c) \<longrightarrow> IsSimulator d \<or>
        (\<forall>env allowed ctx. edEvaluatePath d (env\<lparr>envResimulationAllowed := allowed\<rparr>) ctx c = edEvaluatePath d env ctx c))"

definition answers_from_path :: "('c, 'r, 'a) stochasticSession \<Rightarrow> bool" where
  "answers_from_path s \<longleftrightarrow> list_all ignores_guard (tsRuntimes s)"

lemma stochastic_failure_definition [simp]: "irDefinition (stochastic_failure code e r) = irDefinition r"
  by (simp add: stochastic_failure_def add_diagnostics_def)

lemma consume_path_definition:
  assumes "consume_path inflight env ctx r = Some r'"
  shows "irDefinition r' = irDefinition r"
proof (cases "(irDefinition r, irAccumulator r)")
  case (Pair d a)
  show ?thesis
  proof (cases "d = None \<or> a = None \<or> irStochasticFailed r")
    case True
    with assms Pair show ?thesis by (auto simp: consume_path_def split: option.splits)
  next
    case False
    then obtain e c b where "d = Some (e, c)" "a = Some b" by fastforce
    with assms Pair False obtain out where "edEvaluatePath e (withReaderGuard inflight e env) ctx c = Some out"
      "r' = (case out of Inl m \<Rightarrow> stochastic_failure ''evaluation-runtime-error'' m r
        | Inr v \<Rightarrow> (case edAccumulate e b v of Inl m \<Rightarrow> stochastic_failure ''evaluation-runtime-error'' m r
            | Inr b \<Rightarrow> r\<lparr>irAccumulator := Some b\<rparr>))"
      by (auto simp: consume_path_def)
    then show ?thesis by (simp split: sum.splits)
  qed
qed

lemma finalize_definition [simp]: "irDefinition (finalize ctx r) = irDefinition r"
  by (simp add: finalize_def stochastic_failure_def add_diagnostics_def split: option.splits sum.splits)

lemma consume_path_inflight: "ignores_guard r \<Longrightarrow> consume_path inflight env ctx r = consume_path False env ctx r"
  by (auto simp: consume_path_def ignores_guard_def withReaderGuard_def split: option.splits)

lemma those_SomeD: "those xs = Some ys \<Longrightarrow> xs = map Some ys"
proof (induction xs arbitrary: ys)
  case (Cons x xs)
  then show ?case by (auto split: option.splits)
qed simp

lemma Consume_definitions:
  assumes "Consume inflight env ctx rs = Some rs'"
  shows "map irDefinition rs' = map irDefinition rs"
proof -
  have "map (consume_path inflight env ctx) rs = map Some rs'"
    using assms by (simp add: Consume_def those_SomeD)
  then show ?thesis
  proof (induction rs arbitrary: rs')
    case (Cons r rs)
    then obtain r' rest where "rs' = r' # rest" by (cases rs') auto
    with Cons show ?case by (auto dest: consume_path_definition)
  qed simp
qed

lemma Finalize_definitions [simp]: "map irDefinition (Finalize ctx rs) = map irDefinition rs"
  by (simp add: Finalize_def comp_def)

lemma ignores_guard_cong: "irDefinition r = irDefinition r' \<Longrightarrow> ignores_guard r = ignores_guard r'"
  by (simp add: ignores_guard_def)

lemma list_all_ignores_guard: "map irDefinition rs = map irDefinition rs' \<Longrightarrow> list_all ignores_guard rs = list_all ignores_guard rs'"
proof (induction rs arbitrary: rs')
  case (Cons r rs)
  then obtain r' rest where "rs' = r' # rest" by (cases rs') auto
  with Cons show ?case by (auto dest: ignores_guard_cong)
qed simp

lemma Consume_inflight: "list_all ignores_guard rs \<Longrightarrow> Consume inflight env ctx rs = Consume False env ctx rs"
  unfolding Consume_def by (rule arg_cong [where f = those], rule map_cong [OF refl]) (auto simp: list_all_iff intro: consume_path_inflight)

section \<open>What accumulation keeps\<close>

definition trials_fixed :: "('c, 'r, 'a) stochasticSession \<Rightarrow> ('c, 'r, 'a) stochasticSession \<Rightarrow> bool" where
  "trials_fixed s s' \<longleftrightarrow>
     tsConfig s' = tsConfig s \<and> tsPrepared s' = tsPrepared s \<and> tsSampleCounts s' = tsSampleCounts s \<and>
     tsSortedDates s' = tsSortedDates s \<and> map irDefinition (tsRuntimes s') = map irDefinition (tsRuntimes s)"

lemma trials_fixed_refl [simp]: "trials_fixed s s" by (simp add: trials_fixed_def)

lemma trials_fixed_trans: "trials_fixed s s' \<Longrightarrow> trials_fixed s' s'' \<Longrightarrow> trials_fixed s s''"
  by (simp add: trials_fixed_def)

lemma report_reports: "\<exists>reports. report g v s = s\<lparr>tsReports := reports\<rparr>"
  by (rule exI [of _ "if tsOnProgress s then tsReports s @ [(g, v)] else tsReports s"]) (simp add: report_def)

lemma accumulate_path_fields [simp]:
  "tsConfig (accumulate_path path runtimes s) = tsConfig s" "tsPrepared (accumulate_path path runtimes s) = tsPrepared s"
  "tsSampleCounts (accumulate_path path runtimes s) = tsSampleCounts s"
  "tsSortedDates (accumulate_path path runtimes s) = tsSortedDates s"
  "tsCompletedRuns (accumulate_path path runtimes s) = tsCompletedRuns s + 1"
  "tsRuntimes (accumulate_path path runtimes s) = runtimes"
  by (simp_all add: accumulate_path_def)

lemma flushed_fields [simp]:
  "tsConfig (flushed s) = tsConfig s" "tsPrepared (flushed s) = tsPrepared s"
  "tsSampleCounts (flushed s) = tsSampleCounts s" "tsSortedDates (flushed s) = tsSortedDates s"
  "tsCompletedRuns (flushed s) = tsCompletedRuns s" "map irDefinition (tsRuntimes (flushed s)) = map irDefinition (tsRuntimes s)"
  by (simp_all add: flushed_def)

text \<open>One trial: the runtimes read the path, its values are appended, and a complete batch is merged.\<close>

definition trial_added ::
  "ProjectionPath \<Rightarrow> ('c, 'r, 'a) instanceRuntime list \<Rightarrow> ('c, 'r, 'a) stochasticSession \<Rightarrow> ('c, 'r, 'a) stochasticSession" where
  "trial_added path runtimes s =
     (let s = accumulate_path path runtimes s in if batch_complete s then flushed s else s)"

lemma consumeOrderedE:
  assumes "consumeOrdered inflight env path sample s = Some s'"
  obtains runtimes reports where
    "Consume inflight env \<lparr>exPath = path, exModel = phEffectiveModel path, exMonteCarloSample = Some sample,
       exDetailLevel = ''summary''\<rparr> (tsRuntimes s) = Some runtimes"
    "s' = (trial_added path runtimes s)\<lparr>tsReports := reports\<rparr>"
    "batch_complete (accumulate_path path runtimes s) \<Longrightarrow> buildResult (trial_added path runtimes s) \<noteq> None"
proof -
  obtain runtimes where r: "Consume inflight env \<lparr>exPath = path, exModel = phEffectiveModel path,
      exMonteCarloSample = Some sample, exDetailLevel = ''summary''\<rparr> (tsRuntimes s) = Some runtimes"
    using assms by (auto simp: consumeOrdered_def split: option.splits)
  let ?s = "accumulate_path path runtimes s"
  show ?thesis
  proof (cases "batch_complete ?s")
    case True
    then obtain v where v: "buildResult (flushed ?s) = Some v" "s' = report (session_progress PhaseStochasticRuns ?s) (Some v) (flushed ?s)"
      using assms r by (auto simp: consumeOrdered_def flushBatchLocked_def Let_def)
    obtain reports where "report (session_progress PhaseStochasticRuns ?s) (Some v) (flushed ?s) = (flushed ?s)\<lparr>tsReports := reports\<rparr>"
      using report_reports by blast
    moreover have "trial_added path runtimes s = flushed ?s" using True by (simp add: trial_added_def Let_def)
    ultimately show ?thesis using v by (intro that [OF r]) simp_all
  next
    case False
    then have added: "trial_added path runtimes s = ?s" by (simp add: trial_added_def Let_def)
    from False consider "s' = report (session_progress PhaseStochasticRuns ?s) None ?s" | "s' = ?s\<lparr>tsReports := tsReports ?s\<rparr>"
      using assms r by (simp add: consumeOrdered_def Let_def split: if_splits)
    then obtain reports where "s' = ?s\<lparr>tsReports := reports\<rparr>"
      by cases (use report_reports in blast)+
    then show ?thesis using False added by (intro that [OF r]) simp_all
  qed
qed

lemma trial_added_fixed:
  "tsConfig (trial_added path runtimes s) = tsConfig s" "tsPrepared (trial_added path runtimes s) = tsPrepared s"
  "tsSampleCounts (trial_added path runtimes s) = tsSampleCounts s" "tsSortedDates (trial_added path runtimes s) = tsSortedDates s"
  "tsCompletedRuns (trial_added path runtimes s) = tsCompletedRuns s + 1"
  "map irDefinition (tsRuntimes (trial_added path runtimes s)) = map irDefinition runtimes"
  by (cases "batch_complete (accumulate_path path runtimes s)", simp_all add: trial_added_def Let_def)

lemma consumeOrdered_fixed:
  assumes "consumeOrdered inflight env path sample s = Some s'"
  shows "trials_fixed s s'" "tsCompletedRuns s' = tsCompletedRuns s + 1"
  using assms by (rule consumeOrderedE, simp add: trials_fixed_def trial_added_fixed Consume_definitions)+

lemma answers_from_path_fixed: "trials_fixed s s' \<Longrightarrow> answers_from_path s' = answers_from_path s"
  unfolding answers_from_path_def by (rule list_all_ignores_guard) (simp add: trials_fixed_def)

lemma consumeOrdered_inflight:
  "answers_from_path s \<Longrightarrow> consumeOrdered inflight env path sample s = consumeOrdered False env path sample s"
  by (simp add: consumeOrdered_def answers_from_path_def Consume_inflight [where inflight = inflight])

lemma session_order_only:
  fixes session :: "('c, 'r, 'a) stochasticSession"
  shows "order_only (session_calls env sampler session) answers_from_path"
  unfolding order_only_def
proof (intro allI impI conjI)
  fix inflight path sample and s s' :: "('c, 'r, 'a) stochasticSession"
  assume s: "answers_from_path s"
  show "pkAccept (session_calls env sampler session) inflight path sample s =
      pkAccept (session_calls env sampler session) False path sample s"
    using consumeOrdered_inflight [OF s] by (simp add: session_calls_def)
  assume "pkAccept (session_calls env sampler session) False path sample s = Some s'"
  then show "answers_from_path s'"
    using s answers_from_path_fixed consumeOrdered_fixed(1) by (fastforce simp: session_calls_def)
qed

section \<open>The percentile buffers\<close>

definition values_on :: "string \<Rightarrow> ProjectionPath list \<Rightarrow> f64 list" where
  "values_on date paths =
     concat (map (\<lambda>p. map (\<lambda>r. mathRound (rwNetWorth r)) (filter (\<lambda>r. rwDate r = date) (phRows p))) paths)"

lemma values_on_simps [simp]:
  "values_on date [] = []" "values_on date (ps @ qs) = values_on date ps @ values_on date qs"
  by (simp_all add: values_on_def)

definition number_paths :: "ProjectionPath list \<Rightarrow> bool" where
  "number_paths paths \<longleftrightarrow> (\<forall>p\<in>set paths. \<forall>r\<in>set (phRows p). rwNetWorth r \<noteq> FNaN)"

lemma f64_of_rat_half: "f64_of_rat (1 / 2) = FNum (1 / 2)"
proof -
  have "f64_of_rat (1 / 2) = FNum (of_int 4503599627370496 * p2 (- 53))"
    by (rule f64_of_rat_eqI) (simp_all add: p2_def)
  then show ?thesis by (simp add: p2_def)
qed

lemma mathRound_number: "v \<noteq> FNaN \<Longrightarrow> mathRound v \<noteq> FNaN"
proof -
  assume "v \<noteq> FNaN"
  moreover have "f64_of_rat x \<noteq> FNaN" for x by (simp add: f64_of_rat_def Let_def)
  moreover have "math_Floor w = FNaN \<longleftrightarrow> w = FNaN" for w by (cases w) auto
  moreover have "f64_of_rat (1 / 2) = FNum (1 / 2)" by (rule f64_of_rat_half)
  ultimately show ?thesis
    unfolding mathRound_def by (cases v) auto
qed

lemma values_on_number: "number_paths paths \<Longrightarrow> FNaN \<notin> set (values_on date paths)"
  by (force simp: values_on_def number_paths_def dest: mathRound_number)

lemma go_index_append_value:
  "go_index [] (append_value row m) date = go_index [] m date @ (if rwDate row = date then [mathRound (rwNetWorth row)] else [])"
  by (simp add: append_value_def go_index_append_at)

lemma fold_append_value:
  "go_index [] (fold append_value rows m) date =
     go_index [] m date @ map (\<lambda>r. mathRound (rwNetWorth r)) (filter (\<lambda>r. rwDate r = date) rows)"
  by (induction rows arbitrary: m) (simp_all add: go_index_append_value)

lemma fold_append_value_keys: "finite (Mapping.keys m) \<Longrightarrow> finite (Mapping.keys (fold append_value rows m))"
  by (induction rows arbitrary: m) (simp_all add: append_value_def append_at_def)

lemma go_index_flush_date:
  "go_index [] (flush_date pending k m) date =
     (if date = k then MergeSorted (go_index [] m date) (Float64s (go_index [] pending date)) else go_index [] m date)"
  by (simp add: flush_date_def Let_def lookup_default_update' lookup_default_def split: option.split)

lemma fold_flush_date:
  "distinct dates \<Longrightarrow> go_index [] (fold (flush_date pending) dates m) date =
     (if date \<in> set dates then MergeSorted (go_index [] m date) (Float64s (go_index [] pending date)) else go_index [] m date)"
  by (induction dates arbitrary: m) (auto simp: go_index_flush_date)

lemma Float64s_Nil [simp]: "Float64s [] = []"
  using Float64s_mset [of "[]"] by simp

lemma flushed_values:
  assumes "finite (Mapping.keys (tsPendingValuesByDate s))"
  shows "go_index [] (tsSortedValuesByDate (flushed s)) date =
      MergeSorted (go_index [] (tsSortedValuesByDate s) date) (Float64s (go_index [] (tsPendingValuesByDate s) date))"
    "tsPendingValuesByDate (flushed s) = Mapping.empty"
  using assms by (simp_all add: flushed_def fold_flush_date) (auto simp: lookup_default_def keys_dom_lookup domIff)

definition buffers_hold :: "ProjectionPath list \<Rightarrow> ('c, 'r, 'a) stochasticSession \<Rightarrow> bool" where
  "buffers_hold paths s \<longleftrightarrow> finite (Mapping.keys (tsPendingValuesByDate s)) \<and>
     (\<exists>merged unmerged. paths = merged @ unmerged \<and>
       (\<forall>date. go_index [] (tsSortedValuesByDate s) date = Float64s (values_on date merged) \<and>
          go_index [] (tsPendingValuesByDate s) date = values_on date unmerged))"

lemma accumulate_path_buffers:
  assumes "buffers_hold paths s"
  shows "buffers_hold (paths @ [path]) (accumulate_path path runtimes s)"
proof -
  obtain merged unmerged where p: "paths = merged @ unmerged"
    "\<And>date. go_index [] (tsSortedValuesByDate s) date = Float64s (values_on date merged)"
    "\<And>date. go_index [] (tsPendingValuesByDate s) date = values_on date unmerged"
    using assms unfolding buffers_hold_def by blast
  have "go_index [] (tsPendingValuesByDate (accumulate_path path runtimes s)) date = values_on date (unmerged @ [path])" for date
    by (simp add: accumulate_path_def fold_append_value p(3) values_on_def)
  moreover have "tsSortedValuesByDate (accumulate_path path runtimes s) = tsSortedValuesByDate s"
    by (simp add: accumulate_path_def)
  moreover have "finite (Mapping.keys (tsPendingValuesByDate (accumulate_path path runtimes s)))"
    using assms by (simp add: accumulate_path_def buffers_hold_def fold_append_value_keys)
  moreover have "paths @ [path] = merged @ (unmerged @ [path])" by (simp add: p(1))
  ultimately show ?thesis
    unfolding buffers_hold_def using p(2) by metis
qed

lemma flushed_buffers:
  assumes "buffers_hold paths s" "number_paths paths"
  shows "go_index [] (tsSortedValuesByDate (flushed s)) date = Float64s (values_on date paths)" "buffers_hold paths (flushed s)"
proof -
  obtain merged unmerged where p: "paths = merged @ unmerged"
    "\<And>date. go_index [] (tsSortedValuesByDate s) date = Float64s (values_on date merged)"
    "\<And>date. go_index [] (tsPendingValuesByDate s) date = values_on date unmerged"
    using assms(1) unfolding buffers_hold_def by blast
  have fin: "finite (Mapping.keys (tsPendingValuesByDate s))" using assms(1) by (simp add: buffers_hold_def)
  have sorted_values: "go_index [] (tsSortedValuesByDate (flushed s)) date = Float64s (values_on date paths)" for date
    using values_on_number [OF assms(2), of date] by (simp add: flushed_values [OF fin] p MergeSorted_Float64s)
  then show "go_index [] (tsSortedValuesByDate (flushed s)) date = Float64s (values_on date paths)" .
  show "buffers_hold paths (flushed s)"
    unfolding buffers_hold_def
  proof (rule conjI, simp add: flushed_values [OF fin], rule exI [of _ paths], rule exI [of _ "[]"], intro conjI allI)
    fix date
    show "go_index [] (tsSortedValuesByDate (flushed s)) date = Float64s (values_on date paths)" by (rule sorted_values)
  qed (simp_all add: flushed_values [OF fin] lookup_default_empty)
qed

section \<open>The trials in order\<close>

definition trial_paths :: "('s, 'j, 'e, 'p, 'a) pool_calls \<Rightarrow> 's \<Rightarrow> nat \<Rightarrow> 'p list option" where
  "trial_paths k s n =
     (case draws k s n of
        None \<Rightarrow> None
      | Some (samples, s) \<Rightarrow>
          those (map (\<lambda>j. case pkProject k j of Some (Inr path) \<Rightarrow> Some path | _ \<Rightarrow> None) samples))"

lemma those_append: "those (xs @ ys) = (case those xs of None \<Rightarrow> None | Some as \<Rightarrow> map_option ((@) as) (those ys))"
  by (induction xs) (cases "those ys"; auto split: option.split)+

lemma trial_paths_Suc:
  assumes "trial_paths k s i = Some paths" "draws k s i = Some (samples, s1)" "pkDraw k s1 = Some (sample, s2)"
    "pkProject k sample = Some (Inr path)"
  shows "trial_paths k s (Suc i) = Some (paths @ [path])"
  using assms by (simp add: trial_paths_def those_append)

definition fresh_session :: "('c, 'r, 'a) stochasticSession \<Rightarrow> bool" where
  "fresh_session s \<longleftrightarrow>
     tsCompletedRuns s = 0 \<and> tsPendingValuesByDate s = Mapping.empty \<and> tsSortedValuesByDate s = Mapping.empty"

lemma fresh_buffers: "fresh_session s \<Longrightarrow> buffers_hold [] s"
  by (simp add: buffers_hold_def fresh_session_def lookup_default_empty)

lemma sequential_SucE:
  assumes "sequential k (Suc i) s a = Some (Inr (s', a'))"
  obtains s1 a1 sample path where "sequential k i s a = Some (Inr (s1, a1))" "pkDraw k s1 = Some (sample, s')"
    "pkProject k sample = Some (Inr path)" "pkAccept k False path sample a1 = Some a'"
  using assms by (fastforce simp: and_then_def split: option.splits sum.splits prod.splits)

lemma sequential_draws_only:
  "sequential k i s a = Some (Inr (s', a')) \<Longrightarrow> \<exists>samples. draws k s i = Some (samples, s')"
proof (induction i arbitrary: s' a')
  case (Suc i)
  from Suc.prems obtain s1 a1 sample path where "sequential k i s a = Some (Inr (s1, a1))" "pkDraw k s1 = Some (sample, s')"
    by (rule sequential_SucE)
  with Suc.IH [OF this(1)] show ?case by auto
qed simp

text \<open>What the session holds after each trial; the last conjunct is what the last trial of a batch published.\<close>

definition trials_held :: "('c, 'r, 'a) stochasticSession \<Rightarrow> ProjectionPath list \<Rightarrow> ('c, 'r, 'a) stochasticSession \<Rightarrow> bool" where
  "trials_held session paths s \<longleftrightarrow>
     trials_fixed session s \<and> tsCompletedRuns s = int (length paths) \<and> (number_paths paths \<longrightarrow> buffers_hold paths s) \<and>
     (batch_complete s \<and> paths \<noteq> [] \<longrightarrow> buildResult s \<noteq> None \<and>
        (number_paths paths \<longrightarrow> (\<forall>date. go_index [] (tsSortedValuesByDate s) date = Float64s (values_on date paths))))"

lemma buildResult_reports [simp]: "buildResult (s\<lparr>tsReports := reports\<rparr>) = buildResult s"
  by (simp add: buildResult_def band_row_def [abs_def])

lemma batch_complete_cong:
  "tsCompletedRuns s = tsCompletedRuns s' \<Longrightarrow> tsConfig s = tsConfig s' \<Longrightarrow> batch_complete s = batch_complete s'"
  by (simp add: batch_complete_def)

lemma trials_held_step:
  assumes held: "trials_held session paths s" and trial: "consumeOrdered inflight env path sample s = Some s'"
  shows "trials_held session (paths @ [path]) s'"
  using trial
proof (rule consumeOrderedE)
  fix runtimes reports
  let ?s = "accumulate_path path runtimes s"
  assume s': "s' = (trial_added path runtimes s)\<lparr>tsReports := reports\<rparr>"
    and published: "batch_complete ?s \<Longrightarrow> buildResult (trial_added path runtimes s) \<noteq> None"
  have same: "batch_complete s' = batch_complete ?s"
    by (rule batch_complete_cong) (simp_all add: s' trial_added_fixed)
  have buffers: "buffers_hold (paths @ [path]) ?s" if "number_paths (paths @ [path])"
    using held that by (intro accumulate_path_buffers) (simp add: trials_held_def number_paths_def)
  have "trials_fixed session s'"
    using held consumeOrdered_fixed(1) [OF trial] trials_fixed_trans unfolding trials_held_def by blast
  moreover have "tsCompletedRuns s' = int (length (paths @ [path]))"
    using held consumeOrdered_fixed(2) [OF trial] by (simp add: trials_held_def)
  moreover have "buffers_hold (paths @ [path]) s'" if "number_paths (paths @ [path])"
    using buffers [OF that] flushed_buffers(2) [OF buffers [OF that] that]
    by (cases "batch_complete ?s") (simp_all add: s' trial_added_def Let_def buffers_hold_def)
  moreover have "go_index [] (tsSortedValuesByDate s') date = Float64s (values_on date (paths @ [path]))"
    if "number_paths (paths @ [path])" "batch_complete s'" for date
    using flushed_buffers(1) [OF buffers [OF that(1)] that(1)] that(2) same by (simp add: s' trial_added_def Let_def)
  moreover have "buildResult s' \<noteq> None" if "batch_complete s'"
    using published same that by (simp add: s')
  ultimately show ?thesis
    unfolding trials_held_def by blast
qed

lemma sequential_held:
  assumes "fresh_session session"
  shows "sequential (session_calls env sampler session) i source session = Some (Inr (source', s)) \<Longrightarrow>
    \<exists>paths. trial_paths (session_calls env sampler session) source i = Some paths \<and> length paths = i \<and> trials_held session paths s"
proof (induction i arbitrary: source' s)
  case 0
  then show ?case
    using assms by (auto simp: trial_paths_def trials_held_def fresh_buffers) (simp add: fresh_session_def)
next
  case (Suc i)
  let ?k = "session_calls env sampler session"
  from Suc.prems obtain s1 a1 sample path where step: "sequential ?k i source session = Some (Inr (s1, a1))"
    "pkDraw ?k s1 = Some (sample, source')" "pkProject ?k sample = Some (Inr path)"
    "consumeOrdered False env path sample a1 = Some s"
    by (rule sequential_SucE) (simp add: session_calls_def)
  obtain paths where paths: "trial_paths ?k source i = Some paths" "length paths = i" "trials_held session paths a1"
    using Suc.IH [OF step(1)] by blast
  obtain samples where "draws ?k source i = Some (samples, s1)"
    using sequential_draws_only [OF step(1)] by blast
  from trial_paths_Suc [OF paths(1) this step(2,3)] trials_held_step [OF paths(3) step(4)] paths(2)
  show ?case by auto
qed

section \<open>A session with nothing to sample\<close>

lemma draw_nothing: "Mapping.is_empty counts \<Longrightarrow> draw_entries sampler counts entries rates s = Some (r, s') \<Longrightarrow> s' = s"
  by (induction entries arbitrary: rates)
    (auto simp: Mapping.is_empty_def keys_dom_lookup lookup_default_def Let_def)

lemma createSample_unsampled:
  "Mapping.is_empty (tsSampleCounts s) \<Longrightarrow> createSample sampler s source = Some (sample, source') \<Longrightarrow> source' = source"
  by (auto simp: createSample_def buildStochasticRates_def Let_def dest: draw_nothing)

lemma consume_trials_sequential:
  assumes "createSample sampler session source = Some (sample, source)" "projectSample env session sample = Some (Inr path)"
  shows "consume_trials cancelled inflight env path sample n s = Some (Inr s') \<Longrightarrow> answers_from_path s \<Longrightarrow>
    sequential (session_calls env sampler session) i source session = Some (Inr (source, s)) \<Longrightarrow>
    sequential (session_calls env sampler session) (i + n) source session = Some (Inr (source, s'))"
proof (induction n arbitrary: s i)
  case (Suc n)
  obtain s1 where s1: "consumeOrdered (inflight (tsCompletedRuns s)) env path sample s = Some s1"
    "consume_trials cancelled inflight env path sample n s1 = Some (Inr s')"
    using Suc.prems(1) by (auto split: if_splits option.splits)
  have "sequential (session_calls env sampler session) (Suc i) source session = Some (Inr (source, s1))"
    using Suc.prems(3) s1(1) assms
    by (simp add: session_calls_def consumeOrdered_inflight [OF Suc.prems(2), where inflight = "inflight _"])
  moreover have "answers_from_path s1"
    using Suc.prems(2) answers_from_path_fixed [OF consumeOrdered_fixed(1) [OF s1(1)]] by simp
  ultimately show ?case
    using Suc.IH [OF s1(2), of "Suc i"] by simp
qed simp

lemma unsampled_sequential:
  assumes "runUnsampledSession cancelled inflight env sampler session source = Some (Inr s)" "answers_from_path session"
    "Mapping.is_empty (tsSampleCounts session)"
  shows "sequential (session_calls env sampler session) (nat (tcRunCount (tsConfig session))) source session = Some (Inr (source, s))"
proof -
  obtain sample source' path where sample: "createSample sampler session source = Some (sample, source')"
    "projectSample env session sample = Some (Inr path)"
    "consume_trials cancelled inflight env path sample (nat (tcRunCount (tsConfig session))) session = Some (Inr s)"
    using assms(1) by (auto simp: runUnsampledSession_def split: option.splits sum.splits)
  have "source' = source" by (rule createSample_unsampled [OF assms(3) sample(1)])
  with consume_trials_sequential [OF _ sample(2,3) assms(2), of sampler source 0] sample(1) show ?thesis by simp
qed

lemma consume_trials_error: "consume_trials cancelled inflight env path sample n s = Some (Inl e) \<Longrightarrow> e = ContextCancelled"
  by (induction n arbitrary: s) (auto split: if_splits option.splits)

lemma unsampled_error:
  assumes "runUnsampledSession cancelled inflight env sampler session source = Some (Inl e)"
  shows "e = ContextCancelled \<or> (\<exists>sample source' x. e = TrialFailed x \<and> createSample sampler session source = Some (sample, source') \<and>
    projectSample env session sample = Some (Inl x))"
  using assms by (auto simp: runUnsampledSession_def split: option.splits sum.splits dest: consume_trials_error)

section \<open>A pool that has returned\<close>

lemma pool_result:
  assumes "pool_inv k n s a samples p"
  shows "plCoordinator p = Finished \<Longrightarrow> \<exists>s'. sequential k n s a = Some (Inr (s', plSession p))"
    and "plCoordinator p = RunFailed i e \<Longrightarrow> \<exists>m samples s'. m \<le> n \<and> i < m \<and> draws k s m = Some (samples, s') \<and>
      pkProject k (samples ! i) = Some (Inl e)"
proof -
  note D = pool_invD [OF assms]
  have len: "length samples = plNextRun p" by (rule draws_length [OF D(1)])
  show "\<exists>s'. sequential k n s a = Some (Inr (s', plSession p))" if "plCoordinator p = Finished"
  proof -
    have "plNextIndex p = n" "plNextRun p = n"
      using D(13) [OF that] D(7,2) len by simp_all
    then show ?thesis
      using sequential_draws [of k s n samples "plSource p" a "plSession p"] D(1,8) by auto
  qed
  show "\<exists>m samples s'. m \<le> n \<and> i < m \<and> draws k s m = Some (samples, s') \<and> pkProject k (samples ! i) = Some (Inl e)"
    if "plCoordinator p = RunFailed i e"
    using D(1,2) D(14) [OF that] len by metis
qed

lemma session_in_order:
  assumes "runStochasticSession env sampler workerCount session source (Inr s)" "answers_from_path session"
  shows "\<exists>source'. sequential (session_calls env sampler session) (nat (tcRunCount (tsConfig session))) source session =
    Some (Inr (source', s))"
proof (cases "Mapping.is_empty (tsSampleCounts session)")
  case True
  then obtain cancelled inflight where "runUnsampledSession cancelled inflight env sampler session source = Some (Inr s)"
    using assms(1) by (auto simp: runStochasticSession_def)
  from unsampled_sequential [OF this assms(2) True] show ?thesis by blast
next
  case False
  let ?k = "session_calls env sampler session" and ?n = "nat (tcRunCount (tsConfig session))"
  obtain p where p: "pool_reaches ?k ?n (pool_start workerCount source session) p" "pool_returned p" "coordinator_result p = Inr s"
    using assms(1) False by (auto simp: runStochasticSession_def)
  obtain samples where inv: "pool_inv ?k ?n source session samples p"
    using pool_reaches_inv [OF p(1) session_order_only assms(2)] by blast
  have "plCoordinator p = Finished" "plSession p = s"
    using p(2,3) by (auto simp: coordinator_result_def pool_returned_def split: coordinator.splits)
  with pool_result(1) [OF inv] show ?thesis by simp
qed

section \<open>What a session publishes\<close>

lemma band_rows:
  assumes "those (map (band_row s) dates) = Some rows"
  shows "map sbDate rows = dates"
    "row \<in> set rows \<Longrightarrow> ComputePercentilesFromSorted (go_index [] (tsSortedValuesByDate s) (sbDate row)) = Some (sbNetWorth row)"
proof -
  have rows: "map (band_row s) dates = map Some rows" using assms by (rule those_SomeD)
  show "map sbDate rows = dates"
    using rows by (induction dates arbitrary: rows) (auto simp: band_row_def map_eq_Cons_conv Cons_eq_map_conv)
  show "ComputePercentilesFromSorted (go_index [] (tsSortedValuesByDate s) (sbDate row)) = Some (sbNetWorth row)" if "row \<in> set rows"
  proof -
    have "Some row \<in> set (map (band_row s) dates)" using that unfolding rows by simp
    then obtain date where "band_row s date = Some row" by force
    then show ?thesis by (auto simp: band_row_def)
  qed
qed

lemma ComputePercentiles_Float64s: "ComputePercentilesFromSorted (Float64s vs) = ComputePercentiles vs"
  by (cases "vs = []") (simp_all add: ComputePercentiles_def ComputePercentilesFromSorted_def)

lemma held_bands:
  assumes "trials_held session paths s" "paths \<noteq> []" "int (length paths) = tcRunCount (tsConfig session)"
  shows "\<exists>result. session_result s = Some (Inr result) \<and> map sbDate (sjBands result) = tsSortedDates session \<and>
    (number_paths paths \<longrightarrow> (\<forall>row\<in>set (sjBands result). ComputePercentiles (values_on (sbDate row) paths) = Some (sbNetWorth row)))"
proof -
  have s: "tsConfig s = tsConfig session" "tsSortedDates s = tsSortedDates session" "tsCompletedRuns s = int (length paths)"
    using assms(1) by (simp_all add: trials_held_def trials_fixed_def)
  have "batch_complete s" using s assms(3) by (simp add: batch_complete_def)
  then have built: "buildResult s \<noteq> None"
    "number_paths paths \<Longrightarrow> go_index [] (tsSortedValuesByDate s) date = Float64s (values_on date paths)" for date
    using assms(1,2) by (simp_all add: trials_held_def)
  then obtain result where result: "buildResult s = Some result" by blast
  then have rows: "those (map (band_row s) (tsSortedDates s)) = Some (sjBands result)"
    by (auto simp: buildResult_def)
  have "session_result s = Some (Inr result)"
    using result s assms(3) by (simp add: session_result_def)
  moreover have "map sbDate (sjBands result) = tsSortedDates session"
    using band_rows(1) [OF rows] s(2) by simp
  moreover have "ComputePercentiles (values_on (sbDate row) paths) = Some (sbNetWorth row)"
    if "number_paths paths" "row \<in> set (sjBands result)" for row
    using band_rows(2) [OF rows that(2)] built(2) [OF that(1)] by (simp add: ComputePercentiles_Float64s)
  ultimately show ?thesis by blast
qed

end
