(* ===== verification/Evaluations.thy ===== *)
theory Evaluations
  imports Evaluation_Runtime Sampling Purchases
begin

text \<open>
  The evaluations of a projection path: \<open>evaluation_threshold.go\<close>, \<open>evaluation_account_balance.go\<close>,
  \<open>evaluation_fulfillment.go\<close>, \<open>evaluation_cycle.go\<close>, \<open>evaluation_purchases.go\<close> and
  \<open>evaluation_whatif.go\<close> under \<open>backend/internal/domain\<close>, as the definitions the code registers.  The
  rows of a what-if configuration are decoded by \<open>encoding/json\<close>: the decoder is the argument
  \<open>decode\<close>.  The loop that adds up the balances of a what-if branch ranges over a map: the order is
  the argument \<open>range_order\<close>.
\<close>

section \<open>First dates\<close>

definition date_json :: "string option \<Rightarrow> json" where
  "date_json date = (case date of None \<Rightarrow> JNull | Some d \<Rightarrow> JStr d)"

definition reached_json :: "bool \<Rightarrow> string option \<Rightarrow> json" where
  "reached_json reached date = JObj [(''reached'', JBool reached), (''firstReachedDate'', date_json date)]"

record thresholdAccumulator =
  taReachedDates :: "string list"
  taTotalRuns :: int

definition accumulateReachedDate :: "('r \<Rightarrow> string option) \<Rightarrow> thresholdAccumulator \<Rightarrow> 'r \<Rightarrow> thresholdAccumulator" where
  "accumulateReachedDate firstReached acc result =
     \<lparr>taReachedDates = taReachedDates acc @ (case firstReached result of None \<Rightarrow> [] | Some date \<Rightarrow> [date]),
      taTotalRuns = taTotalRuns acc + 1\<rparr>"

definition datePercentile :: "string list \<Rightarrow> f64 \<Rightarrow> string option" where
  "datePercentile sortedDates percentile =
     (if sortedDates = [] then None
      else
        let index = int_of_float (math_Round (f64_of_int (int (length sortedDates) - 1) * percentile))
        in if index < 0 \<or> int (length sortedDates) \<le> index then None else Some (sortedDates ! nat index))"

definition finalizeReachedDates :: "thresholdAccumulator \<Rightarrow> json" where
  "finalizeReachedDates acc =
     (let dates = sort (taReachedDates acc);
          probability =
            (if 0 < taTotalRuns acc then fdiv (f64_of_int (int (length dates))) (f64_of_int (taTotalRuns acc)) else 0)
      in JObj [(''probability'', JNum probability),
               (''p10ReachedDate'', date_json (datePercentile dates (f64_of_rat (1 / 10)))),
               (''medianReachedDate'', date_json (datePercentile dates (f64_of_rat (1 / 2)))),
               (''p90ReachedDate'', date_json (datePercentile dates (f64_of_rat (9 / 10))))])"

text \<open>\<open>probabilistic.(map[string]any)[key].(float64)\<close>, zero when it is not there.\<close>

definition probability_of :: "string \<Rightarrow> json \<Rightarrow> f64" where
  "probability_of key probabilistic =
     (case probabilistic of JObj obj \<Rightarrow> (case map_of obj key of Some (JNum v) \<Rightarrow> v | _ \<Rightarrow> 0) | _ \<Rightarrow> 0)"

definition verdict :: "bool \<Rightarrow> EvaluationResultStatus" where
  "verdict satisfied = (if satisfied then StatusSatisfied else StatusNotSatisfied)"

definition deterministic_verdict :: "('r \<Rightarrow> bool) \<Rightarrow> 'r option \<Rightarrow> EvaluationResultStatus" where
  "deterministic_verdict satisfied deterministic =
     verdict (case deterministic of None \<Rightarrow> False | Some r \<Rightarrow> satisfied r)"

definition newReachedDateDefinition ::
  "string \<Rightarrow> string \<Rightarrow> string \<Rightarrow> bool \<Rightarrow> (json \<Rightarrow> (issue_message + 'c) option) \<Rightarrow>
   (environment \<Rightarrow> EvaluationContext \<Rightarrow> 'c \<Rightarrow> (diagnostic_message + 'r) option) \<Rightarrow> ('r \<Rightarrow> bool) \<Rightarrow>
   ('r \<Rightarrow> json) \<Rightarrow> ('r \<Rightarrow> string option) \<Rightarrow> ('c, 'r, thresholdAccumulator) EvaluationDefinition" where
  "newReachedDateDefinition evalType name kind allowSimulator parse evaluate satisfied toJSON firstReached =
     \<lparr>edType = evalType, edName = name, edKind = kind, edAllowSimulation = allowSimulator, edParseConfig = parse,
      edEvaluatePath = evaluate, edToJSON = toJSON,
      edCreateAccumulator = (\<lambda>config deterministic. Inr \<lparr>taReachedDates = [], taTotalRuns = 0\<rparr>),
      edAccumulate = (\<lambda>acc result. Inr (accumulateReachedDate firstReached acc result)),
      edFinalize = (\<lambda>acc ctx. Inr (finalizeReachedDates acc)),
      edStatus = (\<lambda>deterministic probabilistic.
        if probabilistic \<noteq> JNull then verdict (f64_of_rat (1 / 2) \<le> probability_of ''probability'' probabilistic)
        else deterministic_verdict satisfied deterministic),
      edDescribeStochasticWork = None, edMeasureStochasticWork = None, edDiagnoseConfig = None\<rparr>"

definition NewReachedDateReader ::
  "string \<Rightarrow> string \<Rightarrow> (json \<Rightarrow> (issue_message + 'c) option) \<Rightarrow>
   (environment \<Rightarrow> EvaluationContext \<Rightarrow> 'c \<Rightarrow> (diagnostic_message + 'r) option) \<Rightarrow> ('r \<Rightarrow> bool) \<Rightarrow>
   ('r \<Rightarrow> json) \<Rightarrow> ('r \<Rightarrow> string option) \<Rightarrow> ('c, 'r, thresholdAccumulator) EvaluationDefinition" where
  "NewReachedDateReader evalType name = newReachedDateDefinition evalType name EvaluationKindReader False"

definition NewReachedDateSimulator ::
  "string \<Rightarrow> string \<Rightarrow> (json \<Rightarrow> (issue_message + 'c) option) \<Rightarrow>
   (environment \<Rightarrow> EvaluationContext \<Rightarrow> 'c \<Rightarrow> (diagnostic_message + 'r) option) \<Rightarrow> ('r \<Rightarrow> bool) \<Rightarrow>
   ('r \<Rightarrow> json) \<Rightarrow> ('r \<Rightarrow> string option) \<Rightarrow> ('c, 'r, thresholdAccumulator) EvaluationDefinition" where
  "NewReachedDateSimulator evalType name = newReachedDateDefinition evalType name EvaluationKindSimulator True"

section \<open>Net worth and account balance\<close>

record NetWorthThresholdPathResult =
  ntReached :: bool
  ntFirstReachedDate :: "string option"

definition EvaluateNetWorthThreshold :: "ProjectionPath \<Rightarrow> f64 \<Rightarrow> NetWorthThresholdPathResult" where
  "EvaluateNetWorthThreshold path target =
     (let firstReachedDate = map_option rwDate (find (\<lambda>row. \<not> rwIsHistorical row \<and> target \<le> rwNetWorth row) (phRows path))
      in \<lparr>ntReached = (firstReachedDate \<noteq> None), ntFirstReachedDate = firstReachedDate\<rparr>)"

definition netWorthThresholdDefinition :: "(f64, NetWorthThresholdPathResult, thresholdAccumulator) EvaluationDefinition" where
  "netWorthThresholdDefinition =
     NewReachedDateReader ''netWorthThreshold'' ''Net worth threshold'' ParseThresholdConfig
       (\<lambda>env ctx target. Some (Inr (EvaluateNetWorthThreshold (exPath ctx) target)))
       ntReached (\<lambda>r. reached_json (ntReached r) (ntFirstReachedDate r)) ntFirstReachedDate"

definition accountBalanceDefinition :: "(AccountBalanceConfig, AccountBalancePathResult, thresholdAccumulator) EvaluationDefinition" where
  "accountBalanceDefinition =
     NewReachedDateReader ''accountBalance'' ''Account balance'' ParseAccountBalanceConfig
       (\<lambda>env ctx config. Some (Inr (EvaluateAccountBalance (exPath ctx) (abAccountID config) (abTarget config))))
       arReached (\<lambda>r. reached_json (arReached r) (arFirstReachedDate r)) arFirstReachedDate"

section \<open>Planned purchases\<close>

definition outcome_json :: "PurchaseOutcome \<Rightarrow> json" where
  "outcome_json o' =
     JObj [(''purchaseId'', JStr (poPurchaseID o')), (''date'', date_json (poDate o')), (''amount'', JNum (poAmount o'))]"

definition plannedPurchasesDefinition :: "(json, PlannedPurchasesPathResult, thresholdAccumulator) EvaluationDefinition" where
  "plannedPurchasesDefinition =
     NewReachedDateSimulator ''plannedPurchases'' ''Planned purchases''
       (\<lambda>config. Some (case validatePlannedPurchasesConfig config of Some e \<Rightarrow> Inl e | None \<Rightarrow> Inr config))
       (\<lambda>env ctx config.
         map_option (map_sum ExecutionText id) (evaluatePlannedPurchases env (exPath ctx) (exMonteCarloSample ctx)))
       prAllFunded
       (\<lambda>r. JObj [(''purchases'', JArr (map outcome_json (prPurchases r))), (''allFunded'', JBool (prAllFunded r)),
              (''firstReachedDate'', date_json (prFirstReachedDate r))])
       prFirstReachedDate"

section \<open>Transaction fulfillment\<close>

record fulfillmentEventJSON =
  feDate :: string
  feSequence :: int
  feTransactionID :: string
  feRequestedAmount :: f64
  feRealizedAmount :: f64
  feDestinationLimitedAmount :: f64
  feUnfulfilledAmount :: f64
  feBindingConstraints :: "json list"
  feAccountDeltas :: "json list"

record TransactionFulfillmentPathResult =
  trfRequestedAmount :: f64
  trfRealizedAmount :: f64
  trfDestinationLimitedAmount :: f64
  trfUnfulfilledAmount :: f64
  trfCompletionRate :: f64
  trfFirstUnderfulfilledDate :: "string option"
  trfEvents :: "fulfillmentEventJSON list"
  trfDates :: "json list"
  trfTransactions :: "json list"

definition roundAmount :: "f64 \<Rightarrow> f64" where
  "roundAmount v = roundCurrency v"

definition toFulfillmentEvent :: "evaluatedTransactionEvent \<Rightarrow> fulfillmentEventJSON" where
  "toFulfillmentEvent evaluated =
     (let event = eeEvent evaluated; fulfillment = evaluated_fulfillment evaluated
      in \<lparr>feDate = teDate event, feSequence = teSequence event, feTransactionID = teTransactionID event,
          feRequestedAmount = roundAmount (teRequestedAmount event), feRealizedAmount = roundAmount (teRealizedAmount event),
          feDestinationLimitedAmount = tfDestinationLimitedAmount fulfillment,
          feUnfulfilledAmount = tfUnfulfilledAmount fulfillment,
          feBindingConstraints = map constraint_toTypes (eeBindingConstraints evaluated),
          feAccountDeltas = map (\<lambda>d. JObj [(''accountId'', JStr (deAccountID d)), (''delta'', JNum (roundAmount (deDelta d)))])
            (teAccountDeltas event)\<rparr>)"

definition fulfillment_event_json :: "fulfillmentEventJSON \<Rightarrow> json" where
  "fulfillment_event_json e =
     JObj [(''date'', JStr (feDate e)), (''sequence'', JNum (f64_of_int (feSequence e))),
       (''transactionId'', JStr (feTransactionID e)), (''requestedAmount'', JNum (feRequestedAmount e)),
       (''realizedAmount'', JNum (feRealizedAmount e)), (''destinationLimitedAmount'', JNum (feDestinationLimitedAmount e)),
       (''unfulfilledAmount'', JNum (feUnfulfilledAmount e)), (''bindingConstraints'', JArr (feBindingConstraints e)),
       (''accountDeltas'', JArr (feAccountDeltas e))]"

definition fulfillment_ToJSON :: "TransactionFulfillmentPathResult \<Rightarrow> json" where
  "fulfillment_ToJSON r =
     JObj [(''requestedAmount'', JNum (trfRequestedAmount r)), (''realizedAmount'', JNum (trfRealizedAmount r)),
       (''destinationLimitedAmount'', JNum (trfDestinationLimitedAmount r)), (''unfulfilledAmount'', JNum (trfUnfulfilledAmount r)),
       (''completionRate'', JNum (trfCompletionRate r)), (''firstUnderfulfilledDate'', date_json (trfFirstUnderfulfilledDate r)),
       (''events'', JArr (map fulfillment_event_json (trfEvents r))), (''dates'', JArr (trfDates r)),
       (''transactions'', JArr (trfTransactions r))]"

record transactionTotals =
  ttRequestedAmount :: f64
  ttRealizedAmount :: f64
  ttDestinationLimitedAmount :: f64
  ttUnfulfilledAmount :: f64
  ttFirstUnderfulfilledDate :: "string option"

definition zero_totals :: transactionTotals where
  "zero_totals =
     \<lparr>ttRequestedAmount = 0, ttRealizedAmount = 0, ttDestinationLimitedAmount = 0, ttUnfulfilledAmount = 0,
      ttFirstUnderfulfilledDate = None\<rparr>"

definition add_event_totals :: "evaluatedTransactionEvent \<Rightarrow> transactionTotals \<Rightarrow> transactionTotals" where
  "add_event_totals evaluated t =
     (let event = eeEvent evaluated
      in \<lparr>ttRequestedAmount = ttRequestedAmount t + teRequestedAmount event,
          ttRealizedAmount = ttRealizedAmount t + teRealizedAmount event,
          ttDestinationLimitedAmount = ttDestinationLimitedAmount t + eeDestinationLimited evaluated,
          ttUnfulfilledAmount = ttUnfulfilledAmount t + eeUnfulfilled evaluated,
          ttFirstUnderfulfilledDate =
            (if ttFirstUnderfulfilledDate t = None \<and> 0 < eeUnfulfilled evaluated then Some (teDate event)
             else ttFirstUnderfulfilledDate t)\<rparr>)"

text \<open>The totals of a date keep no first date; nothing reads it.\<close>

definition add_totals_at :: "string \<Rightarrow> evaluatedTransactionEvent \<Rightarrow> transactionTotals gomap \<Rightarrow> transactionTotals gomap" where
  "add_totals_at key evaluated m = Mapping.update key (add_event_totals evaluated (go_index zero_totals m key)) m"

definition selected :: "string list option \<Rightarrow> string \<Rightarrow> bool" where
  "selected transactionIDs i \<longleftrightarrow> (case transactionIDs of None \<Rightarrow> True | Some ids \<Rightarrow> i \<in> set ids)"

definition completion_rate :: "transactionTotals \<Rightarrow> f64" where
  "completion_rate t =
     (if 0 < ttRequestedAmount t
      then math_Max 0 (f64_of_int 1 - fdiv (ttUnfulfilledAmount t) (ttRequestedAmount t)) else f64_of_int 1)"

definition account_label :: "Account gomap \<Rightarrow> string \<Rightarrow> string" where
  "account_label accountByID i = (case Mapping.lookup accountByID i of None \<Rightarrow> i | Some a \<Rightarrow> acName a)"

definition transaction_json :: "Account gomap \<Rightarrow> f64 gomap \<Rightarrow> transactionTotals gomap \<Rightarrow> Transaction \<Rightarrow> json" where
  "transaction_json accountByID caps totalsByTransactionID t =
     (let totals = go_index zero_totals totalsByTransactionID (trID t)
      in JObj ([(''transactionId'', JStr (trID t)), (''name'', JStr (trName t)),
        (''sourceAccountId'', date_json (trSourceAccountID t)),
        (''sourceAccountLabel'', date_json (map_option (account_label accountByID) (trSourceAccountID t))),
        (''destinations'',
           (case trDestinations t of None \<Rightarrow> JNull
            | Some ds \<Rightarrow> JArr (map (\<lambda>i. JObj [(''accountId'', JStr i), (''name'', JStr (account_label accountByID i))]) ds))),
        (''requestedAmount'', JNum (roundAmount (ttRequestedAmount totals))),
        (''realizedAmount'', JNum (roundAmount (ttRealizedAmount totals))),
        (''destinationLimitedAmount'', JNum (roundAmount (ttDestinationLimitedAmount totals))),
        (''utilizationRate'', JNum (if 0 < ttRequestedAmount totals
           then fdiv (ttRealizedAmount totals) (ttRequestedAmount totals) else 0)),
        (''completionRate'', JNum (completion_rate totals)),
        (''firstUnderfulfilledDate'', date_json (ttFirstUnderfulfilledDate totals)),
        (''unfulfilledAmount'', JNum (roundAmount (ttUnfulfilledAmount totals)))] @
        (case Mapping.lookup caps (trID t) of None \<Rightarrow> [] | Some c \<Rightarrow> [(''annualCap'', JNum c)])))"

definition date_totals_json :: "transactionTotals gomap \<Rightarrow> string \<Rightarrow> json" where
  "date_totals_json totalsByDate date =
     (let totals = go_index zero_totals totalsByDate date
      in JObj [(''date'', JStr date), (''requestedAmount'', JNum (roundAmount (ttRequestedAmount totals))),
        (''realizedAmount'', JNum (roundAmount (ttRealizedAmount totals))),
        (''destinationLimitedAmount'', JNum (roundAmount (ttDestinationLimitedAmount totals))),
        (''unfulfilledAmount'', JNum (roundAmount (ttUnfulfilledAmount totals)))])"

definition EvaluateTransactionFulfillment ::
  "ProjectionPath \<Rightarrow> string list option \<Rightarrow> bool \<Rightarrow> TransactionFulfillmentPathResult option" where
  "EvaluateTransactionFulfillment path transactionIDs includeDetails =
     map_option (\<lambda>evaluatedEvents.
         let events = filter (\<lambda>e. selected transactionIDs (teTransactionID (eeEvent e))) evaluatedEvents;
             overall = fold add_event_totals events zero_totals;
             details = (if includeDetails then events else []);
             byTransaction = fold (\<lambda>e. add_totals_at (teTransactionID (eeEvent e)) e) details Mapping.empty;
             byDate = fold (\<lambda>e. add_totals_at (teDate (eeEvent e)) e) details Mapping.empty;
             model = phEffectiveModel path
         in \<lparr>trfRequestedAmount = roundAmount (ttRequestedAmount overall),
             trfRealizedAmount = roundAmount (ttRealizedAmount overall),
             trfDestinationLimitedAmount = roundAmount (ttDestinationLimitedAmount overall),
             trfUnfulfilledAmount = roundAmount (ttUnfulfilledAmount overall),
             trfCompletionRate = completion_rate overall,
             trfFirstUnderfulfilledDate = ttFirstUnderfulfilledDate overall,
             trfEvents = map toFulfillmentEvent details,
             trfDates = map (date_totals_json byDate) (Mapping.ordered_keys byDate),
             trfTransactions =
               (if includeDetails
                then map (transaction_json (accountIndex (fmAccounts model)) (RuleCapsByID model) byTransaction)
                  (filter (\<lambda>t. selected transactionIDs (trID t)) (ResolvedTransactionTransactions model))
                else [])\<rparr>)
       (evaluateTransactionEvents path)"

definition related_diagnostic :: "string \<Rightarrow> string \<Rightarrow> string list \<Rightarrow> string list \<Rightarrow> EvaluationDiagnostic" where
  "related_diagnostic code message accountIDs transactionIDs =
     \<lparr>dgCode = code, dgSeverity = ''warning'', dgMessage = DiagnosticText (Text message), dgDate = None,
      dgRelatedAccountIDs = accountIDs, dgRelatedTransactionIDs = transactionIDs\<rparr>"

definition diagnoseFulfillmentConfig :: "ProjectionPath \<Rightarrow> string list option \<Rightarrow> EvaluationDiagnostic list" where
  "diagnoseFulfillmentConfig path transactionIDs =
     (case transactionIDs of
        None \<Rightarrow> []
      | Some ids \<Rightarrow>
          map (\<lambda>i. related_diagnostic ''transaction-fulfillment.transaction.missing''
              (''Transaction '' @ CHR 0x27 # i @ CHR 0x27 # '' does not exist.'') [] [i])
            (filter (\<lambda>i. i \<notin> TransactionIDs (phEffectiveModel path)) ids))"

record fulfillmentAccumulator =
  faRunCount :: int
  faFulfilledRunCount :: int
  faUnfulfilledAmounts :: "f64 list"

text \<open>The share of runs that met the goal.\<close>

definition run_share :: "int \<Rightarrow> int \<Rightarrow> f64" where
  "run_share met runs = (if 0 < runs then fdiv (f64_of_int met) (f64_of_int runs) else 0)"

text \<open>
  A run of accumulated values has an index in range for every percentile (\<open>Sampling_Laws\<close>), so the
  bands are there.
\<close>

definition bands_json :: "f64 list \<Rightarrow> json" where
  "bands_json values' = percentilesToJSON (case ComputePercentiles values' of None \<Rightarrow> zero_bands | Some bands \<Rightarrow> bands)"

definition certain_verdict :: "string \<Rightarrow> ('r \<Rightarrow> bool) \<Rightarrow> 'r option \<Rightarrow> json \<Rightarrow> EvaluationResultStatus" where
  "certain_verdict key satisfied deterministic probabilistic =
     (if probabilistic \<noteq> JNull then verdict (feq (probability_of key probabilistic) (f64_of_int 1))
      else deterministic_verdict satisfied deterministic)"

definition transactionFulfillmentDefinition ::
  "(string list option, TransactionFulfillmentPathResult, fulfillmentAccumulator) EvaluationDefinition" where
  "transactionFulfillmentDefinition =
     \<lparr>edType = ''transactionFulfillment'', edName = ''Transaction fulfillment'', edKind = EvaluationKindReader,
      edAllowSimulation = False, edParseConfig = ParseFulfillmentConfig,
      edEvaluatePath = (\<lambda>env ctx config. map_option Inr (EvaluateTransactionFulfillment (exPath ctx) config False)),
      edToJSON = fulfillment_ToJSON,
      edCreateAccumulator = (\<lambda>config deterministic. Inr \<lparr>faRunCount = 0, faFulfilledRunCount = 0, faUnfulfilledAmounts = []\<rparr>),
      edAccumulate = (\<lambda>acc r. Inr
        \<lparr>faRunCount = faRunCount acc + 1,
         faFulfilledRunCount = faFulfilledRunCount acc + (if trfFirstUnderfulfilledDate r = None then 1 else 0),
         faUnfulfilledAmounts = faUnfulfilledAmounts acc @ [trfUnfulfilledAmount r]\<rparr>),
      edFinalize = (\<lambda>acc ctx. Inr (JObj
        [(''runCount'', JNum (f64_of_int (faRunCount acc))), (''fulfilledRunCount'', JNum (f64_of_int (faFulfilledRunCount acc))),
         (''fullFulfillmentProbability'', JNum (run_share (faFulfilledRunCount acc) (faRunCount acc))),
         (''unfulfilledAmountPercentiles'', bands_json (faUnfulfilledAmounts acc))])),
      edStatus = certain_verdict ''fullFulfillmentProbability'' (\<lambda>r. trfFirstUnderfulfilledDate r = None),
      edDescribeStochasticWork = None, edMeasureStochasticWork = None,
      edDiagnoseConfig = Some (\<lambda>ctx config. diagnoseFulfillmentConfig (exPath ctx) config)\<rparr>"

section \<open>Statement cycles\<close>

record CycleFulfillmentPathResult =
  cfAccountIDs :: "string list"
  cfStatementDay :: int
  cfBudget :: f64
  cfCycleStart :: string
  cfCycleEnd :: string
  cfWindowStart :: string
  cfDaysTotal :: int
  cfDaysLeft :: int
  cfRecordedSpend :: f64
  cfScheduledSpend :: f64
  cfSpent :: f64
  cfRemaining :: f64
  cfWithinBudget :: bool
  cfShortfall :: f64

definition cycle_start :: "int \<times> int \<times> int \<Rightarrow> int \<Rightarrow> string" where
  "cycle_start today statementDay =
     (let day = (if statementDay < 1 then 1 else if 28 < statementDay then 28 else statementDay);
          (year, month, dayOfMonth) = today;
          (startYear, startMonth) =
            (if day \<le> dayOfMonth then (year, month) else if month - 1 < 1 then (year - 1, 12) else (year, month - 1))
      in sprintf_0d 4 startYear @ CHR ''-'' # sprintf_0d 2 startMonth @ CHR ''-'' # sprintf_0d 2 day)"

definition resolveStatementCycle :: "string \<Rightarrow> int \<Rightarrow> (string \<times> string) option" where
  "resolveStatementCycle todayIso statementDay =
     (case splitIsoDate todayIso of
        None \<Rightarrow> None
      | Some today \<Rightarrow>
          let cycleStart = cycle_start today statementDay
          in map_option (Pair cycleStart) (AddMonthsClamped cycleStart 1))"

definition cycleOutflow :: "TransactionEvent \<Rightarrow> string set \<Rightarrow> f64" where
  "cycleOutflow event accountIDs =
     fold (\<lambda>d spent. if deAccountID d \<in> accountIDs \<and> deDelta d < 0 then spent + - deDelta d else spent)
       (teAccountDeltas event) 0"

definition recorded_spend :: "ProjectionPath \<Rightarrow> string set \<Rightarrow> string \<Rightarrow> f64" where
  "recorded_spend path accountSet cycleStart =
     (let projectionStart = phStartDate path;
          startDateEvents = teTransactionID ` set (filter (\<lambda>e. teDate e = projectionStart) (phTransactionEvents path))
      in fold (\<lambda>t recorded.
           let day = transactionDay t in
           if \<not> trEnabled t \<or> (case trSourceAccountID t of None \<Rightarrow> True | Some s \<Rightarrow> s \<notin> accountSet) \<or> day = '''' \<or>
              CompareIsoDates day cycleStart < 0 \<or> CompareIsoDates day projectionStart > 0 \<or>
              day = projectionStart \<and> trID t \<in> startDateEvents
           then recorded
           else (case Mapping.lookup (pzAmountsByYear (phStartState path)) (trID t) of
                   None \<Rightarrow> recorded
                 | Some byYear \<Rightarrow> recorded + maxFloat 0 (balance_of byYear (take 4 day))))
         (fmTransactions (phEffectiveModel path)) 0)"

definition scheduled_spend :: "ProjectionPath \<Rightarrow> string set \<Rightarrow> string \<Rightarrow> string \<Rightarrow> f64" where
  "scheduled_spend path accountSet windowStart cycleEndExclusive =
     fold (\<lambda>event scheduled.
         if CompareIsoDates (teDate event) windowStart < 0 \<or> CompareIsoDates (teDate event) cycleEndExclusive \<ge> 0 then scheduled
         else scheduled + cycleOutflow event accountSet)
       (phTransactionEvents path) 0"

definition EvaluateCycleFulfillment :: "ProjectionPath \<Rightarrow> CycleFulfillmentConfig \<Rightarrow> CycleFulfillmentPathResult option" where
  "EvaluateCycleFulfillment path config =
     do {
       let projectionStart = phStartDate path;
       (cycleStart, cycleEndExclusive) \<leftarrow> resolveStatementCycle projectionStart (cyStatementDay config);
       let windowStart = (if CompareIsoDates cycleStart projectionStart < 0 then projectionStart else cycleStart);
       cycleEnd \<leftarrow> map_option (shift_days (- 1)) (MustParseIsoDate cycleEndExclusive);
       let accountSet = set (cyAccountIDs config);
       let recorded = recorded_spend path accountSet cycleStart;
       let scheduled = scheduled_spend path accountSet windowStart cycleEndExclusive;
       let spent = recorded + scheduled;
       let withinBudget = roundAmount spent \<le> roundAmount (cyBudget config);
       daysTotal \<leftarrow> DaysBetween cycleStart cycleEndExclusive;
       daysLeft \<leftarrow> DaysBetween projectionStart cycleEndExclusive;
       Some \<lparr>cfAccountIDs = cyAccountIDs config, cfStatementDay = cyStatementDay config, cfBudget = cyBudget config,
             cfCycleStart = cycleStart, cfCycleEnd = cycleEnd, cfWindowStart = windowStart,
             cfDaysTotal = daysTotal, cfDaysLeft = max 0 daysLeft, cfRecordedSpend = recorded, cfScheduledSpend = scheduled,
             cfSpent = spent, cfRemaining = cyBudget config - spent, cfWithinBudget = withinBudget,
             cfShortfall = (if withinBudget then 0 else roundAmount spent - roundAmount (cyBudget config))\<rparr>
     }"

definition cycle_ToJSON :: "CycleFulfillmentPathResult \<Rightarrow> json" where
  "cycle_ToJSON r =
     JObj [(''accountIds'', JArr (map JStr (cfAccountIDs r))), (''statementDay'', JNum (f64_of_int (cfStatementDay r))),
       (''budget'', JNum (roundAmount (cfBudget r))), (''cycleStart'', JStr (cfCycleStart r)), (''cycleEnd'', JStr (cfCycleEnd r)),
       (''windowStart'', JStr (cfWindowStart r)), (''daysTotal'', JNum (f64_of_int (cfDaysTotal r))),
       (''daysLeft'', JNum (f64_of_int (cfDaysLeft r))), (''recordedSpend'', JNum (roundAmount (cfRecordedSpend r))),
       (''scheduledSpend'', JNum (roundAmount (cfScheduledSpend r))), (''spent'', JNum (roundAmount (cfSpent r))),
       (''remaining'', JNum (roundAmount (cfBudget r - cfSpent r))), (''withinBudget'', JBool (cfWithinBudget r)),
       (''shortfall'', JNum (roundAmount (cfShortfall r)))]"

definition cycle_diagnostics :: "Account gomap \<Rightarrow> string \<Rightarrow> EvaluationDiagnostic list" where
  "cycle_diagnostics byID accountID =
     (case Mapping.lookup byID accountID of
        None \<Rightarrow> [related_diagnostic ''cycle-fulfillment.account.missing''
          (''Account '' @ CHR 0x27 # accountID @ CHR 0x27 # '' does not exist.'') [accountID] []]
      | Some a \<Rightarrow>
          if acEnabled a then []
          else [related_diagnostic ''cycle-fulfillment.account.disabled''
            (''Account '' @ CHR 0x27 # accountID @ CHR 0x27 # '' is excluded, so its cycle spend is not tracked.'') [accountID] []])"

definition diagnoseCycleConfig :: "ProjectionPath \<Rightarrow> CycleFulfillmentConfig \<Rightarrow> EvaluationDiagnostic list" where
  "diagnoseCycleConfig path config =
     concat (map (cycle_diagnostics (accountIndex (fmAccounts (phEffectiveModel path)))) (cyAccountIDs config))"

record cycleAccumulator =
  yaRunCount :: int
  yaWithinBudgetCount :: int
  yaSpentTotals :: "f64 list"

definition cycleFulfillmentDefinition ::
  "(f64 \<Rightarrow> int) \<Rightarrow> (CycleFulfillmentConfig, CycleFulfillmentPathResult, cycleAccumulator) EvaluationDefinition" where
  "cycleFulfillmentDefinition overflow =
     \<lparr>edType = ''cycleFulfillment'', edName = ''Cycle fulfillment'', edKind = EvaluationKindReader,
      edAllowSimulation = False, edParseConfig = ParseCycleFulfillmentConfig overflow,
      edEvaluatePath = (\<lambda>env ctx config. map_option Inr (EvaluateCycleFulfillment (exPath ctx) config)),
      edToJSON = cycle_ToJSON,
      edCreateAccumulator = (\<lambda>config deterministic. Inr \<lparr>yaRunCount = 0, yaWithinBudgetCount = 0, yaSpentTotals = []\<rparr>),
      edAccumulate = (\<lambda>acc r. Inr
        \<lparr>yaRunCount = yaRunCount acc + 1,
         yaWithinBudgetCount = yaWithinBudgetCount acc + (if cfWithinBudget r then 1 else 0),
         yaSpentTotals = yaSpentTotals acc @ [roundAmount (cfSpent r)]\<rparr>),
      edFinalize = (\<lambda>acc ctx. Inr (JObj
        [(''runCount'', JNum (f64_of_int (yaRunCount acc))), (''withinBudgetRunCount'', JNum (f64_of_int (yaWithinBudgetCount acc))),
         (''withinBudgetProbability'', JNum (run_share (yaWithinBudgetCount acc) (yaRunCount acc))),
         (''spentPercentiles'', bands_json (yaSpentTotals acc))])),
      edStatus = certain_verdict ''withinBudgetProbability'' cfWithinBudget,
      edDescribeStochasticWork = None, edMeasureStochasticWork = None,
      edDiagnoseConfig = Some (\<lambda>ctx config. diagnoseCycleConfig (exPath ctx) config)\<rparr>"

section \<open>What-if branches\<close>

record WhatIfConfig =
  wcAddedAccounts :: "Account list"
  wcAddedTransactions :: "Transaction list"
  wcAddedRules :: "Schedule list"
  wcDisabledAccountIDs :: "string list"
  wcDisabledTransactionIDs :: "string list"
  wcDisabledScheduleIDs :: "string list"

definition parseWhatIfConfig ::
  "(json \<Rightarrow> (issue_message + WhatIfConfig) option) \<Rightarrow> json \<Rightarrow> (issue_message + WhatIfConfig) option" where
  "parseWhatIfConfig decode config =
     (case validateWhatIfConfig config of Some e \<Rightarrow> Some (Inl e) | None \<Rightarrow> decode config)"

record WhatIfPathResult =
  wiFinalNetWorth :: f64
  wiTransactionCount :: int
  wiFirstUnfulfilledDate :: "string option"
  wiAllFunded :: bool

definition whatIfOverridesFromParsed :: "WhatIfConfig \<Rightarrow> ModelOverrides" where
  "whatIfOverridesFromParsed parsed =
     \<lparr>moAddedAccounts = wcAddedAccounts parsed, moAddedTransactions = wcAddedTransactions parsed,
      moAddedRules = wcAddedRules parsed, moDisabledAccountIDs = wcDisabledAccountIDs parsed,
      moDisabledTransactionIDs = wcDisabledTransactionIDs parsed, moDisabledScheduleIDs = wcDisabledScheduleIDs parsed\<rparr>"

definition last_balance_sum :: "(f64 gomap \<Rightarrow> string list) \<Rightarrow> SimulationSnapshot list \<Rightarrow> f64" where
  "last_balance_sum range_order snapshots =
     (if snapshots = [] then 0
      else let balances = snBalances (last snapshots)
           in foldl (\<lambda>s i. s + balance_of balances i) 0 (range_order balances))"

definition unfulfilled_attempt :: "TransactionEvent \<Rightarrow> bool" where
  "unfulfilled_attempt event \<longleftrightarrow>
     (case teFulfillment event of None \<Rightarrow> False | Some f \<Rightarrow> 0 < tfUnfulfilledAmount f)"

definition evaluateWhatIf ::
  "(f64 gomap \<Rightarrow> string list) \<Rightarrow> environment \<Rightarrow> ProjectionPath \<Rightarrow> MonteCarloSample option \<Rightarrow> WhatIfConfig \<Rightarrow>
   (execution_error + WhatIfPathResult) option" where
  "evaluateWhatIf range_order env path sample config =
     (let branched = path\<lparr>phEffectiveModel := ApplyModelOverrides (phEffectiveModel path) (whatIfOverridesFromParsed config)\<rparr>
      in and_then (Simulate env (purchasesCandidateRequest branched sample)) (\<lambda>run.
           let first = find unfulfilled_attempt (rnTransactionAttempts run)
           in Some (Inr \<lparr>wiFinalNetWorth = last_balance_sum range_order (rnSnapshots run),
                         wiTransactionCount = int (length (rnTransactionAttempts run)),
                         wiFirstUnfulfilledDate = map_option teDate first, wiAllFunded = (first = None)\<rparr>)))"

record whatIfAccumulator =
  waFunded :: int
  waTotal :: int

definition whatIfStatus :: "WhatIfPathResult option \<Rightarrow> json \<Rightarrow> EvaluationResultStatus" where
  "whatIfStatus deterministic probabilistic =
     (case probabilistic of
        JObj obj \<Rightarrow>
          (case map_of obj ''fullFundingProbability'' of
             Some (JNum p) \<Rightarrow> verdict (f64_of_rat (1 / 2) \<le> p)
           | _ \<Rightarrow> deterministic_verdict wiAllFunded deterministic)
      | _ \<Rightarrow> deterministic_verdict wiAllFunded deterministic)"

definition whatIfDefinition ::
  "(json \<Rightarrow> (issue_message + WhatIfConfig) option) \<Rightarrow> (f64 gomap \<Rightarrow> string list) \<Rightarrow>
   (WhatIfConfig, WhatIfPathResult, whatIfAccumulator) EvaluationDefinition" where
  "whatIfDefinition decode range_order =
     \<lparr>edType = ''whatIf'', edName = ''What-if'', edKind = EvaluationKindSimulator, edAllowSimulation = True,
      edParseConfig = parseWhatIfConfig decode,
      edEvaluatePath = (\<lambda>env ctx config.
        map_option (map_sum ExecutionText id) (evaluateWhatIf range_order env (exPath ctx) (exMonteCarloSample ctx) config)),
      edToJSON = (\<lambda>r. JObj [(''finalNetWorth'', JNum (wiFinalNetWorth r)),
        (''transactionCount'', JNum (f64_of_int (wiTransactionCount r))),
        (''firstUnfulfilledDate'', date_json (wiFirstUnfulfilledDate r)), (''allFunded'', JBool (wiAllFunded r))]),
      edCreateAccumulator = (\<lambda>config deterministic. Inr \<lparr>waFunded = 0, waTotal = 0\<rparr>),
      edAccumulate = (\<lambda>acc r. Inr \<lparr>waFunded = waFunded acc + (if wiAllFunded r then 1 else 0), waTotal = waTotal acc + 1\<rparr>),
      edFinalize = (\<lambda>acc ctx. Inr (JObj
        [(''fullFundingProbability'', JNum (run_share (waFunded acc) (waTotal acc))),
         (''sampleCount'', JNum (f64_of_int (waTotal acc)))])),
      edStatus = whatIfStatus,
      edDescribeStochasticWork = Some (\<lambda>ctx config. Some
        \<lparr>wpUnitsPerRun = 1, wpUnitLabel = ''what-if branch'', wpUnitAction = ''simulated'', wpIntensiveUnitLabel = '''',
         wpIntensiveUnitAction = '''', wpDescription = ''What-if branch simulations''\<rparr>),
      edMeasureStochasticWork = Some (\<lambda>acc. \<lparr>wmUnitsCompleted = waTotal acc, wmIntensiveUnitsCompleted = 0\<rparr>),
      edDiagnoseConfig = None\<rparr>"

end
