(* ===== verification/Evaluation_Runtime_Properties.thy ===== *)
theory Evaluation_Runtime_Properties
  imports Evaluations
begin

text \<open>
  The properties of the evaluation runtime: a set of configured evaluations has one result for every
  instance ID, evaluating readers and simulators apart and merging their collections is evaluating
  the set, and a reader cannot start a simulation.
\<close>

section \<open>Sets of runtimes\<close>

lemma map_option_sum: "map_option (case_sum f g) m = Some r \<Longrightarrow> (\<exists>e. r = f e) \<or> (\<exists>c. r = g c)"
  by (cases m) (auto split: sum.splits)

lemma evaluateDeterministic_row:
  assumes "evaluateDeterministic inflight env ctx r = Some r'"
  shows "irType r' = irType r" "irInstanceID r' = irInstanceID r" "irDefinition r' = irDefinition r"
  using assms
  by (auto simp: evaluateDeterministic_def add_diagnostics_def Let_def simp del: map_option_eq_Some dest!: map_option_sum
      split: option.splits if_splits)

lemma runtime_of_fields [simp]:
  "irType (runtime_of t row diagnostics d) = t" "irInstanceID (runtime_of t row diagnostics d) = evInstanceID row"
  by (simp_all add: runtime_of_def)

lemma new_runtime_row:
  assumes "new_runtime registry counts (t, row) = Some r"
  shows "irType r = t" "irInstanceID r = evInstanceID row"
  using assms
  by (auto simp: new_runtime_def simp del: map_option_eq_Some dest!: map_option_sum split: if_splits option.splits)

lemma first_rows_ids:
  "distinct (map (\<lambda>(t, row). evInstanceID row) (first_rows seen rows))"
  "(\<lambda>(t, row). evInstanceID row) ` set (first_rows seen rows) = (\<lambda>(t, row). evInstanceID row) ` set rows - seen"
  "set (first_rows seen rows) \<subseteq> set rows"
  by (induction seen rows rule: first_rows.induct) auto

definition table_types :: "string list" where
  "table_types =
     [''financialIndependence'', ''netWorthThreshold'', ''accountBalance'', ''transactionFulfillment'', ''cycleFulfillment'',
      ''plannedPurchases'', ''whatIf'']"

lemma table_types_distinct: "distinct table_types"
  by (simp add: table_types_def)

lemma result_tables_by: "result_tables (tables_by rows) = map (\<lambda>t. (t, rows t)) table_types"
  by (simp add: result_tables_def tables_by_def table_types_def)

lemma rawInstances_types: "(t, row) \<in> set (rawInstances tables) \<Longrightarrow> t \<in> set table_types"
  by (auto simp: rawInstances_def evaluation_tables_def table_types_def)

lemma runtime_set_rows:
  assumes "NewEvaluationRuntimeSet tables registry = Some runtimes"
  shows "distinct (map irInstanceID runtimes)" "\<forall>r\<in>set runtimes. irType r \<in> set table_types"
    and "irInstanceID ` set runtimes = evInstanceID ` snd ` set (rawInstances tables)"
proof -
  let ?f = "new_runtime registry (\<lambda>i. length (filter (\<lambda>(t, row). evInstanceID row = i) (rawInstances tables)))"
    and ?rows = "first_rows {} (rawInstances tables)"
  have all: "\<forall>x\<in>set ?rows. ?f x \<noteq> None" and runtimes: "runtimes = map (\<lambda>x. the (?f x)) ?rows"
    using assms unfolding NewEvaluationRuntimeSet_def Let_def those_map by auto
  have row: "irType (the (?f x)) = fst x" "irInstanceID (the (?f x)) = evInstanceID (snd x)" if x: "x \<in> set ?rows" for x
  proof -
    obtain r where "?f (fst x, snd x) = Some r" using all x by auto
    then show "irType (the (?f x)) = fst x" "irInstanceID (the (?f x)) = evInstanceID (snd x)"
      using new_runtime_row [of registry _ "fst x" "snd x" r] by auto
  qed
  have ids: "map irInstanceID runtimes = map (\<lambda>(t, row). evInstanceID row) ?rows"
    unfolding runtimes map_map by (rule map_cong) (auto simp: row)
  then show "distinct (map irInstanceID runtimes)"
    using first_rows_ids(1) by simp
  have "irInstanceID ` set runtimes = (\<lambda>(t, row). evInstanceID row) ` set ?rows"
    using arg_cong [OF ids, of set] by simp
  then show "irInstanceID ` set runtimes = evInstanceID ` snd ` set (rawInstances tables)"
    unfolding first_rows_ids(2) by (auto simp: image_iff case_prod_beta)
  show "\<forall>r\<in>set runtimes. irType r \<in> set table_types"
  proof
    fix r
    assume "r \<in> set runtimes"
    then obtain x where "x \<in> set ?rows" "r = the (?f x)" by (auto simp: runtimes)
    then show "irType r \<in> set table_types"
      using row(1) [of x] first_rows_ids(3) rawInstances_types [of "fst x" "snd x" tables] by auto
  qed
qed

section \<open>Merging\<close>

lemma sum_by_key:
  assumes "distinct keys" "\<forall>x\<in>set xs. key x \<in> set keys"
  shows "mset (concat (map (\<lambda>k. filter (\<lambda>x. key x = k) xs) keys)) = mset xs"
  using assms(2)
proof (induction xs)
  case (Cons x xs)
  have "mset (concat (map (\<lambda>k. filter (\<lambda>y. key y = k) (x # xs)) ks)) =
      mset (concat (map (\<lambda>k. filter (\<lambda>y. key y = k) xs) ks)) + (if key x \<in> set ks then {#x#} else {#})"
    if "distinct ks" for ks
    using that by (induction ks) auto
  from this [OF assms(1)] show ?case using Cons by simp
qed simp

lemma result_rows:
  assumes "\<forall>r\<in>set rs. irType r \<in> set table_types"
  shows "mset (concat (map snd (result_tables (runtime_Result rs)))) = mset (map envelope rs)"
proof -
  have "concat (map snd (result_tables (runtime_Result rs))) =
      map envelope (concat (map (\<lambda>t. filter (\<lambda>r. irType r = t) rs) table_types))"
    by (simp add: runtime_Result_def result_tables_by envelopes_of_def [abs_def] map_concat comp_def)
  then show ?thesis
    using sum_by_key [OF table_types_distinct assms] by simp
qed

lemma envelope_id [simp]: "evInstance (envelope r) = irInstanceID r"
  by (simp add: envelope_def)

lemma mset_map_eq: "mset xs = mset ys \<Longrightarrow> mset (map f xs) = mset (map f ys)"
  by simp

lemma envelope_ids [simp]: "map evInstance (map envelope rs) = map irInstanceID rs"
  by simp

lemma merged_lookup:
  assumes "distinct (map irInstanceID (xs @ ys))" "\<forall>r\<in>set (xs @ ys). irType r \<in> set table_types" "r \<in> set (xs @ ys)"
  shows "Mapping.lookup (envelopes_by_id [Some (runtime_Result xs), Some (runtime_Result ys)]) (irInstanceID r) = Some (envelope r)"
proof -
  let ?all = "concat (map snd (result_tables (runtime_Result xs))) @ concat (map snd (result_tables (runtime_Result ys)))"
  have all: "mset ?all = mset (map envelope (xs @ ys))"
    using result_rows [of xs] result_rows [of ys] assms(2) by simp
  have "mset (map evInstance ?all) = mset (map irInstanceID (xs @ ys))"
    using mset_map_eq [OF all, of evInstance] unfolding envelope_ids .
  then have "distinct (map evInstance ?all)" using assms(1) mset_eq_imp_distinct_iff by blast
  moreover have "envelope r \<in> set ?all"
  proof -
    have "envelope r \<in> set (map envelope (xs @ ys))" using assms(3) by (simp only: set_map imageI)
    then show ?thesis by (simp only: mset_eq_setD [OF all])
  qed
  ultimately show ?thesis
    using index_member [of evInstance ?all "envelope r" Mapping.empty] by (simp add: envelopes_by_id_def)
qed

lemma partition_distinct:
  "distinct (map f xs) \<Longrightarrow> distinct (map f (filter (\<lambda>x. \<not> P x) xs @ filter P xs))"
  by (auto simp: distinct_map inj_on_def)

text \<open>
  C21.  Evaluating the readers and the simulators of a set apart and merging the two collections gives
  what evaluating the whole set gives, table by table and in the order of the configuration; there is
  exactly one result for every instance ID, duplicates included, and a reader cannot start a
  simulation while nothing else of the process simulates.
\<close>

theorem evaluation_kinds_merge:
  fixes runtimes :: "('c, 'r, 'a) instanceRuntime list"
  assumes "NewEvaluationRuntimeSet tables registry = Some runtimes" "EvaluateDeterministic inflight env ctx runtimes = Some evaluated"
    and "PartitionByKind runtimes = (readers, simulators)"
  shows "\<exists>rs ss. EvaluateDeterministic inflight env ctx readers = Some rs \<and> EvaluateDeterministic inflight env ctx simulators = Some ss \<and>
      MergeEvaluationResultCollections runtimes (Some (runtime_Result rs)) (Some (runtime_Result ss)) = runtime_Result evaluated \<and>
      distinct (map evInstance (concat (map snd (result_tables (runtime_Result evaluated))))) \<and>
      evInstance ` set (concat (map snd (result_tables (runtime_Result evaluated)))) = evInstanceID ` snd ` set (rawInstances tables) \<and>
      (\<forall>r\<in>set readers. \<forall>d config request. irDefinition r = Some (d, config) \<longrightarrow>
         Simulate (withReaderGuard False d env) request = Some (Inl (ResimulationRefused ''simulateScheduled'')))"
proof -
  define g :: "('c, 'r, 'a) instanceRuntime \<Rightarrow> ('c, 'r, 'a) instanceRuntime" where "g r = the (evaluateDeterministic inflight env ctx r)" for r
  have all: "\<forall>r\<in>set runtimes. evaluateDeterministic inflight env ctx r \<noteq> None" and evaluated: "evaluated = map g runtimes"
    using assms(2) by (auto simp: EvaluateDeterministic_def those_map g_def [abs_def])
  have row: "irType (g r) = irType r" "irInstanceID (g r) = irInstanceID r" if "r \<in> set runtimes" for r
  proof -
    obtain r' where "evaluateDeterministic inflight env ctx r = Some r'" using all \<open>r \<in> set runtimes\<close> by blast
    then show "irType (g r) = irType r" "irInstanceID (g r) = irInstanceID r"
      using evaluateDeterministic_row [of inflight env ctx r r'] by (simp_all add: g_def)
  qed
  note rows = runtime_set_rows [OF assms(1)]
  have parts: "readers = filter (\<lambda>r. \<not> simulates r) runtimes" "simulators = filter simulates runtimes"
    using assms(3) by (auto simp: PartitionByKind_def)
  have some: "EvaluateDeterministic inflight env ctx readers = Some (map g readers)"
    "EvaluateDeterministic inflight env ctx simulators = Some (map g simulators)"
    using all by (auto simp: EvaluateDeterministic_def those_map g_def [abs_def] parts)
  have split: "set (map g readers @ map g simulators) = g ` set runtimes"
    by (auto simp: parts)
  have ids: "map irInstanceID (map g readers @ map g simulators) = map irInstanceID (readers @ simulators)"
    using row by (simp add: parts)
  have distinct: "distinct (map irInstanceID (map g readers @ map g simulators))"
  proof -
    have "distinct (map irInstanceID (readers @ simulators))"
      unfolding parts by (rule partition_distinct [OF rows(1)])
    then show ?thesis by (simp only: ids)
  qed
  have types: "\<forall>r\<in>set (map g readers @ map g simulators). irType r \<in> set table_types"
    using rows(2) row(1) unfolding split by auto
  have lookup: "Mapping.lookup (envelopes_by_id [Some (runtime_Result (map g readers)), Some (runtime_Result (map g simulators))])
      (irInstanceID r) = Some (envelope (g r))" if r: "r \<in> set runtimes" for r
    using merged_lookup [OF distinct types, of "g r"] r row(2) [OF r] unfolding split by auto
  have "List.map_filter (\<lambda>r. Mapping.lookup (envelopes_by_id [Some (runtime_Result (map g readers)), Some (runtime_Result (map g simulators))])
        (irInstanceID r)) (filter (\<lambda>r. irType r = t) runtimes) = envelopes_of evaluated t" for t
  proof -
    have "filter (\<lambda>r. irType r = t) evaluated = map g (filter (\<lambda>r. irType r = t) runtimes)"
      unfolding evaluated filter_map by (rule arg_cong [of _ _ "map g"], rule filter_cong) (auto simp: row)
    then show ?thesis by (auto simp: envelopes_of_def List.map_filter_def lookup cong: filter_cong)
  qed
  then have merge: "MergeEvaluationResultCollections runtimes (Some (runtime_Result (map g readers))) (Some (runtime_Result (map g simulators))) =
      runtime_Result evaluated"
    by (simp add: MergeEvaluationResultCollections_def runtime_Result_def Let_def)
  have etypes: "\<forall>r\<in>set evaluated. irType r \<in> set table_types"
    using rows(2) row(1) by (auto simp: evaluated)
  from mset_map_eq [OF result_rows [OF this], of evInstance]
  have "mset (map evInstance (concat (map snd (result_tables (runtime_Result evaluated))))) = mset (map irInstanceID evaluated)"
    unfolding envelope_ids .
  moreover have same: "map irInstanceID evaluated = map irInstanceID runtimes" using row(2) by (simp add: evaluated)
  ultimately have ids': "mset (map evInstance (concat (map snd (result_tables (runtime_Result evaluated))))) = mset (map irInstanceID runtimes)"
    by simp
  have "distinct (map evInstance (concat (map snd (result_tables (runtime_Result evaluated)))))"
    using rows(1) mset_eq_imp_distinct_iff [OF ids'] by blast
  moreover have "evInstance ` set (concat (map snd (result_tables (runtime_Result evaluated)))) = evInstanceID ` snd ` set (rawInstances tables)"
    using mset_eq_setD [OF ids'] rows(3) by simp
  moreover have "\<forall>r\<in>set readers. \<forall>d config request. irDefinition r = Some (d, config) \<longrightarrow>
         Simulate (withReaderGuard False d env) request = Some (Inl (ResimulationRefused ''simulateScheduled''))"
    by (auto simp: parts simulates_def Simulate_def simulateScheduled_def requireResimulationAllowed_def withReaderGuard_def)
  ultimately show ?thesis using some merge by (intro exI conjI)
qed

end
