(* ===== verification/Evaluation_Properties.thy ===== *)
theory Evaluation_Properties
  imports Evaluation_Runtime_Properties Sampling_Laws Path_Properties
begin

text \<open>
  The properties of the evaluations: the statement cycle of a date, the percentiles of reached dates,
  what an aggregation over runs reports, and the verdict of a what-if branch.
\<close>

section \<open>Statement cycles\<close>

text \<open>The month a cycle starts in, and the next month.\<close>

definition anchor_month :: "int \<Rightarrow> int \<Rightarrow> int \<Rightarrow> int \<Rightarrow> int \<times> int" where
  "anchor_month y m d day =
     (if day \<le> d then (y, m) else if m = 1 then (y - 1, 12) else (y, m - 1))"

definition next_month :: "int \<Rightarrow> int \<Rightarrow> int \<times> int" where
  "next_month y m = (if m = 12 then (y + 1, 1) else (y, m + 1))"

definition cycle_day :: "int \<Rightarrow> int" where
  "cycle_day statementDay = min 28 (max 1 statementDay)"

lemma cycle_day_range: "1 \<le> cycle_day n" "cycle_day n \<le> 28"
  by (auto simp: cycle_day_def)

lemma anchored_valid:
  assumes "0 \<le> y" "y \<le> 9999" "1 \<le> m" "m \<le> 12" "1 \<le> day" "day \<le> 28"
  shows "iso_valid y m day"
  using assms month_length_bounds [of m y] by (simp add: iso_valid_def valid_civil_def)

lemma next_anchor:
  assumes "0 \<le> y" "y \<le> 9998" "1 \<le> m" "m \<le> 12" "1 \<le> day" "day \<le> 28" "next_month y m = (y', m')"
  shows "iso_valid y' m' day" "civil_day y' m' day = civil_day y m day + month_length y m"
    and "AddMonthsClamped (iso_date y m day) 1 = Some (iso_date y' m' day)"
proof -
  have b: "0 \<le> y'" "y' \<le> 9999" "1 \<le> m'" "m' \<le> 12"
    using assms by (auto simp: next_month_def split: if_splits)
  then show v: "iso_valid y' m' day"
    using assms(5,6) by (intro anchored_valid) auto
  show "civil_day y' m' day = civil_day y m day + month_length y m"
  proof (cases "m = 12")
    case True
    then show ?thesis
      using assms(7) days_before_year_Suc [of y] by (auto simp: next_month_def civil_day_def month_simps)
  next
    case False
    then show ?thesis
      using assms(3,4,7) days_before_month_Suc [of m y] by (auto simp: next_month_def civil_day_def)
  qed
  have "min day (month_length y' m') = day"
    using month_length_bounds [OF b(3,4), of y'] assms(6) by simp
  then have "month_shift y m day 1 = (y', m', day)"
    using assms(3,4,7) by (auto simp: month_shift_def next_month_def Let_def split: if_splits)
  from AddMonthsClamped_shift(1) [OF anchored_valid this b(1,2)] assms
  show "AddMonthsClamped (iso_date y m day) 1 = Some (iso_date y' m' day)" by simp
qed

lemma cycle_start_anchor:
  assumes "iso_valid y m d" "1 \<le> y" "anchor_month y m d (cycle_day n) = (sy, sm)"
  shows "cycle_start (y, m, d) n = iso_date sy sm (cycle_day n)"
    and "0 \<le> sy" "sy \<le> 9999" "1 \<le> sm" "sm \<le> 12" "sy \<le> y"
proof -
  note b = iso_valid_bounds [OF assms(1)] cycle_day_range [of n]
  show s: "0 \<le> sy" "sy \<le> 9999" "1 \<le> sm" "sm \<le> 12" "sy \<le> y"
    using assms b by (auto simp: anchor_month_def split: if_splits)
  have "(if n < 1 then 1 else if 28 < n then 28 else n) = cycle_day n"
    by (auto simp: cycle_day_def)
  then have "cycle_start (y, m, d) n = sprintf_0d 4 sy @ CHR ''-'' # sprintf_0d 2 sm @ CHR ''-'' # sprintf_0d 2 (cycle_day n)"
    using assms b by (auto simp: cycle_start_def anchor_month_def Let_def split: if_splits)
  then show "cycle_start (y, m, d) n = iso_date sy sm (cycle_day n)"
    using s b by (simp add: iso_date_def sprintf_0d_fixed)
qed

lemma anchor_next:
  assumes "1 \<le> m" "m \<le> 12" "anchor_month y m d day = (sy, sm)" "next_month sy sm = (ey, em)"
  shows "(if day \<le> d then sy = y \<and> sm = m else ey = y \<and> em = m)"
  using assms by (auto simp: anchor_month_def next_month_def split: if_splits)

lemma march_iso: "iso_valid y m d \<Longrightarrow> 1 \<le> y \<or> 3 \<le> m \<Longrightarrow> march_date (iso_date y m d)"
proof -
  assume v: "iso_valid y m d" and late: "1 \<le> y \<or> 3 \<le> m"
  have v3: "iso_valid 0 3 1" and i3: "iso_date 0 3 1 = ''0000-03-01''"
    by code_simp+
  have "\<not> civil_day y m d < civil_day 0 3 1"
    using valid_civil_day_order [of y m d 0 3 1] v v3 late by (auto simp: iso_valid_def valid_civil_def)
  then have "iso_date 0 3 1 \<le> iso_date y m d"
    using date_le_iff [of "iso_date 0 3 1" "iso_date y m d"] v v3 by simp
  then show ?thesis using v by (simp add: march_date_def i3)
qed

text \<open>
  C30.  Every date lies in exactly the statement cycle it is given: the cycle starts on the statement
  day, clamped to 1 to 28, of this month or of the one before, on or before the date; it ends, exclusive,
  on the same day of the next month, after the date; it has 28 to 31 days; and the next cycle starts
  where it ends.
\<close>

theorem statement_cycle:
  assumes "iso_valid y m d" "1 \<le> y" "y \<le> 9998"
  shows "\<exists>sy sm ey em. resolveStatementCycle (iso_date y m d) statementDay =
      Some (iso_date sy sm (min 28 (max 1 statementDay)), iso_date ey em (min 28 (max 1 statementDay))) \<and>
    iso_valid sy sm (min 28 (max 1 statementDay)) \<and> iso_valid ey em (min 28 (max 1 statementDay)) \<and>
    iso_date sy sm (min 28 (max 1 statementDay)) \<le> iso_date y m d \<and> iso_date y m d < iso_date ey em (min 28 (max 1 statementDay)) \<and>
    DaysBetween (iso_date sy sm (min 28 (max 1 statementDay))) (iso_date ey em (min 28 (max 1 statementDay))) = Some (month_length sy sm) \<and>
    28 \<le> month_length sy sm \<and> month_length sy sm \<le> 31 \<and>
    map_option fst (resolveStatementCycle (iso_date ey em (min 28 (max 1 statementDay))) statementDay) =
      Some (iso_date ey em (min 28 (max 1 statementDay)))"
proof -
  define day where "day = cycle_day statementDay"
  have day: "1 \<le> day" "day \<le> 28" "min 28 (max 1 statementDay) = day"
    using cycle_day_range by (auto simp: day_def cycle_day_def)
  note b = iso_valid_bounds [OF assms(1)]
  obtain sy sm where s: "anchor_month y m d day = (sy, sm)" by (cases "anchor_month y m d day")
  obtain ey em where e: "next_month sy sm = (ey, em)" by (cases "next_month sy sm")
  note start = cycle_start_anchor [OF assms(1,2) s [unfolded day_def], folded day_def]
  have sy: "sy \<le> 9998" using start(6) assms(3) by simp
  have vs: "iso_valid sy sm day"
    using start day by (intro anchored_valid) auto
  note nxt = next_anchor [OF start(2) sy start(4,5) day(1,2) e]
  have split: "(if day \<le> d then sy = y \<and> sm = m else ey = y \<and> em = m)"
    using anchor_next [OF _ _ s e] b by simp
  have here: "civil_day sy sm day \<le> civil_day y m d" "civil_day y m d < civil_day ey em day"
  proof -
    have "civil_day y m d = civil_day y m day + (d - day)"
      by (simp add: civil_day_def)
    moreover have "d \<le> month_length y m" using assms(1) by (simp add: iso_valid_def valid_civil_def)
    moreover have "day \<le> month_length sy sm" "1 \<le> d"
      using month_length_bounds [OF start(4,5), of sy] day(2) b by auto
    ultimately show "civil_day sy sm day \<le> civil_day y m d" "civil_day y m d < civil_day ey em day"
      using split nxt(2) day(1) by (auto split: if_splits)
  qed
  have "resolveStatementCycle (iso_date y m d) statementDay = Some (iso_date sy sm day, iso_date ey em day)"
    using start(1) nxt(3) assms(1) by (simp add: resolveStatementCycle_def Let_def)
  moreover have "iso_date sy sm day \<le> iso_date y m d" "iso_date y m d < iso_date ey em day"
    using here vs nxt(1) assms(1) by (simp_all add: date_le_iff date_less_iff)
  moreover have "DaysBetween (iso_date sy sm day) (iso_date ey em day) = Some (month_length sy sm)"
  proof -
    have "1 \<le> sy \<or> 3 \<le> sm" "1 \<le> ey \<or> 3 \<le> em"
      using s e assms(2) b by (auto simp: anchor_month_def next_month_def split: if_splits)
    then show ?thesis
      using DaysBetween_march [OF march_iso [OF vs] march_iso [OF nxt(1)]] vs nxt(1,2) by simp
  qed
  moreover have "map_option fst (resolveStatementCycle (iso_date ey em day) statementDay) = Some (iso_date ey em day)"
  proof -
    have "anchor_month ey em day (cycle_day statementDay) = (ey, em)" "1 \<le> ey"
      using s e assms(2) b by (auto simp: anchor_month_def day_def next_month_def split: if_splits)
    from cycle_start_anchor(1) [OF nxt(1) this(2,1)] have "cycle_start (ey, em, day) statementDay = iso_date ey em day"
      by (simp add: day_def)
    then show ?thesis
      using nxt(1) by (simp add: resolveStatementCycle_def AddMonthsClamped_def Let_def)
  qed
  ultimately show ?thesis
    unfolding day(3) using vs nxt(1) month_length_bounds [OF start(4,5), of sy] by blast
qed

lemma statement_cycle_witness:
  "\<exists>s e. resolveStatementCycle ''2024-03-10'' 31 = Some (s, e) \<and> s \<le> ''2024-03-10'' \<and> ''2024-03-10'' < e"
proof -
  have v: "iso_valid 2024 3 10" and d: "iso_date 2024 3 10 = ''2024-03-10''" by code_simp+
  from statement_cycle [OF v, of 31, unfolded d] show ?thesis by force
qed

section \<open>Reached dates\<close>

definition percentile_index :: "int \<Rightarrow> rat \<Rightarrow> int" where
  "percentile_index n q = round_half_away (rnd (rnd q * of_int n))"

lemma percentile_index_range:
  assumes "0 \<le> q" "q \<le> 1" "0 \<le> n" "n \<le> 2 ^ 53"
  shows "0 \<le> percentile_index n q" "percentile_index n q \<le> n"
proof -
  obtain r where "0 \<le> r" "r \<le> of_int n" "r = rnd (rnd q * of_int n)"
    using percentile_position [OF assms] by metis
  then show "0 \<le> percentile_index n q" "percentile_index n q \<le> n"
    using round_half_away_range [of r n] by (simp_all add: percentile_index_def)
qed

lemma percentile_index_mono:
  assumes "0 \<le> p" "p \<le> q" "0 \<le> n"
  shows "percentile_index n p \<le> percentile_index n q"
proof -
  have "0 \<le> rnd p" "rnd p \<le> rnd q"
    using rnd_mono [of 0 p] rnd_mono [of p q] assms by auto
  then have "0 \<le> rnd p * of_int n" "rnd p * of_int n \<le> rnd q * of_int n"
    using assms(3) by (auto intro: mult_right_mono)
  then show ?thesis
    unfolding percentile_index_def using rnd_mono [of 0 "rnd p * of_int n"]
    by (intro round_half_away_mono rnd_mono) auto
qed

lemma datePercentile_index:
  assumes "dates \<noteq> []" "int (length dates) \<le> 2 ^ 53" "0 \<le> q" "q \<le> 1"
  shows "datePercentile dates (f64_of_rat q) = Some (dates ! nat (percentile_index (int (length dates) - 1) q))"
    and "nat (percentile_index (int (length dates) - 1) q) < length dates"
proof -
  define n where "n = int (length dates) - 1"
  have n: "0 \<le> n" "n \<le> 2 ^ 53" "int (length dates) = n + 1"
    using assms(1,2) by (cases dates; simp add: n_def)+
  obtain r where r: "FNum (of_int n) * f64_of_rat q = FNum r" "r = rnd (rnd q * of_int n)"
    using percentile_position [OF assms(3,4) n(1,2)] by metis
  note range = percentile_index_range [OF assms(3,4) n(1,2)]
  have "math_Round (FNum r) = FNum (of_int (percentile_index n q))"
    using r(2) by (simp add: percentile_index_def)
  moreover have "int_of_float (FNum (of_int (percentile_index n q))) = percentile_index n q"
    using range n(2) by (intro int_of_float_of_int) simp
  moreover have "f64_of_int (int (length dates) - 1) = FNum (of_int n)"
    using f64_of_int_length [OF assms(1,2)] by (simp only: n_def)
  moreover have "\<not> (percentile_index n q < 0 \<or> int (length dates) \<le> percentile_index n q)"
    using range n(3) by simp
  ultimately have "datePercentile dates (f64_of_rat q) = Some (dates ! nat (percentile_index n q))"
    using assms(1) by (simp only: datePercentile_def Let_def r(1) if_False)
  then show "datePercentile dates (f64_of_rat q) = Some (dates ! nat (percentile_index (int (length dates) - 1) q))"
    by (simp only: n_def)
  show "nat (percentile_index (int (length dates) - 1) q) < length dates"
    using range n(3) unfolding n_def [symmetric] by (subst nat_less_iff) auto
qed

lemma sort_Nil: "sort xs = [] \<longleftrightarrow> xs = []"
  by (metis length_0_conv length_sort)

text \<open>
  In tenths the rounded position is exactly the nearest one, halves upward: the floats \<open>0.1\<close> and \<open>0.9\<close> lie above the
  tenths they stand for, by too little to reach the next half.
\<close>

lemma tenths_rounded: "rnd (1 / 10) = 3602879701896397 / 36028797018963968" "rnd (9 / 10) = 8106479329266893 / 9007199254740992"
  "rnd (1 / 2) = 1 / 2"
  by code_simp+

lemma percentile_index_tenths:
  assumes "0 \<le> n" "n \<le> 2 ^ 40" "0 \<le> t" "t \<le> 10" "of_int t / 10 \<le> rnd (of_int t / 10)"
    "rnd (of_int t / 10) \<le> of_int t / 10 + 1 / 2 ^ 54"
  shows "percentile_index n (of_int t / 10) = (t * n + 5) div 10"
proof -
  define j where "j = (t * n + 5) div 10"
  define m where "m = t * n"
  define r where "r = (of_int m :: rat)"
  define y where "y = rnd (of_int t / 10) * of_int n"
  have "0 \<le> m" "m \<le> 10 * 2 ^ 40"
    unfolding m_def using assms by (auto intro!: mult_mono [of t 10 n "2 ^ 40", simplified])
  then have m: "0 \<le> r" "r \<le> 10 * 2 ^ 40"
    unfolding r_def by (simp_all only: of_int_0_le_iff) (metis of_int_le_iff of_int_mult of_int_numeral of_int_power)
  have j: "10 * j \<le> m + 5" "m + 5 \<le> 10 * j + 9" "0 \<le> j"
    using \<open>0 \<le> m\<close> by (auto simp: j_def m_def [symmetric] pos_imp_zdiv_nonneg_iff)
  then have "of_int (10 * j) \<le> (of_int (m + 5) :: rat)" "of_int (m + 5) \<le> (of_int (10 * j + 9) :: rat)" "0 \<le> (of_int j :: rat)"
    by (simp_all only: of_int_le_iff of_int_0_le_iff)
  then have jr: "10 * of_int j \<le> r + 5" "r + 5 \<le> 10 * of_int j + 9" "0 \<le> (of_int j :: rat)"
    by (simp_all add: r_def)
  have r: "of_int t / 10 * of_int n = r / 10"
    by (simp add: r_def m_def)
  have low: "r / 10 \<le> y"
    using mult_right_mono [OF assms(5), of "of_int n"] assms(1) unfolding y_def r by simp
  have "y \<le> (of_int t / 10 + 1 / 2 ^ 54) * of_int n"
    unfolding y_def by (rule mult_right_mono [OF assms(6)]) (use assms(1) in simp)
  also have "\<dots> = r / 10 + of_int n / 2 ^ 54"
    unfolding distrib_right r by simp
  also have "of_int n \<le> (2 ^ 40 :: rat)"
    using assms(2) by (metis of_int_le_iff of_int_numeral of_int_power)
  finally have high: "y \<le> r / 10 + 1 / 2 ^ 14"
    by simp
  have "\<bar>y\<bar> < 2 ^ 41"
    using low high m by (simp add: abs_less_iff)
  then have "\<bar>y\<bar> < p2 41"
    by (simp add: p2_def)
  from rnd_error [OF this] have err: "\<bar>rnd y - y\<bar> \<le> 1 / 2 ^ 13"
    by (simp add: p2_def)
  have "2 * j - 1 \<le> 2 ^ 53"
    using j(1) \<open>m \<le> 10 * 2 ^ 40\<close> by simp
  then have "\<bar>2 * j - 1\<bar> \<le> 2 ^ 53"
    using j(3) by simp
  from rnd_grid [OF this, of "- 1" "of_int j - 1 / 2"] have "rnd (of_int j - 1 / 2) = of_int j - 1 / 2"
    by (simp add: p2_def)
  moreover have "of_int j - 1 / 2 \<le> y"
    using jr(1) low by simp
  ultimately have "of_int j - 1 / 2 \<le> rnd y"
    using rnd_mono [of "of_int j - 1 / 2" y] by simp
  moreover have "rnd y \<le> y + 1 / 2 ^ 13"
    using err unfolding abs_le_iff by linarith
  then have "rnd y < of_int j + 1 / 2"
    using high jr(2) by simp
  moreover have "0 \<le> rnd y"
    using rnd_mono [of 0 y] low m(1) by simp
  ultimately have "round_half_away (rnd y) = j"
    by (auto simp: round_half_away_def intro!: floor_unique)
  then show ?thesis
    by (simp add: percentile_index_def y_def j_def)
qed

lemma datePercentile_rank:
  assumes "dates \<noteq> []" "length dates \<le> 2 ^ 40"
  shows "datePercentile dates (f64_of_rat (1 / 10)) = Some (dates ! ((length dates + 4) div 10))"
    "datePercentile dates (f64_of_rat (1 / 2)) = Some (dates ! (length dates div 2))"
    "datePercentile dates (f64_of_rat (9 / 10)) = Some (dates ! ((9 * length dates - 4) div 10))"
proof -
  obtain m where m: "length dates = Suc m"
    using assms(1) by (cases dates) auto
  then have n: "0 \<le> int m" "int m \<le> 2 ^ 40" "int (length dates) - 1 = int m"
    using assms(2) by auto
  have len: "int (length dates) \<le> 2 ^ 53"
    using n by simp
  have eq: "percentile_index (int m) (1 / 10) = (int m + 5) div 10" "percentile_index (int m) (9 / 10) = (9 * int m + 5) div 10"
    "percentile_index (int m) (1 / 2) = (5 * int m + 5) div 10"
    using percentile_index_tenths [OF n(1,2), of 1] percentile_index_tenths [OF n(1,2), of 9]
      percentile_index_tenths [OF n(1,2), of 5] by (simp_all add: tenths_rounded)
  have at: "datePercentile dates (f64_of_rat q) = Some (dates ! nat (percentile_index (int m) q))" if "0 \<le> q" "q \<le> 1" for q
    using datePercentile_index(1) [OF assms(1) len that] by (simp only: n(3))
  have rank: "nat ((int m + 5) div 10) = (Suc m + 4) div 10" "nat ((9 * int m + 5) div 10) = (9 * Suc m - 4) div 10"
    "nat ((5 * int m + 5) div 10) = Suc m div 2"
    by (simp_all add: nat_div_distrib nat_add_distrib nat_mult_distrib)
  then show "datePercentile dates (f64_of_rat (1 / 10)) = Some (dates ! ((length dates + 4) div 10))"
    "datePercentile dates (f64_of_rat (1 / 2)) = Some (dates ! (length dates div 2))"
    "datePercentile dates (f64_of_rat (9 / 10)) = Some (dates ! ((9 * length dates - 4) div 10))"
    unfolding at [of "1 / 10", simplified] at [of "1 / 2", simplified] at [of "9 / 10", simplified] eq rank m by simp_all
qed

text \<open>Accumulating over the trials collects the dates that were reached, in the order of the trials.\<close>

lemma accumulated_dates:
  "foldl (accumulateReachedDate firstReached) acc results =
     \<lparr>taReachedDates = taReachedDates acc @ List.map_filter firstReached results, taTotalRuns = taTotalRuns acc + int (length results)\<rparr>"
  by (induction results arbitrary: acc) (simp_all add: accumulateReachedDate_def List.map_filter_simps split: option.split)

lemma length_map_filter_le: "length (List.map_filter f xs) \<le> length xs"
  by (simp add: List.map_filter_def)

text \<open>
  C29.  What a reached-date evaluation reports of its trials, at most \<open>2 ^ 40\<close> of them.  The probability is the number of trials that reached the
  target over the number of trials, rounded once.  Without a trial that reached it the three dates are null.  Otherwise,
  with the \<open>n\<close> dates that were reached in order, each percentile \<open>q\<close> is the date at the rank nearest \<open>q * (n - 1)\<close>, halves upward:
  rank \<open>(n + 4) div 10\<close> for the tenth, \<open>n div 2\<close> for the median and \<open>(9 * n - 4) div 10\<close> for the ninetieth.  So none is
  after the next, and the order of the trials does not matter.
\<close>

theorem reached_date_percentiles:
  assumes "length results \<le> 2 ^ 40"
  shows "let dates = sort (List.map_filter firstReached results); n = length dates in
    finalizeReachedDates (foldl (accumulateReachedDate firstReached) \<lparr>taReachedDates = [], taTotalRuns = 0\<rparr> results) =
      JObj [(''probability'', JNum (f64_of_rat (of_nat n / of_nat (length results)))),
            (''p10ReachedDate'', if n = 0 then JNull else JStr (dates ! ((n + 4) div 10))),
            (''medianReachedDate'', if n = 0 then JNull else JStr (dates ! (n div 2))),
            (''p90ReachedDate'', if n = 0 then JNull else JStr (dates ! ((9 * n - 4) div 10)))]"
proof -
  define reached where "reached = List.map_filter firstReached results"
  have small: "length reached \<le> 2 ^ 40" "length reached \<le> length results"
    using length_map_filter_le [of firstReached results] assms by (simp_all add: reached_def)
  have share: "(if 0 < int (length results) then fdiv (f64_of_int (int (length reached))) (f64_of_int (int (length results))) else 0) =
      f64_of_rat (of_nat (length reached) / of_nat (length results))"
    using f64_of_rat_of_int [of "int (length reached)"] f64_of_rat_of_int [of "int (length results)"] small assms
    by (cases results) (simp_all add: f64_of_int_def)
  show ?thesis
  proof (cases "reached = []")
    case True
    show ?thesis
      using share unfolding finalizeReachedDates_def accumulated_dates Let_def reached_def [symmetric] True
      by (simp add: datePercentile_def date_json_def split: if_splits)
  next
    case False
    then have "sort reached \<noteq> []" "length (sort reached) \<le> 2 ^ 40"
      using small by (simp_all add: sort_Nil)
    from datePercentile_rank [OF this] this(1) False share show ?thesis
      unfolding finalizeReachedDates_def accumulated_dates Let_def reached_def [symmetric]
      by (simp add: date_json_def split: if_splits)
  qed
qed

lemma reached_date_percentiles_witness:
  "finalizeReachedDates (foldl (accumulateReachedDate id) \<lparr>taReachedDates = [], taTotalRuns = 0\<rparr>
      [Some ''2026-01-01'', None, Some ''2025-01-01'']) =
    JObj [(''probability'', JNum (f64_of_rat (2 / 3))), (''p10ReachedDate'', JStr ''2025-01-01''),
      (''medianReachedDate'', JStr ''2026-01-01''), (''p90ReachedDate'', JStr ''2026-01-01'')]"
proof -
  have "sort [''2026-01-01'', ''2025-01-01''] = [''2025-01-01'', ''2026-01-01'']"
    by code_simp
  with reached_date_percentiles [of "[Some ''2026-01-01'', None, Some ''2025-01-01'']" id] show ?thesis
    by (simp add: List.map_filter_simps)
qed

section \<open>What-if branches\<close>

text \<open>The kernel does not assess its attempts: none carries a fulfillment.\<close>

definition unassessed :: "run_state \<Rightarrow> bool" where
  "unassessed s \<longleftrightarrow> (\<forall>e\<in>set (rsAttempts s). teFulfillment e = None)"

interpretation assessed: run_invariant pow limit eventDates unassessed
  for pow limit eventDates
  by unfold_locales (auto simp: unassessed_def transaction_event_def take_snapshot_def)

lemma simulation_unassessed:
  assumes "Simulate env request = Some (Inr run)" "e \<in> set (rnTransactionAttempts run)"
  shows "teFulfillment e = None"
proof -
  obtain eventDates s where s: "run_dates (envPow env) (rqHistoryCutInstant request) eventDates (Mapping.ordered_keys eventDates)
      (start_run request) = Some (Inr s)" "run = finish_run request s"
    using assms(1) unfolding Simulate_def by (rule simulateScheduledE)
  have "unassessed (start_run request)" by (simp add: unassessed_def start_run_def)
  from assessed.dates_keep [OF this s(1)] show ?thesis
    using assms(2) s(2) by (simp add: unassessed_def finish_run_def)
qed

text \<open>
  C28.  A what-if branch that simulates is always reported as fully funded, whatever its attempts
  realized: the evaluation looks for the assessment of an attempt, which only rendering adds.  So the
  verdict is satisfied, alone and over any number of runs.
\<close>

theorem what_if_always_funded:
  assumes "evaluateWhatIf range_order env path sample config = Some (Inr result)"
  shows "wiAllFunded result \<and> wiFirstUnfulfilledDate result = None \<and>
    edStatus (whatIfDefinition decode range_order) (Some result) JNull = StatusSatisfied"
proof -
  obtain run where run: "Simulate env (purchasesCandidateRequest (path\<lparr>phEffectiveModel :=
      ApplyModelOverrides (phEffectiveModel path) (whatIfOverridesFromParsed config)\<rparr>) sample) = Some (Inr run)"
    and result: "wiAllFunded result = (find unfulfilled_attempt (rnTransactionAttempts run) = None)"
      "wiFirstUnfulfilledDate result = map_option teDate (find unfulfilled_attempt (rnTransactionAttempts run))"
    using assms by (auto simp: evaluateWhatIf_def Let_def and_then_eq_Inr)
  have "find unfulfilled_attempt (rnTransactionAttempts run) = None"
    using simulation_unassessed [OF run] by (auto simp: find_None_iff unfulfilled_attempt_def)
  then show ?thesis
    using result by (simp add: whatIfDefinition_def whatIfStatus_def deterministic_verdict_def verdict_def)
qed

definition branch_path :: ProjectionPath where
  "branch_path = \<lparr>phRows = [], phTransactionEvents = [], phEffectiveModel = report_model,
     phStartState = \<lparr>pzLatestAmounts = Mapping.empty, pzLatestDates = Mapping.empty, pzAmountsByYear = Mapping.empty\<rparr>,
     phStartDate = ''2024-01-31'', phEndDate = ''2024-01-31'', phHistoryCutInstant = 0\<rparr>"

definition no_change :: WhatIfConfig where
  "no_change = \<lparr>wcAddedAccounts = [], wcAddedTransactions = [], wcAddedRules = [], wcDisabledAccountIDs = [],
     wcDisabledTransactionIDs = [], wcDisabledScheduleIDs = []\<rparr>"

lemma branch_event_dates:
  "event_dates (purchasesCandidateRequest (branch_path\<lparr>phEffectiveModel :=
      ApplyModelOverrides report_model (whatIfOverridesFromParsed no_change)\<rparr>) None) [] [] =
     Some (Mapping.update ''2024-01-31'' [deposit_occurrence] Mapping.empty)"
  using sample_event_dates
  by (simp add: event_dates_def purchasesCandidateRequest_def branch_path_def no_change_def whatIfOverridesFromParsed_def
      ApplyModelOverrides_def simulation_inputs_def report_model_def model_of_inputs_def sample_request_def Let_def)

definition branch_request :: SimulationRequest where
  "branch_request = purchasesCandidateRequest (branch_path\<lparr>phEffectiveModel :=
      ApplyModelOverrides report_model (whatIfOverridesFromParsed no_change)\<rparr>) None"

lemma branch_simulates:
  obtains run where "Simulate sample_env branch_request = Some (Inr run)" "length (rnTransactionAttempts run) = 1"
proof -
  have "ssAmountsByYear (rtState (rsRuntime (start_run branch_request))) = Mapping.empty"
    by (simp add: start_run_def CreateTransitionRuntime_def CloneSimulationState_def branch_request_def
        purchasesCandidateRequest_def branch_path_def Let_def)
  then obtain x t' where x: "ExecuteTransaction (envPow sample_env) (rsRuntime (start_run branch_request)) deposit_occurrence
      ''2024-01-31'' False = Some (Inr (x, t'))"
    by (rule deposit_executes)
  have "rqHistoryCutInstant branch_request = 0" "envResimulationAllowed sample_env"
    by (simp_all add: branch_request_def purchasesCandidateRequest_def branch_path_def sample_env_def Let_def)
  moreover have "rsAttempts (start_run branch_request) = []" by (simp add: start_run_def)
  moreover have "Mapping.ordered_keys (Mapping.update ''2024-01-31'' [deposit_occurrence] Mapping.empty) = [''2024-01-31'']"
    by (simp add: ordered_keys_def)
  moreover note branch_event_dates [folded branch_request_def]
  ultimately show ?thesis
    using that x
    by (simp add: Simulate_def simulateScheduled_def requireResimulationAllowed_def lookup_default_update sortOccurrences_def
        run_occurrence_def replayed_already_def finish_run_def take_snapshot_def)
qed

lemma what_if_always_funded_witness:
  "\<exists>result. evaluateWhatIf Mapping.ordered_keys sample_env branch_path None no_change = Some (Inr result) \<and>
     wiTransactionCount result = 1 \<and> wiAllFunded result"
proof -
  obtain run where "Simulate sample_env branch_request = Some (Inr run)" "length (rnTransactionAttempts run) = 1"
    by (rule branch_simulates)
  then obtain result where r: "evaluateWhatIf Mapping.ordered_keys sample_env branch_path None no_change = Some (Inr result)"
    "wiTransactionCount result = 1"
    by (simp add: evaluateWhatIf_def Let_def branch_request_def branch_path_def)
  with what_if_always_funded [OF r(1)] show ?thesis by blast
qed

section \<open>A set of two kinds\<close>

definition goal_row :: EvaluationInstance where
  "goal_row = \<lparr>evInstanceID = ''goal'', evName = ''Goal'', evEnabled = True, evConfig = JObj [(''target'', JNum (FNum 5))]\<rparr>"

definition goal_simulator :: "(f64, NetWorthThresholdPathResult, thresholdAccumulator) EvaluationDefinition" where
  "goal_simulator = netWorthThresholdDefinition\<lparr>edType := ''whatIf'', edKind := EvaluationKindSimulator, edAllowSimulation := True\<rparr>"

definition goal_tables :: EvaluationTables where
  "goal_tables = EmptyEvaluationTables\<lparr>etNetWorthThreshold := [goal_row], etWhatIf := [goal_row\<lparr>evInstanceID := ''branch''\<rparr>]\<rparr>"

definition goal_registry :: "(f64, NetWorthThresholdPathResult, thresholdAccumulator) EvaluationRegistry" where
  "goal_registry = \<lparr>rgDefinitions = Mapping.update ''whatIf'' goal_simulator
     (Mapping.update ''netWorthThreshold'' netWorthThresholdDefinition Mapping.empty), rgOrder = [''netWorthThreshold'', ''whatIf'']\<rparr>"

lemma goal_ids: "TrimSpace ''goal'' = ''goal''" "TrimSpace ''branch'' = ''branch''"
  by (simp_all add: TrimSpace_plain less_char_def)

lemma goal_runtimes:
  "NewEvaluationRuntimeSet goal_tables goal_registry = Some
     [runtime_of ''netWorthThreshold'' goal_row [] (Some (netWorthThresholdDefinition, FNum 5)),
      runtime_of ''whatIf'' (goal_row\<lparr>evInstanceID := ''branch''\<rparr>) [] (Some (goal_simulator, FNum 5))]"
proof -
  have rows: "rawInstances goal_tables = [(''netWorthThreshold'', goal_row), (''whatIf'', goal_row\<lparr>evInstanceID := ''branch''\<rparr>)]"
    by (simp add: rawInstances_def evaluation_tables_def goal_tables_def EmptyEvaluationTables_def)
  have "ParseThresholdConfig (JObj [(''target'', JNum (FNum 5))]) = Some (Inr (FNum 5))"
    by (simp add: ParseThresholdConfig_def ValidateThresholdConfig_def number_or_zero_def numberField_def isNonFinite_def)
  then show ?thesis
    by (simp add: NewEvaluationRuntimeSet_def rows Let_def goal_row_def new_runtime_def goal_ids registry_Get_def goal_registry_def
        lookup_update' goal_simulator_def) (simp add: netWorthThresholdDefinition_def NewReachedDateReader_def newReachedDateDefinition_def)
qed

type_synonym goal_runtime = "(f64, NetWorthThresholdPathResult, thresholdAccumulator) instanceRuntime"

lemma evaluation_kinds_merge_witness:
  "\<exists>(runtimes :: goal_runtime list) (evaluated :: goal_runtime list) readers simulators (rs :: goal_runtime list) (ss :: goal_runtime list).
     NewEvaluationRuntimeSet goal_tables goal_registry = Some runtimes \<and>
     PartitionByKind runtimes = (readers, simulators) \<and> length readers = 1 \<and> length simulators = 1 \<and>
     MergeEvaluationResultCollections runtimes (Some (runtime_Result rs)) (Some (runtime_Result ss)) = runtime_Result evaluated \<and>
     evInstance ` set (concat (map snd (result_tables (runtime_Result evaluated)))) = evInstanceID ` snd ` set (rawInstances goal_tables)"
proof -
  let ?ctx = "\<lparr>exPath = branch_path, exModel = report_model, exMonteCarloSample = None, exDetailLevel = ''summary''\<rparr>"
  let ?r = "runtime_of ''netWorthThreshold'' goal_row [] (Some (netWorthThresholdDefinition, FNum 5))"
    and ?s = "runtime_of ''whatIf'' (goal_row\<lparr>evInstanceID := ''branch''\<rparr>) [] (Some (goal_simulator, FNum 5))"
  have "\<exists>r. evaluateDeterministic False sample_env ?ctx ?r = Some r" "\<exists>s. evaluateDeterministic False sample_env ?ctx ?s = Some s"
    by (simp_all add: evaluateDeterministic_def runtime_of_def hasErrors_def goal_simulator_def netWorthThresholdDefinition_def
        NewReachedDateReader_def newReachedDateDefinition_def add_diagnostics_def)
  then obtain evaluated where e: "EvaluateDeterministic False sample_env ?ctx [?r, ?s] = Some evaluated"
    by (auto simp: EvaluateDeterministic_def)
  have "\<not> simulates ?r" "simulates ?s"
    by (simp_all add: simulates_def runtime_of_def IsSimulator_def goal_simulator_def netWorthThresholdDefinition_def
        NewReachedDateReader_def newReachedDateDefinition_def EvaluationKindReader_def EvaluationKindSimulator_def)
  then have parts: "PartitionByKind [?r, ?s] = ([?r], [?s])"
    by (simp add: PartitionByKind_def)
  obtain rs ss :: "goal_runtime list" where m: "MergeEvaluationResultCollections [?r, ?s] (Some (runtime_Result rs)) (Some (runtime_Result ss)) = runtime_Result evaluated"
    "evInstance ` set (concat (map snd (result_tables (runtime_Result evaluated)))) = evInstanceID ` snd ` set (rawInstances goal_tables)"
    using evaluation_kinds_merge [OF goal_runtimes e parts] by (elim exE conjE) (rule that; assumption)
  have "length [?r] = 1" "length [?s] = 1" by simp_all
  with goal_runtimes parts m show ?thesis
    by (intro exI conjI)
qed

end
