(* ===== verification/Stochastic_Properties.thy ===== *)
theory Stochastic_Properties
  imports Session_Laws Evaluation_Properties
begin

text \<open>
  The properties of a Monte Carlo session: whatever the workers do in whatever order, it returns what drawing,
  simulating and accumulating one trial after the other returns; its goroutines all end; and its bands are the
  percentiles over every trial.
\<close>

section \<open>A sample session\<close>

definition still :: "nat sampler" where
  "still rate volatility u = (rate, u + 1)"

definition trial_request :: SimulationRequest where
  "trial_request = sample_request\<lparr>rqMonteCarloSample := Some Mapping.empty\<rparr>"

definition trial_config :: StochasticConfig where
  "trial_config = \<lparr>tcRunCount = 1, tcSeed = None\<rparr>"

definition trial_session :: "int gomap \<Rightarrow> (f64, NetWorthThresholdPathResult, thresholdAccumulator) stochasticSession" where
  "trial_session counts =
     (empty_runtime_session trial_config False report_prepared branch_path
       \<lparr>pjRows = [], pjAccountSummaries = [], pjExternalInflowAmount = 0, pjExternalOutflowAmount = 0,
        pjInternalTransferAmount = 0, pjLatestHistoricalDate = None, pjProjectionStartDate = ''2024-01-31'', pjCurrentNetWorth = 0,
        pjFinalNetWorth = 0, pjTransactionEvents = []\<rparr> counts
       [(runtime_of ''netWorthThreshold'' goal_row [] (Some (netWorthThresholdDefinition, FNum 5)))
         \<lparr>irAccumulator := Some \<lparr>taReachedDates = [], taTotalRuns = 0\<rparr>\<rparr>])
     \<lparr>tsSortedDates := [''2024-01-31'']\<rparr>"

lemma trial_simulates:
  obtains run where "Simulate (orchestrated sample_env) trial_request = Some (Inr run)" "length (rnSnapshots run) = 1"
proof -
  have "ssAmountsByYear (rtState (rsRuntime (start_run trial_request))) = Mapping.empty"
    by (simp add: start_run_def CreateTransitionRuntime_def CloneSimulationState_def trial_request_def sample_request_def
        sample_state_def Let_def)
  then obtain x t' where x: "ExecuteTransaction (envPow sample_env) (rsRuntime (start_run trial_request)) deposit_occurrence
      ''2024-01-31'' False = Some (Inr (x, t'))"
    by (rule deposit_executes)
  have "event_dates trial_request [] [] = Some (Mapping.update ''2024-01-31'' [deposit_occurrence] Mapping.empty)"
    using sample_event_dates by (simp add: event_dates_def trial_request_def)
  moreover have "rqHistoryCutInstant trial_request = 0"
    by (simp add: trial_request_def sample_request_def)
  moreover have "rsAttempts (start_run trial_request) = []" "rsSnapshots (start_run trial_request) = []" by (simp_all add: start_run_def)
  moreover have "Mapping.ordered_keys (Mapping.update ''2024-01-31'' [deposit_occurrence] Mapping.empty) = [''2024-01-31'']"
    by (simp add: ordered_keys_def)
  ultimately show ?thesis
    using that x
    by (simp add: Simulate_def simulateScheduled_def requireResimulationAllowed_def lookup_default_update sortOccurrences_def
        run_occurrence_def replayed_already_def finish_run_def take_snapshot_def orchestrated_def)
qed

text \<open>The session runs its one trial, which the goal's reader reads.\<close>

lemma trial_sample: "createSample still (trial_session counts) n = Some (Mapping.empty, n)"
  by (simp add: createSample_def buildStochasticRates_def samplingParamsByID_def trial_session_def empty_runtime_session_def
      report_prepared_def sample_request_def deposit_def VolatileRateInputOf_def)

lemma trial_projects:
  obtains path where "projectSample sample_env (trial_session counts) Mapping.empty = Some (Inr path)" "length (phRows path) = 1"
proof -
  obtain run where "Simulate (orchestrated sample_env) trial_request = Some (Inr run)" "length (rnSnapshots run) = 1" by (rule trial_simulates)
  then show ?thesis
    using that by (simp add: projectSample_def orchestratedSimulate_def trial_session_def empty_runtime_session_def
        report_prepared_def trial_request_def BuildStochasticSamplePath_def buildProjectionPath_def Let_def)
qed

lemma trial_answers: "answers_from_path (trial_session counts)"
  by (simp add: answers_from_path_def trial_session_def empty_runtime_session_def ignores_guard_def runtime_of_def
      netWorthThresholdDefinition_def NewReachedDateReader_def newReachedDateDefinition_def)

lemma trial_fresh: "fresh_session (trial_session counts)"
  by (simp add: fresh_session_def trial_session_def empty_runtime_session_def)

lemma goal_consumes:
  "\<exists>r. consume_path inflight env ctx ((runtime_of ''netWorthThreshold'' goal_row [] (Some (netWorthThresholdDefinition, FNum 5)))
         \<lparr>irAccumulator := Some acc\<rparr>) = Some r"
  by (simp add: consume_path_def runtime_of_def netWorthThresholdDefinition_def NewReachedDateReader_def newReachedDateDefinition_def)

lemma trial_consumes:
  assumes "length (phRows path) = 1"
  obtains s where "consumeOrdered inflight sample_env path sample (trial_session counts) = Some s"
proof -
  let ?s = "trial_session counts"
  obtain runtimes where runtimes: "Consume inflight sample_env \<lparr>exPath = path, exModel = phEffectiveModel path,
      exMonteCarloSample = Some sample, exDetailLevel = ''summary''\<rparr> (tsRuntimes ?s) = Some runtimes"
  proof -
    let ?ctx = "\<lparr>exPath = path, exModel = phEffectiveModel path, exMonteCarloSample = Some sample, exDetailLevel = ''summary''\<rparr>"
    obtain r where "consume_path inflight sample_env ?ctx (hd (tsRuntimes ?s)) = Some r"
      using goal_consumes [of inflight sample_env ?ctx "\<lparr>taReachedDates = [], taTotalRuns = 0\<rparr>"]
      by (auto simp: trial_session_def empty_runtime_session_def)
    then have "Consume inflight sample_env ?ctx (tsRuntimes ?s) = Some [r]"
      by (simp add: Consume_def trial_session_def empty_runtime_session_def)
    then show ?thesis by (rule that)
  qed
  have "buffers_hold [path] (accumulate_path path runtimes ?s)"
    using accumulate_path_buffers [OF fresh_buffers [OF trial_fresh]] by simp
  then have fin: "finite (Mapping.keys (tsPendingValuesByDate (accumulate_path path runtimes ?s)))"
    by (simp add: buffers_hold_def)
  have "go_index [] (tsPendingValuesByDate (accumulate_path path runtimes ?s)) date = values_on date [path]"
    "tsSortedValuesByDate (accumulate_path path runtimes ?s) = Mapping.empty" for date
    by (simp_all add: accumulate_path_def fold_append_value values_on_def trial_session_def empty_runtime_session_def lookup_default_empty)
  then have "go_index [] (tsSortedValuesByDate (flushed (accumulate_path path runtimes ?s))) date = Float64s (values_on date [path])" for date
    by (simp add: flushed_values(1) [OF fin] lookup_default_empty)
  moreover have "int (length (Float64s (values_on date [path]))) \<le> 2 ^ 53" for date
  proof -
    have "length (values_on date [path]) \<le> length (phRows path)" by (simp add: values_on_def)
    then show ?thesis using assms mset_eq_length [OF Float64s_mset [of "values_on date [path]"]] by simp
  qed
  ultimately have "band_row (flushed (accumulate_path path runtimes ?s)) date \<noteq> None" for date
    using percentiles_defined(1) [of "Float64s (values_on date [path])"] by (simp add: band_row_def)
  then obtain row where "band_row (flushed (accumulate_path path runtimes ?s)) ''2024-01-31'' = Some row" by blast
  then obtain v where "buildResult (flushed (accumulate_path path runtimes ?s)) = Some v"
    by (simp add: buildResult_def) (simp add: trial_session_def)
  moreover have "batch_complete (accumulate_path path runtimes ?s)"
    by (simp add: batch_complete_def trial_session_def empty_runtime_session_def trial_config_def)
  ultimately show ?thesis
    using that runtimes by (simp add: consumeOrdered_def flushBatchLocked_def Let_def)
qed

lemma trial_returns:
  obtains s where "runStochasticSession sample_env still 1 (trial_session Mapping.empty) 0 (Inr s)"
proof -
  obtain path where path: "projectSample sample_env (trial_session Mapping.empty) Mapping.empty = Some (Inr path)"
    "length (phRows path) = 1"
    by (rule trial_projects)
  obtain s where s: "consumeOrdered False sample_env path Mapping.empty (trial_session Mapping.empty) = Some s"
    by (rule trial_consumes [OF path(2)])
  have "nat (tcRunCount (tsConfig (trial_session Mapping.empty))) = 1"
    by (simp add: trial_session_def empty_runtime_session_def trial_config_def)
  then have "runUnsampledSession (\<lambda>_. False) (\<lambda>_. False) sample_env still (trial_session Mapping.empty) 0 = Some (Inr s)"
    using path s by (simp add: runUnsampledSession_def trial_sample)
  moreover have "Mapping.is_empty (tsSampleCounts (trial_session Mapping.empty))"
    by (simp add: trial_session_def empty_runtime_session_def)
  ultimately show ?thesis
    using that unfolding runStochasticSession_def by auto
qed

section \<open>Properties\<close>

text \<open>
  C15. The pool changes nothing.  Whichever goroutine moves when, and whenever the caller's context is
  cancelled, a session that returns without an error holds exactly what drawing, simulating and
  accumulating its trials one after the other gives, and the path of a session with nothing to sample, which
  is simulated once, counts as that many trials; a trial reported as failed is one that was drawn and
  whose simulation fails with that error.
\<close>

theorem stochastic_runs_in_order:
  assumes "runStochasticSession env sampler workerCount session source result" "answers_from_path session"
  shows "case result of
      Inr s \<Rightarrow> \<exists>source'. sequential (session_calls env sampler session) (nat (tcRunCount (tsConfig session))) source session =
          Some (Inr (source', s))
    | Inl (RunFailedAt i e) \<Rightarrow> \<exists>n samples source'. n \<le> nat (tcRunCount (tsConfig session)) \<and> i < int n \<and>
          draws (session_calls env sampler session) source n = Some (samples, source') \<and>
          projectSample env session (samples ! nat i) = Some (Inl e)
    | Inl (TrialFailed e) \<Rightarrow> \<exists>sample source'. createSample sampler session source = Some (sample, source') \<and>
          projectSample env session sample = Some (Inl e)
    | _ \<Rightarrow> True"
proof (cases "Mapping.is_empty (tsSampleCounts session)")
  case True
  then obtain cancelled inflight where run: "runUnsampledSession cancelled inflight env sampler session source = Some result"
    using assms(1) by (auto simp: runStochasticSession_def)
  show ?thesis
  proof (cases result)
    case (Inr s)
    then show ?thesis using unsampled_sequential [of cancelled inflight env sampler session source s] run assms(2) True by auto
  next
    case (Inl e)
    then show ?thesis using unsampled_error [of cancelled inflight env sampler session source e] run by (auto split: stochastic_error.splits)
  qed
next
  case False
  let ?k = "session_calls env sampler session" and ?n = "nat (tcRunCount (tsConfig session))"
  obtain p where p: "pool_reaches ?k ?n (pool_start workerCount source session) p" "pool_returned p" "coordinator_result p = result"
    using assms(1) False by (auto simp: runStochasticSession_def)
  obtain samples where inv: "pool_inv ?k ?n source session samples p"
    using pool_reaches_inv [OF p(1) session_order_only assms(2)] by blast
  show ?thesis
  proof (cases "plCoordinator p")
    case (RunFailed i e)
    then have "result = Inl (RunFailedAt (int i) e)" using p(3) by (simp add: coordinator_result_def)
    moreover have "pkProject ?k = projectSample env session" by (simp add: session_calls_def)
    moreover obtain m trials source' where "m \<le> ?n" "i < m" "draws ?k source m = Some (trials, source')"
      "pkProject ?k (trials ! i) = Some (Inl e)"
      using pool_result(2) [OF inv RunFailed] by blast
    ultimately show ?thesis by auto
  next
    case Finished
    then show ?thesis using p(3) pool_result(1) [OF inv] by (auto simp: coordinator_result_def)
  next
    case Stopped
    then show ?thesis using p(3) by (auto simp: coordinator_result_def)
  qed (use p(2) in \<open>simp add: pool_returned_def\<close>)
qed

lemma stochastic_runs_in_order_witness:
  "\<exists>s source'. runStochasticSession sample_env still 1 (trial_session Mapping.empty) 0 (Inr s) \<and>
     sequential (session_calls sample_env still (trial_session Mapping.empty)) (nat 1) 0 (trial_session Mapping.empty) =
       Some (Inr (source', s))"
proof -
  obtain s where s: "runStochasticSession sample_env still 1 (trial_session Mapping.empty) 0 (Inr s)"
    by (rule trial_returns)
  have "tcRunCount (tsConfig (trial_session Mapping.empty)) = 1"
    by (simp add: trial_session_def empty_runtime_session_def trial_config_def)
  with stochastic_runs_in_order [OF s trial_answers] s show ?thesis by auto
qed

text \<open>
  C16. The pool ends.  However the goroutines are scheduled, every one of their moves uses up one of
  finitely many, and a pool in which none of them can move, and nothing has panicked, has returned: its workers have
  exited, the producer has closed the channel, and the coordinator has decided.  Nobody waits for ever.
\<close>

theorem worker_pool_returns:
  assumes "pool_reaches (session_calls env sampler session) n (pool_start workerCount source session) p"
    and "0 < workerCount" "answers_from_path session"
  shows "(\<forall>q. pool_step (session_calls env sampler session) n p q \<longrightarrow> pool_moves n q < pool_moves n p) \<and>
    (\<not> plCrashed p \<and> (\<forall>q. \<not> pool_step (session_calls env sampler session) n p q) \<longrightarrow> pool_returned p \<and> plJobsClosed p)"
proof -
  obtain samples where inv: "pool_inv (session_calls env sampler session) n source session samples p"
    using pool_reaches_inv [OF assms(1) session_order_only assms(3)] by blast
  have "plWorkers p \<noteq> []"
    using pool_reaches_workers [OF assms(1)] assms(2) by (auto simp: pool_start_def)
  then show ?thesis
    using pool_stuck [OF inv] pool_step_moves by blast
qed

lemma worker_pool_returns_witness:
  "\<exists>p. pool_step (session_calls sample_env still (trial_session Mapping.empty)) 1 (pool_start 2 0 (trial_session Mapping.empty)) p \<and>
     (\<forall>q. pool_step (session_calls sample_env still (trial_session Mapping.empty)) 1 p q \<longrightarrow> pool_moves 1 q < pool_moves 1 p)"
proof -
  have draw: "pkDraw (session_calls sample_env still (trial_session Mapping.empty)) 0 = Some (Mapping.empty, 0)"
    by (simp add: session_calls_def trial_sample)
  note move = first_move [OF draw zero_less_one, of 2 "trial_session Mapping.empty"]
  note worker_pool_returns [OF pool_reaches.step [OF pool_reaches.start move] zero_less_numeral trial_answers]
  from conjunct1 [OF this] move show ?thesis by (intro exI conjI)
qed

text \<open>
  C17. The bands.  A session that returns publishes one row for each date of the deterministic projection, in
  its order, and where every net worth is a number the bands of a date are the percentiles of the rounded net
  worths of all the trials on that date, whatever the batches the values were merged in.
\<close>

theorem stochastic_bands:
  assumes run: "runStochasticSession env sampler workerCount session source (Inr s)"
    and session: "answers_from_path session" "fresh_session session" "0 < tcRunCount (tsConfig session)"
  shows "\<exists>paths result. trial_paths (session_calls env sampler session) source (nat (tcRunCount (tsConfig session))) = Some paths \<and>
    length paths = nat (tcRunCount (tsConfig session)) \<and> session_result s = Some (Inr result) \<and>
    map sbDate (sjBands result) = tsSortedDates session \<and>
    (number_paths paths \<longrightarrow> (\<forall>row\<in>set (sjBands result). ComputePercentiles (values_on (sbDate row) paths) = Some (sbNetWorth row)))"
proof -
  let ?k = "session_calls env sampler session" and ?n = "nat (tcRunCount (tsConfig session))"
  obtain source' where "sequential ?k ?n source session = Some (Inr (source', s))"
    using session_in_order [OF run session(1)] by blast
  from sequential_held [OF session(2) this] obtain paths where paths: "trial_paths ?k source ?n = Some paths"
    "length paths = ?n" "trials_held session paths s"
    by blast
  moreover have "paths \<noteq> []" "int (length paths) = tcRunCount (tsConfig session)"
    using paths(2) session(3) by auto
  ultimately show ?thesis
    using held_bands [OF paths(3)] by blast
qed

lemma stochastic_bands_witness:
  "\<exists>s result. runStochasticSession sample_env still 1 (trial_session Mapping.empty) 0 (Inr s) \<and>
     session_result s = Some (Inr result) \<and> map sbDate (sjBands result) = [''2024-01-31'']"
proof -
  obtain s where s: "runStochasticSession sample_env still 1 (trial_session Mapping.empty) 0 (Inr s)"
    by (rule trial_returns)
  have "0 < tcRunCount (tsConfig (trial_session Mapping.empty))" "tsSortedDates (trial_session Mapping.empty) = [''2024-01-31'']"
    by (simp_all add: trial_session_def empty_runtime_session_def trial_config_def)
  with stochastic_bands [OF s trial_answers trial_fresh] s show ?thesis by fastforce
qed

end
