(* ===== verification/FI_Rows.thy ===== *)
theory FI_Rows
  imports Evaluation_Runtime Sampling Funding
begin

text \<open>
  Financial independence: the rows and results of \<open>backend/internal/domain/evaluation_fi.go\<close>, the builders of
  \<open>evaluation_fi_result.go\<close> and the helpers of \<open>evaluation_json.go\<close>, \<open>evaluation_fi_bounds.go\<close>.  The branch
  simulation is \<open>FI_Branch\<close>.
\<close>

definition FIShortfallTolerance :: f64 where "FIShortfallTolerance = f64_of_rat (1 / 100)"

abbreviation fiEpsilon :: f64 where "fiEpsilon \<equiv> FIShortfallTolerance"

section \<open>Rows and outcomes\<close>

record FIAssetContribution =
  gcAccountID :: string
  gcBalance :: f64
  gcWithdrawalRate :: f64
  gcAnnualWithdrawalCapacity :: f64

record FIRow =
  frDate :: string
  frNetWorth :: f64
  frMinimumNetWorth :: f64
  frMinimumNetWorthMet :: bool
  frAnnualDirectIncome :: f64
  frAssetContributions :: "FIAssetContribution list"
  frSelectedAssetBalance :: f64
  frAnnualWithdrawalCapacity :: f64
  frTotalAnnualCapacity :: f64
  frAnnualExpenseTarget :: f64
  frCoverageRatio :: f64
  frIsCovered :: bool
  frIsEligible :: bool

record withdrawalAttempt =
  waDate :: string
  waAccountID :: "string option"
  waRequestedAmount :: f64
  waRealizedAmount :: f64
  waBindingConstraints :: "accountTransactionConstraint list"

record FIWithdrawalSummary =
  fwRequestedAmount :: f64
  fwRealizedAmount :: f64
  fwShortfallAmount :: f64
  fwFirstShortfallDate :: "string option"
  fwLastShortfallDate :: "string option"
  fwShortfallOccurrenceCount :: int
  fwConstraints :: "json list"
  fwRelatedAccountIDs :: "string list"
  fwAccounts :: "json list"
  fwFirstShortfall :: "json option"

text \<open>A summary leaves the balances, the withdrawals and the trajectory at their zero values.\<close>

record FIRunOutcome =
  foCandidateDate :: string
  foStatus :: string
  foSimulationAttempted :: bool
  foMinimumNetWorthMet :: bool
  foInitialCoverageMet :: bool
  foExpensesFullyCovered :: bool
  foHadWithdrawalShortfall :: bool
  foStartingSelectedAssetBalance :: f64
  foEndingSelectedAssetBalance :: f64
  foStartingRealSelectedAssetBalance :: f64
  foEndingRealSelectedAssetBalance :: f64
  foPrincipalReplenished :: bool
  foCycleEstablished :: bool
  foFirstShortfallDate :: "string option"
  foWithdrawals :: "FIWithdrawalSummary option"
  foBalanceTrajectory :: "json list"
  foIsEligible :: bool

record FIAnalysisResult =
  faRows :: "FIRow list"
  faRunOutcomes :: "FIRunOutcome list"
  faFirstCoverageDate :: "string option"
  faFirstSelfSustainingDate :: "string option"

section \<open>Shaping helpers\<close>

text \<open>\<open>uniqueSortedStrings\<close> keeps the first of equal values; it does not sort.\<close>

fun unique_strings :: "string set \<Rightarrow> string list \<Rightarrow> string list" where
  "unique_strings seen [] = []"
| "unique_strings seen (v # vs) = (if v \<in> seen then unique_strings seen vs else v # unique_strings (insert v seen) vs)"

definition uniqueSortedStrings :: "string list \<Rightarrow> string list" where
  "uniqueSortedStrings values = unique_strings {} values"

definition roundCents :: "f64 \<Rightarrow> f64" where
  "roundCents amount = fdiv (math_Round (amount * f64_of_int 100)) (f64_of_int 100)"

definition constraintsToJSON :: "(string \<times> int) list \<Rightarrow> json list" where
  "constraintsToJSON counts = map (\<lambda>(t, n). JObj [(''type'', JStr t), (''count'', JNum (f64_of_int n))]) counts"

definition medianValue :: "f64 list \<Rightarrow> f64" where
  "medianValue values =
     (if values = [] then 0
      else
        let sorted_values = Float64s values; middle = length sorted_values div 2
        in if even (length sorted_values)
           then fdiv (sorted_values ! (middle - 1) + sorted_values ! middle) (f64_of_int 2)
           else sorted_values ! middle)"

section \<open>Withdrawals\<close>

definition constraintAccountIDs :: "accountTransactionConstraint \<Rightarrow> string list" where
  "constraintAccountIDs c =
     (if kcType c = ''source-unavailable'' \<or> kcType c = ''source-floor'' then [kcAccountID c]
      else if kcType c = ''destination-ceiling'' then kcAccountIDs c else [])"

definition transactionUnfulfilled :: "f64 \<Rightarrow> f64 \<Rightarrow> f64" where
  "transactionUnfulfilled requested realized = math_Max 0 (requested - realized)"

definition failing :: "withdrawalAttempt \<Rightarrow> bool" where
  "failing attempt \<longleftrightarrow> fiEpsilon < transactionUnfulfilled (waRequestedAmount attempt) (waRealizedAmount attempt)"

definition within_tolerance :: "withdrawalAttempt \<Rightarrow> bool" where
  "within_tolerance attempt \<longleftrightarrow> transactionUnfulfilled (waRequestedAmount attempt) (waRealizedAmount attempt) \<le> fiEpsilon"

definition constraint_types :: "withdrawalAttempt list \<Rightarrow> string list" where
  "constraint_types attempts = concat (map (\<lambda>a. map kcType (waBindingConstraints a)) attempts)"

definition countConstraints :: "withdrawalAttempt list \<Rightarrow> (string \<times> int) list" where
  "countConstraints attempts =
     (let types = constraint_types attempts
      in map (\<lambda>t. (t, int (length (filter ((=) t) types)))) (sort_by (<) (unique_strings {} types)))"

definition requested_total :: "withdrawalAttempt list \<Rightarrow> f64" where
  "requested_total attempts = foldl (\<lambda>sum a. sum + waRequestedAmount a) 0 attempts"

definition realized_total :: "withdrawalAttempt list \<Rightarrow> f64" where
  "realized_total attempts = foldl (\<lambda>sum a. sum + waRealizedAmount a) 0 attempts"

definition shortfall_of :: "f64 \<Rightarrow> f64 \<Rightarrow> f64" where
  "shortfall_of requested realized = (if fiEpsilon < requested - realized then roundCents (requested - realized) else 0)"

text \<open>The dates of the failing attempts, in order; the map of the code is keyed by them.\<close>

definition shortfall_dates :: "withdrawalAttempt list \<Rightarrow> string list" where
  "shortfall_dates attempts =
     sort_by (\<lambda>a b. CompareIsoDates a b < 0) (unique_strings {} (map waDate (filter (\<lambda>a. \<not> within_tolerance a) attempts)))"

definition account_entry :: "withdrawalAttempt list \<Rightarrow> string \<Rightarrow> json" where
  "account_entry attempts accountID =
     (let accountAttempts = filter (\<lambda>a. waAccountID a = Some accountID) attempts;
          requested = roundCents (requested_total accountAttempts);
          realized = roundCents (realized_total accountAttempts)
      in JObj [(''accountId'', JStr accountID), (''requestedAmount'', JNum requested), (''realizedAmount'', JNum realized),
               (''shortfallAmount'', JNum (shortfall_of requested realized)),
               (''constraints'', JArr (constraintsToJSON (countConstraints (filter failing accountAttempts))))])"

definition related_accounts :: "withdrawalAttempt \<Rightarrow> string list" where
  "related_accounts a =
     (case waAccountID a of None \<Rightarrow> [] | Some i \<Rightarrow> [i]) @ concat (map constraintAccountIDs (waBindingConstraints a))"

definition related_first :: "withdrawalAttempt \<Rightarrow> string list" where
  "related_first a =
     concat (map constraintAccountIDs (waBindingConstraints a)) @ (case waAccountID a of None \<Rightarrow> [] | Some i \<Rightarrow> [i])"

definition first_shortfall :: "withdrawalAttempt list \<Rightarrow> string \<Rightarrow> json option" where
  "first_shortfall attempts date =
     (let firstAttempts = filter (\<lambda>a. waDate a = date) attempts;
          requested = roundCents (requested_total firstAttempts);
          realized = roundCents (realized_total firstAttempts)
      in if firstAttempts = [] then None
         else Some (JObj [(''date'', JStr date), (''requestedAmount'', JNum requested), (''realizedAmount'', JNum realized),
           (''shortfallAmount'', JNum (shortfall_of requested realized)),
           (''constraints'', JArr (map JStr (uniqueSortedStrings (unique_strings {} (constraint_types firstAttempts))))),
           (''relatedAccountIds'', JArr (map JStr (uniqueSortedStrings (concat (map related_first firstAttempts)))))]))"

definition summarizeWithdrawals :: "withdrawalAttempt list \<Rightarrow> FIWithdrawalSummary" where
  "summarizeWithdrawals attempts =
     (let requested = roundCents (requested_total attempts);
          realized = roundCents (realized_total attempts);
          dates = shortfall_dates attempts
      in \<lparr>fwRequestedAmount = requested, fwRealizedAmount = realized, fwShortfallAmount = shortfall_of requested realized,
          fwFirstShortfallDate = (if dates = [] then None else Some (hd dates)),
          fwLastShortfallDate = (if dates = [] then None else Some (last dates)),
          fwShortfallOccurrenceCount = int (length dates),
          fwConstraints = constraintsToJSON (countConstraints (filter failing attempts)),
          fwRelatedAccountIDs = uniqueSortedStrings (concat (map related_accounts attempts)),
          fwAccounts = map (account_entry attempts) (uniqueSortedStrings (List.map_filter waAccountID attempts)),
          fwFirstShortfall = (if dates = [] then None else first_shortfall attempts (hd dates))\<rparr>)"

section \<open>JSON\<close>

definition json_or_null :: "('a \<Rightarrow> json) \<Rightarrow> 'a option \<Rightarrow> json" where
  "json_or_null f v = (case v of None \<Rightarrow> JNull | Some a \<Rightarrow> f a)"

definition withdrawals_toJSON :: "FIWithdrawalSummary \<Rightarrow> json" where
  "withdrawals_toJSON s =
     JObj [(''requestedAmount'', JNum (fwRequestedAmount s)), (''realizedAmount'', JNum (fwRealizedAmount s)),
       (''shortfallAmount'', JNum (fwShortfallAmount s)), (''firstShortfallDate'', json_or_null JStr (fwFirstShortfallDate s)),
       (''lastShortfallDate'', json_or_null JStr (fwLastShortfallDate s)),
       (''shortfallOccurrenceCount'', JNum (f64_of_int (fwShortfallOccurrenceCount s))),
       (''constraints'', JArr (fwConstraints s)), (''relatedAccountIds'', JArr (map JStr (fwRelatedAccountIDs s))),
       (''accounts'', JArr (fwAccounts s)), (''firstShortfall'', json_or_null id (fwFirstShortfall s))]"

definition emptyWithdrawalsJSON :: json where "emptyWithdrawalsJSON = withdrawals_toJSON (summarizeWithdrawals [])"

definition outcome_toJSON :: "FIRunOutcome \<Rightarrow> json" where
  "outcome_toJSON r =
     JObj ([(''candidateDate'', JStr (foCandidateDate r)), (''status'', JStr (foStatus r)),
         (''minimumNetWorthMet'', JBool (foMinimumNetWorthMet r)), (''initialCoverageMet'', JBool (foInitialCoverageMet r)),
         (''cycleEstablished'', JBool (foCycleEstablished r))] @
       (if foStatus r = ''summary''
        then [(''simulationAttempted'', JBool (foSimulationAttempted r)),
              (''firstShortfallDate'', json_or_null JStr (foFirstShortfallDate r))]
        else [(''expensesFullyCovered'', JBool (foExpensesFullyCovered r)),
              (''hadWithdrawalShortfall'', JBool (foHadWithdrawalShortfall r)),
              (''startingSelectedAssetBalance'', JNum (foStartingSelectedAssetBalance r)),
              (''endingSelectedAssetBalance'', JNum (foEndingSelectedAssetBalance r)),
              (''startingRealSelectedAssetBalance'', JNum (foStartingRealSelectedAssetBalance r)),
              (''endingRealSelectedAssetBalance'', JNum (foEndingRealSelectedAssetBalance r)),
              (''principalReplenished'', JBool (foPrincipalReplenished r)),
              (''withdrawals'', (case foWithdrawals r of None \<Rightarrow> emptyWithdrawalsJSON | Some w \<Rightarrow> withdrawals_toJSON w)),
              (''balanceTrajectory'', JArr (foBalanceTrajectory r))]))"

definition contribution_toJSON :: "FIAssetContribution \<Rightarrow> json" where
  "contribution_toJSON c =
     JObj [(''accountId'', JStr (gcAccountID c)), (''balance'', JNum (gcBalance c)),
       (''withdrawalRate'', JNum (gcWithdrawalRate c)), (''annualWithdrawalCapacity'', JNum (gcAnnualWithdrawalCapacity c))]"

definition row_toJSON :: "FIRow \<Rightarrow> json" where
  "row_toJSON row =
     JObj [(''date'', JStr (frDate row)), (''netWorth'', JNum (frNetWorth row)),
       (''minimumNetWorth'', JNum (frMinimumNetWorth row)), (''minimumNetWorthMet'', JBool (frMinimumNetWorthMet row)),
       (''annualDirectIncome'', JNum (frAnnualDirectIncome row)),
       (''assetContributions'', JArr (map contribution_toJSON (frAssetContributions row))),
       (''selectedAssetBalance'', JNum (frSelectedAssetBalance row)),
       (''annualWithdrawalCapacity'', JNum (frAnnualWithdrawalCapacity row)),
       (''totalAnnualCapacity'', JNum (frTotalAnnualCapacity row)),
       (''annualExpenseTarget'', JNum (frAnnualExpenseTarget row)), (''coverageRatio'', JNum (frCoverageRatio row)),
       (''isCovered'', JBool (frIsCovered row)), (''isEligible'', JBool (frIsEligible row))]"

definition analysis_ToJSON :: "FIAnalysisResult \<Rightarrow> json" where
  "analysis_ToJSON r =
     JObj [(''rows'', JArr (map row_toJSON (faRows r))), (''runOutcomes'', JArr (map outcome_toJSON (faRunOutcomes r))),
       (''milestones'', JObj [(''firstCoverageDate'', json_or_null JStr (faFirstCoverageDate r)),
         (''firstSelfSustainingDate'', json_or_null JStr (faFirstSelfSustainingDate r))])]"

text \<open>The outcome to evaluate again in detail: the first success, or the last outcome that was not ineligible.\<close>

definition SelectFIOutcomeIndex :: "FIRunOutcome list \<Rightarrow> int" where
  "SelectFIOutcomeIndex outcomes =
     (let indexed = enumerate 0 outcomes
      in case find (\<lambda>(i, r). foCycleEstablished r) indexed of
           Some (i, r) \<Rightarrow> int i
         | None \<Rightarrow>
             (case find (\<lambda>(i, r). foStatus r \<noteq> ''ineligible'') (rev indexed) of
                Some (i, r) \<Rightarrow> int i
              | None \<Rightarrow> int (length outcomes) - 1))"

section \<open>Bounds\<close>

text \<open>What each year needs at least from the assets, month by month.\<close>

fun required_months ::
  "(string \<Rightarrow> f64 option) \<Rightarrow> f64 list \<Rightarrow> string \<Rightarrow> int \<Rightarrow> nat \<Rightarrow> f64 \<Rightarrow> f64 option" where
  "required_months expense directIncomeByMonth candidateDate month 0 required = Some required"
| "required_months expense directIncomeByMonth candidateDate month (Suc n) required =
     do {
       startDate \<leftarrow> AddMonthsClamped candidateDate month;
       let income = (if month < int (length directIncomeByMonth) then directIncomeByMonth ! nat month else 0);
       e \<leftarrow> expense startDate;
       required_months expense directIncomeByMonth candidateDate (month + 1) n
         (required + maxFloat 0 (fdiv e (f64_of_int 12) - income - FIShortfallTolerance))
     }"

definition MinimumAnnualWithdrawals ::
  "string \<Rightarrow> int \<Rightarrow> (string \<Rightarrow> f64 option) \<Rightarrow> f64 list \<Rightarrow> f64 list option" where
  "MinimumAnnualWithdrawals candidateDate evaluationYears expense directIncomeByMonth =
     those (map (\<lambda>year. required_months expense directIncomeByMonth candidateDate (int year * 12) 12 0)
       [0..<nat evaluationYears])"

definition HasInsufficientOptimisticWithdrawalCapacity :: "f64 list \<Rightarrow> f64 \<Rightarrow> f64 \<Rightarrow> bool" where
  "HasInsufficientOptimisticWithdrawalCapacity minimumWithdrawals firstYearCapacity laterYearCapacity \<longleftrightarrow>
     list_ex (\<lambda>(year, required). (if year = 0 then firstYearCapacity else laterYearCapacity) < required)
       (enumerate 0 minimumWithdrawals)"

end
