(* ===== verification/FI_Branch.thy ===== *)
theory FI_Branch
  imports FI_Rows Purchases
begin

text \<open>
  Financial independence: the evaluation of a candidate date of \<open>backend/internal/domain/evaluation_fi.go\<close>.
  A branch of the simulation runs month by month from the balances of the base path
  (\<open>RunReactiveBehavior\<close> of \<open>behavior.go\<close>): continuing transactions are replayed, spendable income is observed,
  and what is left of the expense is withdrawn from the selected assets.  The runtime of the branch is part
  of its state; the sets of identities are sets, and the dispositions a function with \<open>None\<close> where the map has no entry.
\<close>

section \<open>Candidate dates\<close>

text \<open>The loop ends when the evaluation no longer fits in the projection.\<close>

partial_function (option) month_candidates :: "string \<Rightarrow> string \<Rightarrow> int \<Rightarrow> int \<Rightarrow> string list option" where
  [code]: "month_candidates projectionStartDate projectionEndDate evaluationYears month =
     (case AddMonthsClamped projectionStartDate month of
        None \<Rightarrow> None
      | Some date \<Rightarrow>
          (case AddYearsClamped date evaluationYears of
             None \<Rightarrow> None
           | Some last_day \<Rightarrow>
               if projectionEndDate < last_day then Some []
               else do {
                 dates \<leftarrow> month_candidates projectionStartDate projectionEndDate evaluationYears (month + 1);
                 Some (date # dates)
               }))"

definition BuildFICandidateDates :: "string \<Rightarrow> string \<Rightarrow> int \<Rightarrow> string list option" where
  "BuildFICandidateDates projectionStartDate projectionEndDate evaluationYears =
     month_candidates projectionStartDate projectionEndDate evaluationYears 0"

section \<open>Sources\<close>

definition selectedAssetRates :: "FIPlan \<Rightarrow> f64 gomap" where
  "selectedAssetRates plan =
     fold (\<lambda>source rates.
         if fsType source \<noteq> ''asset'' \<or> \<not> fsIncluded source then rates
         else Mapping.update (fsAccountID source)
           (case fsWithdrawalRateOverride source of None \<Rightarrow> fpWithdrawalRate plan | Some rate \<Rightarrow> rate) rates)
       (fpSources plan) Mapping.empty"

definition selectedAssetRateOrder :: "FIPlan \<Rightarrow> f64 gomap \<Rightarrow> string list" where
  "selectedAssetRateOrder plan rates =
     unique_strings {} (filter (\<lambda>i. Mapping.lookup rates i \<noteq> None) (map fsAccountID (fpSources plan)))"

definition selectedCashflowIDs :: "FIPlan \<Rightarrow> string set" where
  "selectedCashflowIDs plan =
     fsTransactionID ` set (filter (\<lambda>s. fsType s = ''cashflow'' \<and> fsIncluded s) (fpSources plan))"

section \<open>Reading the base path\<close>

text \<open>The binary search; the rows are in the order of their dates.\<close>

function row_search ::
  "ProjectionRow list \<Rightarrow> string \<Rightarrow> int \<Rightarrow> int \<Rightarrow> ProjectionRow option \<Rightarrow> ProjectionRow option" where
  "row_search rows date low high found =
     (if low \<le> high
      then
        let middle = (low + high) div 2; row = rows ! nat middle
        in if rwDate row \<le> date then row_search rows date (middle + 1) high (Some row)
           else row_search rows date low (middle - 1) found
      else found)"
  by pat_completeness auto
termination
  by (relation "measure (\<lambda>(rows, date, low, high, found). nat (high - low + 1))") auto

declare row_search.simps [simp del]

definition latestRowAtOrBefore :: "ProjectionRow list \<Rightarrow> string \<Rightarrow> ProjectionRow option" where
  "latestRowAtOrBefore rows date = row_search rows date 0 (int (length rows) - 1) None"

definition expenseAt :: "(f64 \<Rightarrow> f64 \<Rightarrow> f64) \<Rightarrow> FIPlan \<Rightarrow> string \<Rightarrow> string \<Rightarrow> f64 option" where
  "expenseAt pow plan baselineDate date =
     map_option (\<lambda>days.
         let years = math_Max 0 (fdiv (f64_of_int days) (f64_of_rat (3652425 / 10000)))
         in fpAnnualExpenseTarget plan * pow (f64_of_int 1 + fpAnnualExpenseGrowthRate plan) years)
       (DaysBetween baselineDate date)"

definition expenseBaselineDate :: "FIPlan \<Rightarrow> string \<Rightarrow> string \<Rightarrow> string" where
  "expenseBaselineDate plan projectionStartDate candidateDate =
     (if fpAnnualExpenseTargetBasis plan = ExpenseBasisProjectionStart then projectionStartDate else candidateDate)"

fun cashflow_between :: "string set \<Rightarrow> string \<Rightarrow> string \<Rightarrow> TransactionEvent list \<Rightarrow> f64 \<Rightarrow> f64" where
  "cashflow_between cashflowIDs startDate endDate [] total_amount = total_amount"
| "cashflow_between cashflowIDs startDate endDate (event # events) total_amount =
     (if teDate event \<le> startDate then cashflow_between cashflowIDs startDate endDate events total_amount
      else if endDate < teDate event then total_amount
      else cashflow_between cashflowIDs startDate endDate events
        (if teTransactionID event \<in> cashflowIDs then total_amount + teRealizedAmount event else total_amount))"

definition realizedCashflowBetween :: "TransactionEvent list \<Rightarrow> string set \<Rightarrow> string \<Rightarrow> string \<Rightarrow> f64" where
  "realizedCashflowBetween events cashflowIDs startDate endDate =
     (if cashflowIDs = {} then 0 else cashflow_between cashflowIDs startDate endDate events 0)"

function month_of_event :: "string \<Rightarrow> int \<Rightarrow> string \<Rightarrow> int \<Rightarrow> int option" where
  "month_of_event candidateDate monthCount date month =
     (if month < monthCount
      then (case AddMonthsClamped candidateDate (month + 1) of
              None \<Rightarrow> None
            | Some monthEnd \<Rightarrow> if monthEnd < date then month_of_event candidateDate monthCount date (month + 1) else Some month)
      else Some month)"
  by pat_completeness auto
termination
  by (relation "measure (\<lambda>(candidateDate, monthCount, date, month). nat (monthCount - month))") auto

declare month_of_event.simps [simp del]

fun cashflow_months ::
  "string set \<Rightarrow> string \<Rightarrow> int \<Rightarrow> TransactionEvent list \<Rightarrow> int \<Rightarrow> f64 list \<Rightarrow> f64 list option" where
  "cashflow_months cashflowIDs candidateDate monthCount [] month amounts = Some amounts"
| "cashflow_months cashflowIDs candidateDate monthCount (event # events) month amounts =
     (if teDate event \<le> candidateDate then cashflow_months cashflowIDs candidateDate monthCount events month amounts
      else (case month_of_event candidateDate monthCount (teDate event) month of
              None \<Rightarrow> None
            | Some month \<Rightarrow>
                if monthCount \<le> month then Some amounts
                else cashflow_months cashflowIDs candidateDate monthCount events month
                  (if teTransactionID event \<in> cashflowIDs
                   then amounts[nat month := amounts ! nat month + teRealizedAmount event] else amounts)))"

definition realizedCashflowByMonth :: "TransactionEvent list \<Rightarrow> string set \<Rightarrow> string \<Rightarrow> int \<Rightarrow> f64 list option" where
  "realizedCashflowByMonth events cashflowIDs candidateDate monthCount =
     (let amounts = replicate (nat monthCount) 0
      in if cashflowIDs = {} then Some amounts else cashflow_months cashflowIDs candidateDate monthCount events 0 amounts)"

definition later_year_capacity :: "f64 \<Rightarrow> f64 \<Rightarrow> Account \<Rightarrow> f64" where
  "later_year_capacity balance rate account =
     (let upperBalance = math_Max balance (MaxBalanceValue account)
      in math_Min (math_Max 0 (upperBalance - MinBalanceValue account)) (math_Max 0 upperBalance * rate))"

definition optimisticLaterYearWithdrawalCapacity ::
  "f64 gomap \<Rightarrow> string list \<Rightarrow> f64 gomap \<Rightarrow> Account gomap \<Rightarrow> f64" where
  "optimisticLaterYearWithdrawalCapacity balances assetRateOrder assetRates accountsByID =
     foldl (\<lambda>capacity accountID.
         let rate = balance_of assetRates accountID
         in if feq rate 0 then capacity
            else (case Mapping.lookup accountsByID accountID of
                    None \<Rightarrow> capacity
                  | Some account \<Rightarrow> capacity + later_year_capacity (balance_of balances accountID) rate account))
       0 assetRateOrder"

section \<open>What a branch replays\<close>

datatype transactionDisposition = DispositionDisabled | DispositionObserveBasePath | DispositionReplayInBranch

definition classifyTransactionDispositions ::
  "ProjectionPath \<Rightarrow> string set \<Rightarrow> string set \<Rightarrow> string \<Rightarrow> transactionDisposition option" where
  "classifyTransactionDispositions path cashflowIDs continuingIDs i =
     (if i \<notin> TransactionIDs (phEffectiveModel path) then None
      else Some (if i \<in> cashflowIDs then DispositionObserveBasePath
                 else if i \<in> continuingIDs then DispositionReplayInBranch else DispositionDisabled))"

definition observe_event :: "TransactionEvent \<Rightarrow> SimulationState \<Rightarrow> SimulationState option" where
  "observe_event event state =
     (let i = teTransactionID event; byYear = go_index Mapping.empty (ssAmountsByYear state) i
      in if length (teDate event) < 4 then None
         else Some (state\<lparr>ssLatestAmounts := Mapping.update i (teRealizedAmount event) (ssLatestAmounts state),
           ssLatestDates := Mapping.update i (teDate event) (ssLatestDates state),
           ssAmountsByYear := Mapping.update i
             (Mapping.update (take 4 (teDate event))
               (balance_of byYear (take 4 (teDate event)) + math_Max 0 (teRealizedAmount event)) byYear) (ssAmountsByYear state)\<rparr>))"

fun observe_until :: "string \<Rightarrow> TransactionEvent list \<Rightarrow> SimulationState \<Rightarrow> SimulationState option" where
  "observe_until candidateDate [] state = Some state"
| "observe_until candidateDate (event # events) state =
     (if candidateDate < teDate event then Some state
      else (case observe_event event state of None \<Rightarrow> None | Some state \<Rightarrow> observe_until candidateDate events state))"

definition initializeBranchSimulationState ::
  "f64 gomap \<Rightarrow> TransactionEvent list \<Rightarrow> string \<Rightarrow> ProjectionPath \<Rightarrow> SimulationState option" where
  "initializeBranchSimulationState balances events candidateDate startState =
     observe_until candidateDate events
       (CloneSimulationState
         \<lparr>ssBalances = balances, ssLatestAmounts = pzLatestAmounts (phStartState startState),
          ssLatestDates = pzLatestDates (phStartState startState),
          ssAmountsByYear = pzAmountsByYear (phStartState startState)\<rparr>)"

type_synonym branchEventGroup = "string \<times> DatedTransactionOccurrence list"

definition base_key :: "string \<Rightarrow> string \<Rightarrow> string" where
  "base_key date i = date @ CHR '':'' # i"

definition apply_occurrence ::
  "(f64 \<Rightarrow> f64 \<Rightarrow> f64) \<Rightarrow> f64 gomap \<Rightarrow> (string \<Rightarrow> transactionDisposition option) \<Rightarrow> string \<Rightarrow>
   DatedTransactionOccurrence \<Rightarrow> f64 \<times> TransitionRuntime \<Rightarrow>
   ((string \<times> string \<times> execution_error) + f64 \<times> TransitionRuntime) option" where
  "apply_occurrence pow baseRealized dispositions date occurrence = (\<lambda>(income, t).
     let i = trID (ocTransaction occurrence)
     in case dispositions i of
          Some DispositionObserveBasePath \<Rightarrow>
            (let realized = balance_of baseRealized (base_key date i)
             in map_option (\<lambda>s. Inr (income + realized, t\<lparr>rtState := s\<rparr>)) (observeTransaction i realized date (rtState t)))
        | Some DispositionReplayInBranch \<Rightarrow>
            map_option (map_sum (\<lambda>e. (i, date, e)) (\<lambda>(_, t). (income, t))) (ExecuteTransaction pow t occurrence date False)
        | _ \<Rightarrow> Some (Inr (income, t)))"

fun apply_all ::
  "('o \<Rightarrow> 's \<Rightarrow> ('e + 's) option) \<Rightarrow> 'o list \<Rightarrow> 's \<Rightarrow> ('e + 's) option" where
  "apply_all f [] s = Some (Inr s)"
| "apply_all f (x # xs) s = and_then (f x s) (apply_all f xs)"

definition applyBranchTransactionEvents ::
  "(f64 \<Rightarrow> f64 \<Rightarrow> f64) \<Rightarrow> branchEventGroup list \<Rightarrow> f64 gomap \<Rightarrow> (string \<Rightarrow> transactionDisposition option) \<Rightarrow>
   TransitionRuntime \<Rightarrow> ((string \<times> string \<times> execution_error) + f64 \<times> TransitionRuntime) option" where
  "applyBranchTransactionEvents pow events baseRealized dispositions t =
     apply_all (\<lambda>(date, occurrences) s.
         apply_all (apply_occurrence pow baseRealized dispositions date) (sortOccurrences occurrences) s)
       events (0, t)"

record fiCycleShared =
  shAssetRates :: "f64 gomap"
  shAssetRateOrder :: "string list"
  shCashflowIDs :: "string set"
  shAccountsByID :: "Account gomap"
  shDispositions :: "string \<Rightarrow> transactionDisposition option"
  shBranchTransactions :: "Transaction list"
  shBranchRules :: "Schedule list"
  shBaseRealized :: "f64 gomap"

definition takes_part :: "(string \<Rightarrow> transactionDisposition option) \<Rightarrow> string \<Rightarrow> bool" where
  "takes_part dispositions i \<longleftrightarrow> dispositions i \<noteq> None \<and> dispositions i \<noteq> Some DispositionDisabled"

definition newFICycleShared :: "ProjectionPath \<Rightarrow> FIPlan \<Rightarrow> fiCycleShared" where
  "newFICycleShared path plan =
     (let assetRates = selectedAssetRates plan;
          cashflowIDs = selectedCashflowIDs plan;
          continuingIDs = set (filter (\<lambda>i. i \<notin> cashflowIDs) (fpContinuingTransactionIDs plan));
          dispositions = classifyTransactionDispositions path cashflowIDs continuingIDs;
          model = phEffectiveModel path
      in \<lparr>shAssetRates = assetRates, shAssetRateOrder = selectedAssetRateOrder plan assetRates,
          shCashflowIDs = cashflowIDs, shAccountsByID = accountIndex (fmAccounts model), shDispositions = dispositions,
          shBranchTransactions = filter (\<lambda>t. trEnabled t \<and> takes_part dispositions (trID t)) (fmTransactions model),
          shBranchRules = filter (\<lambda>r. scEnabled r \<and> takes_part dispositions (scID r)) (fmSchedules model),
          shBaseRealized = fold (\<lambda>e. Mapping.update (base_key (teDate e) (teTransactionID e)) (teRealizedAmount e))
            (phTransactionEvents path) Mapping.empty\<rparr>)"

end
