(* ===== verification/FI.thy ===== *)
theory FI
  imports FI_Branch Evaluations
begin

text \<open>
  Financial independence: one cycle from a candidate date, the analysis of all candidates, and the registered
  definition (\<open>backend/internal/domain/evaluation_fi.go\<close>, \<open>behavior.go\<close>).  The summary of a cycle stops at the first
  shortfall, and skips the simulation where the bounds of \<open>evaluation_fi_bounds.go\<close> call the candidate hopeless.
\<close>

section \<open>Reactive behaviors\<close>

record BehaviorPeriod =
  bhIndex :: int
  bhStartDate :: string
  bhEndDate :: string

fun run_behavior :: "('p \<Rightarrow> 's \<Rightarrow> 's option) \<Rightarrow> ('s \<Rightarrow> 'p \<Rightarrow> bool) \<Rightarrow> 'p list \<Rightarrow> 's \<Rightarrow> 's option" where
  "run_behavior advance shouldStop [] state = Some state"
| "run_behavior advance shouldStop (period # periods) state =
     (case advance period state of
        None \<Rightarrow> None
      | Some state \<Rightarrow> if shouldStop state period then Some state else run_behavior advance shouldStop periods state)"

definition RunReactiveBehavior ::
  "'p list \<Rightarrow> 's \<Rightarrow> ('p \<Rightarrow> 's \<Rightarrow> 's option) \<Rightarrow> ('s \<Rightarrow> 'p \<Rightarrow> bool) \<Rightarrow> ('s \<Rightarrow> 'r) \<Rightarrow> 'r option" where
  "RunReactiveBehavior periods initial_state advance shouldStop finish =
     map_option finish (run_behavior advance shouldStop periods initial_state)"

section \<open>The state of a branch\<close>

record branchState =
  bzRuntime :: TransitionRuntime
  bzHadWithdrawalShortfall :: bool
  bzFirstShortfallDate :: "string option"
  bzWithdrawalAttempts :: "withdrawalAttempt list"
  bzRemainingWithdrawalByAccount :: "f64 gomap"
  bzBalanceTrajectory :: "json list"
  bzError :: "(string \<times> string \<times> execution_error) option"

abbreviation bzBalances :: "branchState \<Rightarrow> f64 gomap" where
  "bzBalances s \<equiv> ssBalances (rtState (bzRuntime s))"

definition balanceTrajectoryRow :: "string list \<Rightarrow> f64 gomap \<Rightarrow> string \<Rightarrow> json" where
  "balanceTrajectoryRow selectedAccountIDs balances date =
     JObj [(''date'', JStr date),
       (''accounts'', JArr (map (\<lambda>i. JObj [(''accountId'', JStr i), (''balance'', JNum (balance_of balances i))]) selectedAccountIDs))]"

definition note_trajectory :: "bool \<Rightarrow> string list \<Rightarrow> string \<Rightarrow> branchState \<Rightarrow> branchState" where
  "note_trajectory capture selectedAccountIDs date s =
     (if capture
      then s\<lparr>bzBalanceTrajectory := bzBalanceTrajectory s @ [balanceTrajectoryRow selectedAccountIDs (bzBalances s) date]\<rparr>
      else s)"

definition start_year :: "fiCycleShared \<Rightarrow> branchState \<Rightarrow> branchState" where
  "start_year shared s =
     s\<lparr>bzRemainingWithdrawalByAccount :=
         fold (\<lambda>i. Mapping.update i (math_Max 0 (balance_of (bzBalances s) i) * balance_of (shAssetRates shared) i))
           (shAssetRateOrder shared) Mapping.empty\<rparr>"

section \<open>Withdrawing the expense of a month\<close>

definition recordWithdrawal ::
  "fiCycleShared \<Rightarrow> bool \<Rightarrow> string \<Rightarrow> string option \<Rightarrow> f64 \<Rightarrow> f64 \<Rightarrow> branchState \<times> f64 \<Rightarrow> branchState \<times> f64" where
  "recordWithdrawal shared summaryOnly date sourceAccountID requestedAmount limitRemaining = (\<lambda>(s, remainingExpense).
     let (transaction, t) = ExecuteGeneratedTransaction (bzRuntime s)
           \<lparr>actSourceAccountID = sourceAccountID, actDestinations = None, actRequestedAmount = requestedAmount,
            actLimitRemaining = Some limitRemaining\<rparr>;
         realized = resRealizedAmount (xtResult transaction);
         constraints = ClassifyTransactionConstraints
           \<lparr>kiSourceAccountID = sourceAccountID, kiDestinations = None, kiRequestedAmount = requestedAmount,
            kiRealizedAmount = realized, kiBalancesBefore = SnapshotBalances (bzBalances s),
            kiAccountsByID = shAccountsByID shared, kiLimitRemaining = Some limitRemaining\<rparr>;
         attempt = \<lparr>waDate = date, waAccountID = sourceAccountID, waRequestedAmount = requestedAmount,
            waRealizedAmount = realized, waBindingConstraints = constraints\<rparr>;
         attempts = (if summaryOnly then bzWithdrawalAttempts s else bzWithdrawalAttempts s @ [attempt]);
         remaining = bzRemainingWithdrawalByAccount s
     in (s\<lparr>bzRuntime := t, bzWithdrawalAttempts := attempts,
           bzRemainingWithdrawalByAccount :=
             (case sourceAccountID of
                None \<Rightarrow> remaining
              | Some i \<Rightarrow> Mapping.update i (math_Max 0 (balance_of remaining i - realized)) remaining)\<rparr>,
         remainingExpense - realized))"

text \<open>An account, what the plan still allows, and what the account can give.\<close>

type_synonym capacityEntry = "string \<times> f64 \<times> f64"

definition capacity_entry :: "fiCycleShared \<Rightarrow> branchState \<Rightarrow> string \<Rightarrow> capacityEntry" where
  "capacity_entry shared s i =
     (let accountLimit = GetWithdrawableAmount (bzBalances s) (shAccountsByID shared) i;
          actionLimit = math_Min (math_Max 0 (balance_of (bzBalances s) i)) (balance_of (bzRemainingWithdrawalByAccount s) i)
      in (i, actionLimit, math_Min accountLimit actionLimit))"

text \<open>The loop over the capacities; the last account takes what the shares left.\<close>

fun withdraw_shares ::
  "fiCycleShared \<Rightarrow> bool \<Rightarrow> string \<Rightarrow> f64 \<Rightarrow> f64 \<Rightarrow> nat \<Rightarrow> capacityEntry list \<Rightarrow> f64 \<Rightarrow> branchState \<times> f64 \<Rightarrow> branchState \<times> f64" where
  "withdraw_shares shared summaryOnly date requestedExpense totalCapacity n [] allocated acc = acc"
| "withdraw_shares shared summaryOnly date requestedExpense totalCapacity n ((i, actionLimit, capacity) # entries) allocated acc =
     (let requested =
            (if entries = [] then requestedExpense - allocated
             else if 0 < totalCapacity then requestedExpense * fdiv capacity totalCapacity
             else fdiv requestedExpense (f64_of_int (int n)))
      in withdraw_shares shared summaryOnly date requestedExpense totalCapacity n entries (allocated + requested)
           (recordWithdrawal shared summaryOnly date (Some i) requested actionLimit acc))"

definition withdraw_expense ::
  "fiCycleShared \<Rightarrow> bool \<Rightarrow> string \<Rightarrow> f64 \<Rightarrow> branchState \<Rightarrow> branchState \<times> f64" where
  "withdraw_expense shared summaryOnly date requestedExpense s =
     (let capacities = map (capacity_entry shared s) (shAssetRateOrder shared);
          totalCapacity = foldl (\<lambda>sum (i, actionLimit, capacity). sum + capacity) 0 capacities;
          acc = withdraw_shares shared summaryOnly date requestedExpense totalCapacity (length capacities) capacities 0
            (s, requestedExpense)
      in if capacities = [] \<and> fiEpsilon < requestedExpense
         then recordWithdrawal shared summaryOnly date None requestedExpense 0 acc
         else acc)"

definition note_shortfall :: "string \<Rightarrow> f64 \<Rightarrow> branchState \<Rightarrow> branchState" where
  "note_shortfall date remainingExpense s =
     (if fiEpsilon < remainingExpense
      then s\<lparr>bzHadWithdrawalShortfall := True,
             bzFirstShortfallDate := (case bzFirstShortfallDate s of None \<Rightarrow> Some date | Some d \<Rightarrow> Some d)\<rparr>
      else s)"

definition branch_advance ::
  "(f64 \<Rightarrow> f64 \<Rightarrow> f64) \<Rightarrow> FIPlan \<Rightarrow> fiCycleShared \<Rightarrow> string \<Rightarrow> bool \<Rightarrow> bool \<Rightarrow> branchEventGroup list list \<Rightarrow>
   BehaviorPeriod \<Rightarrow> branchState \<Rightarrow> branchState option" where
  "branch_advance pow plan shared expenseBaseline capture summaryOnly eventsByPeriod period s =
     (let s = (if bhIndex period mod 12 = 0 then start_year shared s else s)
      in case applyBranchTransactionEvents pow (eventsByPeriod ! nat (bhIndex period)) (shBaseRealized shared)
              (shDispositions shared) (bzRuntime s) of
           None \<Rightarrow> None
         | Some (Inl e) \<Rightarrow> Some (s\<lparr>bzError := Some e\<rparr>)
         | Some (Inr (directIncome, t)) \<Rightarrow>
             map_option (\<lambda>expense.
                 let (s, remainingExpense) =
                       withdraw_expense shared summaryOnly (bhStartDate period)
                         (maxFloat 0 (fdiv expense (f64_of_int 12) - directIncome)) (s\<lparr>bzRuntime := t\<rparr>)
                 in note_trajectory capture (shAssetRateOrder shared) (bhEndDate period)
                      (note_shortfall (bhStartDate period) remainingExpense s))
               (expenseAt pow plan expenseBaseline (bhStartDate period)))"

section \<open>One cycle\<close>

definition cycle_periods :: "string \<Rightarrow> int \<Rightarrow> BehaviorPeriod list option" where
  "cycle_periods candidateDate evaluationYears =
     those (map (\<lambda>i. do {
         startDate \<leftarrow> AddMonthsClamped candidateDate (int i);
         endDate \<leftarrow> AddMonthsClamped candidateDate (int i + 1);
         Some \<lparr>bhIndex = int i, bhStartDate = startDate, bhEndDate = endDate\<rparr>
       }) [0..<nat (evaluationYears * 12)])"

text \<open>The events of each period: the dates are visited in order, and the period only moves forward.\<close>

definition place_date ::
  "BehaviorPeriod list \<Rightarrow> DatedTransactionOccurrence list gomap \<Rightarrow> string \<Rightarrow> nat \<times> branchEventGroup list list \<Rightarrow>
   nat \<times> branchEventGroup list list" where
  "place_date periods eventDates date = (\<lambda>(periodIndex, groups).
     let i = periodIndex + length (takeWhile (\<lambda>p. bhEndDate p < date) (drop periodIndex periods))
     in (i, if i < length periods \<and> bhStartDate (periods ! i) < date
            then groups[i := groups ! i @ [(date, go_index [] eventDates date)]] else groups))"

definition events_by_period ::
  "BehaviorPeriod list \<Rightarrow> DatedTransactionOccurrence list gomap \<Rightarrow> branchEventGroup list list" where
  "events_by_period periods eventDates =
     snd (fold (place_date periods eventDates) (Mapping.ordered_keys eventDates) (0, replicate (length periods) []))"

definition selected_balance :: "string list \<Rightarrow> f64 gomap \<Rightarrow> f64" where
  "selected_balance ids balances = foldl (\<lambda>sum i. sum + math_Max 0 (balance_of balances i)) 0 ids"

definition principal_replenished :: "FIPlan \<Rightarrow> f64 \<Rightarrow> f64 \<Rightarrow> f64 \<Rightarrow> bool" where
  "principal_replenished plan start_balance end_balance end_real \<longleftrightarrow>
     fpPrincipalPolicy plan = PrincipalAllowDrawdown \<or>
     fpPrincipalPolicy plan = PrincipalPreserveNominal \<and> start_balance \<le> end_balance + fiEpsilon \<or>
     fpPrincipalPolicy plan = PrincipalPreserveReal \<and> start_balance \<le> end_real + fiEpsilon"

definition zero_outcome :: "string \<Rightarrow> string \<Rightarrow> FIRunOutcome" where
  "zero_outcome date status =
     \<lparr>foCandidateDate = date, foStatus = status, foSimulationAttempted = False, foMinimumNetWorthMet = False,
      foInitialCoverageMet = False, foExpensesFullyCovered = False, foHadWithdrawalShortfall = False,
      foStartingSelectedAssetBalance = 0, foEndingSelectedAssetBalance = 0, foStartingRealSelectedAssetBalance = 0,
      foEndingRealSelectedAssetBalance = 0, foPrincipalReplenished = False, foCycleEstablished = False,
      foFirstShortfallDate = None, foWithdrawals = None, foBalanceTrajectory = [], foIsEligible = False\<rparr>"

definition ineligible_outcome :: "FIRow \<Rightarrow> FIRunOutcome" where
  "ineligible_outcome candidate =
     (zero_outcome (frDate candidate) ''ineligible'')
       \<lparr>foMinimumNetWorthMet := frMinimumNetWorthMet candidate, foInitialCoverageMet := frIsCovered candidate,
        foStartingSelectedAssetBalance := frSelectedAssetBalance candidate,
        foEndingSelectedAssetBalance := frSelectedAssetBalance candidate,
        foStartingRealSelectedAssetBalance := frSelectedAssetBalance candidate,
        foEndingRealSelectedAssetBalance := frSelectedAssetBalance candidate,
        foWithdrawals := Some (summarizeWithdrawals [])\<rparr>"

definition hopeless_outcome :: "FIRow \<Rightarrow> FIRunOutcome" where
  "hopeless_outcome candidate =
     (zero_outcome (frDate candidate) ''summary'')
       \<lparr>foMinimumNetWorthMet := frMinimumNetWorthMet candidate, foInitialCoverageMet := frIsCovered candidate\<rparr>"

definition summary_outcome :: "FIRow \<Rightarrow> bool \<Rightarrow> string option \<Rightarrow> FIRunOutcome" where
  "summary_outcome candidate established shortfallDate =
     (zero_outcome (frDate candidate) ''summary'')
       \<lparr>foSimulationAttempted := True, foMinimumNetWorthMet := True, foInitialCoverageMet := True,
        foCycleEstablished := established, foFirstShortfallDate := shortfallDate\<rparr>"

definition branch_finish ::
  "(f64 \<Rightarrow> f64 \<Rightarrow> f64) \<Rightarrow> FIPlan \<Rightarrow> fiCycleShared \<Rightarrow> FIRow \<Rightarrow> f64 \<Rightarrow> bool \<Rightarrow> branchState \<Rightarrow> FIRunOutcome" where
  "branch_finish pow plan shared candidate start_balance summaryOnly s =
     (if summaryOnly \<and> bzHadWithdrawalShortfall s then summary_outcome candidate False (bzFirstShortfallDate s)
      else
        let end_balance = selected_balance (shAssetRateOrder shared) (bzBalances s);
            inflationFactor = pow (f64_of_int 1 + fpAnnualExpenseGrowthRate plan) (f64_of_int (fpEvaluationYears plan));
            end_real = fdiv end_balance inflationFactor;
            replenished = principal_replenished plan start_balance end_balance end_real;
            established = (frIsEligible candidate \<and> \<not> bzHadWithdrawalShortfall s \<and> replenished)
        in if summaryOnly then summary_outcome candidate established None
           else (zero_outcome (frDate candidate) (if frIsEligible candidate then ''evaluated'' else ''ineligible''))
             \<lparr>foMinimumNetWorthMet := frMinimumNetWorthMet candidate, foInitialCoverageMet := frIsCovered candidate,
              foExpensesFullyCovered := \<not> bzHadWithdrawalShortfall s, foHadWithdrawalShortfall := bzHadWithdrawalShortfall s,
              foStartingSelectedAssetBalance := start_balance, foEndingSelectedAssetBalance := end_balance,
              foStartingRealSelectedAssetBalance := start_balance, foEndingRealSelectedAssetBalance := end_real,
              foPrincipalReplenished := replenished, foCycleEstablished := established,
              foWithdrawals := Some (summarizeWithdrawals (bzWithdrawalAttempts s)),
              foBalanceTrajectory := bzBalanceTrajectory s\<rparr>)"

definition cycle_hopeless ::
  "(f64 \<Rightarrow> f64 \<Rightarrow> f64) \<Rightarrow> ProjectionPath \<Rightarrow> FIPlan \<Rightarrow> fiCycleShared \<Rightarrow> FIRow \<Rightarrow> f64 gomap \<Rightarrow> bool option" where
  "cycle_hopeless pow path plan shared candidate candidateBalances =
     do {
       incomes \<leftarrow> realizedCashflowByMonth (phTransactionEvents path) (shCashflowIDs shared) (frDate candidate)
         (fpEvaluationYears plan * 12);
       minimumWithdrawals \<leftarrow> MinimumAnnualWithdrawals (frDate candidate) (fpEvaluationYears plan)
         (expenseAt pow plan (expenseBaselineDate plan (phStartDate path) (frDate candidate))) incomes;
       Some (HasInsufficientOptimisticWithdrawalCapacity minimumWithdrawals (frAnnualWithdrawalCapacity candidate)
         (optimisticLaterYearWithdrawalCapacity candidateBalances (shAssetRateOrder shared) (shAssetRates shared)
           (shAccountsByID shared)))
     }"

definition branch_inputs :: "ProjectionPath \<Rightarrow> fiCycleShared \<Rightarrow> SimulationInputs" where
  "branch_inputs path shared =
     \<lparr>siAccounts = fmAccounts (phEffectiveModel path), siTransactions = shBranchTransactions shared,
      siSchedules = shBranchRules shared, siPaymentTerms = fmPaymentTerms (phEffectiveModel path), siPlannedPurchases = []\<rparr>"

definition branch_start ::
  "ProjectionPath \<Rightarrow> fiCycleShared \<Rightarrow> string \<Rightarrow> MonteCarloSample option \<Rightarrow> bool \<Rightarrow> SimulationState \<Rightarrow> branchState" where
  "branch_start path shared candidateDate sample capture state =
     note_trajectory capture (shAssetRateOrder shared) candidateDate
       \<lparr>bzRuntime = CreateTransitionRuntime (branch_inputs path shared) state (phStartDate path) sample,
        bzHadWithdrawalShortfall = False, bzFirstShortfallDate = None, bzWithdrawalAttempts = [],
        bzRemainingWithdrawalByAccount = Mapping.empty, bzBalanceTrajectory = [], bzError = None\<rparr>"

definition branch_stops :: "bool \<Rightarrow> branchState \<Rightarrow> BehaviorPeriod \<Rightarrow> bool" where
  "branch_stops summaryOnly s period \<longleftrightarrow> bzError s \<noteq> None \<or> summaryOnly \<and> bzHadWithdrawalShortfall s"

text \<open>The simulation of the branch: everything after the bounds.\<close>

definition simulate_cycle ::
  "(f64 \<Rightarrow> f64 \<Rightarrow> f64) \<Rightarrow> ProjectionPath \<Rightarrow> FIPlan \<Rightarrow> fiCycleShared \<Rightarrow> FIRow \<Rightarrow> MonteCarloSample option \<Rightarrow> bool \<Rightarrow> bool \<Rightarrow>
   f64 gomap \<Rightarrow> ((string \<times> string \<times> execution_error) + FIRunOutcome) option" where
  "simulate_cycle pow path plan shared candidate sample capture summaryOnly candidateBalances =
     do {
       let date = frDate candidate;
       let start_balance = selected_balance (shAssetRateOrder shared) candidateBalances;
       state \<leftarrow> initializeBranchSimulationState candidateBalances (phTransactionEvents path) date path;
       cycleEnd \<leftarrow> AddYearsClamped date (fpEvaluationYears plan);
       resolved \<leftarrow> ResolveOccurrences (shBranchRules shared) (shBranchTransactions shared) date cycleEnd False;
       periods \<leftarrow> cycle_periods date (fpEvaluationYears plan);
       (e, outcome) \<leftarrow> RunReactiveBehavior periods (branch_start path shared date sample capture state)
         (branch_advance pow plan shared (expenseBaselineDate plan (phStartDate path) date) capture summaryOnly
           (events_by_period periods (roByDate resolved)))
         (branch_stops summaryOnly) (\<lambda>s. (bzError s, branch_finish pow plan shared candidate start_balance summaryOnly s));
       Some (case e of Some e \<Rightarrow> Inl e | None \<Rightarrow> Inr (outcome\<lparr>foIsEligible := frIsEligible candidate\<rparr>))
     }"

definition evaluateCycleWithShared ::
  "(f64 \<Rightarrow> f64 \<Rightarrow> f64) \<Rightarrow> ProjectionPath \<Rightarrow> FIPlan \<Rightarrow> fiCycleShared \<Rightarrow> FIRow \<Rightarrow> MonteCarloSample option \<Rightarrow> bool \<Rightarrow> bool \<Rightarrow>
   ((string \<times> string \<times> execution_error) + FIRunOutcome) option" where
  "evaluateCycleWithShared pow path plan shared candidate sample capture summaryOnly =
     (if \<not> frIsEligible candidate \<and> \<not> capture then Some (Inr (ineligible_outcome candidate))
      else
        let candidateBalances = balancesAt (latestRowAtOrBefore (phRows path) (frDate candidate)) (fmAccounts (phEffectiveModel path));
            simulated = simulate_cycle pow path plan shared candidate sample capture summaryOnly candidateBalances
        in if summaryOnly
           then (case cycle_hopeless pow path plan shared candidate candidateBalances of
                   None \<Rightarrow> None
                 | Some hopeless \<Rightarrow> if hopeless then Some (Inr (hopeless_outcome candidate)) else simulated)
           else simulated)"

definition evaluateCycle ::
  "(f64 \<Rightarrow> f64 \<Rightarrow> f64) \<Rightarrow> ProjectionPath \<Rightarrow> FIPlan \<Rightarrow> FIRow \<Rightarrow> MonteCarloSample option \<Rightarrow> bool \<Rightarrow> bool \<Rightarrow>
   ((string \<times> string \<times> execution_error) + FIRunOutcome) option" where
  "evaluateCycle pow path plan = evaluateCycleWithShared pow path plan (newFICycleShared path plan)"

section \<open>The analysis\<close>

definition fi_contribution :: "f64 gomap \<Rightarrow> f64 gomap \<Rightarrow> string \<Rightarrow> FIAssetContribution" where
  "fi_contribution rates balances i =
     (let rate = balance_of rates i; balance = math_Max 0 (balance_of balances i)
      in \<lparr>gcAccountID = i, gcBalance = balance, gcWithdrawalRate = rate, gcAnnualWithdrawalCapacity = balance * rate\<rparr>)"

definition fi_row :: "(f64 \<Rightarrow> f64 \<Rightarrow> f64) \<Rightarrow> ProjectionPath \<Rightarrow> FIPlan \<Rightarrow> string \<Rightarrow> FIRow option" where
  "fi_row pow path plan date =
     do {
       let rates = selectedAssetRates plan;
       let row = latestRowAtOrBefore (phRows path) date;
       yearEnd \<leftarrow> AddYearsClamped date 1;
       let income = realizedCashflowBetween (phTransactionEvents path) (selectedCashflowIDs plan) date yearEnd;
       let contributions = map (fi_contribution rates (balancesAt row (fmAccounts (phEffectiveModel path))))
             (selectedAssetRateOrder plan rates);
       let assets = foldl (\<lambda>sum c. sum + gcBalance c) 0 contributions;
       let capacity = foldl (\<lambda>sum c. sum + gcAnnualWithdrawalCapacity c) 0 contributions;
       expense \<leftarrow> expenseAt pow plan (expenseBaselineDate plan (phStartDate path) date) date;
       let all_capacity = income + capacity;
       let coverage = (if 0 < expense then fdiv all_capacity expense else 0);
       let netWorth = (case row of None \<Rightarrow> 0 | Some r \<Rightarrow> rwNetWorth r);
       let minimumMet = fpMinimumNetWorth plan \<le> netWorth;
       let covered = (0 < expense \<and> f64_of_int 1 \<le> coverage);
       Some \<lparr>frDate = date, frNetWorth = netWorth, frMinimumNetWorth = fpMinimumNetWorth plan,
             frMinimumNetWorthMet = minimumMet, frAnnualDirectIncome = income, frAssetContributions = contributions,
             frSelectedAssetBalance = assets, frAnnualWithdrawalCapacity = capacity, frTotalAnnualCapacity = all_capacity,
             frAnnualExpenseTarget = expense, frCoverageRatio = coverage, frIsCovered = covered,
             frIsEligible = (minimumMet \<and> covered)\<rparr>
     }"

text \<open>The requested dates whose evaluation fits in the projection, once each, in order.\<close>

fun fitting_dates :: "string \<Rightarrow> string \<Rightarrow> int \<Rightarrow> string list \<Rightarrow> string list option" where
  "fitting_dates projectionStart projectionEnd evaluationYears [] = Some []"
| "fitting_dates projectionStart projectionEnd evaluationYears (date # dates) =
     (if date < projectionStart then fitting_dates projectionStart projectionEnd evaluationYears dates
      else do {
        last_day \<leftarrow> AddYearsClamped date evaluationYears;
        rest \<leftarrow> fitting_dates projectionStart projectionEnd evaluationYears dates;
        Some (if last_day \<le> projectionEnd then date # rest else rest)
      })"

fun summary_outcomes :: "('c \<Rightarrow> ('e + FIRunOutcome) option) \<Rightarrow> 'c list \<Rightarrow> ('e + FIRunOutcome list) option" where
  "summary_outcomes f [] = Some (Inr [])"
| "summary_outcomes f (candidate # candidates) =
     and_then (f candidate) (\<lambda>outcome.
       if foCycleEstablished outcome then Some (Inr [outcome])
       else map_option (map_sum id ((#) outcome)) (summary_outcomes f candidates))"

definition cycle_text :: "string \<Rightarrow> string \<times> string \<times> execution_error \<Rightarrow> diagnostic_message" where
  "cycle_text cycle_kind = (\<lambda>(i, date, e). CycleText cycle_kind i date e)"

definition detailed_outcomes ::
  "(FIRow \<Rightarrow> ((string \<times> string \<times> execution_error) + FIRunOutcome) option) \<Rightarrow> FIRow list \<Rightarrow> FIRunOutcome list \<Rightarrow>
   (diagnostic_message + FIRunOutcome list) option" where
  "detailed_outcomes f rows outcomes =
     (let selectedIndex = SelectFIOutcomeIndex outcomes
      in if 0 \<le> selectedIndex \<and> selectedIndex < int (length rows)
         then map_option (map_sum (cycle_text ''detailed'') (\<lambda>outcome. outcomes[nat selectedIndex := outcome]))
                (f (rows ! nat selectedIndex))
         else Some (Inr outcomes))"

definition EvaluateFinancialIndependence ::
  "(f64 \<Rightarrow> f64 \<Rightarrow> f64) \<Rightarrow> ProjectionPath \<Rightarrow> FIPlan \<Rightarrow> MonteCarloSample option \<Rightarrow> string list option \<Rightarrow> string \<Rightarrow>
   (diagnostic_message + FIAnalysisResult) option" where
  "EvaluateFinancialIndependence pow path plan sample candidateDates detailLevel =
     (case do {
         requested \<leftarrow> (case candidateDates of
             None \<Rightarrow> BuildFICandidateDates (phStartDate path) (phEndDate path) (fpEvaluationYears plan)
           | Some dates \<Rightarrow> Some dates);
         dates \<leftarrow> fitting_dates (phStartDate path) (phEndDate path) (fpEvaluationYears plan) (unique_strings {} requested);
         those (map (fi_row pow path plan) (sort_by (\<lambda>a b. CompareIsoDates a b < 0) dates))
       } of
        None \<Rightarrow> None
      | Some rows \<Rightarrow>
          let shared = newFICycleShared path plan
          in and_then (map_option (map_sum (cycle_text ''summary'') id)
                 (summary_outcomes (\<lambda>c. evaluateCycleWithShared pow path plan shared c sample False True) rows)) (\<lambda>outcomes.
             and_then (if detailLevel = ''summary'' then Some (Inr outcomes)
                 else detailed_outcomes (\<lambda>c. evaluateCycleWithShared pow path plan shared c sample (sample = None) False) rows outcomes)
               (\<lambda>outcomes. Some (Inr
                 \<lparr>faRows = rows, faRunOutcomes = outcomes,
                  faFirstCoverageDate = map_option frDate (find frIsCovered rows),
                  faFirstSelfSustainingDate = map_option foCandidateDate (find foCycleEstablished outcomes)\<rparr>))))"

definition AvailableFIPlan :: "ProjectionPath \<Rightarrow> FIPlan \<Rightarrow> FIPlan" where
  "AvailableFIPlan path config =
     (let accountIDs = set (map acID (fmAccounts (phEffectiveModel path)));
          transactionIDs = TransactionIDs (phEffectiveModel path)
      in config\<lparr>fpSources := filter (\<lambda>s. if fsType s = ''asset'' then fsAccountID s \<in> accountIDs
                   else fsTransactionID s \<in> transactionIDs) (fpSources config),
                fpContinuingTransactionIDs := filter (\<lambda>i. i \<in> transactionIDs) (fpContinuingTransactionIDs config)\<rparr>)"

section \<open>Over the trials\<close>

record fiAccumulator =
  fuCandidateDates :: "string list"
  fuCoverageRatios :: "f64 list list"
  fuCycleSuccessCounts :: "int list"
  fuRequiredConfidence :: f64
  fuSuccessfulRunCount :: int
  fuCheckedCandidateCount :: int
  fuEvaluatedCycleCount :: int
  fuRunCount :: int

definition fi_CreateAccumulator :: "FIPlan \<Rightarrow> FIAnalysisResult \<Rightarrow> fiAccumulator" where
  "fi_CreateAccumulator plan analysis =
     \<lparr>fuCandidateDates = map frDate (faRows analysis), fuCoverageRatios = map (\<lambda>_. []) (faRows analysis),
      fuCycleSuccessCounts = map (\<lambda>_. 0) (faRows analysis), fuRequiredConfidence = fpRequiredConfidence plan,
      fuSuccessfulRunCount = 0, fuCheckedCandidateCount = 0, fuEvaluatedCycleCount = 0, fuRunCount = 0\<rparr>"

definition cycle_simulated :: "FIRunOutcome \<Rightarrow> bool" where
  "cycle_simulated r \<longleftrightarrow> foStatus r = ''evaluated'' \<or> foStatus r = ''summary'' \<and> foSimulationAttempted r"

fun first_index :: "('a \<Rightarrow> bool) \<Rightarrow> 'a list \<Rightarrow> nat option" where
  "first_index P [] = None"
| "first_index P (x # xs) = (if P x then Some 0 else map_option Suc (first_index P xs))"

definition fi_Accumulate :: "fiAccumulator \<Rightarrow> FIAnalysisResult \<Rightarrow> diagnostic_message + fiAccumulator" where
  "fi_Accumulate a analysis =
     (let outcomes = faRunOutcomes analysis;
          success = first_index foCycleEstablished outcomes
      in if length (faRows analysis) \<noteq> length (fuCandidateDates a)
         then Inl (DiagnosticText (Text ''FI evaluation returned an inconsistent candidate count.''))
         else if map frDate (faRows analysis) \<noteq> fuCandidateDates a
         then Inl (DiagnosticText (Text ''FI evaluation returned an inconsistent candidate schedule.''))
         else Inr (a\<lparr>
           fuCoverageRatios := map2 (\<lambda>ratios row. ratios @ [frCoverageRatio row]) (fuCoverageRatios a) (faRows analysis),
           fuCheckedCandidateCount := fuCheckedCandidateCount a + int (length outcomes),
           fuEvaluatedCycleCount := fuEvaluatedCycleCount a + int (length (filter cycle_simulated outcomes)),
           fuCycleSuccessCounts :=
             (case success of None \<Rightarrow> fuCycleSuccessCounts a
              | Some i \<Rightarrow> take i (fuCycleSuccessCounts a) @ map ((+) 1) (drop i (fuCycleSuccessCounts a))),
           fuSuccessfulRunCount := (if success = None then fuSuccessfulRunCount a else fuSuccessfulRunCount a + 1),
           fuRunCount := fuRunCount a + 1\<rparr>))"

definition success_probability :: "fiAccumulator \<Rightarrow> nat \<Rightarrow> f64" where
  "success_probability a i = run_share (fuCycleSuccessCounts a ! i) (fuRunCount a)"

definition fi_Finalize :: "fiAccumulator \<Rightarrow> json" where
  "fi_Finalize a =
     (let indices = [0..<length (fuCandidateDates a)];
          median_index = find (\<lambda>i. f64_of_int 1 \<le> medianValue (fuCoverageRatios a ! i)) indices;
          sustaining = find (\<lambda>i. fuRequiredConfidence a \<le> success_probability a i) indices
      in JObj [(''fiCycleSuccessProbability'', JNum (run_share (fuSuccessfulRunCount a) (fuRunCount a))),
               (''medianCoverageDate'', json_or_null (\<lambda>i. JStr (fuCandidateDates a ! i)) median_index),
               (''selfSustainingDate'', json_or_null (\<lambda>i. JStr (fuCandidateDates a ! i)) sustaining),
               (''selfSustainingProbability'', json_or_null (\<lambda>i. JNum (success_probability a i)) sustaining)])"

section \<open>The registered definition\<close>

definition fi_workload :: "ProjectionPath \<Rightarrow> FIPlan \<Rightarrow> EvaluationWorkloadPlan option" where
  "fi_workload path plan =
     map_option (\<lambda>dates.
         \<lparr>wpUnitsPerRun = int (length dates), wpUnitLabel = ''monthly start dates'', wpUnitAction = ''checked'',
          wpIntensiveUnitLabel = ''candidate sustainability cycles'', wpIntensiveUnitAction = ''attempted'',
          wpDescription =
            (if dates = []
             then ''No complete '' @ sprintf_0d 1 (fpEvaluationYears plan) @ ''-year FI test fits in this projection horizon.''
             else '''')\<rparr>)
       (BuildFICandidateDates (phStartDate path) (phEndDate path) (fpEvaluationYears plan))"

definition fi_diagnostics :: "ProjectionPath \<Rightarrow> FIPlan \<Rightarrow> EvaluationDiagnostic list" where
  "fi_diagnostics path plan =
     (let accountIDs = set (map acID (fmAccounts (phEffectiveModel path)));
          transactionIDs = TransactionIDs (phEffectiveModel path);
          asset = (\<lambda>s. fsType s = ''asset'');
          missing = (\<lambda>s. if asset s then fsAccountID s \<notin> accountIDs else fsTransactionID s \<notin> transactionIDs)
      in map (\<lambda>s. related_diagnostic ''missing-financial-independence-source''
             ''An enabled FI source is unavailable and was ignored.''
             (if asset s then [fsAccountID s] else []) (if asset s then [] else [fsTransactionID s]))
           (filter (\<lambda>s. fsIncluded s \<and> missing s) (fpSources plan)))"

definition fi_status :: "FIAnalysisResult option \<Rightarrow> json \<Rightarrow> EvaluationResultStatus" where
  "fi_status deterministic probabilistic =
     (if probabilistic \<noteq> JNull
      then verdict (case probabilistic of
          JObj obj \<Rightarrow> map_of obj ''selfSustainingDate'' \<noteq> None \<and> map_of obj ''selfSustainingDate'' \<noteq> Some JNull
        | _ \<Rightarrow> False)
      else deterministic_verdict (\<lambda>analysis. faFirstSelfSustainingDate analysis \<noteq> None) deterministic)"

definition financialIndependenceDefinition ::
  "(f64 \<Rightarrow> int) \<Rightarrow> (FIPlan, FIAnalysisResult, fiAccumulator) EvaluationDefinition" where
  "financialIndependenceDefinition overflow =
     \<lparr>edType = ''financialIndependence'', edName = ''Financial independence'', edKind = EvaluationKindSimulator,
      edAllowSimulation = True, edParseConfig = ParseFIPlan overflow,
      edEvaluatePath = (\<lambda>env ctx plan.
        EvaluateFinancialIndependence (envPow env) (exPath ctx) (AvailableFIPlan (exPath ctx) plan) (exMonteCarloSample ctx)
          None (exDetailLevel ctx)),
      edToJSON = analysis_ToJSON,
      edCreateAccumulator = (\<lambda>plan analysis. Inr (fi_CreateAccumulator plan analysis)),
      edAccumulate = fi_Accumulate, edFinalize = (\<lambda>a ctx. Inr (fi_Finalize a)), edStatus = fi_status,
      edDescribeStochasticWork = Some (\<lambda>ctx plan. fi_workload (exPath ctx) plan),
      edMeasureStochasticWork = Some (\<lambda>a.
        \<lparr>wmUnitsCompleted = fuCheckedCandidateCount a, wmIntensiveUnitsCompleted = fuEvaluatedCycleCount a\<rparr>),
      edDiagnoseConfig = Some (\<lambda>ctx plan. fi_diagnostics (exPath ctx) plan)\<rparr>"

end
