(* ===== verification/FI_Laws.thy ===== *)
theory FI_Laws
  imports FI
begin

text \<open>
  What the optimisations of the analysis rely on: the binary search finds the latest row, and a summary of a cycle,
  which records no withdrawals and stops at the first shortfall, decides what the full simulation decides.
\<close>

section \<open>The binary search\<close>

lemma row_search_latest:
  assumes split: "\<And>i. i < length rows \<Longrightarrow> rwDate (rows ! i) \<le> date \<longleftrightarrow> i < n"
  shows "0 \<le> low \<Longrightarrow> low \<le> int n \<Longrightarrow> int n \<le> high + 1 \<Longrightarrow> high < int (length rows) \<Longrightarrow>
    found = (if low = 0 then None else Some (rows ! nat (low - 1))) \<Longrightarrow>
    row_search rows date low high found = (if n = 0 then None else Some (rows ! (n - 1)))"
  using split
proof (induction rows date low high found rule: row_search.induct)
  case (1 rows date low high found)
  show ?case
  proof (cases "low \<le> high")
    case False
    then have "low = int n" using 1 by linarith
    then have "nat (low - 1) = n - 1" "low = 0 \<longleftrightarrow> n = 0" by auto
    then show ?thesis using "1.prems"(5) False by (simp add: row_search.simps [of rows])
  next
    case True
    define middle where "middle = (low + high) div 2"
    have m: "low \<le> middle" "middle \<le> high" "0 \<le> middle"
      using True 1(3) by (auto simp: middle_def)
    then have here: "rwDate (rows ! nat middle) \<le> date \<longleftrightarrow> middle < int n"
      using "1.prems"(6) [of "nat middle"] "1.prems"(4) by (simp add: nat_less_iff)
    note step = row_search.simps [of rows date low high found, unfolded Let_def, folded middle_def]
    show ?thesis
    proof (cases "middle < int n")
      case less: True
      then have "row_search rows date (middle + 1) high (Some (rows ! nat middle)) = (if n = 0 then None else Some (rows ! (n - 1)))"
        using m here "1.prems" True
        by (intro "1.IH"(1) [OF True refl refl, folded middle_def]) auto
      then show ?thesis using True less here by (simp add: step)
    next
      case more: False
      then have "row_search rows date low (middle - 1) found = (if n = 0 then None else Some (rows ! (n - 1)))"
        using m here "1.prems" True
        by (intro "1.IH"(2) [OF True refl refl, folded middle_def]) auto
      then show ?thesis using True more here by (simp add: step)
    qed
  qed
qed

lemma takeWhile_sorted_iff:
  assumes "sorted (map f xs)" "i < length xs"
  shows "f (xs ! i) \<le> d \<longleftrightarrow> i < length (takeWhile (\<lambda>x. f x \<le> d) xs)"
proof
  assume "i < length (takeWhile (\<lambda>x. f x \<le> d) xs)"
  then show "f (xs ! i) \<le> d"
    using set_takeWhileD [of "xs ! i" "\<lambda>x. f x \<le> d" xs] nth_mem [of i "takeWhile (\<lambda>x. f x \<le> d) xs"] takeWhile_nth by metis
next
  assume le: "f (xs ! i) \<le> d"
  show "i < length (takeWhile (\<lambda>x. f x \<le> d) xs)"
  proof (rule ccontr)
    let ?n = "length (takeWhile (\<lambda>x. f x \<le> d) xs)"
    assume "\<not> i < ?n"
    then have n: "?n \<le> i" by simp
    then have "\<not> f (xs ! ?n) \<le> d"
      using nth_length_takeWhile [of "\<lambda>x. f x \<le> d" xs] assms(2) by simp
    moreover have "f (xs ! ?n) \<le> f (xs ! i)"
      using sorted_nth_mono [OF assms(1) n] assms(2) n by simp
    ultimately show False using le by (meson order_trans)
  qed
qed

lemma latestRowAtOrBefore_takeWhile:
  assumes "sorted (map rwDate rows)"
  shows "latestRowAtOrBefore rows date =
    (let early = takeWhile (\<lambda>r. rwDate r \<le> date) rows in if early = [] then None else Some (last early))"
proof -
  let ?early = "takeWhile (\<lambda>r. rwDate r \<le> date) rows"
  have "latestRowAtOrBefore rows date = (if length ?early = 0 then None else Some (rows ! (length ?early - 1)))"
    unfolding latestRowAtOrBefore_def
    by (rule row_search_latest) (use takeWhile_sorted_iff [OF assms] length_takeWhile_le [of "\<lambda>r. rwDate r \<le> date" rows] in auto)
  moreover have "rows ! (length ?early - 1) = last ?early" if "?early \<noteq> []"
    using that by (simp add: last_conv_nth takeWhile_nth)
  ultimately show ?thesis by simp
qed

section \<open>Summary and detail of a cycle\<close>

text \<open>What a detailed run records beside the simulation.\<close>

definition erase :: "branchState \<Rightarrow> branchState" where
  "erase s = s\<lparr>bzWithdrawalAttempts := [], bzBalanceTrajectory := []\<rparr>"

lemma erase_fields [simp]:
  "bzRuntime (erase s) = bzRuntime s" "bzHadWithdrawalShortfall (erase s) = bzHadWithdrawalShortfall s"
  "bzFirstShortfallDate (erase s) = bzFirstShortfallDate s" "bzError (erase s) = bzError s"
  "bzRemainingWithdrawalByAccount (erase s) = bzRemainingWithdrawalByAccount s"
  by (simp_all add: erase_def)

lemma erase_eqD:
  assumes "erase s = erase t"
  shows "bzRuntime s = bzRuntime t" "bzHadWithdrawalShortfall s = bzHadWithdrawalShortfall t"
    "bzFirstShortfallDate s = bzFirstShortfallDate t" "bzError s = bzError t"
    "bzRemainingWithdrawalByAccount s = bzRemainingWithdrawalByAccount t"
  using assms erase_fields by metis+

lemma erase_eqI:
  "bzRuntime s = bzRuntime t \<Longrightarrow> bzHadWithdrawalShortfall s = bzHadWithdrawalShortfall t \<Longrightarrow>
   bzFirstShortfallDate s = bzFirstShortfallDate t \<Longrightarrow> bzError s = bzError t \<Longrightarrow>
   bzRemainingWithdrawalByAccount s = bzRemainingWithdrawalByAccount t \<Longrightarrow> erase s = erase t"
  by (cases s; cases t) (simp add: erase_def)

lemma recordWithdrawal_erase:
  assumes "erase (fst acc) = erase (fst acc')" "snd acc = snd acc'"
  shows "erase (fst (recordWithdrawal shared so date i r l acc)) = erase (fst (recordWithdrawal shared so' date i r l acc'))"
    "snd (recordWithdrawal shared so date i r l acc) = snd (recordWithdrawal shared so' date i r l acc')"
  using erase_eqD [OF assms(1)] assms(2)
  by (auto simp: recordWithdrawal_def Let_def split: prod.split option.split intro!: erase_eqI)

lemma recordWithdrawal_keeps:
  "bzHadWithdrawalShortfall (fst (recordWithdrawal shared so date i r l acc)) = bzHadWithdrawalShortfall (fst acc)"
  "bzFirstShortfallDate (fst (recordWithdrawal shared so date i r l acc)) = bzFirstShortfallDate (fst acc)"
  "bzError (fst (recordWithdrawal shared so date i r l acc)) = bzError (fst acc)"
  by (simp_all add: recordWithdrawal_def Let_def split: prod.splits)

lemma withdraw_shares_erase:
  assumes "erase (fst acc) = erase (fst acc')" "snd acc = snd acc'"
  shows "erase (fst (withdraw_shares shared so date e c n entries allocated acc)) =
      erase (fst (withdraw_shares shared so' date e c n entries allocated acc')) \<and>
    snd (withdraw_shares shared so date e c n entries allocated acc) = snd (withdraw_shares shared so' date e c n entries allocated acc')"
  using assms
proof (induction entries arbitrary: allocated acc acc')
  case (Cons entry entries)
  obtain i limit capacity where entry: "entry = (i, limit, capacity)" by (cases entry)
  show ?case
    unfolding entry withdraw_shares.simps Let_def
    by (rule Cons.IH; rule recordWithdrawal_erase [OF Cons.prems])
qed simp

lemma withdraw_shares_keeps:
  "bzHadWithdrawalShortfall (fst (withdraw_shares shared so date e c n entries allocated acc)) = bzHadWithdrawalShortfall (fst acc)"
  "bzFirstShortfallDate (fst (withdraw_shares shared so date e c n entries allocated acc)) = bzFirstShortfallDate (fst acc)"
  "bzError (fst (withdraw_shares shared so date e c n entries allocated acc)) = bzError (fst acc)"
proof (induction entries arbitrary: allocated acc)
  case (Cons entry entries)
  { case 1 show ?case by (cases entry) (simp add: Cons.IH recordWithdrawal_keeps Let_def) }
  { case 2 show ?case by (cases entry) (simp add: Cons.IH recordWithdrawal_keeps Let_def) }
  { case 3 show ?case by (cases entry) (simp add: Cons.IH recordWithdrawal_keeps Let_def) }
qed simp_all

lemma withdraw_expense_erase:
  assumes "erase s = erase t"
  shows "erase (fst (withdraw_expense shared so date e s)) = erase (fst (withdraw_expense shared so' date e t))"
    "snd (withdraw_expense shared so date e s) = snd (withdraw_expense shared so' date e t)"
proof -
  have entries: "map (capacity_entry shared s) ids = map (capacity_entry shared t) ids" for ids
    using erase_eqD [OF assms] by (simp add: capacity_entry_def)
  note shares = withdraw_shares_erase [of "(s, e)" "(t, e)" shared so date e _ _ _ 0 so', simplified, OF assms]
  show "erase (fst (withdraw_expense shared so date e s)) = erase (fst (withdraw_expense shared so' date e t))"
    "snd (withdraw_expense shared so date e s) = snd (withdraw_expense shared so' date e t)"
    unfolding withdraw_expense_def Let_def entries
    using shares recordWithdrawal_erase [of "(s, e)" "(t, e)", simplified, OF assms] by simp_all
qed

lemma withdraw_expense_keeps:
  "bzHadWithdrawalShortfall (fst (withdraw_expense shared so date e s)) = bzHadWithdrawalShortfall s"
  "bzFirstShortfallDate (fst (withdraw_expense shared so date e s)) = bzFirstShortfallDate s"
  "bzError (fst (withdraw_expense shared so date e s)) = bzError s"
  by (simp_all add: withdraw_expense_def Let_def recordWithdrawal_keeps withdraw_shares_keeps)

lemma start_year_erase: "erase s = erase t \<Longrightarrow> erase (start_year shared s) = erase (start_year shared t)"
  by (rule erase_eqI) (auto simp: start_year_def dest: erase_eqD)

lemma note_trajectory_erase [simp]: "erase (note_trajectory capture ids date s) = erase s"
  by (simp add: note_trajectory_def erase_def)

lemma note_shortfall_erase: "erase s = erase t \<Longrightarrow> erase (note_shortfall date x s) = erase (note_shortfall date x t)"
  by (rule erase_eqI) (auto simp: note_shortfall_def dest: erase_eqD)

lemma branch_advance_erase:
  assumes "erase s = erase t"
  shows "map_option erase (branch_advance pow plan shared base capture so events p s) =
    map_option erase (branch_advance pow plan shared base capture' so' events p t)"
proof -
  define s0 where "s0 = (if bhIndex p mod 12 = 0 then start_year shared s else s)"
  define t0 where "t0 = (if bhIndex p mod 12 = 0 then start_year shared t else t)"
  have e0: "erase s0 = erase t0" unfolding s0_def t0_def using start_year_erase [OF assms] assms by simp
  note eq0 = erase_eqD [OF e0]
  let ?call = "applyBranchTransactionEvents pow (events ! nat (bhIndex p)) (shBaseRealized shared) (shDispositions shared) (bzRuntime t0)"
  show ?thesis
  proof (cases ?call)
    case None
    then show ?thesis by (simp add: branch_advance_def Let_def s0_def [symmetric] t0_def [symmetric] eq0)
  next
    case (Some r)
    show ?thesis
    proof (cases r)
      case (Inl e)
      have "erase (s0\<lparr>bzError := Some e\<rparr>) = erase (t0\<lparr>bzError := Some e\<rparr>)"
        by (rule erase_eqI) (simp_all add: eq0)
      with Inl show ?thesis
        using Some by (simp add: branch_advance_def Let_def s0_def [symmetric] t0_def [symmetric] eq0(1))
    next
      case (Inr v)
      obtain income rt where v: "v = (income, rt)" by (cases v)
      have e1: "erase (s0\<lparr>bzRuntime := rt\<rparr>) = erase (t0\<lparr>bzRuntime := rt\<rparr>)"
        by (rule erase_eqI) (simp_all add: eq0)
      have "erase (note_shortfall (bhStartDate p) (snd (withdraw_expense shared so (bhStartDate p) e (s0\<lparr>bzRuntime := rt\<rparr>)))
            (fst (withdraw_expense shared so (bhStartDate p) e (s0\<lparr>bzRuntime := rt\<rparr>)))) =
          erase (note_shortfall (bhStartDate p) (snd (withdraw_expense shared so' (bhStartDate p) e (t0\<lparr>bzRuntime := rt\<rparr>)))
            (fst (withdraw_expense shared so' (bhStartDate p) e (t0\<lparr>bzRuntime := rt\<rparr>))))" for e
        unfolding withdraw_expense_erase(2) [OF e1, of shared so _ _ so']
        by (rule note_shortfall_erase, rule withdraw_expense_erase(1) [OF e1])
      then show ?thesis
        using Some Inr
        by (cases "expenseAt pow plan base (bhStartDate p)")
          (simp_all add: branch_advance_def Let_def s0_def [symmetric] t0_def [symmetric] eq0(1) v split_beta)
    qed
  qed
qed

text \<open>A shortfall stays, and without an error an advance changes nothing but money and shortfall.\<close>

lemma branch_advanceE:
  assumes "branch_advance pow plan shared base capture so events p s = Some s'"
  obtains (failed) e s0 where "s0 = s \<or> s0 = start_year shared s" "s' = s0\<lparr>bzError := Some e\<rparr>"
  | (advanced) s0 t e where "s0 = s \<or> s0 = start_year shared s"
      "s' = note_trajectory capture (shAssetRateOrder shared) (bhEndDate p)
        (note_shortfall (bhStartDate p) (snd (withdraw_expense shared so (bhStartDate p) e (s0\<lparr>bzRuntime := t\<rparr>)))
          (fst (withdraw_expense shared so (bhStartDate p) e (s0\<lparr>bzRuntime := t\<rparr>))))"
proof -
  define s0 where "s0 = (if bhIndex p mod 12 = 0 then start_year shared s else s)"
  have s0: "s0 = s \<or> s0 = start_year shared s" by (simp add: s0_def)
  obtain r where r: "applyBranchTransactionEvents pow (events ! nat (bhIndex p)) (shBaseRealized shared)
      (shDispositions shared) (bzRuntime s0) = Some r"
    using assms by (auto simp: branch_advance_def Let_def s0_def [symmetric] split: option.splits)
  show ?thesis
  proof (cases r)
    case (Inl e)
    then show ?thesis
      using assms r by (intro failed [OF s0, of e]) (simp add: branch_advance_def Let_def s0_def [symmetric])
  next
    case (Inr v)
    obtain income t where v: "v = (income, t)" by (cases v)
    obtain e where e: "expenseAt pow plan base (bhStartDate p) = Some e"
      using assms r Inr v by (auto simp: branch_advance_def Let_def s0_def [symmetric])
    show ?thesis
      using assms r Inr v e
      by (intro advanced [OF s0, where t = t and e = "maxFloat 0 (fdiv e (f64_of_int 12) - income)"])
        (simp add: branch_advance_def Let_def s0_def [symmetric] split: prod.splits)
  qed
qed

lemma note_trajectory_keeps [simp]:
  "bzHadWithdrawalShortfall (note_trajectory capture ids date s) = bzHadWithdrawalShortfall s"
  "bzFirstShortfallDate (note_trajectory capture ids date s) = bzFirstShortfallDate s"
  "bzError (note_trajectory capture ids date s) = bzError s"
  "bzRuntime (note_trajectory capture ids date s) = bzRuntime s"
  by (simp_all add: note_trajectory_def)

lemma start_year_keeps [simp]:
  "bzHadWithdrawalShortfall (start_year shared s) = bzHadWithdrawalShortfall s"
  "bzFirstShortfallDate (start_year shared s) = bzFirstShortfallDate s" "bzError (start_year shared s) = bzError s"
  by (simp_all add: start_year_def)

lemma note_shortfall_keeps:
  "bzHadWithdrawalShortfall s \<Longrightarrow> bzHadWithdrawalShortfall (note_shortfall date x s)"
  "bzFirstShortfallDate s = Some d \<Longrightarrow> bzFirstShortfallDate (note_shortfall date x s) = Some d"
  "bzError (note_shortfall date x s) = bzError s"
  by (simp_all add: note_shortfall_def)

lemma branch_advance_shortfall:
  assumes "branch_advance pow plan shared base capture so events p s = Some s'" "bzHadWithdrawalShortfall s"
  shows "bzHadWithdrawalShortfall s'"
  using assms(1)
proof (cases rule: branch_advanceE)
  case (failed e s0)
  then show ?thesis using assms(2) by auto
next
  case (advanced s0 t e)
  then have "bzHadWithdrawalShortfall (fst (withdraw_expense shared so (bhStartDate p) e (s0\<lparr>bzRuntime := t\<rparr>)))"
    using assms(2) by (auto simp: withdraw_expense_keeps)
  with advanced(2) show ?thesis by (simp add: note_shortfall_keeps)
qed

section \<open>Stopping early\<close>

lemma run_behavior_shortfall:
  "run_behavior (branch_advance pow plan shared base capture so events) stop ps s = Some s' \<Longrightarrow>
   bzHadWithdrawalShortfall s \<Longrightarrow> bzHadWithdrawalShortfall s'"
proof (induction ps arbitrary: s)
  case (Cons p ps)
  then obtain t where t: "branch_advance pow plan shared base capture so events p s = Some t"
    by (auto split: option.splits)
  have "bzHadWithdrawalShortfall t" by (rule branch_advance_shortfall [OF t Cons.prems(2)])
  with Cons.IH [of t] Cons.prems(1) t show ?case by (auto split: if_splits)
qed simp

lemma run_summary_detail:
  assumes "run_behavior (branch_advance pow plan shared base capture False events) (branch_stops False) ps s = Some d"
    and "run_behavior (branch_advance pow plan shared base capture' True events) (branch_stops True) ps t = Some u"
    and "erase s = erase t" "\<not> bzHadWithdrawalShortfall t" "bzError d = None"
  shows "if bzHadWithdrawalShortfall u then bzHadWithdrawalShortfall d else erase d = erase u"
  using assms
proof (induction ps arbitrary: s t)
  case (Cons p ps)
  obtain s1 where s1: "branch_advance pow plan shared base capture False events p s = Some s1"
    using Cons.prems(1) by (auto split: option.splits)
  obtain t1 where t1: "branch_advance pow plan shared base capture' True events p t = Some t1"
    using Cons.prems(2) by (auto split: option.splits)
  have e1: "erase s1 = erase t1"
    using branch_advance_erase [OF Cons.prems(3), of pow plan shared base capture False events p capture' True] s1 t1 by simp
  note eq1 = erase_eqD [OF e1]
  have none: "bzError s1 = None"
  proof (rule ccontr)
    assume "bzError s1 \<noteq> None"
    moreover from this have "branch_stops False s1 p" by (simp add: branch_stops_def)
    ultimately show False using Cons.prems(1,5) s1 by simp
  qed
  have "\<not> branch_stops False s1 p" by (simp add: branch_stops_def none)
  then have rest: "run_behavior (branch_advance pow plan shared base capture False events) (branch_stops False) ps s1 = Some d"
    using Cons.prems(1) s1 by simp
  show ?case
  proof (cases "bzHadWithdrawalShortfall t1")
    case True
    then have "u = t1" using Cons.prems(2) t1 by (simp add: branch_stops_def)
    moreover have "bzHadWithdrawalShortfall d"
      using run_behavior_shortfall [OF rest] True eq1(2) by simp
    ultimately show ?thesis using True by simp
  next
    case False
    then have "\<not> branch_stops True t1 p" using eq1(4) none by (simp add: branch_stops_def)
    then have "run_behavior (branch_advance pow plan shared base capture' True events) (branch_stops True) ps t1 = Some u"
      using Cons.prems(2) t1 by simp
    from Cons.IH [OF rest this e1 False Cons.prems(5)] show ?thesis .
  qed
qed simp

lemma branch_start_erase: "erase (branch_start path shared date sample capture state) = erase (branch_start path shared date sample capture' state)"
  by (simp add: branch_start_def)

lemma simulate_cycleE:
  assumes "simulate_cycle pow path plan shared candidate sample capture so balances = Some (Inr outcome)"
  obtains state cycleEnd resolved periods s where
    "initializeBranchSimulationState balances (phTransactionEvents path) (frDate candidate) path = Some state"
    "AddYearsClamped (frDate candidate) (fpEvaluationYears plan) = Some cycleEnd"
    "ResolveOccurrences (shBranchRules shared) (shBranchTransactions shared) (frDate candidate) cycleEnd False = Some resolved"
    "cycle_periods (frDate candidate) (fpEvaluationYears plan) = Some periods"
    "run_behavior (branch_advance pow plan shared (expenseBaselineDate plan (phStartDate path) (frDate candidate)) capture so
        (events_by_period periods (roByDate resolved))) (branch_stops so) periods
      (branch_start path shared (frDate candidate) sample capture state) = Some s" "bzError s = None"
    "outcome = (branch_finish pow plan shared candidate (selected_balance (shAssetRateOrder shared) balances) so s)
       \<lparr>foIsEligible := frIsEligible candidate\<rparr>"
proof -
  let ?date = "frDate candidate"
  obtain state cycleEnd resolved periods where parts:
    "initializeBranchSimulationState balances (phTransactionEvents path) ?date path = Some state"
    "AddYearsClamped ?date (fpEvaluationYears plan) = Some cycleEnd"
    "ResolveOccurrences (shBranchRules shared) (shBranchTransactions shared) ?date cycleEnd False = Some resolved"
    "cycle_periods ?date (fpEvaluationYears plan) = Some periods"
    using assms by (auto simp: simulate_cycle_def Let_def bind_eq_Some_conv)
  show thesis
  proof (cases "run_behavior (branch_advance pow plan shared (expenseBaselineDate plan (phStartDate path) ?date) capture so
        (events_by_period periods (roByDate resolved))) (branch_stops so) periods (branch_start path shared ?date sample capture state)")
    case None
    then show thesis using assms parts by (simp add: simulate_cycle_def Let_def RunReactiveBehavior_def)
  next
    case (Some s)
    then show thesis
      using assms parts
      by (intro that [OF parts Some]; cases "bzError s") (simp_all add: simulate_cycle_def Let_def RunReactiveBehavior_def)
  qed
qed

lemma branch_finish_date [simp]: "foCandidateDate (branch_finish pow plan shared candidate x so s) = frDate candidate"
  by (simp add: branch_finish_def Let_def summary_outcome_def zero_outcome_def)

text \<open>A summary that ran the simulation decides the cycle as the full simulation does.\<close>

lemma simulate_cycle_date:
  "simulate_cycle pow path plan shared candidate sample capture so balances = Some (Inr outcome) \<Longrightarrow>
   foCandidateDate outcome = frDate candidate"
  by (erule simulate_cycleE) simp

lemma simulate_cycle_agrees:
  assumes summary: "simulate_cycle pow path plan shared candidate sample capture True balances = Some (Inr summary)"
    and detail: "simulate_cycle pow path plan shared candidate sample capture' False balances = Some (Inr detail)"
  shows "foCycleEstablished detail = foCycleEstablished summary"
  using summary
proof (rule simulate_cycleE)
  fix state cycleEnd resolved periods u
  let ?date = "frDate candidate" and ?base = "expenseBaselineDate plan (phStartDate path) (frDate candidate)"
    and ?x = "selected_balance (shAssetRateOrder shared) balances"
  assume parts: "initializeBranchSimulationState balances (phTransactionEvents path) ?date path = Some state"
    "AddYearsClamped ?date (fpEvaluationYears plan) = Some cycleEnd"
    "ResolveOccurrences (shBranchRules shared) (shBranchTransactions shared) ?date cycleEnd False = Some resolved"
    "cycle_periods ?date (fpEvaluationYears plan) = Some periods"
    and u: "run_behavior (branch_advance pow plan shared ?base capture True (events_by_period periods (roByDate resolved)))
      (branch_stops True) periods (branch_start path shared ?date sample capture state) = Some u"
    "summary = (branch_finish pow plan shared candidate ?x True u)\<lparr>foIsEligible := frIsEligible candidate\<rparr>"
  obtain d where d: "run_behavior (branch_advance pow plan shared ?base capture' False (events_by_period periods (roByDate resolved)))
      (branch_stops False) periods (branch_start path shared ?date sample capture' state) = Some d" "bzError d = None"
    "detail = (branch_finish pow plan shared candidate ?x False d)\<lparr>foIsEligible := frIsEligible candidate\<rparr>"
    by (rule simulate_cycleE [OF detail]) (use parts in simp)
  have run: "if bzHadWithdrawalShortfall u then bzHadWithdrawalShortfall d else erase d = erase u"
    by (rule run_summary_detail [OF d(1) u(1) branch_start_erase _ d(2)]) (simp add: branch_start_def)
  show "foCycleEstablished detail = foCycleEstablished summary"
  proof (cases "bzHadWithdrawalShortfall u")
    case True
    then show ?thesis using run by (simp add: u(2) d(3) branch_finish_def Let_def summary_outcome_def zero_outcome_def)
  next
    case False
    then have "erase d = erase u" using run by simp
    from erase_eqD [OF this] False show ?thesis
      by (simp add: u(2) d(3) branch_finish_def Let_def summary_outcome_def zero_outcome_def)
  qed
qed

end
