(* ===== verification/FI_Properties.thy ===== *)
theory FI_Properties
  imports FI_Laws Evaluation_Properties
begin

text \<open>
  The properties of the financial independence analysis: its level of detail, its bounds, its candidate dates and
  what it aggregates over the trials.
\<close>

section \<open>Outcomes\<close>

lemma cycle_agrees:
  assumes summary: "evaluateCycleWithShared pow path plan shared c sample False True = Some (Inr x)"
    and detail: "evaluateCycleWithShared pow path plan shared c sample capture False = Some (Inr r)"
  shows "foCandidateDate x = frDate c" "foCandidateDate r = frDate c"
    "foCycleEstablished r \<longleftrightarrow> foCycleEstablished x \<or> foCycleEstablished r \<and> x = hopeless_outcome c"
proof -
  define balances where "balances = balancesAt (latestRowAtOrBefore (phRows path) (frDate c)) (fmAccounts (phEffectiveModel path))"
  have dates: "foCandidateDate (ineligible_outcome c) = frDate c" "foCandidateDate (hopeless_outcome c) = frDate c"
    by (simp_all add: ineligible_outcome_def hopeless_outcome_def zero_outcome_def)
  have none: "\<not> foCycleEstablished (ineligible_outcome c)" "\<not> foCycleEstablished (hopeless_outcome c)"
    by (simp_all add: ineligible_outcome_def hopeless_outcome_def zero_outcome_def)
  have "foCandidateDate x = frDate c \<and> foCandidateDate r = frDate c \<and>
    (foCycleEstablished r \<longleftrightarrow> foCycleEstablished x \<or> foCycleEstablished r \<and> x = hopeless_outcome c)"
  proof (cases "frIsEligible c")
    case False
    then have x: "x = ineligible_outcome c" using summary by (simp add: evaluateCycleWithShared_def)
    show ?thesis
    proof (cases capture)
      case True
      then have sim: "simulate_cycle pow path plan shared c sample capture False balances = Some (Inr r)"
        using detail by (simp add: evaluateCycleWithShared_def balances_def Let_def)
      have "\<not> foCycleEstablished r"
        using sim by (rule simulate_cycleE) (simp add: branch_finish_def Let_def False zero_outcome_def)
      then show ?thesis using x none dates simulate_cycle_date [OF sim] by simp
    next
      case no: False
      then have "r = ineligible_outcome c" using detail False by (simp add: evaluateCycleWithShared_def)
      then show ?thesis using x none dates by simp
    qed
  next
    case True
    then have sim: "simulate_cycle pow path plan shared c sample capture False balances = Some (Inr r)"
      using detail by (simp add: evaluateCycleWithShared_def balances_def Let_def)
    obtain hopeless where h: "cycle_hopeless pow path plan shared c balances = Some hopeless"
      using summary True by (auto simp: evaluateCycleWithShared_def balances_def Let_def split: option.splits)
    show ?thesis
    proof (cases hopeless)
      case True
      then have "x = hopeless_outcome c"
        using summary h \<open>frIsEligible c\<close> by (simp add: evaluateCycleWithShared_def balances_def Let_def)
      then show ?thesis using dates none simulate_cycle_date [OF sim] by simp
    next
      case False
      then have "simulate_cycle pow path plan shared c sample False True balances = Some (Inr x)"
        using summary h \<open>frIsEligible c\<close> by (simp add: evaluateCycleWithShared_def balances_def Let_def)
      from simulate_cycle_agrees [OF this sim] simulate_cycle_date [OF this] simulate_cycle_date [OF sim]
      show ?thesis by blast
    qed
  qed
  then show "foCandidateDate x = frDate c" "foCandidateDate r = frDate c"
    "foCycleEstablished r \<longleftrightarrow> foCycleEstablished x \<or> foCycleEstablished r \<and> x = hopeless_outcome c"
    by blast+
qed

text \<open>The summaries are those of the first rows, and only the last can have established its cycle.\<close>

lemma summary_outcomes_prefix:
  "summary_outcomes f rows = Some (Inr os) \<Longrightarrow>
     length os \<le> length rows \<and> (\<forall>i < length os. f (rows ! i) = Some (Inr (os ! i))) \<and>
     (\<forall>i. Suc i < length os \<longrightarrow> \<not> foCycleEstablished (os ! i))"
proof (induction rows arbitrary: os)
  case (Cons c cs)
  obtain x where x: "f c = Some (Inr x)"
    using Cons.prems by (cases "f c") (auto simp: and_then_def split: sum.splits)
  show ?case
  proof (cases "foCycleEstablished x")
    case True
    then have "os = [x]" using Cons.prems x by simp
    then show ?thesis using x by simp
  next
    case False
    obtain rest where rest: "summary_outcomes f cs = Some (Inr rest)" "os = x # rest"
    proof (cases "summary_outcomes f cs")
      case None
      then show ?thesis using Cons.prems x False by simp
    next
      case (Some v)
      then show ?thesis using Cons.prems x False that by (cases v) auto
    qed
    show ?thesis
      using Cons.IH [OF rest(1)] x False by (auto simp: rest(2) nth_Cons split: nat.splits)
  qed
qed simp

lemma find_last:
  assumes "\<And>i. Suc i < length xs \<Longrightarrow> \<not> P (xs ! i)" "xs \<noteq> []"
  shows "find P xs = (if P (last xs) then Some (last xs) else None)"
proof -
  have "x \<notin> set (butlast xs)" if "P x" for x
    using that assms(1) by (auto simp: in_set_conv_nth nth_butlast)
  then have "find P (butlast xs) = None" by (auto simp: find_None_iff)
  then have "find P (butlast xs @ [last xs]) = (if P (last xs) then Some (last xs) else None)"
    by (simp add: find_append)
  then show ?thesis using assms(2) by simp
qed

lemma selected_last:
  assumes "os \<noteq> []" "foCycleEstablished (last os)" "\<And>i. Suc i < length os \<Longrightarrow> \<not> foCycleEstablished (os ! i)"
  shows "SelectFIOutcomeIndex os = int (length os) - 1"
proof -
  let ?xs = "enumerate 0 os" and ?P = "\<lambda>(i::nat, r). foCycleEstablished r"
  have "\<not> ?P (?xs ! i)" if "Suc i < length ?xs" for i
    using that assms(3) by (simp add: nth_enumerate_eq)
  moreover have nonempty: "?xs \<noteq> []" using assms(1) by (cases os) simp_all
  ultimately have "find ?P ?xs = (if ?P (last ?xs) then Some (last ?xs) else None)"
    by (rule find_last)
  moreover have "last ?xs = (length os - 1, last os)"
    using assms(1) nonempty by (simp add: last_conv_nth nth_enumerate_eq)
  ultimately show ?thesis
    using assms(1,2) by (simp add: SelectFIOutcomeIndex_def of_nat_diff Suc_leI)
qed

lemma selected_range:
  assumes "os \<noteq> []"
  shows "0 \<le> SelectFIOutcomeIndex os" "SelectFIOutcomeIndex os < int (length os)"
proof -
  have i: "i < length os" if "find P (enumerate 0 os) = Some (i, r)" for P :: "nat \<times> FIRunOutcome \<Rightarrow> bool" and i r
    using that by (auto simp: find_Some_iff in_set_enumerate_eq nth_enumerate_eq)
  have j: "i < length os" if "find P (rev (enumerate 0 os)) = Some (i, r)" for P :: "nat \<times> FIRunOutcome \<Rightarrow> bool" and i r
  proof -
    have "(i, r) \<in> set (rev (enumerate 0 os))" using that by (metis find_Some_iff nth_mem)
    then show ?thesis by (simp add: in_set_enumerate_eq)
  qed
  show "0 \<le> SelectFIOutcomeIndex os" "SelectFIOutcomeIndex os < int (length os)"
    using assms i j by (auto simp: SelectFIOutcomeIndex_def Let_def Suc_leI split: option.splits)
qed

lemma detailed_milestone:
  assumes "length os \<le> length rows \<and> (\<forall>i < length os. evaluateCycleWithShared pow path plan shared (rows ! i) sample False True =
      Some (Inr (os ! i))) \<and> (\<forall>i. Suc i < length os \<longrightarrow> \<not> foCycleEstablished (os ! i))"
    and detail: "detailed_outcomes (\<lambda>c. evaluateCycleWithShared pow path plan shared c sample capture False) rows os = Some (Inr os')"
  shows "map_option foCandidateDate (find foCycleEstablished os') = map_option foCandidateDate (find foCycleEstablished os) \<or>
    find foCycleEstablished os = None \<and> (\<exists>x\<in>set os. foStatus x = ''summary'' \<and> \<not> foSimulationAttempted x)"
proof (cases "os = []")
  case True
  then have "os' = []" using detail by (simp add: detailed_outcomes_def SelectFIOutcomeIndex_def)
  with True show ?thesis by simp
next
  case False
  define k where "k = nat (SelectFIOutcomeIndex os)"
  have k: "k < length os" "SelectFIOutcomeIndex os = int k"
    using selected_range [OF False] by (simp_all add: k_def nat_less_iff)
  obtain r where r: "evaluateCycleWithShared pow path plan shared (rows ! k) sample capture False = Some (Inr r)" "os' = os[k := r]"
    using detail k assms(1) by (auto simp: detailed_outcomes_def Let_def map_option_case map_sum_def split: option.splits sum.splits)
  have x: "evaluateCycleWithShared pow path plan shared (rows ! k) sample False True = Some (Inr (os ! k))"
    using assms(1) k(1) by blast
  note agrees = cycle_agrees [OF x r(1)]
  show ?thesis
  proof (cases "foCycleEstablished (last os)")
    case True
    then have last_k: "k = length os - 1"
      using selected_last [OF False True] assms(1) k by simp
    then have "foCycleEstablished r" using agrees(3) True False by (simp add: last_conv_nth)
    moreover have "find foCycleEstablished os = Some (os ! k)" "find foCycleEstablished os' = (if foCycleEstablished r then Some r else None)"
    proof -
      show "find foCycleEstablished os = Some (os ! k)"
        using find_last [of os foCycleEstablished] assms(1) False True last_k by (simp add: last_conv_nth)
      have "\<not> foCycleEstablished (os' ! i)" if "Suc i < length os'" for i
        using that assms(1) last_k by (simp add: r(2))
      from find_last [of os' foCycleEstablished, OF this]
      show "find foCycleEstablished os' = (if foCycleEstablished r then Some r else None)"
        using False last_k by (simp add: r(2) last_conv_nth)
    qed
    ultimately show ?thesis using agrees(1,2) by simp
  next
    case none_last: False
    have "\<not> foCycleEstablished (os ! i)" if "i < length os" for i
    proof (cases "Suc i < length os")
      case False
      then have "i = length os - 1" using that by linarith
      then show ?thesis using none_last \<open>os \<noteq> []\<close> by (simp add: last_conv_nth)
    qed (use assms(1) in blast)
    then have none: "find foCycleEstablished os = None" by (auto simp: find_None_iff in_set_conv_nth)
    show ?thesis
    proof (cases "foCycleEstablished r")
      case True
      then have "os ! k = hopeless_outcome (rows ! k)"
        using agrees(3) none k(1) by (auto simp: find_None_iff)
      then have "foStatus (os ! k) = ''summary''" "\<not> foSimulationAttempted (os ! k)"
        by (simp_all add: hopeless_outcome_def zero_outcome_def)
      then show ?thesis using none nth_mem [OF k(1)] by blast
    next
      case False
      then have "find foCycleEstablished os' = None"
        using none set_update_subset_insert [of os k r] by (auto simp: r(2) find_None_iff)
      then show ?thesis using none by simp
    qed
  qed
qed

lemma mapped_eq_Inr: "map_option (map_sum f g) m = Some (Inr b) \<longleftrightarrow> (\<exists>a. m = Some (Inr a) \<and> b = g a)"
proof (cases m)
  case (Some v)
  then show ?thesis by (cases v) auto
qed simp

lemma analysis_parts:
  assumes "EvaluateFinancialIndependence pow path plan sample dates ''summary'' = Some (Inr s)"
    and "EvaluateFinancialIndependence pow path plan sample dates detailLevel = Some (Inr d)" "detailLevel \<noteq> ''summary''"
  shows "\<exists>rows os.
    summary_outcomes (\<lambda>c. evaluateCycleWithShared pow path plan (newFICycleShared path plan) c sample False True) rows = Some (Inr os) \<and>
    faRows s = rows \<and> faRunOutcomes s = os \<and> faFirstCoverageDate s = map_option frDate (find frIsCovered rows) \<and>
    faFirstSelfSustainingDate s = map_option foCandidateDate (find foCycleEstablished os) \<and>
    and_then (detailed_outcomes (\<lambda>c. evaluateCycleWithShared pow path plan (newFICycleShared path plan) c sample (sample = None) False) rows os)
      (\<lambda>outcomes. Some (Inr
        \<lparr>faRows = rows, faRunOutcomes = outcomes, faFirstCoverageDate = map_option frDate (find frIsCovered rows),
         faFirstSelfSustainingDate = map_option foCandidateDate (find foCycleEstablished outcomes)\<rparr>)) = Some (Inr d)"
proof -
  obtain rows where rows: "do {
         requested \<leftarrow> (case dates of
             None \<Rightarrow> BuildFICandidateDates (phStartDate path) (phEndDate path) (fpEvaluationYears plan)
           | Some dates \<Rightarrow> Some dates);
         dates \<leftarrow> fitting_dates (phStartDate path) (phEndDate path) (fpEvaluationYears plan) (unique_strings {} requested);
         those (map (fi_row pow path plan) (sort_by (\<lambda>a b. CompareIsoDates a b < 0) dates))
       } = Some rows"
    using assms(1) by (auto simp: EvaluateFinancialIndependence_def split: option.splits)
  obtain os where os: "summary_outcomes (\<lambda>c. evaluateCycleWithShared pow path plan (newFICycleShared path plan) c sample False True) rows =
      Some (Inr os)" "faRows s = rows" "faRunOutcomes s = os" "faFirstCoverageDate s = map_option frDate (find frIsCovered rows)"
    "faFirstSelfSustainingDate s = map_option foCandidateDate (find foCycleEstablished os)"
    using assms(1) unfolding EvaluateFinancialIndependence_def rows
    by (auto simp: Let_def and_then_eq_Inr mapped_eq_Inr simp del: map_option_eq_Some)
  with assms(2,3) show ?thesis
    unfolding EvaluateFinancialIndependence_def rows by (simp add: Let_def)
qed

section \<open>Properties\<close>

text \<open>
  C18. The level of detail.  An analysis in summary and the same analysis in detail have the same rows and the
  same first date of coverage, and the same first self-sustaining date, with one exception: where the summary found
  none, the detail may find one at a candidate that the summary gave up by its bounds without simulating it.
\<close>

theorem fi_detail_milestones:
  assumes "EvaluateFinancialIndependence pow path plan sample dates ''summary'' = Some (Inr s)"
    and "EvaluateFinancialIndependence pow path plan sample dates detailLevel = Some (Inr d)"
  shows "faRows d = faRows s \<and> faFirstCoverageDate d = faFirstCoverageDate s \<and>
    (faFirstSelfSustainingDate d = faFirstSelfSustainingDate s \<or>
     faFirstSelfSustainingDate s = None \<and>
       (\<exists>x\<in>set (faRunOutcomes s). foStatus x = ''summary'' \<and> \<not> foSimulationAttempted x))"
proof (cases "detailLevel = ''summary''")
  case True
  then show ?thesis using assms by simp
next
  case False
  let ?f = "\<lambda>c. evaluateCycleWithShared pow path plan (newFICycleShared path plan) c sample False True"
  let ?g = "\<lambda>c. evaluateCycleWithShared pow path plan (newFICycleShared path plan) c sample (sample = None) False"
  obtain rows os where s: "summary_outcomes ?f rows = Some (Inr os)" "faRows s = rows" "faRunOutcomes s = os"
    "faFirstCoverageDate s = map_option frDate (find frIsCovered rows)"
    "faFirstSelfSustainingDate s = map_option foCandidateDate (find foCycleEstablished os)"
    and rest: "and_then (detailed_outcomes ?g rows os) (\<lambda>outcomes. Some (Inr
      \<lparr>faRows = rows, faRunOutcomes = outcomes, faFirstCoverageDate = map_option frDate (find frIsCovered rows),
       faFirstSelfSustainingDate = map_option foCandidateDate (find foCycleEstablished outcomes)\<rparr>)) = Some (Inr d)"
    using analysis_parts [OF assms False] by blast
  obtain os' where os': "detailed_outcomes ?g rows os = Some (Inr os')" "faRows d = rows"
    "faFirstCoverageDate d = map_option frDate (find frIsCovered rows)"
    "faFirstSelfSustainingDate d = map_option foCandidateDate (find foCycleEstablished os')"
    using rest by (auto simp: and_then_eq_Inr)
  note prefix = summary_outcomes_prefix [OF s(1)]
  have "map_option foCandidateDate (find foCycleEstablished os') = map_option foCandidateDate (find foCycleEstablished os) \<or>
    find foCycleEstablished os = None \<and> (\<exists>x\<in>set os. foStatus x = ''summary'' \<and> \<not> foSimulationAttempted x)"
    using detailed_milestone [OF prefix os'(1)] by blast
  then show ?thesis using s os' by auto
qed

definition early_plan :: FIPlan where
  "early_plan =
     \<lparr>fpMinimumNetWorth = f64_of_int 1, fpAnnualExpenseTarget = f64_of_int 12,
      fpAnnualExpenseTargetBasis = ExpenseBasisFIDateDollars, fpAnnualExpenseGrowthRate = 0, fpWithdrawalRate = f64_of_int 1,
      fpEvaluationYears = 2, fpRequiredConfidence = f64_of_int 1, fpSources = [], fpContinuingTransactionIDs = [],
      fpPrincipalPolicy = PrincipalAllowDrawdown\<rparr>"

definition early_path :: ProjectionPath where
  "early_path =
     \<lparr>phRows = [], phTransactionEvents = [], phEffectiveModel = empty_model,
      phStartState = \<lparr>pzLatestAmounts = Mapping.empty, pzLatestDates = Mapping.empty, pzAmountsByYear = Mapping.empty\<rparr>,
      phStartDate = ''2024-01-01'', phEndDate = ''2026-01-01'', phHistoryCutInstant = 0\<rparr>"

lemma early_row:
  "\<exists>r. fi_row (\<lambda>x y. f64_of_int 1) early_path early_plan ''2024-01-01'' = Some r \<and> \<not> frIsEligible r"
proof -
  have "AddYearsClamped ''2024-01-01'' 1 = Some ''2025-01-01''" "DaysBetween ''2024-01-01'' ''2024-01-01'' = Some 0"
    by code_simp+
  moreover have "\<not> f64_of_int 1 \<le> 0" using f64_of_rat_of_int [of 1] by (simp add: f64_of_int_def zero_f64_def)
  ultimately show ?thesis
    by (simp add: fi_row_def early_path_def early_plan_def Let_def expenseBaselineDate_def expenseAt_def
        ExpenseBasisFIDateDollars_def ExpenseBasisProjectionStart_def latestRowAtOrBefore_def row_search.simps)
qed

theorem fi_detail_milestones_witness:
  "\<exists>s d. EvaluateFinancialIndependence (\<lambda>x y. f64_of_int 1) early_path early_plan (Some Mapping.empty) (Some [''2024-01-01'']) ''summary'' = Some (Inr s) \<and>
     EvaluateFinancialIndependence (\<lambda>x y. f64_of_int 1) early_path early_plan (Some Mapping.empty) (Some [''2024-01-01'']) ''full'' = Some (Inr d) \<and>
     length (faRows s) = 1 \<and> faRows d = faRows s"
proof -
  obtain r where r: "fi_row (\<lambda>x y. f64_of_int 1) early_path early_plan ''2024-01-01'' = Some r" "\<not> frIsEligible r"
    using early_row by blast
  let ?E = "EvaluateFinancialIndependence (\<lambda>x y. f64_of_int 1) early_path early_plan (Some Mapping.empty) (Some [''2024-01-01''])"
  have dates: "AddYearsClamped ''2024-01-01'' 2 = Some ''2026-01-01''" by code_simp
  have run: "\<exists>a. ?E level = Some (Inr a) \<and> faRows a = [r]" for level
    using r dates by (simp add: EvaluateFinancialIndependence_def early_path_def early_plan_def Let_def detailed_outcomes_def
        evaluateCycleWithShared_def ineligible_outcome_def zero_outcome_def)
  obtain s d where sd: "?E ''summary'' = Some (Inr s)" "faRows s = [r]" "?E ''full'' = Some (Inr d)"
    using run [of "''summary''"] run [of "''full''"] by blast
  from fi_detail_milestones [OF sd(1,3)] sd show ?thesis by auto
qed

section \<open>Over the trials\<close>

fun accumulate_runs :: "FIAnalysisResult list \<Rightarrow> fiAccumulator \<Rightarrow> diagnostic_message + fiAccumulator" where
  "accumulate_runs [] a = Inr a"
| "accumulate_runs (run # runs) a = (case fi_Accumulate a run of Inl e \<Rightarrow> Inl e | Inr a \<Rightarrow> accumulate_runs runs a)"

definition sustained_by :: "nat \<Rightarrow> FIAnalysisResult \<Rightarrow> bool" where
  "sustained_by i run \<longleftrightarrow> (\<exists>outcome\<in>set (take (Suc i) (faRunOutcomes run)). foCycleEstablished outcome)"

lemma first_index_least:
  "first_index P xs = None \<Longrightarrow> x \<in> set (take (Suc i) xs) \<Longrightarrow> \<not> P x"
  "first_index P xs = Some k \<Longrightarrow> (\<exists>x\<in>set (take (Suc i) xs). P x) \<longleftrightarrow> k \<le> i"
proof (induction xs arbitrary: i k)
  case (Cons y ys)
  { case 1 then show ?case using Cons.IH(1) by (cases i) (auto split: if_splits) }
  { case 2 then show ?case using Cons.IH(2) by (cases i) (auto split: if_splits) }
qed simp_all

lemma sustained_by_first:
  "sustained_by i run \<longleftrightarrow> (case first_index foCycleEstablished (faRunOutcomes run) of None \<Rightarrow> False | Some k \<Rightarrow> k \<le> i)"
  using first_index_least [of foCycleEstablished "faRunOutcomes run"]
  by (auto simp: sustained_by_def split: option.split)

lemma accumulate_step:
  assumes "fi_Accumulate a run = Inr b"
  shows "fuCandidateDates b = fuCandidateDates a" "fuRunCount b = fuRunCount a + 1"
    "fuRequiredConfidence b = fuRequiredConfidence a"
    "length (fuCycleSuccessCounts b) = length (fuCycleSuccessCounts a)"
    "i < length (fuCycleSuccessCounts a) \<Longrightarrow>
       fuCycleSuccessCounts b ! i = fuCycleSuccessCounts a ! i + (if sustained_by i run then 1 else 0)"
  using assms
  by (auto simp: fi_Accumulate_def Let_def sustained_by_first nth_append min_def split: if_splits option.splits)

lemma accumulate_runs_counts:
  "accumulate_runs runs a = Inr b \<Longrightarrow>
     fuCandidateDates b = fuCandidateDates a \<and> fuRunCount b = fuRunCount a + int (length runs) \<and>
     fuRequiredConfidence b = fuRequiredConfidence a \<and>
     length (fuCycleSuccessCounts b) = length (fuCycleSuccessCounts a) \<and>
     (\<forall>i < length (fuCycleSuccessCounts a).
        fuCycleSuccessCounts b ! i = fuCycleSuccessCounts a ! i + int (length (filter (sustained_by i) runs)))"
proof (induction runs arbitrary: a)
  case (Cons run runs)
  then obtain c where "fi_Accumulate a run = Inr c" "accumulate_runs runs c = Inr b"
    by (auto split: sum.splits)
  with Cons.IH [of c] accumulate_step [of a run c] show ?case by auto
qed simp

lemma run_share_value:
  assumes "0 \<le> m" "m \<le> n" "0 < n" "n \<le> 2 ^ 53"
  shows "run_share m n = f64_of_rat (of_int m / of_int n)"
proof -
  have "f64_of_int m = FNum (of_int m)" "f64_of_int n = FNum (of_int n)"
    using assms by (auto simp: f64_of_int_def intro!: f64_of_rat_of_int)
  then show ?thesis using assms(3) by (simp add: run_share_def)
qed

lemma run_share_mono:
  assumes "0 \<le> l" "l \<le> m" "m \<le> n" "0 < n" "n \<le> 2 ^ 53"
  shows "run_share l n \<le> run_share m n"
  using assms by (simp add: run_share_value f64_of_rat_mono divide_right_mono)

lemma sustained_by_mono:
  assumes "i \<le> j"
  shows "length (filter (sustained_by i) runs) \<le> length (filter (sustained_by j) runs)"
proof -
  have "sustained_by i run \<Longrightarrow> sustained_by j run" for run
    using set_take_subset_set_take [of "Suc i" "Suc j" "faRunOutcomes run"] assms by (auto simp: sustained_by_def)
  then show ?thesis by (induction runs) auto
qed

lemma find_upt_least:
  assumes "find P [0..<n] = Some k"
  shows "P k" "k < n" "j < k \<Longrightarrow> \<not> P j"
  using assms by (auto simp: find_Some_iff)

text \<open>
  C19. The confidence of a self-sustaining date.  Over the trials, the probability of a candidate is the share of the
  trials that sustain a cycle at it or at an earlier candidate, so it never falls along the dates; the reported date
  is the first whose probability reaches the required confidence, every later one reaches it too, and no date is
  reported exactly when none reaches it.
\<close>

theorem fi_confidence:
  assumes "accumulate_runs runs (fi_CreateAccumulator plan analysis) = Inr a" "runs \<noteq> []" "int (length runs) \<le> 2 ^ 53"
  shows "let dates = map frDate (faRows analysis); probability = success_probability a;
      reported = (case fi_Finalize a of JObj obj \<Rightarrow> map_of obj ''selfSustainingDate'' | _ \<Rightarrow> None);
      enough = (\<lambda>i. fpRequiredConfidence plan \<le> probability i)
    in (\<forall>i < length dates. probability i = run_share (int (length (filter (sustained_by i) runs))) (int (length runs))) \<and>
       (\<forall>i j. i \<le> j \<and> j < length dates \<longrightarrow> probability i \<le> probability j) \<and>
       (if \<exists>i < length dates. enough i
        then \<exists>k < length dates. reported = Some (JStr (dates ! k)) \<and> (\<forall>i < length dates. enough i \<longleftrightarrow> k \<le> i)
        else reported = Some JNull)"
proof -
  define dates where "dates = map frDate (faRows analysis)"
  have a: "fuCandidateDates a = dates" "fuRunCount a = int (length runs)" "fuRequiredConfidence a = fpRequiredConfidence plan"
    and count: "\<And>i. i < length dates \<Longrightarrow> fuCycleSuccessCounts a ! i = int (length (filter (sustained_by i) runs))"
    using accumulate_runs_counts [OF assms(1)] by (auto simp: fi_CreateAccumulator_def dates_def)
  have prob: "success_probability a i = run_share (int (length (filter (sustained_by i) runs))) (int (length runs))"
    if "i < length dates" for i
    using that by (simp add: success_probability_def count a(2))
  have mono: "success_probability a i \<le> success_probability a j" if "i \<le> j" "j < length dates" for i j
    using that assms(2,3) sustained_by_mono [OF that(1), of runs]
    by (simp add: prob run_share_mono length_filter_le)
  define enough where "enough i = (fpRequiredConfidence plan \<le> success_probability a i)" for i
  define reported where "reported = (case fi_Finalize a of JObj obj \<Rightarrow> map_of obj ''selfSustainingDate'' | _ \<Rightarrow> None)"
  have reported: "reported = Some (json_or_null (\<lambda>i. JStr (dates ! i)) (find enough [0..<length dates]))"
    by (simp add: reported_def fi_Finalize_def Let_def a enough_def [abs_def])
  have "if \<exists>i < length dates. enough i
        then \<exists>k < length dates. reported = Some (JStr (dates ! k)) \<and> (\<forall>i < length dates. enough i \<longleftrightarrow> k \<le> i)
        else reported = Some JNull"
  proof (cases "find enough [0..<length dates]")
    case None
    then have "\<not> (\<exists>i < length dates. enough i)" by (auto simp: find_None_iff)
    then show ?thesis using None by (simp add: reported json_or_null_def)
  next
    case (Some k)
    note k = find_upt_least [OF Some]
    have "enough i \<longleftrightarrow> k \<le> i" if "i < length dates" for i
      using k(1,3) mono [OF _ that, of k] f64_le_trans unfolding enough_def by (meson not_le)
    then show ?thesis using k(1,2) Some by (auto simp: reported json_or_null_def)
  qed
  then show ?thesis
    unfolding Let_def dates_def [symmetric] enough_def [symmetric] reported_def [symmetric]
    using prob mono by (simp add: dates_def)
qed

definition day_row :: "string \<Rightarrow> FIRow" where
  "day_row date =
     \<lparr>frDate = date, frNetWorth = 0, frMinimumNetWorth = 0, frMinimumNetWorthMet = True, frAnnualDirectIncome = 0,
      frAssetContributions = [], frSelectedAssetBalance = 0, frAnnualWithdrawalCapacity = 0, frTotalAnnualCapacity = 0,
      frAnnualExpenseTarget = 0, frCoverageRatio = 0, frIsCovered = False, frIsEligible = False\<rparr>"

definition second_month :: FIAnalysisResult where
  "second_month =
     \<lparr>faRows = [day_row ''2024-01-01'', day_row ''2024-02-01''],
      faRunOutcomes = [zero_outcome ''2024-01-01'' ''summary'',
        (zero_outcome ''2024-02-01'' ''summary'')\<lparr>foCycleEstablished := True\<rparr>],
      faFirstCoverageDate = None, faFirstSelfSustainingDate = Some ''2024-02-01''\<rparr>"

theorem fi_confidence_witness:
  "\<exists>a. accumulate_runs [second_month] (fi_CreateAccumulator early_plan second_month) = Inr a \<and>
     (case fi_Finalize a of JObj obj \<Rightarrow> map_of obj ''selfSustainingDate'' | _ \<Rightarrow> None) = Some (JStr ''2024-02-01'')"
proof -
  obtain a where a: "accumulate_runs [second_month] (fi_CreateAccumulator early_plan second_month) = Inr a"
    by (simp add: fi_Accumulate_def fi_CreateAccumulator_def Let_def second_month_def day_row_def)
  have sb: "\<not> sustained_by 0 second_month" "sustained_by 1 second_month" "sustained_by (Suc 0) second_month"
    by (simp_all add: sustained_by_def second_month_def zero_outcome_def)
  have share: "run_share 0 1 = FNum 0" "run_share 1 1 = FNum 1" "fpRequiredConfidence early_plan = FNum 1"
    by (simp_all add: run_share_def early_plan_def f64_of_int_def f64_of_rat_numeral zero_f64_def)
  have rows: "map frDate (faRows second_month) = [''2024-01-01'', ''2024-02-01'']"
    by (simp add: second_month_def day_row_def)
  note facts = fi_confidence [OF a, simplified rows Let_def, simplified]
  have "success_probability a 0 = FNum 0" "success_probability a 1 = FNum 1"
    using facts by (auto simp: sb share)
  with facts a show ?thesis by (auto simp: share less_Suc_eq numeral_2_eq_2 split: if_splits)
qed

section \<open>Candidate dates\<close>

text \<open>A date by the number of its month, counted from year zero.\<close>

lemma months_shift:
  assumes "iso_valid y m d" "0 \<le> n" "12 * y + (m - 1) + n < 120000"
  obtains y' m' d' where "AddMonthsClamped (iso_date y m d) n = Some (iso_date y' m' d')" "iso_valid y' m' d'"
    "12 * y' + (m' - 1) = 12 * y + (m - 1) + n"
proof -
  define i where "i = 12 * y + (m - 1) + n"
  note b = iso_valid_bounds [OF assms(1)]
  then have i: "0 \<le> i" "i < 120000" using assms by (simp_all add: i_def)
  then have y: "0 \<le> i div 12" "i div 12 \<le> 9999" by simp_all
  have "month_shift y m d n = (i div 12, i mod 12 + 1, min d (month_length (i div 12) (i mod 12 + 1)))"
  proof -
    have "y + (m - 1 + n) div 12 = i div 12" "(m - 1 + n) mod 12 = i mod 12" by (simp_all add: i_def add.assoc)
    then show ?thesis by (simp add: month_shift_def Let_def)
  qed
  from AddMonthsClamped_shift [OF assms(1) this y] show ?thesis
    by (rule that) (simp add: i_def)
qed

lemma later_month_less:
  assumes "iso_valid y m d" "iso_valid y' m' d'" "12 * y + (m - 1) < 12 * y' + (m' - 1)"
  shows "iso_date y m d < iso_date y' m' d'"
proof -
  have "y < y' \<or> y = y' \<and> m < m'"
    using assms(3) iso_valid_bounds [OF assms(1)] iso_valid_bounds [OF assms(2)] by linarith
  then have "civil_day y m d < civil_day y' m' d'"
    using assms(1,2) by (subst valid_civil_day_order) (auto simp: iso_valid_def)
  then show ?thesis using iso_date_less [OF assms(1,2)] by simp
qed

lemma candidate_dates_complete:
  assumes s: "iso_valid y m d" and e: "iso_valid ye me de" "ye < 9999" and years: "0 \<le> years"
  shows "0 \<le> i \<Longrightarrow> 12 * y + (m - 1) + i + 12 * years \<le> max (12 * y + (m - 1) + 12 * years) (12 * ye + me) \<Longrightarrow>
    12 * y + (m - 1) + 12 * years < 120000 \<Longrightarrow>
    \<exists>dates. month_candidates (iso_date y m d) (iso_date ye me de) years i = Some dates \<and>
      (\<forall>j < length dates. AddMonthsClamped (iso_date y m d) (i + int j) = Some (dates ! j) \<and>
         (\<exists>l. AddYearsClamped (dates ! j) years = Some l \<and> l \<le> iso_date ye me de)) \<and>
      (\<exists>a l. AddMonthsClamped (iso_date y m d) (i + int (length dates)) = Some a \<and> AddYearsClamped a years = Some l \<and>
         iso_date ye me de < l)"
proof (induction "nat (max (12 * y + (m - 1) + 12 * years) (12 * ye + me) - (12 * y + (m - 1) + i + 12 * years))"
    arbitrary: i rule: less_induct)
  case less
  let ?s = "iso_date y m d" and ?e = "iso_date ye me de"
  have big: "max (12 * y + (m - 1) + 12 * years) (12 * ye + me) < 120000"
    using less.prems(3) e(2) iso_valid_bounds [OF e(1)] by simp
  obtain y1 m1 d1 where at_i: "AddMonthsClamped ?s i = Some (iso_date y1 m1 d1)" and v1: "iso_valid y1 m1 d1"
    and i1: "12 * y1 + (m1 - 1) = 12 * y + (m - 1) + i"
    by (rule months_shift [OF s less.prems(1)]) (use less.prems(2) big years in linarith)
  obtain y2 m2 d2 where last_day: "AddYearsClamped (iso_date y1 m1 d1) years = Some (iso_date y2 m2 d2)" and v2: "iso_valid y2 m2 d2"
    and i2: "12 * y2 + (m2 - 1) = 12 * y1 + (m1 - 1) + years * 12"
    unfolding AddYearsClamped_def
    by (rule months_shift [OF v1, of "years * 12"]) (use less.prems(2) big years i1 in \<open>linarith+\<close>)
  note step = month_candidates.simps [of ?s ?e years i]
  show ?case
  proof (cases "?e < iso_date y2 m2 d2")
    case True
    then show ?thesis using at_i last_day by (simp add: step)
  next
    case False
    then have fits: "12 * y2 + (m2 - 1) \<le> 12 * ye + (me - 1)" using later_month_less [OF e(1) v2] by linarith
    have next_month: "12 * y + (m - 1) + (i + 1) + 12 * years \<le> max (12 * y + (m - 1) + 12 * years) (12 * ye + me)"
      using fits i1 i2 by linarith
    have "nat (max (12 * y + (m - 1) + 12 * years) (12 * ye + me) - (12 * y + (m - 1) + (i + 1) + 12 * years))
        < nat (max (12 * y + (m - 1) + 12 * years) (12 * ye + me) - (12 * y + (m - 1) + i + 12 * years))"
      using next_month by (subst nat_mono_iff) linarith+
    from less.hyps [OF this _ next_month less.prems(3)] less.prems(1)
    obtain dates a l where rest: "month_candidates ?s ?e years (i + 1) = Some dates"
      and here: "\<And>j. j < length dates \<Longrightarrow> AddMonthsClamped ?s (i + 1 + int j) = Some (dates ! j) \<and>
         (\<exists>l. AddYearsClamped (dates ! j) years = Some l \<and> l \<le> ?e)"
      and stop: "AddMonthsClamped ?s (i + 1 + int (length dates)) = Some a" "AddYearsClamped a years = Some l" "?e < l"
      by auto
    have "month_candidates ?s ?e years i = Some (iso_date y1 m1 d1 # dates)"
      using at_i last_day False rest by (simp add: step)
    moreover have "AddMonthsClamped ?s (i + int j) = Some ((iso_date y1 m1 d1 # dates) ! j) \<and>
         (\<exists>l. AddYearsClamped ((iso_date y1 m1 d1 # dates) ! j) years = Some l \<and> l \<le> ?e)"
      if "j < length (iso_date y1 m1 d1 # dates)" for j
      using that here [of "j - 1"] at_i last_day False by (cases j) (simp_all add: add.assoc)
    ultimately show ?thesis using stop by (auto simp: add.assoc)
  qed
qed

text \<open>
  C31. The candidate dates.  The loop over the months returns, and its dates are the start of the projection and the
  same day of each following month, without a gap, up to the last whose evaluation ends in the projection: every one
  fits, and the month after the last does not.
\<close>

theorem fi_candidate_dates:
  assumes "iso_valid y m d" "iso_valid ye me de" "ye < 9999" "0 \<le> years" "12 * y + (m - 1) + 12 * years < 120000"
  shows "\<exists>dates. BuildFICandidateDates (iso_date y m d) (iso_date ye me de) years = Some dates \<and>
    (\<forall>i < length dates. AddMonthsClamped (iso_date y m d) (int i) = Some (dates ! i) \<and>
       (\<exists>l. AddYearsClamped (dates ! i) years = Some l \<and> l \<le> iso_date ye me de)) \<and>
    (\<exists>a l. AddMonthsClamped (iso_date y m d) (int (length dates)) = Some a \<and> AddYearsClamped a years = Some l \<and>
       iso_date ye me de < l)"
  using candidate_dates_complete [OF assms(1-4), of 0] assms(5) by (simp add: BuildFICandidateDates_def)

theorem fi_candidate_dates_witness:
  "\<exists>dates. BuildFICandidateDates (iso_date 2024 1 31) (iso_date 2025 3 30) 1 = Some dates \<and>
     (\<forall>i < length dates. AddMonthsClamped (iso_date 2024 1 31) (int i) = Some (dates ! i))"
proof -
  have v: "iso_valid 2024 1 31" "iso_valid 2025 3 30" by code_simp+
  from fi_candidate_dates [OF v, of 1] show ?thesis by auto
qed

end
