(* ===== verification/Flow_Graph.thy ===== *)
theory Flow_Graph
  imports Path Go_Loops
begin

text \<open>
  The flow graph of a date window: \<open>backend/internal/domain/flowgraph.go\<close> with the types of
  \<open>backend/internal/types/flowgraph.go\<close>.  The maps of nodes and edges are mappings; the order in which \<open>range\<close>
  visits the edges is a parameter.  The slices are sorted by keys that tell their elements apart, so that the
  stable sort of the model and the unstable one of the code agree; corrections of one account and day may stay
  in either order.
\<close>

section \<open>Types\<close>

record FlowNode =
  fnID :: string
  fnName :: string
  fnExternal :: bool
  fnEnabled :: bool
  fnInflow :: f64
  fnOutflow :: f64

record FlowSourceRecord =
  fxTransactionID :: string
  fxDate :: string
  fxSequence :: int
  fxRequestedAmount :: f64
  fxRealizedAmount :: f64

record FlowEdge =
  fgFrom :: string
  fgTo :: string
  fgKind :: string
  fgMovement :: string
  fgAmount :: f64
  fgSources :: "FlowSourceRecord list"

record FlowUnmatchedEvent =
  umTransactionID :: string
  umDate :: string
  umSequence :: int
  umRealizedAmount :: f64

record FlowUnobservedCorrection =
  ubAccountID :: string
  ubDate :: string
  ubObservedBalance :: f64
  ubModeledBalance :: f64
  ubAdjustment :: f64

record FlowCoverage =
  fvObservedAccounts :: "string list"
  fvUnobservedAccounts :: "string list"

record FlowClassTotals =
  flInflow :: f64
  flOutflow :: f64
  flTransfer :: f64

record FlowTotals =
  ftActual :: FlowClassTotals
  ftProjected :: FlowClassTotals
  ftUnmatched :: f64
  ftUnobserved :: f64

record FlowReconciliation =
  frcWindowEvents :: int
  frcClassifiedEvents :: int
  frcUnmatchedEvents :: int
  frcEventsInflow :: f64
  frcEventsOutflow :: f64
  frcEventsTransfer :: f64
  frcEdgesInflow :: f64
  frcEdgesOutflow :: f64
  frcEdgesTransfer :: f64
  frcCorrectionsCount :: int
  frcUnobservedSum :: f64
  frcReconciled :: bool

record FlowGraph =
  ggStartDate :: string
  ggEndDate :: string
  ggNodes :: "FlowNode list"
  ggEdges :: "FlowEdge list"
  ggUnmatched :: "FlowUnmatchedEvent list"
  ggUnobserved :: "FlowUnobservedCorrection list"
  ggCoverage :: FlowCoverage
  ggTotals :: FlowTotals
  ggReconciliation :: FlowReconciliation

definition FlowNodeIDExternal :: string where "FlowNodeIDExternal = ''external''"
definition FlowMovementActual :: string where "FlowMovementActual = ''actual''"
definition FlowMovementProjected :: string where "FlowMovementProjected = ''projected''"
definition FlowKindInflow :: string where "FlowKindInflow = ''inflow''"
definition FlowKindOutflow :: string where "FlowKindOutflow = ''outflow''"
definition FlowKindTransfer :: string where "FlowKindTransfer = ''transfer''"

text \<open>The dates of the window.\<close>

definition in_flow_window :: "string \<Rightarrow> string \<Rightarrow> string \<Rightarrow> bool" where
  "in_flow_window startDate endDate day \<longleftrightarrow> \<not> (CompareIsoDates day startDate < 0 \<or> 0 < CompareIsoDates day endDate)"

section \<open>Settled history\<close>

definition covered_key :: "string \<Rightarrow> string \<Rightarrow> string" where
  "covered_key transactionID day = transactionID @ CHR 0x00 # day"

definition next_sequence :: "TransactionEvent list \<Rightarrow> int" where
  "next_sequence events = foldl (\<lambda>n event. if n \<le> teSequence event then teSequence event + 1 else n) 0 events"

text \<open>The first row of a day gives its balances.\<close>

definition balances_by_date :: "ProjectionRow list \<Rightarrow> string \<Rightarrow> string \<Rightarrow> f64 gomap gomap" where
  "balances_by_date rows startDate endDate =
     foldl (\<lambda>m row.
         if \<not> in_flow_window startDate endDate (rwDate row) \<or> Mapping.lookup m (rwDate row) \<noteq> None then m
         else Mapping.update (rwDate row)
           (foldl (\<lambda>b s. Mapping.update (saAccountID s) (saBalance s) b) Mapping.empty (rwAccountSnapshots row)) m)
       Mapping.empty rows"

definition own_occurrence :: "nat \<Rightarrow> Transaction \<Rightarrow> DatedTransactionOccurrence" where
  "own_occurrence index transaction =
     \<lparr>ocTransaction = transaction, ocIndex = int index, ocRule = None, ocPurchase = None, ocDocPath = None\<rparr>"

text \<open>An amount on a state without history.\<close>

definition snapshot_of_balances :: "f64 gomap \<Rightarrow> PaymentTerms gomap \<Rightarrow> ExecutionSnapshot" where
  "snapshot_of_balances balances terms =
     \<lparr>esBalances = balances, esLatestRealized = Mapping.empty, esLatestDates = Mapping.empty,
      esRealizedByYear = Mapping.empty, esPaymentTerms = terms, esProjectionStart = ''''\<rparr>"

definition settled_event :: "string \<Rightarrow> string \<Rightarrow> int \<Rightarrow> f64 \<Rightarrow> TransactionEvent" where
  "settled_event transactionID day n realized =
     \<lparr>teDate = day, teSequence = n, teTransactionID = transactionID, teRequestedAmount = realized,
      teRealizedAmount = realized, teAccountDeltas = [], teBindingConstraints = [], teAvailableAmount = None,
      teFulfillment = None\<rparr>"

definition settle_one ::
  "(f64 \<Rightarrow> f64 \<Rightarrow> f64) \<Rightarrow> PaymentTerms gomap \<Rightarrow> string set \<Rightarrow> string set \<Rightarrow> f64 gomap gomap \<Rightarrow> string \<Rightarrow> string \<Rightarrow>
   nat \<Rightarrow> Transaction \<Rightarrow> int \<Rightarrow> (TransactionEvent list \<times> int) option" where
  "settle_one pow terms ruleIDs covered balancesByDate startDate endDate index transaction n =
     (let day = transactionDay transaction
      in if trID transaction \<in> ruleIDs \<or> \<not> trEnabled transaction \<or> trVoid transaction \<or> day = '''' \<or>
            \<not> in_flow_window startDate endDate day \<or> covered_key (trID transaction) day \<in> covered
         then Some ([], n)
         else case ComputeRequestedAmount pow (own_occurrence index transaction) day
                (snapshot_of_balances (go_index Mapping.empty balancesByDate day) terms) None of
                None \<Rightarrow> None
              | Some (Inl e) \<Rightarrow> Some ([], n)
              | Some (Inr amount) \<Rightarrow>
                  if isNaN amount \<or> isInf amount \<or> feq (roundCurrency amount) 0 then Some ([], n)
                  else Some ([settled_event (trID transaction) day n (roundCurrency amount)], n + 1))"

definition settledHistoryEvents ::
  "(f64 \<Rightarrow> f64 \<Rightarrow> f64) \<Rightarrow> FinancialModel \<Rightarrow> Transaction list \<Rightarrow> string set \<Rightarrow> TransactionEvent list \<Rightarrow> ProjectionRow list \<Rightarrow>
   string \<Rightarrow> string \<Rightarrow> TransactionEvent list option" where
  "settledHistoryEvents pow model transactions ruleIDs events rows startDate endDate =
     (let covered = (\<lambda>e. covered_key (teTransactionID e) (teDate e)) ` set events
      in map_option fst (scan_may
        (settle_one pow (paymentTermsByAccount (fmPaymentTerms model)) ruleIDs covered
          (balances_by_date rows startDate endDate) startDate endDate)
        0 transactions (next_sequence events)))"

section \<open>Nodes and edges\<close>

type_synonym flowEdgeKey = "string \<times> string \<times> string \<times> string"

record flowState =
  gzNodes :: "FlowNode gomap"
  gzEdges :: "(flowEdgeKey, FlowEdge) mapping"
  gzReconciliation :: FlowReconciliation
  gzTotals :: FlowTotals
  gzUnmatched :: "FlowUnmatchedEvent list"
  gzUnobserved :: "FlowUnobservedCorrection list"

definition ensure_node :: "string \<Rightarrow> string \<Rightarrow> bool \<Rightarrow> bool \<Rightarrow> FlowNode gomap \<Rightarrow> FlowNode gomap" where
  "ensure_node i name external enabled nodes =
     (if Mapping.lookup nodes i \<noteq> None then nodes
      else Mapping.update i
        \<lparr>fnID = i, fnName = name, fnExternal = external, fnEnabled = enabled, fnInflow = 0, fnOutflow = 0\<rparr> nodes)"

definition ensure_edge :: "flowEdgeKey \<Rightarrow> (flowEdgeKey, FlowEdge) mapping \<Rightarrow> (flowEdgeKey, FlowEdge) mapping" where
  "ensure_edge key edges =
     (if Mapping.lookup edges key \<noteq> None then edges
      else (case key of (source, target, kind, movement) \<Rightarrow>
        Mapping.update key
          \<lparr>fgFrom = source, fgTo = target, fgKind = kind, fgMovement = movement, fgAmount = 0, fgSources = []\<rparr> edges))"

definition change_at :: "'k \<Rightarrow> ('v \<Rightarrow> 'v) \<Rightarrow> ('k, 'v) mapping \<Rightarrow> ('k, 'v) mapping" where
  "change_at k f m = (case Mapping.lookup m k of None \<Rightarrow> m | Some v \<Rightarrow> Mapping.update k (f v) m)"

definition addFlow ::
  "string \<Rightarrow> string \<Rightarrow> f64 \<Rightarrow> string \<Rightarrow> string \<Rightarrow> FlowSourceRecord \<Rightarrow> flowState \<Rightarrow> flowState" where
  "addFlow fromID toID amount kind movement source_record s =
     (if feq amount 0 then s
      else
        let key = (fromID, toID, kind, movement);
            edges = change_at key
              (\<lambda>e. e\<lparr>fgAmount := roundCurrency (fgAmount e + amount), fgSources := fgSources e @ [source_record]\<rparr>)
              (ensure_edge key (gzEdges s));
            nodes = ensure_node toID toID (toID = FlowNodeIDExternal) True
              (ensure_node fromID fromID (fromID = FlowNodeIDExternal) True (gzNodes s))
        in s\<lparr>gzEdges := edges,
             gzNodes := (if 0 < amount
               then change_at toID (\<lambda>n. n\<lparr>fnInflow := roundCurrency (fnInflow n + amount)\<rparr>)
                 (change_at fromID (\<lambda>n. n\<lparr>fnOutflow := roundCurrency (fnOutflow n + amount)\<rparr>) nodes)
               else change_at toID (\<lambda>n. n\<lparr>fnOutflow := roundCurrency (fnOutflow n - amount)\<rparr>)
                 (change_at fromID (\<lambda>n. n\<lparr>fnInflow := roundCurrency (fnInflow n - amount)\<rparr>) nodes))\<rparr>)"

section \<open>Events\<close>

definition flow_record :: "TransactionEvent \<Rightarrow> FlowSourceRecord" where
  "flow_record event =
     \<lparr>fxTransactionID = teTransactionID event, fxDate = teDate event, fxSequence = teSequence event,
      fxRequestedAmount = roundCurrency (teRequestedAmount event), fxRealizedAmount = roundCurrency (teRealizedAmount event)\<rparr>"

definition note_unmatched :: "TransactionEvent \<Rightarrow> flowState \<Rightarrow> flowState" where
  "note_unmatched event s =
     (let realized = roundCurrency (teRealizedAmount event); r = gzReconciliation s; t = gzTotals s
      in s\<lparr>gzReconciliation := r\<lparr>frcUnmatchedEvents := frcUnmatchedEvents r + 1\<rparr>,
           gzTotals := t\<lparr>ftUnmatched := roundCurrency (ftUnmatched t + realized)\<rparr>,
           gzUnmatched := gzUnmatched s @
             [\<lparr>umTransactionID = teTransactionID event, umDate = teDate event, umSequence = teSequence event,
               umRealizedAmount = realized\<rparr>]\<rparr>)"

definition in_class :: "string \<Rightarrow> (FlowClassTotals \<Rightarrow> FlowClassTotals) \<Rightarrow> flowState \<Rightarrow> flowState" where
  "in_class movement f s =
     s\<lparr>gzTotals := (if movement = FlowMovementProjected
       then (gzTotals s)\<lparr>ftProjected := f (ftProjected (gzTotals s))\<rparr>
       else (gzTotals s)\<lparr>ftActual := f (ftActual (gzTotals s))\<rparr>)\<rparr>"

definition inflow_event :: "Transaction \<Rightarrow> string \<Rightarrow> TransactionEvent \<Rightarrow> flowState \<Rightarrow> flowState" where
  "inflow_event transaction movement event s =
     (let realized = roundCurrency (teRealizedAmount event); r = gzReconciliation s;
          s = in_class movement (\<lambda>c. c\<lparr>flInflow := roundCurrency (flInflow c + realized)\<rparr>)
            (s\<lparr>gzReconciliation := r\<lparr>frcEventsInflow := roundCurrency (frcEventsInflow r + realized)\<rparr>\<rparr>);
          s = foldl (\<lambda>s d. addFlow FlowNodeIDExternal (deAccountID d) (roundCurrency (deDelta d)) FlowKindInflow movement
            (flow_record event) s) s (teAccountDeltas event)
      in if teAccountDeltas event = [] \<and> \<not> feq realized 0 \<and> destinations transaction \<noteq> []
         then addFlow FlowNodeIDExternal (hd (destinations transaction)) realized FlowKindInflow movement (flow_record event) s
         else s)"

definition outflow_event :: "string \<Rightarrow> string \<Rightarrow> TransactionEvent \<Rightarrow> flowState \<Rightarrow> flowState" where
  "outflow_event source movement event s =
     (let realized = roundCurrency (teRealizedAmount event); r = gzReconciliation s;
          s = in_class movement (\<lambda>c. c\<lparr>flOutflow := roundCurrency (flOutflow c + realized)\<rparr>)
            (s\<lparr>gzReconciliation := r\<lparr>frcEventsOutflow := roundCurrency (frcEventsOutflow r + realized)\<rparr>\<rparr>)
      in addFlow source FlowNodeIDExternal realized FlowKindOutflow movement (flow_record event) s)"

definition transfer_event :: "string \<Rightarrow> Transaction \<Rightarrow> string \<Rightarrow> TransactionEvent \<Rightarrow> flowState \<Rightarrow> flowState" where
  "transfer_event source transaction movement event s =
     (let realized = roundCurrency (teRealizedAmount event); r = gzReconciliation s;
          s = in_class movement (\<lambda>c. c\<lparr>flTransfer := roundCurrency (flTransfer c + realized)\<rparr>)
            (s\<lparr>gzReconciliation := r\<lparr>frcEventsTransfer := roundCurrency (frcEventsTransfer r + realized)\<rparr>\<rparr>);
          s = foldl (\<lambda>s d. if deDelta d \<le> 0 then s
            else addFlow source (deAccountID d) (roundCurrency (deDelta d)) FlowKindTransfer movement (flow_record event) s)
            s (teAccountDeltas event)
      in if teAccountDeltas event = [] \<and> \<not> feq realized 0 \<and> destinations transaction \<noteq> []
         then addFlow source (hd (destinations transaction)) realized FlowKindTransfer movement (flow_record event) s
         else s)"

definition flow_event ::
  "Transaction gomap \<Rightarrow> string set \<Rightarrow> string \<Rightarrow> string \<Rightarrow> flowState \<Rightarrow> TransactionEvent \<Rightarrow> flowState" where
  "flow_event transactionByID ruleIDs startDate endDate s event =
     (if \<not> in_flow_window startDate endDate (teDate event) then s
      else
        let r = gzReconciliation s; s = s\<lparr>gzReconciliation := r\<lparr>frcWindowEvents := frcWindowEvents r + 1\<rparr>\<rparr>
        in case Mapping.lookup transactionByID (teTransactionID event) of
             None \<Rightarrow> note_unmatched event s
           | Some transaction \<Rightarrow>
               let r = gzReconciliation s; s = s\<lparr>gzReconciliation := r\<lparr>frcClassifiedEvents := frcClassifiedEvents r + 1\<rparr>\<rparr>;
                   movement = (if teTransactionID event \<in> ruleIDs then FlowMovementProjected else FlowMovementActual);
                   source = (case trSourceAccountID transaction of None \<Rightarrow> '''' | Some i \<Rightarrow> i)
               in if IsExternalInflow transaction then inflow_event transaction movement event s
                  else if IsExternalOutflow transaction then outflow_event source movement event s
                  else if IsInternalTransfer transaction then transfer_event source transaction movement event s
                  else note_unmatched event s)"

definition note_correction :: "string \<Rightarrow> flowState \<Rightarrow> CheckpointCorrection \<Rightarrow> flowState" where
  "note_correction date s correction =
     (let adjustment = roundCurrency (ccAdjustment correction); r = gzReconciliation s; t = gzTotals s
      in s\<lparr>gzReconciliation := r\<lparr>frcCorrectionsCount := frcCorrectionsCount r + 1\<rparr>,
           gzTotals := t\<lparr>ftUnobserved := roundCurrency (ftUnobserved t + adjustment)\<rparr>,
           gzUnobserved := gzUnobserved s @
             [\<lparr>ubAccountID = ccAccountID correction, ubDate = date,
               ubObservedBalance = roundCurrency (ccObservedBalance correction),
               ubModeledBalance = roundCurrency (ccModeledBalance correction), ubAdjustment = adjustment\<rparr>]\<rparr>)"

definition row_corrections :: "string \<Rightarrow> string \<Rightarrow> flowState \<Rightarrow> ProjectionRow \<Rightarrow> flowState" where
  "row_corrections startDate endDate s row =
     (if \<not> in_flow_window startDate endDate (rwDate row) then s
      else foldl (note_correction (rwDate row)) s (rwCheckpointCorrections row))"

section \<open>The graph\<close>

definition no_class_totals :: FlowClassTotals where
  "no_class_totals = \<lparr>flInflow = 0, flOutflow = 0, flTransfer = 0\<rparr>"

definition flow_start :: "Account list \<Rightarrow> flowState" where
  "flow_start accounts =
     \<lparr>gzNodes = ensure_node FlowNodeIDExternal ''External'' True True
        (foldl (\<lambda>nodes a. ensure_node (acID a) (acName a) False (acEnabled a) nodes) Mapping.empty accounts),
      gzEdges = Mapping.empty,
      gzReconciliation =
        \<lparr>frcWindowEvents = 0, frcClassifiedEvents = 0, frcUnmatchedEvents = 0, frcEventsInflow = 0, frcEventsOutflow = 0,
         frcEventsTransfer = 0, frcEdgesInflow = 0, frcEdgesOutflow = 0, frcEdgesTransfer = 0, frcCorrectionsCount = 0,
         frcUnobservedSum = 0, frcReconciled = False\<rparr>,
      gzTotals = \<lparr>ftActual = no_class_totals, ftProjected = no_class_totals, ftUnmatched = 0, ftUnobserved = 0\<rparr>,
      gzUnmatched = [], gzUnobserved = []\<rparr>"

definition by_date_and_sequence :: "('a \<Rightarrow> string) \<Rightarrow> ('a \<Rightarrow> int) \<Rightarrow> 'a \<Rightarrow> 'a \<Rightarrow> bool" where
  "by_date_and_sequence date n a b = (if date a \<noteq> date b then date a < date b else n a < n b)"

definition edge_less :: "FlowEdge \<Rightarrow> FlowEdge \<Rightarrow> bool" where
  "edge_less a b =
     (if fgFrom a \<noteq> fgFrom b then fgFrom a < fgFrom b
      else if fgTo a \<noteq> fgTo b then fgTo a < fgTo b
      else if fgKind a \<noteq> fgKind b then fgKind a < fgKind b
      else fgMovement a < fgMovement b)"

definition unobserved_less :: "FlowUnobservedCorrection \<Rightarrow> FlowUnobservedCorrection \<Rightarrow> bool" where
  "unobserved_less a b = (if ubDate a \<noteq> ubDate b then ubDate a < ubDate b else ubAccountID a < ubAccountID b)"

definition summed_kind :: "FlowEdge list \<Rightarrow> string \<Rightarrow> f64" where
  "summed_kind edges kind =
     foldl (\<lambda>sum edge. if fgKind edge = kind then roundCurrency (sum + fgAmount edge) else sum) 0 edges"

definition flow_coverage :: "FinancialModel \<Rightarrow> int \<Rightarrow> FlowCoverage" where
  "flow_coverage model windowEndInstant =
     (let observed = ckAccountID ` set (filter (\<lambda>c. ckObservedAt c \<le> windowEndInstant) (fmCheckpoints model));
          enabled = map acID (filter acEnabled (fmAccounts model))
      in \<lparr>fvObservedAccounts = sort_by (<) (filter (\<lambda>i. i \<in> observed) enabled),
          fvUnobservedAccounts = sort_by (<) (filter (\<lambda>i. i \<notin> observed) enabled)\<rparr>)"

definition edge_list :: "((flowEdgeKey, FlowEdge) mapping \<Rightarrow> flowEdgeKey list) \<Rightarrow> (flowEdgeKey, FlowEdge) mapping \<Rightarrow> FlowEdge list" where
  "edge_list visit edges =
     map (\<lambda>e. e\<lparr>fgSources := sort_by (by_date_and_sequence fxDate fxSequence) (fgSources e)\<rparr>)
       (List.map_filter (Mapping.lookup edges) (visit edges))"

definition reconcile :: "FlowTotals \<Rightarrow> FlowEdge list \<Rightarrow> FlowReconciliation \<Rightarrow> FlowReconciliation" where
  "reconcile totals edges r =
     r\<lparr>frcUnobservedSum := ftUnobserved totals,
       frcEdgesInflow := roundCurrency (flInflow (ftActual totals) + flInflow (ftProjected totals)),
       frcEdgesOutflow := roundCurrency (flOutflow (ftActual totals) + flOutflow (ftProjected totals)),
       frcEdgesTransfer := roundCurrency (flTransfer (ftActual totals) + flTransfer (ftProjected totals)),
       frcReconciled := feq (frcEventsInflow r) (summed_kind edges FlowKindInflow) \<and>
         feq (frcEventsOutflow r) (summed_kind edges FlowKindOutflow) \<and>
         feq (frcEventsTransfer r) (summed_kind edges FlowKindTransfer)\<rparr>"

definition flow_graph ::
  "((flowEdgeKey, FlowEdge) mapping \<Rightarrow> flowEdgeKey list) \<Rightarrow> FinancialModel \<Rightarrow> string \<Rightarrow> string \<Rightarrow> int \<Rightarrow> flowState \<Rightarrow> FlowGraph" where
  "flow_graph visit model startDate endDate windowEndInstant s =
     (let edges = edge_list visit (gzEdges s)
      in \<lparr>ggStartDate = startDate, ggEndDate = endDate,
          ggNodes = List.map_filter (Mapping.lookup (gzNodes s)) (Mapping.ordered_keys (gzNodes s)),
          ggEdges = sort_by edge_less edges,
          ggUnmatched = sort_by (by_date_and_sequence umDate umSequence) (gzUnmatched s),
          ggUnobserved = sort_by unobserved_less (gzUnobserved s),
          ggCoverage = flow_coverage model windowEndInstant,
          ggTotals = gzTotals s,
          ggReconciliation = reconcile (gzTotals s) edges (gzReconciliation s)\<rparr>)"

definition flow_events ::
  "FinancialModel \<Rightarrow> TransactionEvent list \<Rightarrow> ProjectionRow list \<Rightarrow> string \<Rightarrow> string \<Rightarrow> flowState" where
  "flow_events model movements rows startDate endDate =
     (let transactionByID = foldl (\<lambda>m t. Mapping.update (trID t) t m) Mapping.empty (ResolvedTransactionTransactions model);
          ruleIDs = set (map scID (fmSchedules model))
      in foldl (row_corrections startDate endDate)
           (foldl (flow_event transactionByID ruleIDs startDate endDate) (flow_start (fmAccounts model)) movements) rows)"

definition BuildFlowGraph ::
  "((flowEdgeKey, FlowEdge) mapping \<Rightarrow> flowEdgeKey list) \<Rightarrow> (f64 \<Rightarrow> f64 \<Rightarrow> f64) \<Rightarrow> FinancialModel \<Rightarrow> TransactionEvent list \<Rightarrow>
   ProjectionRow list \<Rightarrow> string \<Rightarrow> string \<Rightarrow> (string + FlowGraph) option" where
  "BuildFlowGraph visit pow model events rows startDate endDate =
     (if \<not> IsValidIsoDate startDate \<or> \<not> IsValidIsoDate endDate then Some (Inl ''flow window dates must be YYYY-MM-DD'')
      else if 0 < CompareIsoDates startDate endDate
      then Some (Inl ''flow window startDate must not be after endDate'')
      else do {
        settled \<leftarrow> settledHistoryEvents pow model (ResolvedTransactionTransactions model) (set (map scID (fmSchedules model)))
          events rows startDate endDate;
        windowEndInstant \<leftarrow> dayCloseUnix endDate;
        Some (Inr (flow_graph visit model startDate endDate windowEndInstant
          (flow_events model (events @ settled) rows startDate endDate)))
      })"

end
