(* ===== verification/Flow_Properties.thy ===== *)
theory Flow_Properties
  imports Flow_Graph Simulation_Properties "HOL-Library.Product_Lexorder"
begin

text \<open>
  What the flow graph says of the events: its amounts are whole, so that neither the order of the map nor
  rounding shows in a sum, every edge carries the shares that were routed along it, and the two sides of the
  reconciliation agree when every event's shares add up to what it moved.
\<close>

section \<open>Shares\<close>

definition units :: "f64 \<Rightarrow> int" where
  "units v = (case v of FNum a \<Rightarrow> round_half_away a | _ \<Rightarrow> 0)"

lemma units_whole: "\<not> isNonFinite v \<Longrightarrow> whole (roundCurrency v) (units v)"
  by (cases v) (simp_all add: roundCurrency_def units_def whole_def isNonFinite_def)

text \<open>The shares of an event, with the edge each of them goes along; no share for an event that is not classified.\<close>

definition delta_shares :: "string \<Rightarrow> Transaction \<Rightarrow> (AccountDeltaEntry \<Rightarrow> bool) \<Rightarrow> string \<Rightarrow> string \<Rightarrow> TransactionEvent \<Rightarrow>
    (flowEdgeKey \<times> int) list" where
  "delta_shares source t P kind movement event =
     (if teAccountDeltas event = []
      then (if destinations t = [] then [] else [((source, hd (destinations t), kind, movement), units (teRealizedAmount event))])
      else map (\<lambda>d. ((source, deAccountID d, kind, movement), units (deDelta d))) (filter P (teAccountDeltas event)))"

definition event_shares :: "Transaction \<Rightarrow> string \<Rightarrow> TransactionEvent \<Rightarrow> (flowEdgeKey \<times> int) list" where
  "event_shares t movement event =
     (let source = (case trSourceAccountID t of None \<Rightarrow> '''' | Some i \<Rightarrow> i)
      in if IsExternalInflow t then delta_shares FlowNodeIDExternal t (\<lambda>d. True) FlowKindInflow movement event
         else if IsExternalOutflow t
         then [((source, FlowNodeIDExternal, FlowKindOutflow, movement), units (teRealizedAmount event))]
         else if IsInternalTransfer t
         then delta_shares source t (\<lambda>d. \<not> deDelta d \<le> 0) FlowKindTransfer movement event
         else [])"

definition share_sum :: "(flowEdgeKey \<times> int) list \<Rightarrow> (flowEdgeKey \<Rightarrow> bool) \<Rightarrow> int" where
  "share_sum shares P = sum_list (map snd (filter (\<lambda>x. P (fst x)) shares))"

definition share_mass :: "(flowEdgeKey \<times> int) list \<Rightarrow> int" where
  "share_mass shares = sum_list (map (\<lambda>x. \<bar>snd x\<bar>) shares)"

lemma share_sum_simps [simp]:
  "share_sum [] P = 0" "share_sum (xs @ ys) P = share_sum xs P + share_sum ys P"
  "share_sum (x # xs) P = (if P (fst x) then snd x else 0) + share_sum xs P"
  by (simp_all add: share_sum_def)

lemma share_mass_simps [simp]:
  "share_mass [] = 0" "share_mass (xs @ ys) = share_mass xs + share_mass ys" "share_mass (x # xs) = \<bar>snd x\<bar> + share_mass xs"
  by (simp_all add: share_mass_def)

lemma share_mass_nonneg [simp]: "0 \<le> share_mass xs"
  by (induction xs) auto

lemma share_sum_bound: "\<bar>share_sum xs P\<bar> \<le> share_mass xs"
  by (induction xs) auto

section \<open>The edges hold the shares\<close>

definition edge_key :: "FlowEdge \<Rightarrow> flowEdgeKey" where
  "edge_key e = (fgFrom e, fgTo e, fgKind e, fgMovement e)"

definition edge_holds :: "(flowEdgeKey, FlowEdge) mapping \<Rightarrow> (flowEdgeKey \<times> int) list \<Rightarrow> flowEdgeKey \<Rightarrow> bool" where
  "edge_holds edges shares key =
     (case Mapping.lookup edges key of
        None \<Rightarrow> \<forall>x\<in>set shares. fst x = key \<longrightarrow> snd x = 0
      | Some e \<Rightarrow> edge_key e = key \<and> whole (fgAmount e) (share_sum shares ((=) key)))"

definition edges_hold :: "(flowEdgeKey, FlowEdge) mapping \<Rightarrow> (flowEdgeKey \<times> int) list \<Rightarrow> bool" where
  "edges_hold edges shares \<longleftrightarrow> finite (Mapping.keys edges) \<and> (\<forall>key. edge_holds edges shares key)"

lemma edges_hold_start: "edges_hold Mapping.empty []"
  by (simp add: edges_hold_def edge_holds_def)

lemma no_share: "\<forall>x\<in>set shares. fst x = key \<longrightarrow> snd x = 0 \<Longrightarrow> share_sum shares ((=) key) = 0"
  by (induction shares) auto

lemma edge_holds_other:
  assumes "k = key \<Longrightarrow> n = 0" "Mapping.lookup edges' k = Mapping.lookup edges k"
  shows "edge_holds edges' (shares @ [(key, n)]) k = edge_holds edges shares k"
  using assms by (auto simp: edge_holds_def split: option.splits)

lemma addFlow_edges:
  assumes edges: "edges_hold (gzEdges s) shares" and n: "whole amount n"
    and mass: "share_mass shares + \<bar>n\<bar> \<le> 2 ^ 53"
  shows "edges_hold (gzEdges (addFlow source target amount kind movement x s)) (shares @ [((source, target, kind, movement), n)])"
proof (cases "n = 0")
  case True
  then have "addFlow source target amount kind movement x s = s"
    using n by (simp add: addFlow_def whole_def zero_f64_def feq_def)
  then show ?thesis using edges True by (simp add: edges_hold_def edge_holds_other del: split_paired_All)
next
  case False
  define key where "key = (source, target, kind, movement)"
  define e where "e = (case Mapping.lookup (gzEdges s) key of Some e \<Rightarrow> e
    | None \<Rightarrow> \<lparr>fgFrom = source, fgTo = target, fgKind = kind, fgMovement = movement, fgAmount = 0, fgSources = []\<rparr>)"
  have "edge_holds (gzEdges s) shares key" using edges by (simp add: edges_hold_def del: split_paired_All)
  then have e: "edge_key e = key" "whole (fgAmount e) (share_sum shares ((=) key))"
    by (auto simp: edge_holds_def e_def edge_key_def key_def no_share split: option.splits)
  let ?e = "e\<lparr>fgAmount := roundCurrency (fgAmount e + amount), fgSources := fgSources e @ [x]\<rparr>"
  have small: "\<bar>share_sum shares ((=) key) + n\<bar> \<le> 2 ^ 53"
    using share_sum_bound [of shares "(=) key"] mass by linarith
  have "whole (fgAmount e + amount) (share_sum shares ((=) key) + n)"
    using e(2) n small by (rule whole_add)
  then have e': "edge_key ?e = key" "whole (fgAmount ?e) (share_sum shares ((=) key) + n)"
    using e(1) by (simp_all add: edge_key_def roundCurrency_def math_Round_whole)
  have lookup: "Mapping.lookup (gzEdges (addFlow source target amount kind movement x s)) k =
      (if k = key then Some ?e else Mapping.lookup (gzEdges s) k)" for k
    using n False
    by (auto simp: addFlow_def Let_def change_at_def ensure_edge_def lookup_update' key_def e_def whole_def zero_f64_def feq_def
        split: option.splits)
  have "Mapping.keys (gzEdges (addFlow source target amount kind movement x s)) = insert key (Mapping.keys (gzEdges s))"
    by (auto simp: keys_dom_lookup lookup split: if_splits)
  moreover have "edge_holds (gzEdges (addFlow source target amount kind movement x s)) (shares @ [(key, n)]) k" for k
  proof (cases "k = key")
    case True
    then show ?thesis using e' by (simp add: edge_holds_def lookup)
  next
    case False
    then show ?thesis using edges edge_holds_other [of k key n] lookup
      by (simp add: edges_hold_def del: split_paired_All)
  qed
  ultimately show ?thesis using edges by (simp add: edges_hold_def key_def del: split_paired_All)
qed

lemma addFlow_other [simp]:
  "gzReconciliation (addFlow source target amount kind movement x s) = gzReconciliation s"
  by (simp add: addFlow_def Let_def)

lemma addFlows_other [simp]:
  "gzReconciliation (foldl (\<lambda>s d. addFlow source (f d) (g d) kind movement x s) s ds) = gzReconciliation s"
  "gzReconciliation (foldl (\<lambda>s d. if P d then s else addFlow source (f d) (g d) kind movement x s) s ds) = gzReconciliation s"
  by (induction ds arbitrary: s) auto

lemma negated_if: "(if \<not> P then a else b) = (if P then b else a)"
  by simp

lemma addFlows_edges:
  assumes "edges_hold (gzEdges s) shares" "\<forall>d\<in>set ds. \<not> isNonFinite (deDelta d)"
    and "share_mass (shares @ map (\<lambda>d. ((source, deAccountID d, kind, movement), units (deDelta d))) (filter P ds)) \<le> 2 ^ 53"
  shows "edges_hold (gzEdges (foldl (\<lambda>s d. if P d
      then addFlow source (deAccountID d) (roundCurrency (deDelta d)) kind movement x s else s) s ds))
      (shares @ map (\<lambda>d. ((source, deAccountID d, kind, movement), units (deDelta d))) (filter P ds))"
  using assms
proof (induction ds arbitrary: s shares)
  case (Cons d ds)
  show ?case
  proof (cases "P d")
    case True
    let ?s = "addFlow source (deAccountID d) (roundCurrency (deDelta d)) kind movement x s"
      and ?shares = "shares @ [((source, deAccountID d, kind, movement), units (deDelta d))]"
    have "share_mass shares + \<bar>units (deDelta d)\<bar> \<le> 2 ^ 53"
      using Cons.prems(3) True
      by simp (use share_mass_nonneg [of "map (\<lambda>d. ((source, deAccountID d, kind, movement), units (deDelta d))) (filter P ds)"]
        in linarith)
    then have "edges_hold (gzEdges ?s) ?shares"
      using Cons.prems(1,2) by (intro addFlow_edges units_whole) simp_all
    from Cons.IH [OF this] Cons.prems True show ?thesis by simp
  qed (use Cons in simp)
qed simp

section \<open>Events\<close>

text \<open>The class of an event: the field of the reconciliation it is added to.\<close>

definition kind_total :: "string \<Rightarrow> FlowReconciliation \<Rightarrow> f64" where
  "kind_total kind r =
     (if kind = FlowKindInflow then frcEventsInflow r
      else if kind = FlowKindOutflow then frcEventsOutflow r else frcEventsTransfer r)"

definition event_kind :: "Transaction \<Rightarrow> string option" where
  "event_kind t =
     (if IsExternalInflow t then Some FlowKindInflow else if IsExternalOutflow t then Some FlowKindOutflow
      else if IsInternalTransfer t then Some FlowKindTransfer else None)"

text \<open>An event whose shares are finite and add up to what it realized.\<close>

definition even_event :: "Transaction \<Rightarrow> TransactionEvent \<Rightarrow> bool" where
  "even_event t event \<longleftrightarrow> \<not> isNonFinite (teRealizedAmount event) \<and>
     (\<forall>d\<in>set (teAccountDeltas event). \<not> isNonFinite (deDelta d)) \<and>
     (event_kind t \<noteq> None \<longrightarrow> share_sum (event_shares t '''' event) (\<lambda>_. True) = units (teRealizedAmount event))"

lemma kinds_distinct [simp]:
  "FlowKindInflow \<noteq> FlowKindOutflow" "FlowKindInflow \<noteq> FlowKindTransfer" "FlowKindOutflow \<noteq> FlowKindTransfer"
  "FlowKindOutflow \<noteq> FlowKindInflow" "FlowKindTransfer \<noteq> FlowKindInflow" "FlowKindTransfer \<noteq> FlowKindOutflow"
  by (simp_all add: FlowKindInflow_def FlowKindOutflow_def FlowKindTransfer_def)

lemma in_class_other [simp]:
  "gzEdges (in_class movement f s) = gzEdges s" "gzReconciliation (in_class movement f s) = gzReconciliation s"
  by (simp_all add: in_class_def)

lemma delta_shares_step:
  assumes "edges_hold (gzEdges s) shares" "\<not> isNonFinite (teRealizedAmount event)"
    and "\<forall>d\<in>set (teAccountDeltas event). \<not> isNonFinite (deDelta d)"
    and mass: "share_mass (shares @ delta_shares source t P kind movement event) \<le> 2 ^ 53"
    and s': "s' = foldl (\<lambda>s d. if P d
      then addFlow source (deAccountID d) (roundCurrency (deDelta d)) kind movement x s else s) s (teAccountDeltas event)"
  shows "edges_hold (gzEdges (if teAccountDeltas event = [] \<and> \<not> feq (roundCurrency (teRealizedAmount event)) 0 \<and> destinations t \<noteq> []
      then addFlow source (hd (destinations t)) (roundCurrency (teRealizedAmount event)) kind movement x s' else s'))
      (shares @ delta_shares source t P kind movement event)" (is "edges_hold (gzEdges ?s) _")
  proof (cases "teAccountDeltas event = []")
    case True
    note w = units_whole [OF assms(2)]
    have "?s = (if destinations t = [] then s
      else addFlow source (hd (destinations t)) (roundCurrency (teRealizedAmount event)) kind movement x s)"
      using True s' by (auto simp: addFlow_def)
    then show ?thesis
      using addFlow_edges [OF assms(1) w] mass assms(1) True by (auto simp: delta_shares_def split: if_splits)
  next
    case False
    then show ?thesis
      using addFlows_edges [OF assms(1,3), of source kind movement P x] mass s'
      by (auto simp: delta_shares_def split: if_splits)
  qed

text \<open>The shares of an event by kind.\<close>

definition kind_is :: "string \<Rightarrow> flowEdgeKey \<Rightarrow> bool" where
  "kind_is c key \<longleftrightarrow> fst (snd (snd key)) = c"

lemma share_sum_map:
  "share_sum (map (\<lambda>d. ((source, f d, kind, movement), g d)) ds) (kind_is c) = (if kind = c then sum_list (map g ds) else 0)"
  "share_sum (map (\<lambda>d. ((source, f d, kind, movement), g d)) ds) (\<lambda>_. True) = sum_list (map g ds)"
  by (induction ds) (simp_all add: kind_is_def)

lemma event_shares_kind:
  assumes "even_event t event"
  shows "share_sum (event_shares t movement event) (kind_is c) = (if event_kind t = Some c then units (teRealizedAmount event) else 0)"
proof (cases "event_kind t")
  case None
  then show ?thesis by (auto simp: event_shares_def event_kind_def split: if_splits)
next
  case (Some k)
  then have "share_sum (event_shares t '''' event) (\<lambda>_. True) = units (teRealizedAmount event)"
    using assms by (simp add: even_event_def)
  then show ?thesis using Some
    by (auto simp: event_shares_def event_kind_def delta_shares_def share_sum_map kind_is_def Let_def split: if_splits)
qed

definition placed :: "Transaction gomap \<Rightarrow> string \<Rightarrow> string \<Rightarrow> TransactionEvent \<Rightarrow> Transaction option" where
  "placed transactionByID startDate endDate event =
     (if in_flow_window startDate endDate (teDate event) then Mapping.lookup transactionByID (teTransactionID event) else None)"

definition keyed_shares ::
  "Transaction gomap \<Rightarrow> string set \<Rightarrow> string \<Rightarrow> string \<Rightarrow> TransactionEvent \<Rightarrow> (flowEdgeKey \<times> int) list" where
  "keyed_shares transactionByID ruleIDs startDate endDate event =
     (case placed transactionByID startDate endDate event of
        None \<Rightarrow> []
      | Some t \<Rightarrow> event_shares t (if teTransactionID event \<in> ruleIDs then FlowMovementProjected else FlowMovementActual) event)"

abbreviation flow_kinds :: "string set" where
  "flow_kinds \<equiv> {FlowKindInflow, FlowKindOutflow, FlowKindTransfer}"

definition flow_holds :: "flowState \<Rightarrow> (flowEdgeKey \<times> int) list \<Rightarrow> bool" where
  "flow_holds s shares \<longleftrightarrow> edges_hold (gzEdges s) shares \<and>
     (\<forall>c\<in>flow_kinds. whole (kind_total c (gzReconciliation s)) (share_sum shares (kind_is c)))"

lemma note_unmatched_other [simp]:
  "gzEdges (note_unmatched event s) = gzEdges s" "kind_total c (gzReconciliation (note_unmatched event s)) = kind_total c (gzReconciliation s)"
    "frcEventsInflow (gzReconciliation (note_unmatched event s)) = frcEventsInflow (gzReconciliation s)"
    "frcEventsOutflow (gzReconciliation (note_unmatched event s)) = frcEventsOutflow (gzReconciliation s)"
    "frcEventsTransfer (gzReconciliation (note_unmatched event s)) = frcEventsTransfer (gzReconciliation s)"
  by (simp_all add: note_unmatched_def Let_def kind_total_def)

lemma inflow_event_step:
  assumes "edges_hold (gzEdges s) shares" "\<not> isNonFinite (teRealizedAmount event)"
    and "\<forall>d\<in>set (teAccountDeltas event). \<not> isNonFinite (deDelta d)"
    and "share_mass (shares @ delta_shares FlowNodeIDExternal t (\<lambda>d. True) FlowKindInflow movement event) \<le> 2 ^ 53"
  shows "edges_hold (gzEdges (inflow_event t movement event s))
      (shares @ delta_shares FlowNodeIDExternal t (\<lambda>d. True) FlowKindInflow movement event)"
proof -
  let ?s = "in_class movement (\<lambda>c. c\<lparr>flInflow := roundCurrency (flInflow c + roundCurrency (teRealizedAmount event))\<rparr>)
      (s\<lparr>gzReconciliation := (gzReconciliation s)
        \<lparr>frcEventsInflow := roundCurrency (frcEventsInflow (gzReconciliation s) + roundCurrency (teRealizedAmount event))\<rparr>\<rparr>)"
  have "edges_hold (gzEdges ?s) shares" using assms(1) by simp
  note step = delta_shares_step [OF this assms(2-4) refl, of "flow_record event"]
  show "edges_hold (gzEdges (inflow_event t movement event s))
      (shares @ delta_shares FlowNodeIDExternal t (\<lambda>d. True) FlowKindInflow movement event)"
    using step by (simp only: inflow_event_def Let_def if_True)
qed

lemma transfer_event_step:
  assumes "edges_hold (gzEdges s) shares" "\<not> isNonFinite (teRealizedAmount event)"
    and "\<forall>d\<in>set (teAccountDeltas event). \<not> isNonFinite (deDelta d)"
    and "share_mass (shares @ delta_shares source t (\<lambda>d. \<not> deDelta d \<le> 0) FlowKindTransfer movement event) \<le> 2 ^ 53"
  shows "edges_hold (gzEdges (transfer_event source t movement event s))
      (shares @ delta_shares source t (\<lambda>d. \<not> deDelta d \<le> 0) FlowKindTransfer movement event)"
proof -
  let ?s = "in_class movement (\<lambda>c. c\<lparr>flTransfer := roundCurrency (flTransfer c + roundCurrency (teRealizedAmount event))\<rparr>)
      (s\<lparr>gzReconciliation := (gzReconciliation s)
        \<lparr>frcEventsTransfer := roundCurrency (frcEventsTransfer (gzReconciliation s) + roundCurrency (teRealizedAmount event))\<rparr>\<rparr>)"
  have "edges_hold (gzEdges ?s) shares" using assms(1) by simp
  note step = delta_shares_step [OF this assms(2-4) refl, of "flow_record event"]
  show "edges_hold (gzEdges (transfer_event source t movement event s))
      (shares @ delta_shares source t (\<lambda>d. \<not> deDelta d \<le> 0) FlowKindTransfer movement event)"
    using step by (simp only: transfer_event_def Let_def negated_if)
qed

lemma outflow_event_step:
  assumes "edges_hold (gzEdges s) shares" "\<not> isNonFinite (teRealizedAmount event)"
    and "share_mass shares + \<bar>units (teRealizedAmount event)\<bar> \<le> 2 ^ 53"
  shows "edges_hold (gzEdges (outflow_event source movement event s))
      (shares @ [((source, FlowNodeIDExternal, FlowKindOutflow, movement), units (teRealizedAmount event))])"
  unfolding outflow_event_def Let_def
  by (rule addFlow_edges [OF _ units_whole [OF assms(2)] assms(3)]) (simp_all add: assms(1))

lemma class_step:
  assumes "flow_holds s shares" "even_event t event" "event_kind t = Some kind"
    and mass: "share_mass shares + share_mass (event_shares t movement event) \<le> 2 ^ 53"
    and edges: "edges_hold (gzEdges s') (shares @ event_shares t movement event)"
    and totals: "\<And>c. c \<in> flow_kinds \<Longrightarrow> kind_total c (gzReconciliation s') =
      (if c = kind then roundCurrency (kind_total c (gzReconciliation s) + roundCurrency (teRealizedAmount event))
       else kind_total c (gzReconciliation s))"
  shows "flow_holds s' (shares @ event_shares t movement event)"
proof -
  have "whole (kind_total c (gzReconciliation s')) (share_sum (shares @ event_shares t movement event) (kind_is c))"
    if c: "c \<in> flow_kinds" for c
  proof -
    have old: "whole (kind_total c (gzReconciliation s)) (share_sum shares (kind_is c))"
      using assms(1) c unfolding flow_holds_def by blast
    show ?thesis
    proof (cases "c = kind")
    case True
    have "\<not> isNonFinite (teRealizedAmount event)" using assms(2) by (simp add: even_event_def)
    note w = whole_add [OF old units_whole [OF this]]
    have "\<bar>share_sum shares (kind_is c) + units (teRealizedAmount event)\<bar> \<le> 2 ^ 53"
      using share_sum_bound [of "shares @ event_shares t movement event" "kind_is c"] mass True
      by (simp add: event_shares_kind [OF assms(2)] assms(3))
    from w [OF this] show ?thesis
      unfolding totals [OF c] using True by (simp add: event_shares_kind [OF assms(2)] assms(3) roundCurrency_def math_Round_whole)
  next
    case False
    then show ?thesis
      unfolding totals [OF c] using old assms(3) by (simp add: event_shares_kind [OF assms(2)])
  qed
  qed
  with edges show ?thesis unfolding flow_holds_def by blast
qed

lemma flow_event_step:
  assumes holds: "flow_holds s shares"
    and even: "\<And>t. placed transactionByID startDate endDate event = Some t \<Longrightarrow> even_event t event"
    and mass: "share_mass shares + share_mass (keyed_shares transactionByID ruleIDs startDate endDate event) \<le> 2 ^ 53"
  shows "flow_holds (flow_event transactionByID ruleIDs startDate endDate s event)
    (shares @ keyed_shares transactionByID ruleIDs startDate endDate event)"
proof (cases "placed transactionByID startDate endDate event")
  case None
  then show ?thesis
    using holds by (auto simp: flow_event_def placed_def keyed_shares_def flow_holds_def Let_def kind_total_def split: if_splits)
next
  case (Some t)
  define movement where "movement = (if teTransactionID event \<in> ruleIDs then FlowMovementProjected else FlowMovementActual)"
  define source where "source = (case trSourceAccountID t of None \<Rightarrow> '''' | Some i \<Rightarrow> i)"
  define r where "r = gzReconciliation s"
  define s1 where "s1 = s\<lparr>gzReconciliation := r\<lparr>frcWindowEvents := frcWindowEvents r + 1, frcClassifiedEvents := frcClassifiedEvents r + 1\<rparr>\<rparr>"
  have s1: "gzEdges s1 = gzEdges s" "kind_total c (gzReconciliation s1) = kind_total c (gzReconciliation s)" for c
    by (simp_all add: s1_def r_def kind_total_def)
  have e: "even_event t event" and shares: "keyed_shares transactionByID ruleIDs startDate endDate event = event_shares t movement event"
    using even Some by (simp_all add: keyed_shares_def movement_def)
  then have fin: "\<not> isNonFinite (teRealizedAmount event)" "\<forall>d\<in>set (teAccountDeltas event). \<not> isNonFinite (deDelta d)"
    by (auto simp: even_event_def)
  have step: "flow_event transactionByID ruleIDs startDate endDate s event =
      (if IsExternalInflow t then inflow_event t movement event s1
       else if IsExternalOutflow t then outflow_event source movement event s1
       else if IsInternalTransfer t then transfer_event source t movement event s1 else note_unmatched event s1)"
    using Some by (simp add: flow_event_def placed_def Let_def s1_def r_def movement_def source_def split: if_splits)
  have h: "edges_hold (gzEdges s1) shares" using holds by (simp add: flow_holds_def s1)
  note m = mass [unfolded shares]
  show ?thesis
  proof (cases "event_kind t")
    case None
    then show ?thesis
      using holds by (auto simp: step shares flow_holds_def s1 event_shares_def event_kind_def split: if_splits)
  next
    case (Some kind)
    have "flow_holds (if IsExternalInflow t then inflow_event t movement event s1
       else if IsExternalOutflow t then outflow_event source movement event s1
       else if IsInternalTransfer t then transfer_event source t movement event s1 else note_unmatched event s1)
      (shares @ event_shares t movement event)"
      (is "flow_holds ?s _")
    proof (rule class_step [OF holds e Some m])
      show "edges_hold (gzEdges ?s) (shares @ event_shares t movement event)"
        using inflow_event_step [OF h fin, of t movement] transfer_event_step [OF h fin, of source t movement]
          outflow_event_step [OF h fin(1), of source movement] m Some
        by (auto simp: event_shares_def event_kind_def Let_def simp flip: source_def split: if_splits)
      show "kind_total c (gzReconciliation ?s) =
        (if c = kind then roundCurrency (kind_total c (gzReconciliation s) + roundCurrency (teRealizedAmount event))
         else kind_total c (gzReconciliation s))" if "c \<in> flow_kinds" for c
      proof -
        have "gzReconciliation (inflow_event t movement event s1) = (gzReconciliation s1)
            \<lparr>frcEventsInflow := roundCurrency (frcEventsInflow (gzReconciliation s1) + roundCurrency (teRealizedAmount event))\<rparr>"
          "gzReconciliation (transfer_event source t movement event s1) = (gzReconciliation s1)
            \<lparr>frcEventsTransfer := roundCurrency (frcEventsTransfer (gzReconciliation s1) + roundCurrency (teRealizedAmount event))\<rparr>"
          "gzReconciliation (outflow_event source movement event s1) = (gzReconciliation s1)
            \<lparr>frcEventsOutflow := roundCurrency (frcEventsOutflow (gzReconciliation s1) + roundCurrency (teRealizedAmount event))\<rparr>"
          by (simp_all add: inflow_event_def transfer_event_def outflow_event_def Let_def)
        moreover have "frcEventsInflow (gzReconciliation s1) = frcEventsInflow (gzReconciliation s)"
          "frcEventsOutflow (gzReconciliation s1) = frcEventsOutflow (gzReconciliation s)"
          "frcEventsTransfer (gzReconciliation s1) = frcEventsTransfer (gzReconciliation s)"
          by (simp_all add: s1_def r_def)
        ultimately show ?thesis
          using Some that by (auto simp: event_kind_def kind_total_def split: if_splits)
      qed
    qed
    then show ?thesis by (simp add: step shares)
  qed
qed

lemma flow_events_hold:
  "flow_holds s shares \<Longrightarrow>
     \<forall>e\<in>set es. \<forall>t. placed transactionByID startDate endDate e = Some t \<longrightarrow> even_event t e \<Longrightarrow>
     share_mass shares + share_mass (concat (map (keyed_shares transactionByID ruleIDs startDate endDate) es)) \<le> 2 ^ 53 \<Longrightarrow>
     flow_holds (foldl (flow_event transactionByID ruleIDs startDate endDate) s es)
       (shares @ concat (map (keyed_shares transactionByID ruleIDs startDate endDate) es))"
proof (induction es arbitrary: s shares)
  case (Cons e es)
  let ?k = "keyed_shares transactionByID ruleIDs startDate endDate"
  have "share_mass shares + share_mass (?k e) \<le> 2 ^ 53"
    using Cons.prems(3) share_mass_nonneg [of "concat (map ?k es)"] unfolding list.map concat.simps share_mass_simps by linarith
  with Cons.prems(1,2) have "flow_holds (flow_event transactionByID ruleIDs startDate endDate s e) (shares @ ?k e)"
    by (intro flow_event_step) auto
  from Cons.IH [OF this] Cons.prems(2,3) show ?case by (simp add: add.assoc)
qed simp

lemma corrections_keep:
  "gzEdges (foldl (row_corrections startDate endDate) s rows) = gzEdges s"
  "kind_total c (gzReconciliation (foldl (row_corrections startDate endDate) s rows)) = kind_total c (gzReconciliation s)"
proof -
  have one: "gzEdges (foldl (note_correction date) s cs) = gzEdges s \<and>
      kind_total c (gzReconciliation (foldl (note_correction date) s cs)) = kind_total c (gzReconciliation s)" for date cs s
    by (induction cs arbitrary: s) (simp_all add: note_correction_def Let_def kind_total_def)
  have "gzEdges (foldl (row_corrections startDate endDate) s rows) = gzEdges s \<and>
      kind_total c (gzReconciliation (foldl (row_corrections startDate endDate) s rows)) = kind_total c (gzReconciliation s)"
    by (induction rows arbitrary: s) (simp_all add: row_corrections_def one)
  then show "gzEdges (foldl (row_corrections startDate endDate) s rows) = gzEdges s"
    "kind_total c (gzReconciliation (foldl (row_corrections startDate endDate) s rows)) = kind_total c (gzReconciliation s)"
    by blast+
qed

section \<open>Summing the edges in any order\<close>

lemma share_sum_split:
  assumes "distinct keys"
  shows "sum_list (map (\<lambda>key. share_sum shares ((=) key)) keys) = share_sum shares (\<lambda>key. key \<in> set keys)"
  using assms
proof (induction keys)
  case (Cons k keys)
  have "share_sum shares (\<lambda>key. key \<in> set (k # keys)) = share_sum shares ((=) k) + share_sum shares (\<lambda>key. key \<in> set keys)"
    using Cons.prems by (induction shares) auto
  with Cons show ?case by simp
qed (induction shares; simp)

lemma share_mass_split:
  assumes "distinct keys"
  shows "sum_list (map (\<lambda>key. \<bar>share_sum shares ((=) key)\<bar>) keys) \<le> share_mass shares"
proof (induction shares)
  case (Cons x shares)
  have "sum_list (map (\<lambda>key. \<bar>(if key = fst x then snd x else 0) + share_sum shares ((=) key)\<bar>) keys) \<le>
      sum_list (map (\<lambda>key. \<bar>if key = fst x then snd x else 0\<bar>) keys) + sum_list (map (\<lambda>key. \<bar>share_sum shares ((=) key)\<bar>) keys)"
    unfolding sum_list_addf [symmetric] by (intro sum_list_mono abs_triangle_ineq)
  moreover have "sum_list (map (\<lambda>key. \<bar>if key = fst x then snd x else 0\<bar>) keys) = (if fst x \<in> set keys then \<bar>snd x\<bar> else 0)"
    using assms by (induction keys) auto
  ultimately show ?case using Cons by (simp split: if_splits)
qed simp

lemma summed_kind_prefix:
  assumes "\<forall>key\<in>set keys. Mapping.lookup edges key \<noteq> None" "edges_hold edges shares"
  shows "whole a n \<Longrightarrow> \<bar>n\<bar> + sum_list (map (\<lambda>key. \<bar>share_sum shares ((=) key)\<bar>) keys) \<le> 2 ^ 53 \<Longrightarrow>
    whole (foldl (\<lambda>sum edge. if fgKind edge = kind then roundCurrency (sum + fgAmount edge) else sum) a
        (map (\<lambda>e. e\<lparr>fgSources := f e\<rparr>) (List.map_filter (Mapping.lookup edges) keys)))
      (n + sum_list (map (\<lambda>key. share_sum shares ((=) key)) (filter (kind_is kind) keys)))"
  using assms(1)
proof (induction keys arbitrary: a n)
  case (Cons k keys)
  obtain e where e: "Mapping.lookup edges k = Some e" using Cons.prems(3) by auto
  have "edge_holds edges shares k" using assms(2) by (simp add: edges_hold_def del: split_paired_All)
  then have k: "edge_key e = k" "whole (fgAmount e) (share_sum shares ((=) k))"
    by (simp_all add: edge_holds_def e)
  then have kind: "fgKind e = kind \<longleftrightarrow> kind_is kind k" by (auto simp: edge_key_def kind_is_def)
  have small: "\<bar>n + share_sum shares ((=) k)\<bar> + sum_list (map (\<lambda>key. \<bar>share_sum shares ((=) key)\<bar>) keys) \<le> 2 ^ 53"
    "\<bar>n\<bar> + sum_list (map (\<lambda>key. \<bar>share_sum shares ((=) key)\<bar>) keys) \<le> 2 ^ 53"
    using Cons.prems(2) by simp_all
  have "0 \<le> sum_list (map (\<lambda>key. \<bar>share_sum shares ((=) key)\<bar>) keys)"
    by (rule sum_list_nonneg) auto
  then have "\<bar>n + share_sum shares ((=) k)\<bar> \<le> 2 ^ 53" using small(1) by linarith
  then have "whole (roundCurrency (a + fgAmount e)) (n + share_sum shares ((=) k))"
    using whole_add [OF Cons.prems(1) k(2)] by (simp add: roundCurrency_def math_Round_whole)
  with Cons.IH [OF _ small(1)] Cons.IH [OF Cons.prems(1) small(2)] Cons.prems(3) kind e
  show ?case by (simp add: List.map_filter_simps add.assoc)
qed (simp add: List.map_filter_simps)

lemma summed_kind_edges:
  assumes "edges_hold edges shares" "distinct (visit edges)" "set (visit edges) = Mapping.keys edges" "share_mass shares \<le> 2 ^ 53"
  shows "whole (summed_kind (edge_list visit edges) kind) (share_sum shares (kind_is kind))"
proof -
  have here: "\<forall>key\<in>set (visit edges). Mapping.lookup edges key \<noteq> None"
    using assms(3) by (auto simp: keys_dom_lookup)
  have "\<bar>0\<bar> + sum_list (map (\<lambda>key. \<bar>share_sum shares ((=) key)\<bar>) (visit edges)) \<le> 2 ^ 53"
    using share_mass_split [OF assms(2), of shares] assms(4) by simp
  from summed_kind_prefix [OF here assms(1) whole_0 this, of kind]
  have "whole (summed_kind (edge_list visit edges) kind)
      (sum_list (map (\<lambda>key. share_sum shares ((=) key)) (filter (kind_is kind) (visit edges))))"
    by (simp add: summed_kind_def edge_list_def)
  moreover have "share_sum shares (\<lambda>key. key \<in> set (filter (kind_is kind) (visit edges))) = share_sum shares (kind_is kind)"
  proof -
    have "snd x = 0" if "x \<in> set shares" "fst x \<notin> set (visit edges)" for x
    proof -
      have "Mapping.lookup edges (fst x) = None" using that(2) assms(3) by (auto simp: keys_dom_lookup)
      moreover have "edge_holds edges shares (fst x)" using assms(1) by (simp add: edges_hold_def del: split_paired_All)
      ultimately show ?thesis using that(1) by (simp add: edge_holds_def)
    qed
    then show ?thesis by (induction shares) auto
  qed
  ultimately show ?thesis
    using share_sum_split [of "filter (kind_is kind) (visit edges)" shares] assms(2) by simp
qed

section \<open>Properties\<close>

lemma flow_start_holds: "flow_holds (flow_start accounts) []"
  by (simp add: flow_holds_def flow_start_def edges_hold_start kind_total_def)

lemma edge_list_amounts:
  assumes "edges_hold edges shares" "edge \<in> set (edge_list visit edges)"
  shows "whole (fgAmount edge) (share_sum shares ((=) (edge_key edge)))"
proof -
  obtain key e where e: "Mapping.lookup edges key = Some e" "fgAmount edge = fgAmount e" "edge_key edge = edge_key e"
    using assms(2) by (auto simp: edge_list_def List.map_filter_def edge_key_def)
  moreover have "edge_holds edges shares key" using assms(1) by (simp add: edges_hold_def del: split_paired_All)
  ultimately show ?thesis by (simp add: edge_holds_def)
qed

text \<open>
  C20. The flow graph reconciles.  Take events whose shares are finite and add up to what the event realized, in amounts
  that stay below \<open>2 ^ 53\<close> in total.  Then the graph reports itself reconciled, whatever the order in which the map of edges is
  visited; every edge carries exactly the whole units that the events of the window route along it; and the totals of the
  three classes are exact.
\<close>

theorem flow_graph_reconciled:
  assumes graph: "BuildFlowGraph visit pow model events rows startDate endDate = Some (Inr g)"
    and settled: "settledHistoryEvents pow model (ResolvedTransactionTransactions model) (set (map scID (fmSchedules model)))
      events rows startDate endDate = Some settled"
    and byID: "byID = foldl (\<lambda>m t. Mapping.update (trID t) t m) Mapping.empty (ResolvedTransactionTransactions model)"
    and shares: "shares = concat (map (keyed_shares byID (set (map scID (fmSchedules model))) startDate endDate) (events @ settled))"
    and even: "\<forall>event\<in>set (events @ settled). \<forall>t. placed byID startDate endDate event = Some t \<longrightarrow> even_event t event"
    and mass: "share_mass shares \<le> 2 ^ 53"
    and visit: "\<forall>m. finite (Mapping.keys m) \<longrightarrow> distinct (visit m) \<and> set (visit m) = Mapping.keys m"
  shows "frcReconciled (ggReconciliation g) \<and>
    (\<forall>edge\<in>set (ggEdges g). whole (fgAmount edge) (share_sum shares ((=) (edge_key edge)))) \<and>
    (\<forall>kind\<in>{FlowKindInflow, FlowKindOutflow, FlowKindTransfer}.
      whole (kind_total kind (ggReconciliation g)) (share_sum shares (kind_is kind)))"
proof -
  let ?s = "flow_events model (events @ settled) rows startDate endDate"
  obtain windowEnd where g: "g = flow_graph visit model startDate endDate windowEnd ?s"
    using graph settled by (auto simp: BuildFlowGraph_def split: if_splits bind_splits option.splits)
  have "flow_holds (foldl (flow_event byID (set (map scID (fmSchedules model))) startDate endDate) (flow_start (fmAccounts model)) (events @ settled))
      ([] @ shares)"
    unfolding shares by (rule flow_events_hold [OF flow_start_holds even]) (use mass in \<open>simp add: shares\<close>)
  then have holds: "flow_holds ?s shares"
    by (simp add: flow_holds_def flow_events_def Let_def corrections_keep byID)
  then have edges: "edges_hold (gzEdges ?s) shares" by (simp add: flow_holds_def)
  then have "finite (Mapping.keys (gzEdges ?s))" by (simp add: edges_hold_def)
  with visit have order: "distinct (visit (gzEdges ?s))" "set (visit (gzEdges ?s)) = Mapping.keys (gzEdges ?s)"
    by blast+
  note sum = summed_kind_edges [where visit = visit, OF edges order mass]
  have "kind_total kind (ggReconciliation g) = kind_total kind (gzReconciliation ?s)" for kind
    by (simp add: g flow_graph_def Let_def reconcile_def kind_total_def)
  moreover have "frcReconciled (ggReconciliation g)"
    using holds sum [of FlowKindInflow] sum [of FlowKindOutflow] sum [of FlowKindTransfer]
    by (simp add: flow_holds_def g flow_graph_def Let_def reconcile_def kind_total_def whole_def feq_def)
  moreover have "whole (fgAmount edge) (share_sum shares ((=) (edge_key edge)))" if "edge \<in> set (ggEdges g)" for edge
    using edge_list_amounts [OF edges] that by (simp add: g flow_graph_def Let_def)
  ultimately show ?thesis using holds by (simp add: flow_holds_def)
qed

definition pay_event :: TransactionEvent where
  "pay_event =
     \<lparr>teDate = ''2024-01-31'', teSequence = 0, teTransactionID = ''pay'', teRequestedAmount = FNum 300, teRealizedAmount = FNum 250,
      teAccountDeltas = [\<lparr>deAccountID = ''savings'', deDelta = FNum 250\<rparr>], teBindingConstraints = [],
      teAvailableAmount = None, teFulfillment = None\<rparr>"

definition pay_model :: FinancialModel where
  "pay_model = empty_model\<lparr>fmSchedules := [deposit]\<rparr>"

lemma pay_shares: "keyed_shares byID {''pay''} ''2024-01-01'' ''2024-12-31'' pay_event =
    [((''external'', ''savings'', ''inflow'', ''projected''), 250)]"
  "placed byID ''2024-01-01'' ''2024-12-31'' pay_event = Some (rule_template deposit)"
  "even_event (rule_template deposit) pay_event"
  if "Mapping.lookup byID ''pay'' = Some (rule_template deposit)"
proof -
  have w: "in_flow_window ''2024-01-01'' ''2024-12-31'' ''2024-01-31''" by code_simp
  have "round_half_away 250 = 250"
    using math_Round_whole [of "FNum 250" 250] by (simp add: whole_def)
  then have u: "units (FNum 250) = 250" by (simp add: units_def)
  show p: "placed byID ''2024-01-01'' ''2024-12-31'' pay_event = Some (rule_template deposit)"
    using that w by (simp add: placed_def pay_event_def)
  have t: "IsExternalInflow (rule_template deposit)"
    by (simp add: IsExternalInflow_def HasExternalSource_def HasExternalDestination_def rule_template_def rule_instance_def deposit_def)
  show "keyed_shares byID {''pay''} ''2024-01-01'' ''2024-12-31'' pay_event =
      [((''external'', ''savings'', ''inflow'', ''projected''), 250)]"
    using p t u by (simp add: keyed_shares_def event_shares_def delta_shares_def pay_event_def FlowNodeIDExternal_def
        FlowKindInflow_def FlowMovementProjected_def)
  show "even_event (rule_template deposit) pay_event"
    using t u by (simp add: even_event_def event_kind_def event_shares_def delta_shares_def pay_event_def isNonFinite_def)
qed

theorem flow_graph_reconciled_witness:
  "\<exists>g. BuildFlowGraph Mapping.ordered_keys (\<lambda>x y. x) pay_model [pay_event] [] ''2024-01-01'' ''2024-12-31'' = Some (Inr g) \<and>
     frcReconciled (ggReconciliation g) \<and> kind_total FlowKindInflow (ggReconciliation g) = FNum 250"
proof -
  define byID where "byID = foldl (\<lambda>m t. Mapping.update (trID t) t m) Mapping.empty (ResolvedTransactionTransactions pay_model)"
  have model: "set (map scID (fmSchedules pay_model)) = {''pay''}" "ResolvedTransactionTransactions pay_model = [rule_template deposit]"
    by (simp_all add: pay_model_def empty_model_def deposit_def ResolvedTransactionTransactions_def)
  have i: "trID (rule_template deposit) = ''pay''" by (simp add: rule_template_def rule_instance_def deposit_def)
  then have by_id: "Mapping.lookup byID ''pay'' = Some (rule_template deposit)" by (simp add: byID_def model)
  have settled: "settledHistoryEvents (\<lambda>x y. x) pay_model (ResolvedTransactionTransactions pay_model) (set (map scID (fmSchedules pay_model)))
      [pay_event] [] ''2024-01-01'' ''2024-12-31'' = Some []"
    unfolding settledHistoryEvents_def model by (simp add: settle_one_def i Let_def)
  have "IsValidIsoDate ''2024-01-01''" "IsValidIsoDate ''2024-12-31''" "\<not> 0 < CompareIsoDates ''2024-01-01'' ''2024-12-31''"
    "dayCloseUnix ''2024-12-31'' \<noteq> None"
    by code_simp+
  then obtain g where g: "BuildFlowGraph Mapping.ordered_keys (\<lambda>x y. x) pay_model [pay_event] [] ''2024-01-01'' ''2024-12-31'' = Some (Inr g)"
    unfolding BuildFlowGraph_def settled by auto
  note pay = pay_shares [OF by_id]
  have visit: "\<forall>m :: (flowEdgeKey, FlowEdge) mapping. finite (Mapping.keys m) \<longrightarrow>
      distinct (Mapping.ordered_keys m) \<and> set (Mapping.ordered_keys m) = Mapping.keys m"
    by (simp add: ordered_keys_def)
  have "share_mass [((''external'', ''savings'', ''inflow'', ''projected''), 250)] \<le> 2 ^ 53" by simp
  with flow_graph_reconciled [OF g settled byID_def refl _ _ visit, unfolded model(1)] g pay show ?thesis
    by (simp add: kind_is_def FlowKindInflow_def FlowKindOutflow_def FlowKindTransfer_def whole_def)
qed

end
