(* ===== verification/Health.thy ===== *)
theory Health
  imports Flow_Graph Evaluations
begin

text \<open>
  Financial health: the descriptive checks of \<open>backend/internal/domain/finhealth.go\<close> over saved state, with the types
  of \<open>backend/internal/types/finhealth.go\<close>.  A map literal of inputs or thresholds is the list of its entries;
  \<open>math.Sqrt\<close> and \<open>math.Pow\<close> are parameters.  A result carries its text as the code prints it.
\<close>

section \<open>Fixed-point printing\<close>

text \<open>\<open>%.nf\<close>: to the nearest, halfway cases to the even digit.\<close>

fun Sprintf_f :: "nat \<Rightarrow> f64 \<Rightarrow> string" where
  "Sprintf_f n FNaN = ''NaN''"
| "Sprintf_f n (FInf s) = (if s then ''-Inf'' else ''+Inf'')"
| "Sprintf_f n (FNum r) =
     (let q = nat (round_half_even (\<bar>r\<bar> * 10 ^ n))
      in (if r < 0 then ''-'' else '''') @
         (if n = 0 then dec q else dec (q div 10 ^ n) @ CHR ''.'' # fixed n (q mod 10 ^ n)))"

section \<open>Types\<close>

definition FinancialHealthMeeting :: string where "FinancialHealthMeeting = ''meeting''"
definition FinancialHealthAtRisk :: string where "FinancialHealthAtRisk = ''at-risk''"
definition FinancialHealthNotMeeting :: string where "FinancialHealthNotMeeting = ''not-meeting''"
definition FinancialHealthInsufficientData :: string where "FinancialHealthInsufficientData = ''insufficient-data''"

definition FinancialHealthCheckOrder :: "string list" where
  "FinancialHealthCheckOrder =
     [''emergency-coverage'', ''cash-flow-sustainability'', ''debt-burden'', ''high-interest-debt'', ''savings-rate'',
      ''utilization'', ''spending-consistency'']"

record FinancialHealthStandards =
  hsLookbackDays :: int
  hsLiquidAccountKinds :: "string list"
  hsEmergencyMeetMonths :: f64
  hsEmergencyRiskMonths :: f64
  hsCashFlowRiskRatio :: f64
  hsDebtBurdenMeetRatio :: f64
  hsDebtBurdenRiskRatio :: f64
  hsCarriedBalanceTolerance :: f64
  hsCarriedBalanceRiskAmount :: f64
  hsSavingsRateMeet :: f64
  hsUtilizationMeetRatio :: f64
  hsUtilizationRiskRatio :: f64
  hsConsistencyMeetCV :: f64
  hsConsistencyRiskCV :: f64

definition DefaultFinancialHealthStandards :: FinancialHealthStandards where
  "DefaultFinancialHealthStandards =
     \<lparr>hsLookbackDays = 90, hsLiquidAccountKinds = [''cash''], hsEmergencyMeetMonths = f64_of_int 3,
      hsEmergencyRiskMonths = f64_of_int 1, hsCashFlowRiskRatio = f64_of_rat (9 / 10),
      hsDebtBurdenMeetRatio = f64_of_rat (1 / 5), hsDebtBurdenRiskRatio = f64_of_rat (36 / 100),
      hsCarriedBalanceTolerance = 0, hsCarriedBalanceRiskAmount = f64_of_int 1000, hsSavingsRateMeet = f64_of_rat (1 / 5),
      hsUtilizationMeetRatio = f64_of_rat (3 / 10), hsUtilizationRiskRatio = f64_of_rat (1 / 2),
      hsConsistencyMeetCV = f64_of_rat (3 / 10), hsConsistencyRiskCV = f64_of_rat (1 / 2)\<rparr>"

record FinancialHealthEvidenceItem =
  eiLabel :: string
  eiDetail :: string
  eiAmount :: "f64 option"
  eiAccountIDs :: "string list"
  eiTransactionIDs :: "string list"
  eiDate :: "string option"

record FinancialHealthCheckResult =
  hcCheckID :: string
  hcStatus :: string
  hcSummary :: string
  hcValue :: "f64 option"
  hcInput :: "(string \<times> f64) list"
  hcCalculation :: string
  hcThreshold :: "(string \<times> f64) list"
  hcEvidence :: "FinancialHealthEvidenceItem list"

record FinancialHealthFlowCoverage =
  hvWindowTransactions :: int
  hvResolvedTransactions :: int
  hvExcludedTransactions :: int
  hvExcludedIDs :: "string list"
  hvInflowTotal :: f64
  hvOutflowTotal :: f64

record FinancialHealthReport =
  hpAsOfDate :: string
  hpWindowStart :: string
  hpWindowEnd :: string
  hpStandards :: FinancialHealthStandards
  hpChecks :: "FinancialHealthCheckResult list"
  hpFlowCoverage :: FinancialHealthFlowCoverage

section \<open>Standards\<close>

definition finHealthWindowMonthsDivisor :: f64 where
  "finHealthWindowMonthsDivisor = f64_of_rat (304375 / 10000)"

definition clamp_standard :: "f64 \<Rightarrow> f64" where
  "clamp_standard v = finiteNonNegative v 0"

text \<open>A band whose edges are the wrong way round is turned; the smaller edge first.\<close>

definition ordered_band :: "f64 \<Rightarrow> f64 \<Rightarrow> f64 \<times> f64" where
  "ordered_band a b = (if b < a then (b, a) else (a, b))"

definition NormalizeFinancialHealthStandards :: "FinancialHealthStandards \<Rightarrow> FinancialHealthStandards" where
  "NormalizeFinancialHealthStandards s =
     (let days = (if hsLookbackDays s < 7 then 7 else hsLookbackDays s);
          (emergencyRisk, emergencyMeet) =
            ordered_band (math_Max 0 (clamp_standard (hsEmergencyRiskMonths s))) (math_Max 0 (clamp_standard (hsEmergencyMeetMonths s)));
          (burdenMeet, burdenRisk) =
            ordered_band (clamp_standard (hsDebtBurdenMeetRatio s)) (clamp_standard (hsDebtBurdenRiskRatio s));
          (tolerance, riskAmount) =
            ordered_band (clamp_standard (hsCarriedBalanceTolerance s)) (clamp_standard (hsCarriedBalanceRiskAmount s));
          (utilizationMeet, utilizationRisk) =
            ordered_band (clamp_standard (hsUtilizationMeetRatio s)) (clamp_standard (hsUtilizationRiskRatio s));
          (meetCV, riskCV) = ordered_band (clamp_standard (hsConsistencyMeetCV s)) (clamp_standard (hsConsistencyRiskCV s))
      in \<lparr>hsLookbackDays = (if 5 * 365 < days then 5 * 365 else days),
          hsLiquidAccountKinds = (if hsLiquidAccountKinds s = [] then [''cash''] else hsLiquidAccountKinds s),
          hsEmergencyMeetMonths = emergencyMeet, hsEmergencyRiskMonths = emergencyRisk,
          hsCashFlowRiskRatio = math_Min (f64_of_int 1) (clamp_standard (hsCashFlowRiskRatio s)),
          hsDebtBurdenMeetRatio = burdenMeet, hsDebtBurdenRiskRatio = burdenRisk,
          hsCarriedBalanceTolerance = tolerance, hsCarriedBalanceRiskAmount = riskAmount,
          hsSavingsRateMeet = clamp_standard (hsSavingsRateMeet s),
          hsUtilizationMeetRatio = utilizationMeet, hsUtilizationRiskRatio = utilizationRisk,
          hsConsistencyMeetCV = meetCV, hsConsistencyRiskCV = riskCV\<rparr>)"

section \<open>Flows of the window\<close>

record finHealthFlow =
  hfDate :: string
  hfTransactionID :: string
  hfAmount :: f64
  hfInflow :: bool

record finHealthInputs =
  fhModel :: FinancialModel
  fhBalances :: "f64 gomap"
  fhInflows :: "finHealthFlow list"
  fhOutflows :: "finHealthFlow list"
  fhInflowTotal :: f64
  fhOutflowTotal :: f64
  fhExcludedIDs :: "string list"
  fhConsidered :: int
  fhResolved :: int
  fhAsOfDay :: string
  fhWindowStart :: string

definition finHealthResolvableAmount :: "TransactionAmountResolution \<Rightarrow> bool" where
  "finHealthResolvableAmount amount \<longleftrightarrow> \<not> AmountRequiresReplayState amount"

text \<open>A settled external flow dated in the window.\<close>

definition window_flow :: "string \<Rightarrow> string \<Rightarrow> Transaction \<Rightarrow> bool" where
  "window_flow windowStart windowEnd transaction \<longleftrightarrow>
     trEnabled transaction \<and> \<not> trPending transaction \<and> \<not> trVoid transaction \<and>
     transactionDay transaction \<noteq> '''' \<and> \<not> CompareIsoDates (transactionDay transaction) windowStart < 0 \<and>
     \<not> 0 < CompareIsoDates (transactionDay transaction) windowEnd \<and>
     (IsExternalInflow transaction \<or> IsExternalOutflow transaction)"

definition exclude_flow :: "string \<Rightarrow> finHealthInputs \<Rightarrow> finHealthInputs" where
  "exclude_flow i inputs = inputs\<lparr>fhExcludedIDs := fhExcludedIDs inputs @ [i]\<rparr>"

definition add_flow :: "Transaction \<Rightarrow> f64 \<Rightarrow> finHealthInputs \<Rightarrow> finHealthInputs" where
  "add_flow transaction amount inputs =
     (let inputs = inputs\<lparr>fhResolved := fhResolved inputs + 1\<rparr>;
          flow = \<lparr>hfDate = transactionDay transaction, hfTransactionID = trID transaction, hfAmount = amount,
            hfInflow = IsExternalInflow transaction\<rparr>
      in if IsExternalInflow transaction
         then inputs\<lparr>fhInflows := fhInflows inputs @ [flow], fhInflowTotal := fhInflowTotal inputs + amount\<rparr>
         else inputs\<lparr>fhOutflows := fhOutflows inputs @ [flow\<lparr>hfAmount := math_Max 0 amount\<rparr>],
                     fhOutflowTotal := fhOutflowTotal inputs + math_Max 0 amount\<rparr>)"

definition collect_flow ::
  "(f64 \<Rightarrow> f64 \<Rightarrow> f64) \<Rightarrow> PaymentTerms gomap \<Rightarrow> nat \<Rightarrow> Transaction \<Rightarrow> finHealthInputs \<Rightarrow> finHealthInputs option" where
  "collect_flow pow terms index transaction inputs =
     (if \<not> window_flow (fhWindowStart inputs) (fhAsOfDay inputs) transaction then Some inputs
      else
        let inputs = inputs\<lparr>fhConsidered := fhConsidered inputs + 1\<rparr>
        in if \<not> finHealthResolvableAmount (trAmount transaction) then Some (exclude_flow (trID transaction) inputs)
           else case ComputeRequestedAmount pow (own_occurrence index transaction) (transactionDay transaction)
                  (snapshot_of_balances (fhBalances inputs) terms) None of
                  None \<Rightarrow> None
                | Some (Inl e) \<Rightarrow> Some (exclude_flow (trID transaction) inputs)
                | Some (Inr amount) \<Rightarrow>
                    Some (if isNaN amount \<or> isInf amount then exclude_flow (trID transaction) inputs
                          else add_flow transaction amount inputs))"

fun collect_flows ::
  "(f64 \<Rightarrow> f64 \<Rightarrow> f64) \<Rightarrow> PaymentTerms gomap \<Rightarrow> nat \<Rightarrow> Transaction list \<Rightarrow> finHealthInputs \<Rightarrow> finHealthInputs option" where
  "collect_flows pow terms index [] inputs = Some inputs"
| "collect_flows pow terms index (transaction # transactions) inputs =
     (case collect_flow pow terms index transaction inputs of
        None \<Rightarrow> None
      | Some inputs \<Rightarrow> collect_flows pow terms (index + 1) transactions inputs)"

definition collectFinHealthFlows ::
  "(f64 \<Rightarrow> f64 \<Rightarrow> f64) \<Rightarrow> FinancialModel \<Rightarrow> f64 gomap \<Rightarrow> string \<Rightarrow> string \<Rightarrow> finHealthInputs option" where
  "collectFinHealthFlows pow model balances windowStart asOfDay =
     map_option (\<lambda>inputs. inputs\<lparr>fhExcludedIDs := sort_by (<) (fhExcludedIDs inputs)\<rparr>)
       (collect_flows pow (paymentTermsByAccount (fmPaymentTerms model)) 0 (fmTransactions model)
         \<lparr>fhModel = model, fhBalances = balances, fhInflows = [], fhOutflows = [], fhInflowTotal = 0, fhOutflowTotal = 0,
          fhExcludedIDs = [], fhConsidered = 0, fhResolved = 0, fhAsOfDay = asOfDay, fhWindowStart = windowStart\<rparr>)"

section \<open>Results\<close>

definition finHealthBand :: "f64 \<Rightarrow> f64 \<Rightarrow> f64 \<Rightarrow> bool \<Rightarrow> string" where
  "finHealthBand v meet risk higherIsBetter =
     (if higherIsBetter
      then (if meet \<le> v then FinancialHealthMeeting else if risk \<le> v then FinancialHealthAtRisk else FinancialHealthNotMeeting)
      else (if v \<le> meet then FinancialHealthMeeting else if v \<le> risk then FinancialHealthAtRisk else FinancialHealthNotMeeting))"

definition finHealthFloatPtr :: "f64 \<Rightarrow> f64 option" where
  "finHealthFloatPtr v = Some (roundAmount v)"

definition finHealthInsufficient :: "string \<Rightarrow> string \<Rightarrow> FinancialHealthCheckResult" where
  "finHealthInsufficient checkID summary =
     \<lparr>hcCheckID = checkID, hcStatus = FinancialHealthInsufficientData, hcSummary = summary, hcValue = None, hcInput = [],
      hcCalculation = '''', hcThreshold = [], hcEvidence = []\<rparr>"

definition insufficient_with ::
  "string \<Rightarrow> string \<Rightarrow> (string \<times> f64) list \<Rightarrow> (string \<times> f64) list \<Rightarrow> FinancialHealthEvidenceItem list \<Rightarrow> FinancialHealthCheckResult" where
  "insufficient_with checkID summary input threshold evidence =
     (finHealthInsufficient checkID summary)\<lparr>hcInput := input, hcThreshold := threshold, hcEvidence := evidence\<rparr>"

definition note_item :: "string \<Rightarrow> string \<Rightarrow> f64 option \<Rightarrow> string list \<Rightarrow> FinancialHealthEvidenceItem" where
  "note_item label detail amount accountIDs =
     \<lparr>eiLabel = label, eiDetail = detail, eiAmount = amount, eiAccountIDs = accountIDs, eiTransactionIDs = [], eiDate = None\<rparr>"

section \<open>Emergency coverage\<close>

definition liquid_accounts :: "finHealthInputs \<Rightarrow> FinancialHealthStandards \<Rightarrow> Account list" where
  "liquid_accounts inputs standards =
     filter (\<lambda>a. acEnabled a \<and> acKind a \<in> set (hsLiquidAccountKinds standards)) (fmAccounts (fhModel inputs))"

definition evaluateEmergencyCoverage ::
  "finHealthInputs \<Rightarrow> FinancialHealthStandards \<Rightarrow> f64 \<Rightarrow> FinancialHealthCheckResult" where
  "evaluateEmergencyCoverage inputs standards windowMonths =
     (let liquid = liquid_accounts inputs standards;
          reserve = foldl (\<lambda>sum a. sum + balance_of (fhBalances inputs) (acID a)) 0 liquid;
          evidence = map (\<lambda>a. note_item (acName a) ''Balance at the as-of cut counts toward the spendable reserve.''
            (finHealthFloatPtr (balance_of (fhBalances inputs) (acID a))) [acID a]) liquid;
          monthlyOutflow = fdiv (fhOutflowTotal inputs) windowMonths;
          input = [(''liquidReserve'', roundAmount reserve), (''monthlyOutflow'', roundAmount monthlyOutflow)];
          threshold = [(''meetMonths'', hsEmergencyMeetMonths standards), (''riskMonths'', hsEmergencyRiskMonths standards)];
          coverage = fdiv reserve monthlyOutflow
      in if liquid = []
         then insufficient_with ''emergency-coverage''
           ''No enabled accounts of the configured liquid kinds, so reserve coverage has insufficient data.'' input threshold evidence
         else if monthlyOutflow \<le> 0
         then insufficient_with ''emergency-coverage''
           ''No recorded outflows in the window, so average monthly spending has insufficient data.'' input threshold evidence
         else \<lparr>hcCheckID = ''emergency-coverage'',
           hcStatus = finHealthBand coverage (hsEmergencyMeetMonths standards) (hsEmergencyRiskMonths standards) True,
           hcSummary = ''Reserves cover '' @ Sprintf_f 1 coverage @ '' months of recorded spending against the configured '' @
             Sprintf_f 1 (hsEmergencyMeetMonths standards) @ ''-month guideline.'',
           hcValue = finHealthFloatPtr coverage, hcInput = input,
           hcCalculation = ''coverageMonths = liquidReserve / (windowOutflow / windowMonths)'',
           hcThreshold = threshold, hcEvidence = evidence\<rparr>)"

section \<open>Cash flow and savings\<close>

definition flow_evidence :: "finHealthInputs \<Rightarrow> FinancialHealthEvidenceItem list" where
  "flow_evidence inputs =
     [note_item ''Recorded inflows'' ''Resolved external inflows dated in the window, net of investment losses.''
        (finHealthFloatPtr (fhInflowTotal inputs)) [],
      note_item ''Recorded outflows'' ''Resolved external outflows dated in the window.'' (finHealthFloatPtr (fhOutflowTotal inputs)) []]"

definition flow_input :: "finHealthInputs \<Rightarrow> (string \<times> f64) list" where
  "flow_input inputs =
     [(''windowInflow'', roundAmount (fhInflowTotal inputs)), (''windowOutflow'', roundAmount (fhOutflowTotal inputs))]"

definition unresolvable_item :: "string list \<Rightarrow> FinancialHealthEvidenceItem" where
  "unresolvable_item ids =
     (note_item ''Unresolvable amounts'' ''Window transactions whose amounts need replay-time state (live balances, realized history) or simulation context and are excluded from both totals.''
       None [])\<lparr>eiTransactionIDs := ids\<rparr>"

definition evaluateCashFlowSustainability ::
  "finHealthInputs \<Rightarrow> FinancialHealthStandards \<Rightarrow> FinancialHealthCheckResult" where
  "evaluateCashFlowSustainability inputs standards =
     (let input = flow_input inputs;
          threshold = [(''riskRatio'', hsCashFlowRiskRatio standards), (''meetRatio'', f64_of_int 1)];
          evidence = flow_evidence inputs @ (if fhExcludedIDs inputs = [] then [] else [unresolvable_item (fhExcludedIDs inputs)]);
          ratio = fdiv (fhInflowTotal inputs) (fhOutflowTotal inputs);
          result = \<lparr>hcCheckID = ''cash-flow-sustainability'', hcStatus = FinancialHealthMeeting,
            hcSummary = ''Recorded inflows with no recorded outflows in the window meet the configured cash-flow guideline.'',
            hcValue = None, hcInput = input, hcCalculation = ''sustainabilityRatio = windowInflow / windowOutflow'',
            hcThreshold = threshold, hcEvidence = evidence\<rparr>
      in if fhInflowTotal inputs \<le> 0 \<and> fhOutflowTotal inputs \<le> 0
         then insufficient_with ''cash-flow-sustainability''
           ''No resolved inflows or outflows in the window, so cash flow has insufficient data.'' input threshold evidence
         else if fhOutflowTotal inputs \<le> 0 then result
         else result\<lparr>hcStatus := finHealthBand ratio (f64_of_int 1) (hsCashFlowRiskRatio standards) True,
           hcSummary := ''Recorded inflows are '' @ Sprintf_f 0 (ratio * f64_of_int 100) @
             ''% of recorded outflows against the configured break-even guideline.'',
           hcValue := finHealthFloatPtr ratio\<rparr>)"

definition evaluateSavingsRate :: "finHealthInputs \<Rightarrow> FinancialHealthStandards \<Rightarrow> FinancialHealthCheckResult" where
  "evaluateSavingsRate inputs standards =
     (let input = flow_input inputs;
          threshold = [(''meetRate'', hsSavingsRateMeet standards), (''riskFloor'', 0)];
          rate = fdiv (fhInflowTotal inputs - fhOutflowTotal inputs) (fhInflowTotal inputs)
      in if fhInflowTotal inputs \<le> 0
         then insufficient_with ''savings-rate''
           ''No recorded inflows in the window, so the savings rate has insufficient data.'' input threshold []
         else \<lparr>hcCheckID = ''savings-rate'',
           hcStatus = (if hsSavingsRateMeet standards \<le> rate then FinancialHealthMeeting
             else if 0 \<le> rate then FinancialHealthAtRisk else FinancialHealthNotMeeting),
           hcSummary = ''The recorded savings rate is '' @ Sprintf_f 0 (rate * f64_of_int 100) @ ''% against the configured '' @
             Sprintf_f 0 (hsSavingsRateMeet standards * f64_of_int 100) @ ''% guideline.'',
           hcValue = finHealthFloatPtr rate, hcInput = input,
           hcCalculation = ''savingsRate = (windowInflow - windowOutflow) / windowInflow'',
           hcThreshold = threshold, hcEvidence = flow_evidence inputs\<rparr>)"

section \<open>Debt\<close>

definition debt_accounts :: "finHealthInputs \<Rightarrow> Account list" where
  "debt_accounts inputs = filter (\<lambda>a. acEnabled a \<and> acKind a = ''debt'') (fmAccounts (fhModel inputs))"

definition carried_balance :: "finHealthInputs \<Rightarrow> Account \<Rightarrow> f64" where
  "carried_balance inputs account = math_Max 0 (- balance_of (fhBalances inputs) (acID account))"

definition required_minimum :: "finHealthInputs \<Rightarrow> PaymentTerms gomap \<Rightarrow> Account \<Rightarrow> f64" where
  "required_minimum inputs terms account =
     (let carried = carried_balance inputs account
      in case Mapping.lookup terms (acID account) of
           None \<Rightarrow> 0
         | Some term \<Rightarrow> if 0 < carried then termsMinimum term (- carried) else 0)"

definition evaluateDebtBurden ::
  "finHealthInputs \<Rightarrow> FinancialHealthStandards \<Rightarrow> f64 \<Rightarrow> FinancialHealthCheckResult" where
  "evaluateDebtBurden inputs standards windowMonths =
     (let terms = paymentTermsByAccount (fmPaymentTerms (fhModel inputs));
          accounts = debt_accounts inputs;
          minimums = foldl (\<lambda>sum a. sum + required_minimum inputs terms a) 0 accounts;
          evidence = map (\<lambda>a. note_item (acName a) ''Required minimum from payment terms against the carried balance at the cut.''
            (finHealthFloatPtr (required_minimum inputs terms a)) [acID a]) accounts;
          monthlyInflow = fdiv (fhInflowTotal inputs) windowMonths;
          input = [(''monthlyMinimums'', roundAmount minimums), (''monthlyInflow'', roundAmount monthlyInflow)];
          threshold = [(''meetRatio'', hsDebtBurdenMeetRatio standards), (''riskRatio'', hsDebtBurdenRiskRatio standards)];
          burden = fdiv minimums monthlyInflow;
          result = \<lparr>hcCheckID = ''debt-burden'', hcStatus = FinancialHealthMeeting,
            hcSummary = ''No required debt minimums at the cut meet the configured debt-burden guideline.'',
            hcValue = finHealthFloatPtr 0, hcInput = input, hcCalculation = ''burden = monthlyMinimums / monthlyInflow'',
            hcThreshold = threshold, hcEvidence = evidence\<rparr>
      in if accounts = [] \<or> minimums \<le> 0 then result
         else if monthlyInflow \<le> 0
         then insufficient_with ''debt-burden''
           ''Required minimums exist but no recorded inflows in the window, so debt burden has insufficient data.'' input threshold evidence
         else result\<lparr>
           hcStatus := finHealthBand burden (hsDebtBurdenMeetRatio standards) (hsDebtBurdenRiskRatio standards) False,
           hcSummary := ''Required minimums take '' @ Sprintf_f 0 (burden * f64_of_int 100) @
             ''% of average monthly inflow against the configured '' @
             Sprintf_f 0 (hsDebtBurdenMeetRatio standards * f64_of_int 100) @ ''% guideline.'',
           hcValue := finHealthFloatPtr burden\<rparr>)"

definition evaluateHighInterestDebt ::
  "finHealthInputs \<Rightarrow> FinancialHealthStandards \<Rightarrow> FinancialHealthCheckResult" where
  "evaluateHighInterestDebt inputs standards =
     (let terms = paymentTermsByAccount (fmPaymentTerms (fhModel inputs));
          accounts = debt_accounts inputs;
          carried = foldl (\<lambda>sum a. sum + carried_balance inputs a) 0 accounts;
          evidence = note_item ''Rate-data limitation''
              ''The model carries no interest-rate data, so carried revolving balances stand in as the proxy for interest-bearing debt.''
              None [] #
            map (\<lambda>a. note_item (acName a)
              (if Mapping.lookup terms (acID a) \<noteq> None then ''Carried revolving balance with payment terms at the cut.''
               else ''Carried balance at the cut.'') (finHealthFloatPtr (carried_balance inputs a)) [acID a]) accounts;
          result = \<lparr>hcCheckID = ''high-interest-debt'', hcStatus = FinancialHealthMeeting,
            hcSummary = ''No enabled debt accounts at the cut meet the configured high-interest-debt guideline.'',
            hcValue = finHealthFloatPtr 0, hcInput = [(''carriedBalance'', roundAmount carried)],
            hcCalculation = ''carriedBalance = sum over enabled debt accounts of max(0, -balance)'',
            hcThreshold = [(''tolerance'', hsCarriedBalanceTolerance standards), (''riskAmount'', hsCarriedBalanceRiskAmount standards)],
            hcEvidence = evidence\<rparr>
      in if accounts = [] then result
         else result\<lparr>
           hcStatus := finHealthBand carried (hsCarriedBalanceTolerance standards) (hsCarriedBalanceRiskAmount standards) False,
           hcSummary := ''Carried balances total '' @ Sprintf_f 0 carried @ '' against the configured '' @
             Sprintf_f 0 (hsCarriedBalanceTolerance standards) @
             '' tolerance (rate data unavailable; carried balances are the proxy).'',
           hcValue := finHealthFloatPtr carried\<rparr>)"

section \<open>Utilization\<close>

text \<open>What an account uses of its limit, if it defines one.\<close>

definition utilization_of :: "finHealthInputs \<Rightarrow> Account \<Rightarrow> (f64 \<times> f64 \<times> string) option" where
  "utilization_of inputs account =
     (let balance = balance_of (fhBalances inputs) (acID account); floor = MinBalanceValue account; ceiling = MaxBalanceValue account
      in if \<not> acEnabled account then None
         else if acKind account = ''debt''
         then (if feq floor NoFloor \<or> 0 \<le> floor then None
               else Some (math_Max 0 (- balance), - floor, ''Drawn credit against the floor-implied limit.''))
         else if feq ceiling NoCeiling \<or> ceiling \<le> 0 \<or> balance \<le> 0 then None
         else Some (math_Max 0 balance, ceiling, ''Balance against the configured ceiling.''))"

definition evaluateUtilization :: "finHealthInputs \<Rightarrow> FinancialHealthStandards \<Rightarrow> FinancialHealthCheckResult" where
  "evaluateUtilization inputs standards =
     (let defined = List.map_filter (\<lambda>a. map_option (Pair a) (utilization_of inputs a)) (fmAccounts (fhModel inputs));
          weighted = foldl (\<lambda>sum (a, used, limit, detail). sum + used) 0 defined;
          limitTotal = foldl (\<lambda>sum (a, used, limit, detail). sum + limit) 0 defined;
          evidence = map (\<lambda>(a, used, limit, detail). note_item (acName a) detail (finHealthFloatPtr (fdiv used limit)) [acID a]) defined;
          threshold = [(''meetRatio'', hsUtilizationMeetRatio standards), (''riskRatio'', hsUtilizationRiskRatio standards)];
          ratio = fdiv weighted limitTotal
      in if defined = [] \<or> limitTotal \<le> 0
         then insufficient_with ''utilization''
           ''No enabled accounts define a usable limit (debt floors or positive ceilings), so utilization has insufficient data.''
           [] threshold evidence
         else \<lparr>hcCheckID = ''utilization'',
           hcStatus = finHealthBand ratio (hsUtilizationMeetRatio standards) (hsUtilizationRiskRatio standards) False,
           hcSummary = ''Limit-weighted utilization is '' @ Sprintf_f 0 (ratio * f64_of_int 100) @ ''% against the configured '' @
             Sprintf_f 0 (hsUtilizationMeetRatio standards * f64_of_int 100) @ ''% guideline.'',
           hcValue = finHealthFloatPtr ratio,
           hcInput = [(''drawnTotal'', roundAmount weighted), (''limitTotal'', roundAmount limitTotal)],
           hcCalculation = ''utilization = sum(drawn) / sum(limits) over accounts with defined limits'',
           hcThreshold = threshold, hcEvidence = evidence\<rparr>)"

section \<open>Consistency of spending\<close>

text \<open>The loop stops at the month of the cut, or when it has more than 80 months.\<close>

fun window_months :: "nat \<Rightarrow> string \<Rightarrow> string \<Rightarrow> string list option" where
  "window_months 0 cursor last_month = Some []"
| "window_months (Suc n) cursor last_month =
     (if last_month \<le> cursor then Some [cursor]
      else case AddMonthsClamped (cursor @ ''-01'') 1 of
             None \<Rightarrow> None
           | Some date \<Rightarrow> map_option ((#) cursor) (window_months n (take 7 date) last_month))"

definition finHealthWindowMonths :: "string \<Rightarrow> string \<Rightarrow> string list option" where
  "finHealthWindowMonths windowStart asOfDay = window_months 81 (take 7 windowStart) (take 7 asOfDay)"

definition month_outflow :: "finHealthFlow list \<Rightarrow> string \<Rightarrow> f64" where
  "month_outflow outflows month =
     foldl (\<lambda>sum flow. if take 7 (hfDate flow) = month then sum + hfAmount flow else sum) 0 outflows"

definition evaluateSpendingConsistency ::
  "(f64 \<Rightarrow> f64) \<Rightarrow> finHealthInputs \<Rightarrow> FinancialHealthStandards \<Rightarrow> FinancialHealthCheckResult option" where
  "evaluateSpendingConsistency math_sqrt inputs standards =
     map_option (\<lambda>months.
       let values = map (month_outflow (fhOutflows inputs)) months;
           evidence = map (\<lambda>month. (note_item (''Outflow in '' @ month) ''Resolved external outflows dated in that calendar month.''
             (finHealthFloatPtr (month_outflow (fhOutflows inputs) month)) [])\<lparr>eiDate := Some (month @ ''-01'')\<rparr>) months;
           threshold = [(''meetCV'', hsConsistencyMeetCV standards), (''riskCV'', hsConsistencyRiskCV standards)];
           count = f64_of_int (int (length values));
           sum = foldl (+) 0 values;
           mean = (if values = [] then sum else fdiv sum count);
           input = [(''windowMonths'', count), (''meanMonthlyOutflow'', roundAmount mean)];
           variance = fdiv (foldl (\<lambda>sum v. sum + (v - mean) * (v - mean)) 0 values) count;
           cv = fdiv (math_sqrt variance) mean
       in if length values < 3 \<or> mean \<le> 0
          then insufficient_with ''spending-consistency''
            ''Fewer than three window months or no recorded outflows, so spending consistency has insufficient data.''
            input threshold evidence
          else \<lparr>hcCheckID = ''spending-consistency'',
            hcStatus = finHealthBand cv (hsConsistencyMeetCV standards) (hsConsistencyRiskCV standards) False,
            hcSummary = ''Monthly outflow varies with a coefficient of '' @ Sprintf_f 2 cv @ '' against the configured '' @
              Sprintf_f 2 (hsConsistencyMeetCV standards) @ '' guideline.'',
            hcValue = finHealthFloatPtr cv, hcInput = input,
            hcCalculation = ''cv = stdev(monthlyOutflow) / mean(monthlyOutflow) over window calendar months (edge months may be partial)'',
            hcThreshold = threshold, hcEvidence = evidence\<rparr>)
       (finHealthWindowMonths (fhWindowStart inputs) (fhAsOfDay inputs))"

section \<open>The report\<close>

definition no_coverage :: FinancialHealthFlowCoverage where
  "no_coverage =
     \<lparr>hvWindowTransactions = 0, hvResolvedTransactions = 0, hvExcludedTransactions = 0, hvExcludedIDs = [],
      hvInflowTotal = 0, hvOutflowTotal = 0\<rparr>"

definition unusable_report :: "string \<Rightarrow> FinancialHealthStandards \<Rightarrow> FinancialHealthReport" where
  "unusable_report asOf standards =
     \<lparr>hpAsOfDate = asOf, hpWindowStart = '''', hpWindowEnd = '''', hpStandards = standards,
      hpChecks = map (\<lambda>checkID. finHealthInsufficient checkID
        ''No usable saved state at the as-of cut, so this check has insufficient data.'') FinancialHealthCheckOrder,
      hpFlowCoverage = no_coverage\<rparr>"

definition position_balances :: "CurrentPosition \<Rightarrow> f64 gomap" where
  "position_balances position =
     foldl (\<lambda>m row. Mapping.update (paAccountID row) (paBalance row) m) Mapping.empty (cpAccounts position)"

definition flow_report_coverage :: "finHealthInputs \<Rightarrow> FinancialHealthFlowCoverage" where
  "flow_report_coverage inputs =
     \<lparr>hvWindowTransactions = fhConsidered inputs, hvResolvedTransactions = fhResolved inputs,
      hvExcludedTransactions = int (length (fhExcludedIDs inputs)), hvExcludedIDs = fhExcludedIDs inputs,
      hvInflowTotal = roundAmount (fhInflowTotal inputs), hvOutflowTotal = roundAmount (fhOutflowTotal inputs)\<rparr>"

definition EvaluateFinancialHealth ::
  "process \<Rightarrow> (f64 \<Rightarrow> f64) \<Rightarrow> FinancialModel option \<Rightarrow> CurrentPosition option \<Rightarrow> FinancialHealthStandards \<Rightarrow>
   FinancialHealthReport option" where
  "EvaluateFinancialHealth p math_sqrt model position standards =
     (let standards = NormalizeFinancialHealthStandards standards;
          asOf = (case position of None \<Rightarrow> '''' | Some position \<Rightarrow> cpAsOfDate position)
      in case ParseAsOfCut p asOf of
           None \<Rightarrow> None
         | Some (Inl e) \<Rightarrow> Some (unusable_report asOf standards)
         | Some (Inr (cutInstant, cutDay)) \<Rightarrow>
             (case (model, position) of
                (Some model, Some position) \<Rightarrow>
                  do {
                    windowStart \<leftarrow> add_days cutDay (- hsLookbackDays standards);
                    inputs \<leftarrow> collectFinHealthFlows (envPow (pcEnv p)) model (position_balances position) windowStart cutDay;
                    let windowMonths = fdiv (f64_of_int (hsLookbackDays standards)) finHealthWindowMonthsDivisor;
                    consistency \<leftarrow> evaluateSpendingConsistency math_sqrt inputs standards;
                    Some \<lparr>hpAsOfDate = cutDay, hpWindowStart = windowStart, hpWindowEnd = cutDay, hpStandards = standards,
                      hpChecks =
                        [evaluateEmergencyCoverage inputs standards windowMonths, evaluateCashFlowSustainability inputs standards,
                         evaluateDebtBurden inputs standards windowMonths, evaluateHighInterestDebt inputs standards,
                         evaluateSavingsRate inputs standards, evaluateUtilization inputs standards, consistency],
                      hpFlowCoverage = flow_report_coverage inputs\<rparr>
                  }
              | _ \<Rightarrow> Some (unusable_report asOf standards)))"

end
