(* ===== verification/Explain.thy ===== *)
theory Explain
  imports Health
begin

text \<open>
  What a financial-health report rests on: \<open>backend/internal/domain/finexplain.go\<close> with the types of
  \<open>backend/internal/types/finexplain.go\<close>.  The layer grades the evidence behind the checks of \<open>Health\<close> and proposes
  actions; it never changes a verdict.
\<close>

section \<open>Types\<close>

definition FinancialHealthComplete :: string where "FinancialHealthComplete = ''complete''"
definition FinancialHealthIncomplete :: string where "FinancialHealthIncomplete = ''incomplete''"
definition FinancialHealthInsufficient :: string where "FinancialHealthInsufficient = ''insufficient''"
definition FinancialHealthOriginManual :: string where "FinancialHealthOriginManual = ''manual''"
definition FinancialHealthOriginSync :: string where "FinancialHealthOriginSync = ''sync''"
definition FinancialHealthOriginNone :: string where "FinancialHealthOriginNone = ''none''"

record FinancialHealthAccountSource =
  haAccountID :: string
  haAccountName :: string
  haKind :: string
  haOrigin :: string
  haSource :: string
  haLastObservedAt :: "int option"
  haAgeDays :: "f64 option"
  haStale :: bool

record FinancialHealthFreshness =
  hrAsOfDate :: string
  hrStaleAfterDays :: int
  hrNewestObservationAgeDays :: "f64 option"
  hrOldestObservationAgeDays :: "f64 option"
  hrStaleAccountIDs :: "string list"
  hrUnobservedAccountIDs :: "string list"

record FinancialHealthCoverage =
  hgWindowTransactions :: int
  hgResolvedTransactions :: int
  hgExcludedTransactions :: int
  hgExcludedIDs :: "string list"
  hgMissingIncome :: bool
  hgMissingOutflow :: bool
  hgUnknownLiabilityAccountIDs :: "string list"
  hgFlowSources :: "(string, int) mapping"

record FinancialHealthDataSufficiency =
  hdCompleteness :: string
  hdSources :: "FinancialHealthAccountSource list"
  hdFreshness :: FinancialHealthFreshness
  hdCoverage :: FinancialHealthCoverage

record FinancialHealthProposedAction =
  hxID :: string
  hxTitle :: string
  hxDetail :: string
  hxCheckIDs :: "string list"
  hxEvidence :: "FinancialHealthEvidenceItem list"
  hxTargets :: "(string \<times> f64) list"

record FinancialHealthExplanation =
  heAsOfDate :: string
  heCompleteness :: string
  heSummary :: string
  heSufficiency :: FinancialHealthDataSufficiency
  heActions :: "FinancialHealthProposedAction list"

record FinancialHealthExplanationOptions =
  hoStaleAfterDays :: int

definition DefaultFinancialHealthExplanationOptions :: FinancialHealthExplanationOptions where
  "DefaultFinancialHealthExplanationOptions = \<lparr>hoStaleAfterDays = 14\<rparr>"

definition NormalizeFinancialHealthExplanationOptions ::
  "FinancialHealthExplanationOptions \<Rightarrow> FinancialHealthExplanationOptions" where
  "NormalizeFinancialHealthExplanationOptions options =
     (if hoStaleAfterDays options < 1
      then options\<lparr>hoStaleAfterDays := hoStaleAfterDays DefaultFinancialHealthExplanationOptions\<rparr> else options)"

record FinancialHealthEvaluationDetail =
  hlReport :: FinancialHealthReport
  hlExplanation :: FinancialHealthExplanation

fun strings_Join :: "string list \<Rightarrow> string \<Rightarrow> string" where
  "strings_Join [] sep = ''''"
| "strings_Join [s] sep = s"
| "strings_Join (s # ss) sep = s @ sep @ strings_Join ss sep"

abbreviation decimal :: "int \<Rightarrow> string" where
  "decimal n \<equiv> sprintf_0d 1 n"

section \<open>Labels and lookups\<close>

definition finExplainCheckLabels :: "(string \<times> string) list" where
  "finExplainCheckLabels =
     [(''emergency-coverage'', ''emergency coverage''), (''cash-flow-sustainability'', ''cash-flow sustainability''),
      (''debt-burden'', ''debt burden''), (''high-interest-debt'', ''high-interest debt''), (''savings-rate'', ''savings rate''),
      (''utilization'', ''utilization''), (''spending-consistency'', ''spending consistency'')]"

definition finExplainBalanceChecks :: "string list" where
  "finExplainBalanceChecks = [''emergency-coverage'', ''debt-burden'', ''high-interest-debt'', ''utilization'']"

definition finExplainRound1 :: "f64 \<Rightarrow> f64" where
  "finExplainRound1 v = fdiv (math_Round (v * f64_of_int 10)) (f64_of_int 10)"

definition finExplainCheckByID :: "FinancialHealthReport \<Rightarrow> string \<Rightarrow> FinancialHealthCheckResult option" where
  "finExplainCheckByID report checkID = find (\<lambda>c. hcCheckID c = checkID) (hpChecks report)"

definition finExplainEnabledAccounts :: "FinancialModel \<Rightarrow> Account list" where
  "finExplainEnabledAccounts model = filter acEnabled (fmAccounts model)"

definition finExplainLatestObservations :: "FinancialModel \<Rightarrow> int \<Rightarrow> Checkpoint gomap" where
  "finExplainLatestObservations model cutInstant =
     foldl (\<lambda>latest c.
         if ckObservedAt c \<le> 0 \<or> cutInstant < ckObservedAt c then latest
         else case Mapping.lookup latest (ckAccountID c) of
                None \<Rightarrow> Mapping.update (ckAccountID c) c latest
              | Some current \<Rightarrow> if ckObservedAt current < ckObservedAt c then Mapping.update (ckAccountID c) c latest else latest)
       Mapping.empty (fmCheckpoints model)"

section \<open>Sources of the balances\<close>

definition account_source ::
  "FinancialHealthExplanationOptions \<Rightarrow> int \<Rightarrow> Checkpoint gomap \<Rightarrow> Account \<Rightarrow> FinancialHealthAccountSource" where
  "account_source options cutInstant latest account =
     (let source = \<lparr>haAccountID = acID account, haAccountName = acName account, haKind = acKind account,
            haOrigin = FinancialHealthOriginNone, haSource = '''', haLastObservedAt = None, haAgeDays = None, haStale = False\<rparr>
      in case Mapping.lookup latest (acID account) of
           None \<Rightarrow> source
         | Some observation \<Rightarrow>
             let rawAge = fdiv (f64_of_int (cutInstant - ckObservedAt observation)) (f64_of_int 86400);
                 rawAge = (if rawAge < 0 then 0 else rawAge)
             in source\<lparr>haSource := ckSource observation,
                  haOrigin := (if IsSyncCheckpoint (ckSource observation) then FinancialHealthOriginSync else FinancialHealthOriginManual),
                  haLastObservedAt := Some (ckObservedAt observation), haAgeDays := Some (finExplainRound1 rawAge),
                  haStale := f64_of_int (hoStaleAfterDays options) < rawAge\<rparr>)"

definition extreme_age :: "(f64 \<Rightarrow> f64 \<Rightarrow> bool) \<Rightarrow> FinancialHealthAccountSource list \<Rightarrow> f64 option" where
  "extreme_age better sources =
     foldl (\<lambda>best source. case haAgeDays source of
          None \<Rightarrow> best
        | Some age \<Rightarrow> (case best of None \<Rightarrow> Some age | Some b \<Rightarrow> if better age b then Some age else best))
       None sources"

definition unknown_liability :: "PaymentTerms gomap \<Rightarrow> f64 gomap \<Rightarrow> Account \<Rightarrow> bool" where
  "unknown_liability terms balances account \<longleftrightarrow>
     acKind account = ''debt'' \<and> Mapping.lookup terms (acID account) = None \<and>
     (case Mapping.lookup balances (acID account) of None \<Rightarrow> True | Some balance \<Rightarrow> balance < 0)"

definition flow_author :: "Transaction \<Rightarrow> string" where
  "flow_author t = (if IsSyncCheckpoint (trSource t) then trSource t else FinancialHealthOriginManual)"

definition finExplainFlowSources :: "FinancialModel \<Rightarrow> FinancialHealthReport \<Rightarrow> (string, int) mapping" where
  "finExplainFlowSources model report =
     (if hpWindowStart report = '''' \<or> hpWindowEnd report = '''' then Mapping.empty
      else foldl (\<lambda>counts t.
          if \<not> window_flow (hpWindowStart report) (hpWindowEnd report) t then counts
          else Mapping.update (flow_author t) (Mapping.lookup_default 0 counts (flow_author t) + 1) counts)
        Mapping.empty (fmTransactions model))"

section \<open>Actions\<close>

definition lookback_of :: "FinancialHealthReport \<Rightarrow> f64" where
  "lookback_of report =
     (let lookback = f64_of_int (hsLookbackDays (hpStandards report))
      in if lookback < f64_of_int 1 then f64_of_int (hsLookbackDays DefaultFinancialHealthStandards) else lookback)"

definition check_evidence :: "FinancialHealthReport \<Rightarrow> string \<Rightarrow> FinancialHealthEvidenceItem list" where
  "check_evidence report checkID =
     (case finExplainCheckByID report checkID of None \<Rightarrow> [] | Some check \<Rightarrow> hcEvidence check)"

definition account_name :: "FinancialModel \<Rightarrow> string \<Rightarrow> string" where
  "account_name model i =
     (case Mapping.lookup (foldl (\<lambda>m a. Mapping.update (acID a) (acName a) m) Mapping.empty (fmAccounts model)) i of
        None \<Rightarrow> i
      | Some name \<Rightarrow> if name = '''' then i else name)"

definition income_action :: "FinancialHealthReport \<Rightarrow> FinancialHealthProposedAction" where
  "income_action report =
     \<lparr>hxID = ''record-missing-income'', hxTitle = ''Record income in the window'',
      hxDetail = ''No income is recorded in the '' @ Sprintf_f 0 (lookback_of report) @ '' days ending '' @ hpWindowEnd report @
        '', so income-based checks cannot be trusted. Add the missing pay or inflow records.'',
      hxCheckIDs = [''cash-flow-sustainability'', ''savings-rate''],
      hxEvidence = check_evidence report ''cash-flow-sustainability'' @ check_evidence report ''savings-rate'',
      hxTargets = [(''lookbackDays'', lookback_of report)]\<rparr>"

definition liability_action :: "FinancialModel \<Rightarrow> FinancialHealthReport \<Rightarrow> string list \<Rightarrow> FinancialHealthProposedAction" where
  "liability_action model report ids =
     \<lparr>hxID = ''clarify-liabilities'', hxTitle = ''Add payment terms for debt accounts'',
      hxDetail = ''Required minimums are unknown for '' @ strings_Join (map (account_name model) ids) '', '' @
        '': without payment terms the debt-burden check cannot weigh them against income.'',
      hxCheckIDs = [''debt-burden'', ''high-interest-debt''],
      hxEvidence = check_evidence report ''debt-burden'',
      hxTargets = (case finExplainCheckByID report ''debt-burden'' of None \<Rightarrow> [] | Some check \<Rightarrow> hcThreshold check)\<rparr>"

definition stale_action ::
  "FinancialModel \<Rightarrow> FinancialHealthExplanationOptions \<Rightarrow> FinancialHealthAccountSource list \<Rightarrow> FinancialHealthProposedAction" where
  "stale_action model options sources =
     (let stale = List.map_filter (\<lambda>s. if haStale s then map_option (Pair s) (haAgeDays s) else None) sources;
          days = decimal (hoStaleAfterDays options)
      in \<lparr>hxID = ''refresh-stale-sync'', hxTitle = ''Refresh stale balances'',
          hxDetail = ''Balance checks read observations past the '' @ days @ ''-day recency guideline: '' @
            strings_Join (map (\<lambda>(s, age). account_name model (haAccountID s) @ '' ('' @ Sprintf_f 1 age @ '' days old)'') stale) '', '' @
            ''. Re-run sync or add fresh balance observations.'',
          hxCheckIDs = finExplainBalanceChecks,
          hxEvidence = map (\<lambda>(s, age). note_item (account_name model (haAccountID s))
            (''Last balance observation is '' @ Sprintf_f 1 age @ '' days before the cut, past the '' @ days @ ''-day recency guideline.'')
            None [haAccountID s]) stale,
          hxTargets = [(''staleAfterDays'', f64_of_int (hoStaleAfterDays options))]\<rparr>)"

definition observe_action ::
  "FinancialModel \<Rightarrow> FinancialHealthExplanationOptions \<Rightarrow> string list \<Rightarrow> FinancialHealthProposedAction" where
  "observe_action model options ids =
     \<lparr>hxID = ''observe-accounts'', hxTitle = ''Add balance observations for unseen accounts'',
      hxDetail = ''These accounts have no observation at the cut and are invisible to balance checks: '' @
        strings_Join (map (account_name model) ids) '', '' @ ''. Add a balance observation dated at or before the cut.'',
      hxCheckIDs = finExplainBalanceChecks,
      hxEvidence = map (\<lambda>i. note_item (account_name model i)
        ''No balance observation at or before the cut, so balance checks cannot see this account.'' None [i]) ids,
      hxTargets = [(''staleAfterDays'', f64_of_int (hoStaleAfterDays options))]\<rparr>"

definition excluded_action :: "FinancialHealthReport \<Rightarrow> FinancialHealthCoverage \<Rightarrow> FinancialHealthProposedAction" where
  "excluded_action report coverage =
     (let evidence = check_evidence report ''cash-flow-sustainability''
      in \<lparr>hxID = ''resolve-excluded-amounts'', hxTitle = ''Resolve excluded window amounts'',
          hxDetail = decimal (hgExcludedTransactions coverage) @
            '' window transaction(s) need replay-time state or simulation context and are excluded from income and spending totals. Replace them with recorded amounts or accept the gap.'',
          hxCheckIDs = [''cash-flow-sustainability'', ''savings-rate'', ''spending-consistency''],
          hxEvidence = (if evidence = []
            then [(note_item ''Unresolvable amounts'' ''Window transactions whose amounts need replay-time state or simulation context and are excluded from both totals.''
              None [])\<lparr>eiTransactionIDs := hgExcludedIDs coverage\<rparr>]
            else evidence),
          hxTargets = [(''lookbackDays'', lookback_of report)]\<rparr>)"

definition needs_improvement :: "FinancialHealthCheckResult \<Rightarrow> bool" where
  "needs_improvement check \<longleftrightarrow> hcStatus check = FinancialHealthAtRisk \<or> hcStatus check = FinancialHealthNotMeeting"

definition improve_action :: "string \<Rightarrow> FinancialHealthCheckResult \<Rightarrow> FinancialHealthProposedAction" where
  "improve_action checkID check =
     (let label = (case map_of finExplainCheckLabels checkID of None \<Rightarrow> checkID | Some l \<Rightarrow> l);
          targets = hcThreshold check;
          pairs = map (\<lambda>(key, v). key @ '' '' @ Sprintf_g v) (sort_by (\<lambda>a b. fst a < fst b) targets)
      in \<lparr>hxID = ''improve-'' @ checkID, hxTitle = ''Move '' @ label @ '' toward its guideline'',
          hxDetail = (if targets = [] then hcSummary check
            else hcSummary check @ '' The applied guideline is '' @ strings_Join pairs '', '' @
              ''; adjust it openly if the household'' @ [CHR 0x27] @ ''s situation differs.''),
          hxCheckIDs = [checkID], hxEvidence = hcEvidence check, hxTargets = targets\<rparr>)"

definition finExplainActions ::
  "FinancialModel \<Rightarrow> FinancialHealthReport \<Rightarrow> FinancialHealthExplanationOptions \<Rightarrow> FinancialHealthAccountSource list \<Rightarrow>
   FinancialHealthCoverage \<Rightarrow> FinancialHealthFreshness \<Rightarrow> FinancialHealthProposedAction list" where
  "finExplainActions model report options sources coverage freshness =
     (if hgMissingIncome coverage then [income_action report] else []) @
     (if hgUnknownLiabilityAccountIDs coverage = [] then []
      else [liability_action model report (hgUnknownLiabilityAccountIDs coverage)]) @
     (if hrStaleAccountIDs freshness = [] then [] else [stale_action model options sources]) @
     (if hrUnobservedAccountIDs freshness = [] then [] else [observe_action model options (hrUnobservedAccountIDs freshness)]) @
     (if 0 < hgExcludedTransactions coverage then [excluded_action report coverage] else []) @
     List.map_filter (\<lambda>checkID. case finExplainCheckByID report checkID of
          None \<Rightarrow> None
        | Some check \<Rightarrow> if needs_improvement check then Some (improve_action checkID check) else None)
       FinancialHealthCheckOrder"

section \<open>The explanation\<close>

definition finExplainInsufficient ::
  "FinancialHealthReport \<Rightarrow> FinancialHealthExplanationOptions \<Rightarrow> string \<Rightarrow> FinancialHealthExplanation" where
  "finExplainInsufficient report options summary =
     \<lparr>heAsOfDate = hpAsOfDate report, heCompleteness = FinancialHealthInsufficient, heSummary = summary,
      heSufficiency =
        \<lparr>hdCompleteness = FinancialHealthInsufficient, hdSources = [],
         hdFreshness = \<lparr>hrAsOfDate = hpAsOfDate report, hrStaleAfterDays = hoStaleAfterDays options,
           hrNewestObservationAgeDays = None, hrOldestObservationAgeDays = None, hrStaleAccountIDs = [], hrUnobservedAccountIDs = []\<rparr>,
         hdCoverage = \<lparr>hgWindowTransactions = 0, hgResolvedTransactions = 0, hgExcludedTransactions = 0, hgExcludedIDs = [],
           hgMissingIncome = False, hgMissingOutflow = False, hgUnknownLiabilityAccountIDs = [], hgFlowSources = Mapping.empty\<rparr>\<rparr>,
      heActions = [\<lparr>hxID = ''record-baseline'', hxTitle = ''Record balances and activity'',
        hxDetail = ''There is no usable saved state at the as-of cut. Add account balances and recorded income and spending before any assessment can be made.'',
        hxCheckIDs = [], hxEvidence = [], hxTargets = [(''lookbackDays'', lookback_of report)]\<rparr>]\<rparr>"

definition partial_reasons ::
  "FinancialHealthReport \<Rightarrow> FinancialHealthExplanationOptions \<Rightarrow> FinancialHealthFreshness \<Rightarrow> FinancialHealthCoverage \<Rightarrow> string list" where
  "partial_reasons report options freshness coverage =
     (let insufficientChecks = filter (\<lambda>c. hcStatus c = FinancialHealthInsufficientData) (hpChecks report)
      in (if insufficientChecks = [] then []
          else [decimal (int (length insufficientChecks)) @ '' of '' @ decimal (int (length (hpChecks report))) @
            '' checks have too little evidence to compute'']) @
         (if hrUnobservedAccountIDs freshness = [] then []
          else [decimal (int (length (hrUnobservedAccountIDs freshness))) @ '' account(s) have no balance observation at the cut'']) @
         (if hrStaleAccountIDs freshness = [] then []
          else [decimal (int (length (hrStaleAccountIDs freshness))) @ '' account(s) have observations older than the '' @
            decimal (hoStaleAfterDays options) @ ''-day recency guideline'']) @
         (if hgUnknownLiabilityAccountIDs coverage = [] then []
          else [''debt accounts lack payment terms, so required minimums are unknown'']) @
         (if hgMissingIncome coverage then [''no income is recorded in the window'']
          else if hgMissingOutflow coverage then [''no spending is recorded in the window''] else []) @
         (if 0 < hgExcludedTransactions coverage
          then [decimal (hgExcludedTransactions coverage) @ '' window transaction(s) could not be resolved and are excluded from totals'']
          else []))"

definition count_status :: "FinancialHealthReport \<Rightarrow> string \<Rightarrow> string" where
  "count_status report status = decimal (int (length (filter (\<lambda>c. hcStatus c = status) (hpChecks report))))"

definition explanation_summary :: "FinancialHealthReport \<Rightarrow> string \<Rightarrow> string list \<Rightarrow> string" where
  "explanation_summary report cutDay reasons =
     (if reasons \<noteq> []
      then ''Records are incomplete at the '' @ cutDay @ '' cut: '' @ strings_Join reasons ''; '' @
        ''. Treat every verdict below as limited by these gaps, not as a complete assessment.''
      else ''Records are complete at the '' @ cutDay @ '' cut. All '' @ decimal (int (length (hpChecks report))) @
        '' checks computed: '' @ count_status report FinancialHealthMeeting @ '' meeting, '' @
        count_status report FinancialHealthAtRisk @ '' at risk, '' @ count_status report FinancialHealthNotMeeting @ '' not meeting.'')"

definition explain_at ::
  "FinancialModel \<Rightarrow> CurrentPosition \<Rightarrow> FinancialHealthReport \<Rightarrow> FinancialHealthExplanationOptions \<Rightarrow> int \<Rightarrow> string \<Rightarrow>
   FinancialHealthExplanation" where
  "explain_at model position report options cutInstant cutDay =
     (let enabled = finExplainEnabledAccounts model;
          coverage = hpFlowCoverage report;
          terms = paymentTermsByAccount (fmPaymentTerms model);
          sources = map (account_source options cutInstant (finExplainLatestObservations model cutInstant)) enabled;
          freshness = \<lparr>hrAsOfDate = cutDay, hrStaleAfterDays = hoStaleAfterDays options,
            hrNewestObservationAgeDays = extreme_age (\<lambda>age best. age < best) sources,
            hrOldestObservationAgeDays = extreme_age (\<lambda>age best. best < age) sources,
            hrStaleAccountIDs = map haAccountID (filter haStale sources),
            hrUnobservedAccountIDs = map haAccountID (filter (\<lambda>s. haLastObservedAt s = None) sources)\<rparr>;
          coverageOut = \<lparr>hgWindowTransactions = hvWindowTransactions coverage, hgResolvedTransactions = hvResolvedTransactions coverage,
            hgExcludedTransactions = hvExcludedTransactions coverage, hgExcludedIDs = hvExcludedIDs coverage,
            hgMissingIncome = hvInflowTotal coverage \<le> 0, hgMissingOutflow = hvOutflowTotal coverage \<le> 0,
            hgUnknownLiabilityAccountIDs = map acID (filter (unknown_liability terms (position_balances position)) enabled),
            hgFlowSources = finExplainFlowSources model report\<rparr>;
          reasons = partial_reasons report options freshness coverageOut;
          completeness = (if reasons = [] then FinancialHealthComplete else FinancialHealthIncomplete)
      in \<lparr>heAsOfDate = cutDay, heCompleteness = completeness, heSummary = explanation_summary report cutDay reasons,
          heSufficiency = \<lparr>hdCompleteness = completeness, hdSources = sources, hdFreshness = freshness, hdCoverage = coverageOut\<rparr>,
          heActions = finExplainActions model report options sources coverageOut freshness\<rparr>)"

definition no_usable_state :: string where
  "no_usable_state = ''No usable saved state at the as-of cut, so no financial assessment is possible.''"

definition ExplainFinancialHealth ::
  "process \<Rightarrow> FinancialModel option \<Rightarrow> CurrentPosition option \<Rightarrow> FinancialHealthReport \<Rightarrow> FinancialHealthExplanationOptions \<Rightarrow>
   FinancialHealthExplanation option" where
  "ExplainFinancialHealth p model position report options =
     (let options = NormalizeFinancialHealthExplanationOptions options
      in case ParseAsOfCut p (hpAsOfDate report) of
           None \<Rightarrow> None
         | Some (Inl e) \<Rightarrow> Some (finExplainInsufficient report options no_usable_state)
         | Some (Inr (cutInstant, cutDay)) \<Rightarrow>
             Some (case (model, position) of
                (Some model, Some position) \<Rightarrow>
                  if finExplainEnabledAccounts model = [] \<and> hvResolvedTransactions (hpFlowCoverage report) = 0
                  then finExplainInsufficient report options no_usable_state
                  else explain_at model position report options cutInstant cutDay
              | _ \<Rightarrow> finExplainInsufficient report options no_usable_state))"

definition ComposeFinancialHealthDetail ::
  "process \<Rightarrow> (f64 \<Rightarrow> f64) \<Rightarrow> FinancialModel option \<Rightarrow> CurrentPosition option \<Rightarrow> FinancialHealthStandards \<Rightarrow>
   FinancialHealthExplanationOptions \<Rightarrow> FinancialHealthEvaluationDetail option" where
  "ComposeFinancialHealthDetail p math_sqrt model position standards options =
     do {
       report \<leftarrow> EvaluateFinancialHealth p math_sqrt model position standards;
       explanation \<leftarrow> ExplainFinancialHealth p model position report options;
       Some \<lparr>hlReport = report, hlExplanation = explanation\<rparr>
     }"

end
