(* ===== verification/Health_Properties.thy ===== *)
theory Health_Properties
  imports Explain History_Properties
begin

text \<open>
  What the financial-health checks promise: standards in order, one result per check, every flow of the
  window accounted for, and a claim of complete records only over complete records.
\<close>

section \<open>Standards\<close>

lemma clamp_standard_num: "\<exists>r. clamp_standard v = FNum r \<and> 0 \<le> r"
  by (cases v) (auto simp: clamp_standard_def finiteNonNegative_def zero_f64_def)

lemma ordered_band_num: "ordered_band (FNum a) (FNum b) = (FNum (min a b), FNum (max a b))"
  by (auto simp: ordered_band_def min_def max_def)

lemma clamp_standard_id: "0 \<le> r \<Longrightarrow> clamp_standard (FNum r) = FNum r"
  by (simp add: clamp_standard_def finiteNonNegative_def zero_f64_def)

text \<open>
  C34. Normalized standards.  The standards a report applies have a window of 7 to 1825 days, at least one
  liquid kind, and finite bands that are not negative and whose edges are in order, whatever was supplied; normalizing
  them again changes nothing.
\<close>

theorem standards_normalized:
  "let n = NormalizeFinancialHealthStandards s in
     NormalizeFinancialHealthStandards n = n \<and> 7 \<le> hsLookbackDays n \<and> hsLookbackDays n \<le> 1825 \<and> hsLiquidAccountKinds n \<noteq> [] \<and>
     0 \<le> hsEmergencyRiskMonths n \<and> hsEmergencyRiskMonths n \<le> hsEmergencyMeetMonths n \<and>
     0 \<le> hsCashFlowRiskRatio n \<and> hsCashFlowRiskRatio n \<le> FNum 1 \<and>
     0 \<le> hsDebtBurdenMeetRatio n \<and> hsDebtBurdenMeetRatio n \<le> hsDebtBurdenRiskRatio n \<and>
     0 \<le> hsCarriedBalanceTolerance n \<and> hsCarriedBalanceTolerance n \<le> hsCarriedBalanceRiskAmount n \<and>
     0 \<le> hsSavingsRateMeet n \<and>
     0 \<le> hsUtilizationMeetRatio n \<and> hsUtilizationMeetRatio n \<le> hsUtilizationRiskRatio n \<and>
     0 \<le> hsConsistencyMeetCV n \<and> hsConsistencyMeetCV n \<le> hsConsistencyRiskCV n \<and>
     list_all (\<lambda>v. \<not> isNonFinite v) [hsEmergencyMeetMonths n, hsEmergencyRiskMonths n, hsCashFlowRiskRatio n, hsDebtBurdenMeetRatio n,
        hsDebtBurdenRiskRatio n, hsCarriedBalanceTolerance n, hsCarriedBalanceRiskAmount n, hsSavingsRateMeet n,
        hsUtilizationMeetRatio n, hsUtilizationRiskRatio n, hsConsistencyMeetCV n, hsConsistencyRiskCV n]"
proof -
  have one: "f64_of_int 1 = FNum 1" by (simp add: f64_of_int_def f64_of_rat_numeral)
  obtain er where er: "clamp_standard (hsEmergencyRiskMonths s) = FNum er" "0 \<le> er" using clamp_standard_num by blast
  obtain em where em: "clamp_standard (hsEmergencyMeetMonths s) = FNum em" "0 \<le> em" using clamp_standard_num by blast
  obtain cr where cr: "clamp_standard (hsCashFlowRiskRatio s) = FNum cr" "0 \<le> cr" using clamp_standard_num by blast
  obtain dm where dm: "clamp_standard (hsDebtBurdenMeetRatio s) = FNum dm" "0 \<le> dm" using clamp_standard_num by blast
  obtain dr where dr: "clamp_standard (hsDebtBurdenRiskRatio s) = FNum dr" "0 \<le> dr" using clamp_standard_num by blast
  obtain ct where ct: "clamp_standard (hsCarriedBalanceTolerance s) = FNum ct" "0 \<le> ct" using clamp_standard_num by blast
  obtain ca where ca: "clamp_standard (hsCarriedBalanceRiskAmount s) = FNum ca" "0 \<le> ca" using clamp_standard_num by blast
  obtain sm where sm: "clamp_standard (hsSavingsRateMeet s) = FNum sm" "0 \<le> sm" using clamp_standard_num by blast
  obtain um where um: "clamp_standard (hsUtilizationMeetRatio s) = FNum um" "0 \<le> um" using clamp_standard_num by blast
  obtain ur where ur: "clamp_standard (hsUtilizationRiskRatio s) = FNum ur" "0 \<le> ur" using clamp_standard_num by blast
  obtain km where km: "clamp_standard (hsConsistencyMeetCV s) = FNum km" "0 \<le> km" using clamp_standard_num by blast
  obtain kr where kr: "clamp_standard (hsConsistencyRiskCV s) = FNum kr" "0 \<le> kr" using clamp_standard_num by blast
  note nums = er em cr dm dr ct ca sm um ur km kr
  have n: "NormalizeFinancialHealthStandards s =
      \<lparr>hsLookbackDays = min 1825 (max 7 (hsLookbackDays s)),
       hsLiquidAccountKinds = (if hsLiquidAccountKinds s = [] then [''cash''] else hsLiquidAccountKinds s),
       hsEmergencyMeetMonths = FNum (max er em), hsEmergencyRiskMonths = FNum (min er em),
       hsCashFlowRiskRatio = FNum (min 1 cr), hsDebtBurdenMeetRatio = FNum (min dm dr), hsDebtBurdenRiskRatio = FNum (max dm dr),
       hsCarriedBalanceTolerance = FNum (min ct ca), hsCarriedBalanceRiskAmount = FNum (max ct ca), hsSavingsRateMeet = FNum sm,
       hsUtilizationMeetRatio = FNum (min um ur), hsUtilizationRiskRatio = FNum (max um ur),
       hsConsistencyMeetCV = FNum (min km kr), hsConsistencyRiskCV = FNum (max km kr)\<rparr>"
    by (simp add: NormalizeFinancialHealthStandards_def nums ordered_band_num zero_f64_def one Let_def max_absorb2 min_def max_def)
  show ?thesis
    unfolding Let_def n using nums
    by (simp add: NormalizeFinancialHealthStandards_def clamp_standard_id ordered_band_num zero_f64_def one Let_def
        max_absorb2 min_def max_def isNonFinite_def)
qed

section \<open>Reports\<close>

text \<open>Every checked result is named after its check.\<close>

lemma check_ids [simp]:
  "hcCheckID (evaluateEmergencyCoverage inputs s w) = ''emergency-coverage''"
  "hcCheckID (evaluateCashFlowSustainability inputs s) = ''cash-flow-sustainability''"
  "hcCheckID (evaluateDebtBurden inputs s w) = ''debt-burden''"
  "hcCheckID (evaluateHighInterestDebt inputs s) = ''high-interest-debt''"
  "hcCheckID (evaluateSavingsRate inputs s) = ''savings-rate''"
  "hcCheckID (evaluateUtilization inputs s) = ''utilization''"
  by (simp_all add: evaluateEmergencyCoverage_def evaluateCashFlowSustainability_def evaluateDebtBurden_def
      evaluateHighInterestDebt_def evaluateSavingsRate_def evaluateUtilization_def insufficient_with_def
      finHealthInsufficient_def Let_def)

lemma consistency_id:
  "evaluateSpendingConsistency math_sqrt inputs s = Some c \<Longrightarrow> hcCheckID c = ''spending-consistency''"
  by (auto simp: evaluateSpendingConsistency_def insufficient_with_def finHealthInsufficient_def Let_def split: if_splits)

definition whole_value :: "FinancialHealthCheckResult \<Rightarrow> bool" where
  "whole_value c = (case hcValue c of None \<Rightarrow> True | Some v \<Rightarrow> math_Round v = v)"

lemma whole_value_simps [simp]:
  "whole_value (evaluateEmergencyCoverage inputs s w)" "whole_value (evaluateCashFlowSustainability inputs s)"
  "whole_value (evaluateDebtBurden inputs s w)" "whole_value (evaluateHighInterestDebt inputs s)"
  "whole_value (evaluateSavingsRate inputs s)" "whole_value (evaluateUtilization inputs s)"
  by (simp_all add: whole_value_def evaluateEmergencyCoverage_def evaluateCashFlowSustainability_def evaluateDebtBurden_def
      evaluateHighInterestDebt_def evaluateSavingsRate_def evaluateUtilization_def insufficient_with_def
      finHealthInsufficient_def finHealthFloatPtr_def roundAmount_def roundCurrency_def math_Round_idem Let_def)

lemma consistency_whole: "evaluateSpendingConsistency math_sqrt inputs s = Some c \<Longrightarrow> whole_value c"
  by (auto simp: whole_value_def evaluateSpendingConsistency_def insufficient_with_def finHealthInsufficient_def
      finHealthFloatPtr_def roundAmount_def roundCurrency_def math_Round_idem Let_def split: if_splits)

text \<open>What the walk over the transactions keeps: each flow of the window is resolved or excluded.\<close>

definition flows_account :: "string \<Rightarrow> string \<Rightarrow> Transaction list \<Rightarrow> finHealthInputs \<Rightarrow> bool" where
  "flows_account start day ts inputs \<longleftrightarrow>
     fhWindowStart inputs = start \<and> fhAsOfDay inputs = day \<and>
     fhConsidered inputs = int (length (filter (window_flow start day) ts)) \<and>
     fhConsidered inputs = fhResolved inputs + int (length (fhExcludedIDs inputs)) \<and>
     fhResolved inputs = int (length (fhInflows inputs) + length (fhOutflows inputs)) \<and>
     set (fhExcludedIDs inputs) \<subseteq> trID ` set (filter (window_flow start day) ts) \<and>
     fhInflowTotal inputs = foldl (+) 0 (map hfAmount (fhInflows inputs)) \<and>
     fhOutflowTotal inputs = foldl (+) 0 (map hfAmount (fhOutflows inputs))"

lemma collect_flow_account:
  assumes "collect_flow pow terms index t inputs = Some inputs'" "flows_account start day ts inputs"
  shows "flows_account start day (ts @ [t]) inputs'"
  using assms
  by (auto simp: collect_flow_def flows_account_def exclude_flow_def add_flow_def Let_def image_iff
      split: if_splits option.splits sum.splits)

lemma collect_flows_account:
  "collect_flows pow terms index us inputs = Some inputs' \<Longrightarrow> flows_account start day ts inputs \<Longrightarrow>
   flows_account start day (ts @ us) inputs'"
proof (induction us arbitrary: index ts inputs)
  case (Cons t us)
  then obtain mid where "collect_flow pow terms index t inputs = Some mid" "collect_flows pow terms (index + 1) us mid = Some inputs'"
    by (auto split: option.splits)
  then show ?case
    using Cons.IH [of _ _ "ts @ [t]"] collect_flow_account [OF _ Cons.prems(2)] by auto
qed simp

lemma collected_account:
  assumes "collectFinHealthFlows pow model balances start day = Some inputs"
  shows "flows_account start day (fmTransactions model) inputs" "sorted (fhExcludedIDs inputs)"
proof -
  define first where "first = \<lparr>fhModel = model, fhBalances = balances, fhInflows = [], fhOutflows = [], fhInflowTotal = 0,
    fhOutflowTotal = 0, fhExcludedIDs = [], fhConsidered = 0, fhResolved = 0, fhAsOfDay = day, fhWindowStart = start\<rparr>"
  obtain z where z: "collect_flows pow (paymentTermsByAccount (fmPaymentTerms model)) 0 (fmTransactions model) first = Some z"
      "inputs = z\<lparr>fhExcludedIDs := sort (fhExcludedIDs z)\<rparr>"
    using assms by (auto simp: collectFinHealthFlows_def first_def sort_by_less)
  have "flows_account start day [] first"
    by (simp add: flows_account_def first_def)
  from collect_flows_account [OF z(1) this] show "flows_account start day (fmTransactions model) inputs"
    by (simp add: flows_account_def z(2))
  show "sorted (fhExcludedIDs inputs)"
    by (simp add: z(2))
qed

lemma FormatIsoDate_not_empty [simp]: "FormatIsoDate t \<noteq> ''''"
  by (simp add: FormatIsoDate_def split: prod.split)

lemma add_days_not_empty: "add_days date n = Some d \<Longrightarrow> d \<noteq> ''''"
  by (auto simp: add_days_def shift_days_def)

lemma cut_day_not_empty: "ParseAsOfCut p asOf = Some (Inr (instant, day)) \<Longrightarrow> day \<noteq> ''''"
  by (auto simp: ParseAsOfCut_def IsValidIsoDate_iff iso_date_def split: if_splits option.splits)

text \<open>A tally of a list by a key counts every element once.\<close>

lemma tally_sum:
  "finite (Mapping.keys m) \<Longrightarrow>
   (let m' = foldl (\<lambda>m x. Mapping.update (f x) (Mapping.lookup_default 0 m (f x) + 1) m) m xs
    in finite (Mapping.keys m') \<and>
       sum (Mapping.lookup_default 0 m') (Mapping.keys m') =
       sum (Mapping.lookup_default 0 m) (Mapping.keys m) + (int (length xs) :: int))"
proof (induction xs arbitrary: m)
  case (Cons x xs)
  define m1 where "m1 = Mapping.update (f x) (Mapping.lookup_default 0 m (f x) + 1) m"
  have fin: "finite (Mapping.keys m1)"
    using Cons.prems by (simp add: m1_def)
  have "sum (Mapping.lookup_default 0 m1) (Mapping.keys m1) = sum (Mapping.lookup_default 0 m) (insert (f x) (Mapping.keys m)) + 1"
  proof -
    have "sum (Mapping.lookup_default 0 m1) (insert (f x) (Mapping.keys m)) =
        Mapping.lookup_default 0 m1 (f x) + sum (Mapping.lookup_default 0 m1) (Mapping.keys m - {f x})"
      using Cons.prems by (subst sum.insert_remove) auto
    also have "sum (Mapping.lookup_default 0 m1) (Mapping.keys m - {f x}) = sum (Mapping.lookup_default 0 m) (Mapping.keys m - {f x})"
      by (rule sum.cong) (auto simp: m1_def lookup_default_update')
    also have "Mapping.lookup_default 0 m1 (f x) = Mapping.lookup_default 0 m (f x) + 1"
      by (simp add: m1_def lookup_default_update)
    finally show ?thesis
      using Cons.prems by (simp add: m1_def sum.insert_remove)
  qed
  moreover have "sum (Mapping.lookup_default 0 m) (insert (f x) (Mapping.keys m)) = sum (Mapping.lookup_default 0 m) (Mapping.keys m)"
  proof (cases "f x \<in> Mapping.keys m")
    case False
    then have "Mapping.lookup_default 0 m (f x) = 0"
      by (simp add: Mapping.lookup_default_def keys_dom_lookup domIff)
    with False Cons.prems show ?thesis by simp
  qed (simp add: insert_absorb)
  ultimately show ?case
    using Cons.IH [OF fin] by (simp add: m1_def Let_def)
qed simp

lemma foldl_skip: "foldl (\<lambda>m x. if \<not> P x then m else g m x) m xs = foldl g m (filter P xs)"
  by (induction xs arbitrary: m) auto

lemma flow_sources_total:
  assumes "hpWindowStart r \<noteq> ''''" "hpWindowEnd r \<noteq> ''''"
  shows "sum (Mapping.lookup_default 0 (finExplainFlowSources model r)) (Mapping.keys (finExplainFlowSources model r)) =
    int (length (filter (window_flow (hpWindowStart r) (hpWindowEnd r)) (fmTransactions model)))"
proof -
  have "finExplainFlowSources model r =
      foldl (\<lambda>m x. Mapping.update (flow_author x) (Mapping.lookup_default 0 m (flow_author x) + 1) m) Mapping.empty
        (filter (window_flow (hpWindowStart r) (hpWindowEnd r)) (fmTransactions model))"
    using assms by (simp add: finExplainFlowSources_def foldl_skip)
  then show ?thesis
    using tally_sum [where m = Mapping.empty and f = flow_author
        and xs = "filter (window_flow (hpWindowStart r) (hpWindowEnd r)) (fmTransactions model)"]
    by (simp add: Let_def)
qed

lemma evaluated_report:
  assumes "EvaluateFinancialHealth p math_sqrt (Some model) (Some position) standards = Some r"
    "ParseAsOfCut p (cpAsOfDate position) = Some (Inr (instant, day))"
  obtains inputs consistency months where
    "add_days day (- hsLookbackDays (hpStandards r)) = Some (hpWindowStart r)"
    "collectFinHealthFlows (envPow (pcEnv p)) model (position_balances position) (hpWindowStart r) day = Some inputs"
    "evaluateSpendingConsistency math_sqrt inputs (hpStandards r) = Some consistency"
    "hpStandards r = NormalizeFinancialHealthStandards standards" "hpAsOfDate r = day" "hpWindowEnd r = day"
    "hpChecks r = [evaluateEmergencyCoverage inputs (hpStandards r) months, evaluateCashFlowSustainability inputs (hpStandards r),
       evaluateDebtBurden inputs (hpStandards r) months, evaluateHighInterestDebt inputs (hpStandards r),
       evaluateSavingsRate inputs (hpStandards r), evaluateUtilization inputs (hpStandards r), consistency]"
    "hpFlowCoverage r = flow_report_coverage inputs"
  using assms by (auto simp: EvaluateFinancialHealth_def Let_def bind_eq_Some_conv)

text \<open>
  C33. Health reports account for their window.  A report that is returned over a valid as-of date has one result per check, in
  the documented order.  Every settled external flow of the window is counted, as resolved or as excluded; the excluded ones
  are listed, in order, and the explanation's tally of the flows by their source adds up to the same count.  Every value a
  check reports is a whole number, ratios included.
\<close>

theorem health_report_accounts:
  assumes "EvaluateFinancialHealth p math_sqrt (Some model) (Some position) standards = Some r"
    and "ParseAsOfCut p (cpAsOfDate position) = Some (Inr (instant, day))"
  shows "map hcCheckID (hpChecks r) = FinancialHealthCheckOrder \<and>
    hpWindowEnd r = day \<and> add_days day (- hsLookbackDays (hpStandards r)) = Some (hpWindowStart r) \<and>
    (let coverage = hpFlowCoverage r;
         flows = filter (window_flow (hpWindowStart r) (hpWindowEnd r)) (fmTransactions model);
         sources = finExplainFlowSources model r
     in hvWindowTransactions coverage = int (length flows) \<and>
        hvWindowTransactions coverage = hvResolvedTransactions coverage + hvExcludedTransactions coverage \<and>
        hvExcludedTransactions coverage = int (length (hvExcludedIDs coverage)) \<and>
        sorted (hvExcludedIDs coverage) \<and> set (hvExcludedIDs coverage) \<subseteq> trID ` set flows \<and>
        sum (Mapping.lookup_default 0 sources) (Mapping.keys sources) = hvWindowTransactions coverage) \<and>
    (\<forall>c\<in>set (hpChecks r). \<forall>v. hcValue c = Some v \<longrightarrow> math_Round v = v)"
proof -
  obtain inputs consistency months where r:
    "add_days day (- hsLookbackDays (hpStandards r)) = Some (hpWindowStart r)"
    "collectFinHealthFlows (envPow (pcEnv p)) model (position_balances position) (hpWindowStart r) day = Some inputs"
    "evaluateSpendingConsistency math_sqrt inputs (hpStandards r) = Some consistency" "hpWindowEnd r = day"
    "hpChecks r = [evaluateEmergencyCoverage inputs (hpStandards r) months, evaluateCashFlowSustainability inputs (hpStandards r),
       evaluateDebtBurden inputs (hpStandards r) months, evaluateHighInterestDebt inputs (hpStandards r),
       evaluateSavingsRate inputs (hpStandards r), evaluateUtilization inputs (hpStandards r), consistency]"
    "hpFlowCoverage r = flow_report_coverage inputs"
    using assms by (rule evaluated_report)
  have whole: "\<forall>c\<in>set (hpChecks r). whole_value c"
    using consistency_whole [OF r(3)] by (simp add: r(5))
  have sources: "sum (Mapping.lookup_default 0 (finExplainFlowSources model r)) (Mapping.keys (finExplainFlowSources model r)) =
      int (length (filter (window_flow (hpWindowStart r) day) (fmTransactions model)))"
    using flow_sources_total [of r model] add_days_not_empty [OF r(1)] cut_day_not_empty [OF assms(2)] r(4) by simp
  have "map hcCheckID (hpChecks r) = FinancialHealthCheckOrder"
    using consistency_id [OF r(3)] by (simp add: r(5) FinancialHealthCheckOrder_def)
  moreover have "\<forall>c\<in>set (hpChecks r). \<forall>v. hcValue c = Some v \<longrightarrow> math_Round v = v"
    using whole by (auto simp: whole_value_def)
  ultimately show ?thesis
    using collected_account [OF r(2)] sources r(1)
    by (simp add: r(4,6) flow_report_coverage_def flows_account_def Let_def)
qed

text \<open>A credit card with a limit of 1000 and 375 drawn.\<close>

definition credit_model :: FinancialModel where
  "credit_model = empty_model\<lparr>fmAccounts := [card\<lparr>acMinBalance := Some (FNum (- 1000))\<rparr>]\<rparr>"

definition credit_position :: CurrentPosition where
  "credit_position = \<lparr>cpAsOfDate = ''2024-01-31'', cpNetWorth = FNum (- 375),
     cpAccounts = [\<lparr>paUnroundedBalance = FNum (- 375), paAccountID = ''card'', paBalance = FNum (- 375),
       paObservedBalance = None, paObservedAt = None, paAvailableBalance = None\<rparr>]\<rparr>"

lemma credit_dates:
  "add_days ''2024-01-31'' (- 90) = Some ''2023-11-02''"
  "finHealthWindowMonths ''2023-11-02'' ''2024-01-31'' = Some [''2023-11'', ''2023-12'', ''2024-01'']"
  by code_simp+

lemma credit_cut: "ParseAsOfCut sample_process ''2024-01-31'' = Some (Inr (1706745599, ''2024-01-31''))"
proof -
  have "IsValidIsoDate ''2024-01-31''" by code_simp
  then show ?thesis by (simp add: ParseAsOfCut_def seen_day)
qed

lemma credit_utilization:
  assumes "fhModel inputs = credit_model" "fhBalances inputs = position_balances credit_position"
  shows "hcStatus (evaluateUtilization inputs (NormalizeFinancialHealthStandards DefaultFinancialHealthStandards)) = FinancialHealthAtRisk"
    "hcValue (evaluateUtilization inputs (NormalizeFinancialHealthStandards DefaultFinancialHealthStandards)) = Some 0"
proof -
  have low: "f64_of_rat (3 / 10) \<le> FNum (5 / 16)"
    using f64_of_rat_mono [of "3 / 10" "5 / 16"] f64_of_rat_dyadic [of "5 / 16"] by simp
  obtain a where a: "f64_of_rat (3 / 10) = FNum a" "0 \<le> a" "a \<le> 5 / 16"
    using low f64_of_rat_nonneg [of "3 / 10"] by (cases "f64_of_rat (3 / 10)") (auto simp: zero_f64_def)
  have half: "f64_of_rat (1 / 2) = FNum (1 / 2)"
    using f64_of_rat_dyadic [of "1 / 2"] by simp
  have ratio: "f64_of_rat (3 / 8) = FNum (3 / 8)"
    using f64_of_rat_dyadic [of "3 / 8"] by simp
  have card: "utilization_of inputs (card\<lparr>acMinBalance := Some (FNum (- 1000))\<rparr>) =
      Some (FNum 375, FNum 1000, ''Drawn credit against the floor-implied limit.'')"
    by (simp add: utilization_of_def assms credit_position_def position_balances_def card_def MinBalanceValue_def
        NoFloor_def f64_of_rat_numeral feq_def zero_f64_def lookup_default_update Let_def)
  have bands: "hsUtilizationMeetRatio (NormalizeFinancialHealthStandards DefaultFinancialHealthStandards) = FNum a"
    "hsUtilizationRiskRatio (NormalizeFinancialHealthStandards DefaultFinancialHealthStandards) = FNum (1 / 2)"
    using a half by (simp_all add: NormalizeFinancialHealthStandards_def DefaultFinancialHealthStandards_def Let_def
        clamp_standard_id ordered_band_num split: prod.split)
  have floor: "\<lfloor>7 / 8 :: rat\<rfloor> = 0"
    by (rule floor_unique) simp_all
  have "fdiv (0 + FNum 375) (0 + FNum 1000) = FNum (3 / 8)"
    by (simp add: zero_f64_def f64_of_rat_numeral ratio)
  then show "hcStatus (evaluateUtilization inputs (NormalizeFinancialHealthStandards DefaultFinancialHealthStandards)) = FinancialHealthAtRisk"
    "hcValue (evaluateUtilization inputs (NormalizeFinancialHealthStandards DefaultFinancialHealthStandards)) = Some 0"
    using a by (simp_all add: evaluateUtilization_def assms credit_model_def card bands finHealthBand_def finHealthFloatPtr_def
        roundAmount_def roundCurrency_def round_half_away_def zero_f64_def f64_of_rat_numeral FinancialHealthAtRisk_def
        List.map_filter_simps floor Let_def)
qed

text \<open>At risk at 37 percent, and reported with the value 0.\<close>

lemma health_report_accounts_witness:
  "\<exists>r c. EvaluateFinancialHealth sample_process (\<lambda>x. x) (Some credit_model) (Some credit_position) DefaultFinancialHealthStandards = Some r \<and>
    map hcCheckID (hpChecks r) = FinancialHealthCheckOrder \<and>
    c \<in> set (hpChecks r) \<and> hcCheckID c = ''utilization'' \<and> hcStatus c = FinancialHealthAtRisk \<and> hcValue c = Some 0"
proof -
  have days: "hsLookbackDays (NormalizeFinancialHealthStandards DefaultFinancialHealthStandards) = 90"
    by (simp add: NormalizeFinancialHealthStandards_def DefaultFinancialHealthStandards_def Let_def split: prod.split)
  define inputs where "inputs = \<lparr>fhModel = credit_model, fhBalances = position_balances credit_position, fhInflows = [],
    fhOutflows = [], fhInflowTotal = 0, fhOutflowTotal = 0, fhExcludedIDs = [], fhConsidered = 0, fhResolved = 0,
    fhAsOfDay = ''2024-01-31'', fhWindowStart = ''2023-11-02''\<rparr>"
  have collected: "collectFinHealthFlows (envPow (pcEnv sample_process)) credit_model (position_balances credit_position)
      ''2023-11-02'' ''2024-01-31'' = Some inputs"
    by (simp add: collectFinHealthFlows_def credit_model_def empty_model_def inputs_def sort_by_less)
  have "cpAsOfDate credit_position = ''2024-01-31''" by (simp add: credit_position_def)
  then obtain r where r: "EvaluateFinancialHealth sample_process (\<lambda>x. x) (Some credit_model) (Some credit_position)
      DefaultFinancialHealthStandards = Some r"
      "evaluateUtilization inputs (NormalizeFinancialHealthStandards DefaultFinancialHealthStandards) \<in> set (hpChecks r)"
    using collected credit_dates
    by (auto simp: EvaluateFinancialHealth_def credit_cut days inputs_def evaluateSpendingConsistency_def Let_def)
  moreover have "map hcCheckID (hpChecks r) = FinancialHealthCheckOrder"
    using health_report_accounts [OF r(1)] credit_cut \<open>cpAsOfDate credit_position = ''2024-01-31''\<close> by simp
  ultimately show ?thesis
    using credit_utilization [of inputs] by (auto simp: inputs_def)
qed

section \<open>Explanations\<close>

text \<open>The observation an account is graded by: the newest of those the cut can see.\<close>

definition seen_observation :: "int \<Rightarrow> string \<Rightarrow> Checkpoint \<Rightarrow> bool" where
  "seen_observation instant i c \<longleftrightarrow> ckAccountID c = i \<and> 0 < ckObservedAt c \<and> ckObservedAt c \<le> instant"

definition latest_in :: "int \<Rightarrow> string \<Rightarrow> Checkpoint list \<Rightarrow> Checkpoint option \<Rightarrow> bool" where
  "latest_in instant i cs latest =
     (case latest of
        None \<Rightarrow> \<forall>c\<in>set cs. \<not> seen_observation instant i c
      | Some n \<Rightarrow> n \<in> set cs \<and> seen_observation instant i n \<and>
          (\<forall>c\<in>set cs. seen_observation instant i c \<longrightarrow> ckObservedAt c \<le> ckObservedAt n))"

lemma latest_observation:
  "latest_in instant i (fmCheckpoints model) (Mapping.lookup (finExplainLatestObservations model instant) i)"
proof -
  have "latest_in instant i cs (Mapping.lookup
      (foldl (\<lambda>latest c.
         if ckObservedAt c \<le> 0 \<or> instant < ckObservedAt c then latest
         else case Mapping.lookup latest (ckAccountID c) of
                None \<Rightarrow> Mapping.update (ckAccountID c) c latest
              | Some current \<Rightarrow> if ckObservedAt current < ckObservedAt c then Mapping.update (ckAccountID c) c latest else latest)
       Mapping.empty cs) i)" for cs
    by (induction cs rule: rev_induct)
      (auto simp: latest_in_def seen_observation_def lookup_update' not_le split: option.splits)
  then show ?thesis
    by (simp add: finExplainLatestObservations_def)
qed

lemma f64_le_not_less: "x \<le> y \<Longrightarrow> \<not> y < (x :: f64)"
  by (cases x; cases y) auto

text \<open>The recency test is exact in whole seconds.\<close>

lemma age_past:
  assumes "0 \<le> n" "n \<le> 2 ^ 53" "1 \<le> d" "d \<le> 2 ^ 20"
  shows "f64_of_int d < fdiv (f64_of_int n) (f64_of_int 86400) \<longleftrightarrow> 86400 * d < n"
proof -
  have n: "f64_of_int n = FNum (of_int n)" and d: "f64_of_rat (of_int d) = FNum (of_int d)"
    using f64_of_rat_of_int [of n] f64_of_rat_of_int [of d] assms by (simp_all add: f64_of_int_def)
  have q: "fdiv (f64_of_int n) (f64_of_int 86400) = f64_of_rat (of_int n / 86400)"
    by (simp add: n) (simp add: f64_of_int_def f64_of_rat_numeral)
  show ?thesis
  proof
    assume less: "f64_of_int d < fdiv (f64_of_int n) (f64_of_int 86400)"
    show "86400 * d < n"
    proof (rule ccontr)
      assume "\<not> 86400 * d < n"
      then have "of_int n / 86400 \<le> (of_int d :: rat)"
        by (simp add: field_simps)
      then have "f64_of_rat (of_int n / 86400) \<le> f64_of_int d"
        using f64_of_rat_mono d by (metis f64_of_int_def)
      with less show False
        unfolding q by (simp add: f64_le_not_less)
    qed
  next
    assume "86400 * d < n"
    then have "of_int (86400 * d + 1) \<le> (of_int n :: rat)"
      by (simp only: of_int_le_iff)
    then have "of_int d + 1 / 131072 \<le> (of_int n / 86400 :: rat)"
      by (simp add: field_simps)
    from f64_of_rat_mono [OF this] have le: "f64_of_rat (of_int d + 1 / 131072) \<le> fdiv (f64_of_int n) (f64_of_int 86400)"
      by (simp add: q)
    have fl: "\<lfloor>(of_int d + 1 / 131072 :: rat) * 1048576\<rfloor> = 1048576 * d + 8"
      by (rule floor_unique) (simp_all add: field_simps)
    have "f64_of_rat (of_int d + 1 / 131072) = FNum (of_int d + 1 / 131072)"
      by (rule f64_of_rat_dyadic) (use assms fl in \<open>simp_all add: field_simps\<close>)
    with le show "f64_of_int d < fdiv (f64_of_int n) (f64_of_int 86400)"
      by (cases "fdiv (f64_of_int n) (f64_of_int 86400)") (auto simp: f64_of_int_def d)
  qed
qed

lemma unseen_source: "haLastObservedAt (account_source options instant latest a) = None \<longleftrightarrow> Mapping.lookup latest (acID a) = None"
  by (auto simp: account_source_def Let_def split: option.splits)

lemma account_source_id: "haAccountID (account_source options instant latest a) = acID a"
  by (simp add: account_source_def Let_def split: option.split)

text \<open>An account is seen and fresh when one of the observations the cut can see is recent enough.\<close>

lemma fresh_source:
  assumes "instant \<le> 2 ^ 53" "1 \<le> hoStaleAfterDays options" "hoStaleAfterDays options \<le> 2 ^ 20"
  shows "(haLastObservedAt (account_source options instant (finExplainLatestObservations model instant) a) \<noteq> None \<and>
      \<not> haStale (account_source options instant (finExplainLatestObservations model instant) a)) \<longleftrightarrow>
    (\<exists>c\<in>set (fmCheckpoints model). seen_observation instant (acID a) c \<and>
       instant - ckObservedAt c \<le> 86400 * hoStaleAfterDays options)"
proof (cases "Mapping.lookup (finExplainLatestObservations model instant) (acID a)")
  case None
  with latest_observation [of instant "acID a" model] show ?thesis
    by (auto simp: latest_in_def unseen_source)
next
  case (Some n)
  have n: "n \<in> set (fmCheckpoints model)" "seen_observation instant (acID a) n"
    "\<And>c. c \<in> set (fmCheckpoints model) \<Longrightarrow> seen_observation instant (acID a) c \<Longrightarrow> ckObservedAt c \<le> ckObservedAt n"
    using latest_observation [of instant "acID a" model] by (auto simp: latest_in_def Some)
  then have range: "0 \<le> instant - ckObservedAt n" "instant - ckObservedAt n \<le> 2 ^ 53"
    using assms(1) by (simp_all add: seen_observation_def)
  have "\<not> fdiv (f64_of_int (instant - ckObservedAt n)) (f64_of_int 86400) < 0"
    using f64_of_rat_of_int [of "instant - ckObservedAt n"] range
    by (simp add: f64_of_int_def f64_of_rat_numeral f64_of_rat_nonneg f64_le_not_less)
  then have "haStale (account_source options instant (finExplainLatestObservations model instant) a) \<longleftrightarrow>
      86400 * hoStaleAfterDays options < instant - ckObservedAt n"
    using age_past [OF range assms(2,3)] by (simp add: account_source_def Some Let_def)
  then show ?thesis
    using n by (force simp: unseen_source Some not_less)
qed

lemma stale_after_positive: "1 \<le> hoStaleAfterDays (NormalizeFinancialHealthExplanationOptions options)"
  by (simp add: NormalizeFinancialHealthExplanationOptions_def DefaultFinancialHealthExplanationOptions_def)

text \<open>No gap is named exactly when nothing is missing.\<close>

lemma no_partial_reasons:
  "partial_reasons report options freshness coverage = [] \<longleftrightarrow>
     (\<forall>c\<in>set (hpChecks report). hcStatus c \<noteq> FinancialHealthInsufficientData) \<and>
     hrUnobservedAccountIDs freshness = [] \<and> hrStaleAccountIDs freshness = [] \<and> hgUnknownLiabilityAccountIDs coverage = [] \<and>
     \<not> hgMissingIncome coverage \<and> \<not> hgMissingOutflow coverage \<and> \<not> 0 < hgExcludedTransactions coverage"
  by (auto simp: partial_reasons_def Let_def filter_empty_conv)

definition improvements :: "FinancialHealthReport \<Rightarrow> FinancialHealthProposedAction list" where
  "improvements report =
     List.map_filter (\<lambda>checkID. case finExplainCheckByID report checkID of
          None \<Rightarrow> None
        | Some check \<Rightarrow> if needs_improvement check then Some (improve_action checkID check) else None)
       FinancialHealthCheckOrder"

text \<open>What complete records are, in terms of the saved state.\<close>

definition records_complete ::
  "FinancialModel \<Rightarrow> CurrentPosition \<Rightarrow> FinancialHealthReport \<Rightarrow> FinancialHealthExplanationOptions \<Rightarrow> int \<Rightarrow> bool" where
  "records_complete model position report options instant \<longleftrightarrow>
     (\<forall>c\<in>set (hpChecks report). hcStatus c \<noteq> FinancialHealthInsufficientData) \<and>
     (\<forall>a\<in>set (fmAccounts model). acEnabled a \<longrightarrow>
        (\<exists>c\<in>set (fmCheckpoints model). seen_observation instant (acID a) c \<and>
           instant - ckObservedAt c \<le> 86400 * hoStaleAfterDays (NormalizeFinancialHealthExplanationOptions options)) \<and>
        \<not> unknown_liability (paymentTermsByAccount (fmPaymentTerms model)) (position_balances position) a) \<and>
     \<not> hvInflowTotal (hpFlowCoverage report) \<le> 0 \<and> \<not> hvOutflowTotal (hpFlowCoverage report) \<le> 0 \<and>
     hvExcludedTransactions (hpFlowCoverage report) \<le> 0"

lemma explain_at_complete:
  assumes "instant \<le> 2 ^ 53" "1 \<le> hoStaleAfterDays options" "hoStaleAfterDays options \<le> 2 ^ 20"
    and normal: "NormalizeFinancialHealthExplanationOptions options = options"
  shows "heCompleteness (explain_at model position report options instant day) =
    (if records_complete model position report options instant then FinancialHealthComplete else FinancialHealthIncomplete)"
proof -
  let ?s = "account_source options instant (finExplainLatestObservations model instant)"
  have "(\<forall>a\<in>set (fmAccounts model). acEnabled a \<longrightarrow> haLastObservedAt (?s a) \<noteq> None) \<and>
      (\<forall>a\<in>set (fmAccounts model). acEnabled a \<longrightarrow> \<not> haStale (?s a)) \<longleftrightarrow>
      (\<forall>a\<in>set (fmAccounts model). acEnabled a \<longrightarrow> (\<exists>c\<in>set (fmCheckpoints model). seen_observation instant (acID a) c \<and>
         instant - ckObservedAt c \<le> 86400 * hoStaleAfterDays options))"
    using fresh_source [OF assms(1-3)] by blast
  then show ?thesis
    by (auto simp: explain_at_def Let_def no_partial_reasons records_complete_def normal finExplainEnabledAccounts_def
        filter_empty_conv)
qed

lemma complete_actions:
  assumes "heCompleteness (explain_at model position report options instant day) = FinancialHealthComplete"
  shows "heActions (explain_at model position report options instant day) = improvements report"
  using assms
  by (auto simp: explain_at_def Let_def no_partial_reasons finExplainActions_def improvements_def
      FinancialHealthComplete_def FinancialHealthIncomplete_def split: if_splits)

text \<open>
  C32. When records are called complete.  Over a valid as-of date an explanation calls the records complete exactly when
  there is something to assess, every check computed, every enabled account has an observation the cut can see that is
  within the recency guideline, no carried debt lacks payment terms, income and spending are recorded and nothing was
  excluded.  Then the only actions proposed are those that move a failing check toward its guideline.
\<close>

theorem explain_complete:
  assumes "ParseAsOfCut p (hpAsOfDate report) = Some (Inr (instant, day))" "instant \<le> 2 ^ 53"
    and "hoStaleAfterDays options \<le> 2 ^ 20"
    and "ExplainFinancialHealth p (Some model) (Some position) report options = Some e"
  shows "(heCompleteness e = FinancialHealthComplete \<longleftrightarrow>
      ((\<exists>a\<in>set (fmAccounts model). acEnabled a) \<or> hvResolvedTransactions (hpFlowCoverage report) \<noteq> 0) \<and>
      records_complete model position report options instant) \<and>
    (heCompleteness e = FinancialHealthComplete \<longrightarrow> heActions e = improvements report)"
proof -
  let ?n = "NormalizeFinancialHealthExplanationOptions options"
  have e: "e = (if finExplainEnabledAccounts model = [] \<and> hvResolvedTransactions (hpFlowCoverage report) = 0
      then finExplainInsufficient report ?n no_usable_state else explain_at model position report ?n instant day)"
    using assms(4) by (simp add: ExplainFinancialHealth_def assms(1) Let_def)
  have same: "NormalizeFinancialHealthExplanationOptions ?n = ?n" "hoStaleAfterDays ?n \<le> 2 ^ 20"
    using assms(3) by (simp_all add: NormalizeFinancialHealthExplanationOptions_def DefaultFinancialHealthExplanationOptions_def)
  have "records_complete model position report ?n instant = records_complete model position report options instant"
    by (simp add: records_complete_def same(1))
  then have c: "heCompleteness (explain_at model position report ?n instant day) =
      (if records_complete model position report options instant then FinancialHealthComplete else FinancialHealthIncomplete)"
    using explain_at_complete [OF assms(2) stale_after_positive same(2,1)] by simp
  show ?thesis
  proof (cases "finExplainEnabledAccounts model = [] \<and> hvResolvedTransactions (hpFlowCoverage report) = 0")
    case True
    then show ?thesis
      by (auto simp: e finExplainEnabledAccounts_def filter_empty_conv finExplainInsufficient_def
          FinancialHealthInsufficient_def FinancialHealthComplete_def)
  next
    case False
    then show ?thesis
      using complete_actions [of model position report ?n instant day] c
      by (auto simp: e finExplainEnabledAccounts_def filter_empty_conv FinancialHealthIncomplete_def
          FinancialHealthComplete_def)
  qed
qed

text \<open>One observed account, recorded flows, one check at risk.\<close>

definition observed_model :: FinancialModel where
  "observed_model = empty_model\<lparr>fmAccounts := [wallet],
     fmCheckpoints := [\<lparr>ckAccountID = ''checking'', ckBalance = FNum 500, ckAvailableBalance = None, ckSource = '''',
       ckObservedAt = 1706745599\<rparr>]\<rparr>"

definition risky_check :: FinancialHealthCheckResult where
  "risky_check = (finHealthInsufficient ''utilization'' ''Drawn.'')\<lparr>hcStatus := FinancialHealthAtRisk\<rparr>"

definition risky_report :: FinancialHealthReport where
  "risky_report = \<lparr>hpAsOfDate = ''2024-01-31'', hpWindowStart = ''2023-11-02'', hpWindowEnd = ''2024-01-31'',
     hpStandards = DefaultFinancialHealthStandards, hpChecks = [risky_check],
     hpFlowCoverage = no_coverage\<lparr>hvInflowTotal := FNum 900, hvOutflowTotal := FNum 400\<rparr>\<rparr>"

lemma explain_complete_witness:
  "\<exists>e. ExplainFinancialHealth sample_process (Some observed_model) (Some credit_position) risky_report
      DefaultFinancialHealthExplanationOptions = Some e \<and>
    heCompleteness e = FinancialHealthComplete \<and> heActions e = [improve_action ''utilization'' risky_check]"
proof -
  have valid: "ParseAsOfCut sample_process (hpAsOfDate risky_report) = Some (Inr (1706745599, ''2024-01-31''))"
    using credit_cut by (simp add: risky_report_def)
  obtain e where e: "ExplainFinancialHealth sample_process (Some observed_model) (Some credit_position) risky_report
      DefaultFinancialHealthExplanationOptions = Some e"
    by (simp add: ExplainFinancialHealth_def valid Let_def)
  have enabled: "\<exists>a\<in>set (fmAccounts observed_model). acEnabled a"
    by (simp add: observed_model_def wallet_def)
  have complete: "records_complete observed_model credit_position risky_report DefaultFinancialHealthExplanationOptions 1706745599"
    by (simp add: records_complete_def observed_model_def empty_model_def wallet_def seen_observation_def unknown_liability_def
        risky_report_def risky_check_def no_coverage_def FinancialHealthAtRisk_def FinancialHealthInsufficientData_def
        NormalizeFinancialHealthExplanationOptions_def DefaultFinancialHealthExplanationOptions_def zero_f64_def)
  have "improvements risky_report = [improve_action ''utilization'' risky_check]"
    by (simp add: improvements_def FinancialHealthCheckOrder_def finExplainCheckByID_def risky_report_def risky_check_def
        finHealthInsufficient_def needs_improvement_def List.map_filter_simps)
  with explain_complete [OF valid _ _ e] enabled complete e show ?thesis
    by (simp add: DefaultFinancialHealthExplanationOptions_def)
qed

end
