(* ===== verification/Spec2Isabelle.thy ===== *)
theory Spec2Isabelle
  imports Date_Properties Occurrence_Laws Money_Moves Arithmetic_Laws Decimal Simulation_Properties
    Cut_Properties Purchase_Properties Split_Properties Loan_Properties Run_Safety
    Stochastic_Properties FI_Properties Flow_Properties Health_Properties
begin

text \<open>
  A verification development for the financial kernel of the net worth estimator.

  \<^bold>\<open>The program.\<close>  The back end keeps a household's accounts, balance checkpoints, one-off transactions,
  recurring schedules, payment terms and planned purchases, answers what the balances are now, projects
  them day by day into the future, and evaluates the projection: does the net worth reach a target, is a bill
  always paid, when can the household stop working.  The kernel is \<open>backend/internal/domain\<close> over the types of
  \<open>backend/internal/types\<close>; it is pure Go, and everything else calls it: the HTTP layer decodes a request into
  these types, the SQLite store supplies the rows, the front end draws the results.

  A request runs through the kernel in this order.  The validator judges the model.  Preparation cuts history at an
  instant and replays it: executed transactions move money, checkpoints anchor the balances to what was observed.
  The projection kernel then attempts every occurrence after the cut, day by day; one occurrence is resolved to an
  amount (a constant, an expression, a tax bracket, an interest period, sampled noise), limited by its cap, and
  moved between accounts within their floors and ceilings.  Planned purchases are scheduled by simulating the whole
  horizon again for each candidate date.  The run becomes a path of rows and assessed events; evaluations read the
  path, or simulate on top of it; a Monte Carlo session repeats the projection over random samples on a pool of
  goroutines and accumulates bands and probabilities.

  \<^bold>\<open>Theories, in the order of their dependence.\<close>
  \<^item> \<open>Prelude\<close>, \<open>Go_Loops\<close>, \<open>Go_Strings\<close>: result types (a panic or an endless loop is \<open>None\<close>, an error
    \<open>Some (Inl e)\<close>), \<open>and_then\<close>, Go's string order, stable sorting against a comparison (locale \<open>less_order\<close>), the
    loops over slices that many functions share, the parts of the \<open>strings\<close> package in use.
  \<^item> \<open>Float64\<close>, \<open>Float_Error\<close>, \<open>Decimal\<close>: binary64 with its rounding, infinities and NaN, executable on
    rationals; error bounds of sums; shortest decimal printing.  There is one zero: the code cannot tell its sign.
  \<^item> \<open>Calendar\<close>, \<open>Dates\<close>, \<open>Date_Laws\<close>, \<open>Date_Properties\<close>: Go's civil calendar and \<open>dates.go\<close>.
  \<^item> \<open>Model\<close>: the records of \<open>types/model.go\<close>, \<open>purchase.go\<close>, \<open>simulation.go\<close>; Go maps are \<open>mapping\<close>s.
  \<^item> \<open>Recurrence\<close>, \<open>Recurrence_Laws\<close>, \<open>Occurrence_Laws\<close>: \<open>recurrence.go\<close>, \<open>chrono.go\<close>.  Locale
    \<open>schedule_steps\<close> is the contract between date arithmetic and the expansion of a schedule.
  \<^item> \<open>Accounts\<close>, \<open>Account_Laws\<close>, \<open>Money_Moves\<close>: \<open>accounts.go\<close>.  Locale \<open>money_move\<close> is what a movement of
    money promises; it is interpreted on transfers, losses and executions.
  \<^item> \<open>Arithmetic\<close>, \<open>Arithmetic_Laws\<close>: the expression language of \<open>arithmetic.go\<close> and its bounded cache.
  \<^item> \<open>Amounts\<close>, \<open>Transitions\<close>, \<open>Execution_Laws\<close>: \<open>amounts.go\<close>, \<open>progressive_bracket.go\<close>, \<open>transactions.go\<close>,
    \<open>transitions.go\<close>, \<open>execution.go\<close>.
  \<^item> \<open>Simulate\<close>, \<open>Simulation_Laws\<close>, \<open>Simulation_Properties\<close>: the projection kernel \<open>simulate.go\<close>.  Locale
    \<open>run_invariant\<close> turns a property one occurrence keeps into one of whole runs.
  \<^item> \<open>Issues\<close>, \<open>History\<close>, \<open>History_Laws\<close>, \<open>History_Properties\<close>, \<open>Cut_Properties\<close>: \<open>prepare.go\<close>: replay,
    anchoring, the cut (locale \<open>replay_invariant\<close>).
  \<^item> \<open>Path\<close>, \<open>Funding\<close>, \<open>Report\<close>, \<open>Purchases\<close> and their properties: \<open>path.go\<close>, \<open>evaluation_constraints.go\<close>,
    \<open>funding.go\<close>, \<open>purchases.go\<close>.
  \<^item> \<open>Split\<close>, \<open>Loans\<close> and their properties: \<open>split.go\<close>, \<open>store/settlement.go\<close> on 64-bit words;
    \<open>account_display.go\<close>, \<open>loan_rule_terms.go\<close>.
  \<^item> \<open>Evaluation_Config\<close>, \<open>Validation\<close> and their properties, \<open>Run_Safety\<close>: \<open>evaluation_config.go\<close>,
    \<open>validation.go\<close>, \<open>purchase_validation.go\<close>, \<open>payment_terms.go\<close>; what acceptance is worth to a run.
  \<^item> \<open>Evaluation_Runtime\<close>, \<open>Evaluations\<close> and their properties: \<open>evaluation_runtime.go\<close> and the registered
    definitions of threshold, balance, purchase, fulfillment, cycle and what-if evaluations.
  \<^item> \<open>FI_Rows\<close>, \<open>FI_Branch\<close>, \<open>FI\<close>, \<open>FI_Laws\<close>, \<open>FI_Properties\<close>: financial independence,
    \<open>evaluation_fi.go\<close>, \<open>evaluation_fi_result.go\<close>, \<open>evaluation_fi_bounds.go\<close>, \<open>behavior.go\<close>.
  \<^item> \<open>Sampling\<close>, \<open>Stochastic\<close>, \<open>Worker_Pool\<close>, \<open>Session_Laws\<close>, \<open>Stochastic_Properties\<close>: \<open>sampler.go\<close>,
    \<open>stochastic_session.go\<close>, \<open>stochastic.go\<close>.  Goroutines and channels are the step relation \<open>pool_step\<close>.
  \<^item> \<open>Flow_Graph\<close>, \<open>Flow_Properties\<close>: \<open>flowgraph.go\<close>.  The map of edges is read in an order that is a parameter.
  \<^item> \<open>Health\<close>, \<open>Explain\<close>, \<open>Health_Properties\<close>: \<open>finhealth.go\<close>, \<open>finexplain.go\<close>.

  \<^bold>\<open>What is shown.\<close>  Money: no movement takes an account past its floor or ceiling, none creates or loses money
  beyond rounding, and this holds along whole runs, as does the annual cap.  Time: schedules expand to exactly their
  dates, history and simulation split the occurrences at the cut without overlap or gap, replay does not depend on
  the order of a map.  Refusal: the parser accepts exactly its grammar, the validator exactly the well-formed models,
  and an accepted model never makes a run panic or loop.  Planning: the scheduled purchases are affordable and in
  priority order; the analysis of financial independence agrees between its levels of detail.  Reporting: a flow graph reconciles
  with the events it was drawn from, a health report accounts for every flow of its window, and records are called
  complete only when nothing is missing.  Concurrency: whatever
  the interleaving of the workers, a session that returns holds what running the trials in order gives, and the pool
  always ends.

  \<^bold>\<open>Fuel and bounds.\<close>  Loops whose end is not structural are \<open>function\<close>s with a measure, or
  \<open>partial_function (option)\<close> with a theorem that they return (expansion of schedules, candidate months).  The
  recursive-descent parser has \<open>7 * length ts + 7\<close> units of fuel, seven calls per token at most; the cycle search has
  one unit per transaction and one more, as its stack holds no transaction twice.  Both are proved enough.  Numbers
  that matter for wrap-around are \<open>64 word\<close> (splits and settlements); dates are limited to years 0 to 9999 as in the
  code's strings.

  \<^bold>\<open>Parameters.\<close>  What is not in the repository is an argument: \<open>math.Pow\<close>, \<open>math.Log\<close>, \<open>math.Sqrt\<close>,
  \<open>math.Cos\<close>, the random source, \<open>time.Parse\<close> for local instants, the order in which \<open>range\<close> visits a map, the
  rows that \<open>encoding/json\<close> and \<open>mapstructure\<close> decode, the counters of the reader guard and the cancellation of
  a context.

  \<^bold>\<open>Not modelled.\<close>  The HTTP layer, the SQLite store and its schema, identity and authorization, bank and mail
  synchronization, receipts, sharing, the command line tools and the front end: their work is I/O, SQL text and glue
  around the kernel, whose effect lies in code that is not here (the database, OAuth and SimpleFIN servers).
\<close>

end
